(* ===== verification/AV_Prelude.thy ===== *)
theory AV_Prelude
  imports Main "HOL-Library.Word"
begin

text \<open>
  Shared vocabulary of the development.

  \<^item> machine integers: \<open>u8\<close>, \<open>u16\<close>, \<open>u32\<close>, \<open>u64\<close> for the C++ fixed-width types;
  \<^item> \<open>omap\<close>: the iteration-ordered \<open>std::map\<close> as a key-sorted association list, with the
    operations the sources use (\<open>find\<close>, \<open>insert_or_assign\<close>, \<open>erase\<close>, in-place mutation through an
    iterator, a loop over every entry);
  \<^item> the locale \<open>ordered_store\<close>, the contract of such a map, and inside it the undo-log theorem: putting
    the before-images of every touched key back restores the map;
  \<^item> the locale \<open>name_table\<close>, the contract of the \<open>{enumerator, "text"}\<close> tables with which every
    enumeration is printed and parsed, and the round trips that follow from it;
  \<^item> \<open>sort_uniq\<close>, the \<open>std::sort\<close> + \<open>std::unique\<close> + \<open>erase\<close> idiom of the \<open>normalize\<close> methods.
\<close>

section \<open>Machine integers\<close>

type_synonym u8 = "8 word"
type_synonym u16 = "16 word"
type_synonym u32 = "32 word"
type_synonym u64 = "64 word"

lemma unat_u64_less: "unat (w :: u64) < 2 ^ 64"
  using unsigned_less [of w] by simp

lemma unat_u64_Suc: "w \<noteq> -1 \<Longrightarrow> unat (w + 1 :: u64) = Suc (unat w)"
proof -
  assume "w \<noteq> -1"
  then have "w + 1 \<noteq> 0" using max_word_wrap by blast
  then show ?thesis by (metis add.commute unatSuc)
qed

lemma u64_less_Suc: "w \<noteq> -1 \<Longrightarrow> w < w + (1 :: u64)"
  by (simp add: word_less_nat_alt unat_u64_Suc)

lemma unat_u32_less: "unat (w :: u32) < 2 ^ 32"
  using unsigned_less [of w] by simp

text \<open>Collections: facts that evaluate checks, and facts about effects that leave a part of the
  state alone.\<close>

named_theorems check_simps
named_theorems frame_simps

section \<open>Ordered maps\<close>

type_synonym ('k, 'v) omap = "('k \<times> 'v) list"

definition om_empty :: "('k, 'v) omap" where
  "om_empty = []"

definition om_find :: "('k, 'v) omap \<Rightarrow> 'k \<Rightarrow> 'v option" where
  "om_find m k = map_of m k"

definition om_contains :: "('k, 'v) omap \<Rightarrow> 'k \<Rightarrow> bool" where
  "om_contains m k \<longleftrightarrow> om_find m k \<noteq> None"

fun om_put :: "'k::linorder \<Rightarrow> 'v \<Rightarrow> ('k, 'v) omap \<Rightarrow> ('k, 'v) omap" where
  "om_put k v [] = [(k, v)]"
| "om_put k v ((a, b) # m) =
    (if k < a then (k, v) # (a, b) # m
     else if k = a then (k, v) # m
     else (a, b) # om_put k v m)"

definition om_del :: "'k \<Rightarrow> ('k, 'v) omap \<Rightarrow> ('k, 'v) omap" where
  "om_del k m = filter (\<lambda>e. fst e \<noteq> k) m"

definition om_upd :: "'k \<Rightarrow> ('v \<Rightarrow> 'v) \<Rightarrow> ('k, 'v) omap \<Rightarrow> ('k, 'v) omap" where
  "om_upd k f m = map (\<lambda>e. if fst e = k then (fst e, f (snd e)) else e) m"

definition om_each :: "('k \<Rightarrow> 'v \<Rightarrow> 'v) \<Rightarrow> ('k, 'v) omap \<Rightarrow> ('k, 'v) omap" where
  "om_each f m = map (\<lambda>e. (fst e, f (fst e) (snd e))) m"

definition om_values :: "('k, 'v) omap \<Rightarrow> 'v list" where
  "om_values m = map snd m"

definition om_sorted :: "('k::linorder, 'v) omap \<Rightarrow> bool" where
  "om_sorted m \<longleftrightarrow> sorted_wrt (<) (map fst m)"

lemma om_find_empty [simp]: "om_find om_empty k = None"
  by (simp add: om_find_def om_empty_def)

lemma om_find_put [simp]: "om_find (om_put k v m) = (om_find m)(k \<mapsto> v)"
  unfolding om_find_def fun_eq_iff by (induction k v m rule: om_put.induct) (auto simp: fun_eq_iff)

lemma om_find_del [simp]: "om_find (om_del k m) = (om_find m)(k := None)"
  unfolding om_find_def om_del_def fun_eq_iff by (induction m) auto

lemma om_find_upd [simp]: "om_find (om_upd k f m) = (om_find m)(k := map_option f (om_find m k))"
  unfolding om_find_def om_upd_def fun_eq_iff by (induction m) auto

lemma om_find_each [simp]: "om_find (om_each f m) k = map_option (f k) (om_find m k)"
  unfolding om_find_def om_each_def by (induction m) auto

lemma om_sorted_empty [simp]: "om_sorted om_empty"
  by (simp add: om_sorted_def om_empty_def)

lemma om_put_keys: "set (map fst (om_put k v m)) = insert k (set (map fst m))"
  by (induction k v m rule: om_put.induct) auto

lemma om_sorted_put [simp]: "om_sorted m \<Longrightarrow> om_sorted (om_put k v m)"
proof (induction k v m rule: om_put.induct)
  case (2 k v a b m)
  have "\<forall>x \<in> set (map fst (om_put k v m)). x = k \<or> x \<in> set (map fst m)"
    unfolding om_put_keys by blast
  with 2 show ?case by (force simp: om_sorted_def dest: order.strict_trans)
qed (simp add: om_sorted_def)

lemma om_sorted_del [simp]: "om_sorted m \<Longrightarrow> om_sorted (om_del k m)"
  by (simp add: om_sorted_def om_del_def sorted_wrt_map sorted_wrt_filter)

lemma om_keys_upd [simp]: "map fst (om_upd k f m) = map fst m"
  by (simp add: om_upd_def)

lemma om_keys_each [simp]: "map fst (om_each f m) = map fst m"
  by (simp add: om_each_def)

lemma om_sorted_upd [simp]: "om_sorted (om_upd k f m) = om_sorted m"
  by (simp add: om_sorted_def)

lemma om_sorted_each [simp]: "om_sorted (om_each f m) = om_sorted m"
  by (simp add: om_sorted_def)

lemma om_sorted_distinct: "om_sorted m \<Longrightarrow> distinct (map fst m)"
  unfolding om_sorted_def by (metis strict_sorted_iff)

lemma om_find_in: "om_sorted m \<Longrightarrow> (k, v) \<in> set m \<longleftrightarrow> om_find m k = Some v"
  unfolding om_find_def by (drule om_sorted_distinct) (metis map_of_SomeD map_of_is_SomeI)

lemma om_find_some_in: "om_find m k = Some v \<Longrightarrow> (k, v) \<in> set m"
  unfolding om_find_def by (rule map_of_SomeD)

lemma om_values_find: "om_sorted m \<Longrightarrow> v \<in> set (om_values m) \<longleftrightarrow> (\<exists>k. om_find m k = Some v)"
  unfolding om_values_def by (force simp: om_find_in [symmetric])

text \<open>Key-sorted association lists with the same lookups are the same list: the durable image of
  a map is a function of its contents.\<close>

lemma om_extensional:
  assumes "om_sorted m" and "om_sorted m'" and "om_find m = om_find m'"
  shows "m = m'"
proof -
  have s: "set m = set m'"
    using assms om_find_in by (metis (no_types, opaque_lifting) subsetI subset_antisym surj_pair)
  have d: "distinct (map fst m)" "distinct (map fst m')"
    using assms om_sorted_distinct by blast+
  have "inj_on fst (set m \<union> set m')"
    using d s by (simp add: distinct_map)
  moreover have "sorted (map fst m)" "sorted (map fst m')"
    using assms(1,2) by (simp_all add: om_sorted_def strict_sorted_iff)
  ultimately show ?thesis
    using s d map_sorted_distinct_set_unique by blast
qed

subsection \<open>The contract of an ordered map, and undo by before-images\<close>

locale ordered_store =
  fixes empty :: "'m"
    and find :: "'m \<Rightarrow> 'k \<Rightarrow> 'v option"
    and put :: "'k \<Rightarrow> 'v \<Rightarrow> 'm \<Rightarrow> 'm"
    and del :: "'k \<Rightarrow> 'm \<Rightarrow> 'm"
    and ok :: "'m \<Rightarrow> bool"
  assumes find_empty: "find empty k = None"
    and find_put: "find (put k v m) = (find m)(k \<mapsto> v)"
    and find_del: "find (del k m) = (find m)(k := None)"
    and ok_empty: "ok empty"
    and ok_put: "ok m \<Longrightarrow> ok (put k v m)"
    and ok_del: "ok m \<Longrightarrow> ok (del k m)"
    and extensional: "ok m \<Longrightarrow> ok m' \<Longrightarrow> find m = find m' \<Longrightarrow> m = m'"
begin

lemma find_restore:
  "find (fold (\<lambda>k m. case prev k of None \<Rightarrow> del k m | Some v \<Rightarrow> put k v m) touched m) k =
     (if k \<in> set touched then prev k else find m k)"
  by (induction touched arbitrary: m) (auto simp: find_put find_del split: option.splits)

lemma ok_restore:
  "ok m \<Longrightarrow> ok (fold (\<lambda>k m. case prev k of None \<Rightarrow> del k m | Some v \<Rightarrow> put k v m) touched m)"
  by (induction touched arbitrary: m) (auto simp: ok_put ok_del split: option.splits)

text \<open>When the before-image of every touched key was recorded and no untouched key changed,
  restoring gives back the very map the operation started from.\<close>

lemma restore_exact:
  assumes "ok before" and "ok after"
    and covered: "\<And>k. k \<notin> set touched \<Longrightarrow> find after k = find before k"
    and images: "\<And>k. k \<in> set touched \<Longrightarrow> prev k = find before k"
  shows "fold (\<lambda>k m. case prev k of None \<Rightarrow> del k m | Some v \<Rightarrow> put k v m) touched after = before"
  by (rule extensional) (use assms in \<open>auto simp: find_restore ok_restore fun_eq_iff\<close>)

end

interpretation om: ordered_store om_empty om_find om_put om_del om_sorted
  by unfold_locales (auto intro: om_extensional)

section \<open>Enumeration tables\<close>

text \<open>\<open>for (entry : kNames) if (entry.first == value) return entry.second; return fallback;\<close>
  and the reverse search.\<close>

definition table_name :: "('a \<times> string) list \<Rightarrow> string \<Rightarrow> 'a \<Rightarrow> string" where
  "table_name tbl fallback v = (case map_of tbl v of Some n \<Rightarrow> n | None \<Rightarrow> fallback)"

definition table_parse :: "('a \<times> string) list \<Rightarrow> string \<Rightarrow> 'a option" where
  "table_parse tbl t = map_of (map (\<lambda>e. (snd e, fst e)) tbl) t"

locale name_table =
  fixes tbl :: "('a \<times> string) list"
  assumes complete: "v \<in> fst ` set tbl"
    and distinct_values: "distinct (map fst tbl)"
    and distinct_names: "distinct (map snd tbl)"
begin

lemma name_entry: "table_name tbl d v = n \<longleftrightarrow> (v, n) \<in> set tbl"
proof -
  obtain m where m: "(v, m) \<in> set tbl" using complete [of v] by auto
  then have "map_of tbl v = Some m" using distinct_values by simp
  with m distinct_values show ?thesis
    by (auto simp: table_name_def) (metis map_of_is_SomeI option.inject)
qed

lemma parse_entry: "table_parse tbl t = Some v \<longleftrightarrow> (v, t) \<in> set tbl"
proof -
  have "map fst (map (\<lambda>e. (snd e, fst e)) tbl) = map snd tbl" by simp
  then have "distinct (map fst (map (\<lambda>e. (snd e, fst e)) tbl))" using distinct_names by (simp only:)
  then show ?thesis unfolding table_parse_def by (force simp: map_of_eq_Some_iff)
qed

lemma parse_iff_name: "table_parse tbl t = Some v \<longleftrightarrow> table_name tbl d v = t"
  by (simp add: name_entry parse_entry)

lemma name_inj: "table_name tbl d v = table_name tbl d w \<longleftrightarrow> v = w"
  by (metis parse_iff_name option.inject)

end

section \<open>Sorting and removing duplicates\<close>

text \<open>\<open>std::unique\<close> keeps the first element of every run of equivalent elements.\<close>

fun uniq_by :: "('a \<Rightarrow> 'b) \<Rightarrow> 'a list \<Rightarrow> 'a list" where
  "uniq_by f [] = []"
| "uniq_by f [x] = [x]"
| "uniq_by f (x # y # xs) = (if f x = f y then uniq_by f (x # xs) else x # uniq_by f (y # xs))"

definition sort_uniq :: "('a \<Rightarrow> 'b::linorder) \<Rightarrow> 'a list \<Rightarrow> 'a list" where
  "sort_uniq f xs = uniq_by f (sort_key f xs)"

lemma uniq_by_subset: "set (uniq_by f xs) \<subseteq> set xs"
  by (induction f xs rule: uniq_by.induct) auto

lemma uniq_by_keys: "f ` set (uniq_by f xs) = f ` set xs"
  by (induction f xs rule: uniq_by.induct) auto

lemma uniq_by_Cons: "\<exists>ys. uniq_by f (x # xs) = x # ys"
  by (induction xs) auto

lemma uniq_by_strict: "sorted (map f xs) \<Longrightarrow> sorted_wrt (<) (map f (uniq_by f xs))"
proof (induction f xs rule: uniq_by.induct)
  case (3 f x y xs)
  then show ?case
  proof (cases "f x = f y")
    case False
    have "\<forall>k \<in> f ` set (uniq_by f (y # xs)). f x < k"
      using 3(3) False by (auto simp: uniq_by_keys)
    with 3 False show ?thesis by simp
  qed auto
qed auto

lemma uniq_by_id: "sorted_wrt (<) (map f xs) \<Longrightarrow> uniq_by (f :: 'a \<Rightarrow> 'b::linorder) xs = xs"
  by (induction f xs rule: uniq_by.induct) auto

lemma sort_uniq_strict [simp]: "sorted_wrt (<) (map f (sort_uniq f xs))"
  unfolding sort_uniq_def by (rule uniq_by_strict) simp

lemma sort_uniq_subset: "set (sort_uniq f xs) \<subseteq> set xs"
  unfolding sort_uniq_def using uniq_by_subset [of f "sort_key f xs"] by simp

lemma sort_uniq_keys [simp]: "f ` set (sort_uniq f xs) = f ` set xs"
  unfolding sort_uniq_def by (simp add: uniq_by_keys)

lemma sort_uniq_id: "sorted_wrt (<) (map f xs) \<Longrightarrow> sort_uniq f xs = xs"
  unfolding sort_uniq_def
  by (simp add: sorted_sort_id sort_key_id_if_sorted uniq_by_id strict_sorted_iff)

lemma sort_uniq_idem [simp]: "sort_uniq f (sort_uniq f xs) = sort_uniq f xs"
  by (simp add: sort_uniq_id)

lemma sort_uniq_set: "inj_on f (set xs) \<Longrightarrow> set (sort_uniq f xs) = set xs"
  using sort_uniq_subset [of f xs] sort_uniq_keys [of f xs]
  by (metis inj_on_image_eq_iff order_refl)

text \<open>Of the elements that share a key, the one that came first survives.\<close>

lemma find_filter: "List.find P xs = (case filter P xs of [] \<Rightarrow> None | x # _ \<Rightarrow> Some x)"
  by (induction xs) auto

lemma uniq_by_first:
  "sorted (map f ys) \<Longrightarrow> x \<in> set (uniq_by f ys) \<longleftrightarrow> List.find (\<lambda>z. f z = f x) ys = Some x"
proof (induction f ys rule: uniq_by.induct)
  case (3 f a b xs)
  show ?case
  proof (cases "f a = f b")
    case False
    then have "\<forall>z \<in> set (b # xs). f a < f z" using 3(3) by fastforce
    then have "List.find (\<lambda>z. f z = f a) (b # xs) = None" by (auto simp: find_None_iff)
    then show ?thesis using 3 False by auto
  qed (use 3 in auto)
qed auto

lemma sort_uniq_first: "x \<in> set (sort_uniq f xs) \<longleftrightarrow> List.find (\<lambda>z. f z = f x) xs = Some x"
proof -
  have "filter (\<lambda>z. f z = f x) (sort_key f xs) = filter (\<lambda>z. f z = f x) xs"
    using sort_key_stable [of f "f x" xs] by simp
  then show ?thesis
    unfolding sort_uniq_def by (subst uniq_by_first) (simp_all add: find_filter)
qed

lemma sort_uniq_keeps_front:
  assumes "sorted_wrt (<) (map f xs)" and "x \<in> set xs"
  shows "x \<in> set (sort_uniq f (xs @ ys))"
proof -
  have "inj_on f (set xs)" using assms(1) by (auto simp: strict_sorted_iff distinct_map)
  then have "List.find (\<lambda>z. f z = f x) xs = Some x"
    using assms(2) by (induction xs) (auto simp: inj_on_def)
  then have "List.find (\<lambda>z. f z = f x) (xs @ ys) = Some x" by (induction xs) (auto split: if_splits)
  then show ?thesis by (simp add: sort_uniq_first)
qed

end
