(* ===== verification/AV_Ids.thy ===== *)
theory AV_Ids
  imports AV_Prelude
begin

text \<open>
  Strong identities and generations (\<open>include/av/ids.hpp\<close>, \<open>src/ids.cpp\<close>).

  \<open>Id<Tag>\<close> and \<open>Generation<Tag>\<close> are one wrapper each over a 64 bit value; the phantom tag keeps
  identity spaces apart exactly as the C++ template parameter does. Both are linearly ordered by
  their value, so they can key the ordered maps of the state. The textual forms
  (\<open>"va-0000000000000001"\<close>, decimal generations) are modelled with their parsers; the round trips
  and the canonicity of the rendering are proved here.
\<close>

unbundle bit_operations_syntax

section \<open>Identities and generations\<close>

datatype 'tag ident = Ident (id_value: u64)

datatype 'tag generation = Generation (gen_value: u64)

definition id_valid :: "'tag ident \<Rightarrow> bool" where
  "id_valid i \<longleftrightarrow> id_value i \<noteq> 0"

definition gen_valid :: "'tag generation \<Rightarrow> bool" where
  "gen_valid g \<longleftrightarrow> gen_value g \<noteq> 0"

definition gen_initial :: "'tag generation" where
  "gen_initial = Generation 1"

definition gen_next :: "'tag generation \<Rightarrow> 'tag generation" where
  "gen_next g = Generation (gen_value g + 1)"

text \<open>The default-constructed values: \<open>Id()\<close> and \<open>Generation()\<close> hold zero.\<close>

definition no_id :: "'tag ident" where
  "no_id = Ident 0"

definition no_gen :: "'tag generation" where
  "no_gen = Generation 0"

instantiation ident :: (type) linorder
begin

definition less_eq_ident :: "'a ident \<Rightarrow> 'a ident \<Rightarrow> bool" where
  "less_eq_ident a b \<longleftrightarrow> id_value a \<le> id_value b"

definition less_ident :: "'a ident \<Rightarrow> 'a ident \<Rightarrow> bool" where
  "less_ident a b \<longleftrightarrow> id_value a < id_value b"

instance
  by standard (auto simp: less_eq_ident_def less_ident_def ident.expand)

end

instantiation generation :: (type) linorder
begin

definition less_eq_generation :: "'a generation \<Rightarrow> 'a generation \<Rightarrow> bool" where
  "less_eq_generation a b \<longleftrightarrow> gen_value a \<le> gen_value b"

definition less_generation :: "'a generation \<Rightarrow> 'a generation \<Rightarrow> bool" where
  "less_generation a b \<longleftrightarrow> gen_value a < gen_value b"

instance
  by standard (auto simp: less_eq_generation_def less_generation_def generation.expand)

end

text \<open>Tags.\<close>

datatype va_tag = VA_Tag
datatype tn_tag = TN_Tag
datatype ag_tag = AG_Tag
datatype boot_tag = Boot_Tag
datatype pd_tag = PD_Tag
datatype bk_tag = BK_Tag
datatype as_tag = AS_Tag
datatype ls_tag = LS_Tag
datatype cp_tag = CP_Tag
datatype rc_tag = RC_Tag
datatype pol_tag = POL_Tag
datatype mg_tag = MG_Tag
datatype iso_tag = ISO_Tag
datatype ev_tag = EV_Tag
datatype dec_tag = DEC_Tag
datatype rq_tag = RQ_Tag
datatype epoch_tag = Epoch_Tag

type_synonym va_id = "va_tag ident"
type_synonym tn_id = "tn_tag ident"
type_synonym ag_id = "ag_tag ident"
type_synonym boot_id = "boot_tag ident"
type_synonym pd_id = "pd_tag ident"
type_synonym bk_id = "bk_tag ident"
type_synonym as_id = "as_tag ident"
type_synonym ls_id = "ls_tag ident"
type_synonym cp_id = "cp_tag ident"
type_synonym rc_id = "rc_tag ident"
type_synonym pol_id = "pol_tag ident"
type_synonym mg_id = "mg_tag ident"
type_synonym iso_id = "iso_tag ident"
type_synonym ev_id = "ev_tag ident"
type_synonym dec_id = "dec_tag ident"
type_synonym rq_id = "rq_tag ident"

type_synonym va_gen = "va_tag generation"
type_synonym tn_gen = "tn_tag generation"
type_synonym pd_gen = "pd_tag generation"
type_synonym bk_gen = "bk_tag generation"
type_synonym ls_gen = "ls_tag generation"
type_synonym cp_gen = "cp_tag generation"
type_synonym rc_gen = "rc_tag generation"
type_synonym pol_gen = "pol_tag generation"
type_synonym mg_gen = "mg_tag generation"
type_synonym ev_gen = "ev_tag generation"
type_synonym epoch = "epoch_tag generation"

lemma gen_next_neq [simp]: "gen_next g \<noteq> g" "g \<noteq> gen_next g"
  by (cases g; simp add: gen_next_def)+

lemma gen_next_inj [simp]: "gen_next g = gen_next h \<longleftrightarrow> g = h"
  by (cases g; cases h) (simp add: gen_next_def)

lemma gen_next_greater: "gen_value g \<noteq> -1 \<Longrightarrow> g < gen_next g"
  unfolding less_generation_def gen_next_def by (simp add: u64_less_Suc)

lemma gen_next_valid: "gen_value g \<noteq> -1 \<Longrightarrow> gen_valid (gen_next g)"
  unfolding gen_valid_def gen_next_def by (auto dest: max_word_wrap)

section \<open>Textual forms\<close>

definition kHexDigits :: string where
  "kHexDigits = ''0123456789abcdef''"

definition hex_value :: "char \<Rightarrow> int" where
  "hex_value c =
    (let v = of_char c :: int in
     if of_char (CHR ''0'') \<le> v \<and> v \<le> of_char (CHR ''9'') then v - of_char (CHR ''0'')
     else if of_char (CHR ''a'') \<le> v \<and> v \<le> of_char (CHR ''f'') then v - of_char (CHR ''a'') + 10
     else if of_char (CHR ''A'') \<le> v \<and> v \<le> of_char (CHR ''F'') then v - of_char (CHR ''A'') + 10
     else -1)"

text \<open>The loop of \<open>to_hex16\<close>: it fills the buffer from the right, one nibble per round.\<close>

primrec to_hex_loop :: "nat \<Rightarrow> u64 \<Rightarrow> string \<Rightarrow> string" where
  "to_hex_loop 0 v out = out"
| "to_hex_loop (Suc n) v out = to_hex_loop n (drop_bit 4 v) (kHexDigits ! unat (v AND 15) # out)"

definition to_hex16 :: "u64 \<Rightarrow> string" where
  "to_hex16 v = to_hex_loop 16 v []"

fun from_hex_loop :: "u64 \<Rightarrow> string \<Rightarrow> u64 option" where
  "from_hex_loop v [] = Some v"
| "from_hex_loop v (c # cs) =
    (let digit = hex_value c in
     if digit < 0 then None else from_hex_loop (push_bit 4 v OR word_of_int digit) cs)"

definition from_hex :: "string \<Rightarrow> u64 option" where
  "from_hex text = (if text = [] \<or> length text > 16 then None else from_hex_loop 0 text)"

definition render_strong_id :: "string \<Rightarrow> u64 \<Rightarrow> string" where
  "render_strong_id prefix v = prefix @ [CHR ''-''] @ to_hex16 v"

definition parse_strong_id :: "string \<Rightarrow> string \<Rightarrow> u64 option" where
  "parse_strong_id prefix text =
    (if prefix \<noteq> [] then
       (if length text < length prefix + 1 then None
        else if take (length prefix) text \<noteq> prefix then None
        else if text ! length prefix \<noteq> CHR ''-'' then None
        else from_hex (drop (length prefix + 1) text))
     else from_hex text)"

definition dec_digit :: "char \<Rightarrow> nat option" where
  "dec_digit c = (if of_char (CHR ''0'') \<le> (of_char c :: nat) \<and> (of_char c :: nat) \<le> of_char (CHR ''9'')
    then Some (of_char c - of_char (CHR ''0'')) else None)"

text \<open>\<open>std::from_chars\<close> on an unsigned 64 bit target: it consumes the longest run of decimal
  digits, fails when there is none or when the value does not fit, and reports where it stopped;
  the caller accepts only a run that is the whole text.\<close>

fun dec_run :: "nat \<Rightarrow> string \<Rightarrow> nat \<times> string" where
  "dec_run acc [] = (acc, [])"
| "dec_run acc (c # cs) =
    (case dec_digit c of None \<Rightarrow> (acc, c # cs) | Some d \<Rightarrow> dec_run (acc * 10 + d) cs)"

definition from_chars_u64 :: "string \<Rightarrow> (u64 \<times> string) option" where
  "from_chars_u64 text =
    (let (v, rest) = dec_run 0 text in
     if length rest = length text then None
     else if v < 2 ^ 64 then Some (of_nat v, rest) else None)"

definition parse_generation_text :: "string \<Rightarrow> u64 option" where
  "parse_generation_text text =
    (if text = [] \<or> length text > 20 then None
     else case from_chars_u64 text of None \<Rightarrow> None
       | Some (v, rest) \<Rightarrow> if rest \<noteq> [] then None else Some v)"

text \<open>\<open>std::to_string\<close> of an unsigned value.\<close>

fun dec_string :: "nat \<Rightarrow> string" where
  "dec_string n =
    (if n < 10 then [char_of (48 + n)] else dec_string (n div 10) @ [char_of (48 + n mod 10)])"

declare dec_string.simps [simp del]

definition gen_str :: "'tag generation \<Rightarrow> string" where
  "gen_str g = dec_string (unat (gen_value g))"

section \<open>Round trips\<close>

lemma hex_digit_value: "n < 16 \<Longrightarrow> hex_value (kHexDigits ! n) = int n"
proof -
  have "\<forall>n \<in> set [0..<16]. hex_value (kHexDigits ! n) = int n" by code_simp
  then show "n < 16 \<Longrightarrow> ?thesis" by simp
qed

lemma nibble_less: "unat (v AND 15 :: u64) < 16"
proof -
  have "v AND 15 = take_bit 4 v" by (simp add: take_bit_eq_mask mask_eq_exp_minus_1)
  then show ?thesis using take_bit_nat_less_exp [of 4 "unat v"] by (simp add: unsigned_take_bit_eq)
qed

lemma nibble_step:
  "push_bit 4 (push_bit (4 * n) a OR take_bit (4 * n) (drop_bit 4 v)) OR (v AND 15) =
   push_bit (4 * Suc n) a OR take_bit (4 * Suc n) (v :: u64)"
proof -
  have m: "(15 :: u64) = mask 4" by (simp add: mask_eq_exp_minus_1)
  show ?thesis unfolding m by (rule bit_word_eqI) (auto simp: bit_simps)
qed

lemma from_to_hex_loop:
  "from_hex_loop a (to_hex_loop n v s) =
   from_hex_loop (push_bit (4 * n) a OR take_bit (4 * n) v) s"
proof (induction n arbitrary: v s)
  case (Suc n)
  have h: "hex_value (kHexDigits ! unat (v AND 15)) = int (unat (v AND 15))"
    by (rule hex_digit_value) (rule nibble_less)
  have w: "word_of_int (int (unat (v AND 15))) = v AND 15" by simp
  show ?case
    unfolding to_hex_loop.simps Suc.IH from_hex_loop.simps h Let_def w nibble_step by simp
qed simp

lemma to_hex_loop_length: "length (to_hex_loop n v s) = n + length s"
  by (induction n arbitrary: v s) auto

lemma to_hex16_length [simp]: "length (to_hex16 v) = 16"
  by (simp add: to_hex16_def to_hex_loop_length)

lemma from_to_hex16: "from_hex (to_hex16 v) = Some v"
proof -
  have "to_hex16 v \<noteq> []" using to_hex16_length [of v] by (metis list.size(3) zero_neq_numeral)
  moreover have "from_hex_loop 0 (to_hex16 v) = Some v"
    by (simp add: to_hex16_def from_to_hex_loop take_bit_word_eq_self)
  ultimately show ?thesis by (simp add: from_hex_def)
qed

lemma dec_digit_char: "d < 10 \<Longrightarrow> dec_digit (char_of (48 + d)) = Some d"
  by (simp add: dec_digit_def of_char_of)

lemma dec_run_append:
  "snd (dec_run a xs) = [] \<Longrightarrow> dec_run a (xs @ ys) = dec_run (fst (dec_run a xs)) ys"
  by (induction a xs rule: dec_run.induct) (auto split: option.splits)

lemma dec_run_string: "dec_run 0 (dec_string n) = (n, [])"
proof (induction n rule: dec_string.induct)
  case (1 n)
  then show ?case
    by (subst dec_string.simps) (auto simp: dec_run_append dec_digit_char)
qed

lemma dec_string_length: "n < 10 ^ Suc k \<Longrightarrow> length (dec_string n) \<le> Suc k"
proof (induction k arbitrary: n)
  case (Suc k)
  then show ?case
    by (cases "n < 10") (simp_all add: dec_string.simps [of n] less_mult_imp_div_less)
qed (simp add: dec_string.simps)

lemma dec_string_not_Nil [simp]: "dec_string n \<noteq> []"
  by (subst dec_string.simps) simp

text \<open>Printing an identity and parsing the text back gives the identity, and parsing a
  generation's decimal text gives the generation, for every 64 bit value.\<close>

theorem id_text_roundtrip:
  "parse_strong_id prefix (render_strong_id prefix v) = (if prefix = [] then None else Some v) \<and>
   parse_generation_text (gen_str g) = Some (gen_value g)"
proof
  have "from_hex (CHR ''-'' # to_hex16 v) = None" by (simp add: from_hex_def)
  then show "parse_strong_id prefix (render_strong_id prefix v) = (if prefix = [] then None else Some v)"
    by (simp add: parse_strong_id_def render_strong_id_def from_to_hex16)
  have "unat (gen_value g) < 10 ^ Suc 19"
    using unat_u64_less [of "gen_value g"] by simp
  from dec_string_length [OF this]
  show "parse_generation_text (gen_str g) = Some (gen_value g)"
    using unat_u64_less [of "gen_value g"]
    by (simp add: parse_generation_text_def from_chars_u64_def gen_str_def dec_run_string)
qed

end
