(* ===== verification/AV_Hash.thy ===== *)
theory AV_Hash
  imports AV_Prelude
begin

text \<open>
  Integrity hashes (\<open>include/av/hash.hpp\<close>): CRC-32C with the bit loop of the source, and FNV-1a 64.

  The checksum guards frames and journal records, so the facts proved are the ones that use needs:
  incremental updates equal one update over the concatenation, the published check value, and that a
  change confined to one byte of a message always changes the checksum.
\<close>

unbundle bit_operations_syntax

section \<open>CRC-32C\<close>

definition crc_bit :: "u32 \<Rightarrow> u32" where
  "crc_bit crc = drop_bit 1 crc XOR (0x82F63B78 AND (- (crc AND 1)))"

definition crc_byte :: "u32 \<Rightarrow> u8 \<Rightarrow> u32" where
  "crc_byte crc p = (crc_bit ^^ 8) (crc XOR ucast p)"

definition crc_update :: "u32 \<Rightarrow> u8 list \<Rightarrow> u32" where
  "crc_update state bytes = foldl crc_byte state bytes"

definition crc_init :: u32 where
  "crc_init = 0xFFFFFFFF"

definition crc_value :: "u32 \<Rightarrow> u32" where
  "crc_value state = state XOR 0xFFFFFFFF"

definition crc32c :: "u8 list \<Rightarrow> u32" where
  "crc32c bytes = crc_value (crc_update crc_init bytes)"

section \<open>FNV-1a\<close>

definition fnv_update :: "u64 \<Rightarrow> u8 list \<Rightarrow> u64" where
  "fnv_update state bytes = foldl (\<lambda>s p. (s XOR ucast p) * 0x100000001B3) state bytes"

definition fnv1a64 :: "u8 list \<Rightarrow> u64" where
  "fnv1a64 bytes = fnv_update 0xCBF29CE484222325 bytes"

lemma fnv_update_append: "fnv_update s (xs @ ys) = fnv_update (fnv_update s xs) ys"
  by (simp add: fnv_update_def)

text \<open>\<open>update(std::string_view)\<close> hashes the characters as bytes.\<close>

definition text_bytes :: "string \<Rightarrow> u8 list" where
  "text_bytes s = map (\<lambda>c. of_nat (of_char c)) s"

section \<open>Error detection\<close>

lemma xor_cancel_right: "a XOR c = b XOR c \<longleftrightarrow> a = (b :: 'w::len word)"
  by (auto simp: bit_eq_iff bit_xor_iff)

lemma xor_cancel_left: "c XOR a = c XOR b \<longleftrightarrow> a = (b :: 'w::len word)"
  by (auto simp: bit_eq_iff bit_xor_iff)

lemma ucast_u8_inj: "(ucast p :: u32) = ucast (q :: u8) \<longleftrightarrow> p = q"
  by transfer (simp add: take_bit_take_bit)

lemma crc_bit_alt:
  "crc_bit crc = (if bit crc 0 then drop_bit 1 crc XOR 0x82F63B78 else drop_bit 1 crc)"
proof -
  have "crc AND 1 = (if bit crc 0 then 1 else 0)"
    by (simp add: and_one_eq bit_0 odd_iff_mod_2_eq_one)
  then show ?thesis by (simp add: crc_bit_def)
qed

text \<open>The top bit of the polynomial is set and the shift clears the top bit of the state, so the
  top bit of the result tells which branch was taken: a round loses no information.\<close>

lemma crc_bit_top: "bit (crc_bit crc) 31 \<longleftrightarrow> bit crc 0"
  by (auto simp: crc_bit_alt bit_simps dest: bit_imp_le_length)

lemma crc_bit_inj: "inj crc_bit"
proof (rule injI)
  fix a b assume eq: "crc_bit a = crc_bit b"
  then have low: "bit a 0 \<longleftrightarrow> bit b 0" by (metis crc_bit_top)
  with eq have "drop_bit 1 a = drop_bit 1 b"
    by (simp add: crc_bit_alt xor_cancel_right split: if_splits)
  then have high: "bit a (Suc n) \<longleftrightarrow> bit b (Suc n)" for n
    by (metis bit_drop_bit_eq plus_1_eq_Suc comp_apply)
  show "a = b" by (rule bit_word_eqI) (metis low high not0_implies_Suc)
qed

lemma crc_byte_state_inj: "crc_byte a p = crc_byte b p \<longleftrightarrow> a = b"
proof -
  have "inj (crc_bit ^^ 8)" by (rule inj_fn [OF crc_bit_inj])
  then have "crc_byte a p = crc_byte b p \<longleftrightarrow> a XOR ucast p = b XOR ucast p"
    unfolding crc_byte_def by (rule inj_eq)
  then show ?thesis by (simp add: xor_cancel_right)
qed

lemma crc_byte_data_inj: "crc_byte a p = crc_byte a q \<longleftrightarrow> p = q"
proof -
  have "inj (crc_bit ^^ 8)" by (rule inj_fn [OF crc_bit_inj])
  then have "crc_byte a p = crc_byte a q \<longleftrightarrow> a XOR ucast p = a XOR ucast q"
    unfolding crc_byte_def by (rule inj_eq)
  then show ?thesis by (simp add: xor_cancel_left ucast_u8_inj)
qed

lemma crc_update_state_inj: "crc_update a bytes = crc_update b bytes \<longleftrightarrow> a = b"
  unfolding crc_update_def by (induction bytes arbitrary: a b) (simp_all add: crc_byte_state_inj)

lemma crc_value_inj: "crc_value a = crc_value b \<longleftrightarrow> a = b"
  by (simp add: crc_value_def xor_cancel_right)

lemma crc_update_append: "crc_update s (xs @ ys) = crc_update (crc_update s xs) ys"
  by (simp add: crc_update_def)

lemma crc32c_byte:
  "crc32c (pre @ p # post) = crc32c (pre @ q # post) \<longleftrightarrow> p = q"
proof -
  have "crc_update crc_init (pre @ r # post) =
      crc_update (crc_byte (crc_update crc_init pre) r) post" for r
    by (simp add: crc_update_def)
  then show ?thesis
    by (simp add: crc32c_def crc_value_inj crc_update_state_inj crc_byte_data_inj)
qed

text \<open>The checksum detects every corruption confined to a single byte: two messages that
  agree everywhere except at one byte have the same CRC-32C exactly when that byte is equal.\<close>

theorem crc_detects_byte_change:
  "crc32c (pre @ p # post) = crc32c (pre @ q # post) \<longleftrightarrow> p = q"
  by (rule crc32c_byte)

text \<open>The published check value of CRC-32C over the ASCII digits 1 to 9.\<close>

lemma crc_byte_rounds:
  "crc_byte crc p = crc_bit (crc_bit (crc_bit (crc_bit (crc_bit (crc_bit (crc_bit (crc_bit (crc XOR ucast p))))))))"
  by (simp add: crc_byte_def eval_nat_numeral)

lemma crc_bit_arith: "crc_bit crc = (if odd crc then (crc div 2) XOR 0x82F63B78 else crc div 2)"
  by (simp add: crc_bit_alt bit_0 drop_bit_eq_div)

lemma crc32c_check_value: "crc32c [49, 50, 51, 52, 53, 54, 55, 56, 57] = 0xE3069283"
  by (simp add: crc32c_def crc_update_def crc_byte_rounds crc_value_def crc_init_def crc_bit_arith)

end
