(* ===== verification/AV_Status.thy ===== *)
theory AV_Status
  imports AV_Prelude
begin

text \<open>
  The failure taxonomy (\<open>include/av/status.hpp\<close>, \<open>src/status.cpp\<close>).

  \<open>StatusCode\<close> is the datatype \<open>status_code\<close> with the numeric values and the stable names of the
  sources. A \<open>Status\<close> is its code throughout the development: the free-form diagnostic detail that
  accompanies a code never influences control flow and is not modelled. \<open>Result<T>\<close> is
  \<open>status_code + 'a\<close> with the failure on the left.
\<close>

section \<open>Codes\<close>

datatype (plugins only: code size) status_code =
    SC_Ok
  | SC_InvalidArgument
  | SC_NotFound
  | SC_AlreadyExists
  | SC_DuplicateIdentity
  | SC_LimitExceeded
  | SC_ResourceExhausted
  | SC_Conflict
  | SC_StaleEpoch
  | SC_StaleVirtualGeneration
  | SC_StaleTenant
  | SC_StaleBacking
  | SC_StalePhysicalDevice
  | SC_StaleLease
  | SC_StalePolicy
  | SC_StaleMigration
  | SC_StaleAgentBoot
  | SC_StaleAssignment
  | SC_NotAuthorized
  | SC_TenantFenced
  | SC_VirtualFenced
  | SC_VirtualRetired
  | SC_NotAttached
  | SC_AlreadyAttached
  | SC_LeaseExpired
  | SC_LeaseRevoked
  | SC_AttachLimitReached
  | SC_InvalidTransition
  | SC_RecoveryRequired
  | SC_Draining
  | SC_MigrationInProgress
  | SC_NoActiveMigration
  | SC_BackingUnavailable
  | SC_BackingBusy
  | SC_BackingClassNotAllowed
  | SC_BackingTransparencyViolation
  | SC_OversubscriptionDenied
  | SC_CapabilityProjectionMismatch
  | SC_CapabilityUnknown
  | SC_ContractViolation
  | SC_ContractInvalid
  | SC_IsolationUnsatisfied
  | SC_IsolationUnknownMandatory
  | SC_PolicyViolation
  | SC_MigrationUnsupported
  | SC_MigrationClassNotAllowed
  | SC_ProtocolViolation
  | SC_VersionMismatch
  | SC_MalformedFrame
  | SC_FrameTooLarge
  | SC_UnsupportedMessage
  | SC_ConnectionLost
  | SC_Timeout
  | SC_DuplicateRequest
  | SC_Shutdown
  | SC_NotReady
  | SC_IntegrityFailure
  | SC_CorruptState
  | SC_TruncatedState
  | SC_IoFailure
  | SC_SerializationFailure
  | SC_Unsupported
  | SC_Unknown
  | SC_Internal
  | SC_NotImplemented
  | SC_OutcomeUnknown

fun code_value :: "status_code \<Rightarrow> u32" where
  "code_value SC_Ok = 0"
| "code_value SC_InvalidArgument = 10"
| "code_value SC_NotFound = 11"
| "code_value SC_AlreadyExists = 12"
| "code_value SC_DuplicateIdentity = 13"
| "code_value SC_LimitExceeded = 14"
| "code_value SC_ResourceExhausted = 15"
| "code_value SC_Conflict = 16"
| "code_value SC_StaleEpoch = 100"
| "code_value SC_StaleVirtualGeneration = 101"
| "code_value SC_StaleTenant = 102"
| "code_value SC_StaleBacking = 103"
| "code_value SC_StalePhysicalDevice = 104"
| "code_value SC_StaleLease = 105"
| "code_value SC_StalePolicy = 106"
| "code_value SC_StaleMigration = 107"
| "code_value SC_StaleAgentBoot = 108"
| "code_value SC_StaleAssignment = 109"
| "code_value SC_NotAuthorized = 200"
| "code_value SC_TenantFenced = 201"
| "code_value SC_VirtualFenced = 202"
| "code_value SC_VirtualRetired = 203"
| "code_value SC_NotAttached = 204"
| "code_value SC_AlreadyAttached = 205"
| "code_value SC_LeaseExpired = 206"
| "code_value SC_LeaseRevoked = 207"
| "code_value SC_AttachLimitReached = 208"
| "code_value SC_InvalidTransition = 300"
| "code_value SC_RecoveryRequired = 301"
| "code_value SC_Draining = 302"
| "code_value SC_MigrationInProgress = 303"
| "code_value SC_NoActiveMigration = 304"
| "code_value SC_BackingUnavailable = 400"
| "code_value SC_BackingBusy = 401"
| "code_value SC_BackingClassNotAllowed = 402"
| "code_value SC_BackingTransparencyViolation = 403"
| "code_value SC_OversubscriptionDenied = 404"
| "code_value SC_CapabilityProjectionMismatch = 500"
| "code_value SC_CapabilityUnknown = 501"
| "code_value SC_ContractViolation = 502"
| "code_value SC_ContractInvalid = 503"
| "code_value SC_IsolationUnsatisfied = 504"
| "code_value SC_IsolationUnknownMandatory = 505"
| "code_value SC_PolicyViolation = 506"
| "code_value SC_MigrationUnsupported = 600"
| "code_value SC_MigrationClassNotAllowed = 601"
| "code_value SC_ProtocolViolation = 700"
| "code_value SC_VersionMismatch = 701"
| "code_value SC_MalformedFrame = 702"
| "code_value SC_FrameTooLarge = 703"
| "code_value SC_UnsupportedMessage = 704"
| "code_value SC_ConnectionLost = 705"
| "code_value SC_Timeout = 706"
| "code_value SC_DuplicateRequest = 707"
| "code_value SC_Shutdown = 708"
| "code_value SC_NotReady = 709"
| "code_value SC_IntegrityFailure = 800"
| "code_value SC_CorruptState = 801"
| "code_value SC_TruncatedState = 802"
| "code_value SC_IoFailure = 803"
| "code_value SC_SerializationFailure = 804"
| "code_value SC_Unsupported = 900"
| "code_value SC_Unknown = 901"
| "code_value SC_Internal = 902"
| "code_value SC_NotImplemented = 903"
| "code_value SC_OutcomeUnknown = 904"

definition kCodeNames :: "(status_code \<times> string) list" where
  "kCodeNames =
    [(SC_Ok, ''ok''),
     (SC_InvalidArgument, ''invalid_argument''),
     (SC_NotFound, ''not_found''),
     (SC_AlreadyExists, ''already_exists''),
     (SC_DuplicateIdentity, ''duplicate_identity''),
     (SC_LimitExceeded, ''limit_exceeded''),
     (SC_ResourceExhausted, ''resource_exhausted''),
     (SC_Conflict, ''conflict''),
     (SC_StaleEpoch, ''stale_epoch''),
     (SC_StaleVirtualGeneration, ''stale_virtual_generation''),
     (SC_StaleTenant, ''stale_tenant''),
     (SC_StaleBacking, ''stale_backing''),
     (SC_StalePhysicalDevice, ''stale_physical_device''),
     (SC_StaleLease, ''stale_lease''),
     (SC_StalePolicy, ''stale_policy''),
     (SC_StaleMigration, ''stale_migration''),
     (SC_StaleAgentBoot, ''stale_agent_boot''),
     (SC_StaleAssignment, ''stale_assignment''),
     (SC_NotAuthorized, ''not_authorized''),
     (SC_TenantFenced, ''tenant_fenced''),
     (SC_VirtualFenced, ''virtual_fenced''),
     (SC_VirtualRetired, ''virtual_retired''),
     (SC_NotAttached, ''not_attached''),
     (SC_AlreadyAttached, ''already_attached''),
     (SC_LeaseExpired, ''lease_expired''),
     (SC_LeaseRevoked, ''lease_revoked''),
     (SC_AttachLimitReached, ''attach_limit_reached''),
     (SC_InvalidTransition, ''invalid_transition''),
     (SC_RecoveryRequired, ''recovery_required''),
     (SC_Draining, ''draining''),
     (SC_MigrationInProgress, ''migration_in_progress''),
     (SC_NoActiveMigration, ''no_active_migration''),
     (SC_BackingUnavailable, ''backing_unavailable''),
     (SC_BackingBusy, ''backing_busy''),
     (SC_BackingClassNotAllowed, ''backing_class_not_allowed''),
     (SC_BackingTransparencyViolation, ''backing_transparency_violation''),
     (SC_OversubscriptionDenied, ''oversubscription_denied''),
     (SC_CapabilityProjectionMismatch, ''capability_projection_mismatch''),
     (SC_CapabilityUnknown, ''capability_unknown''),
     (SC_ContractViolation, ''contract_violation''),
     (SC_ContractInvalid, ''contract_invalid''),
     (SC_IsolationUnsatisfied, ''isolation_unsatisfied''),
     (SC_IsolationUnknownMandatory, ''isolation_unknown_mandatory''),
     (SC_PolicyViolation, ''policy_violation''),
     (SC_MigrationUnsupported, ''migration_unsupported''),
     (SC_MigrationClassNotAllowed, ''migration_class_not_allowed''),
     (SC_ProtocolViolation, ''protocol_violation''),
     (SC_VersionMismatch, ''version_mismatch''),
     (SC_MalformedFrame, ''malformed_frame''),
     (SC_FrameTooLarge, ''frame_too_large''),
     (SC_UnsupportedMessage, ''unsupported_message''),
     (SC_ConnectionLost, ''connection_lost''),
     (SC_Timeout, ''timeout''),
     (SC_DuplicateRequest, ''duplicate_request''),
     (SC_Shutdown, ''shutdown''),
     (SC_NotReady, ''not_ready''),
     (SC_IntegrityFailure, ''integrity_failure''),
     (SC_CorruptState, ''corrupt_state''),
     (SC_TruncatedState, ''truncated_state''),
     (SC_IoFailure, ''io_failure''),
     (SC_SerializationFailure, ''serialization_failure''),
     (SC_Unsupported, ''unsupported''),
     (SC_Unknown, ''unknown''),
     (SC_Internal, ''internal''),
     (SC_NotImplemented, ''not_implemented''),
     (SC_OutcomeUnknown, ''outcome_unknown'')]"

definition code_name :: "status_code \<Rightarrow> string" where
  "code_name code = table_name kCodeNames ''unrecognized'' code"

definition is_stale_code :: "status_code \<Rightarrow> bool" where
  "is_stale_code code \<longleftrightarrow> 100 \<le> code_value code \<and> code_value code < 200"

definition is_authority_code :: "status_code \<Rightarrow> bool" where
  "is_authority_code code \<longleftrightarrow> 200 \<le> code_value code \<and> code_value code < 300"

definition is_integrity_code :: "status_code \<Rightarrow> bool" where
  "is_integrity_code code \<longleftrightarrow>
    (700 \<le> code_value code \<and> code_value code < 710) \<or> (800 \<le> code_value code \<and> code_value code < 900)"

section \<open>Results\<close>

type_synonym 'a result = "status_code + 'a"

definition result_status :: "'a result \<Rightarrow> status_code" where
  "result_status r = (case r of Inl e \<Rightarrow> e | Inr _ \<Rightarrow> SC_Ok)"

lemma result_status_simps [simp]: "result_status (Inl e) = e" "result_status (Inr x) = SC_Ok"
  by (simp_all add: result_status_def)

text \<open>A chain of \<open>status = check(); if (!status.ok()) return status;\<close>: the first failing check
  decides.\<close>

fun first_error :: "status_code list \<Rightarrow> status_code" where
  "first_error [] = SC_Ok"
| "first_error (c # cs) = (if c = SC_Ok then first_error cs else c)"

lemma first_error_ok [simp]: "first_error cs = SC_Ok \<longleftrightarrow> (\<forall>c \<in> set cs. c = SC_Ok)"
  by (induction cs) auto

lemma first_error_append:
  "first_error (cs @ ds) = (if first_error cs = SC_Ok then first_error ds else first_error cs)"
  by (induction cs) auto

lemma first_error_in: "first_error cs \<noteq> SC_Ok \<Longrightarrow> first_error cs \<in> set cs"
  by (induction cs) auto

text \<open>\<open>refuse_if guard code\<close> is \<open>if (guard) return Status(code);\<close>.\<close>

definition refuse_if :: "bool \<Rightarrow> status_code \<Rightarrow> status_code" where
  "refuse_if guard code = (if guard then code else SC_Ok)"

lemma refuse_if_ok [simp]: "code \<noteq> SC_Ok \<Longrightarrow> refuse_if guard code = SC_Ok \<longleftrightarrow> \<not> guard"
  by (simp add: refuse_if_def)

section \<open>The names and the classes of the codes\<close>

lemma kCodeNames_codes:
  "map fst kCodeNames =
    [SC_Ok, SC_InvalidArgument, SC_NotFound, SC_AlreadyExists,
     SC_DuplicateIdentity, SC_LimitExceeded, SC_ResourceExhausted, SC_Conflict,
     SC_StaleEpoch, SC_StaleVirtualGeneration, SC_StaleTenant, SC_StaleBacking,
     SC_StalePhysicalDevice, SC_StaleLease, SC_StalePolicy, SC_StaleMigration,
     SC_StaleAgentBoot, SC_StaleAssignment, SC_NotAuthorized, SC_TenantFenced,
     SC_VirtualFenced, SC_VirtualRetired, SC_NotAttached, SC_AlreadyAttached,
     SC_LeaseExpired, SC_LeaseRevoked, SC_AttachLimitReached, SC_InvalidTransition,
     SC_RecoveryRequired, SC_Draining, SC_MigrationInProgress, SC_NoActiveMigration,
     SC_BackingUnavailable, SC_BackingBusy, SC_BackingClassNotAllowed, SC_BackingTransparencyViolation,
     SC_OversubscriptionDenied, SC_CapabilityProjectionMismatch, SC_CapabilityUnknown, SC_ContractViolation,
     SC_ContractInvalid, SC_IsolationUnsatisfied, SC_IsolationUnknownMandatory, SC_PolicyViolation,
     SC_MigrationUnsupported, SC_MigrationClassNotAllowed, SC_ProtocolViolation, SC_VersionMismatch,
     SC_MalformedFrame, SC_FrameTooLarge, SC_UnsupportedMessage, SC_ConnectionLost,
     SC_Timeout, SC_DuplicateRequest, SC_Shutdown, SC_NotReady,
     SC_IntegrityFailure, SC_CorruptState, SC_TruncatedState, SC_IoFailure,
     SC_SerializationFailure, SC_Unsupported, SC_Unknown, SC_Internal,
     SC_NotImplemented, SC_OutcomeUnknown]"
  by (simp add: kCodeNames_def)

lemma kCodeNames_complete: "v \<in> fst ` set kCodeNames"
proof -
  have "v \<in> set (map fst kCodeNames)" unfolding kCodeNames_codes by (cases v) simp_all
  then show ?thesis by simp
qed

interpretation status_names: name_table kCodeNames
proof
  show "v \<in> fst ` set kCodeNames" for v by (rule kCodeNames_complete)
  show "distinct (map fst kCodeNames)" by code_simp
  show "distinct (map snd kCodeNames)" by code_simp
qed

lemma code_name_unique: "code_name a = code_name b \<longleftrightarrow> a = b"
  unfolding code_name_def by (rule status_names.name_inj)

lemma code_value_inj: "code_value a = code_value b \<longleftrightarrow> a = b"
proof -
  have "distinct (map code_value (map fst kCodeNames))" by code_simp
  then have "inj_on code_value (set (map fst kCodeNames))" by (simp only: distinct_map)
  then show ?thesis using kCodeNames_complete by (auto dest: inj_onD)
qed

lemma stale_authority_disjoint: "is_stale_code c \<Longrightarrow> \<not> is_authority_code c"
  by (auto simp: is_stale_code_def is_authority_code_def)

end
