(* ===== verification/AV_Taxonomy.thy ===== *)
theory AV_Taxonomy
  imports AV_Status
begin

text \<open>
  The vocabulary of mechanisms (\<open>include/av/taxonomy.hpp\<close>, \<open>src/taxonomy.cpp\<close>): provenance,
  multiplexing modes, backing classes, isolation classes and migration classes, each with its
  enumerator values, its name table and its parser, and the functions that derive one from another.
  The prose table \<open>multiplexing_semantics\<close> is documentation text and is not modelled.

  Every name table interprets the locale \<open>name_table\<close>, which gives the print/parse round trips.
\<close>

section \<open>Enumerations\<close>

datatype provenance =
    PV_Unknown
  | PV_Real
  | PV_Synthetic
  | PV_Unsupported

primrec provenance_value :: "provenance \<Rightarrow> nat" where
  "provenance_value PV_Unknown = 0"
| "provenance_value PV_Real = 1"
| "provenance_value PV_Synthetic = 2"
| "provenance_value PV_Unsupported = 3"

definition kProvenanceNames :: "(provenance \<times> string) list" where
  "kProvenanceNames =
    [(PV_Unknown, ''UNKNOWN''),
     (PV_Real, ''REAL''),
     (PV_Synthetic, ''SYNTHETIC''),
     (PV_Unsupported, ''UNSUPPORTED'')]"

definition provenance_name :: "provenance \<Rightarrow> string" where
  "provenance_name v = table_name kProvenanceNames ''UNKNOWN'' v"

definition parse_provenance :: "string \<Rightarrow> provenance option" where
  "parse_provenance text = table_parse kProvenanceNames text"

datatype multiplexing =
    MX_None
  | MX_Dedicated
  | MX_HardwarePartitioned
  | MX_VirtualFunction
  | MX_ProcessIsolated
  | MX_ContextIsolated
  | MX_TimeSliced
  | MX_CooperativeShared
  | MX_Synthetic

primrec multiplexing_value :: "multiplexing \<Rightarrow> nat" where
  "multiplexing_value MX_None = 0"
| "multiplexing_value MX_Dedicated = 1"
| "multiplexing_value MX_HardwarePartitioned = 2"
| "multiplexing_value MX_VirtualFunction = 3"
| "multiplexing_value MX_ProcessIsolated = 4"
| "multiplexing_value MX_ContextIsolated = 5"
| "multiplexing_value MX_TimeSliced = 6"
| "multiplexing_value MX_CooperativeShared = 7"
| "multiplexing_value MX_Synthetic = 8"

definition kMultiplexingNames :: "(multiplexing \<times> string) list" where
  "kMultiplexingNames =
    [(MX_None, ''NONE''),
     (MX_Dedicated, ''DEDICATED''),
     (MX_HardwarePartitioned, ''HARDWARE_PARTITIONED''),
     (MX_VirtualFunction, ''VIRTUAL_FUNCTION''),
     (MX_ProcessIsolated, ''PROCESS_ISOLATED''),
     (MX_ContextIsolated, ''CONTEXT_ISOLATED''),
     (MX_TimeSliced, ''TIME_SLICED''),
     (MX_CooperativeShared, ''COOPERATIVE_SHARED''),
     (MX_Synthetic, ''SYNTHETIC'')]"

definition multiplexing_name :: "multiplexing \<Rightarrow> string" where
  "multiplexing_name v = table_name kMultiplexingNames ''NONE'' v"

definition parse_multiplexing :: "string \<Rightarrow> multiplexing option" where
  "parse_multiplexing text = table_parse kMultiplexingNames text"

definition all_multiplexing_modes :: "multiplexing list" where
  "all_multiplexing_modes = map fst kMultiplexingNames"

datatype backing_class =
    BC_Unknown
  | BC_DedicatedPhysical
  | BC_HardwarePartition
  | BC_VirtualFunction
  | BC_ProcessIsolatedShare
  | BC_ContextIsolatedShare
  | BC_TimeMultiplexedShare
  | BC_CooperativeShared
  | BC_SyntheticHardwarePartition
  | BC_SyntheticVendorVirtualFunction
  | BC_SyntheticRemote
  | BC_SyntheticMigratable

primrec backing_class_value :: "backing_class \<Rightarrow> nat" where
  "backing_class_value BC_Unknown = 0"
| "backing_class_value BC_DedicatedPhysical = 1"
| "backing_class_value BC_HardwarePartition = 2"
| "backing_class_value BC_VirtualFunction = 3"
| "backing_class_value BC_ProcessIsolatedShare = 4"
| "backing_class_value BC_ContextIsolatedShare = 5"
| "backing_class_value BC_TimeMultiplexedShare = 6"
| "backing_class_value BC_CooperativeShared = 7"
| "backing_class_value BC_SyntheticHardwarePartition = 8"
| "backing_class_value BC_SyntheticVendorVirtualFunction = 9"
| "backing_class_value BC_SyntheticRemote = 10"
| "backing_class_value BC_SyntheticMigratable = 11"

definition kBackingClassNames :: "(backing_class \<times> string) list" where
  "kBackingClassNames =
    [(BC_Unknown, ''UNKNOWN''),
     (BC_DedicatedPhysical, ''DEDICATED_PHYSICAL''),
     (BC_HardwarePartition, ''HARDWARE_PARTITION''),
     (BC_VirtualFunction, ''VIRTUAL_FUNCTION''),
     (BC_ProcessIsolatedShare, ''PROCESS_ISOLATED_SHARE''),
     (BC_ContextIsolatedShare, ''CONTEXT_ISOLATED_SHARE''),
     (BC_TimeMultiplexedShare, ''TIME_MULTIPLEXED_SHARE''),
     (BC_CooperativeShared, ''COOPERATIVE_SHARED''),
     (BC_SyntheticHardwarePartition, ''SYNTHETIC_HARDWARE_PARTITION''),
     (BC_SyntheticVendorVirtualFunction, ''SYNTHETIC_VENDOR_VIRTUAL_FUNCTION''),
     (BC_SyntheticRemote, ''SYNTHETIC_REMOTE''),
     (BC_SyntheticMigratable, ''SYNTHETIC_MIGRATABLE'')]"

definition backing_class_name :: "backing_class \<Rightarrow> string" where
  "backing_class_name v = table_name kBackingClassNames ''UNKNOWN'' v"

definition parse_backing_class :: "string \<Rightarrow> backing_class option" where
  "parse_backing_class text = table_parse kBackingClassNames text"

definition all_backing_classes :: "backing_class list" where
  "all_backing_classes = map fst kBackingClassNames"

datatype isolation_class =
    IC_Unknown
  | IC_None
  | IC_Logical
  | IC_Process
  | IC_VendorContext
  | IC_HardwarePartition
  | IC_DedicatedHardware
  | IC_Synthetic

primrec isolation_class_value :: "isolation_class \<Rightarrow> nat" where
  "isolation_class_value IC_Unknown = 0"
| "isolation_class_value IC_None = 1"
| "isolation_class_value IC_Logical = 2"
| "isolation_class_value IC_Process = 3"
| "isolation_class_value IC_VendorContext = 4"
| "isolation_class_value IC_HardwarePartition = 5"
| "isolation_class_value IC_DedicatedHardware = 6"
| "isolation_class_value IC_Synthetic = 7"

definition kIsolationClassNames :: "(isolation_class \<times> string) list" where
  "kIsolationClassNames =
    [(IC_Unknown, ''UNKNOWN''),
     (IC_None, ''NONE''),
     (IC_Logical, ''LOGICAL''),
     (IC_Process, ''PROCESS''),
     (IC_VendorContext, ''VENDOR_CONTEXT''),
     (IC_HardwarePartition, ''HARDWARE_PARTITION''),
     (IC_DedicatedHardware, ''DEDICATED_HARDWARE''),
     (IC_Synthetic, ''SYNTHETIC'')]"

definition isolation_class_name :: "isolation_class \<Rightarrow> string" where
  "isolation_class_name v = table_name kIsolationClassNames ''UNKNOWN'' v"

definition parse_isolation_class :: "string \<Rightarrow> isolation_class option" where
  "parse_isolation_class text = table_parse kIsolationClassNames text"

datatype migration_class =
    MC_Unknown
  | MC_Unsupported
  | MC_RebindOnly
  | MC_DrainAndRestart
  | MC_CheckpointRestore
  | MC_StateReconstruction
  | MC_LiveStateTransfer

primrec migration_class_value :: "migration_class \<Rightarrow> nat" where
  "migration_class_value MC_Unknown = 0"
| "migration_class_value MC_Unsupported = 1"
| "migration_class_value MC_RebindOnly = 2"
| "migration_class_value MC_DrainAndRestart = 3"
| "migration_class_value MC_CheckpointRestore = 4"
| "migration_class_value MC_StateReconstruction = 5"
| "migration_class_value MC_LiveStateTransfer = 6"

definition kMigrationClassNames :: "(migration_class \<times> string) list" where
  "kMigrationClassNames =
    [(MC_Unknown, ''UNKNOWN''),
     (MC_Unsupported, ''UNSUPPORTED''),
     (MC_RebindOnly, ''REBIND_ONLY''),
     (MC_DrainAndRestart, ''DRAIN_AND_RESTART''),
     (MC_CheckpointRestore, ''CHECKPOINT_RESTORE''),
     (MC_StateReconstruction, ''STATE_RECONSTRUCTION''),
     (MC_LiveStateTransfer, ''LIVE_STATE_TRANSFER'')]"

definition migration_class_name :: "migration_class \<Rightarrow> string" where
  "migration_class_name v = table_name kMigrationClassNames ''UNKNOWN'' v"

definition parse_migration_class :: "string \<Rightarrow> migration_class option" where
  "parse_migration_class text = table_parse kMigrationClassNames text"

definition all_migration_classes :: "migration_class list" where
  "all_migration_classes = map fst kMigrationClassNames"

section \<open>Derived attributes\<close>

definition default_multiplexing_for :: "backing_class \<Rightarrow> multiplexing" where
  "default_multiplexing_for klass =
    (case klass of
       BC_DedicatedPhysical \<Rightarrow> MX_Dedicated
     | BC_HardwarePartition \<Rightarrow> MX_HardwarePartitioned
     | BC_SyntheticHardwarePartition \<Rightarrow> MX_HardwarePartitioned
     | BC_VirtualFunction \<Rightarrow> MX_VirtualFunction
     | BC_SyntheticVendorVirtualFunction \<Rightarrow> MX_VirtualFunction
     | BC_ProcessIsolatedShare \<Rightarrow> MX_ProcessIsolated
     | BC_ContextIsolatedShare \<Rightarrow> MX_ContextIsolated
     | BC_TimeMultiplexedShare \<Rightarrow> MX_TimeSliced
     | BC_CooperativeShared \<Rightarrow> MX_CooperativeShared
     | BC_SyntheticRemote \<Rightarrow> MX_Synthetic
     | BC_SyntheticMigratable \<Rightarrow> MX_Synthetic
     | _ \<Rightarrow> MX_None)"

definition class_native_provenance :: "backing_class \<Rightarrow> provenance" where
  "class_native_provenance klass =
    (case klass of
       BC_DedicatedPhysical \<Rightarrow> PV_Real
     | BC_HardwarePartition \<Rightarrow> PV_Real
     | BC_VirtualFunction \<Rightarrow> PV_Real
     | BC_ProcessIsolatedShare \<Rightarrow> PV_Real
     | BC_ContextIsolatedShare \<Rightarrow> PV_Real
     | BC_TimeMultiplexedShare \<Rightarrow> PV_Real
     | BC_CooperativeShared \<Rightarrow> PV_Real
     | BC_SyntheticHardwarePartition \<Rightarrow> PV_Synthetic
     | BC_SyntheticVendorVirtualFunction \<Rightarrow> PV_Synthetic
     | BC_SyntheticRemote \<Rightarrow> PV_Synthetic
     | BC_SyntheticMigratable \<Rightarrow> PV_Synthetic
     | _ \<Rightarrow> PV_Unknown)"

definition backing_class_rank :: "backing_class \<Rightarrow> u32" where
  "backing_class_rank klass =
    (case klass of
       BC_DedicatedPhysical \<Rightarrow> 100
     | BC_HardwarePartition \<Rightarrow> 90
     | BC_VirtualFunction \<Rightarrow> 80
     | BC_ProcessIsolatedShare \<Rightarrow> 60
     | BC_ContextIsolatedShare \<Rightarrow> 50
     | BC_TimeMultiplexedShare \<Rightarrow> 30
     | BC_CooperativeShared \<Rightarrow> 20
     | BC_SyntheticHardwarePartition \<Rightarrow> 12
     | BC_SyntheticVendorVirtualFunction \<Rightarrow> 12
     | BC_SyntheticRemote \<Rightarrow> 10
     | BC_SyntheticMigratable \<Rightarrow> 10
     | _ \<Rightarrow> 0)"

definition migration_moves_live_state :: "migration_class \<Rightarrow> bool" where
  "migration_moves_live_state klass \<longleftrightarrow> klass = MC_LiveStateTransfer"

definition migration_requires_drain :: "migration_class \<Rightarrow> bool" where
  "migration_requires_drain klass =
    (case klass of
       MC_RebindOnly \<Rightarrow> False
     | MC_DrainAndRestart \<Rightarrow> True
     | MC_CheckpointRestore \<Rightarrow> True
     | MC_StateReconstruction \<Rightarrow> True
     | MC_LiveStateTransfer \<Rightarrow> True
     | _ \<Rightarrow> True)"

section \<open>Facts\<close>

lemma provenance_value_inj [simp]: "provenance_value a = provenance_value b \<longleftrightarrow> a = b"
  by (cases a; cases b) simp_all

lemma kProvenanceNames_keys:
  "map fst kProvenanceNames =
    [PV_Unknown, PV_Real, PV_Synthetic, PV_Unsupported]"
  by (simp add: kProvenanceNames_def)

interpretation provenance_text: name_table kProvenanceNames
proof
  fix v
  have "v \<in> set (map fst kProvenanceNames)" unfolding kProvenanceNames_keys by (cases v) simp_all
  then show "v \<in> fst ` set kProvenanceNames" by simp
  show "distinct (map fst kProvenanceNames)" by (simp add: kProvenanceNames_keys)
  show "distinct (map snd kProvenanceNames)" by code_simp
qed

lemma multiplexing_value_inj [simp]: "multiplexing_value a = multiplexing_value b \<longleftrightarrow> a = b"
  by (cases a; cases b) simp_all

lemma kMultiplexingNames_keys:
  "map fst kMultiplexingNames =
    [MX_None, MX_Dedicated, MX_HardwarePartitioned, MX_VirtualFunction,
     MX_ProcessIsolated, MX_ContextIsolated, MX_TimeSliced, MX_CooperativeShared,
     MX_Synthetic]"
  by (simp add: kMultiplexingNames_def)

interpretation multiplexing_text: name_table kMultiplexingNames
proof
  fix v
  have "v \<in> set (map fst kMultiplexingNames)" unfolding kMultiplexingNames_keys by (cases v) simp_all
  then show "v \<in> fst ` set kMultiplexingNames" by simp
  show "distinct (map fst kMultiplexingNames)" by (simp add: kMultiplexingNames_keys)
  show "distinct (map snd kMultiplexingNames)" by code_simp
qed

lemma backing_class_value_inj [simp]: "backing_class_value a = backing_class_value b \<longleftrightarrow> a = b"
  by (cases a; cases b) simp_all

lemma kBackingClassNames_keys:
  "map fst kBackingClassNames =
    [BC_Unknown, BC_DedicatedPhysical, BC_HardwarePartition, BC_VirtualFunction,
     BC_ProcessIsolatedShare, BC_ContextIsolatedShare, BC_TimeMultiplexedShare, BC_CooperativeShared,
     BC_SyntheticHardwarePartition, BC_SyntheticVendorVirtualFunction, BC_SyntheticRemote, BC_SyntheticMigratable]"
  by (simp add: kBackingClassNames_def)

interpretation backing_class_text: name_table kBackingClassNames
proof
  fix v
  have "v \<in> set (map fst kBackingClassNames)" unfolding kBackingClassNames_keys by (cases v) simp_all
  then show "v \<in> fst ` set kBackingClassNames" by simp
  show "distinct (map fst kBackingClassNames)" by (simp add: kBackingClassNames_keys)
  show "distinct (map snd kBackingClassNames)" by code_simp
qed

lemma isolation_class_value_inj [simp]: "isolation_class_value a = isolation_class_value b \<longleftrightarrow> a = b"
  by (cases a; cases b) simp_all

lemma kIsolationClassNames_keys:
  "map fst kIsolationClassNames =
    [IC_Unknown, IC_None, IC_Logical, IC_Process,
     IC_VendorContext, IC_HardwarePartition, IC_DedicatedHardware, IC_Synthetic]"
  by (simp add: kIsolationClassNames_def)

interpretation isolation_class_text: name_table kIsolationClassNames
proof
  fix v
  have "v \<in> set (map fst kIsolationClassNames)" unfolding kIsolationClassNames_keys by (cases v) simp_all
  then show "v \<in> fst ` set kIsolationClassNames" by simp
  show "distinct (map fst kIsolationClassNames)" by (simp add: kIsolationClassNames_keys)
  show "distinct (map snd kIsolationClassNames)" by code_simp
qed

lemma migration_class_value_inj [simp]: "migration_class_value a = migration_class_value b \<longleftrightarrow> a = b"
  by (cases a; cases b) simp_all

lemma kMigrationClassNames_keys:
  "map fst kMigrationClassNames =
    [MC_Unknown, MC_Unsupported, MC_RebindOnly, MC_DrainAndRestart,
     MC_CheckpointRestore, MC_StateReconstruction, MC_LiveStateTransfer]"
  by (simp add: kMigrationClassNames_def)

interpretation migration_class_text: name_table kMigrationClassNames
proof
  fix v
  have "v \<in> set (map fst kMigrationClassNames)" unfolding kMigrationClassNames_keys by (cases v) simp_all
  then show "v \<in> fst ` set kMigrationClassNames" by simp
  show "distinct (map fst kMigrationClassNames)" by (simp add: kMigrationClassNames_keys)
  show "distinct (map snd kMigrationClassNames)" by code_simp
qed

text \<open>The rank order never places a synthetic mechanism at or above a real one, and no class is
  ranked above 100: a contract's minimum rank of 13 or more excludes every synthetic backing.\<close>

theorem synthetic_ranks_below_real:
  "(class_native_provenance k = PV_Synthetic \<longleftrightarrow> 10 \<le> backing_class_rank k \<and> backing_class_rank k \<le> 12) \<and>
   (class_native_provenance k = PV_Real \<longleftrightarrow> 20 \<le> backing_class_rank k) \<and> backing_class_rank k \<le> 100"
  by (cases k) (simp_all add: class_native_provenance_def backing_class_rank_def)

end
