(* ===== verification/AV_Isolation.thy ===== *)
theory AV_Isolation
  imports AV_Ids AV_Hash AV_Taxonomy
begin

text \<open>
  Isolation profiles (\<open>include/av/isolation.hpp\<close>, \<open>src/isolation.cpp\<close>): eleven dimensions, five
  ordered states, a profile with at most one claim per dimension kept sorted by dimension, and the
  evaluation of requirements against a profile. \<open>canonical()\<close> renders a profile as text for display
  only and is not modelled; \<open>fingerprint()\<close> is.

  A profile is shown to behave as a map from dimensions to claims, and \<open>evaluate_isolation\<close> to decide
  exactly whether every requirement is met, with an unproven dimension never meeting a requirement
  above UNKNOWN.
\<close>

section \<open>Dimensions and states\<close>

datatype isolation_dimension =
    ID_Memory
  | ID_ExecutionContext
  | ID_AddressSpace
  | ID_Fault
  | ID_Reset
  | ID_Performance
  | ID_Telemetry
  | ID_AdminControl
  | ID_PeerVisibility
  | ID_Dma
  | ID_TenantState

primrec isolation_dimension_value :: "isolation_dimension \<Rightarrow> nat" where
  "isolation_dimension_value ID_Memory = 0"
| "isolation_dimension_value ID_ExecutionContext = 1"
| "isolation_dimension_value ID_AddressSpace = 2"
| "isolation_dimension_value ID_Fault = 3"
| "isolation_dimension_value ID_Reset = 4"
| "isolation_dimension_value ID_Performance = 5"
| "isolation_dimension_value ID_Telemetry = 6"
| "isolation_dimension_value ID_AdminControl = 7"
| "isolation_dimension_value ID_PeerVisibility = 8"
| "isolation_dimension_value ID_Dma = 9"
| "isolation_dimension_value ID_TenantState = 10"

definition isolation_dimension_names :: "(isolation_dimension \<times> string) list" where
  "isolation_dimension_names =
    [(ID_Memory, ''MEMORY''),
     (ID_ExecutionContext, ''EXECUTION_CONTEXT''),
     (ID_AddressSpace, ''ADDRESS_SPACE''),
     (ID_Fault, ''FAULT''),
     (ID_Reset, ''RESET''),
     (ID_Performance, ''PERFORMANCE''),
     (ID_Telemetry, ''TELEMETRY''),
     (ID_AdminControl, ''ADMIN_CONTROL''),
     (ID_PeerVisibility, ''PEER_VISIBILITY''),
     (ID_Dma, ''DMA''),
     (ID_TenantState, ''TENANT_STATE'')]"

definition isolation_dimension_name :: "isolation_dimension \<Rightarrow> string" where
  "isolation_dimension_name v = table_name isolation_dimension_names ''UNKNOWN'' v"

definition parse_isolation_dimension :: "string \<Rightarrow> isolation_dimension option" where
  "parse_isolation_dimension text = table_parse isolation_dimension_names text"

definition all_isolation_dimensions :: "isolation_dimension list" where
  "all_isolation_dimensions = map fst isolation_dimension_names"

datatype isolation_state =
    IS_Unsupported
  | IS_Unknown
  | IS_Shared
  | IS_Partial
  | IS_Isolated

primrec isolation_state_value :: "isolation_state \<Rightarrow> nat" where
  "isolation_state_value IS_Unsupported = 0"
| "isolation_state_value IS_Unknown = 1"
| "isolation_state_value IS_Shared = 2"
| "isolation_state_value IS_Partial = 3"
| "isolation_state_value IS_Isolated = 4"

definition isolation_state_names :: "(isolation_state \<times> string) list" where
  "isolation_state_names =
    [(IS_Unsupported, ''UNSUPPORTED''),
     (IS_Unknown, ''UNKNOWN''),
     (IS_Shared, ''SHARED''),
     (IS_Partial, ''PARTIAL''),
     (IS_Isolated, ''ISOLATED'')]"

definition isolation_state_name :: "isolation_state \<Rightarrow> string" where
  "isolation_state_name v = table_name isolation_state_names ''UNKNOWN'' v"

definition parse_isolation_state :: "string \<Rightarrow> isolation_state option" where
  "parse_isolation_state text = table_parse isolation_state_names text"

section \<open>Profiles\<close>

record isolation_claim =
  ic_dimension :: isolation_dimension
  ic_state :: isolation_state
  ic_evidence :: ev_id
  ic_evidence_gen :: ev_gen
  ic_mechanism :: string
  ic_rationale :: string

type_synonym isolation_profile = "isolation_claim list"

text \<open>\<open>std::lower_bound\<close> on the sorted claims, then replace in place or insert there.\<close>

fun profile_set :: "isolation_claim \<Rightarrow> isolation_profile \<Rightarrow> isolation_profile" where
  "profile_set claim [] = [claim]"
| "profile_set claim (c # cs) =
    (if isolation_dimension_value (ic_dimension c) < isolation_dimension_value (ic_dimension claim)
     then c # profile_set claim cs
     else if ic_dimension c = ic_dimension claim then claim # cs
     else claim # c # cs)"

definition profile_find :: "isolation_profile \<Rightarrow> isolation_dimension \<Rightarrow> isolation_claim option" where
  "profile_find profile dimension = List.find (\<lambda>c. ic_dimension c = dimension) profile"

definition state_of :: "isolation_profile \<Rightarrow> isolation_dimension \<Rightarrow> isolation_state" where
  "state_of profile dimension =
    (case profile_find profile dimension of None \<Rightarrow> IS_Unknown | Some c \<Rightarrow> ic_state c)"

definition profile_fingerprint :: "isolation_profile \<Rightarrow> u64" where
  "profile_fingerprint profile =
    fold (\<lambda>d h. fnv_update (fnv_update (fnv_update (fnv_update h (text_bytes (isolation_dimension_name d)))
        (text_bytes ''=''))
        (text_bytes (case profile_find profile d of None \<Rightarrow> ''UNKNOWN'' | Some c \<Rightarrow> isolation_state_name (ic_state c))))
        (text_bytes ''|''))
      all_isolation_dimensions 0xCBF29CE484222325"

definition profile_uniform :: "isolation_state \<Rightarrow> string \<Rightarrow> string \<Rightarrow> isolation_profile" where
  "profile_uniform state mechanism rationale =
    fold (\<lambda>d. profile_set
      \<lparr> ic_dimension = d, ic_state = state, ic_evidence = no_id, ic_evidence_gen = no_gen,
        ic_mechanism = mechanism, ic_rationale = rationale \<rparr>)
      all_isolation_dimensions []"

definition isolation_state_at_least :: "isolation_state \<Rightarrow> isolation_state \<Rightarrow> bool" where
  "isolation_state_at_least have_st required \<longleftrightarrow> isolation_state_value have_st \<ge> isolation_state_value required"

record isolation_requirement =
  ir_dimension :: isolation_dimension
  ir_minimum :: isolation_state

record isolation_evaluation =
  ie_satisfied :: bool
  ie_unmet :: "isolation_requirement list"

definition requirement_order :: "isolation_requirement \<Rightarrow> nat" where
  "requirement_order r = isolation_dimension_value (ir_dimension r)"

text \<open>One round of the evaluation loop.\<close>

definition evaluate_step ::
  "isolation_profile \<Rightarrow> isolation_requirement \<Rightarrow> isolation_evaluation \<Rightarrow> isolation_evaluation" where
  "evaluate_step profile r e =
    (if \<not> isolation_state_at_least (state_of profile (ir_dimension r)) (ir_minimum r)
     then e\<lparr> ie_satisfied := False, ie_unmet := ie_unmet e @ [r] \<rparr> else e)"

definition evaluate_isolation ::
  "isolation_profile \<Rightarrow> isolation_requirement list \<Rightarrow> isolation_evaluation" where
  "evaluate_isolation profile requirements =
    fold (evaluate_step profile) (sort_key requirement_order requirements)
      \<lparr> ie_satisfied = True, ie_unmet = [] \<rparr>"

section \<open>A profile is a map\<close>

lemma isolation_dimension_value_inj [simp]: "isolation_dimension_value a = isolation_dimension_value b \<longleftrightarrow> a = b"
  by (cases a; cases b) simp_all

lemma isolation_dimension_names_keys:
  "map fst isolation_dimension_names =
    [ID_Memory, ID_ExecutionContext, ID_AddressSpace, ID_Fault,
     ID_Reset, ID_Performance, ID_Telemetry, ID_AdminControl,
     ID_PeerVisibility, ID_Dma, ID_TenantState]"
  by (simp add: isolation_dimension_names_def)

interpretation isolation_dimension_text: name_table isolation_dimension_names
proof
  fix v
  have "v \<in> set (map fst isolation_dimension_names)" unfolding isolation_dimension_names_keys by (cases v) simp_all
  then show "v \<in> fst ` set isolation_dimension_names" by simp
  show "distinct (map fst isolation_dimension_names)" by (simp add: isolation_dimension_names_keys)
  show "distinct (map snd isolation_dimension_names)" by code_simp
qed

lemma isolation_state_value_inj [simp]: "isolation_state_value a = isolation_state_value b \<longleftrightarrow> a = b"
  by (cases a; cases b) simp_all

lemma isolation_state_names_keys:
  "map fst isolation_state_names =
    [IS_Unsupported, IS_Unknown, IS_Shared, IS_Partial,
     IS_Isolated]"
  by (simp add: isolation_state_names_def)

interpretation isolation_state_text: name_table isolation_state_names
proof
  fix v
  have "v \<in> set (map fst isolation_state_names)" unfolding isolation_state_names_keys by (cases v) simp_all
  then show "v \<in> fst ` set isolation_state_names" by simp
  show "distinct (map fst isolation_state_names)" by (simp add: isolation_state_names_keys)
  show "distinct (map snd isolation_state_names)" by code_simp
qed

definition profile_sorted :: "isolation_profile \<Rightarrow> bool" where
  "profile_sorted p \<longleftrightarrow> sorted_wrt (<) (map (isolation_dimension_value \<circ> ic_dimension) p)"

lemma profile_set_dims:
  "set (map ic_dimension (profile_set c p)) = insert (ic_dimension c) (set (map ic_dimension p))"
  by (induction c p rule: profile_set.induct) auto

lemma profile_sorted_Nil [simp]: "profile_sorted []"
  by (simp add: profile_sorted_def)

lemma profile_sorted_set: "profile_sorted p \<Longrightarrow> profile_sorted (profile_set c p)"
proof (induction c p rule: profile_set.induct)
  case (2 claim c cs)
  have "\<forall>x \<in> set (profile_set claim cs).
      ic_dimension x = ic_dimension claim \<or> ic_dimension x \<in> set (map ic_dimension cs)"
    using profile_set_dims [of claim cs] by auto
  moreover have "isolation_dimension_value (ic_dimension claim) < isolation_dimension_value (ic_dimension c)"
    if "\<not> isolation_dimension_value (ic_dimension c) < isolation_dimension_value (ic_dimension claim)"
      "ic_dimension c \<noteq> ic_dimension claim"
    using that by (metis isolation_dimension_value_inj linorder_neqE_nat)
  ultimately show ?case using 2 by (fastforce simp: profile_sorted_def)
qed (simp add: profile_sorted_def)

lemma profile_find_set:
  "profile_find (profile_set c p) d = (if d = ic_dimension c then Some c else profile_find p d)"
  unfolding profile_find_def by (induction c p rule: profile_set.induct) auto

lemma state_of_set:
  "state_of (profile_set c p) d = (if d = ic_dimension c then ic_state c else state_of p d)"
  by (simp add: state_of_def profile_find_set)

lemma all_dimensions: "d \<in> set all_isolation_dimensions"
  unfolding all_isolation_dimensions_def using isolation_dimension_text.complete by force

lemma state_of_fold_set:
  "(\<And>d. ic_dimension (f d) = d) \<Longrightarrow>
   state_of (fold (\<lambda>d. profile_set (f d)) ds p) d = (if d \<in> set ds then ic_state (f d) else state_of p d)"
  by (induction ds arbitrary: p) (auto simp: state_of_set)

lemma profile_sorted_fold: "profile_sorted p \<Longrightarrow> profile_sorted (fold (\<lambda>d. profile_set (f d)) ds p)"
  by (induction ds arbitrary: p) (simp_all add: profile_sorted_set)

lemma uniform_state_of: "state_of (profile_uniform s m r) d = s"
  unfolding profile_uniform_def by (subst state_of_fold_set) (simp_all add: all_dimensions)

lemma uniform_sorted: "profile_sorted (profile_uniform s m r)"
  unfolding profile_uniform_def by (rule profile_sorted_fold) simp

section \<open>Evaluation\<close>

abbreviation requirement_met :: "isolation_profile \<Rightarrow> isolation_requirement \<Rightarrow> bool" where
  "requirement_met p r \<equiv> isolation_state_at_least (state_of p (ir_dimension r)) (ir_minimum r)"

lemma evaluate_fold:
  "fold (evaluate_step p) rs e =
    e\<lparr> ie_satisfied := ie_satisfied e \<and> list_all (requirement_met p) rs,
       ie_unmet := ie_unmet e @ filter (\<lambda>r. \<not> requirement_met p r) rs \<rparr>"
  by (induction rs arbitrary: e) (auto simp: evaluate_step_def)

text \<open>\<open>evaluate_isolation\<close> reports satisfied exactly when every requirement is met by the profile,
  lists exactly the unmet requirements, and orders them by dimension.\<close>

theorem evaluate_isolation_correct:
  "ie_satisfied (evaluate_isolation p rs) = list_all (requirement_met p) rs \<and>
   set (ie_unmet (evaluate_isolation p rs)) = {r \<in> set rs. \<not> requirement_met p r} \<and>
   sorted (map requirement_order (ie_unmet (evaluate_isolation p rs))) \<and>
   (ie_satisfied (evaluate_isolation p rs) = (ie_unmet (evaluate_isolation p rs) = []))"
proof -
  have "list_all P (sort_key requirement_order rs) = list_all P rs" for P
    by (simp add: list_all_iff)
  then show ?thesis
    by (auto simp: evaluate_isolation_def evaluate_fold sorted_filter list_all_iff filter_empty_conv)
qed

lemma unknown_never_satisfies:
  "isolation_state_at_least IS_Unknown m \<longleftrightarrow> m = IS_Unsupported \<or> m = IS_Unknown"
  by (cases m) (simp_all add: isolation_state_at_least_def)

text \<open>A dimension about which nothing was claimed meets no requirement for SHARED or more.\<close>

lemma missing_dimension_unmet:
  "profile_find p (ir_dimension r) = None \<Longrightarrow>
   requirement_met p r \<longleftrightarrow> ir_minimum r = IS_Unsupported \<or> ir_minimum r = IS_Unknown"
  by (simp add: state_of_def unknown_never_satisfies)

end
