(* ===== verification/AV_Contract.thy ===== *)
theory AV_Contract
  imports AV_Isolation
begin

text \<open>
  Resource contracts (\<open>include/av/contract.hpp\<close>, \<open>src/contract.cpp\<close>): the record, \<open>normalize\<close>,
  \<open>validate\<close> and the permission queries. \<open>canonical\<close> and \<open>fingerprint\<close> render a contract for
  inspection and are not modelled.

  Shown: normalisation is idempotent, keeps what the contract permits, and leaves isolation
  requirements strictly ordered by dimension, so that the repeated-dimension check of \<open>validate\<close>
  can never fire on a normalised contract; and an exact characterisation of \<open>validate\<close>.
\<close>

section \<open>The contract\<close>

record resource_contract =
  rc_id :: rc_id
  rc_generation :: rc_gen
  rc_memory_ceiling_bytes :: u64
  rc_compute_share_milli :: u32
  rc_max_streams :: u32
  rc_max_concurrency :: u32
  rc_bandwidth_allowance :: u64
  rc_exclusivity_required :: bool
  rc_minimum_backing_rank :: u32
  rc_allowed_backing_classes :: "backing_class list"
  rc_allowed_multiplexing_modes :: "multiplexing list"
  rc_required_isolation :: "isolation_requirement list"
  rc_migration_allowed :: bool
  rc_allowed_migration_classes :: "migration_class list"
  rc_oversubscription_allowed :: bool
  rc_burst_allowed :: bool

definition empty_contract :: resource_contract where
  "empty_contract =
    \<lparr> rc_id = no_id, rc_generation = no_gen, rc_memory_ceiling_bytes = 0, rc_compute_share_milli = 0,
      rc_max_streams = 0, rc_max_concurrency = 0, rc_bandwidth_allowance = 0,
      rc_exclusivity_required = False, rc_minimum_backing_rank = 0, rc_allowed_backing_classes = [],
      rc_allowed_multiplexing_modes = [], rc_required_isolation = [], rc_migration_allowed = False,
      rc_allowed_migration_classes = [], rc_oversubscription_allowed = False, rc_burst_allowed = False \<rparr>"

definition contract_normalize :: "resource_contract \<Rightarrow> resource_contract" where
  "contract_normalize c =
    c\<lparr> rc_allowed_backing_classes := sort_uniq backing_class_value (rc_allowed_backing_classes c),
       rc_allowed_multiplexing_modes := sort_uniq multiplexing_value (rc_allowed_multiplexing_modes c),
       rc_allowed_migration_classes := sort_uniq migration_class_value (rc_allowed_migration_classes c),
       rc_required_isolation := sort_uniq requirement_order (rc_required_isolation c) \<rparr>"

text \<open>\<open>for (i = 1; i < size; ++i) if (req[i - 1].dimension == req[i].dimension) ...\<close>\<close>

fun repeats_dimension :: "isolation_requirement list \<Rightarrow> bool" where
  "repeats_dimension (a # b # rs) \<longleftrightarrow> ir_dimension a = ir_dimension b \<or> repeats_dimension (b # rs)"
| "repeats_dimension _ \<longleftrightarrow> False"

definition contract_validate :: "resource_contract \<Rightarrow> status_code" where
  "contract_validate c = first_error
    [refuse_if (rc_compute_share_milli c > 1000) SC_ContractInvalid,
     refuse_if (rc_max_streams c > 65536) SC_ContractInvalid,
     refuse_if (rc_max_concurrency c > 65536) SC_ContractInvalid,
     refuse_if (list_ex (\<lambda>k. k = BC_Unknown) (rc_allowed_backing_classes c)) SC_ContractInvalid,
     refuse_if (list_ex (\<lambda>m. m = MX_None) (rc_allowed_multiplexing_modes c)) SC_ContractInvalid,
     refuse_if (list_ex (\<lambda>k. k = MC_Unknown \<or> k = MC_Unsupported) (rc_allowed_migration_classes c))
       SC_ContractInvalid,
     refuse_if (rc_exclusivity_required c \<and> rc_oversubscription_allowed c) SC_ContractInvalid,
     refuse_if (list_ex (\<lambda>r. ir_minimum r = IS_Unsupported) (rc_required_isolation c)) SC_ContractInvalid,
     refuse_if (repeats_dimension (rc_required_isolation c)) SC_ContractInvalid]"

definition contract_permits_backing_class :: "resource_contract \<Rightarrow> backing_class \<Rightarrow> bool" where
  "contract_permits_backing_class c klass =
    (if rc_allowed_backing_classes c = [] then True else klass \<in> set (rc_allowed_backing_classes c))"

definition contract_permits_multiplexing :: "resource_contract \<Rightarrow> multiplexing \<Rightarrow> bool" where
  "contract_permits_multiplexing c mode =
    (if rc_allowed_multiplexing_modes c = [] then True else mode \<in> set (rc_allowed_multiplexing_modes c))"

definition contract_permits_migration_class :: "resource_contract \<Rightarrow> migration_class \<Rightarrow> bool" where
  "contract_permits_migration_class c klass =
    (if \<not> rc_migration_allowed c then False
     else if rc_allowed_migration_classes c = [] then True
     else klass \<in> set (rc_allowed_migration_classes c))"

section \<open>Normalisation\<close>

lemma sort_uniq_Nil_iff [simp]: "sort_uniq f xs = [] \<longleftrightarrow> xs = []"
  using sort_uniq_keys [of f xs] by (metis image_is_empty set_empty)

lemma enum_sort_uniq_set [simp]:
  "set (sort_uniq backing_class_value bs) = set bs"
  "set (sort_uniq multiplexing_value ms) = set ms"
  "set (sort_uniq migration_class_value gs) = set gs"
  by (simp_all add: sort_uniq_set inj_on_def)

lemma strict_no_repeat:
  "sorted_wrt (<) (map requirement_order rs) \<Longrightarrow> \<not> repeats_dimension rs"
  by (induction rs rule: repeats_dimension.induct) (auto simp: requirement_order_def)

lemma normalize_no_repeat [simp]: "\<not> repeats_dimension (sort_uniq requirement_order rs)"
  by (rule strict_no_repeat) simp

text \<open>Normalising a contract twice is normalising it once; it changes none of the permissions the
  contract grants, keeps the constrained dimensions, and the result never repeats a dimension.\<close>

theorem contract_normalize_correct:
  "contract_normalize (contract_normalize c) = contract_normalize c \<and>
   contract_permits_backing_class (contract_normalize c) k = contract_permits_backing_class c k \<and>
   contract_permits_multiplexing (contract_normalize c) m = contract_permits_multiplexing c m \<and>
   contract_permits_migration_class (contract_normalize c) g = contract_permits_migration_class c g \<and>
   requirement_order ` set (rc_required_isolation (contract_normalize c)) =
     requirement_order ` set (rc_required_isolation c) \<and>
   \<not> repeats_dimension (rc_required_isolation (contract_normalize c))"
  by (simp add: contract_normalize_def contract_permits_backing_class_def
      contract_permits_multiplexing_def contract_permits_migration_class_def)

text \<open>Which of two requirements on one dimension survives is the first one: a later, stricter
  requirement for the same dimension is dropped by \<open>normalize\<close>, and \<open>validate\<close> does not see it.\<close>

lemma normalize_drops_stricter_requirement:
  "rc_required_isolation (contract_normalize (empty_contract\<lparr> rc_required_isolation :=
     [\<lparr> ir_dimension = ID_Memory, ir_minimum = IS_Shared \<rparr>,
      \<lparr> ir_dimension = ID_Memory, ir_minimum = IS_Isolated \<rparr>] \<rparr>)) =
   [\<lparr> ir_dimension = ID_Memory, ir_minimum = IS_Shared \<rparr>]"
  by (simp add: contract_normalize_def empty_contract_def sort_uniq_def requirement_order_def)

section \<open>Validation\<close>

lemma contract_validate_code: "contract_validate c \<in> {SC_Ok, SC_ContractInvalid}"
  by (simp add: contract_validate_def refuse_if_def)

text \<open>What a validated contract guarantees: bounded shares and widths, no UNKNOWN or NONE among
  the permissions, no unsatisfiable isolation requirement, and never exclusivity together with
  oversubscription. Every refusal carries the code ContractInvalid.\<close>

theorem contract_validate_iff:
  "contract_validate c =
    (if rc_compute_share_milli c \<le> 1000 \<and> rc_max_streams c \<le> 65536 \<and> rc_max_concurrency c \<le> 65536 \<and>
        BC_Unknown \<notin> set (rc_allowed_backing_classes c) \<and>
        MX_None \<notin> set (rc_allowed_multiplexing_modes c) \<and>
        MC_Unknown \<notin> set (rc_allowed_migration_classes c) \<and>
        MC_Unsupported \<notin> set (rc_allowed_migration_classes c) \<and>
        \<not> (rc_exclusivity_required c \<and> rc_oversubscription_allowed c) \<and>
        IS_Unsupported \<notin> ir_minimum ` set (rc_required_isolation c) \<and>
        \<not> repeats_dimension (rc_required_isolation c)
     then SC_Ok else SC_ContractInvalid)"
proof -
  have "contract_validate c = SC_Ok \<longleftrightarrow>
      rc_compute_share_milli c \<le> 1000 \<and> rc_max_streams c \<le> 65536 \<and> rc_max_concurrency c \<le> 65536 \<and>
        BC_Unknown \<notin> set (rc_allowed_backing_classes c) \<and>
        MX_None \<notin> set (rc_allowed_multiplexing_modes c) \<and>
        MC_Unknown \<notin> set (rc_allowed_migration_classes c) \<and>
        MC_Unsupported \<notin> set (rc_allowed_migration_classes c) \<and>
        \<not> (rc_exclusivity_required c \<and> rc_oversubscription_allowed c) \<and>
        IS_Unsupported \<notin> ir_minimum ` set (rc_required_isolation c) \<and>
        \<not> repeats_dimension (rc_required_isolation c)"
    by (auto simp: contract_validate_def list_ex_iff not_less image_iff dest: sym)
  then show ?thesis using contract_validate_code [of c] by auto
qed

lemma contract_validate_empty: "contract_validate empty_contract = SC_Ok"
  by (simp add: contract_validate_def empty_contract_def refuse_if_def)

end
