(* ===== verification/AV_Codec.thy ===== *)
theory AV_Codec
  imports AV_Status
begin

text \<open>
  The canonical byte codec (\<open>include/av/codec.hpp\<close>, \<open>src/codec.cpp\<close>, and the \<open>decode_list\<close> template of
  \<open>src/record_codec.cpp\<close>).

  An encoder method is the function from its argument to the bytes it appends. A decoder is the
  record of the source (\<open>data_\<close>, \<open>pos_\<close>, \<open>depth_\<close>, \<open>limits_\<close>); a decoder method returns either the
  failure, after which the source abandons the decoder, or the value with the advanced decoder.

  The locale \<open>byte_codec\<close> is the contract between an encoder and its decoder: wherever the bytes of
  a value stand in the input, the decoder returns that value and stops right behind them. It is
  interpreted for every scalar codec of the source, and the list codec is proved once inside it.
\<close>

unbundle bit_operations_syntax

section \<open>Encoder\<close>

type_synonym bytes = "u8 list"

text \<open>\<open>for (i = 0; i < n; ++i) u8((value >> (8 * i)) & 0xFF);\<close>\<close>

definition le_bytes :: "nat \<Rightarrow> 'w::len word \<Rightarrow> bytes" where
  "le_bytes n v = map (\<lambda>i. ucast (drop_bit (8 * i) v AND 0xFF)) [0..<n]"

definition enc_u8 :: "u8 \<Rightarrow> bytes" where
  "enc_u8 v = [v]"

definition enc_boolean :: "bool \<Rightarrow> bytes" where
  "enc_boolean b = enc_u8 (if b then 1 else 0)"

definition enc_u16 :: "u16 \<Rightarrow> bytes" where
  "enc_u16 v = [ucast (v AND 0xFF), ucast (drop_bit 8 v AND 0xFF)]"

definition enc_u32 :: "u32 \<Rightarrow> bytes" where
  "enc_u32 v = le_bytes 4 v"

definition enc_u64 :: "u64 \<Rightarrow> bytes" where
  "enc_u64 v = le_bytes 8 v"

definition char_byte :: "char \<Rightarrow> u8" where
  "char_byte c = of_nat (of_char c)"

definition byte_char :: "u8 \<Rightarrow> char" where
  "byte_char b = char_of (unat b)"

definition enc_raw :: "bytes \<Rightarrow> bytes" where
  "enc_raw v = (if length v > 0xFFFFFFFF then [] else enc_u32 (of_nat (length v)) @ v)"

definition enc_str :: "string \<Rightarrow> bytes" where
  "enc_str v =
    (if length v > 0xFFFFFFFF then [] else enc_u32 (of_nat (length v)) @ map char_byte v)"

definition enc_list :: "('a \<Rightarrow> bytes) \<Rightarrow> 'a list \<Rightarrow> bytes" where
  "enc_list item xs = enc_u32 (of_nat (length xs)) @ concat (map item xs)"

section \<open>Decoder\<close>

record decode_limits =
  max_string :: nat
  max_bytes :: nat
  max_items :: nat
  max_depth :: nat

definition default_limits :: decode_limits where
  "default_limits = \<lparr> max_string = 64 * 1024, max_bytes = 1024 * 1024, max_items = 65536, max_depth = 16 \<rparr>"

record decoder =
  dec_data :: bytes
  dec_pos :: nat
  dec_depth :: nat
  dec_limits :: decode_limits

definition decoder_of :: "bytes \<Rightarrow> decode_limits \<Rightarrow> decoder" where
  "decoder_of bs lim = \<lparr> dec_data = bs, dec_pos = 0, dec_depth = 0, dec_limits = lim \<rparr>"

definition remaining :: "decoder \<Rightarrow> nat" where
  "remaining d = length (dec_data d) - dec_pos d"

definition at_end :: "decoder \<Rightarrow> bool" where
  "at_end d \<longleftrightarrow> length (dec_data d) \<le> dec_pos d"

definition take_span :: "nat \<Rightarrow> decoder \<Rightarrow> (bytes \<times> decoder) result" where
  "take_span n d =
    (if n > remaining d then Inl SC_TruncatedState
     else Inr (take n (drop (dec_pos d) (dec_data d)), d\<lparr> dec_pos := dec_pos d + n \<rparr>))"

text \<open>\<open>value |= static_cast<uintN_t>(span[i]) << (8 * i);\<close>\<close>

definition le_word :: "bytes \<Rightarrow> 'w::len word" where
  "le_word bs = fold (\<lambda>i v. v OR push_bit (8 * i) (ucast (bs ! i))) [0..<length bs] 0"

definition dec_u8 :: "decoder \<Rightarrow> (u8 \<times> decoder) result" where
  "dec_u8 d = (case take_span 1 d of Inl e \<Rightarrow> Inl e | Inr (s, d') \<Rightarrow> Inr (s ! 0, d'))"

definition dec_u16 :: "decoder \<Rightarrow> (u16 \<times> decoder) result" where
  "dec_u16 d =
    (case take_span 2 d of Inl e \<Rightarrow> Inl e
     | Inr (s, d') \<Rightarrow> Inr (ucast (s ! 0) OR push_bit 8 (ucast (s ! 1)), d'))"

definition dec_u32 :: "decoder \<Rightarrow> (u32 \<times> decoder) result" where
  "dec_u32 d = (case take_span 4 d of Inl e \<Rightarrow> Inl e | Inr (s, d') \<Rightarrow> Inr (le_word s, d'))"

definition dec_u64 :: "decoder \<Rightarrow> (u64 \<times> decoder) result" where
  "dec_u64 d = (case take_span 8 d of Inl e \<Rightarrow> Inl e | Inr (s, d') \<Rightarrow> Inr (le_word s, d'))"

definition dec_boolean :: "decoder \<Rightarrow> (bool \<times> decoder) result" where
  "dec_boolean d =
    (case dec_u8 d of Inl e \<Rightarrow> Inl e
     | Inr (v, d') \<Rightarrow> if v > 1 then Inl SC_MalformedFrame else Inr (v = 1, d'))"

definition dec_str :: "decoder \<Rightarrow> (string \<times> decoder) result" where
  "dec_str d =
    (case dec_u32 d of Inl e \<Rightarrow> Inl e
     | Inr (n, d') \<Rightarrow>
         if unat n > max_string (dec_limits d') then Inl SC_LimitExceeded
         else case take_span (unat n) d' of Inl e \<Rightarrow> Inl e | Inr (s, d'') \<Rightarrow> Inr (map byte_char s, d''))"

definition raw_field :: "decoder \<Rightarrow> (bytes \<times> decoder) result" where
  "raw_field d =
    (case dec_u32 d of Inl e \<Rightarrow> Inl e
     | Inr (n, d') \<Rightarrow>
         if unat n > max_bytes (dec_limits d') then Inl SC_LimitExceeded else take_span (unat n) d')"

definition depth_enter :: "decoder \<Rightarrow> (nat \<times> decoder) result" where
  "depth_enter d =
    (if dec_depth d + 1 > max_depth (dec_limits d) then Inl SC_LimitExceeded
     else Inr (dec_depth d + 1, d\<lparr> dec_depth := dec_depth d + 1 \<rparr>))"

definition depth_leave :: "decoder \<Rightarrow> decoder" where
  "depth_leave d = d\<lparr> dec_depth := dec_depth d - 1 \<rparr>"

definition list_header :: "nat \<Rightarrow> decoder \<Rightarrow> (nat \<times> decoder) result" where
  "list_header max_allowed d =
    (case depth_enter d of Inl e \<Rightarrow> Inl e
     | Inr (_, d') \<Rightarrow>
       (case dec_u32 d' of Inl e \<Rightarrow> Inl e
        | Inr (n, d'') \<Rightarrow>
            if unat n > max_allowed then Inl SC_LimitExceeded
            else if unat n > max_items (dec_limits d'') then Inl SC_LimitExceeded
            else if unat n > remaining d'' then Inl SC_MalformedFrame
            else Inr (unat n, d'')))"

definition require_end :: "decoder \<Rightarrow> status_code" where
  "require_end d = (if \<not> at_end d then SC_ProtocolViolation else SC_Ok)"

primrec dec_items :: "(decoder \<Rightarrow> ('a \<times> decoder) result) \<Rightarrow> nat \<Rightarrow> decoder \<Rightarrow> ('a list \<times> decoder) result" where
  "dec_items item 0 d = Inr ([], d)"
| "dec_items item (Suc n) d =
    (case item d of Inl e \<Rightarrow> Inl e
     | Inr (x, d') \<Rightarrow>
       (case dec_items item n d' of Inl e \<Rightarrow> Inl e | Inr (xs, d'') \<Rightarrow> Inr (x # xs, d'')))"

definition decode_list ::
  "(decoder \<Rightarrow> ('a \<times> decoder) result) \<Rightarrow> nat \<Rightarrow> decoder \<Rightarrow> ('a list \<times> decoder) result" where
  "decode_list item max_n d =
    (case list_header max_n d of Inl e \<Rightarrow> Inl e
     | Inr (n, d') \<Rightarrow>
       (case dec_items item n d' of Inl e \<Rightarrow> Inl e | Inr (xs, d'') \<Rightarrow> Inr (xs, depth_leave d'')))"

section \<open>Positions\<close>

text \<open>\<open>starts d bs\<close>: the bytes \<open>bs\<close> stand at the decoder's position. \<open>skip n d\<close>: the decoder \<open>n\<close> bytes
  further.\<close>

definition starts :: "decoder \<Rightarrow> bytes \<Rightarrow> bool" where
  "starts d bs \<longleftrightarrow> (\<exists>post. drop (dec_pos d) (dec_data d) = bs @ post) \<and> dec_pos d \<le> length (dec_data d)"

definition skip :: "nat \<Rightarrow> decoder \<Rightarrow> decoder" where
  "skip n d = d\<lparr> dec_pos := dec_pos d + n \<rparr>"

lemma skip_simps [simp]:
  "dec_data (skip n d) = dec_data d" "dec_limits (skip n d) = dec_limits d"
  "dec_depth (skip n d) = dec_depth d" "dec_pos (skip n d) = dec_pos d + n"
  "skip 0 d = d" "skip m (skip n d) = skip (n + m) d"
  by (simp_all add: skip_def ac_simps)

lemma starts_append: "starts d (xs @ ys) \<longleftrightarrow> starts d xs \<and> starts (skip (length xs) d) ys"
proof
  assume a: "starts d (xs @ ys)"
  then obtain post where p: "drop (dec_pos d) (dec_data d) = xs @ ys @ post"
    and le: "dec_pos d \<le> length (dec_data d)" by (auto simp: starts_def)
  have "drop (dec_pos d + length xs) (dec_data d) = ys @ post"
    using arg_cong [OF p, of "drop (length xs)"] by (simp add: add.commute)
  moreover have "dec_pos d + length xs \<le> length (dec_data d)"
    using arg_cong [OF p, of length] le by simp
  ultimately show "starts d xs \<and> starts (skip (length xs) d) ys"
    using p le by (auto simp: starts_def)
next
  assume a: "starts d xs \<and> starts (skip (length xs) d) ys"
  then obtain p q where p: "drop (dec_pos d) (dec_data d) = xs @ p"
    and q: "drop (dec_pos d + length xs) (dec_data d) = ys @ q"
    and le: "dec_pos d \<le> length (dec_data d)" by (auto simp: starts_def)
  have "p = ys @ q" using arg_cong [OF p, of "drop (length xs)"] q by (simp add: add.commute)
  then show "starts d (xs @ ys)" using p le by (auto simp: starts_def)
qed

lemma starts_remaining: "starts d bs \<Longrightarrow> length bs \<le> remaining d"
  unfolding starts_def remaining_def by (metis length_append length_drop le_add1)

lemma take_span_starts: "starts d bs \<Longrightarrow> n = length bs \<Longrightarrow> take_span n d = Inr (bs, skip n d)"
  using starts_remaining [of d bs] unfolding take_span_def starts_def skip_def by auto

lemma starts_decoder_of: "starts (decoder_of bs lim) bs"
  by (simp add: starts_def decoder_of_def)

section \<open>Little-endian words\<close>

lemma le_bytes_length [simp]: "length (le_bytes n v) = n"
  by (simp add: le_bytes_def)

lemma le_bytes_nth: "i < n \<Longrightarrow> le_bytes n v ! i = ucast (drop_bit (8 * i) v AND 0xFF)"
  by (simp add: le_bytes_def)

lemma le_word_prefix:
  fixes v :: "'w::len word"
  assumes "k \<le> n"
  shows "fold (\<lambda>i a. a OR push_bit (8 * i) (ucast (le_bytes n v ! i))) [0..<k] 0 = take_bit (8 * k) v"
  using assms
proof (induction k)
  case (Suc k)
  have m: "(0xFF :: 'w word) = mask 8" by (simp add: mask_eq_exp_minus_1)
  have "take_bit (8 * k) v OR push_bit (8 * k) (ucast (ucast (drop_bit (8 * k) v AND mask 8) :: u8)) =
      take_bit (8 * Suc k) v"
    by (rule bit_word_eqI) (auto simp: bit_simps)
  with Suc show ?case by (simp add: le_bytes_nth m)
qed simp

lemma le_roundtrip: "LENGTH('w) \<le> 8 * n \<Longrightarrow> le_word (le_bytes n v) = (v :: 'w::len word)"
  using le_word_prefix [of n n v] by (simp add: le_word_def take_bit_word_eq_self)

section \<open>Codecs\<close>

locale byte_codec =
  fixes enc :: "'a \<Rightarrow> bytes"
    and dec :: "decoder \<Rightarrow> ('a \<times> decoder) result"
    and fits :: "decoder \<Rightarrow> 'a \<Rightarrow> bool"
  assumes decodes: "fits d v \<Longrightarrow> starts d (enc v) \<Longrightarrow> dec d = Inr (v, skip (length (enc v)) d)"
    and fits_skip: "fits (skip n d) v = fits d v"
    and enc_nonempty: "fits d v \<Longrightarrow> enc v \<noteq> []"
begin

lemma dec_items_correct:
  "(\<And>x. x \<in> set xs \<Longrightarrow> fits d x) \<Longrightarrow> starts d (concat (map enc xs)) \<Longrightarrow>
   dec_items dec (length xs) d = Inr (xs, skip (length (concat (map enc xs))) d)"
proof (induction xs arbitrary: d)
  case (Cons x xs)
  have "dec d = Inr (x, skip (length (enc x)) d)"
    using Cons.prems by (auto simp: starts_append intro!: decodes)
  moreover have "dec_items dec (length xs) (skip (length (enc x)) d) =
      Inr (xs, skip (length (concat (map enc xs))) (skip (length (enc x)) d))"
    using Cons.prems by (intro Cons.IH) (auto simp: starts_append fits_skip)
  ultimately show ?case by simp
qed simp

lemma concat_length_ge:
  "(\<And>x. x \<in> set xs \<Longrightarrow> fits d x) \<Longrightarrow> length xs \<le> length (concat (map enc xs))"
proof (induction xs)
  case (Cons x xs)
  have "enc x \<noteq> []" using Cons.prems by (intro enc_nonempty) auto
  then have "1 \<le> length (enc x)" by (cases "enc x") auto
  with Cons show ?case by simp
qed simp

end

lemma dec_u32_starts:
  "starts d (enc_u32 v) \<Longrightarrow> dec_u32 d = Inr (v, skip 4 d)"
  by (simp add: dec_u32_def enc_u32_def take_span_starts le_roundtrip)

lemma enc_u32_length [simp]: "length (enc_u32 v) = 4"
  by (simp add: enc_u32_def)

interpretation u8_codec: byte_codec enc_u8 dec_u8 "\<lambda>_ _. True"
  by unfold_locales (auto simp: dec_u8_def enc_u8_def take_span_starts)

interpretation boolean_codec: byte_codec enc_boolean dec_boolean "\<lambda>_ _. True"
  by unfold_locales (auto simp: dec_boolean_def enc_boolean_def u8_codec.decodes enc_u8_def)

lemma u16_bytes: "ucast (ucast (v AND 0xFF) :: u8) OR push_bit 8 (ucast (ucast (drop_bit 8 v AND 0xFF) :: u8)) = (v :: u16)"
proof -
  have m: "(0xFF :: u16) = mask 8" by (simp add: mask_eq_exp_minus_1)
  show ?thesis unfolding m by (rule bit_word_eqI) (auto simp: bit_simps)
qed

interpretation u16_codec: byte_codec enc_u16 dec_u16 "\<lambda>_ _. True"
  by unfold_locales (auto simp: dec_u16_def enc_u16_def take_span_starts u16_bytes)

interpretation u32_codec: byte_codec enc_u32 dec_u32 "\<lambda>_ _. True"
proof
  show "dec_u32 d = Inr (v, skip (length (enc_u32 v)) d)" if "starts d (enc_u32 v)" for d v
    using that by (simp add: dec_u32_starts)
  show "enc_u32 v \<noteq> []" for v using enc_u32_length [of v] by (metis list.size(3) zero_neq_numeral)
qed simp

interpretation u64_codec: byte_codec enc_u64 dec_u64 "\<lambda>_ _. True"
proof
  show "dec_u64 d = Inr (v, skip (length (enc_u64 v)) d)" if "starts d (enc_u64 v)" for d v
    using that by (simp add: dec_u64_def enc_u64_def take_span_starts le_roundtrip)
  show "enc_u64 v \<noteq> []" for v by (simp add: enc_u64_def le_bytes_def)
qed simp

text \<open>Variable-length fields: within the decode limits, and short enough for the length prefix.\<close>

definition str_fits :: "decoder \<Rightarrow> string \<Rightarrow> bool" where
  "str_fits d s \<longleftrightarrow> length s \<le> max_string (dec_limits d) \<and> length s \<le> 0xFFFFFFFF"

definition raw_fits :: "decoder \<Rightarrow> bytes \<Rightarrow> bool" where
  "raw_fits d s \<longleftrightarrow> length s \<le> max_bytes (dec_limits d) \<and> length s \<le> 0xFFFFFFFF"

definition list_fits :: "(decoder \<Rightarrow> 'a \<Rightarrow> bool) \<Rightarrow> nat \<Rightarrow> decoder \<Rightarrow> 'a list \<Rightarrow> bool" where
  "list_fits fits max_n d xs \<longleftrightarrow>
    (\<forall>x \<in> set xs. fits (d\<lparr> dec_depth := dec_depth d + 1 \<rparr>) x) \<and> length xs \<le> max_n \<and> length xs \<le> 0xFFFFFFFF \<and>
    length xs \<le> max_items (dec_limits d) \<and> dec_depth d + 1 \<le> max_depth (dec_limits d)"

lemma length_prefix: "n \<le> 0xFFFFFFFF \<Longrightarrow> unat (of_nat n :: u32) = n"
  by (simp add: unat_of_nat)

lemma byte_char_inverse [simp]: "byte_char (char_byte c) = c"
  by (simp add: byte_char_def char_byte_def unat_of_nat)

lemma map_byte_char [simp]: "map byte_char (map char_byte s) = s"
  by (induction s) simp_all

interpretation str_codec: byte_codec enc_str dec_str str_fits
proof
  fix d v assume f: "str_fits d v" and s: "starts d (enc_str v)"
  have "\<not> length v > 0xFFFFFFFF" using f by (simp add: str_fits_def)
  then have e: "enc_str v = enc_u32 (of_nat (length v)) @ map char_byte v" by (simp only: enc_str_def if_False)
  have t: "take_span (length v) (skip 4 d) = Inr (map char_byte v, skip (length v) (skip 4 d))"
    using s by (intro take_span_starts) (simp_all add: e starts_append)
  have u: "dec_u32 d = Inr (of_nat (length v), skip 4 d)"
    using s by (intro dec_u32_starts) (simp add: e starts_append)
  show "dec_str d = Inr (v, skip (length (enc_str v)) d)"
    using f t by (simp add: e u dec_str_def length_prefix str_fits_def del: map_map)
qed (auto simp: str_fits_def enc_str_def enc_u32_def le_bytes_def)

interpretation raw_codec: byte_codec enc_raw raw_field raw_fits
proof
  fix d v assume f: "raw_fits d v" and s: "starts d (enc_raw v)"
  have "\<not> length v > 0xFFFFFFFF" using f by (simp add: raw_fits_def)
  then have e: "enc_raw v = enc_u32 (of_nat (length v)) @ v" by (simp only: enc_raw_def if_False)
  have t: "take_span (length v) (skip 4 d) = Inr (v, skip (length v) (skip 4 d))"
    using s by (intro take_span_starts) (simp_all add: e starts_append)
  have u: "dec_u32 d = Inr (of_nat (length v), skip 4 d)"
    using s by (intro dec_u32_starts) (simp add: e starts_append)
  show "raw_field d = Inr (v, skip (length (enc_raw v)) d)"
    using f t by (simp add: e u raw_field_def length_prefix raw_fits_def)
qed (auto simp: raw_fits_def enc_raw_def enc_u32_def le_bytes_def)

context byte_codec
begin

lemma list_codec:
  assumes "list_fits fits max_n d xs" and "starts d (enc_list enc xs)"
  shows "decode_list dec max_n d = Inr (xs, skip (length (enc_list enc xs)) d)"
proof -
  let ?d1 = "d\<lparr> dec_depth := dec_depth d + 1 \<rparr>"
  let ?d2 = "skip 4 ?d1"
  have st: "starts ?d1 (enc_u32 (of_nat (length xs)))" "starts ?d2 (concat (map enc xs))"
    using assms(2) by (simp_all add: enc_list_def starts_append) (simp_all add: starts_def)
  have fx: "x \<in> set xs \<Longrightarrow> fits ?d2 x" for x
    using assms(1) by (simp add: list_fits_def fits_skip)
  have n: "unat (of_nat (length xs) :: u32) = length xs"
    using assms(1) by (intro length_prefix) (simp add: list_fits_def)
  have rem: "length xs \<le> remaining ?d2"
    using concat_length_ge [OF fx] starts_remaining [OF st(2)] by (rule order.trans)
  have h: "list_header max_n d = Inr (length xs, ?d2)"
    using assms(1) n rem dec_u32_starts [OF st(1)]
    by (simp add: list_header_def depth_enter_def list_fits_def)
  have i: "dec_items dec (length xs) ?d2 = Inr (xs, skip (length (concat (map enc xs))) ?d2)"
    by (rule dec_items_correct) (use fx st(2) in auto)
  show ?thesis
    unfolding decode_list_def h sum.case prod.case i
    by (simp add: depth_leave_def enc_list_def skip_def)
qed

end

text \<open>Lists of strings survive the wire: encoding such a list, with any bytes after it, and decoding it
  returns the list and leaves the decoder exactly behind it, whenever the sizes are within the decode
  limits.\<close>

theorem str_list_roundtrip:
  assumes "list_fits str_fits max_n (decoder_of (enc_list enc_str xs @ post) lim) xs"
  shows "decode_list dec_str max_n (decoder_of (enc_list enc_str xs @ post) lim) =
    Inr (xs, skip (length (enc_list enc_str xs)) (decoder_of (enc_list enc_str xs @ post) lim))"
  using assms by (rule str_codec.list_codec) (simp add: starts_def decoder_of_def)

theorem str_list_roundtrip_witness:
  "decode_list dec_str 8 (decoder_of (enc_list enc_str [''va'', ''''] @ [7]) default_limits) =
    Inr ([''va'', ''''], skip (length (enc_list enc_str [''va'', '''']))
      (decoder_of (enc_list enc_str [''va'', ''''] @ [7]) default_limits))"
  by (rule str_list_roundtrip) (simp add: list_fits_def str_fits_def decoder_of_def default_limits_def)

text \<open>No input makes the decoder read out of bounds: a successful field read ends within the buffer,
  and a truncated buffer is refused as such.\<close>

theorem take_span_bounds:
  "take_span n d =
    (if dec_pos d + n \<le> length (dec_data d) \<or> n = 0
     then Inr (take n (drop (dec_pos d) (dec_data d)), skip n d) else Inl SC_TruncatedState)"
  by (auto simp: take_span_def remaining_def skip_def)

end
