(* ===== verification/AV_Capability.thy ===== *)
theory AV_Capability
  imports AV_Ids AV_Codec AV_Hash
begin

text \<open>
  Capability surfaces and projections (\<open>include/av/capability.hpp\<close>, \<open>src/capability.cpp\<close>): the keys and
  verdicts, the surface with at most one entry per key kept sorted by key, its canonical text and
  fingerprint, and the projection with \<open>seal\<close>. The fingerprints hash the in-memory bytes of 64 bit
  values; they are taken in little-endian order, as on the platforms the runtime targets.

  A surface is shown to be a map from keys to entries, kept sorted by every update, and \<open>seal\<close> to be
  idempotent and to fix the fingerprint as a function of everything else in the projection.
\<close>

section \<open>Keys and verdicts\<close>

datatype capability_key =
    CK_Unknown
  | CK_MemoryBudgetBytes
  | CK_MemoryTotalBytes
  | CK_ComputeShareMilli
  | CK_MaxStreams
  | CK_MaxConcurrentKernels
  | CK_ArchitectureFamily
  | CK_IsaVersion
  | CK_ComputeCapabilityMajor
  | CK_ComputeCapabilityMinor
  | CK_SmCount
  | CK_PrecisionFp16
  | CK_PrecisionFp32
  | CK_PrecisionFp64
  | CK_PrecisionBf16
  | CK_PrecisionInt8
  | CK_PrecisionFp8
  | CK_AsyncCopy
  | CK_UnifiedMemory
  | CK_PeerAccess
  | CK_PeerAccessScope
  | CK_ResetBehavior
  | CK_MigrationSupport
  | CK_PerformanceEnvelopeClass
  | CK_VirtualizationMechanism
  | CK_MemoryBandwidthBytesPerSecond
  | CK_ConcurrencyMode
  | CK_TransferCapability
  | CK_VendorVisible

primrec capability_key_value :: "capability_key \<Rightarrow> nat" where
  "capability_key_value CK_Unknown = 0"
| "capability_key_value CK_MemoryBudgetBytes = 1"
| "capability_key_value CK_MemoryTotalBytes = 2"
| "capability_key_value CK_ComputeShareMilli = 3"
| "capability_key_value CK_MaxStreams = 4"
| "capability_key_value CK_MaxConcurrentKernels = 5"
| "capability_key_value CK_ArchitectureFamily = 6"
| "capability_key_value CK_IsaVersion = 7"
| "capability_key_value CK_ComputeCapabilityMajor = 8"
| "capability_key_value CK_ComputeCapabilityMinor = 9"
| "capability_key_value CK_SmCount = 10"
| "capability_key_value CK_PrecisionFp16 = 11"
| "capability_key_value CK_PrecisionFp32 = 12"
| "capability_key_value CK_PrecisionFp64 = 13"
| "capability_key_value CK_PrecisionBf16 = 14"
| "capability_key_value CK_PrecisionInt8 = 15"
| "capability_key_value CK_PrecisionFp8 = 16"
| "capability_key_value CK_AsyncCopy = 17"
| "capability_key_value CK_UnifiedMemory = 18"
| "capability_key_value CK_PeerAccess = 19"
| "capability_key_value CK_PeerAccessScope = 20"
| "capability_key_value CK_ResetBehavior = 21"
| "capability_key_value CK_MigrationSupport = 22"
| "capability_key_value CK_PerformanceEnvelopeClass = 23"
| "capability_key_value CK_VirtualizationMechanism = 24"
| "capability_key_value CK_MemoryBandwidthBytesPerSecond = 25"
| "capability_key_value CK_ConcurrencyMode = 26"
| "capability_key_value CK_TransferCapability = 27"
| "capability_key_value CK_VendorVisible = 28"

definition capability_key_names :: "(capability_key \<times> string) list" where
  "capability_key_names =
    [(CK_Unknown, ''UNKNOWN''),
     (CK_MemoryBudgetBytes, ''MEMORY_BUDGET_BYTES''),
     (CK_MemoryTotalBytes, ''MEMORY_TOTAL_BYTES''),
     (CK_ComputeShareMilli, ''COMPUTE_SHARE_MILLI''),
     (CK_MaxStreams, ''MAX_STREAMS''),
     (CK_MaxConcurrentKernels, ''MAX_CONCURRENT_KERNELS''),
     (CK_ArchitectureFamily, ''ARCHITECTURE_FAMILY''),
     (CK_IsaVersion, ''ISA_VERSION''),
     (CK_ComputeCapabilityMajor, ''COMPUTE_CAPABILITY_MAJOR''),
     (CK_ComputeCapabilityMinor, ''COMPUTE_CAPABILITY_MINOR''),
     (CK_SmCount, ''SM_COUNT''),
     (CK_PrecisionFp16, ''PRECISION_FP16''),
     (CK_PrecisionFp32, ''PRECISION_FP32''),
     (CK_PrecisionFp64, ''PRECISION_FP64''),
     (CK_PrecisionBf16, ''PRECISION_BF16''),
     (CK_PrecisionInt8, ''PRECISION_INT8''),
     (CK_PrecisionFp8, ''PRECISION_FP8''),
     (CK_AsyncCopy, ''ASYNC_COPY''),
     (CK_UnifiedMemory, ''UNIFIED_MEMORY''),
     (CK_PeerAccess, ''PEER_ACCESS''),
     (CK_PeerAccessScope, ''PEER_ACCESS_SCOPE''),
     (CK_ResetBehavior, ''RESET_BEHAVIOR''),
     (CK_MigrationSupport, ''MIGRATION_SUPPORT''),
     (CK_PerformanceEnvelopeClass, ''PERFORMANCE_ENVELOPE_CLASS''),
     (CK_VirtualizationMechanism, ''VIRTUALIZATION_MECHANISM''),
     (CK_MemoryBandwidthBytesPerSecond, ''MEMORY_BANDWIDTH_BYTES_PER_SECOND''),
     (CK_ConcurrencyMode, ''CONCURRENCY_MODE''),
     (CK_TransferCapability, ''TRANSFER_CAPABILITY''),
     (CK_VendorVisible, ''VENDOR_VISIBLE'')]"

definition capability_key_name :: "capability_key \<Rightarrow> string" where
  "capability_key_name v = table_name capability_key_names ''UNKNOWN'' v"

definition parse_capability_key :: "string \<Rightarrow> capability_key option" where
  "parse_capability_key text = table_parse capability_key_names text"

definition all_capability_keys :: "capability_key list" where
  "all_capability_keys = map fst capability_key_names"

datatype capability_verdict =
    CV_Unknown
  | CV_Supported
  | CV_Unsupported
  | CV_Constrained

primrec capability_verdict_value :: "capability_verdict \<Rightarrow> nat" where
  "capability_verdict_value CV_Unknown = 0"
| "capability_verdict_value CV_Supported = 1"
| "capability_verdict_value CV_Unsupported = 2"
| "capability_verdict_value CV_Constrained = 3"

definition capability_verdict_names :: "(capability_verdict \<times> string) list" where
  "capability_verdict_names =
    [(CV_Unknown, ''UNKNOWN''),
     (CV_Supported, ''SUPPORTED''),
     (CV_Unsupported, ''UNSUPPORTED''),
     (CV_Constrained, ''CONSTRAINED'')]"

definition capability_verdict_name :: "capability_verdict \<Rightarrow> string" where
  "capability_verdict_name v = table_name capability_verdict_names ''UNKNOWN'' v"

definition parse_capability_verdict :: "string \<Rightarrow> capability_verdict option" where
  "parse_capability_verdict text = table_parse capability_verdict_names text"

section \<open>Surfaces\<close>

record capability_entry =
  ce_key :: capability_key
  ce_verdict :: capability_verdict
  ce_value :: u64
  ce_text :: string
  ce_provenance :: string

type_synonym capability_surface = "capability_entry list"

fun surface_set :: "capability_entry \<Rightarrow> capability_surface \<Rightarrow> capability_surface" where
  "surface_set entry [] = [entry]"
| "surface_set entry (e # es) =
    (if capability_key_value (ce_key e) < capability_key_value (ce_key entry) then e # surface_set entry es
     else if ce_key e = ce_key entry then entry # es
     else entry # e # es)"

definition surface_find :: "capability_surface \<Rightarrow> capability_key \<Rightarrow> capability_entry option" where
  "surface_find surface key = List.find (\<lambda>e. ce_key e = key) surface"

definition surface_supported :: "capability_surface \<Rightarrow> capability_key \<Rightarrow> bool" where
  "surface_supported surface key =
    (case surface_find surface key of None \<Rightarrow> False
     | Some e \<Rightarrow> ce_verdict e = CV_Supported \<or> ce_verdict e = CV_Constrained)"

definition surface_value_or :: "capability_surface \<Rightarrow> capability_key \<Rightarrow> u64 \<Rightarrow> u64" where
  "surface_value_or surface key fallback =
    (case surface_find surface key of None \<Rightarrow> fallback
     | Some e \<Rightarrow> if ce_verdict e = CV_Unknown \<or> ce_verdict e = CV_Unsupported then fallback else ce_value e)"

definition entry_canonical :: "capability_entry \<Rightarrow> string" where
  "entry_canonical e =
    capability_key_name (ce_key e) @ ''='' @ capability_verdict_name (ce_verdict e) @ '':'' @
    dec_string (unat (ce_value e)) @ (if ce_text e \<noteq> [] then '':'' @ ce_text e else []) @
    '' ['' @ ce_provenance e @ '']'' @ [CHR 0x0A]"

definition surface_canonical :: "capability_surface \<Rightarrow> string" where
  "surface_canonical surface = concat (map entry_canonical surface)"

definition surface_fingerprint :: "capability_surface \<Rightarrow> u64" where
  "surface_fingerprint surface =
    fold (\<lambda>e h. fnv_update h
        (text_bytes (capability_key_name (ce_key e)) @ text_bytes ''='' @
         text_bytes (capability_verdict_name (ce_verdict e)) @ text_bytes '':'' @
         le_bytes 8 (ce_value e) @ text_bytes (ce_text e) @ text_bytes ''|''))
      surface 0xCBF29CE484222325"

section \<open>Projections\<close>

record capability_projection =
  cp_id :: cp_id
  cp_generation :: cp_gen
  cp_surface :: capability_surface
  cp_hidden :: "capability_key list"
  cp_unknown :: "capability_key list"
  cp_backing_generation :: bk_gen
  cp_physical_generation :: pd_gen
  cp_policy_generation :: pol_gen
  cp_contract_generation :: rc_gen
  cp_fingerprint :: u64
  cp_mechanism :: string

definition empty_projection :: capability_projection where
  "empty_projection =
    \<lparr> cp_id = no_id, cp_generation = no_gen, cp_surface = [], cp_hidden = [], cp_unknown = [],
      cp_backing_generation = no_gen, cp_physical_generation = no_gen, cp_policy_generation = no_gen,
      cp_contract_generation = no_gen, cp_fingerprint = 0, cp_mechanism = [] \<rparr>"

definition sort_keys :: "capability_key list \<Rightarrow> capability_key list" where
  "sort_keys ks = sort_uniq capability_key_value ks"

definition projection_hash :: "capability_projection \<Rightarrow> u64" where
  "projection_hash p = fnv1a64
    (text_bytes (surface_canonical (cp_surface p)) @
     concat (map (\<lambda>k. text_bytes (capability_key_name k)) (cp_hidden p)) @ text_bytes ''#'' @
     concat (map (\<lambda>k. text_bytes (capability_key_name k)) (cp_unknown p)) @ text_bytes ''#'' @
     text_bytes (cp_mechanism p) @
     le_bytes 8 (gen_value (cp_backing_generation p)) @ le_bytes 8 (gen_value (cp_physical_generation p)) @
     le_bytes 8 (gen_value (cp_policy_generation p)) @ le_bytes 8 (gen_value (cp_contract_generation p)))"

definition seal :: "capability_projection \<Rightarrow> capability_projection" where
  "seal p =
    (let q = p\<lparr> cp_hidden := sort_keys (cp_hidden p), cp_unknown := sort_keys (cp_unknown p) \<rparr>
     in q\<lparr> cp_fingerprint := projection_hash q \<rparr>)"

section \<open>A surface is a map\<close>

lemma capability_key_value_inj [simp]: "capability_key_value a = capability_key_value b \<longleftrightarrow> a = b"
  by (cases a; cases b) simp_all

lemma capability_key_names_keys:
  "map fst capability_key_names =
    [CK_Unknown, CK_MemoryBudgetBytes, CK_MemoryTotalBytes, CK_ComputeShareMilli,
     CK_MaxStreams, CK_MaxConcurrentKernels, CK_ArchitectureFamily, CK_IsaVersion,
     CK_ComputeCapabilityMajor, CK_ComputeCapabilityMinor, CK_SmCount, CK_PrecisionFp16,
     CK_PrecisionFp32, CK_PrecisionFp64, CK_PrecisionBf16, CK_PrecisionInt8,
     CK_PrecisionFp8, CK_AsyncCopy, CK_UnifiedMemory, CK_PeerAccess,
     CK_PeerAccessScope, CK_ResetBehavior, CK_MigrationSupport, CK_PerformanceEnvelopeClass,
     CK_VirtualizationMechanism, CK_MemoryBandwidthBytesPerSecond, CK_ConcurrencyMode, CK_TransferCapability,
     CK_VendorVisible]"
  by (simp add: capability_key_names_def)

interpretation capability_key_text: name_table capability_key_names
proof
  fix v
  have "v \<in> set (map fst capability_key_names)" unfolding capability_key_names_keys by (cases v) simp_all
  then show "v \<in> fst ` set capability_key_names" by simp
  show "distinct (map fst capability_key_names)" by (simp add: capability_key_names_keys)
  show "distinct (map snd capability_key_names)" by code_simp
qed

lemma capability_verdict_value_inj [simp]: "capability_verdict_value a = capability_verdict_value b \<longleftrightarrow> a = b"
  by (cases a; cases b) simp_all

lemma capability_verdict_names_keys:
  "map fst capability_verdict_names =
    [CV_Unknown, CV_Supported, CV_Unsupported, CV_Constrained]"
  by (simp add: capability_verdict_names_def)

interpretation capability_verdict_text: name_table capability_verdict_names
proof
  fix v
  have "v \<in> set (map fst capability_verdict_names)" unfolding capability_verdict_names_keys by (cases v) simp_all
  then show "v \<in> fst ` set capability_verdict_names" by simp
  show "distinct (map fst capability_verdict_names)" by (simp add: capability_verdict_names_keys)
  show "distinct (map snd capability_verdict_names)" by code_simp
qed

definition surface_sorted :: "capability_surface \<Rightarrow> bool" where
  "surface_sorted s \<longleftrightarrow> sorted_wrt (<) (map (capability_key_value \<circ> ce_key) s)"

lemma surface_sorted_Nil [simp]: "surface_sorted []"
  by (simp add: surface_sorted_def)

lemma surface_set_keys:
  "set (map ce_key (surface_set e s)) = insert (ce_key e) (set (map ce_key s))"
  by (induction e s rule: surface_set.induct) auto

lemma surface_sorted_set: "surface_sorted s \<Longrightarrow> surface_sorted (surface_set e s)"
proof (induction e s rule: surface_set.induct)
  case (2 entry e es)
  have "\<forall>x \<in> set (surface_set entry es). ce_key x = ce_key entry \<or> ce_key x \<in> set (map ce_key es)"
    using surface_set_keys [of entry es] by auto
  moreover have "capability_key_value (ce_key entry) < capability_key_value (ce_key e)"
    if "\<not> capability_key_value (ce_key e) < capability_key_value (ce_key entry)" "ce_key e \<noteq> ce_key entry"
    using that by (metis capability_key_value_inj linorder_neqE_nat)
  ultimately show ?case using 2 by (fastforce simp: surface_sorted_def)
qed (simp add: surface_sorted_def)

lemma surface_find_Nil [simp]: "surface_find [] k = None"
  by (simp add: surface_find_def)

lemma surface_find_set [simp]:
  "surface_find (surface_set e s) k = (if k = ce_key e then Some e else surface_find s k)"
  unfolding surface_find_def by (induction e s rule: surface_set.induct) auto

lemma surface_find_key: "surface_find s k = Some e \<Longrightarrow> ce_key e = k"
  unfolding surface_find_def by (auto simp: find_Some_iff)

lemma surface_find_mem: "surface_find s k = Some e \<Longrightarrow> e \<in> set s"
  unfolding surface_find_def by (auto simp: find_Some_iff)

lemma surface_sorted_keys:
  "surface_sorted s \<Longrightarrow> sorted (map (capability_key_value \<circ> ce_key) s) \<and> distinct (map (capability_key_value \<circ> ce_key) s)"
  unfolding surface_sorted_def by (simp only: strict_sorted_iff)

lemma surface_find_in:
  assumes "surface_sorted s"
  shows "e \<in> set s \<longleftrightarrow> surface_find s (ce_key e) = Some e"
proof
  assume e: "e \<in> set s"
  then have "surface_find s (ce_key e) \<noteq> None"
    by (auto simp: surface_find_def find_None_iff)
  then obtain e' where e': "surface_find s (ce_key e) = Some e'" by auto
  have "inj_on (capability_key_value \<circ> ce_key) (set s)"
    using surface_sorted_keys [OF assms] by (simp only: distinct_map)
  then have "e' = e"
    by (rule inj_onD) (simp_all add: surface_find_mem [OF e'] surface_find_key [OF e'] e)
  with e' show "surface_find s (ce_key e) = Some e" by simp
qed (rule surface_find_mem)

text \<open>A surface behaves as a sorted map. Setting an entry makes it the answer for its key, leaves
  every other key alone and keeps the entries strictly sorted by key.\<close>

theorem surface_is_map:
  assumes "surface_sorted s"
  shows "surface_sorted (surface_set e s) \<and>
    surface_find (surface_set e s) = (surface_find s)(ce_key e \<mapsto> e) \<and>
    (surface_supported (surface_set e s) (ce_key e) \<longleftrightarrow> ce_verdict e = CV_Supported \<or> ce_verdict e = CV_Constrained)"
  using assms by (auto simp: surface_sorted_set surface_supported_def)

theorem surface_is_map_witness:
  "surface_sorted (surface_set \<lparr> ce_key = CK_SmCount, ce_verdict = CV_Unknown, ce_value = 0, ce_text = [], ce_provenance = [] \<rparr> [])"
  using surface_is_map [of "[]" "\<lparr> ce_key = CK_SmCount, ce_verdict = CV_Unknown, ce_value = 0, ce_text = [], ce_provenance = [] \<rparr>"]
  by simp

lemma surface_set_same: "surface_sorted s \<Longrightarrow> surface_find s (ce_key e) = Some e \<Longrightarrow> surface_set e s = s"
proof (induction e s rule: surface_set.induct)
  case (2 entry e es)
  then show ?case
    by (auto simp: surface_find_def surface_sorted_def find_Some_iff split: if_splits)
qed simp

section \<open>Sealing\<close>

lemma seal_frame [simp]:
  "cp_id (seal p) = cp_id p" "cp_generation (seal p) = cp_generation p" "cp_surface (seal p) = cp_surface p"
  "cp_backing_generation (seal p) = cp_backing_generation p"
  "cp_physical_generation (seal p) = cp_physical_generation p"
  "cp_policy_generation (seal p) = cp_policy_generation p"
  "cp_contract_generation (seal p) = cp_contract_generation p" "cp_mechanism (seal p) = cp_mechanism p"
  by (simp_all add: seal_def Let_def)

lemma sort_keys_set [simp]: "set (sort_keys ks) = set ks"
  unfolding sort_keys_def by (rule sort_uniq_set) (simp add: inj_on_def)

lemma sort_keys_idem [simp]: "sort_keys (sort_keys ks) = sort_keys ks"
  by (simp add: sort_keys_def)

lemma seal_hidden [simp]: "cp_hidden (seal p) = sort_keys (cp_hidden p)"
  and seal_unknown [simp]: "cp_unknown (seal p) = sort_keys (cp_unknown p)"
  by (simp_all add: seal_def Let_def)

lemma sort_keys_strict: "sorted_wrt (<) (map capability_key_value (sort_keys ks))"
  by (simp add: sort_keys_def)

lemma sort_keys_cong: "set xs = set ys \<Longrightarrow> sort_keys xs = sort_keys ys"
  by (rule map_sorted_distinct_set_unique [where f = capability_key_value])
    (use sort_keys_strict in \<open>auto simp: inj_on_def strict_sorted_iff simp del: distinct_map\<close>)

text \<open>Sealing is idempotent, keeps the advertised surface and the sets of hidden and unknown
  keys, and its fingerprint does not depend on the order or multiplicity in which the hidden and
  unknown keys were collected.\<close>

theorem seal_canonical:
  assumes "set hs = set (cp_hidden p)" and "set us = set (cp_unknown p)"
  shows "seal (p\<lparr> cp_hidden := hs, cp_unknown := us \<rparr>) = seal p \<and> seal (seal p) = seal p \<and>
    set (cp_hidden (seal p)) = set (cp_hidden p) \<and> set (cp_unknown (seal p)) = set (cp_unknown p) \<and>
    cp_surface (seal p) = cp_surface p"
  using sort_keys_cong [OF assms(1)] sort_keys_cong [OF assms(2)]
  by (simp add: seal_def Let_def projection_hash_def)

theorem seal_canonical_witness:
  "seal (empty_projection\<lparr> cp_hidden := [CK_SmCount, CK_MaxStreams, CK_SmCount] \<rparr>) =
   seal (empty_projection\<lparr> cp_hidden := [CK_MaxStreams, CK_SmCount] \<rparr>)"
  using seal_canonical [of "[CK_SmCount, CK_MaxStreams, CK_SmCount]"
      "empty_projection\<lparr> cp_hidden := [CK_MaxStreams, CK_SmCount] \<rparr>" "[]"]
  by (auto simp: empty_projection_def)

end
