(* ===== verification/AV_Policy.thy ===== *)
theory AV_Policy
  imports AV_Contract AV_Capability
begin

text \<open>
  The virtualization policy (\<open>include/av/policy.hpp\<close>, \<open>src/policy.cpp\<close>): the record with its defaults,
  \<open>default_policy\<close>, \<open>normalize\<close>, \<open>validate\<close> and the permission queries. \<open>canonical\<close> and
  \<open>fingerprint\<close> render a policy for inspection and are not modelled.
\<close>

section \<open>Enumerations\<close>

datatype transparency =
    TR_Opaque
  | TR_Summary
  | TR_Full

primrec transparency_value :: "transparency \<Rightarrow> nat" where
  "transparency_value TR_Opaque = 0"
| "transparency_value TR_Summary = 1"
| "transparency_value TR_Full = 2"

definition transparency_names :: "(transparency \<times> string) list" where
  "transparency_names =
    [(TR_Opaque, ''OPAQUE''),
     (TR_Summary, ''SUMMARY''),
     (TR_Full, ''FULL'')]"

definition transparency_name :: "transparency \<Rightarrow> string" where
  "transparency_name v = table_name transparency_names ''OPAQUE'' v"

definition parse_transparency :: "string \<Rightarrow> transparency option" where
  "parse_transparency text = table_parse transparency_names text"

datatype tenant_sharing =
    SH_Exclusive
  | SH_Shared

primrec tenant_sharing_value :: "tenant_sharing \<Rightarrow> nat" where
  "tenant_sharing_value SH_Exclusive = 0"
| "tenant_sharing_value SH_Shared = 1"

definition sharing_names :: "(tenant_sharing \<times> string) list" where
  "sharing_names =
    [(SH_Exclusive, ''EXCLUSIVE''),
     (SH_Shared, ''SHARED'')]"

definition tenant_sharing_name :: "tenant_sharing \<Rightarrow> string" where
  "tenant_sharing_name v = table_name sharing_names ''SHARED'' v"

definition parse_tenant_sharing :: "string \<Rightarrow> tenant_sharing option" where
  "parse_tenant_sharing text = table_parse sharing_names text"

datatype recovery_behavior =
    RB_Conservative
  | RB_Optimistic

primrec recovery_behavior_value :: "recovery_behavior \<Rightarrow> nat" where
  "recovery_behavior_value RB_Conservative = 0"
| "recovery_behavior_value RB_Optimistic = 1"

definition recovery_names :: "(recovery_behavior \<times> string) list" where
  "recovery_names =
    [(RB_Conservative, ''CONSERVATIVE''),
     (RB_Optimistic, ''OPTIMISTIC'')]"

definition recovery_behavior_name :: "recovery_behavior \<Rightarrow> string" where
  "recovery_behavior_name v = table_name recovery_names ''CONSERVATIVE'' v"

definition parse_recovery_behavior :: "string \<Rightarrow> recovery_behavior option" where
  "parse_recovery_behavior text = table_parse recovery_names text"

section \<open>The policy\<close>

record virtualization_policy =
  pol_id :: pol_id
  pol_generation :: pol_gen
  pol_allowed_backing_classes :: "backing_class list"
  pol_tenant_sharing :: tenant_sharing
  pol_required_isolation :: "isolation_requirement list"
  pol_oversubscription_allowed :: bool
  pol_transparency :: transparency
  pol_migration_allowed :: bool
  pol_allowed_migration_classes :: "migration_class list"
  pol_max_attachments_per_virtual :: u32
  pol_max_lease_duration_micros :: u64
  pol_forbidden_capabilities :: "capability_key list"
  pol_max_memory_ceiling_bytes :: u64
  pol_max_compute_share_milli :: u32
  pol_synthetic_backing_allowed :: bool
  pol_recovery :: recovery_behavior
  pol_evidence_max_age_micros :: u64
  pol_max_virtual_accelerators :: u32
  pol_max_tenants :: u32
  pol_max_leases :: u32
  pol_max_assignments :: u32
  pol_max_migrations :: u32
  pol_max_evidence_records :: u32

text \<open>\<open>VirtualizationPolicy{}\<close>: the member initialisers of the header.\<close>

definition blank_policy :: virtualization_policy where
  "blank_policy =
    \<lparr> pol_id = no_id, pol_generation = no_gen, pol_allowed_backing_classes = [], pol_tenant_sharing = SH_Shared,
      pol_required_isolation = [], pol_oversubscription_allowed = False, pol_transparency = TR_Summary,
      pol_migration_allowed = True, pol_allowed_migration_classes = [], pol_max_attachments_per_virtual = 8,
      pol_max_lease_duration_micros = 0, pol_forbidden_capabilities = [],
      pol_max_memory_ceiling_bytes = 2 ^ 40, pol_max_compute_share_milli = 1000,
      pol_synthetic_backing_allowed = True, pol_recovery = RB_Conservative, pol_evidence_max_age_micros = 0,
      pol_max_virtual_accelerators = 100000, pol_max_tenants = 10000, pol_max_leases = 100000,
      pol_max_assignments = 100000, pol_max_migrations = 4096, pol_max_evidence_records = 65536 \<rparr>"

definition policy_normalize :: "virtualization_policy \<Rightarrow> virtualization_policy" where
  "policy_normalize p =
    p\<lparr> pol_allowed_backing_classes := sort_uniq backing_class_value (pol_allowed_backing_classes p),
       pol_allowed_migration_classes := sort_uniq migration_class_value (pol_allowed_migration_classes p),
       pol_forbidden_capabilities := sort_uniq capability_key_value (pol_forbidden_capabilities p),
       pol_required_isolation := sort_uniq requirement_order (pol_required_isolation p) \<rparr>"

definition default_policy :: virtualization_policy where
  "default_policy = policy_normalize
    (blank_policy\<lparr>
      pol_allowed_backing_classes := filter (\<lambda>k. k \<noteq> BC_Unknown) all_backing_classes,
      pol_allowed_migration_classes := [MC_RebindOnly, MC_DrainAndRestart, MC_StateReconstruction],
      pol_required_isolation :=
        [\<lparr> ir_dimension = ID_TenantState, ir_minimum = IS_Partial \<rparr>,
         \<lparr> ir_dimension = ID_AdminControl, ir_minimum = IS_Partial \<rparr>] \<rparr>)"

definition policy_validate :: "virtualization_policy \<Rightarrow> status_code" where
  "policy_validate p = first_error
    [refuse_if (list_ex (\<lambda>k. k = BC_Unknown) (pol_allowed_backing_classes p)) SC_PolicyViolation,
     refuse_if (list_ex (\<lambda>k. k = MC_Unknown \<or> k = MC_Unsupported) (pol_allowed_migration_classes p))
       SC_PolicyViolation,
     refuse_if (pol_max_attachments_per_virtual p = 0 \<or> pol_max_attachments_per_virtual p > 4096) SC_PolicyViolation,
     refuse_if (pol_max_compute_share_milli p = 0 \<or> pol_max_compute_share_milli p > 1000) SC_PolicyViolation,
     refuse_if (pol_max_virtual_accelerators p = 0 \<or> pol_max_virtual_accelerators p > 10000000) SC_PolicyViolation,
     refuse_if (pol_max_tenants p = 0 \<or> pol_max_tenants p > 10000000) SC_PolicyViolation,
     refuse_if (pol_max_memory_ceiling_bytes p = 0) SC_PolicyViolation,
     refuse_if (list_ex (\<lambda>r. ir_minimum r = IS_Unsupported) (pol_required_isolation p)) SC_PolicyViolation,
     refuse_if (repeats_dimension (pol_required_isolation p)) SC_PolicyViolation]"

definition policy_permits_backing_class :: "virtualization_policy \<Rightarrow> backing_class \<Rightarrow> bool" where
  "policy_permits_backing_class p klass \<longleftrightarrow> klass \<in> set (pol_allowed_backing_classes p)"

definition policy_permits_migration_class :: "virtualization_policy \<Rightarrow> migration_class \<Rightarrow> bool" where
  "policy_permits_migration_class p klass =
    (if \<not> pol_migration_allowed p then False
     else if klass = MC_Unsupported \<or> klass = MC_Unknown then False
     else klass \<in> set (pol_allowed_migration_classes p))"

definition forbids_capability :: "virtualization_policy \<Rightarrow> capability_key \<Rightarrow> bool" where
  "forbids_capability p key \<longleftrightarrow> key \<in> set (pol_forbidden_capabilities p)"

section \<open>Facts\<close>

lemma transparency_names_keys:
  "map fst transparency_names =
    [TR_Opaque, TR_Summary, TR_Full]"
  by (simp add: transparency_names_def)

interpretation transparency_text: name_table transparency_names
proof
  fix v
  have "v \<in> set (map fst transparency_names)" unfolding transparency_names_keys by (cases v) simp_all
  then show "v \<in> fst ` set transparency_names" by simp
  show "distinct (map fst transparency_names)" by (simp add: transparency_names_keys)
  show "distinct (map snd transparency_names)" by code_simp
qed

lemma sharing_names_keys:
  "map fst sharing_names =
    [SH_Exclusive, SH_Shared]"
  by (simp add: sharing_names_def)

interpretation sharing_text: name_table sharing_names
proof
  fix v
  have "v \<in> set (map fst sharing_names)" unfolding sharing_names_keys by (cases v) simp_all
  then show "v \<in> fst ` set sharing_names" by simp
  show "distinct (map fst sharing_names)" by (simp add: sharing_names_keys)
  show "distinct (map snd sharing_names)" by code_simp
qed

lemma recovery_names_keys:
  "map fst recovery_names =
    [RB_Conservative, RB_Optimistic]"
  by (simp add: recovery_names_def)

interpretation recovery_text: name_table recovery_names
proof
  fix v
  have "v \<in> set (map fst recovery_names)" unfolding recovery_names_keys by (cases v) simp_all
  then show "v \<in> fst ` set recovery_names" by simp
  show "distinct (map fst recovery_names)" by (simp add: recovery_names_keys)
  show "distinct (map snd recovery_names)" by code_simp
qed

lemma policy_validate_code: "policy_validate p \<in> {SC_Ok, SC_PolicyViolation}"
  by (simp add: policy_validate_def refuse_if_def)

lemma forbidden_sort_uniq_set [simp]: "set (sort_uniq capability_key_value ks) = set ks"
  by (simp add: sort_uniq_set inj_on_def)

lemma default_policy_valid: "policy_validate default_policy = SC_Ok"
  by (simp add: policy_validate_def default_policy_def policy_normalize_def blank_policy_def
      all_backing_classes_def list_ex_iff)
    (auto simp: sort_uniq_def requirement_order_def)

text \<open>The default policy is valid and normal, normalisation is idempotent, and it never changes
  which backing classes, migration classes or capabilities a policy admits.\<close>

theorem policy_normalize_correct:
  "policy_normalize (policy_normalize p) = policy_normalize p \<and>
   policy_permits_backing_class (policy_normalize p) k = policy_permits_backing_class p k \<and>
   policy_permits_migration_class (policy_normalize p) g = policy_permits_migration_class p g \<and>
   forbids_capability (policy_normalize p) key = forbids_capability p key \<and>
   policy_validate default_policy = SC_Ok \<and> policy_normalize default_policy = default_policy"
  by (intro conjI, simp_all only: default_policy_valid)
    (simp_all add: policy_normalize_def policy_permits_backing_class_def
      policy_permits_migration_class_def forbids_capability_def default_policy_def)

text \<open>A policy that admits UNKNOWN or UNSUPPORTED migration never validates, and even an invalid one
  never permits them.\<close>

lemma policy_never_permits_unknown_migration:
  "\<not> policy_permits_migration_class p MC_Unknown \<and> \<not> policy_permits_migration_class p MC_Unsupported"
  by (simp add: policy_permits_migration_class_def)

end
