(* ===== verification/AV_Migration.thy ===== *)
theory AV_Migration
  imports AV_Ids AV_Taxonomy
begin

text \<open>
  The migration state machine and its records (\<open>include/av/migration.hpp\<close>, \<open>src/migration.cpp\<close>): the
  states, the transition masks, the predicates, the plan and the migration record. \<open>canonical\<close> renders a
  record for inspection and is not modelled.

  The masks equal the explicit edge list \<open>migration_edges\<close>. Over paths of legal transitions it is shown
  that authority crosses over only through CommitReady \<rightarrow> Committed, that a migration past the cutover is never
  aborted or failed, and that no path is endless.
\<close>

unbundle bit_operations_syntax

section \<open>States\<close>

datatype migration_state =
    MS_Planned
  | MS_Prepared
  | MS_SourceDraining
  | MS_DestinationPrepared
  | MS_StateTransferPending
  | MS_StateTransferred
  | MS_CommitReady
  | MS_Committed
  | MS_SourceRevoked
  | MS_Completed
  | MS_Aborted
  | MS_RecoveryRequired
  | MS_Failed

primrec migration_state_value :: "migration_state \<Rightarrow> nat" where
  "migration_state_value MS_Planned = 0"
| "migration_state_value MS_Prepared = 1"
| "migration_state_value MS_SourceDraining = 2"
| "migration_state_value MS_DestinationPrepared = 3"
| "migration_state_value MS_StateTransferPending = 4"
| "migration_state_value MS_StateTransferred = 5"
| "migration_state_value MS_CommitReady = 6"
| "migration_state_value MS_Committed = 7"
| "migration_state_value MS_SourceRevoked = 8"
| "migration_state_value MS_Completed = 9"
| "migration_state_value MS_Aborted = 10"
| "migration_state_value MS_RecoveryRequired = 11"
| "migration_state_value MS_Failed = 12"

definition migration_state_names :: "(migration_state \<times> string) list" where
  "migration_state_names =
    [(MS_Planned, ''Planned''),
     (MS_Prepared, ''Prepared''),
     (MS_SourceDraining, ''SourceDraining''),
     (MS_DestinationPrepared, ''DestinationPrepared''),
     (MS_StateTransferPending, ''StateTransferPending''),
     (MS_StateTransferred, ''StateTransferred''),
     (MS_CommitReady, ''CommitReady''),
     (MS_Committed, ''Committed''),
     (MS_SourceRevoked, ''SourceRevoked''),
     (MS_Completed, ''Completed''),
     (MS_Aborted, ''Aborted''),
     (MS_RecoveryRequired, ''RecoveryRequired''),
     (MS_Failed, ''Failed'')]"

definition migration_state_name :: "migration_state \<Rightarrow> string" where
  "migration_state_name v = table_name migration_state_names ''Unknown'' v"

definition parse_migration_state :: "string \<Rightarrow> migration_state option" where
  "parse_migration_state text = table_parse migration_state_names text"

definition all_migration_states :: "migration_state list" where
  "all_migration_states = map fst migration_state_names"

definition migration_bit :: "migration_state \<Rightarrow> u32" where
  "migration_bit s = push_bit (migration_state_value s) 1"

primrec migration_mask :: "migration_state \<Rightarrow> u32" where
  "migration_mask MS_Planned =
     migration_bit MS_Prepared OR migration_bit MS_Aborted OR migration_bit MS_Failed"
| "migration_mask MS_Prepared =
     migration_bit MS_SourceDraining OR migration_bit MS_Aborted OR migration_bit MS_RecoveryRequired OR migration_bit MS_Failed"
| "migration_mask MS_SourceDraining =
     migration_bit MS_DestinationPrepared OR migration_bit MS_Aborted OR migration_bit MS_RecoveryRequired OR migration_bit MS_Failed"
| "migration_mask MS_DestinationPrepared =
     migration_bit MS_StateTransferPending OR migration_bit MS_CommitReady OR migration_bit MS_Aborted OR migration_bit MS_RecoveryRequired OR migration_bit MS_Failed"
| "migration_mask MS_StateTransferPending =
     migration_bit MS_StateTransferred OR migration_bit MS_Aborted OR migration_bit MS_RecoveryRequired OR migration_bit MS_Failed"
| "migration_mask MS_StateTransferred =
     migration_bit MS_CommitReady OR migration_bit MS_RecoveryRequired OR migration_bit MS_Failed"
| "migration_mask MS_CommitReady =
     migration_bit MS_Committed OR migration_bit MS_Aborted OR migration_bit MS_RecoveryRequired OR migration_bit MS_Failed"
| "migration_mask MS_Committed =
     migration_bit MS_SourceRevoked OR migration_bit MS_RecoveryRequired"
| "migration_mask MS_SourceRevoked =
     migration_bit MS_Completed OR migration_bit MS_RecoveryRequired"
| "migration_mask MS_Completed =
     0"
| "migration_mask MS_Aborted =
     0"
| "migration_mask MS_RecoveryRequired =
     0"
| "migration_mask MS_Failed =
     0"

definition is_legal_migration_transition :: "migration_state \<Rightarrow> migration_state \<Rightarrow> bool" where
  "is_legal_migration_transition from to =
    (if from = to then False else migration_mask from AND migration_bit to \<noteq> 0)"

definition check_migration_transition :: "migration_state \<Rightarrow> migration_state \<Rightarrow> status_code" where
  "check_migration_transition from to =
    (if from = to then SC_InvalidTransition
     else if is_legal_migration_transition from to then SC_Ok
     else SC_InvalidTransition)"

definition allowed_migration_transitions_from :: "migration_state \<Rightarrow> migration_state list" where
  "allowed_migration_transitions_from from =
    filter (is_legal_migration_transition from) (map fst migration_state_names)"

definition migration_state_is_terminal :: "migration_state \<Rightarrow> bool" where
  "migration_state_is_terminal s =
    (case s of MS_Completed \<Rightarrow> True | MS_Aborted \<Rightarrow> True | MS_Failed \<Rightarrow> True | _ \<Rightarrow> False)"

definition migration_state_holds_authority :: "migration_state \<Rightarrow> bool" where
  "migration_state_holds_authority s \<longleftrightarrow> \<not> migration_state_is_terminal s \<and> s \<noteq> MS_RecoveryRequired"

definition migration_state_after_cutover :: "migration_state \<Rightarrow> bool" where
  "migration_state_after_cutover s =
    (case s of MS_Committed \<Rightarrow> True | MS_SourceRevoked \<Rightarrow> True | MS_Completed \<Rightarrow> True | _ \<Rightarrow> False)"

section \<open>Plans and records\<close>

type_synonym micros = "64 word"

record migration_plan =
  mp_id :: mg_id
  mp_generation :: mg_gen
  mp_virtual_id :: va_id
  mp_virtual_generation :: va_gen
  mp_source_backing :: bk_id
  mp_source_backing_generation :: bk_gen
  mp_destination_backing :: bk_id
  mp_destination_backing_generation :: bk_gen
  mp_source_physical :: pd_id
  mp_source_physical_generation :: pd_gen
  mp_destination_physical :: pd_id
  mp_destination_physical_generation :: pd_gen
  mp_tenant :: tn_id
  mp_tenant_generation :: tn_gen
  mp_contract_generation :: rc_gen
  mp_projection_generation :: cp_gen
  mp_policy_generation :: pol_gen
  mp_epoch :: epoch
  mp_klass :: migration_class
  mp_state_transfer_required :: bool
  mp_live_state_movement :: bool
  mp_rationale :: string

record migration_record =
  mg_plan :: migration_plan
  mg_state :: migration_state
  mg_source_authoritative :: bool
  mg_destination_authoritative :: bool
  mg_state_transfer_performed :: bool
  mg_source_assignment :: as_id
  mg_destination_assignment :: as_id
  mg_destination_projection_generation :: cp_gen
  mg_planned_at :: micros
  mg_prepared_at :: micros
  mg_committed_at :: micros
  mg_completed_at :: micros
  mg_note :: string

section \<open>The transition table\<close>

primrec migration_edges :: "migration_state \<Rightarrow> migration_state list" where
  "migration_edges MS_Planned = [MS_Prepared, MS_Aborted, MS_Failed]"
| "migration_edges MS_Prepared = [MS_SourceDraining, MS_Aborted, MS_RecoveryRequired, MS_Failed]"
| "migration_edges MS_SourceDraining = [MS_DestinationPrepared, MS_Aborted, MS_RecoveryRequired, MS_Failed]"
| "migration_edges MS_DestinationPrepared = [MS_StateTransferPending, MS_CommitReady, MS_Aborted, MS_RecoveryRequired, MS_Failed]"
| "migration_edges MS_StateTransferPending = [MS_StateTransferred, MS_Aborted, MS_RecoveryRequired, MS_Failed]"
| "migration_edges MS_StateTransferred = [MS_CommitReady, MS_RecoveryRequired, MS_Failed]"
| "migration_edges MS_CommitReady = [MS_Committed, MS_Aborted, MS_RecoveryRequired, MS_Failed]"
| "migration_edges MS_Committed = [MS_SourceRevoked, MS_RecoveryRequired]"
| "migration_edges MS_SourceRevoked = [MS_Completed, MS_RecoveryRequired]"
| "migration_edges MS_Completed = []"
| "migration_edges MS_Aborted = []"
| "migration_edges MS_RecoveryRequired = []"
| "migration_edges MS_Failed = []"

lemma migration_bit_simps:
  "migration_bit MS_Planned = 1"
  "migration_bit MS_Prepared = 2"
  "migration_bit MS_SourceDraining = 4"
  "migration_bit MS_DestinationPrepared = 8"
  "migration_bit MS_StateTransferPending = 16"
  "migration_bit MS_StateTransferred = 32"
  "migration_bit MS_CommitReady = 64"
  "migration_bit MS_Committed = 128"
  "migration_bit MS_SourceRevoked = 256"
  "migration_bit MS_Completed = 512"
  "migration_bit MS_Aborted = 1024"
  "migration_bit MS_RecoveryRequired = 2048"
  "migration_bit MS_Failed = 4096"
  by (simp_all add: migration_bit_def)

lemma migration_state_value_inj [simp]: "migration_state_value a = migration_state_value b \<longleftrightarrow> a = b"
  by (cases a; cases b) simp_all

lemma migration_state_names_keys:
  "map fst migration_state_names =
    [MS_Planned, MS_Prepared, MS_SourceDraining, MS_DestinationPrepared,
     MS_StateTransferPending, MS_StateTransferred, MS_CommitReady, MS_Committed,
     MS_SourceRevoked, MS_Completed, MS_Aborted, MS_RecoveryRequired,
     MS_Failed]"
  by (simp add: migration_state_names_def)

interpretation migration_state_text: name_table migration_state_names
proof
  fix v
  have "v \<in> set (map fst migration_state_names)" unfolding migration_state_names_keys by (cases v) simp_all
  then show "v \<in> fst ` set migration_state_names" by simp
  show "distinct (map fst migration_state_names)" by (simp add: migration_state_names_keys)
  show "distinct (map snd migration_state_names)" by code_simp
qed

lemma legal_migration_edges [check_simps]:
  "is_legal_migration_transition from to \<longleftrightarrow> to \<in> set (migration_edges from)"
  by (cases "from"; cases to) (simp_all add: is_legal_migration_transition_def migration_bit_simps)

lemma migration_edges_irrefl: "s \<notin> set (migration_edges s)"
  by (cases s) simp_all

lemma check_migration_transition_ok [simp]:
  "check_migration_transition from to = SC_Ok \<longleftrightarrow> to \<in> set (migration_edges from)"
  by (auto simp: check_migration_transition_def legal_migration_edges migration_edges_irrefl)

text \<open>The migration masks are exactly the documented edge list, the check accepts exactly its
  edges, and the enumeration function lists it.\<close>

theorem migration_table_correct:
  "is_legal_migration_transition from to = (to \<in> set (migration_edges from)) \<and>
   check_migration_transition from to =
     (if to \<in> set (migration_edges from) then SC_Ok else SC_InvalidTransition) \<and>
   allowed_migration_transitions_from from = migration_edges from"
proof (intro conjI)
  show "is_legal_migration_transition from to = (to \<in> set (migration_edges from))"
    by (rule legal_migration_edges)
  show "check_migration_transition from to =
     (if to \<in> set (migration_edges from) then SC_Ok else SC_InvalidTransition)"
    by (auto simp: check_migration_transition_def legal_migration_edges migration_edges_irrefl)
  show "allowed_migration_transitions_from from = migration_edges from"
    unfolding allowed_migration_transitions_from_def migration_state_names_keys
    by (cases "from") (simp_all add: legal_migration_edges)
qed

section \<open>Paths\<close>

inductive migration_path :: "migration_state \<Rightarrow> migration_state \<Rightarrow> bool" where
  here: "migration_path s s"
| step: "migration_path s t \<Longrightarrow> is_legal_migration_transition t u \<Longrightarrow> migration_path s u"

lemma after_cutover_step:
  "migration_state_after_cutover t \<Longrightarrow> u \<in> set (migration_edges t) \<Longrightarrow>
   migration_state_after_cutover u \<or> u = MS_RecoveryRequired"
  by (cases t) (auto simp: migration_state_after_cutover_def)

lemma cutover_edge:
  "u \<in> set (migration_edges t) \<Longrightarrow> migration_state_after_cutover u \<Longrightarrow>
   migration_state_after_cutover t \<or> (t = MS_CommitReady \<and> u = MS_Committed)"
  by (cases t) (auto simp: migration_state_after_cutover_def)

lemma recovery_is_stuck: "migration_edges MS_RecoveryRequired = []"
  by simp

lemma path_after_cutover:
  "migration_path s t \<Longrightarrow> migration_state_after_cutover s \<Longrightarrow>
   migration_state_after_cutover t \<or> t = MS_RecoveryRequired"
  by (induction rule: migration_path.induct) (auto simp: legal_migration_edges dest: after_cutover_step)

lemma path_crosses_commit:
  "migration_path s t \<Longrightarrow> \<not> migration_state_after_cutover s \<Longrightarrow> migration_state_after_cutover t \<Longrightarrow>
   migration_path s MS_CommitReady"
  by (induction rule: migration_path.induct) (auto simp: legal_migration_edges dest: cutover_edge)

text \<open>Authority moves at one edge only. A path that ends after the cutover either started after it or
  went through CommitReady, and a path that starts after the cutover never ends Aborted or Failed.\<close>

theorem migration_single_cutover:
  assumes "migration_path s t"
  shows "(migration_state_after_cutover t \<longrightarrow> migration_state_after_cutover s \<or> migration_path s MS_CommitReady) \<and>
    (migration_state_after_cutover s \<longrightarrow> t \<noteq> MS_Aborted \<and> t \<noteq> MS_Failed)"
  using path_crosses_commit [OF assms] path_after_cutover [OF assms]
  by (auto simp: migration_state_after_cutover_def)

theorem migration_single_cutover_witness:
  "migration_path MS_Committed MS_SourceRevoked \<and> MS_SourceRevoked \<noteq> MS_Aborted"
proof -
  have p: "migration_path MS_Committed MS_SourceRevoked"
    by (rule migration_path.step [OF migration_path.here]) (simp add: legal_migration_edges)
  from migration_single_cutover [OF p] p show ?thesis by simp
qed

text \<open>Every legal step climbs a rank, so a migration takes at most seven of them after Planned.\<close>

primrec migration_rank :: "migration_state \<Rightarrow> nat" where
  "migration_rank MS_Planned = 0"
| "migration_rank MS_Prepared = 1"
| "migration_rank MS_SourceDraining = 2"
| "migration_rank MS_DestinationPrepared = 3"
| "migration_rank MS_StateTransferPending = 4"
| "migration_rank MS_StateTransferred = 5"
| "migration_rank MS_CommitReady = 6"
| "migration_rank MS_Committed = 7"
| "migration_rank MS_SourceRevoked = 8"
| "migration_rank MS_Completed = 9"
| "migration_rank MS_Aborted = 9"
| "migration_rank MS_RecoveryRequired = 9"
| "migration_rank MS_Failed = 9"

lemma migration_rank_step:
  "is_legal_migration_transition s t \<Longrightarrow> migration_rank s < migration_rank t"
  by (cases s) (auto simp: legal_migration_edges)

lemma migration_wf: "wf {(t, s). is_legal_migration_transition s t}"
proof (rule wf_subset)
  show "wf (measure (\<lambda>s. 9 - migration_rank s))" by simp
  have "migration_rank t \<le> 9" for t by (cases t) simp_all
  then show "{(t, s). is_legal_migration_transition s t} \<subseteq> measure (\<lambda>s. 9 - migration_rank s)"
    using migration_rank_step by (fastforce intro: diff_less_mono2 order.strict_trans2)
qed

lemma terminal_iff_stuck:
  "migration_edges s = [] \<longleftrightarrow> migration_state_is_terminal s \<or> s = MS_RecoveryRequired"
  by (cases s) (simp_all add: migration_state_is_terminal_def)

text \<open>C33: every migration terminates: the transition relation is well founded, and the states without a
  successor are exactly those that hold no authority.\<close>

theorem migration_terminates:
  "wf {(t, s). is_legal_migration_transition s t} \<and>
   (allowed_migration_transitions_from s = [] \<longleftrightarrow> \<not> migration_state_holds_authority s)"
proof -
  have "allowed_migration_transitions_from s = migration_edges s"
    unfolding allowed_migration_transitions_from_def migration_state_names_keys
    by (cases s) (simp_all add: legal_migration_edges)
  then show ?thesis
    using migration_wf by (simp add: terminal_iff_stuck migration_state_holds_authority_def)
qed

end
