(* ===== verification/AV_Lifecycle.thy ===== *)
theory AV_Lifecycle
  imports AV_Status
begin

text \<open>
  The virtual accelerator lifecycle (\<open>include/av/lifecycle.hpp\<close>, \<open>src/lifecycle.cpp\<close>): the states with
  their enumerator values and names, the transition table as the bit masks the source computes, and
  the predicates over states. The masks are shown equal to the explicit edge list \<open>lifecycle_edges\<close>,
  which is the specification the other theories reason with.
\<close>

unbundle bit_operations_syntax

section \<open>States\<close>

datatype lifecycle =
    LC_Created
  | LC_Provisioned
  | LC_Attached
  | LC_Active
  | LC_Draining
  | LC_Suspended
  | LC_Migrating
  | LC_RecoveryRequired
  | LC_Fenced
  | LC_Retired

primrec lifecycle_value :: "lifecycle \<Rightarrow> nat" where
  "lifecycle_value LC_Created = 0"
| "lifecycle_value LC_Provisioned = 1"
| "lifecycle_value LC_Attached = 2"
| "lifecycle_value LC_Active = 3"
| "lifecycle_value LC_Draining = 4"
| "lifecycle_value LC_Suspended = 5"
| "lifecycle_value LC_Migrating = 6"
| "lifecycle_value LC_RecoveryRequired = 7"
| "lifecycle_value LC_Fenced = 8"
| "lifecycle_value LC_Retired = 9"

definition lifecycle_names :: "(lifecycle \<times> string) list" where
  "lifecycle_names =
    [(LC_Created, ''Created''), (LC_Provisioned, ''Provisioned''), (LC_Attached, ''Attached''),
     (LC_Active, ''Active''), (LC_Draining, ''Draining''), (LC_Suspended, ''Suspended''),
     (LC_Migrating, ''Migrating''), (LC_RecoveryRequired, ''RecoveryRequired''), (LC_Fenced, ''Fenced''),
     (LC_Retired, ''Retired'')]"

definition lifecycle_bit :: "lifecycle \<Rightarrow> u16" where
  "lifecycle_bit s = push_bit (lifecycle_value s) 1"

primrec lifecycle_mask :: "lifecycle \<Rightarrow> u16" where
  "lifecycle_mask LC_Created =
     lifecycle_bit LC_Provisioned OR lifecycle_bit LC_Fenced OR lifecycle_bit LC_RecoveryRequired OR
     lifecycle_bit LC_Retired"
| "lifecycle_mask LC_Provisioned =
     lifecycle_bit LC_Attached OR lifecycle_bit LC_Suspended OR lifecycle_bit LC_Migrating OR
     lifecycle_bit LC_Fenced OR lifecycle_bit LC_RecoveryRequired OR lifecycle_bit LC_Retired"
| "lifecycle_mask LC_Attached =
     lifecycle_bit LC_Active OR lifecycle_bit LC_Draining OR lifecycle_bit LC_Suspended OR
     lifecycle_bit LC_Provisioned OR lifecycle_bit LC_Migrating OR lifecycle_bit LC_Fenced OR
     lifecycle_bit LC_RecoveryRequired OR lifecycle_bit LC_Retired"
| "lifecycle_mask LC_Active =
     lifecycle_bit LC_Draining OR lifecycle_bit LC_Suspended OR lifecycle_bit LC_Provisioned OR
     lifecycle_bit LC_Migrating OR lifecycle_bit LC_Fenced OR lifecycle_bit LC_RecoveryRequired OR
     lifecycle_bit LC_Retired"
| "lifecycle_mask LC_Draining =
     lifecycle_bit LC_Provisioned OR lifecycle_bit LC_Suspended OR lifecycle_bit LC_Active OR
     lifecycle_bit LC_Migrating OR lifecycle_bit LC_Fenced OR lifecycle_bit LC_RecoveryRequired OR
     lifecycle_bit LC_Retired"
| "lifecycle_mask LC_Suspended =
     lifecycle_bit LC_Provisioned OR lifecycle_bit LC_Attached OR lifecycle_bit LC_Migrating OR
     lifecycle_bit LC_Fenced OR lifecycle_bit LC_RecoveryRequired OR lifecycle_bit LC_Retired"
| "lifecycle_mask LC_Migrating =
     lifecycle_bit LC_Attached OR lifecycle_bit LC_Active OR lifecycle_bit LC_Provisioned OR
     lifecycle_bit LC_RecoveryRequired OR lifecycle_bit LC_Fenced OR lifecycle_bit LC_Retired"
| "lifecycle_mask LC_RecoveryRequired =
     lifecycle_bit LC_Provisioned OR lifecycle_bit LC_Suspended OR lifecycle_bit LC_Fenced OR
     lifecycle_bit LC_Retired"
| "lifecycle_mask LC_Fenced = lifecycle_bit LC_RecoveryRequired OR lifecycle_bit LC_Retired"
| "lifecycle_mask LC_Retired = 0"

definition lifecycle_name :: "lifecycle \<Rightarrow> string" where
  "lifecycle_name s = table_name lifecycle_names ''Unknown'' s"

definition parse_lifecycle :: "string \<Rightarrow> lifecycle option" where
  "parse_lifecycle text = table_parse lifecycle_names text"

definition all_lifecycle_states :: "lifecycle list" where
  "all_lifecycle_states = map fst lifecycle_names"

definition is_legal_transition :: "lifecycle \<Rightarrow> lifecycle \<Rightarrow> bool" where
  "is_legal_transition from to = (if from = to then False else lifecycle_mask from AND lifecycle_bit to \<noteq> 0)"

definition check_transition :: "lifecycle \<Rightarrow> lifecycle \<Rightarrow> status_code" where
  "check_transition from to =
    (if from = to then SC_InvalidTransition
     else if is_legal_transition from to then SC_Ok
     else SC_InvalidTransition)"

definition allowed_transitions_from :: "lifecycle \<Rightarrow> lifecycle list" where
  "allowed_transitions_from from = filter (is_legal_transition from) (map fst lifecycle_names)"

definition lifecycle_is_terminal :: "lifecycle \<Rightarrow> bool" where
  "lifecycle_is_terminal s \<longleftrightarrow> s = LC_Retired"

definition lifecycle_accepts_mutation :: "lifecycle \<Rightarrow> bool" where
  "lifecycle_accepts_mutation s \<longleftrightarrow> s \<noteq> LC_Fenced \<and> s \<noteq> LC_Retired"

definition lifecycle_requires_backing :: "lifecycle \<Rightarrow> bool" where
  "lifecycle_requires_backing s =
    (case s of LC_Attached \<Rightarrow> True | LC_Active \<Rightarrow> True | LC_Draining \<Rightarrow> True | _ \<Rightarrow> False)"

definition lifecycle_allows_leases :: "lifecycle \<Rightarrow> bool" where
  "lifecycle_allows_leases s =
    (case s of LC_Attached \<Rightarrow> True | LC_Active \<Rightarrow> True | LC_Draining \<Rightarrow> True | _ \<Rightarrow> False)"

section \<open>The transition table\<close>

text \<open>The specification: the edges as a list per state, in enumeration order.\<close>

primrec lifecycle_edges :: "lifecycle \<Rightarrow> lifecycle list" where
  "lifecycle_edges LC_Created = [LC_Provisioned, LC_RecoveryRequired, LC_Fenced, LC_Retired]"
| "lifecycle_edges LC_Provisioned =
     [LC_Attached, LC_Suspended, LC_Migrating, LC_RecoveryRequired, LC_Fenced, LC_Retired]"
| "lifecycle_edges LC_Attached =
     [LC_Provisioned, LC_Active, LC_Draining, LC_Suspended, LC_Migrating, LC_RecoveryRequired, LC_Fenced, LC_Retired]"
| "lifecycle_edges LC_Active =
     [LC_Provisioned, LC_Draining, LC_Suspended, LC_Migrating, LC_RecoveryRequired, LC_Fenced, LC_Retired]"
| "lifecycle_edges LC_Draining =
     [LC_Provisioned, LC_Active, LC_Suspended, LC_Migrating, LC_RecoveryRequired, LC_Fenced, LC_Retired]"
| "lifecycle_edges LC_Suspended =
     [LC_Provisioned, LC_Attached, LC_Migrating, LC_RecoveryRequired, LC_Fenced, LC_Retired]"
| "lifecycle_edges LC_Migrating =
     [LC_Provisioned, LC_Attached, LC_Active, LC_RecoveryRequired, LC_Fenced, LC_Retired]"
| "lifecycle_edges LC_RecoveryRequired = [LC_Provisioned, LC_Suspended, LC_Fenced, LC_Retired]"
| "lifecycle_edges LC_Fenced = [LC_RecoveryRequired, LC_Retired]"
| "lifecycle_edges LC_Retired = []"

lemma lifecycle_bit_simps:
  "lifecycle_bit LC_Created = 1" "lifecycle_bit LC_Provisioned = 2" "lifecycle_bit LC_Attached = 4"
  "lifecycle_bit LC_Active = 8" "lifecycle_bit LC_Draining = 16" "lifecycle_bit LC_Suspended = 32"
  "lifecycle_bit LC_Migrating = 64" "lifecycle_bit LC_RecoveryRequired = 128" "lifecycle_bit LC_Fenced = 256"
  "lifecycle_bit LC_Retired = 512"
  by (simp_all add: lifecycle_bit_def)

lemma legal_transition_edges [check_simps]: "is_legal_transition from to \<longleftrightarrow> to \<in> set (lifecycle_edges from)"
  by (cases "from"; cases to) (simp_all add: is_legal_transition_def lifecycle_bit_simps)

lemma lifecycle_edges_irrefl: "s \<notin> set (lifecycle_edges s)"
  by (cases s) simp_all

lemma check_transition_ok [simp]:
  "check_transition from to = SC_Ok \<longleftrightarrow> to \<in> set (lifecycle_edges from)"
  by (auto simp: check_transition_def legal_transition_edges lifecycle_edges_irrefl)

lemma check_transition_fails:
  "check_transition from to \<noteq> SC_Ok \<Longrightarrow> check_transition from to = SC_InvalidTransition"
  by (simp add: check_transition_def split: if_splits)

lemma lifecycle_names_states:
  "map fst lifecycle_names =
    [LC_Created, LC_Provisioned, LC_Attached, LC_Active, LC_Draining, LC_Suspended, LC_Migrating,
     LC_RecoveryRequired, LC_Fenced, LC_Retired]"
  by (simp add: lifecycle_names_def)

interpretation lifecycle_text: name_table lifecycle_names
proof
  fix s
  have "s \<in> set (map fst lifecycle_names)" unfolding lifecycle_names_states by (cases s) simp_all
  then show "s \<in> fst ` set lifecycle_names" by simp
  show "distinct (map fst lifecycle_names)" by (simp add: lifecycle_names_states)
  show "distinct (map snd lifecycle_names)" by code_simp
qed

text \<open>The bit-mask transition table is exactly the documented edge list, \<open>check_transition\<close>
  accepts precisely its edges and refuses everything else with one code, and
  \<open>allowed_transitions_from\<close> enumerates it.\<close>

theorem lifecycle_table_correct:
  "is_legal_transition from to = (to \<in> set (lifecycle_edges from)) \<and>
   check_transition from to =
     (if to \<in> set (lifecycle_edges from) then SC_Ok else SC_InvalidTransition) \<and>
   allowed_transitions_from from = lifecycle_edges from"
proof (intro conjI)
  show "is_legal_transition from to = (to \<in> set (lifecycle_edges from))"
    by (rule legal_transition_edges)
  show "check_transition from to =
     (if to \<in> set (lifecycle_edges from) then SC_Ok else SC_InvalidTransition)"
    using check_transition_ok [of "from" to] check_transition_fails [of "from" to] by auto
  show "allowed_transitions_from from = lifecycle_edges from"
    unfolding allowed_transitions_from_def lifecycle_names_states
    by (cases "from") (simp_all add: legal_transition_edges)
qed

section \<open>Reachability in the table\<close>

text \<open>A path of legal transitions.\<close>

inductive lifecycle_path :: "lifecycle \<Rightarrow> lifecycle \<Rightarrow> bool" where
  here: "lifecycle_path s s"
| step: "lifecycle_path s t \<Longrightarrow> is_legal_transition t u \<Longrightarrow> lifecycle_path s u"

lemma lifecycle_path_retired: "lifecycle_path s t \<Longrightarrow> s = LC_Retired \<Longrightarrow> t = LC_Retired"
  by (induction rule: lifecycle_path.induct) (auto simp: legal_transition_edges)

lemma lifecycle_no_return: "u \<in> set (lifecycle_edges t) \<Longrightarrow> u \<noteq> LC_Created"
  by (cases t) auto

lemma lifecycle_path_created: "lifecycle_path s t \<Longrightarrow> t = LC_Created \<Longrightarrow> s = LC_Created"
  by (induction rule: lifecycle_path.induct) (auto simp: legal_transition_edges dest: lifecycle_no_return)

lemma lifecycle_can_retire: "s \<noteq> LC_Retired \<Longrightarrow> is_legal_transition s LC_Retired"
  by (cases s) (simp_all add: legal_transition_edges)

text \<open>Retired is terminal and always attainable: every state other than Retired may be retired in
  one step, no path of legal transitions leaves Retired, and no path leads back to Created.\<close>

theorem lifecycle_retirement:
  "(is_legal_transition s LC_Retired \<longleftrightarrow> \<not> lifecycle_is_terminal s) \<and>
   (lifecycle_path LC_Retired t \<longleftrightarrow> t = LC_Retired) \<and>
   (lifecycle_path s LC_Created \<longleftrightarrow> s = LC_Created)"
  using lifecycle_can_retire [of s] lifecycle_path_retired [of LC_Retired t]
    lifecycle_path_created [of s LC_Created]
  by (auto simp: lifecycle_is_terminal_def legal_transition_edges intro: lifecycle_path.here)

text \<open>The steps that carry live leases forward stay inside Attached, Active and Draining.\<close>

lemma lease_keeping_edges:
  "is_legal_transition s t \<and> lifecycle_allows_leases s \<and> lifecycle_allows_leases t \<longleftrightarrow>
   (s, t) \<in> {(LC_Attached, LC_Active), (LC_Attached, LC_Draining), (LC_Active, LC_Draining), (LC_Draining, LC_Active)}"
  by (cases s; cases t) (simp_all add: legal_transition_edges lifecycle_allows_leases_def)

end
