(* ===== verification/AV_Model.thy ===== *)
theory AV_Model
  imports AV_Policy AV_Migration AV_Lifecycle
begin

text \<open>
  The durable records and the complete virtualization state (\<open>include/av/model.hpp\<close>,
  \<open>include/av/backing.hpp\<close>, \<open>include/av/evidence.hpp\<close>, \<open>include/av/audit.hpp\<close>,
  \<open>include/av/accounting.hpp\<close>), one record per struct with the fields in the order of the source and a
  definition for the value-initialised struct where the runtime starts from one.

  Two text fields are left out: \<open>Decision::reason\<close> and \<open>AuditEntry::detail\<close> copy the diagnostic detail of a
  status, which the development does not model. \<open>UnixMicros\<close> is a 64 bit word. The \<open>std::map\<close>s of the
  state are ordered maps, the bounded logs are lists, oldest entry first.
\<close>

section \<open>Enumerations\<close>

datatype lease_state =
    Lease_Granted
  | Lease_Active
  | Lease_Revoked
  | Lease_Expired
  | Lease_Fenced
  | Lease_Superseded

primrec lease_state_value :: "lease_state \<Rightarrow> nat" where
  "lease_state_value Lease_Granted = 0"
| "lease_state_value Lease_Active = 1"
| "lease_state_value Lease_Revoked = 2"
| "lease_state_value Lease_Expired = 3"
| "lease_state_value Lease_Fenced = 4"
| "lease_state_value Lease_Superseded = 5"

definition lease_state_names :: "(lease_state \<times> string) list" where
  "lease_state_names =
    [(Lease_Granted, ''Granted''),
     (Lease_Active, ''Active''),
     (Lease_Revoked, ''Revoked''),
     (Lease_Expired, ''Expired''),
     (Lease_Fenced, ''Fenced''),
     (Lease_Superseded, ''Superseded'')]"

definition lease_state_name :: "lease_state \<Rightarrow> string" where
  "lease_state_name v = table_name lease_state_names ''Unknown'' v"

definition parse_lease_state :: "string \<Rightarrow> lease_state option" where
  "parse_lease_state text = table_parse lease_state_names text"

datatype assignment_state =
    Asg_Proposed
  | Asg_Validated
  | Asg_Prepared
  | Asg_Committed
  | Asg_Active
  | Asg_Draining
  | Asg_Revoked
  | Asg_Superseded
  | Asg_Failed

primrec assignment_state_value :: "assignment_state \<Rightarrow> nat" where
  "assignment_state_value Asg_Proposed = 0"
| "assignment_state_value Asg_Validated = 1"
| "assignment_state_value Asg_Prepared = 2"
| "assignment_state_value Asg_Committed = 3"
| "assignment_state_value Asg_Active = 4"
| "assignment_state_value Asg_Draining = 5"
| "assignment_state_value Asg_Revoked = 6"
| "assignment_state_value Asg_Superseded = 7"
| "assignment_state_value Asg_Failed = 8"

definition assignment_state_names :: "(assignment_state \<times> string) list" where
  "assignment_state_names =
    [(Asg_Proposed, ''Proposed''),
     (Asg_Validated, ''Validated''),
     (Asg_Prepared, ''Prepared''),
     (Asg_Committed, ''Committed''),
     (Asg_Active, ''Active''),
     (Asg_Draining, ''Draining''),
     (Asg_Revoked, ''Revoked''),
     (Asg_Superseded, ''Superseded''),
     (Asg_Failed, ''Failed'')]"

definition assignment_state_name :: "assignment_state \<Rightarrow> string" where
  "assignment_state_name v = table_name assignment_state_names ''Unknown'' v"

definition parse_assignment_state :: "string \<Rightarrow> assignment_state option" where
  "parse_assignment_state text = table_parse assignment_state_names text"

datatype audit_kind =
    AK_Decision
  | AK_Mutation
  | AK_AuthorityRefusal
  | AK_LifecycleChange
  | AK_BackingChange
  | AK_MigrationChange
  | AK_Recovery
  | AK_Protocol
  | AK_Persistence

primrec audit_kind_value :: "audit_kind \<Rightarrow> nat" where
  "audit_kind_value AK_Decision = 0"
| "audit_kind_value AK_Mutation = 1"
| "audit_kind_value AK_AuthorityRefusal = 2"
| "audit_kind_value AK_LifecycleChange = 3"
| "audit_kind_value AK_BackingChange = 4"
| "audit_kind_value AK_MigrationChange = 5"
| "audit_kind_value AK_Recovery = 6"
| "audit_kind_value AK_Protocol = 7"
| "audit_kind_value AK_Persistence = 8"

definition audit_kind_names :: "(audit_kind \<times> string) list" where
  "audit_kind_names =
    [(AK_Decision, ''DECISION''),
     (AK_Mutation, ''MUTATION''),
     (AK_AuthorityRefusal, ''AUTHORITY_REFUSAL''),
     (AK_LifecycleChange, ''LIFECYCLE_CHANGE''),
     (AK_BackingChange, ''BACKING_CHANGE''),
     (AK_MigrationChange, ''MIGRATION_CHANGE''),
     (AK_Recovery, ''RECOVERY''),
     (AK_Protocol, ''PROTOCOL''),
     (AK_Persistence, ''PERSISTENCE'')]"

definition audit_kind_name :: "audit_kind \<Rightarrow> string" where
  "audit_kind_name v = table_name audit_kind_names ''DECISION'' v"

definition parse_audit_kind :: "string \<Rightarrow> audit_kind option" where
  "parse_audit_kind text = table_parse audit_kind_names text"

datatype evidence_kind =
    EK_Unknown
  | EK_DeviceDiscovery
  | EK_CapabilityQuery
  | EK_IsolationProbe
  | EK_BackingRefresh
  | EK_SyntheticAttestation
  | EK_MigrationProbe
  | EK_RecoveryRevalidation

definition lease_state_is_live :: "lease_state \<Rightarrow> bool" where
  "lease_state_is_live s \<longleftrightarrow> s = Lease_Granted \<or> s = Lease_Active"

section \<open>Entities\<close>

record tenant_record =
  tn_id :: tn_id
  tn_generation :: tn_gen
  tn_name :: string
  tn_external_subject :: string
  tn_created_at :: micros
  tn_updated_at :: micros
  tn_fenced :: bool
  tn_fence_reason :: string
  tn_active_attachments :: u32
  tn_owned :: "va_id list"

definition blank_tenant :: tenant_record where
  "blank_tenant =
    \<lparr> tn_id = no_id, tn_generation = no_gen, tn_name = [], tn_external_subject = [], tn_created_at = 0,
      tn_updated_at = 0, tn_fenced = False, tn_fence_reason = [], tn_active_attachments = 0, tn_owned = [] \<rparr>"

record lease_record =
  ls_id :: ls_id
  ls_generation :: ls_gen
  ls_virtual_id :: va_id
  ls_virtual_generation :: va_gen
  ls_tenant :: tn_id
  ls_tenant_generation :: tn_gen
  ls_backing_generation :: bk_gen
  ls_physical_generation :: pd_gen
  ls_policy_generation :: pol_gen
  ls_epoch :: epoch
  ls_grant_request :: rq_id
  ls_state :: lease_state
  ls_granted_at :: micros
  ls_renewed_at :: micros
  ls_expires_at :: micros
  ls_revoked_at :: micros
  ls_renewals :: u32
  ls_reason :: string

definition blank_lease :: lease_record where
  "blank_lease =
    \<lparr> ls_id = no_id, ls_generation = no_gen, ls_virtual_id = no_id, ls_virtual_generation = no_gen,
      ls_tenant = no_id, ls_tenant_generation = no_gen, ls_backing_generation = no_gen,
      ls_physical_generation = no_gen, ls_policy_generation = no_gen, ls_epoch = no_gen,
      ls_grant_request = no_id, ls_state = Lease_Granted, ls_granted_at = 0, ls_renewed_at = 0,
      ls_expires_at = 0, ls_revoked_at = 0, ls_renewals = 0, ls_reason = [] \<rparr>"

record backing_history =
  bh_assignment :: as_id
  bh_backing :: bk_id
  bh_backing_generation :: bk_gen
  bh_physical :: pd_id
  bh_physical_generation :: pd_gen
  bh_klass :: backing_class
  bh_multiplexing :: multiplexing
  bh_from :: micros
  bh_to :: micros
  bh_current :: bool
  bh_reason :: string

definition blank_history :: backing_history where
  "blank_history =
    \<lparr> bh_assignment = no_id, bh_backing = no_id, bh_backing_generation = no_gen, bh_physical = no_id,
      bh_physical_generation = no_gen, bh_klass = BC_Unknown, bh_multiplexing = MX_None, bh_from = 0,
      bh_to = 0, bh_current = False, bh_reason = [] \<rparr>"

record virtual_record =
  va_id :: va_id
  va_generation :: va_gen
  va_name :: string
  va_owner :: tn_id
  va_owner_generation :: tn_gen
  va_state :: lifecycle
  va_state_generation :: va_gen
  va_state_reason :: string
  va_contract :: resource_contract
  va_projection :: capability_projection
  va_assignment :: as_id
  va_backing :: bk_id
  va_backing_generation :: bk_gen
  va_physical :: pd_id
  va_physical_generation :: pd_gen
  va_backing_class :: backing_class
  va_multiplexing :: multiplexing
  va_isolation_class :: isolation_class
  va_isolation :: isolation_profile
  va_policy_generation :: pol_gen
  va_epoch :: epoch
  va_migration :: mg_id
  va_migration_generation :: mg_gen
  va_created_at :: micros
  va_updated_at :: micros
  va_retired_at :: micros
  va_retirement_reason :: string
  va_allocated_bytes :: u64
  va_peak_allocated_bytes :: u64
  va_allocation_operations :: u64
  va_kernel_operations :: u64
  va_active_attachments :: u32
  va_leases :: "ls_id list"
  va_backing_history :: "backing_history list"

definition blank_virtual :: virtual_record where
  "blank_virtual =
    \<lparr> va_id = no_id, va_generation = no_gen, va_name = [], va_owner = no_id, va_owner_generation = no_gen,
      va_state = LC_Created, va_state_generation = no_gen, va_state_reason = [],
      va_contract = empty_contract, va_projection = empty_projection, va_assignment = no_id,
      va_backing = no_id, va_backing_generation = no_gen, va_physical = no_id,
      va_physical_generation = no_gen, va_backing_class = BC_Unknown, va_multiplexing = MX_None,
      va_isolation_class = IC_Unknown, va_isolation = [], va_policy_generation = no_gen,
      va_epoch = no_gen, va_migration = no_id, va_migration_generation = no_gen, va_created_at = 0,
      va_updated_at = 0, va_retired_at = 0, va_retirement_reason = [], va_allocated_bytes = 0,
      va_peak_allocated_bytes = 0, va_allocation_operations = 0, va_kernel_operations = 0,
      va_active_attachments = 0, va_leases = [], va_backing_history = [] \<rparr>"

record physical_record =
  pd_id :: pd_id
  pd_generation :: pd_gen
  pd_agent :: ag_id
  pd_boot :: boot_id
  pd_stable_key :: string
  pd_vendor :: string
  pd_model :: string
  pd_driver_version :: string
  pd_architecture :: string
  pd_provenance :: provenance
  pd_memory_total_bytes :: u64
  pd_compute_units :: u32
  pd_compute_capability_major :: u32
  pd_compute_capability_minor :: u32
  pd_mechanism :: string
  pd_hardware_partition_capable :: bool
  pd_virtual_function_capable :: bool
  pd_mig_capable :: bool
  pd_registered_at :: micros
  pd_evidence_at :: micros
  pd_evidence :: ev_id
  pd_evidence_generation :: ev_gen
  pd_present :: bool
  pd_backings :: "bk_id list"

definition blank_physical :: physical_record where
  "blank_physical =
    \<lparr> pd_id = no_id, pd_generation = no_gen, pd_agent = no_id, pd_boot = no_id, pd_stable_key = [],
      pd_vendor = [], pd_model = [], pd_driver_version = [], pd_architecture = [],
      pd_provenance = PV_Unknown, pd_memory_total_bytes = 0, pd_compute_units = 0,
      pd_compute_capability_major = 0, pd_compute_capability_minor = 0, pd_mechanism = [],
      pd_hardware_partition_capable = False, pd_virtual_function_capable = False, pd_mig_capable = False,
      pd_registered_at = 0, pd_evidence_at = 0, pd_evidence = no_id, pd_evidence_generation = no_gen,
      pd_present = False, pd_backings = [] \<rparr>"

record backing_assignment =
  as_id :: as_id
  as_virtual_id :: va_id
  as_virtual_generation :: va_gen
  as_backing :: bk_id
  as_backing_generation :: bk_gen
  as_physical :: pd_id
  as_physical_generation :: pd_gen
  as_tenant :: tn_id
  as_tenant_generation :: tn_gen
  as_policy_generation :: pol_gen
  as_contract_generation :: rc_gen
  as_projection_generation :: cp_gen
  as_epoch :: epoch
  as_state :: assignment_state
  as_authoritative :: bool
  as_proposed_at :: micros
  as_committed_at :: micros
  as_revoked_at :: micros
  as_reason :: string

definition blank_assignment :: backing_assignment where
  "blank_assignment =
    \<lparr> as_id = no_id, as_virtual_id = no_id, as_virtual_generation = no_gen, as_backing = no_id,
      as_backing_generation = no_gen, as_physical = no_id, as_physical_generation = no_gen,
      as_tenant = no_id, as_tenant_generation = no_gen, as_policy_generation = no_gen,
      as_contract_generation = no_gen, as_projection_generation = no_gen, as_epoch = no_gen,
      as_state = Asg_Proposed, as_authoritative = False, as_proposed_at = 0, as_committed_at = 0,
      as_revoked_at = 0, as_reason = [] \<rparr>"

record backing_record =
  bk_id :: bk_id
  bk_generation :: bk_gen
  bk_physical :: pd_id
  bk_physical_generation :: pd_gen
  bk_klass :: backing_class
  bk_provenance :: provenance
  bk_label :: string
  bk_mechanism :: string
  bk_multiplexing :: multiplexing
  bk_isolation_class :: isolation_class
  bk_isolation :: isolation_profile
  bk_capabilities :: capability_surface
  bk_capacity_bytes :: u64
  bk_compute_units :: u32
  bk_capability_rank :: u32
  bk_evidence :: ev_id
  bk_evidence_generation :: ev_gen
  bk_evidence_at :: micros
  bk_evidence_fresh :: bool
  bk_available :: bool
  bk_exclusive :: bool
  bk_externally_lifecycle_managed :: bool
  bk_external_partition_ref :: string
  bk_assigned_to :: va_id
  bk_active_assignment :: as_id
  bk_assigned_generation :: bk_gen

definition blank_backing :: backing_record where
  "blank_backing =
    \<lparr> bk_id = no_id, bk_generation = no_gen, bk_physical = no_id, bk_physical_generation = no_gen,
      bk_klass = BC_Unknown, bk_provenance = PV_Unknown, bk_label = [], bk_mechanism = [],
      bk_multiplexing = MX_None, bk_isolation_class = IC_Unknown, bk_isolation = [], bk_capabilities = [],
      bk_capacity_bytes = 0, bk_compute_units = 0, bk_capability_rank = 0, bk_evidence = no_id,
      bk_evidence_generation = no_gen, bk_evidence_at = 0, bk_evidence_fresh = True, bk_available = False,
      bk_exclusive = True, bk_externally_lifecycle_managed = False, bk_external_partition_ref = [],
      bk_assigned_to = no_id, bk_active_assignment = no_id, bk_assigned_generation = no_gen \<rparr>"

record evidence_record =
  ev_id :: ev_id
  ev_generation :: ev_gen
  ev_kind :: evidence_kind
  ev_provenance :: provenance
  ev_agent :: ag_id
  ev_boot :: boot_id
  ev_physical :: pd_id
  ev_physical_generation :: pd_gen
  ev_backing :: bk_id
  ev_backing_generation :: bk_gen
  ev_produced_at :: micros
  ev_payload_fingerprint :: u64
  ev_mechanism :: string
  ev_detail :: string

definition blank_evidence :: evidence_record where
  "blank_evidence =
    \<lparr> ev_id = no_id, ev_generation = no_gen, ev_kind = EK_Unknown, ev_provenance = PV_Unknown,
      ev_agent = no_id, ev_boot = no_id, ev_physical = no_id, ev_physical_generation = no_gen,
      ev_backing = no_id, ev_backing_generation = no_gen, ev_produced_at = 0, ev_payload_fingerprint = 0,
      ev_mechanism = [], ev_detail = [] \<rparr>"

section \<open>Records of what was decided\<close>

record decision =
  dc_id :: dec_id
  dc_at :: micros
  dc_operation :: string
  dc_outcome :: status_code
  dc_epoch :: epoch
  dc_virtual_id :: va_id
  dc_virtual_generation :: va_gen
  dc_tenant :: tn_id
  dc_tenant_generation :: tn_gen
  dc_backing :: bk_id
  dc_backing_generation :: bk_gen
  dc_physical :: pd_id
  dc_physical_generation :: pd_gen
  dc_lease :: ls_id
  dc_lease_generation :: ls_gen
  dc_policy_generation :: pol_gen
  dc_migration :: mg_id
  dc_migration_generation :: mg_gen
  dc_request :: rq_id

record audit_entry =
  au_id :: dec_id
  au_at :: micros
  au_kind :: audit_kind
  au_operation :: string
  au_outcome :: status_code
  au_epoch :: epoch
  au_virtual_id :: va_id
  au_virtual_generation :: va_gen
  au_tenant :: tn_id
  au_tenant_generation :: tn_gen
  au_backing :: bk_id
  au_backing_generation :: bk_gen
  au_migration :: mg_id
  au_migration_generation :: mg_gen

record request_outcome =
  ro_request :: rq_id
  ro_session :: u64
  ro_operation :: string
  ro_outcome :: status_code
  ro_at :: micros

record accounting =
  ac_coordinator_boots :: u64
  ac_agent_boots :: u64
  ac_physical_registered :: u64
  ac_physical_lost :: u64
  ac_virtual_created :: u64
  ac_virtual_retired :: u64
  ac_virtual_active :: u64
  ac_leases_issued :: u64
  ac_leases_renewed :: u64
  ac_leases_revoked :: u64
  ac_leases_fenced :: u64
  ac_attachments_active :: u64
  ac_peak_attachments_active :: u64
  ac_detaches :: u64
  ac_backing_assignments :: u64
  ac_backing_replacements :: u64
  ac_backing_revocations :: u64
  ac_migrations_planned :: u64
  ac_migrations_prepared :: u64
  ac_migrations_committed :: u64
  ac_migrations_aborted :: u64
  ac_stale_authority_refusals :: u64
  ac_authority_refusals :: u64
  ac_lifecycle_refusals :: u64
  ac_contract_violation_refusals :: u64
  ac_isolation_refusals :: u64
  ac_capability_refusals :: u64
  ac_oversubscription_denials :: u64
  ac_protocol_violations :: u64
  ac_duplicate_request_refusals :: u64
  ac_policy_updates :: u64
  ac_evidence_records :: u64
  ac_allocation_operations :: u64
  ac_kernel_operations :: u64
  ac_bytes_allocated_current :: u64
  ac_bytes_allocated_peak :: u64
  ac_persistence_writes :: u64
  ac_persistence_bytes :: u64
  ac_persistence_compactions :: u64

definition blank_accounting :: accounting where
  "blank_accounting =
    \<lparr> ac_coordinator_boots = 0, ac_agent_boots = 0, ac_physical_registered = 0, ac_physical_lost = 0,
      ac_virtual_created = 0, ac_virtual_retired = 0, ac_virtual_active = 0, ac_leases_issued = 0,
      ac_leases_renewed = 0, ac_leases_revoked = 0, ac_leases_fenced = 0, ac_attachments_active = 0,
      ac_peak_attachments_active = 0, ac_detaches = 0, ac_backing_assignments = 0,
      ac_backing_replacements = 0, ac_backing_revocations = 0, ac_migrations_planned = 0,
      ac_migrations_prepared = 0, ac_migrations_committed = 0, ac_migrations_aborted = 0,
      ac_stale_authority_refusals = 0, ac_authority_refusals = 0, ac_lifecycle_refusals = 0,
      ac_contract_violation_refusals = 0, ac_isolation_refusals = 0, ac_capability_refusals = 0,
      ac_oversubscription_denials = 0, ac_protocol_violations = 0, ac_duplicate_request_refusals = 0,
      ac_policy_updates = 0, ac_evidence_records = 0, ac_allocation_operations = 0,
      ac_kernel_operations = 0, ac_bytes_allocated_current = 0, ac_bytes_allocated_peak = 0,
      ac_persistence_writes = 0, ac_persistence_bytes = 0, ac_persistence_compactions = 0 \<rparr>"

section \<open>The state\<close>

definition schema_version :: u32 where
  "schema_version = 1"

record vstate =
  st_schema :: u32
  st_next_sequence :: u64
  st_epoch :: epoch
  st_policy :: virtualization_policy
  st_policy_generation :: pol_gen
  st_tenants :: "(tn_id, tenant_record) omap"
  st_physical :: "(pd_id, physical_record) omap"
  st_backings :: "(bk_id, backing_record) omap"
  st_virtuals :: "(va_id, virtual_record) omap"
  st_leases :: "(ls_id, lease_record) omap"
  st_assignments :: "(as_id, backing_assignment) omap"
  st_migrations :: "(mg_id, migration_record) omap"
  st_evidence :: "(ev_id, evidence_record) omap"
  st_accounting :: accounting
  st_audit :: "audit_entry list"
  st_decisions :: "decision list"
  st_requests :: "request_outcome list"

definition initial_state :: vstate where
  "initial_state =
    \<lparr> st_schema = schema_version, st_next_sequence = 1, st_epoch = no_gen, st_policy = blank_policy,
      st_policy_generation = no_gen, st_tenants = om_empty, st_physical = om_empty, st_backings = om_empty,
      st_virtuals = om_empty, st_leases = om_empty, st_assignments = om_empty, st_migrations = om_empty,
      st_evidence = om_empty, st_accounting = blank_accounting, st_audit = [], st_decisions = [],
      st_requests = [] \<rparr>"

definition kAuditCapacity :: nat where
  "kAuditCapacity = 4096"

definition kDecisionCapacity :: nat where
  "kDecisionCapacity = 4096"

definition kRequestWindowCapacity :: nat where
  "kRequestWindowCapacity = 2048"

text \<open>Agent sessions are process-local and never durable.\<close>

record agent_session =
  ag_id :: ag_id
  ag_boot :: boot_id
  ag_name :: string
  ag_endpoint :: string
  ag_connected :: bool
  ag_connected_at :: micros
  ag_last_seen :: micros
  ag_connection_id :: u64
  ag_devices :: "pd_id list"

section \<open>Well-formedness\<close>

text \<open>The \<open>std::map\<close> discipline: every container of the state is key-sorted.\<close>

definition maps_sorted :: "vstate \<Rightarrow> bool" where
  "maps_sorted s \<longleftrightarrow>
    om_sorted (st_tenants s) \<and> om_sorted (st_physical s) \<and> om_sorted (st_backings s) \<and>
    om_sorted (st_virtuals s) \<and> om_sorted (st_leases s) \<and> om_sorted (st_assignments s) \<and>
    om_sorted (st_migrations s) \<and> om_sorted (st_evidence s)"

lemma maps_sorted_initial [simp]: "maps_sorted initial_state"
  by (simp add: maps_sorted_def initial_state_def)

lemma lease_state_names_keys:
  "map fst lease_state_names =
    [Lease_Granted, Lease_Active, Lease_Revoked, Lease_Expired,
     Lease_Fenced, Lease_Superseded]"
  by (simp add: lease_state_names_def)

interpretation lease_state_text: name_table lease_state_names
proof
  fix v
  have "v \<in> set (map fst lease_state_names)" unfolding lease_state_names_keys by (cases v) simp_all
  then show "v \<in> fst ` set lease_state_names" by simp
  show "distinct (map fst lease_state_names)" by (simp add: lease_state_names_keys)
  show "distinct (map snd lease_state_names)" by code_simp
qed

lemma assignment_state_names_keys:
  "map fst assignment_state_names =
    [Asg_Proposed, Asg_Validated, Asg_Prepared, Asg_Committed,
     Asg_Active, Asg_Draining, Asg_Revoked, Asg_Superseded,
     Asg_Failed]"
  by (simp add: assignment_state_names_def)

interpretation assignment_state_text: name_table assignment_state_names
proof
  fix v
  have "v \<in> set (map fst assignment_state_names)" unfolding assignment_state_names_keys by (cases v) simp_all
  then show "v \<in> fst ` set assignment_state_names" by simp
  show "distinct (map fst assignment_state_names)" by (simp add: assignment_state_names_keys)
  show "distinct (map snd assignment_state_names)" by code_simp
qed

lemma audit_kind_names_keys:
  "map fst audit_kind_names =
    [AK_Decision, AK_Mutation, AK_AuthorityRefusal, AK_LifecycleChange,
     AK_BackingChange, AK_MigrationChange, AK_Recovery, AK_Protocol,
     AK_Persistence]"
  by (simp add: audit_kind_names_def)

interpretation audit_kind_text: name_table audit_kind_names
proof
  fix v
  have "v \<in> set (map fst audit_kind_names)" unfolding audit_kind_names_keys by (cases v) simp_all
  then show "v \<in> fst ` set audit_kind_names" by simp
  show "distinct (map fst audit_kind_names)" by (simp add: audit_kind_names_keys)
  show "distinct (map snd audit_kind_names)" by code_simp
qed

end
