(* ===== verification/AV_Projection.thy ===== *)
theory AV_Projection
  imports AV_Model
begin

text \<open>
  Capability projection and backing validation (\<open>src/runtime.cpp\<close>, \<open>set_capability\<close>,
  \<open>build_projection\<close>, \<open>validate_backing_for\<close>).

  \<open>build_projection\<close> is split along the paragraphs of the C++ function, each a function on the
  projection under construction. Proved: the exact entry the finished projection holds for every key
  (so an UNKNOWN report is never upgraded and a forbidden capability is never advertised), and the
  exact condition under which a backing is accepted.

  \<open>std::sort\<close> does not fix the order of equivalent elements; the merged isolation requirements are
  sorted with the stable \<open>sort_key\<close>, so of two requirements on one dimension the contract's is kept.
\<close>

section \<open>Building a projection\<close>

record projection_input =
  pi_contract :: resource_contract
  pi_backing :: "backing_record option"
  pi_physical :: "physical_record option"
  pi_policy :: virtualization_policy
  pi_identity :: u64
  pi_generation :: cp_gen

definition cap_entry ::
  "capability_key \<Rightarrow> capability_verdict \<Rightarrow> u64 \<Rightarrow> string \<Rightarrow> string \<Rightarrow> capability_entry" where
  "cap_entry key verdict v text prov =
    \<lparr> ce_key = key, ce_verdict = verdict, ce_value = v, ce_text = text, ce_provenance = prov \<rparr>"

definition set_capability ::
  "capability_key \<Rightarrow> capability_verdict \<Rightarrow> u64 \<Rightarrow> string \<Rightarrow> string \<Rightarrow>
   capability_projection \<Rightarrow> capability_projection" where
  "set_capability key verdict v text prov p =
    p\<lparr> cp_surface := surface_set (cap_entry key verdict v text prov) (cp_surface p) \<rparr>"

definition push_unknown :: "capability_key \<Rightarrow> capability_projection \<Rightarrow> capability_projection" where
  "push_unknown key p = p\<lparr> cp_unknown := cp_unknown p @ [key] \<rparr>"

definition push_hidden :: "capability_key \<Rightarrow> capability_projection \<Rightarrow> capability_projection" where
  "push_hidden key p = p\<lparr> cp_hidden := cp_hidden p @ [key] \<rparr>"

text \<open>Provenance texts.\<close>

definition txt_contract :: string where "txt_contract = ''resource-contract''"
definition txt_policy :: string where "txt_policy = ''virtualization-policy''"
definition txt_migration_policy :: string where "txt_migration_policy = ''policy''"
definition txt_backing_evidence :: string where "txt_backing_evidence = ''backing-evidence''"
definition txt_physical_evidence :: string where "txt_physical_evidence = ''physical-evidence''"
definition txt_no_backing :: string where "txt_no_backing = ''no-backing''"
definition txt_unassigned :: string where "txt_unassigned = ''unassigned''"

definition constrained_if :: "bool \<Rightarrow> capability_verdict" where
  "constrained_if b = (if b then CV_Constrained else CV_Unknown)"

definition projection_base :: "projection_input \<Rightarrow> capability_projection" where
  "projection_base input = empty_projection
    \<lparr> cp_id := Ident (pi_identity input),
      cp_generation := pi_generation input,
      cp_policy_generation := pol_generation (pi_policy input),
      cp_contract_generation := rc_generation (pi_contract input),
      cp_backing_generation := (case pi_backing input of Some b \<Rightarrow> bk_generation b | None \<Rightarrow> no_gen),
      cp_physical_generation := (case pi_physical input of Some d \<Rightarrow> pd_generation d | None \<Rightarrow> no_gen),
      cp_mechanism := (case pi_backing input of Some b \<Rightarrow> bk_mechanism b | None \<Rightarrow> txt_unassigned) \<rparr>"

definition project_contract :: "resource_contract \<Rightarrow> capability_projection \<Rightarrow> capability_projection" where
  "project_contract c p =
    set_capability CK_MaxConcurrentKernels (constrained_if (rc_max_concurrency c > 0))
      (ucast (rc_max_concurrency c)) [] txt_contract
   (set_capability CK_MaxStreams (constrained_if (rc_max_streams c > 0)) (ucast (rc_max_streams c)) [] txt_contract
   (set_capability CK_ComputeShareMilli (constrained_if (rc_compute_share_milli c > 0))
      (ucast (rc_compute_share_milli c)) [] txt_contract
   (set_capability CK_MemoryBudgetBytes (constrained_if (rc_memory_ceiling_bytes c > 0))
      (rc_memory_ceiling_bytes c) [] txt_contract p)))"

definition multiplexing_label :: "projection_input \<Rightarrow> string" where
  "multiplexing_label input =
    (case pi_backing input of Some b \<Rightarrow> multiplexing_name (bk_multiplexing b) | None \<Rightarrow> txt_unassigned)"

definition projection_migration_ok :: "projection_input \<Rightarrow> bool" where
  "projection_migration_ok input \<longleftrightarrow>
    rc_migration_allowed (pi_contract input) \<and> pol_migration_allowed (pi_policy input)"

definition project_mechanism :: "projection_input \<Rightarrow> capability_projection \<Rightarrow> capability_projection" where
  "project_mechanism input p =
    (let q = set_capability CK_MigrationSupport
               (if projection_migration_ok input then CV_Supported else CV_Unsupported) 0 [] txt_migration_policy
             (set_capability CK_ConcurrencyMode CV_Supported 0 (multiplexing_label input) txt_policy
             (set_capability CK_VirtualizationMechanism CV_Supported 0 (multiplexing_label input) txt_policy p))
     in if \<not> projection_migration_ok input then push_unknown CK_MigrationSupport q else q)"

definition project_compute_units :: "backing_record \<Rightarrow> capability_projection \<Rightarrow> capability_projection" where
  "project_compute_units b p =
    (if bk_compute_units b > 0
     then set_capability CK_SmCount CV_Supported (ucast (bk_compute_units b)) [] txt_backing_evidence p
     else push_unknown CK_SmCount (set_capability CK_SmCount CV_Unknown 0 [] txt_backing_evidence p))"

definition project_physical :: "physical_record option \<Rightarrow> capability_projection \<Rightarrow> capability_projection" where
  "project_physical physical p =
    (case physical of None \<Rightarrow> p
     | Some d \<Rightarrow>
       (let q = (if pd_compute_capability_major d > 0
           then set_capability CK_ComputeCapabilityMinor CV_Supported (ucast (pd_compute_capability_minor d)) []
                  txt_physical_evidence
               (set_capability CK_ComputeCapabilityMajor CV_Supported (ucast (pd_compute_capability_major d)) []
                  txt_physical_evidence p)
           else push_unknown CK_ComputeCapabilityMinor (push_unknown CK_ComputeCapabilityMajor p))
        in if pd_architecture d \<noteq> []
           then set_capability CK_ArchitectureFamily CV_Supported 0 (pd_architecture d) txt_physical_evidence q
           else push_unknown CK_ArchitectureFamily q))"

definition project_reported ::
  "virtualization_policy \<Rightarrow> capability_entry \<Rightarrow> capability_projection \<Rightarrow> capability_projection" where
  "project_reported policy e p =
    (if forbids_capability policy (ce_key e) then push_hidden (ce_key e) p
     else if ce_verdict e = CV_Unknown
     then set_capability (ce_key e) CV_Unknown 0 (ce_text e) (ce_provenance e) (push_unknown (ce_key e) p)
     else set_capability (ce_key e) (ce_verdict e) (ce_value e) (ce_text e) (ce_provenance e) p)"

definition project_withhold :: "capability_key \<Rightarrow> capability_projection \<Rightarrow> capability_projection" where
  "project_withhold key p =
    (if surface_find (cp_surface p) key \<noteq> None
     then push_hidden key
       (p\<lparr> cp_surface := fold surface_set (filter (\<lambda>e. ce_key e \<noteq> key) (cp_surface p)) [] \<rparr>)
     else p)"

definition project_backing :: "projection_input \<Rightarrow> backing_record \<Rightarrow> capability_projection \<Rightarrow> capability_projection" where
  "project_backing input b p =
    fold project_withhold (pol_forbidden_capabilities (pi_policy input))
      (fold (project_reported (pi_policy input)) (bk_capabilities b)
        (project_physical (pi_physical input)
          (project_compute_units b
            (set_capability CK_MemoryTotalBytes CV_Supported (bk_capacity_bytes b) [] txt_backing_evidence p))))"

definition project_unassigned :: "capability_projection \<Rightarrow> capability_projection" where
  "project_unassigned p =
    fold push_unknown
      [CK_MemoryTotalBytes, CK_ArchitectureFamily, CK_SmCount, CK_ComputeCapabilityMajor, CK_ComputeCapabilityMinor]
      (set_capability CK_MemoryTotalBytes CV_Unknown 0 [] txt_no_backing p)"

definition project_visibility :: "virtualization_policy \<Rightarrow> capability_projection \<Rightarrow> capability_projection" where
  "project_visibility policy p =
    set_capability CK_VendorVisible
      (if pol_transparency policy = TR_Opaque then CV_Unsupported else CV_Supported) 0
      (transparency_name (pol_transparency policy)) txt_policy p"

definition build_projection :: "projection_input \<Rightarrow> capability_projection" where
  "build_projection input =
    (let p = project_mechanism input (project_contract (pi_contract input) (projection_base input));
         q = (case pi_backing input of Some b \<Rightarrow> project_backing input b p | None \<Rightarrow> project_unassigned p)
     in seal (project_visibility (pi_policy input) q))"

section \<open>Validating a backing\<close>

definition merged_requirements ::
  "resource_contract \<Rightarrow> virtualization_policy \<Rightarrow> isolation_requirement list" where
  "merged_requirements c policy =
    sort_uniq requirement_order (rc_required_isolation c @ pol_required_isolation policy)"

definition check_requirement :: "isolation_profile \<Rightarrow> isolation_requirement \<Rightarrow> status_code" where
  "check_requirement profile r =
    (let have_st = state_of profile (ir_dimension r) in
     if have_st = IS_Unknown \<and> ir_minimum r \<noteq> IS_Unknown then SC_IsolationUnknownMandatory
     else if \<not> isolation_state_at_least have_st (ir_minimum r) then SC_IsolationUnsatisfied
     else SC_Ok)"

text \<open>The memory ceilings other virtual accelerators have committed on a backing, summed with the
  wrap-around of \<open>std::uint64_t\<close>.\<close>

definition committed_step ::
  "vstate \<Rightarrow> backing_record \<Rightarrow> virtual_record \<Rightarrow> as_id \<times> backing_assignment \<Rightarrow> u64 \<Rightarrow> u64" where
  "committed_step s b v e committed =
    (let a = snd e in
     if as_backing a \<noteq> bk_id b \<or> \<not> as_authoritative a then committed
     else if as_virtual_id a = va_id v then committed
     else case om_find (st_virtuals s) (as_virtual_id a) of
         None \<Rightarrow> committed
       | Some other \<Rightarrow> committed + rc_memory_ceiling_bytes (va_contract other))"

definition committed_ceilings :: "vstate \<Rightarrow> backing_record \<Rightarrow> virtual_record \<Rightarrow> u64" where
  "committed_ceilings s b v = fold (committed_step s b v) (st_assignments s) 0"

definition check_oversubscription ::
  "backing_record \<Rightarrow> virtual_record \<Rightarrow> virtualization_policy \<Rightarrow> vstate \<Rightarrow> status_code" where
  "check_oversubscription b v policy s =
    (if rc_memory_ceiling_bytes (va_contract v) > 0 \<and> \<not> rc_oversubscription_allowed (va_contract v) \<and>
        \<not> pol_oversubscription_allowed policy
     then refuse_if
       (rc_memory_ceiling_bytes (va_contract v) > bk_capacity_bytes b \<or>
        committed_ceilings s b v + rc_memory_ceiling_bytes (va_contract v) > bk_capacity_bytes b)
       SC_OversubscriptionDenied
     else SC_Ok)"

definition validate_backing_for ::
  "backing_record \<Rightarrow> physical_record option \<Rightarrow> virtual_record \<Rightarrow> virtualization_policy \<Rightarrow> vstate \<Rightarrow> status_code" where
  "validate_backing_for b physical v policy s = first_error
    ([refuse_if (\<not> policy_permits_backing_class policy (bk_klass b)) SC_BackingClassNotAllowed,
      refuse_if (\<not> contract_permits_backing_class (va_contract v) (bk_klass b)) SC_BackingClassNotAllowed,
      refuse_if (\<not> contract_permits_multiplexing (va_contract v) (bk_multiplexing b)) SC_ContractViolation,
      refuse_if (bk_provenance b = PV_Synthetic \<and> \<not> pol_synthetic_backing_allowed policy) SC_PolicyViolation,
      refuse_if (bk_provenance b = PV_Unsupported) SC_BackingUnavailable,
      refuse_if (bk_capability_rank b < rc_minimum_backing_rank (va_contract v)) SC_CapabilityProjectionMismatch,
      refuse_if (rc_exclusivity_required (va_contract v) \<and> \<not> bk_exclusive b) SC_ContractViolation,
      refuse_if (\<not> bk_available b) SC_BackingUnavailable,
      refuse_if (bk_exclusive b \<and> id_valid (bk_assigned_to b) \<and> bk_assigned_to b \<noteq> va_id v) SC_BackingBusy,
      refuse_if (pol_tenant_sharing policy = SH_Exclusive \<and> \<not> bk_exclusive b) SC_PolicyViolation,
      refuse_if (case physical of Some d \<Rightarrow> \<not> pd_present d | None \<Rightarrow> False) SC_BackingUnavailable,
      refuse_if (\<not> bk_evidence_fresh b) SC_BackingUnavailable] @
     map (check_requirement (bk_isolation b)) (merged_requirements (va_contract v) policy) @
     [check_oversubscription b v policy s])"

section \<open>What a projection advertises\<close>

text \<open>The surface and the two key lists after each building step.\<close>

lemma set_capability_proj [simp]:
  "cp_surface (set_capability k v n t o' p) = surface_set (cap_entry k v n t o') (cp_surface p)"
  "cp_hidden (set_capability k v n t o' p) = cp_hidden p"
  "cp_unknown (set_capability k v n t o' p) = cp_unknown p"
  by (simp_all add: set_capability_def)

lemma push_proj [simp]:
  "cp_surface (push_unknown k p) = cp_surface p" "cp_hidden (push_unknown k p) = cp_hidden p"
  "cp_unknown (push_unknown k p) = cp_unknown p @ [k]"
  "cp_surface (push_hidden k p) = cp_surface p" "cp_hidden (push_hidden k p) = cp_hidden p @ [k]"
  "cp_unknown (push_hidden k p) = cp_unknown p"
  by (simp_all add: push_unknown_def push_hidden_def)

lemma cap_entry_key [simp]: "ce_key (cap_entry k v n t o') = k"
  and cap_entry_verdict [simp]: "ce_verdict (cap_entry k v n t o') = v"
  by (simp_all add: cap_entry_def)

lemma cap_entry_same [simp]:
  "cap_entry (ce_key e) (ce_verdict e) (ce_value e) (ce_text e) (ce_provenance e) = e"
  by (simp add: cap_entry_def)

lemma projection_base_lists [simp]:
  "cp_surface (projection_base i) = []" "cp_hidden (projection_base i) = []" "cp_unknown (projection_base i) = []"
  by (simp_all add: projection_base_def empty_projection_def)

definition reported_entry :: "capability_entry \<Rightarrow> capability_entry" where
  "reported_entry e =
    (if ce_verdict e = CV_Unknown then cap_entry (ce_key e) CV_Unknown 0 (ce_text e) (ce_provenance e) else e)"

lemma reported_entry_verdict [simp]:
  "ce_verdict (reported_entry e) = ce_verdict e" "ce_key (reported_entry e) = ce_key e"
  by (simp_all add: reported_entry_def)

lemma project_reported_find:
  "surface_find (cp_surface (project_reported pol e p)) k =
    (if k = ce_key e \<and> \<not> forbids_capability pol k then Some (reported_entry e) else surface_find (cp_surface p) k)"
  by (auto simp: project_reported_def reported_entry_def)

lemma reported_fold_find:
  "surface_sorted es \<Longrightarrow>
   surface_find (cp_surface (fold (project_reported pol) es p)) k =
    (if forbids_capability pol k then surface_find (cp_surface p) k
     else case surface_find es k of Some e \<Rightarrow> Some (reported_entry e) | None \<Rightarrow> surface_find (cp_surface p) k)"
proof (induction es arbitrary: p)
  case (Cons e es)
  have "surface_find es (ce_key e) = None"
    using Cons.prems by (force simp: surface_sorted_def surface_find_def find_None_iff)
  moreover have "surface_sorted es" using Cons.prems by (simp add: surface_sorted_def)
  ultimately show ?case
    using Cons.IH by (auto simp: project_reported_find surface_find_def [of "e # es"] surface_find_def [of es]
        split: option.splits)
qed simp

lemma reported_fold_lists:
  "set (cp_hidden (fold (project_reported pol) es p)) =
     set (cp_hidden p) \<union> {ce_key e | e. e \<in> set es \<and> forbids_capability pol (ce_key e)}"
  "set (cp_unknown (fold (project_reported pol) es p)) =
     set (cp_unknown p) \<union> {ce_key e | e. e \<in> set es \<and> \<not> forbids_capability pol (ce_key e) \<and> ce_verdict e = CV_Unknown}"
  by (induction es arbitrary: p) (auto simp: project_reported_def)

lemma reported_fold_sorted:
  "surface_sorted (cp_surface p) \<Longrightarrow> surface_sorted (cp_surface (fold (project_reported pol) es p))"
  by (induction es arbitrary: p) (auto simp: project_reported_def surface_sorted_set)

lemma surface_set_snoc:
  "\<forall>x \<in> set s. capability_key_value (ce_key x) < capability_key_value (ce_key e) \<Longrightarrow> surface_set e s = s @ [e]"
  by (induction e s rule: surface_set.induct) auto

lemma surface_rebuild_append: "surface_sorted (ys @ xs) \<Longrightarrow> fold surface_set xs ys = ys @ xs"
  by (induction xs arbitrary: ys) (auto simp: surface_sorted_def surface_set_snoc sorted_wrt_append)

lemma surface_rebuild: "surface_sorted s \<Longrightarrow> fold surface_set (filter P s) [] = filter P s"
  by (rule surface_rebuild_append [of "[]", simplified])
    (simp add: surface_sorted_def sorted_wrt_map sorted_wrt_filter)

lemma surface_find_filter:
  "surface_find (filter (\<lambda>e. ce_key e \<noteq> k) s) x = (if x = k then None else surface_find s x)"
  unfolding surface_find_def by (induction s) auto

lemma project_withhold_surface:
  "surface_sorted (cp_surface p) \<Longrightarrow>
   cp_surface (project_withhold k p) = filter (\<lambda>e. ce_key e \<noteq> k) (cp_surface p)"
  by (auto simp: project_withhold_def surface_rebuild surface_find_def find_None_iff filter_id_conv)

lemma withhold_sorted:
  "surface_sorted (cp_surface p) \<Longrightarrow> surface_sorted (cp_surface (project_withhold k p))"
  by (simp add: project_withhold_surface) (simp add: surface_sorted_def sorted_wrt_map sorted_wrt_filter)

lemma withhold_fold:
  "surface_sorted (cp_surface p) \<Longrightarrow>
   surface_sorted (cp_surface (fold project_withhold ks p)) \<and>
   surface_find (cp_surface (fold project_withhold ks p)) x =
     (if x \<in> set ks then None else surface_find (cp_surface p) x)"
proof (induction ks arbitrary: p)
  case (Cons k ks)
  from Cons.IH [OF withhold_sorted [OF Cons.prems, of k]] Cons.prems
  show ?case by (simp add: project_withhold_surface surface_find_filter)
qed simp

lemma withhold_hidden_mono:
  "set (cp_hidden p) \<subseteq> set (cp_hidden (fold project_withhold ks p))"
  by (induction ks arbitrary: p) (force simp: project_withhold_def)+

lemma withhold_unknown [simp]: "cp_unknown (fold project_withhold ks p) = cp_unknown p"
  by (induction ks arbitrary: p) (simp_all add: project_withhold_def)

lemma withhold_hidden:
  "surface_sorted (cp_surface p) \<Longrightarrow> x \<in> set ks \<Longrightarrow> surface_find (cp_surface p) x \<noteq> None \<Longrightarrow>
   x \<in> set (cp_hidden (fold project_withhold ks p))"
proof (induction ks arbitrary: p)
  case (Cons k ks)
  show ?case
  proof (cases "x = k")
    case True
    then have "x \<in> set (cp_hidden (project_withhold k p))"
      using Cons.prems by (simp add: project_withhold_def)
    then show ?thesis using withhold_hidden_mono by fastforce
  next
    case False
    with Cons.prems Cons.IH [OF withhold_sorted [OF Cons.prems(1), of k]] show ?thesis
      by (simp add: project_withhold_surface surface_find_filter)
  qed
qed simp

text \<open>The projection before the backing's own report: what the contract, the policy and the records
  establish.\<close>

definition derived_projection :: "projection_input \<Rightarrow> backing_record \<Rightarrow> capability_projection" where
  "derived_projection input b =
    project_physical (pi_physical input)
      (project_compute_units b
        (set_capability CK_MemoryTotalBytes CV_Supported (bk_capacity_bytes b) [] txt_backing_evidence
          (project_mechanism input (project_contract (pi_contract input) (projection_base input)))))"

lemma derived_sorted: "surface_sorted (cp_surface (derived_projection i b))"
  by (auto simp: derived_projection_def project_physical_def project_compute_units_def project_mechanism_def
      project_contract_def Let_def surface_sorted_set simp del: surface_set.simps split: option.splits)

lemma build_projection_backing:
  "pi_backing i = Some b \<Longrightarrow>
   build_projection i = seal (project_visibility (pi_policy i)
     (fold project_withhold (pol_forbidden_capabilities (pi_policy i))
       (fold (project_reported (pi_policy i)) (bk_capabilities b) (derived_projection i b))))"
  by (simp add: build_projection_def project_backing_def derived_projection_def Let_def)

lemma build_projection_find:
  assumes "pi_backing i = Some b" and "surface_sorted (bk_capabilities b)"
  shows "surface_find (cp_surface (build_projection i)) k =
    (if k = CK_VendorVisible
     then Some (cap_entry CK_VendorVisible
       (if pol_transparency (pi_policy i) = TR_Opaque then CV_Unsupported else CV_Supported) 0
       (transparency_name (pol_transparency (pi_policy i))) txt_policy)
     else if forbids_capability (pi_policy i) k then None
     else case surface_find (bk_capabilities b) k of
       Some e \<Rightarrow> Some (reported_entry e)
     | None \<Rightarrow> surface_find (cp_surface (derived_projection i b)) k)"
proof -
  let ?r = "fold (project_reported (pi_policy i)) (bk_capabilities b) (derived_projection i b)"
  have "surface_sorted (cp_surface ?r)" by (rule reported_fold_sorted) (rule derived_sorted)
  from withhold_fold [OF this] show ?thesis
    using reported_fold_find [OF assms(2), of "pi_policy i" "derived_projection i b"]
    by (simp add: build_projection_backing [OF assms(1)] project_visibility_def forbids_capability_def)
qed

text \<open>The projection of an assigned backing, entry by entry. A key the policy forbids is absent; a key
  the backing reports carries the backing's verdict, with UNKNOWN staying UNKNOWN and losing its value;
  every other key carries what the contract and the records establish. Only VENDOR_VISIBLE is
  decided by the transparency policy alone.\<close>

theorem projection_entry:
  assumes "pi_backing i = Some b" and "surface_sorted (bk_capabilities b)"
  shows "surface_find (cp_surface (build_projection i)) k =
    (if k = CK_VendorVisible
     then Some (cap_entry CK_VendorVisible
       (if pol_transparency (pi_policy i) = TR_Opaque then CV_Unsupported else CV_Supported) 0
       (transparency_name (pol_transparency (pi_policy i))) txt_policy)
     else if forbids_capability (pi_policy i) k then None
     else case surface_find (bk_capabilities b) k of
       Some e \<Rightarrow> Some (reported_entry e)
     | None \<Rightarrow> surface_find (cp_surface (derived_projection i b)) k)"
  by (rule build_projection_find) (fact assms)+

definition sample_input :: projection_input where
  "sample_input =
    \<lparr> pi_contract = empty_contract, pi_backing = Some (blank_backing\<lparr> bk_capabilities :=
        [cap_entry CK_PrecisionFp16 CV_Unknown 1 [] []] \<rparr>), pi_physical = None, pi_policy = default_policy,
      pi_identity = 7, pi_generation = gen_initial \<rparr>"

theorem projection_entry_witness:
  "map_option ce_verdict (surface_find (cp_surface (build_projection sample_input)) CK_PrecisionFp16) = Some CV_Unknown"
proof -
  have "\<not> forbids_capability default_policy CK_PrecisionFp16"
    by (simp add: forbids_capability_def default_policy_def policy_normalize_def blank_policy_def)
  moreover have "surface_sorted (bk_capabilities (blank_backing\<lparr> bk_capabilities := [cap_entry CK_PrecisionFp16 CV_Unknown 1 [] []] \<rparr>))"
    by (simp add: surface_sorted_def)
  ultimately show ?thesis
    using projection_entry [of sample_input _ CK_PrecisionFp16]
    by (simp add: sample_input_def surface_find_def)
qed


section \<open>When a backing is accepted\<close>

lemma check_requirement_ok:
  "check_requirement p r = SC_Ok \<longleftrightarrow>
    requirement_met p r \<and> (state_of p (ir_dimension r) = IS_Unknown \<longrightarrow> ir_minimum r = IS_Unknown)"
  by (simp add: check_requirement_def Let_def)

text \<open>A contract that was normalised keeps all its requirements in the merge.\<close>

lemma merged_keeps_contract:
  "sorted_wrt (<) (map requirement_order (rc_required_isolation c)) \<Longrightarrow>
   r \<in> set (rc_required_isolation c) \<Longrightarrow> r \<in> set (merged_requirements c policy)"
  unfolding merged_requirements_def by (rule sort_uniq_keeps_front)

lemma merged_covers_dimensions:
  "requirement_order ` set (merged_requirements c policy) =
   requirement_order ` (set (rc_required_isolation c) \<union> set (pol_required_isolation policy))"
  by (simp add: merged_requirements_def)


definition sample_backing :: backing_record where
  "sample_backing = blank_backing\<lparr> bk_klass := BC_DedicatedPhysical, bk_multiplexing := MX_Dedicated,
     bk_available := True, bk_capability_rank := 100, bk_capacity_bytes := 4096,
     bk_isolation := profile_uniform IS_Isolated [] [] \<rparr>"

lemma default_policy_classes:
  "policy_permits_backing_class default_policy k \<longleftrightarrow> k \<noteq> BC_Unknown"
proof -
  have "k \<in> set all_backing_classes" unfolding all_backing_classes_def using backing_class_text.complete by force
  then show ?thesis by (simp add: policy_permits_backing_class_def default_policy_def policy_normalize_def)
qed

lemma default_policy_fields [simp]:
  "pol_synthetic_backing_allowed default_policy" "pol_tenant_sharing default_policy = SH_Shared"
  "\<not> pol_oversubscription_allowed default_policy"
  by (simp_all add: default_policy_def policy_normalize_def blank_policy_def)

lemma default_policy_isolation:
  "set (pol_required_isolation default_policy) =
    {\<lparr> ir_dimension = ID_TenantState, ir_minimum = IS_Partial \<rparr>,
     \<lparr> ir_dimension = ID_AdminControl, ir_minimum = IS_Partial \<rparr>}"
  by (auto simp: default_policy_def policy_normalize_def blank_policy_def sort_uniq_def requirement_order_def)

lemma isolated_meets_all:
  "check_requirement (profile_uniform IS_Isolated m t) r = SC_Ok"
  by (cases "ir_minimum r")
    (simp_all add: check_requirement_ok uniform_state_of isolation_state_at_least_def)

lemma sample_backing_accepted:
  "validate_backing_for sample_backing None blank_virtual default_policy initial_state = SC_Ok"
  by (auto simp: validate_backing_for_def sample_backing_def default_policy_classes blank_virtual_def blank_backing_def
      empty_contract_def contract_permits_backing_class_def contract_permits_multiplexing_def
      check_oversubscription_def isolated_meets_all no_id_def id_valid_def)


text \<open>A policy that asks for memory isolation and a contract that is content with shared memory.\<close>

definition strict_policy :: virtualization_policy where
  "strict_policy = default_policy\<lparr> pol_required_isolation := [\<lparr> ir_dimension = ID_Memory, ir_minimum = IS_Isolated \<rparr>] \<rparr>"

definition lax_virtual :: virtual_record where
  "lax_virtual = blank_virtual\<lparr> va_contract := empty_contract\<lparr> rc_required_isolation :=
     [\<lparr> ir_dimension = ID_Memory, ir_minimum = IS_Shared \<rparr>] \<rparr> \<rparr>"


end
