(* ===== verification/AV_Fields.thy ===== *)
theory AV_Fields
  imports AV_Projection
begin

text \<open>
  Building blocks of the record codecs (\<open>src/record_codec.cpp\<close>, \<open>src/state_codec.cpp\<close>).

  A decoder of a record reads its fields one after the other and stops at the first failure:
  \<open>dec_bind\<close> is that step, \<open>auto x = ...; if (!x.ok()) return x.status();\<close>. The judgement
  \<open>reads p d bs v\<close> says that \<open>p\<close> returns \<open>v\<close> and stops right behind \<open>bs\<close> whenever the bytes \<open>bs\<close> stand
  at the position of the decoder \<open>d\<close>; it composes along \<open>dec_bind\<close>. The locale \<open>enum_codec\<close> is
  the contract of an enumeration stored in one byte and is interpreted for every enumeration
  of the state.
\<close>

section \<open>Sequencing\<close>

type_synonym 'a dec = "decoder \<Rightarrow> ('a \<times> decoder) result"

definition dec_return :: "'a \<Rightarrow> 'a dec" where
  "dec_return v d = Inr (v, d)"

definition dec_fail :: "status_code \<Rightarrow> 'a dec" where
  "dec_fail code d = Inl code"

definition dec_bind :: "'a dec \<Rightarrow> ('a \<Rightarrow> 'b dec) \<Rightarrow> 'b dec" where
  "dec_bind p f d = (case p d of Inl e \<Rightarrow> Inl e | Inr (v, d') \<Rightarrow> f v d')"

definition reads :: "'a dec \<Rightarrow> decoder \<Rightarrow> bytes \<Rightarrow> 'a \<Rightarrow> bool" where
  "reads p d bs v \<longleftrightarrow> (starts d bs \<longrightarrow> p d = Inr (v, skip (length bs) d))"

lemma readsD: "reads p d bs v \<Longrightarrow> starts d bs \<Longrightarrow> p d = Inr (v, skip (length bs) d)"
  by (simp add: reads_def)

lemma reads_return: "v = w \<Longrightarrow> reads (dec_return v) d [] w"
  by (simp add: reads_def dec_return_def)

lemma reads_bind:
  "reads p d bs x \<Longrightarrow> reads (f x) (skip (length bs) d) cs y \<Longrightarrow> reads (dec_bind p f) d (bs @ cs) y"
  by (auto simp: reads_def dec_bind_def starts_append)

lemma reads_last: "reads p d bs x \<Longrightarrow> reads (f x) (skip (length bs) d) [] y \<Longrightarrow> reads (dec_bind p f) d bs y"
  using reads_bind [of p d bs x f "[]" y] by simp

context byte_codec
begin

lemma reads_value: "fits d v \<Longrightarrow> reads dec d (enc v) v"
  by (simp add: reads_def decodes)

lemma reads_list: "list_fits fits max_n d xs \<Longrightarrow> reads (decode_list dec max_n) d (enc_list enc xs) xs"
  by (simp add: reads_def list_codec)

lemma list_fits_skip: "list_fits fits max_n (skip n d) xs = list_fits fits max_n d xs"
proof -
  have "(skip n d)\<lparr> dec_depth := m \<rparr> = skip n (d\<lparr> dec_depth := m \<rparr>)" for m
    by (simp add: skip_def)
  moreover have "fits (skip n d') = fits d'" for d' by (rule ext) (rule fits_skip)
  ultimately show ?thesis unfolding list_fits_def by (simp only: skip_simps)
qed

end

lemma str_fits_skip [simp]: "str_fits (skip n d) s = str_fits d s"
  by (simp add: str_fits_def)

lemma str_fits_move [simp]: "str_fits (d\<lparr> dec_data := bs, dec_pos := n \<rparr>) s = str_fits d s"
  by (simp add: str_fits_def)

lemma any_list_fits_move [simp]:
  "list_fits (\<lambda>_ _. True) max_n (d\<lparr> dec_data := bs, dec_pos := n \<rparr>) xs = list_fits (\<lambda>_ _. True) max_n d xs"
  by (simp add: list_fits_def)

lemma any_list_fits_skip [simp]: "list_fits (\<lambda>_ _. True) max_n (skip n d) xs = list_fits (\<lambda>_ _. True) max_n d xs"
  by (simp add: list_fits_def)

section \<open>Scalar fields\<close>

definition enc_id :: "'t ident \<Rightarrow> bytes" where
  "enc_id i = enc_u64 (id_value i)"

definition dec_id :: "'t ident dec" where
  "dec_id = dec_bind dec_u64 (\<lambda>v. dec_return (Ident v))"

definition enc_gen :: "'t generation \<Rightarrow> bytes" where
  "enc_gen g = enc_u64 (gen_value g)"

definition dec_gen :: "'t generation dec" where
  "dec_gen = dec_bind dec_u64 (\<lambda>v. dec_return (Generation v))"

text \<open>An enumeration in one byte. The values of every enumeration of the state are the positions in its
  declaration, so the range check leaves only enumerators.\<close>

definition enc_enum :: "('e \<Rightarrow> nat) \<Rightarrow> 'e \<Rightarrow> bytes" where
  "enc_enum val v = enc_u8 (of_nat (val v))"

definition dec_enum :: "status_code \<Rightarrow> 'e list \<Rightarrow> 'e dec" where
  "dec_enum code table = dec_bind dec_u8 (\<lambda>raw.
    if unat raw > length table - 1 then dec_fail code else dec_return (table ! unat raw))"

text \<open>A capability key in two bytes.\<close>

definition enc_key :: "capability_key \<Rightarrow> bytes" where
  "enc_key k = enc_u16 (of_nat (capability_key_value k))"

definition dec_key :: "capability_key dec" where
  "dec_key = dec_bind dec_u16 (\<lambda>raw.
    if unat raw > capability_key_value CK_VendorVisible then dec_fail SC_MalformedFrame
    else dec_return (all_capability_keys ! unat raw))"

section \<open>They are codecs\<close>

lemma codec_of_reads:
  assumes "\<And>d v. fits d v \<Longrightarrow> reads dec d (enc v) v" and "\<And>n d v. fits (skip n d) v = fits d v"
    and "\<And>d v. fits d v \<Longrightarrow> enc v \<noteq> []"
  shows "byte_codec enc dec fits"
  using assms by unfold_locales (simp_all add: reads_def)

lemma enc_u64_nonempty [simp]: "enc_u64 v \<noteq> []"
  by (rule u64_codec.enc_nonempty) simp

lemma enc_id_nonempty [simp]: "enc_id i \<noteq> []" "enc_gen g \<noteq> []"
  by (simp_all add: enc_id_def enc_gen_def)

interpretation id_codec: byte_codec enc_id dec_id "\<lambda>_ _. True"
proof (rule codec_of_reads)
  show "reads dec_id d (enc_id v) v" for d and v :: "'t ident"
    unfolding dec_id_def enc_id_def by (rule reads_last [OF u64_codec.reads_value [OF TrueI] reads_return]) simp
qed simp_all

interpretation gen_codec: byte_codec enc_gen dec_gen "\<lambda>_ _. True"
proof (rule codec_of_reads)
  show "reads dec_gen d (enc_gen v) v" for d and v :: "'t generation"
    unfolding dec_gen_def enc_gen_def by (rule reads_last [OF u64_codec.reads_value [OF TrueI] reads_return]) simp
qed simp_all

locale enum_codec =
  fixes code :: status_code and val :: "'e \<Rightarrow> nat" and table :: "'e list"
  assumes position: "val v < length table" "table ! val v = v"
    and one_byte: "length table \<le> 256"
begin

lemma enum_reads: "reads (dec_enum code table) d (enc_enum val v) v"
proof -
  have u: "unat (of_nat (val v) :: u8) = val v" using position(1) [of v] one_byte by (simp add: unat_of_nat)
  have "\<not> val v > length table - 1" using position(1) [of v] by linarith
  then have "reads (if unat (of_nat (val v) :: u8) > length table - 1 then dec_fail code
      else dec_return (table ! unat (of_nat (val v) :: u8))) (skip (length (enc_u8 (of_nat (val v)))) d) [] v"
    by (simp only: u if_False) (simp add: reads_return position)
  then show ?thesis unfolding dec_enum_def enc_enum_def by (rule reads_last [OF u8_codec.reads_value [OF TrueI]])
qed

end

sublocale enum_codec \<subseteq> byte_codec "enc_enum val" "dec_enum code table" "\<lambda>_ _. True"
proof (rule codec_of_reads)
  show "enc_enum val v \<noteq> []" for v by (simp add: enc_enum_def enc_u8_def)
qed (simp_all add: enum_reads)

lemma key_position: "capability_key_value k < length all_capability_keys" "all_capability_keys ! capability_key_value k = k"
  by (cases k; simp add: all_capability_keys_def capability_key_names_def)+

interpretation key_codec: byte_codec enc_key dec_key "\<lambda>_ _. True"
proof (rule codec_of_reads)
  fix d and k :: capability_key
  have le: "\<not> capability_key_value k > capability_key_value CK_VendorVisible" by (cases k) simp_all
  then have u: "unat (of_nat (capability_key_value k) :: u16) = capability_key_value k" by (simp add: unat_of_nat)
  have "reads (if unat (of_nat (capability_key_value k) :: u16) > capability_key_value CK_VendorVisible
      then dec_fail SC_MalformedFrame else dec_return (all_capability_keys ! unat (of_nat (capability_key_value k) :: u16)))
      (skip (length (enc_u16 (of_nat (capability_key_value k)))) d) [] k"
    using le by (simp only: u if_False) (simp add: reads_return key_position)
  then show "reads dec_key d (enc_key k) k"
    unfolding dec_key_def enc_key_def by (rule reads_last [OF u16_codec.reads_value [OF TrueI]])
  show "enc_key k \<noteq> []" by (simp add: enc_key_def enc_u16_def)
qed simp_all

lemma enc_key_nonempty [simp]: "enc_key k \<noteq> []" "enc_enum val v \<noteq> []"
  by (simp_all add: enc_key_def enc_u16_def enc_enum_def enc_u8_def)

section \<open>Codecs of records\<close>

text \<open>What fits depends on the limits and the depth of the decoder only, not on its input.\<close>

locale record_codec = byte_codec enc dec fits for enc :: "'a \<Rightarrow> bytes" and dec and fits +
  assumes fits_move: "fits (d\<lparr> dec_data := bs, dec_pos := n \<rparr>) v = fits d v"
begin

lemma list_fits_move: "list_fits fits max_n (d\<lparr> dec_data := bs, dec_pos := n \<rparr>) xs = list_fits fits max_n d xs"
proof -
  have "d\<lparr> dec_data := bs, dec_pos := n, dec_depth := m \<rparr> = d\<lparr> dec_depth := m, dec_data := bs, dec_pos := n \<rparr>" for m
    by simp
  moreover have "fits (d'\<lparr> dec_data := bs, dec_pos := n \<rparr>) = fits d'" for d' by (rule ext) (rule fits_move)
  moreover have "dec_depth (d\<lparr> dec_data := bs, dec_pos := n \<rparr>) = dec_depth d"
    "dec_limits (d\<lparr> dec_data := bs, dec_pos := n \<rparr>) = dec_limits d" by simp_all
  ultimately show ?thesis unfolding list_fits_def by presburger
qed

end

lemma record_codec_of_reads:
  assumes "\<And>d v. fits d v \<Longrightarrow> reads dec d (enc v) v"
    and "\<And>d bs n v. fits (d\<lparr> dec_data := bs, dec_pos := n \<rparr>) v = fits d v"
    and "\<And>d v. fits d v \<Longrightarrow> enc v \<noteq> []"
  shows "record_codec enc dec fits"
proof -
  have "skip n d = d\<lparr> dec_data := dec_data d, dec_pos := dec_pos d + n \<rparr>" for n d by (simp add: skip_def)
  then have "byte_codec enc dec fits" using assms by (intro codec_of_reads) metis+
  then show ?thesis using assms(2) by (intro record_codec.intro record_codec_axioms.intro)
qed

end
