(* ===== verification/AV_RecordCodec.thy ===== *)
theory AV_RecordCodec
  imports AV_Fields
begin

text \<open>
  Codecs of the values inside the durable records (\<open>src/record_codec.cpp\<close>): contracts, capability surfaces,
  isolation profiles, projections, policies and migration plans. For each value: the encoder and the decoder
  with the fields in the order of the source, the sizes it may have (\<open>_fits\<close>), and the interpretation of
  \<open>byte_codec\<close>, whose proof is that what was encoded is read back.
\<close>

named_theorems field_reads

section \<open>Enumerations\<close>

primrec evidence_kind_value :: "evidence_kind \<Rightarrow> nat" where
  "evidence_kind_value EK_Unknown = 0"
| "evidence_kind_value EK_DeviceDiscovery = 1"
| "evidence_kind_value EK_CapabilityQuery = 2"
| "evidence_kind_value EK_IsolationProbe = 3"
| "evidence_kind_value EK_BackingRefresh = 4"
| "evidence_kind_value EK_SyntheticAttestation = 5"
| "evidence_kind_value EK_MigrationProbe = 6"
| "evidence_kind_value EK_RecoveryRevalidation = 7"

definition provenance_table :: "provenance list" where
  "provenance_table = map fst kProvenanceNames"

definition multiplexing_table :: "multiplexing list" where
  "multiplexing_table = map fst kMultiplexingNames"

definition backing_class_table :: "backing_class list" where
  "backing_class_table = map fst kBackingClassNames"

definition isolation_class_table :: "isolation_class list" where
  "isolation_class_table = map fst kIsolationClassNames"

definition migration_class_table :: "migration_class list" where
  "migration_class_table = map fst kMigrationClassNames"

definition lifecycle_table :: "lifecycle list" where
  "lifecycle_table = map fst lifecycle_names"

definition lease_state_table :: "lease_state list" where
  "lease_state_table = map fst lease_state_names"

definition assignment_state_table :: "assignment_state list" where
  "assignment_state_table = map fst assignment_state_names"

definition migration_state_table :: "migration_state list" where
  "migration_state_table = map fst migration_state_names"

definition isolation_dimension_table :: "isolation_dimension list" where
  "isolation_dimension_table = map fst isolation_dimension_names"

definition isolation_state_table :: "isolation_state list" where
  "isolation_state_table = map fst isolation_state_names"

definition capability_verdict_table :: "capability_verdict list" where
  "capability_verdict_table = map fst capability_verdict_names"

definition audit_kind_table :: "audit_kind list" where
  "audit_kind_table = map fst audit_kind_names"

definition evidence_kind_table :: "evidence_kind list" where
  "evidence_kind_table = [EK_Unknown, EK_DeviceDiscovery, EK_CapabilityQuery, EK_IsolationProbe,
    EK_BackingRefresh, EK_SyntheticAttestation, EK_MigrationProbe, EK_RecoveryRevalidation]"

definition transparency_table :: "transparency list" where
  "transparency_table = map fst transparency_names"

definition tenant_sharing_table :: "tenant_sharing list" where
  "tenant_sharing_table = map fst sharing_names"

definition recovery_behavior_table :: "recovery_behavior list" where
  "recovery_behavior_table = map fst recovery_names"

lemmas enum_tables = provenance_table_def multiplexing_table_def backing_class_table_def isolation_class_table_def migration_class_table_def lifecycle_table_def lease_state_table_def assignment_state_table_def migration_state_table_def isolation_dimension_table_def isolation_state_table_def capability_verdict_table_def audit_kind_table_def evidence_kind_table_def transparency_table_def tenant_sharing_table_def recovery_behavior_table_def

text \<open>Values on the wire: an out-of-domain value is a malformed frame.\<close>

interpretation backing_class_wire: enum_codec SC_MalformedFrame backing_class_value backing_class_table
proof
  show "backing_class_value v < length backing_class_table" "backing_class_table ! backing_class_value v = v" for v by (cases v; simp add: backing_class_table_def kBackingClassNames_def)+
qed (simp add: backing_class_table_def kBackingClassNames_def)

interpretation multiplexing_wire: enum_codec SC_MalformedFrame multiplexing_value multiplexing_table
proof
  show "multiplexing_value v < length multiplexing_table" "multiplexing_table ! multiplexing_value v = v" for v by (cases v; simp add: multiplexing_table_def kMultiplexingNames_def)+
qed (simp add: multiplexing_table_def kMultiplexingNames_def)

interpretation migration_class_wire: enum_codec SC_MalformedFrame migration_class_value migration_class_table
proof
  show "migration_class_value v < length migration_class_table" "migration_class_table ! migration_class_value v = v" for v by (cases v; simp add: migration_class_table_def kMigrationClassNames_def)+
qed (simp add: migration_class_table_def kMigrationClassNames_def)

interpretation isolation_dimension_wire: enum_codec SC_MalformedFrame isolation_dimension_value isolation_dimension_table
proof
  show "isolation_dimension_value v < length isolation_dimension_table" "isolation_dimension_table ! isolation_dimension_value v = v" for v by (cases v; simp add: isolation_dimension_table_def isolation_dimension_names_def)+
qed (simp add: isolation_dimension_table_def isolation_dimension_names_def)

interpretation isolation_state_wire: enum_codec SC_MalformedFrame isolation_state_value isolation_state_table
proof
  show "isolation_state_value v < length isolation_state_table" "isolation_state_table ! isolation_state_value v = v" for v by (cases v; simp add: isolation_state_table_def isolation_state_names_def)+
qed (simp add: isolation_state_table_def isolation_state_names_def)

interpretation capability_verdict_wire: enum_codec SC_MalformedFrame capability_verdict_value capability_verdict_table
proof
  show "capability_verdict_value v < length capability_verdict_table" "capability_verdict_table ! capability_verdict_value v = v" for v by (cases v; simp add: capability_verdict_table_def capability_verdict_names_def)+
qed (simp add: capability_verdict_table_def capability_verdict_names_def)

interpretation transparency_wire: enum_codec SC_MalformedFrame transparency_value transparency_table
proof
  show "transparency_value v < length transparency_table" "transparency_table ! transparency_value v = v" for v by (cases v; simp add: transparency_table_def transparency_names_def)+
qed (simp add: transparency_table_def transparency_names_def)

interpretation tenant_sharing_wire: enum_codec SC_MalformedFrame tenant_sharing_value tenant_sharing_table
proof
  show "tenant_sharing_value v < length tenant_sharing_table" "tenant_sharing_table ! tenant_sharing_value v = v" for v by (cases v; simp add: tenant_sharing_table_def sharing_names_def)+
qed (simp add: tenant_sharing_table_def sharing_names_def)

interpretation recovery_behavior_wire: enum_codec SC_MalformedFrame recovery_behavior_value recovery_behavior_table
proof
  show "recovery_behavior_value v < length recovery_behavior_table" "recovery_behavior_table ! recovery_behavior_value v = v" for v by (cases v; simp add: recovery_behavior_table_def recovery_names_def)+
qed (simp add: recovery_behavior_table_def recovery_names_def)

lemmas [field_reads] =
  id_codec.reads_value gen_codec.reads_value u64_codec.reads_value u32_codec.reads_value boolean_codec.reads_value
  str_codec.reads_value key_codec.reads_value key_codec.reads_list
  backing_class_wire.reads_value backing_class_wire.reads_list
  multiplexing_wire.reads_value multiplexing_wire.reads_list
  migration_class_wire.reads_value migration_class_wire.reads_list
  isolation_dimension_wire.reads_value isolation_dimension_wire.reads_list
  isolation_state_wire.reads_value isolation_state_wire.reads_list
  capability_verdict_wire.reads_value capability_verdict_wire.reads_list
  transparency_wire.reads_value transparency_wire.reads_list
  tenant_sharing_wire.reads_value tenant_sharing_wire.reads_list
  recovery_behavior_wire.reads_value recovery_behavior_wire.reads_list

section \<open>Contracts\<close>

definition encode_requirement :: "isolation_requirement \<Rightarrow> bytes" where
  "encode_requirement r =
    enc_enum isolation_dimension_value (ir_dimension r) @ enc_enum isolation_state_value (ir_minimum r)"

definition decode_requirement :: "isolation_requirement dec" where
  "decode_requirement =
    dec_bind (dec_enum SC_MalformedFrame isolation_dimension_table) (\<lambda>dimension.
    dec_bind (dec_enum SC_MalformedFrame isolation_state_table) (\<lambda>minimum.
    dec_return
      \<lparr> ir_dimension = dimension, ir_minimum = minimum \<rparr>))"

definition requirement_fits :: "decoder \<Rightarrow> isolation_requirement \<Rightarrow> bool" where
  "requirement_fits d r = True"

interpretation requirement_codec: record_codec encode_requirement decode_requirement requirement_fits
proof (rule record_codec_of_reads)
  fix d and r :: isolation_requirement
  assume f: "requirement_fits d r"
  show "reads decode_requirement d (encode_requirement r) r"
    unfolding decode_requirement_def encode_requirement_def
    by ((rule reads_bind, (rule field_reads; simp add: f [unfolded requirement_fits_def]))+, rule reads_last,
        (rule field_reads; simp add: f [unfolded requirement_fits_def]), rule reads_return, simp)
qed (simp_all add: requirement_fits_def encode_requirement_def)

lemmas [field_reads] = requirement_codec.reads_value
lemmas [simp] = requirement_codec.fits_skip requirement_codec.fits_move

lemmas [field_reads] = requirement_codec.reads_list
lemmas [simp] = requirement_codec.list_fits_skip requirement_codec.list_fits_move

definition encode_contract :: "resource_contract \<Rightarrow> bytes" where
  "encode_contract r =
    enc_id (rc_id r) @ enc_gen (rc_generation r) @ enc_u64 (rc_memory_ceiling_bytes r) @
    enc_u32 (rc_compute_share_milli r) @ enc_u32 (rc_max_streams r) @ enc_u32 (rc_max_concurrency r) @
    enc_u64 (rc_bandwidth_allowance r) @ enc_boolean (rc_exclusivity_required r) @
    enc_u32 (rc_minimum_backing_rank r) @
    enc_list (enc_enum backing_class_value) (rc_allowed_backing_classes r) @
    enc_list (enc_enum multiplexing_value) (rc_allowed_multiplexing_modes r) @
    enc_list encode_requirement (rc_required_isolation r) @ enc_boolean (rc_migration_allowed r) @
    enc_list (enc_enum migration_class_value) (rc_allowed_migration_classes r) @
    enc_boolean (rc_oversubscription_allowed r) @ enc_boolean (rc_burst_allowed r)"

definition decode_contract :: "resource_contract dec" where
  "decode_contract =
    dec_bind dec_id (\<lambda>id'. dec_bind dec_gen (\<lambda>generation'.
    dec_bind dec_u64 (\<lambda>memory_ceiling_bytes. dec_bind dec_u32 (\<lambda>compute_share_milli.
    dec_bind dec_u32 (\<lambda>max_streams. dec_bind dec_u32 (\<lambda>max_concurrency.
    dec_bind dec_u64 (\<lambda>bandwidth_allowance. dec_bind dec_boolean (\<lambda>exclusivity_required.
    dec_bind dec_u32 (\<lambda>minimum_backing_rank.
    dec_bind (decode_list (dec_enum SC_MalformedFrame backing_class_table) 64) (\<lambda>allowed_backing_classes.
    dec_bind (decode_list (dec_enum SC_MalformedFrame multiplexing_table) 64) (\<lambda>allowed_multiplexing_modes.
    dec_bind (decode_list decode_requirement 64) (\<lambda>required_isolation.
    dec_bind dec_boolean (\<lambda>migration_allowed.
    dec_bind (decode_list (dec_enum SC_MalformedFrame migration_class_table) 64) (\<lambda>allowed_migration_classes.
    dec_bind dec_boolean (\<lambda>oversubscription_allowed. dec_bind dec_boolean (\<lambda>burst_allowed.
    dec_return
      \<lparr> rc_id = id', rc_generation = generation', rc_memory_ceiling_bytes = memory_ceiling_bytes,
        rc_compute_share_milli = compute_share_milli, rc_max_streams = max_streams,
        rc_max_concurrency = max_concurrency, rc_bandwidth_allowance = bandwidth_allowance,
        rc_exclusivity_required = exclusivity_required, rc_minimum_backing_rank = minimum_backing_rank,
        rc_allowed_backing_classes = allowed_backing_classes,
        rc_allowed_multiplexing_modes = allowed_multiplexing_modes, rc_required_isolation = required_isolation,
        rc_migration_allowed = migration_allowed, rc_allowed_migration_classes = allowed_migration_classes,
        rc_oversubscription_allowed = oversubscription_allowed, rc_burst_allowed = burst_allowed \<rparr>))))))))))))))))"

definition contract_fits :: "decoder \<Rightarrow> resource_contract \<Rightarrow> bool" where
  "contract_fits d r \<longleftrightarrow>
    list_fits (\<lambda>_ _. True) 64 d (rc_allowed_backing_classes r) \<and>
    list_fits (\<lambda>_ _. True) 64 d (rc_allowed_multiplexing_modes r) \<and>
    list_fits requirement_fits 64 d (rc_required_isolation r) \<and>
    list_fits (\<lambda>_ _. True) 64 d (rc_allowed_migration_classes r)"

interpretation contract_codec: record_codec encode_contract decode_contract contract_fits
proof (rule record_codec_of_reads)
  fix d and r :: resource_contract
  assume f: "contract_fits d r"
  show "reads decode_contract d (encode_contract r) r"
    unfolding decode_contract_def encode_contract_def
    by ((rule reads_bind, (rule field_reads; simp add: f [unfolded contract_fits_def]))+, rule reads_last,
        (rule field_reads; simp add: f [unfolded contract_fits_def]), rule reads_return, simp)
qed (simp_all add: contract_fits_def encode_contract_def)

lemmas [field_reads] = contract_codec.reads_value
lemmas [simp] = contract_codec.fits_skip contract_codec.fits_move

section \<open>Surfaces and profiles\<close>

definition encode_capability_entry :: "capability_entry \<Rightarrow> bytes" where
  "encode_capability_entry r =
    enc_key (ce_key r) @ enc_enum capability_verdict_value (ce_verdict r) @ enc_u64 (ce_value r) @
    enc_str (ce_text r) @ enc_str (ce_provenance r)"

definition decode_capability_entry :: "capability_entry dec" where
  "decode_capability_entry =
    dec_bind dec_key (\<lambda>key.
    dec_bind (dec_enum SC_MalformedFrame capability_verdict_table) (\<lambda>verdict.
    dec_bind dec_u64 (\<lambda>value'. dec_bind dec_str (\<lambda>words. dec_bind dec_str (\<lambda>provenance.
    dec_return
      \<lparr> ce_key = key, ce_verdict = verdict, ce_value = value', ce_text = words, ce_provenance = provenance \<rparr>)))))"

definition capability_entry_fits :: "decoder \<Rightarrow> capability_entry \<Rightarrow> bool" where
  "capability_entry_fits d r \<longleftrightarrow>
    str_fits d (ce_text r) \<and> str_fits d (ce_provenance r)"

interpretation capability_entry_codec: record_codec encode_capability_entry decode_capability_entry capability_entry_fits
proof (rule record_codec_of_reads)
  fix d and r :: capability_entry
  assume f: "capability_entry_fits d r"
  show "reads decode_capability_entry d (encode_capability_entry r) r"
    unfolding decode_capability_entry_def encode_capability_entry_def
    by ((rule reads_bind, (rule field_reads; simp add: f [unfolded capability_entry_fits_def]))+, rule reads_last,
        (rule field_reads; simp add: f [unfolded capability_entry_fits_def]), rule reads_return, simp)
qed (simp_all add: capability_entry_fits_def encode_capability_entry_def)

lemmas [field_reads] = capability_entry_codec.reads_value
lemmas [simp] = capability_entry_codec.fits_skip capability_entry_codec.fits_move

definition encode_capability_surface :: "capability_surface \<Rightarrow> bytes" where
  "encode_capability_surface s = enc_list encode_capability_entry s"

definition decode_capability_surface :: "capability_surface dec" where
  "decode_capability_surface =
    dec_bind (decode_list decode_capability_entry 256) (\<lambda>entries. dec_return (fold surface_set entries []))"

definition capability_surface_fits :: "decoder \<Rightarrow> capability_surface \<Rightarrow> bool" where
  "capability_surface_fits d s \<longleftrightarrow> list_fits capability_entry_fits 256 d s \<and> surface_sorted s"

lemma enc_list_nonempty [simp]: "enc_list e xs \<noteq> []"
  using enc_u32_length [of "of_nat (length xs)"] by (auto simp: enc_list_def simp del: enc_u32_length)

interpretation capability_surface_codec:
  record_codec encode_capability_surface decode_capability_surface capability_surface_fits
proof (rule record_codec_of_reads)
  fix d and s :: capability_surface
  assume f: "capability_surface_fits d s"
  then have "fold surface_set s [] = s"
    using surface_rebuild [of s "\<lambda>_. True"] by (simp add: capability_surface_fits_def)
  with f show "reads decode_capability_surface d (encode_capability_surface s) s"
    unfolding decode_capability_surface_def encode_capability_surface_def
    by (intro reads_last [OF capability_entry_codec.reads_list] reads_return) (auto simp: capability_surface_fits_def)
qed (simp_all add: capability_surface_fits_def encode_capability_surface_def capability_entry_codec.list_fits_move)

lemmas [field_reads] = capability_surface_codec.reads_value
lemmas [simp] = capability_surface_codec.fits_skip capability_surface_codec.fits_move

definition encode_isolation_claim :: "isolation_claim \<Rightarrow> bytes" where
  "encode_isolation_claim r =
    enc_enum isolation_dimension_value (ic_dimension r) @ enc_enum isolation_state_value (ic_state r) @
    enc_id (ic_evidence r) @ enc_gen (ic_evidence_gen r) @ enc_str (ic_mechanism r) @ enc_str (ic_rationale r)"

definition decode_isolation_claim :: "isolation_claim dec" where
  "decode_isolation_claim =
    dec_bind (dec_enum SC_MalformedFrame isolation_dimension_table) (\<lambda>dimension.
    dec_bind (dec_enum SC_MalformedFrame isolation_state_table) (\<lambda>state.
    dec_bind dec_id (\<lambda>evidence. dec_bind dec_gen (\<lambda>evidence_gen.
    dec_bind dec_str (\<lambda>mechanism. dec_bind dec_str (\<lambda>rationale.
    dec_return
      \<lparr> ic_dimension = dimension, ic_state = state, ic_evidence = evidence, ic_evidence_gen = evidence_gen,
        ic_mechanism = mechanism, ic_rationale = rationale \<rparr>))))))"

definition isolation_claim_fits :: "decoder \<Rightarrow> isolation_claim \<Rightarrow> bool" where
  "isolation_claim_fits d r \<longleftrightarrow>
    str_fits d (ic_mechanism r) \<and> str_fits d (ic_rationale r)"

interpretation isolation_claim_codec: record_codec encode_isolation_claim decode_isolation_claim isolation_claim_fits
proof (rule record_codec_of_reads)
  fix d and r :: isolation_claim
  assume f: "isolation_claim_fits d r"
  show "reads decode_isolation_claim d (encode_isolation_claim r) r"
    unfolding decode_isolation_claim_def encode_isolation_claim_def
    by ((rule reads_bind, (rule field_reads; simp add: f [unfolded isolation_claim_fits_def]))+, rule reads_last,
        (rule field_reads; simp add: f [unfolded isolation_claim_fits_def]), rule reads_return, simp)
qed (simp_all add: isolation_claim_fits_def encode_isolation_claim_def)

lemmas [field_reads] = isolation_claim_codec.reads_value
lemmas [simp] = isolation_claim_codec.fits_skip isolation_claim_codec.fits_move

definition kIsolationDimensionCount :: nat where
  "kIsolationDimensionCount = 11"

definition encode_isolation_profile :: "isolation_profile \<Rightarrow> bytes" where
  "encode_isolation_profile p = enc_list encode_isolation_claim p"

definition decode_isolation_profile :: "isolation_profile dec" where
  "decode_isolation_profile =
    dec_bind (decode_list decode_isolation_claim (kIsolationDimensionCount * 2))
      (\<lambda>claims. dec_return (fold profile_set claims []))"

definition isolation_profile_fits :: "decoder \<Rightarrow> isolation_profile \<Rightarrow> bool" where
  "isolation_profile_fits d p \<longleftrightarrow> list_fits isolation_claim_fits (kIsolationDimensionCount * 2) d p \<and> profile_sorted p"

lemma profile_set_snoc: "profile_sorted (p @ [c]) \<Longrightarrow> profile_set c p = p @ [c]"
  by (induction p) (auto simp: profile_sorted_def sorted_wrt_append)

lemma profile_rebuild_append: "profile_sorted (p @ cs) \<Longrightarrow> fold profile_set cs p = p @ cs"
  by (induction cs arbitrary: p) (auto simp: profile_sorted_def profile_set_snoc sorted_wrt_append)

interpretation isolation_profile_codec: record_codec encode_isolation_profile decode_isolation_profile isolation_profile_fits
proof (rule record_codec_of_reads)
  fix d and p :: isolation_profile
  assume f: "isolation_profile_fits d p"
  then have "fold profile_set p [] = p" using profile_rebuild_append [of "[]" p] by (simp add: isolation_profile_fits_def)
  with f show "reads decode_isolation_profile d (encode_isolation_profile p) p"
    unfolding decode_isolation_profile_def encode_isolation_profile_def
    by (intro reads_last [OF isolation_claim_codec.reads_list] reads_return) (auto simp: isolation_profile_fits_def)
qed (simp_all add: isolation_profile_fits_def encode_isolation_profile_def isolation_claim_codec.list_fits_move)

lemmas [field_reads] = isolation_profile_codec.reads_value
lemmas [simp] = isolation_profile_codec.fits_skip isolation_profile_codec.fits_move

section \<open>Projections, policies, plans\<close>

definition encode_projection :: "capability_projection \<Rightarrow> bytes" where
  "encode_projection r =
    enc_id (cp_id r) @ enc_gen (cp_generation r) @ encode_capability_surface (cp_surface r) @
    enc_list enc_key (cp_hidden r) @ enc_list enc_key (cp_unknown r) @ enc_gen (cp_backing_generation r) @
    enc_gen (cp_physical_generation r) @ enc_gen (cp_policy_generation r) @ enc_gen (cp_contract_generation r) @
    enc_u64 (cp_fingerprint r) @ enc_str (cp_mechanism r)"

definition decode_projection :: "capability_projection dec" where
  "decode_projection =
    dec_bind dec_id (\<lambda>id'. dec_bind dec_gen (\<lambda>generation'.
    dec_bind decode_capability_surface (\<lambda>surface. dec_bind (decode_list dec_key 256) (\<lambda>hidden.
    dec_bind (decode_list dec_key 256) (\<lambda>unknown. dec_bind dec_gen (\<lambda>backing_generation.
    dec_bind dec_gen (\<lambda>physical_generation. dec_bind dec_gen (\<lambda>policy_generation.
    dec_bind dec_gen (\<lambda>contract_generation. dec_bind dec_u64 (\<lambda>fingerprint.
    dec_bind dec_str (\<lambda>mechanism.
    dec_return
      \<lparr> cp_id = id', cp_generation = generation', cp_surface = surface, cp_hidden = hidden,
        cp_unknown = unknown, cp_backing_generation = backing_generation,
        cp_physical_generation = physical_generation, cp_policy_generation = policy_generation,
        cp_contract_generation = contract_generation, cp_fingerprint = fingerprint, cp_mechanism = mechanism \<rparr>)))))))))))"

definition projection_fits :: "decoder \<Rightarrow> capability_projection \<Rightarrow> bool" where
  "projection_fits d r \<longleftrightarrow>
    capability_surface_fits d (cp_surface r) \<and> list_fits (\<lambda>_ _. True) 256 d (cp_hidden r) \<and>
    list_fits (\<lambda>_ _. True) 256 d (cp_unknown r) \<and> str_fits d (cp_mechanism r)"

interpretation projection_codec: record_codec encode_projection decode_projection projection_fits
proof (rule record_codec_of_reads)
  fix d and r :: capability_projection
  assume f: "projection_fits d r"
  show "reads decode_projection d (encode_projection r) r"
    unfolding decode_projection_def encode_projection_def
    by ((rule reads_bind, (rule field_reads; simp add: f [unfolded projection_fits_def]))+, rule reads_last,
        (rule field_reads; simp add: f [unfolded projection_fits_def]), rule reads_return, simp)
qed (simp_all add: projection_fits_def encode_projection_def)

lemmas [field_reads] = projection_codec.reads_value
lemmas [simp] = projection_codec.fits_skip projection_codec.fits_move

definition encode_policy :: "virtualization_policy \<Rightarrow> bytes" where
  "encode_policy r =
    enc_id (pol_id r) @ enc_gen (pol_generation r) @
    enc_list (enc_enum backing_class_value) (pol_allowed_backing_classes r) @
    enc_enum tenant_sharing_value (pol_tenant_sharing r) @
    enc_list encode_requirement (pol_required_isolation r) @ enc_boolean (pol_oversubscription_allowed r) @
    enc_enum transparency_value (pol_transparency r) @ enc_boolean (pol_migration_allowed r) @
    enc_list (enc_enum migration_class_value) (pol_allowed_migration_classes r) @
    enc_u32 (pol_max_attachments_per_virtual r) @ enc_u64 (pol_max_lease_duration_micros r) @
    enc_list enc_key (pol_forbidden_capabilities r) @ enc_u64 (pol_max_memory_ceiling_bytes r) @
    enc_u32 (pol_max_compute_share_milli r) @ enc_boolean (pol_synthetic_backing_allowed r) @
    enc_enum recovery_behavior_value (pol_recovery r) @ enc_u64 (pol_evidence_max_age_micros r) @
    enc_u32 (pol_max_virtual_accelerators r) @ enc_u32 (pol_max_tenants r) @ enc_u32 (pol_max_leases r) @
    enc_u32 (pol_max_assignments r) @ enc_u32 (pol_max_migrations r) @ enc_u32 (pol_max_evidence_records r)"

definition decode_policy :: "virtualization_policy dec" where
  "decode_policy =
    dec_bind dec_id (\<lambda>id'. dec_bind dec_gen (\<lambda>generation'.
    dec_bind (decode_list (dec_enum SC_MalformedFrame backing_class_table) 64) (\<lambda>allowed_backing_classes.
    dec_bind (dec_enum SC_MalformedFrame tenant_sharing_table) (\<lambda>tenant_sharing.
    dec_bind (decode_list decode_requirement 64) (\<lambda>required_isolation.
    dec_bind dec_boolean (\<lambda>oversubscription_allowed.
    dec_bind (dec_enum SC_MalformedFrame transparency_table) (\<lambda>transparency.
    dec_bind dec_boolean (\<lambda>migration_allowed.
    dec_bind (decode_list (dec_enum SC_MalformedFrame migration_class_table) 64) (\<lambda>allowed_migration_classes.
    dec_bind dec_u32 (\<lambda>max_attachments_per_virtual.
    dec_bind dec_u64 (\<lambda>max_lease_duration_micros.
    dec_bind (decode_list dec_key 256) (\<lambda>forbidden_capabilities.
    dec_bind dec_u64 (\<lambda>max_memory_ceiling_bytes. dec_bind dec_u32 (\<lambda>max_compute_share_milli.
    dec_bind dec_boolean (\<lambda>synthetic_backing_allowed.
    dec_bind (dec_enum SC_MalformedFrame recovery_behavior_table) (\<lambda>recovery.
    dec_bind dec_u64 (\<lambda>evidence_max_age_micros. dec_bind dec_u32 (\<lambda>max_virtual_accelerators.
    dec_bind dec_u32 (\<lambda>max_tenants. dec_bind dec_u32 (\<lambda>max_leases.
    dec_bind dec_u32 (\<lambda>max_assignments. dec_bind dec_u32 (\<lambda>max_migrations.
    dec_bind dec_u32 (\<lambda>max_evidence_records.
    dec_return
      \<lparr> pol_id = id', pol_generation = generation', pol_allowed_backing_classes = allowed_backing_classes,
        pol_tenant_sharing = tenant_sharing, pol_required_isolation = required_isolation,
        pol_oversubscription_allowed = oversubscription_allowed, pol_transparency = transparency,
        pol_migration_allowed = migration_allowed, pol_allowed_migration_classes = allowed_migration_classes,
        pol_max_attachments_per_virtual = max_attachments_per_virtual,
        pol_max_lease_duration_micros = max_lease_duration_micros,
        pol_forbidden_capabilities = forbidden_capabilities,
        pol_max_memory_ceiling_bytes = max_memory_ceiling_bytes,
        pol_max_compute_share_milli = max_compute_share_milli,
        pol_synthetic_backing_allowed = synthetic_backing_allowed, pol_recovery = recovery,
        pol_evidence_max_age_micros = evidence_max_age_micros,
        pol_max_virtual_accelerators = max_virtual_accelerators, pol_max_tenants = max_tenants,
        pol_max_leases = max_leases, pol_max_assignments = max_assignments, pol_max_migrations = max_migrations,
        pol_max_evidence_records = max_evidence_records \<rparr>)))))))))))))))))))))))"

definition policy_fits :: "decoder \<Rightarrow> virtualization_policy \<Rightarrow> bool" where
  "policy_fits d r \<longleftrightarrow>
    list_fits (\<lambda>_ _. True) 64 d (pol_allowed_backing_classes r) \<and>
    list_fits requirement_fits 64 d (pol_required_isolation r) \<and>
    list_fits (\<lambda>_ _. True) 64 d (pol_allowed_migration_classes r) \<and>
    list_fits (\<lambda>_ _. True) 256 d (pol_forbidden_capabilities r)"

interpretation policy_codec: record_codec encode_policy decode_policy policy_fits
proof (rule record_codec_of_reads)
  fix d and r :: virtualization_policy
  assume f: "policy_fits d r"
  show "reads decode_policy d (encode_policy r) r"
    unfolding decode_policy_def encode_policy_def
    by ((rule reads_bind, (rule field_reads; simp add: f [unfolded policy_fits_def]))+, rule reads_last,
        (rule field_reads; simp add: f [unfolded policy_fits_def]), rule reads_return, simp)
qed (simp_all add: policy_fits_def encode_policy_def)

lemmas [field_reads] = policy_codec.reads_value
lemmas [simp] = policy_codec.fits_skip policy_codec.fits_move

definition encode_migration_plan :: "migration_plan \<Rightarrow> bytes" where
  "encode_migration_plan r =
    enc_id (mp_id r) @ enc_gen (mp_generation r) @ enc_id (mp_virtual_id r) @
    enc_gen (mp_virtual_generation r) @ enc_id (mp_source_backing r) @
    enc_gen (mp_source_backing_generation r) @ enc_id (mp_destination_backing r) @
    enc_gen (mp_destination_backing_generation r) @ enc_id (mp_source_physical r) @
    enc_gen (mp_source_physical_generation r) @ enc_id (mp_destination_physical r) @
    enc_gen (mp_destination_physical_generation r) @ enc_id (mp_tenant r) @ enc_gen (mp_tenant_generation r) @
    enc_gen (mp_contract_generation r) @ enc_gen (mp_projection_generation r) @
    enc_gen (mp_policy_generation r) @ enc_gen (mp_epoch r) @ enc_enum migration_class_value (mp_klass r) @
    enc_boolean (mp_state_transfer_required r) @ enc_boolean (mp_live_state_movement r) @
    enc_str (mp_rationale r)"

definition decode_migration_plan :: "migration_plan dec" where
  "decode_migration_plan =
    dec_bind dec_id (\<lambda>id'. dec_bind dec_gen (\<lambda>generation'. dec_bind dec_id (\<lambda>virtual_id.
    dec_bind dec_gen (\<lambda>virtual_generation. dec_bind dec_id (\<lambda>source_backing.
    dec_bind dec_gen (\<lambda>source_backing_generation. dec_bind dec_id (\<lambda>destination_backing.
    dec_bind dec_gen (\<lambda>destination_backing_generation. dec_bind dec_id (\<lambda>source_physical.
    dec_bind dec_gen (\<lambda>source_physical_generation. dec_bind dec_id (\<lambda>destination_physical.
    dec_bind dec_gen (\<lambda>destination_physical_generation. dec_bind dec_id (\<lambda>tenant.
    dec_bind dec_gen (\<lambda>tenant_generation. dec_bind dec_gen (\<lambda>contract_generation.
    dec_bind dec_gen (\<lambda>projection_generation. dec_bind dec_gen (\<lambda>policy_generation.
    dec_bind dec_gen (\<lambda>epoch.
    dec_bind (dec_enum SC_MalformedFrame migration_class_table) (\<lambda>klass.
    dec_bind dec_boolean (\<lambda>state_transfer_required. dec_bind dec_boolean (\<lambda>live_state_movement.
    dec_bind dec_str (\<lambda>rationale.
    dec_return
      \<lparr> mp_id = id', mp_generation = generation', mp_virtual_id = virtual_id,
        mp_virtual_generation = virtual_generation, mp_source_backing = source_backing,
        mp_source_backing_generation = source_backing_generation, mp_destination_backing = destination_backing,
        mp_destination_backing_generation = destination_backing_generation,
        mp_source_physical = source_physical, mp_source_physical_generation = source_physical_generation,
        mp_destination_physical = destination_physical,
        mp_destination_physical_generation = destination_physical_generation, mp_tenant = tenant,
        mp_tenant_generation = tenant_generation, mp_contract_generation = contract_generation,
        mp_projection_generation = projection_generation, mp_policy_generation = policy_generation,
        mp_epoch = epoch, mp_klass = klass, mp_state_transfer_required = state_transfer_required,
        mp_live_state_movement = live_state_movement, mp_rationale = rationale \<rparr>))))))))))))))))))))))"

definition migration_plan_fits :: "decoder \<Rightarrow> migration_plan \<Rightarrow> bool" where
  "migration_plan_fits d r \<longleftrightarrow>
    str_fits d (mp_rationale r)"

interpretation migration_plan_codec: record_codec encode_migration_plan decode_migration_plan migration_plan_fits
proof (rule record_codec_of_reads)
  fix d and r :: migration_plan
  assume f: "migration_plan_fits d r"
  show "reads decode_migration_plan d (encode_migration_plan r) r"
    unfolding decode_migration_plan_def encode_migration_plan_def
    by ((rule reads_bind, (rule field_reads; simp add: f [unfolded migration_plan_fits_def]))+, rule reads_last,
        (rule field_reads; simp add: f [unfolded migration_plan_fits_def]), rule reads_return, simp)
qed (simp_all add: migration_plan_fits_def encode_migration_plan_def)

lemmas [field_reads] = migration_plan_codec.reads_value
lemmas [simp] = migration_plan_codec.fits_skip migration_plan_codec.fits_move

section \<open>A contract on its own\<close>

definition encode_contract_blob :: "resource_contract \<Rightarrow> bytes" where
  "encode_contract_blob c = encode_contract c"

definition decode_contract_blob :: "bytes \<Rightarrow> resource_contract result" where
  "decode_contract_blob bs =
    (case decode_contract (decoder_of bs default_limits) of Inl e \<Rightarrow> Inl e
     | Inr (c, d) \<Rightarrow> if require_end d \<noteq> SC_Ok then Inl (require_end d) else Inr c)"

end
