(* ===== verification/AV_Engine.thy ===== *)
theory AV_Engine
  imports AV_Projection
begin

text \<open>
  The transaction engine of the runtime (\<open>src/runtime.cpp\<close>, \<open>struct VirtualizationRuntime::Impl\<close>): change
  tracking, undo log, commit and rollback, decision records, refusal accounting.

  An operation runs on the record \<open>impl\<close>: \<open>begin_op\<close> opens it, the \<open>touch_\<close> functions save before-images
  and note what changed, the \<open>upd_\<close> and \<open>put_\<close> functions are the in-place mutations of the C++ code, and
  \<open>finalize\<close> records the decision and commits. The durable store and the clock are the environment of
  one operation: the answers the store gives (\<open>DurableStore\<close> is an abstract class) and the one clock
  reading. Time is recorded but never decides anything, so several readings within one operation
  are one.

  The change accumulator and the change set handed to the store have the same contents; ordered sets
  are sorted lists, so \<open>to_change_set\<close> is the identity and one record serves for both.

  Proved here: the invariant \<open>covers\<close> (the undo log accounts for every difference between the state an
  operation started from and the current one) is kept by every primitive effect, provided that what is
  mutated was touched before, and under it \<open>rollback\<close> restores the starting state exactly.
\<close>

section \<open>Options, environment, context\<close>

record runtime_options =
  opt_name :: string
  opt_persist :: bool
  opt_deferred_persistence :: bool
  opt_deferred_threshold :: nat
  opt_max_connections :: u32
  opt_enforce_memory_budget :: bool

record authority =
  auth_epoch :: "epoch option"
  auth_tenant :: "tn_id option"
  auth_tenant_generation :: "tn_gen option"
  auth_virtual_id :: "va_id option"
  auth_virtual_generation :: "va_gen option"
  auth_backing :: "bk_id option"
  auth_backing_generation :: "bk_gen option"
  auth_physical :: "pd_id option"
  auth_physical_generation :: "pd_gen option"
  auth_lease :: "ls_id option"
  auth_lease_generation :: "ls_gen option"
  auth_policy_generation :: "pol_gen option"
  auth_migration :: "mg_id option"
  auth_migration_generation :: "mg_gen option"
  auth_request :: "rq_id option"
  auth_session :: "u64 option"

definition blank_authority :: authority where
  "blank_authority =
    \<lparr> auth_epoch = None, auth_tenant = None, auth_tenant_generation = None, auth_virtual_id = None,
      auth_virtual_generation = None, auth_backing = None, auth_backing_generation = None, auth_physical = None,
      auth_physical_generation = None, auth_lease = None, auth_lease_generation = None,
      auth_policy_generation = None, auth_migration = None, auth_migration_generation = None,
      auth_request = None, auth_session = None \<rparr>"

record op_context =
  cx_operation :: string
  cx_request :: rq_id
  cx_session :: u64
  cx_epoch :: epoch
  cx_virtual_id :: va_id
  cx_virtual_generation :: va_gen
  cx_tenant :: tn_id
  cx_tenant_generation :: tn_gen
  cx_backing :: bk_id
  cx_backing_generation :: bk_gen
  cx_physical :: pd_id
  cx_physical_generation :: pd_gen
  cx_lease :: ls_id
  cx_lease_generation :: ls_gen
  cx_policy_generation :: pol_gen
  cx_migration :: mg_id
  cx_migration_generation :: mg_gen

definition blank_context :: op_context where
  "blank_context =
    \<lparr> cx_operation = [], cx_request = no_id, cx_session = 0, cx_epoch = no_gen, cx_virtual_id = no_id,
      cx_virtual_generation = no_gen, cx_tenant = no_id, cx_tenant_generation = no_gen, cx_backing = no_id,
      cx_backing_generation = no_gen, cx_physical = no_id, cx_physical_generation = no_gen, cx_lease = no_id,
      cx_lease_generation = no_gen, cx_policy_generation = no_gen, cx_migration = no_id,
      cx_migration_generation = no_gen \<rparr>"

definition option_or :: "'a \<Rightarrow> 'a option \<Rightarrow> 'a" where
  "option_or d v = (case v of Some x \<Rightarrow> x | None \<Rightarrow> d)"

text \<open>The opening lines every operation shares: operation name, epoch, request and session.\<close>

definition op_context_of :: "string \<Rightarrow> authority \<Rightarrow> op_context" where
  "op_context_of operation auth = blank_context
    \<lparr> cx_operation := operation,
      cx_epoch := option_or no_gen (auth_epoch auth),
      cx_request := option_or no_id (auth_request auth),
      cx_session := option_or 0 (auth_session auth) \<rparr>"

definition adopt_virtual :: "virtual_record \<Rightarrow> op_context \<Rightarrow> op_context" where
  "adopt_virtual r c = c
    \<lparr> cx_virtual_id := va_id r, cx_virtual_generation := va_generation r,
      cx_tenant := va_owner r, cx_tenant_generation := va_owner_generation r,
      cx_backing := va_backing r, cx_backing_generation := va_backing_generation r,
      cx_physical := va_physical r, cx_physical_generation := va_physical_generation r,
      cx_migration := va_migration r, cx_migration_generation := va_migration_generation r,
      cx_policy_generation := va_policy_generation r \<rparr>"

definition adopt_tenant :: "tenant_record \<Rightarrow> op_context \<Rightarrow> op_context" where
  "adopt_tenant r c = c\<lparr> cx_tenant := tn_id r, cx_tenant_generation := tn_generation r \<rparr>"

definition adopt_lease :: "lease_record \<Rightarrow> op_context \<Rightarrow> op_context" where
  "adopt_lease r c = c
    \<lparr> cx_lease := ls_id r, cx_lease_generation := ls_generation r,
      cx_virtual_id := ls_virtual_id r, cx_virtual_generation := ls_virtual_generation r,
      cx_tenant := ls_tenant r, cx_tenant_generation := ls_tenant_generation r,
      cx_backing_generation := ls_backing_generation r, cx_physical_generation := ls_physical_generation r,
      cx_policy_generation := ls_policy_generation r \<rparr>"

section \<open>Undo log and change set\<close>

text \<open>A \<open>std::set\<close> as a sorted list.\<close>

definition set_insert :: "'k::linorder \<Rightarrow> 'k list \<Rightarrow> 'k list" where
  "set_insert k ks = (if k \<in> set ks then ks else insort k ks)"

text \<open>Touched keys, and the previous value of those that had one.\<close>

type_synonym ('k, 'v) touch_log = "'k list \<times> ('k, 'v) omap"

definition touch_entity ::
  "'k::linorder \<Rightarrow> ('k, 'v) omap \<Rightarrow> ('k, 'v) touch_log \<Rightarrow> ('k, 'v) touch_log" where
  "touch_entity k m l =
    (if k \<in> set (fst l) then l
     else (insort k (fst l), case om_find m k of Some v \<Rightarrow> om_put k v (snd l) | None \<Rightarrow> snd l))"

definition restore_map :: "('k, 'v) touch_log \<Rightarrow> ('k::linorder, 'v) omap \<Rightarrow> ('k, 'v) omap" where
  "restore_map l m =
    fold (\<lambda>k m. case om_find (snd l) k of None \<Rightarrow> om_del k m | Some v \<Rightarrow> om_put k v m) (fst l) m"

record undo_log =
  un_header :: bool
  un_next_sequence :: u64
  un_epoch :: epoch
  un_policy :: virtualization_policy
  un_policy_generation :: pol_gen
  un_accounting :: accounting
  un_tenants :: "(tn_id, tenant_record) touch_log"
  un_physical :: "(pd_id, physical_record) touch_log"
  un_backings :: "(bk_id, backing_record) touch_log"
  un_virtuals :: "(va_id, virtual_record) touch_log"
  un_leases :: "(ls_id, lease_record) touch_log"
  un_assignments :: "(as_id, backing_assignment) touch_log"
  un_migrations :: "(mg_id, migration_record) touch_log"
  un_evidence :: "(ev_id, evidence_record) touch_log"
  un_audit_size :: nat
  un_decision_size :: nat
  un_request_size :: nat

definition blank_undo :: undo_log where
  "blank_undo =
    \<lparr> un_header = False, un_next_sequence = 0, un_epoch = no_gen, un_policy = blank_policy,
      un_policy_generation = no_gen, un_accounting = blank_accounting,
      un_tenants = ([], om_empty), un_physical = ([], om_empty), un_backings = ([], om_empty), un_virtuals = ([], om_empty),
      un_leases = ([], om_empty), un_assignments = ([], om_empty), un_migrations = ([], om_empty), un_evidence = ([], om_empty),
      un_audit_size = 0, un_decision_size = 0, un_request_size = 0 \<rparr>"

record change_set =
  ch_header :: bool
  ch_tenants :: "tn_id list"
  ch_physical :: "pd_id list"
  ch_backings :: "bk_id list"
  ch_virtuals :: "va_id list"
  ch_leases :: "ls_id list"
  ch_assignments :: "as_id list"
  ch_migrations :: "mg_id list"
  ch_evidence :: "ev_id list"
  ch_audit :: "audit_entry list"
  ch_decisions :: "decision list"
  ch_requests :: "request_outcome list"

definition empty_changes :: change_set where
  "empty_changes =
    \<lparr> ch_header = False, ch_tenants = [], ch_physical = [], ch_backings = [], ch_virtuals = [], ch_leases = [], ch_assignments = [], ch_migrations = [], ch_evidence = [],
      ch_audit = [], ch_decisions = [], ch_requests = [] \<rparr>"

definition change_count :: "change_set \<Rightarrow> nat" where
  "change_count c = (if ch_header c then 1 else 0) + length (ch_tenants c) + length (ch_physical c) + length (ch_backings c) + length (ch_virtuals c) + length (ch_leases c) + length (ch_assignments c) + length (ch_migrations c) + length (ch_evidence c) +
     length (ch_audit c) + length (ch_decisions c) + length (ch_requests c)"

definition changes_empty :: "change_set \<Rightarrow> bool" where
  "changes_empty c \<longleftrightarrow> change_count c = 0"

text \<open>The answers of the durable store during one operation.\<close>

record durable_store =
  ds_open :: status_code
  ds_present :: bool
  ds_load :: "vstate result"
  ds_apply :: "vstate \<Rightarrow> change_set \<Rightarrow> status_code"
  ds_compact :: "vstate \<Rightarrow> status_code"
  ds_close :: status_code

record env =
  env_now :: micros
  env_store :: "durable_store option"

record impl =
  im_options :: runtime_options
  im_state :: vstate
  im_changes :: change_set
  im_undo :: undo_log
  im_agents :: "(ag_id, agent_session) omap"
  im_running :: bool
  im_store_failed :: bool
  im_store_failure :: status_code

section \<open>Primitive effects\<close>

definition upd_state :: "(vstate \<Rightarrow> vstate) \<Rightarrow> impl \<Rightarrow> impl" where
  "upd_state f im = im\<lparr> im_state := f (im_state im) \<rparr>"

definition touch_header :: "impl \<Rightarrow> impl" where
  "touch_header im = im\<lparr> im_changes := (im_changes im)\<lparr> ch_header := True \<rparr> \<rparr>"

definition next_id :: "impl \<Rightarrow> u64 \<times> impl" where
  "next_id im =
    (let n = st_next_sequence (im_state im) in
     (n, touch_header (upd_state (\<lambda>s. s\<lparr> st_next_sequence := n + 1 \<rparr>) im)))"

definition upd_accounting :: "(accounting \<Rightarrow> accounting) \<Rightarrow> impl \<Rightarrow> impl" where
  "upd_accounting f = upd_state (\<lambda>s. s\<lparr> st_accounting := f (st_accounting s) \<rparr>)"

definition touch_tenant :: "tn_id \<Rightarrow> impl \<Rightarrow> impl" where
  "touch_tenant k im = im
    \<lparr> im_undo := (im_undo im)\<lparr> un_tenants := touch_entity k (st_tenants (im_state im)) (un_tenants (im_undo im)) \<rparr>,
      im_changes := (im_changes im)\<lparr> ch_tenants := set_insert k (ch_tenants (im_changes im)) \<rparr> \<rparr>"

definition upd_tenant :: "tn_id \<Rightarrow> (tenant_record \<Rightarrow> tenant_record) \<Rightarrow> impl \<Rightarrow> impl" where
  "upd_tenant k f = upd_state (\<lambda>s. s\<lparr> st_tenants := om_upd k f (st_tenants s) \<rparr>)"

definition put_tenant :: "tn_id \<Rightarrow> tenant_record \<Rightarrow> impl \<Rightarrow> impl" where
  "put_tenant k v = upd_state (\<lambda>s. s\<lparr> st_tenants := om_put k v (st_tenants s) \<rparr>)"

definition touch_physical :: "pd_id \<Rightarrow> impl \<Rightarrow> impl" where
  "touch_physical k im = im
    \<lparr> im_undo := (im_undo im)\<lparr> un_physical := touch_entity k (st_physical (im_state im)) (un_physical (im_undo im)) \<rparr>,
      im_changes := (im_changes im)\<lparr> ch_physical := set_insert k (ch_physical (im_changes im)) \<rparr> \<rparr>"

definition upd_physical :: "pd_id \<Rightarrow> (physical_record \<Rightarrow> physical_record) \<Rightarrow> impl \<Rightarrow> impl" where
  "upd_physical k f = upd_state (\<lambda>s. s\<lparr> st_physical := om_upd k f (st_physical s) \<rparr>)"

definition put_physical :: "pd_id \<Rightarrow> physical_record \<Rightarrow> impl \<Rightarrow> impl" where
  "put_physical k v = upd_state (\<lambda>s. s\<lparr> st_physical := om_put k v (st_physical s) \<rparr>)"

definition touch_backing :: "bk_id \<Rightarrow> impl \<Rightarrow> impl" where
  "touch_backing k im = im
    \<lparr> im_undo := (im_undo im)\<lparr> un_backings := touch_entity k (st_backings (im_state im)) (un_backings (im_undo im)) \<rparr>,
      im_changes := (im_changes im)\<lparr> ch_backings := set_insert k (ch_backings (im_changes im)) \<rparr> \<rparr>"

definition upd_backing :: "bk_id \<Rightarrow> (backing_record \<Rightarrow> backing_record) \<Rightarrow> impl \<Rightarrow> impl" where
  "upd_backing k f = upd_state (\<lambda>s. s\<lparr> st_backings := om_upd k f (st_backings s) \<rparr>)"

definition put_backing :: "bk_id \<Rightarrow> backing_record \<Rightarrow> impl \<Rightarrow> impl" where
  "put_backing k v = upd_state (\<lambda>s. s\<lparr> st_backings := om_put k v (st_backings s) \<rparr>)"

definition touch_virtual :: "va_id \<Rightarrow> impl \<Rightarrow> impl" where
  "touch_virtual k im = im
    \<lparr> im_undo := (im_undo im)\<lparr> un_virtuals := touch_entity k (st_virtuals (im_state im)) (un_virtuals (im_undo im)) \<rparr>,
      im_changes := (im_changes im)\<lparr> ch_virtuals := set_insert k (ch_virtuals (im_changes im)) \<rparr> \<rparr>"

definition upd_virtual :: "va_id \<Rightarrow> (virtual_record \<Rightarrow> virtual_record) \<Rightarrow> impl \<Rightarrow> impl" where
  "upd_virtual k f = upd_state (\<lambda>s. s\<lparr> st_virtuals := om_upd k f (st_virtuals s) \<rparr>)"

definition put_virtual :: "va_id \<Rightarrow> virtual_record \<Rightarrow> impl \<Rightarrow> impl" where
  "put_virtual k v = upd_state (\<lambda>s. s\<lparr> st_virtuals := om_put k v (st_virtuals s) \<rparr>)"

definition touch_lease :: "ls_id \<Rightarrow> impl \<Rightarrow> impl" where
  "touch_lease k im = im
    \<lparr> im_undo := (im_undo im)\<lparr> un_leases := touch_entity k (st_leases (im_state im)) (un_leases (im_undo im)) \<rparr>,
      im_changes := (im_changes im)\<lparr> ch_leases := set_insert k (ch_leases (im_changes im)) \<rparr> \<rparr>"

definition upd_lease :: "ls_id \<Rightarrow> (lease_record \<Rightarrow> lease_record) \<Rightarrow> impl \<Rightarrow> impl" where
  "upd_lease k f = upd_state (\<lambda>s. s\<lparr> st_leases := om_upd k f (st_leases s) \<rparr>)"

definition put_lease :: "ls_id \<Rightarrow> lease_record \<Rightarrow> impl \<Rightarrow> impl" where
  "put_lease k v = upd_state (\<lambda>s. s\<lparr> st_leases := om_put k v (st_leases s) \<rparr>)"

definition touch_assignment :: "as_id \<Rightarrow> impl \<Rightarrow> impl" where
  "touch_assignment k im = im
    \<lparr> im_undo := (im_undo im)\<lparr> un_assignments := touch_entity k (st_assignments (im_state im)) (un_assignments (im_undo im)) \<rparr>,
      im_changes := (im_changes im)\<lparr> ch_assignments := set_insert k (ch_assignments (im_changes im)) \<rparr> \<rparr>"

definition upd_assignment :: "as_id \<Rightarrow> (backing_assignment \<Rightarrow> backing_assignment) \<Rightarrow> impl \<Rightarrow> impl" where
  "upd_assignment k f = upd_state (\<lambda>s. s\<lparr> st_assignments := om_upd k f (st_assignments s) \<rparr>)"

definition put_assignment :: "as_id \<Rightarrow> backing_assignment \<Rightarrow> impl \<Rightarrow> impl" where
  "put_assignment k v = upd_state (\<lambda>s. s\<lparr> st_assignments := om_put k v (st_assignments s) \<rparr>)"

definition touch_migration :: "mg_id \<Rightarrow> impl \<Rightarrow> impl" where
  "touch_migration k im = im
    \<lparr> im_undo := (im_undo im)\<lparr> un_migrations := touch_entity k (st_migrations (im_state im)) (un_migrations (im_undo im)) \<rparr>,
      im_changes := (im_changes im)\<lparr> ch_migrations := set_insert k (ch_migrations (im_changes im)) \<rparr> \<rparr>"

definition upd_migration :: "mg_id \<Rightarrow> (migration_record \<Rightarrow> migration_record) \<Rightarrow> impl \<Rightarrow> impl" where
  "upd_migration k f = upd_state (\<lambda>s. s\<lparr> st_migrations := om_upd k f (st_migrations s) \<rparr>)"

definition put_migration :: "mg_id \<Rightarrow> migration_record \<Rightarrow> impl \<Rightarrow> impl" where
  "put_migration k v = upd_state (\<lambda>s. s\<lparr> st_migrations := om_put k v (st_migrations s) \<rparr>)"

definition touch_evidence :: "ev_id \<Rightarrow> impl \<Rightarrow> impl" where
  "touch_evidence k im = im
    \<lparr> im_undo := (im_undo im)\<lparr> un_evidence := touch_entity k (st_evidence (im_state im)) (un_evidence (im_undo im)) \<rparr>,
      im_changes := (im_changes im)\<lparr> ch_evidence := set_insert k (ch_evidence (im_changes im)) \<rparr> \<rparr>"

definition upd_evidence :: "ev_id \<Rightarrow> (evidence_record \<Rightarrow> evidence_record) \<Rightarrow> impl \<Rightarrow> impl" where
  "upd_evidence k f = upd_state (\<lambda>s. s\<lparr> st_evidence := om_upd k f (st_evidence s) \<rparr>)"

definition put_evidence :: "ev_id \<Rightarrow> evidence_record \<Rightarrow> impl \<Rightarrow> impl" where
  "put_evidence k v = upd_state (\<lambda>s. s\<lparr> st_evidence := om_put k v (st_evidence s) \<rparr>)"

text \<open>A block of statements, executed in order.\<close>

definition run_steps :: "(impl \<Rightarrow> impl) list \<Rightarrow> impl \<Rightarrow> impl" where
  "run_steps fs im = fold (\<lambda>f. f) fs im"

lemma run_steps_simps [simp]: "run_steps [] im = im" "run_steps (f # fs) im = run_steps fs (f im)"
  by (simp_all add: run_steps_def)

section \<open>Opening and closing an operation\<close>

definition begin_op :: "impl \<Rightarrow> impl" where
  "begin_op im =
    (let s = im_state im in im
      \<lparr> im_changes := empty_changes,
        im_undo := blank_undo
          \<lparr> un_header := True, un_next_sequence := st_next_sequence s, un_epoch := st_epoch s,
            un_policy := st_policy s, un_policy_generation := st_policy_generation s,
            un_accounting := st_accounting s, un_audit_size := length (st_audit s),
            un_decision_size := length (st_decisions s), un_request_size := length (st_requests s) \<rparr> \<rparr>)"

definition resize :: "nat \<Rightarrow> 'a list \<Rightarrow> 'a list" where
  "resize n xs = (if length xs > n then take n xs else xs)"

definition rollback_header :: "undo_log \<Rightarrow> vstate \<Rightarrow> vstate" where
  "rollback_header u s =
    (if un_header u then s
      \<lparr> st_next_sequence := un_next_sequence u, st_epoch := un_epoch u, st_policy := un_policy u,
        st_policy_generation := un_policy_generation u, st_accounting := un_accounting u \<rparr>
     else s)"

definition rollback_state :: "undo_log \<Rightarrow> vstate \<Rightarrow> vstate" where
  "rollback_state u s =
    (let s = rollback_header u s in s
      \<lparr> st_tenants := restore_map (un_tenants u) (st_tenants s),
        st_physical := restore_map (un_physical u) (st_physical s),
        st_backings := restore_map (un_backings u) (st_backings s),
        st_virtuals := restore_map (un_virtuals u) (st_virtuals s),
        st_leases := restore_map (un_leases u) (st_leases s),
        st_assignments := restore_map (un_assignments u) (st_assignments s),
        st_migrations := restore_map (un_migrations u) (st_migrations s),
        st_evidence := restore_map (un_evidence u) (st_evidence s),
        st_audit := resize (un_audit_size u) (st_audit s),
        st_decisions := resize (un_decision_size u) (st_decisions s),
        st_requests := resize (un_request_size u) (st_requests s) \<rparr>)"

definition rollback :: "impl \<Rightarrow> impl" where
  "rollback im = im
    \<lparr> im_state := rollback_state (im_undo im) (im_state im), im_undo := blank_undo, im_changes := empty_changes \<rparr>"

text \<open>\<open>push_back\<close> all new entries, then erase from the front while the log is over its capacity.\<close>

definition append_bounded :: "nat \<Rightarrow> 'a list \<Rightarrow> 'a list \<Rightarrow> 'a list" where
  "append_bounded cap xs ys = (let zs = xs @ ys in drop (length zs - cap) zs)"

definition commit_logs :: "impl \<Rightarrow> impl" where
  "commit_logs im = upd_state (\<lambda>s. s
    \<lparr> st_audit := append_bounded kAuditCapacity (st_audit s) (ch_audit (im_changes im)),
      st_decisions := append_bounded kDecisionCapacity (st_decisions s) (ch_decisions (im_changes im)),
      st_requests := append_bounded kRequestWindowCapacity (st_requests s) (ch_requests (im_changes im)) \<rparr>) im"

definition store_answer :: "env \<Rightarrow> impl \<Rightarrow> status_code" where
  "store_answer e im =
    (case env_store e of None \<Rightarrow> SC_Ok
     | Some store \<Rightarrow>
         if opt_persist (im_options im) \<and> \<not> changes_empty (im_changes im)
         then ds_apply store (im_state im) (im_changes im) else SC_Ok)"

definition commit :: "env \<Rightarrow> impl \<Rightarrow> status_code \<times> impl" where
  "commit e im =
    (let im1 = commit_logs im; status = store_answer e im1 in
     if status \<noteq> SC_Ok
     then (status, rollback (im1\<lparr> im_store_failed := True, im_store_failure := status \<rparr>))
     else (SC_Ok, im1\<lparr> im_changes := empty_changes, im_undo := blank_undo \<rparr>))"

definition make_decision :: "env \<Rightarrow> op_context \<Rightarrow> status_code \<Rightarrow> u64 \<Rightarrow> decision" where
  "make_decision e c outcome n =
    \<lparr> dc_id = Ident n, dc_at = env_now e, dc_operation = cx_operation c, dc_outcome = outcome,
      dc_epoch = cx_epoch c, dc_virtual_id = cx_virtual_id c, dc_virtual_generation = cx_virtual_generation c,
      dc_tenant = cx_tenant c, dc_tenant_generation = cx_tenant_generation c, dc_backing = cx_backing c,
      dc_backing_generation = cx_backing_generation c, dc_physical = cx_physical c,
      dc_physical_generation = cx_physical_generation c, dc_lease = cx_lease c,
      dc_lease_generation = cx_lease_generation c, dc_policy_generation = cx_policy_generation c,
      dc_migration = cx_migration c, dc_migration_generation = cx_migration_generation c,
      dc_request = cx_request c \<rparr>"

definition make_audit :: "env \<Rightarrow> op_context \<Rightarrow> status_code \<Rightarrow> audit_kind \<Rightarrow> u64 \<Rightarrow> audit_entry" where
  "make_audit e c outcome kind n =
    \<lparr> au_id = Ident n, au_at = env_now e, au_kind = kind, au_operation = cx_operation c, au_outcome = outcome,
      au_epoch = cx_epoch c, au_virtual_id = cx_virtual_id c, au_virtual_generation = cx_virtual_generation c,
      au_tenant = cx_tenant c, au_tenant_generation = cx_tenant_generation c, au_backing = cx_backing c,
      au_backing_generation = cx_backing_generation c, au_migration = cx_migration c,
      au_migration_generation = cx_migration_generation c \<rparr>"

definition record_decision :: "env \<Rightarrow> op_context \<Rightarrow> status_code \<Rightarrow> audit_kind \<Rightarrow> impl \<Rightarrow> impl" where
  "record_decision e c outcome kind im =
    (let (n, im1) = next_id im;
         im2 = im1\<lparr> im_changes := (im_changes im1)\<lparr> ch_decisions := ch_decisions (im_changes im1) @ [make_decision e c outcome n] \<rparr> \<rparr>;
         (m, im3) = next_id im2
     in touch_header
       (im3\<lparr> im_changes := (im_changes im3)\<lparr> ch_audit := ch_audit (im_changes im3) @ [make_audit e c outcome kind m] \<rparr> \<rparr>))"

definition refusal_class :: "status_code \<Rightarrow> accounting \<Rightarrow> accounting" where
  "refusal_class code a =
    (if is_stale_code code then a\<lparr> ac_stale_authority_refusals := ac_stale_authority_refusals a + 1 \<rparr>
     else if is_authority_code code then a\<lparr> ac_authority_refusals := ac_authority_refusals a + 1 \<rparr>
     else a)"

definition refusal_kind :: "status_code \<Rightarrow> accounting \<Rightarrow> accounting" where
  "refusal_kind code a =
    (if code \<in> {SC_ContractViolation, SC_ContractInvalid}
       then a\<lparr> ac_contract_violation_refusals := ac_contract_violation_refusals a + 1 \<rparr>
     else if code \<in> {SC_IsolationUnsatisfied, SC_IsolationUnknownMandatory}
       then a\<lparr> ac_isolation_refusals := ac_isolation_refusals a + 1 \<rparr>
     else if code \<in> {SC_CapabilityProjectionMismatch, SC_CapabilityUnknown}
       then a\<lparr> ac_capability_refusals := ac_capability_refusals a + 1 \<rparr>
     else if code = SC_OversubscriptionDenied
       then a\<lparr> ac_oversubscription_denials := ac_oversubscription_denials a + 1 \<rparr>
     else if code = SC_InvalidTransition
       then a\<lparr> ac_lifecycle_refusals := ac_lifecycle_refusals a + 1 \<rparr>
     else if code = SC_DuplicateRequest
       then a\<lparr> ac_duplicate_request_refusals := ac_duplicate_request_refusals a + 1 \<rparr>
     else if code \<in> {SC_ProtocolViolation, SC_MalformedFrame, SC_FrameTooLarge}
       then a\<lparr> ac_protocol_violations := ac_protocol_violations a + 1 \<rparr>
     else a)"

text \<open>The header is marked as changed exactly when a counter was; \<open>finalize\<close> marks it in any case.\<close>

definition account_refusal :: "status_code \<Rightarrow> impl \<Rightarrow> impl" where
  "account_refusal code im =
    (let a = st_accounting (im_state im); a' = refusal_kind code (refusal_class code a);
         im' = upd_accounting (\<lambda>_. a') im
     in if a' \<noteq> a then touch_header im' else im')"

definition push_request :: "env \<Rightarrow> op_context \<Rightarrow> status_code \<Rightarrow> impl \<Rightarrow> impl" where
  "push_request e c status im =
    (if id_valid (cx_request c)
     then im\<lparr> im_changes := (im_changes im)\<lparr> ch_requests := ch_requests (im_changes im) @
       [\<lparr> ro_request = cx_request c, ro_session = cx_session c, ro_operation = cx_operation c,
          ro_outcome = status, ro_at = env_now e \<rparr>] \<rparr> \<rparr>
     else im)"

definition finalize :: "env \<Rightarrow> op_context \<Rightarrow> status_code \<Rightarrow> audit_kind \<Rightarrow> impl \<Rightarrow> status_code \<times> impl" where
  "finalize e c status kind im =
    (let im1 = (if status \<noteq> SC_Ok then account_refusal status im else im);
         im2 = push_request e c status (record_decision e c status kind im1);
         (persisted, im3) = commit e im2
     in (if persisted \<noteq> SC_Ok then persisted else status, im3))"

text \<open>The two ways an operation ends: \<open>finalize(ctx, status, AuthorityRefusal)\<close> with the failure, or
  \<open>finalize(ctx, Status{}, kind)\<close> and the result.\<close>

definition refuse :: "env \<Rightarrow> op_context \<Rightarrow> status_code \<Rightarrow> impl \<Rightarrow> 'a result \<times> impl" where
  "refuse e c status im = (let (st, im') = finalize e c status AK_AuthorityRefusal im in (Inl st, im'))"

definition accept :: "env \<Rightarrow> op_context \<Rightarrow> audit_kind \<Rightarrow> 'a \<Rightarrow> impl \<Rightarrow> 'a result \<times> impl" where
  "accept e c kind value im =
    (let (st, im') = finalize e c SC_Ok kind im in (if st = SC_Ok then Inr value else Inl st, im'))"

section \<open>What the primitives leave alone\<close>

lemma touch_header_frame [simp]:
  "im_state (touch_header im) = im_state im" "im_undo (touch_header im) = im_undo im"
  "im_options (touch_header im) = im_options im" "im_agents (touch_header im) = im_agents im"
  "im_running (touch_header im) = im_running im" "im_store_failed (touch_header im) = im_store_failed im"
  by (simp_all add: touch_header_def)

lemma upd_state_frame [simp]:
  "im_state (upd_state f im) = f (im_state im)" "im_undo (upd_state f im) = im_undo im"
  "im_changes (upd_state f im) = im_changes im"
  "im_options (upd_state f im) = im_options im" "im_agents (upd_state f im) = im_agents im"
  "im_running (upd_state f im) = im_running im" "im_store_failed (upd_state f im) = im_store_failed im"
  by (simp_all add: upd_state_def)

lemma upd_accounting_frame [simp]:
  "im_state (upd_accounting f im) = (im_state im)\<lparr> st_accounting := f (st_accounting (im_state im)) \<rparr>"
  "im_undo (upd_accounting f im) = im_undo im" "im_changes (upd_accounting f im) = im_changes im"
  "im_options (upd_accounting f im) = im_options im" "im_store_failed (upd_accounting f im) = im_store_failed im"
  by (simp_all add: upd_accounting_def)

lemma next_id_frame [simp]:
  "fst (next_id im) = st_next_sequence (im_state im)"
  "im_state (snd (next_id im)) = (im_state im)\<lparr> st_next_sequence := st_next_sequence (im_state im) + 1 \<rparr>"
  "im_undo (snd (next_id im)) = im_undo im"
  "im_options (snd (next_id im)) = im_options im" "im_store_failed (snd (next_id im)) = im_store_failed im"
  by (simp_all add: next_id_def Let_def)

lemma touch_tenant_frame [simp]:
  "im_state (touch_tenant k im) = im_state im" "im_options (touch_tenant k im) = im_options im"
  "im_store_failed (touch_tenant k im) = im_store_failed im"
  "un_tenants (im_undo (touch_tenant k im)) = touch_entity k (st_tenants (im_state im)) (un_tenants (im_undo im))"
  "un_physical (im_undo (touch_tenant k im)) = un_physical (im_undo im)"
  "un_backings (im_undo (touch_tenant k im)) = un_backings (im_undo im)"
  "un_virtuals (im_undo (touch_tenant k im)) = un_virtuals (im_undo im)"
  "un_leases (im_undo (touch_tenant k im)) = un_leases (im_undo im)"
  "un_assignments (im_undo (touch_tenant k im)) = un_assignments (im_undo im)"
  "un_migrations (im_undo (touch_tenant k im)) = un_migrations (im_undo im)"
  "un_evidence (im_undo (touch_tenant k im)) = un_evidence (im_undo im)"
  by (simp_all add: touch_tenant_def)

lemma upd_tenant_frame [simp]:
  "im_state (upd_tenant k f im) = (im_state im)\<lparr> st_tenants := om_upd k f (st_tenants (im_state im)) \<rparr>"
  "im_undo (upd_tenant k f im) = im_undo im" "im_changes (upd_tenant k f im) = im_changes im"
  "im_options (upd_tenant k f im) = im_options im"
  "im_store_failed (upd_tenant k f im) = im_store_failed im"
  by (simp_all add: upd_tenant_def)

lemma put_tenant_frame [simp]:
  "im_state (put_tenant k v im) = (im_state im)\<lparr> st_tenants := om_put k v (st_tenants (im_state im)) \<rparr>"
  "im_undo (put_tenant k v im) = im_undo im" "im_changes (put_tenant k v im) = im_changes im"
  "im_options (put_tenant k v im) = im_options im"
  "im_store_failed (put_tenant k v im) = im_store_failed im"
  by (simp_all add: put_tenant_def)

lemma touch_physical_frame [simp]:
  "im_state (touch_physical k im) = im_state im" "im_options (touch_physical k im) = im_options im"
  "im_store_failed (touch_physical k im) = im_store_failed im"
  "un_physical (im_undo (touch_physical k im)) = touch_entity k (st_physical (im_state im)) (un_physical (im_undo im))"
  "un_tenants (im_undo (touch_physical k im)) = un_tenants (im_undo im)"
  "un_backings (im_undo (touch_physical k im)) = un_backings (im_undo im)"
  "un_virtuals (im_undo (touch_physical k im)) = un_virtuals (im_undo im)"
  "un_leases (im_undo (touch_physical k im)) = un_leases (im_undo im)"
  "un_assignments (im_undo (touch_physical k im)) = un_assignments (im_undo im)"
  "un_migrations (im_undo (touch_physical k im)) = un_migrations (im_undo im)"
  "un_evidence (im_undo (touch_physical k im)) = un_evidence (im_undo im)"
  by (simp_all add: touch_physical_def)

lemma upd_physical_frame [simp]:
  "im_state (upd_physical k f im) = (im_state im)\<lparr> st_physical := om_upd k f (st_physical (im_state im)) \<rparr>"
  "im_undo (upd_physical k f im) = im_undo im" "im_changes (upd_physical k f im) = im_changes im"
  "im_options (upd_physical k f im) = im_options im"
  "im_store_failed (upd_physical k f im) = im_store_failed im"
  by (simp_all add: upd_physical_def)

lemma put_physical_frame [simp]:
  "im_state (put_physical k v im) = (im_state im)\<lparr> st_physical := om_put k v (st_physical (im_state im)) \<rparr>"
  "im_undo (put_physical k v im) = im_undo im" "im_changes (put_physical k v im) = im_changes im"
  "im_options (put_physical k v im) = im_options im"
  "im_store_failed (put_physical k v im) = im_store_failed im"
  by (simp_all add: put_physical_def)

lemma touch_backing_frame [simp]:
  "im_state (touch_backing k im) = im_state im" "im_options (touch_backing k im) = im_options im"
  "im_store_failed (touch_backing k im) = im_store_failed im"
  "un_backings (im_undo (touch_backing k im)) = touch_entity k (st_backings (im_state im)) (un_backings (im_undo im))"
  "un_tenants (im_undo (touch_backing k im)) = un_tenants (im_undo im)"
  "un_physical (im_undo (touch_backing k im)) = un_physical (im_undo im)"
  "un_virtuals (im_undo (touch_backing k im)) = un_virtuals (im_undo im)"
  "un_leases (im_undo (touch_backing k im)) = un_leases (im_undo im)"
  "un_assignments (im_undo (touch_backing k im)) = un_assignments (im_undo im)"
  "un_migrations (im_undo (touch_backing k im)) = un_migrations (im_undo im)"
  "un_evidence (im_undo (touch_backing k im)) = un_evidence (im_undo im)"
  by (simp_all add: touch_backing_def)

lemma upd_backing_frame [simp]:
  "im_state (upd_backing k f im) = (im_state im)\<lparr> st_backings := om_upd k f (st_backings (im_state im)) \<rparr>"
  "im_undo (upd_backing k f im) = im_undo im" "im_changes (upd_backing k f im) = im_changes im"
  "im_options (upd_backing k f im) = im_options im"
  "im_store_failed (upd_backing k f im) = im_store_failed im"
  by (simp_all add: upd_backing_def)

lemma put_backing_frame [simp]:
  "im_state (put_backing k v im) = (im_state im)\<lparr> st_backings := om_put k v (st_backings (im_state im)) \<rparr>"
  "im_undo (put_backing k v im) = im_undo im" "im_changes (put_backing k v im) = im_changes im"
  "im_options (put_backing k v im) = im_options im"
  "im_store_failed (put_backing k v im) = im_store_failed im"
  by (simp_all add: put_backing_def)

lemma touch_virtual_frame [simp]:
  "im_state (touch_virtual k im) = im_state im" "im_options (touch_virtual k im) = im_options im"
  "im_store_failed (touch_virtual k im) = im_store_failed im"
  "un_virtuals (im_undo (touch_virtual k im)) = touch_entity k (st_virtuals (im_state im)) (un_virtuals (im_undo im))"
  "un_tenants (im_undo (touch_virtual k im)) = un_tenants (im_undo im)"
  "un_physical (im_undo (touch_virtual k im)) = un_physical (im_undo im)"
  "un_backings (im_undo (touch_virtual k im)) = un_backings (im_undo im)"
  "un_leases (im_undo (touch_virtual k im)) = un_leases (im_undo im)"
  "un_assignments (im_undo (touch_virtual k im)) = un_assignments (im_undo im)"
  "un_migrations (im_undo (touch_virtual k im)) = un_migrations (im_undo im)"
  "un_evidence (im_undo (touch_virtual k im)) = un_evidence (im_undo im)"
  by (simp_all add: touch_virtual_def)

lemma upd_virtual_frame [simp]:
  "im_state (upd_virtual k f im) = (im_state im)\<lparr> st_virtuals := om_upd k f (st_virtuals (im_state im)) \<rparr>"
  "im_undo (upd_virtual k f im) = im_undo im" "im_changes (upd_virtual k f im) = im_changes im"
  "im_options (upd_virtual k f im) = im_options im"
  "im_store_failed (upd_virtual k f im) = im_store_failed im"
  by (simp_all add: upd_virtual_def)

lemma put_virtual_frame [simp]:
  "im_state (put_virtual k v im) = (im_state im)\<lparr> st_virtuals := om_put k v (st_virtuals (im_state im)) \<rparr>"
  "im_undo (put_virtual k v im) = im_undo im" "im_changes (put_virtual k v im) = im_changes im"
  "im_options (put_virtual k v im) = im_options im"
  "im_store_failed (put_virtual k v im) = im_store_failed im"
  by (simp_all add: put_virtual_def)

lemma touch_lease_frame [simp]:
  "im_state (touch_lease k im) = im_state im" "im_options (touch_lease k im) = im_options im"
  "im_store_failed (touch_lease k im) = im_store_failed im"
  "un_leases (im_undo (touch_lease k im)) = touch_entity k (st_leases (im_state im)) (un_leases (im_undo im))"
  "un_tenants (im_undo (touch_lease k im)) = un_tenants (im_undo im)"
  "un_physical (im_undo (touch_lease k im)) = un_physical (im_undo im)"
  "un_backings (im_undo (touch_lease k im)) = un_backings (im_undo im)"
  "un_virtuals (im_undo (touch_lease k im)) = un_virtuals (im_undo im)"
  "un_assignments (im_undo (touch_lease k im)) = un_assignments (im_undo im)"
  "un_migrations (im_undo (touch_lease k im)) = un_migrations (im_undo im)"
  "un_evidence (im_undo (touch_lease k im)) = un_evidence (im_undo im)"
  by (simp_all add: touch_lease_def)

lemma upd_lease_frame [simp]:
  "im_state (upd_lease k f im) = (im_state im)\<lparr> st_leases := om_upd k f (st_leases (im_state im)) \<rparr>"
  "im_undo (upd_lease k f im) = im_undo im" "im_changes (upd_lease k f im) = im_changes im"
  "im_options (upd_lease k f im) = im_options im"
  "im_store_failed (upd_lease k f im) = im_store_failed im"
  by (simp_all add: upd_lease_def)

lemma put_lease_frame [simp]:
  "im_state (put_lease k v im) = (im_state im)\<lparr> st_leases := om_put k v (st_leases (im_state im)) \<rparr>"
  "im_undo (put_lease k v im) = im_undo im" "im_changes (put_lease k v im) = im_changes im"
  "im_options (put_lease k v im) = im_options im"
  "im_store_failed (put_lease k v im) = im_store_failed im"
  by (simp_all add: put_lease_def)

lemma touch_assignment_frame [simp]:
  "im_state (touch_assignment k im) = im_state im" "im_options (touch_assignment k im) = im_options im"
  "im_store_failed (touch_assignment k im) = im_store_failed im"
  "un_assignments (im_undo (touch_assignment k im)) = touch_entity k (st_assignments (im_state im)) (un_assignments (im_undo im))"
  "un_tenants (im_undo (touch_assignment k im)) = un_tenants (im_undo im)"
  "un_physical (im_undo (touch_assignment k im)) = un_physical (im_undo im)"
  "un_backings (im_undo (touch_assignment k im)) = un_backings (im_undo im)"
  "un_virtuals (im_undo (touch_assignment k im)) = un_virtuals (im_undo im)"
  "un_leases (im_undo (touch_assignment k im)) = un_leases (im_undo im)"
  "un_migrations (im_undo (touch_assignment k im)) = un_migrations (im_undo im)"
  "un_evidence (im_undo (touch_assignment k im)) = un_evidence (im_undo im)"
  by (simp_all add: touch_assignment_def)

lemma upd_assignment_frame [simp]:
  "im_state (upd_assignment k f im) = (im_state im)\<lparr> st_assignments := om_upd k f (st_assignments (im_state im)) \<rparr>"
  "im_undo (upd_assignment k f im) = im_undo im" "im_changes (upd_assignment k f im) = im_changes im"
  "im_options (upd_assignment k f im) = im_options im"
  "im_store_failed (upd_assignment k f im) = im_store_failed im"
  by (simp_all add: upd_assignment_def)

lemma put_assignment_frame [simp]:
  "im_state (put_assignment k v im) = (im_state im)\<lparr> st_assignments := om_put k v (st_assignments (im_state im)) \<rparr>"
  "im_undo (put_assignment k v im) = im_undo im" "im_changes (put_assignment k v im) = im_changes im"
  "im_options (put_assignment k v im) = im_options im"
  "im_store_failed (put_assignment k v im) = im_store_failed im"
  by (simp_all add: put_assignment_def)

lemma touch_migration_frame [simp]:
  "im_state (touch_migration k im) = im_state im" "im_options (touch_migration k im) = im_options im"
  "im_store_failed (touch_migration k im) = im_store_failed im"
  "un_migrations (im_undo (touch_migration k im)) = touch_entity k (st_migrations (im_state im)) (un_migrations (im_undo im))"
  "un_tenants (im_undo (touch_migration k im)) = un_tenants (im_undo im)"
  "un_physical (im_undo (touch_migration k im)) = un_physical (im_undo im)"
  "un_backings (im_undo (touch_migration k im)) = un_backings (im_undo im)"
  "un_virtuals (im_undo (touch_migration k im)) = un_virtuals (im_undo im)"
  "un_leases (im_undo (touch_migration k im)) = un_leases (im_undo im)"
  "un_assignments (im_undo (touch_migration k im)) = un_assignments (im_undo im)"
  "un_evidence (im_undo (touch_migration k im)) = un_evidence (im_undo im)"
  by (simp_all add: touch_migration_def)

lemma upd_migration_frame [simp]:
  "im_state (upd_migration k f im) = (im_state im)\<lparr> st_migrations := om_upd k f (st_migrations (im_state im)) \<rparr>"
  "im_undo (upd_migration k f im) = im_undo im" "im_changes (upd_migration k f im) = im_changes im"
  "im_options (upd_migration k f im) = im_options im"
  "im_store_failed (upd_migration k f im) = im_store_failed im"
  by (simp_all add: upd_migration_def)

lemma put_migration_frame [simp]:
  "im_state (put_migration k v im) = (im_state im)\<lparr> st_migrations := om_put k v (st_migrations (im_state im)) \<rparr>"
  "im_undo (put_migration k v im) = im_undo im" "im_changes (put_migration k v im) = im_changes im"
  "im_options (put_migration k v im) = im_options im"
  "im_store_failed (put_migration k v im) = im_store_failed im"
  by (simp_all add: put_migration_def)

lemma touch_evidence_frame [simp]:
  "im_state (touch_evidence k im) = im_state im" "im_options (touch_evidence k im) = im_options im"
  "im_store_failed (touch_evidence k im) = im_store_failed im"
  "un_evidence (im_undo (touch_evidence k im)) = touch_entity k (st_evidence (im_state im)) (un_evidence (im_undo im))"
  "un_tenants (im_undo (touch_evidence k im)) = un_tenants (im_undo im)"
  "un_physical (im_undo (touch_evidence k im)) = un_physical (im_undo im)"
  "un_backings (im_undo (touch_evidence k im)) = un_backings (im_undo im)"
  "un_virtuals (im_undo (touch_evidence k im)) = un_virtuals (im_undo im)"
  "un_leases (im_undo (touch_evidence k im)) = un_leases (im_undo im)"
  "un_assignments (im_undo (touch_evidence k im)) = un_assignments (im_undo im)"
  "un_migrations (im_undo (touch_evidence k im)) = un_migrations (im_undo im)"
  by (simp_all add: touch_evidence_def)

lemma upd_evidence_frame [simp]:
  "im_state (upd_evidence k f im) = (im_state im)\<lparr> st_evidence := om_upd k f (st_evidence (im_state im)) \<rparr>"
  "im_undo (upd_evidence k f im) = im_undo im" "im_changes (upd_evidence k f im) = im_changes im"
  "im_options (upd_evidence k f im) = im_options im"
  "im_store_failed (upd_evidence k f im) = im_store_failed im"
  by (simp_all add: upd_evidence_def)

lemma put_evidence_frame [simp]:
  "im_state (put_evidence k v im) = (im_state im)\<lparr> st_evidence := om_put k v (st_evidence (im_state im)) \<rparr>"
  "im_undo (put_evidence k v im) = im_undo im" "im_changes (put_evidence k v im) = im_changes im"
  "im_options (put_evidence k v im) = im_options im"
  "im_store_failed (put_evidence k v im) = im_store_failed im"
  by (simp_all add: put_evidence_def)

section \<open>The undo log covers the operation\<close>

definition log_covers :: "('k::linorder, 'v) omap \<Rightarrow> ('k, 'v) omap \<Rightarrow> ('k, 'v) touch_log \<Rightarrow> bool" where
  "log_covers m0 m l \<longleftrightarrow> om_sorted m0 \<and> om_sorted m \<and>
    (\<forall>k. if k \<in> set (fst l) then om_find (snd l) k = om_find m0 k
         else om_find m k = om_find m0 k \<and> om_find (snd l) k = None) \<and>
    (\<forall>k. om_find m0 k \<noteq> None \<longrightarrow> om_find m k \<noteq> None)"

lemma log_covers_start: "om_sorted m \<Longrightarrow> log_covers m m ([], om_empty)"
  by (simp add: log_covers_def)

lemma log_covers_touch: "log_covers m0 m l \<Longrightarrow> log_covers m0 m (touch_entity k m l)"
  unfolding log_covers_def touch_entity_def
  by (auto simp: set_insort_key split: option.splits if_splits)

lemma log_covers_upd: "log_covers m0 m l \<Longrightarrow> k \<in> set (fst l) \<Longrightarrow> log_covers m0 (om_upd k f m) l"
  unfolding log_covers_def by auto

lemma log_covers_put: "log_covers m0 m l \<Longrightarrow> k \<in> set (fst l) \<Longrightarrow> log_covers m0 (om_put k v m) l"
  unfolding log_covers_def by auto

lemma log_covers_restore: "log_covers m0 m l \<Longrightarrow> restore_map l m = m0"
  unfolding restore_map_def log_covers_def by (rule om.restore_exact) (auto split: if_splits)

lemma log_covers_sorted: "log_covers m0 m l \<Longrightarrow> om_sorted m"
  by (simp add: log_covers_def)

lemma touched_after_touch [simp]: "set (fst (touch_entity k m l)) = insert k (set (fst l))"
  by (auto simp: touch_entity_def set_insort_key)

text \<open>The whole state: the header was saved, the logs are untouched so far, and each of the eight maps
  is covered by its part of the undo log.\<close>

definition header_saved :: "vstate \<Rightarrow> undo_log \<Rightarrow> bool" where
  "header_saved s0 u \<longleftrightarrow> un_header u \<and> un_next_sequence u = st_next_sequence s0 \<and> un_epoch u = st_epoch s0 \<and>
    un_policy u = st_policy s0 \<and> un_policy_generation u = st_policy_generation s0 \<and>
    un_accounting u = st_accounting s0 \<and> un_audit_size u = length (st_audit s0) \<and>
    un_decision_size u = length (st_decisions s0) \<and> un_request_size u = length (st_requests s0)"

definition logs_kept :: "vstate \<Rightarrow> vstate \<Rightarrow> bool" where
  "logs_kept s0 s \<longleftrightarrow> st_schema s = st_schema s0 \<and> st_audit s = st_audit s0 \<and>
    st_decisions s = st_decisions s0 \<and> st_requests s = st_requests s0"

text \<open>What was touched is in the change set.\<close>

definition noted :: "undo_log \<Rightarrow> change_set \<Rightarrow> bool" where
  "noted u c \<longleftrightarrow>
    set (fst (un_tenants u)) \<subseteq> set (ch_tenants c) \<and>
    set (fst (un_physical u)) \<subseteq> set (ch_physical c) \<and>
    set (fst (un_backings u)) \<subseteq> set (ch_backings c) \<and>
    set (fst (un_virtuals u)) \<subseteq> set (ch_virtuals c) \<and>
    set (fst (un_leases u)) \<subseteq> set (ch_leases c) \<and>
    set (fst (un_assignments u)) \<subseteq> set (ch_assignments c) \<and>
    set (fst (un_migrations u)) \<subseteq> set (ch_migrations c) \<and>
    set (fst (un_evidence u)) \<subseteq> set (ch_evidence c)"

lemma set_set_insert [simp]: "set (set_insert k ks) = insert k (set ks)"
  by (auto simp: set_insert_def set_insort_key)

lemma noted_frame [simp]:
  "noted u (c\<lparr> ch_header := h \<rparr>) = noted u c" "noted u (c\<lparr> ch_audit := a \<rparr>) = noted u c"
  "noted u (c\<lparr> ch_decisions := d \<rparr>) = noted u c" "noted u (c\<lparr> ch_requests := r \<rparr>) = noted u c"
  by (simp_all add: noted_def)

lemma noted_touch [simp]:
  "noted (im_undo im) (im_changes im) \<Longrightarrow> noted (im_undo (touch_tenant k_tenant im)) (im_changes (touch_tenant k_tenant im))"
  "noted (im_undo im) (im_changes im) \<Longrightarrow> noted (im_undo (touch_physical k_physical im)) (im_changes (touch_physical k_physical im))"
  "noted (im_undo im) (im_changes im) \<Longrightarrow> noted (im_undo (touch_backing k_backing im)) (im_changes (touch_backing k_backing im))"
  "noted (im_undo im) (im_changes im) \<Longrightarrow> noted (im_undo (touch_virtual k_virtual im)) (im_changes (touch_virtual k_virtual im))"
  "noted (im_undo im) (im_changes im) \<Longrightarrow> noted (im_undo (touch_lease k_lease im)) (im_changes (touch_lease k_lease im))"
  "noted (im_undo im) (im_changes im) \<Longrightarrow> noted (im_undo (touch_assignment k_assignment im)) (im_changes (touch_assignment k_assignment im))"
  "noted (im_undo im) (im_changes im) \<Longrightarrow> noted (im_undo (touch_migration k_migration im)) (im_changes (touch_migration k_migration im))"
  "noted (im_undo im) (im_changes im) \<Longrightarrow> noted (im_undo (touch_evidence k_evidence im)) (im_changes (touch_evidence k_evidence im))"
  by (auto simp: noted_def touch_tenant_def touch_physical_def touch_backing_def touch_virtual_def touch_lease_def touch_assignment_def touch_migration_def touch_evidence_def)

text \<open>No log entry is pending, or at most one of each kind.\<close>

definition quiet :: "change_set \<Rightarrow> bool" where
  "quiet c \<longleftrightarrow> ch_audit c = [] \<and> ch_decisions c = [] \<and> ch_requests c = []"

definition few_entries :: "change_set \<Rightarrow> bool" where
  "few_entries c \<longleftrightarrow> length (ch_audit c) \<le> 1 \<and> length (ch_decisions c) \<le> 1 \<and> length (ch_requests c) \<le> 1"

lemma quiet_frame [simp]:
  "quiet (im_changes (begin_op im))" "quiet (im_changes (touch_header im)) = quiet (im_changes im)"
  "quiet (im_changes (snd (next_id im))) = quiet (im_changes im)"
  "quiet (im_changes (touch_tenant k_tenant im)) = quiet (im_changes im)"
  "quiet (im_changes (touch_physical k_physical im)) = quiet (im_changes im)"
  "quiet (im_changes (touch_backing k_backing im)) = quiet (im_changes im)"
  "quiet (im_changes (touch_virtual k_virtual im)) = quiet (im_changes im)"
  "quiet (im_changes (touch_lease k_lease im)) = quiet (im_changes im)"
  "quiet (im_changes (touch_assignment k_assignment im)) = quiet (im_changes im)"
  "quiet (im_changes (touch_migration k_migration im)) = quiet (im_changes im)"
  "quiet (im_changes (touch_evidence k_evidence im)) = quiet (im_changes im)"
  by (simp_all add: quiet_def begin_op_def empty_changes_def touch_header_def next_id_def Let_def touch_tenant_def touch_physical_def touch_backing_def touch_virtual_def touch_lease_def touch_assignment_def touch_migration_def touch_evidence_def)

definition covers :: "vstate \<Rightarrow> impl \<Rightarrow> bool" where
  "covers s0 im \<longleftrightarrow> header_saved s0 (im_undo im) \<and> logs_kept s0 (im_state im) \<and> noted (im_undo im) (im_changes im) \<and>
    log_covers (st_tenants s0) (st_tenants (im_state im)) (un_tenants (im_undo im)) \<and>
    log_covers (st_physical s0) (st_physical (im_state im)) (un_physical (im_undo im)) \<and>
    log_covers (st_backings s0) (st_backings (im_state im)) (un_backings (im_undo im)) \<and>
    log_covers (st_virtuals s0) (st_virtuals (im_state im)) (un_virtuals (im_undo im)) \<and>
    log_covers (st_leases s0) (st_leases (im_state im)) (un_leases (im_undo im)) \<and>
    log_covers (st_assignments s0) (st_assignments (im_state im)) (un_assignments (im_undo im)) \<and>
    log_covers (st_migrations s0) (st_migrations (im_state im)) (un_migrations (im_undo im)) \<and>
    log_covers (st_evidence s0) (st_evidence (im_state im)) (un_evidence (im_undo im))"

lemma covers_begin_op: "maps_sorted (im_state im) \<Longrightarrow> covers (im_state im) (begin_op im)"
  by (simp add: covers_def header_saved_def logs_kept_def begin_op_def Let_def blank_undo_def maps_sorted_def
      log_covers_start noted_def)

lemma covers_sorted: "covers s0 im \<Longrightarrow> maps_sorted (im_state im)"
  by (simp add: covers_def maps_sorted_def log_covers_def)

lemma covers_touch_header [simp]: "covers s0 (touch_header im) = covers s0 im"
  by (simp add: covers_def touch_header_def)

lemma covers_upd_accounting [simp]: "covers s0 (upd_accounting f im) = covers s0 im"
  by (simp add: covers_def logs_kept_def)

lemma covers_next_id [simp]: "covers s0 (snd (next_id im)) = covers s0 im"
  by (simp add: covers_def logs_kept_def next_id_def Let_def touch_header_def)

lemma header_saved_touch_tenant [simp]: "header_saved s0 (im_undo (touch_tenant k im)) = header_saved s0 (im_undo im)"
  by (simp add: header_saved_def touch_tenant_def)

lemma covers_touch_tenant [simp]: "covers s0 im \<Longrightarrow> covers s0 (touch_tenant k im)"
  unfolding covers_def by (simp add: log_covers_touch)

lemma covers_upd_tenant [simp]:
  "covers s0 im \<Longrightarrow> k \<in> set (fst (un_tenants (im_undo im))) \<Longrightarrow> covers s0 (upd_tenant k f im)"
  unfolding covers_def by (simp add: log_covers_upd logs_kept_def)

lemma covers_put_tenant [simp]:
  "covers s0 im \<Longrightarrow> k \<in> set (fst (un_tenants (im_undo im))) \<Longrightarrow> covers s0 (put_tenant k v im)"
  unfolding covers_def by (simp add: log_covers_put logs_kept_def)

lemma header_saved_touch_physical [simp]: "header_saved s0 (im_undo (touch_physical k im)) = header_saved s0 (im_undo im)"
  by (simp add: header_saved_def touch_physical_def)

lemma covers_touch_physical [simp]: "covers s0 im \<Longrightarrow> covers s0 (touch_physical k im)"
  unfolding covers_def by (simp add: log_covers_touch)

lemma covers_upd_physical [simp]:
  "covers s0 im \<Longrightarrow> k \<in> set (fst (un_physical (im_undo im))) \<Longrightarrow> covers s0 (upd_physical k f im)"
  unfolding covers_def by (simp add: log_covers_upd logs_kept_def)

lemma covers_put_physical [simp]:
  "covers s0 im \<Longrightarrow> k \<in> set (fst (un_physical (im_undo im))) \<Longrightarrow> covers s0 (put_physical k v im)"
  unfolding covers_def by (simp add: log_covers_put logs_kept_def)

lemma header_saved_touch_backing [simp]: "header_saved s0 (im_undo (touch_backing k im)) = header_saved s0 (im_undo im)"
  by (simp add: header_saved_def touch_backing_def)

lemma covers_touch_backing [simp]: "covers s0 im \<Longrightarrow> covers s0 (touch_backing k im)"
  unfolding covers_def by (simp add: log_covers_touch)

lemma covers_upd_backing [simp]:
  "covers s0 im \<Longrightarrow> k \<in> set (fst (un_backings (im_undo im))) \<Longrightarrow> covers s0 (upd_backing k f im)"
  unfolding covers_def by (simp add: log_covers_upd logs_kept_def)

lemma covers_put_backing [simp]:
  "covers s0 im \<Longrightarrow> k \<in> set (fst (un_backings (im_undo im))) \<Longrightarrow> covers s0 (put_backing k v im)"
  unfolding covers_def by (simp add: log_covers_put logs_kept_def)

lemma header_saved_touch_virtual [simp]: "header_saved s0 (im_undo (touch_virtual k im)) = header_saved s0 (im_undo im)"
  by (simp add: header_saved_def touch_virtual_def)

lemma covers_touch_virtual [simp]: "covers s0 im \<Longrightarrow> covers s0 (touch_virtual k im)"
  unfolding covers_def by (simp add: log_covers_touch)

lemma covers_upd_virtual [simp]:
  "covers s0 im \<Longrightarrow> k \<in> set (fst (un_virtuals (im_undo im))) \<Longrightarrow> covers s0 (upd_virtual k f im)"
  unfolding covers_def by (simp add: log_covers_upd logs_kept_def)

lemma covers_put_virtual [simp]:
  "covers s0 im \<Longrightarrow> k \<in> set (fst (un_virtuals (im_undo im))) \<Longrightarrow> covers s0 (put_virtual k v im)"
  unfolding covers_def by (simp add: log_covers_put logs_kept_def)

lemma header_saved_touch_lease [simp]: "header_saved s0 (im_undo (touch_lease k im)) = header_saved s0 (im_undo im)"
  by (simp add: header_saved_def touch_lease_def)

lemma covers_touch_lease [simp]: "covers s0 im \<Longrightarrow> covers s0 (touch_lease k im)"
  unfolding covers_def by (simp add: log_covers_touch)

lemma covers_upd_lease [simp]:
  "covers s0 im \<Longrightarrow> k \<in> set (fst (un_leases (im_undo im))) \<Longrightarrow> covers s0 (upd_lease k f im)"
  unfolding covers_def by (simp add: log_covers_upd logs_kept_def)

lemma covers_put_lease [simp]:
  "covers s0 im \<Longrightarrow> k \<in> set (fst (un_leases (im_undo im))) \<Longrightarrow> covers s0 (put_lease k v im)"
  unfolding covers_def by (simp add: log_covers_put logs_kept_def)

lemma header_saved_touch_assignment [simp]: "header_saved s0 (im_undo (touch_assignment k im)) = header_saved s0 (im_undo im)"
  by (simp add: header_saved_def touch_assignment_def)

lemma covers_touch_assignment [simp]: "covers s0 im \<Longrightarrow> covers s0 (touch_assignment k im)"
  unfolding covers_def by (simp add: log_covers_touch)

lemma covers_upd_assignment [simp]:
  "covers s0 im \<Longrightarrow> k \<in> set (fst (un_assignments (im_undo im))) \<Longrightarrow> covers s0 (upd_assignment k f im)"
  unfolding covers_def by (simp add: log_covers_upd logs_kept_def)

lemma covers_put_assignment [simp]:
  "covers s0 im \<Longrightarrow> k \<in> set (fst (un_assignments (im_undo im))) \<Longrightarrow> covers s0 (put_assignment k v im)"
  unfolding covers_def by (simp add: log_covers_put logs_kept_def)

lemma header_saved_touch_migration [simp]: "header_saved s0 (im_undo (touch_migration k im)) = header_saved s0 (im_undo im)"
  by (simp add: header_saved_def touch_migration_def)

lemma covers_touch_migration [simp]: "covers s0 im \<Longrightarrow> covers s0 (touch_migration k im)"
  unfolding covers_def by (simp add: log_covers_touch)

lemma covers_upd_migration [simp]:
  "covers s0 im \<Longrightarrow> k \<in> set (fst (un_migrations (im_undo im))) \<Longrightarrow> covers s0 (upd_migration k f im)"
  unfolding covers_def by (simp add: log_covers_upd logs_kept_def)

lemma covers_put_migration [simp]:
  "covers s0 im \<Longrightarrow> k \<in> set (fst (un_migrations (im_undo im))) \<Longrightarrow> covers s0 (put_migration k v im)"
  unfolding covers_def by (simp add: log_covers_put logs_kept_def)

lemma header_saved_touch_evidence [simp]: "header_saved s0 (im_undo (touch_evidence k im)) = header_saved s0 (im_undo im)"
  by (simp add: header_saved_def touch_evidence_def)

lemma covers_touch_evidence [simp]: "covers s0 im \<Longrightarrow> covers s0 (touch_evidence k im)"
  unfolding covers_def by (simp add: log_covers_touch)

lemma covers_upd_evidence [simp]:
  "covers s0 im \<Longrightarrow> k \<in> set (fst (un_evidence (im_undo im))) \<Longrightarrow> covers s0 (upd_evidence k f im)"
  unfolding covers_def by (simp add: log_covers_upd logs_kept_def)

lemma covers_put_evidence [simp]:
  "covers s0 im \<Longrightarrow> k \<in> set (fst (un_evidence (im_undo im))) \<Longrightarrow> covers s0 (put_evidence k v im)"
  unfolding covers_def by (simp add: log_covers_put logs_kept_def)

section \<open>Rollback\<close>

lemma resize_prefix: "resize (length xs) (xs @ ys) = xs"
  by (simp add: resize_def)

lemma append_bounded_room: "length xs + length ys \<le> cap \<Longrightarrow> append_bounded cap xs ys = xs @ ys"
  by (simp add: append_bounded_def)

text \<open>Room for the entries of the pending operation in the bounded logs.\<close>

definition log_room :: "vstate \<Rightarrow> change_set \<Rightarrow> bool" where
  "log_room s c \<longleftrightarrow>
    length (st_audit s) + length (ch_audit c) \<le> kAuditCapacity \<and>
    length (st_decisions s) + length (ch_decisions c) \<le> kDecisionCapacity \<and>
    length (st_requests s) + length (ch_requests c) \<le> kRequestWindowCapacity"

lemma rollback_restores:
  assumes "covers s0 im" and "log_room s0 (im_changes im)"
  shows "rollback_state (im_undo im) (im_state (commit_logs im)) = s0"
proof -
  note c = assms(1) [unfolded covers_def]
  have "restore_map (un_tenants (im_undo im)) (st_tenants (im_state im)) = st_tenants s0 \<and>
    restore_map (un_physical (im_undo im)) (st_physical (im_state im)) = st_physical s0 \<and>
    restore_map (un_backings (im_undo im)) (st_backings (im_state im)) = st_backings s0 \<and>
    restore_map (un_virtuals (im_undo im)) (st_virtuals (im_state im)) = st_virtuals s0 \<and>
    restore_map (un_leases (im_undo im)) (st_leases (im_state im)) = st_leases s0 \<and>
    restore_map (un_assignments (im_undo im)) (st_assignments (im_state im)) = st_assignments s0 \<and>
    restore_map (un_migrations (im_undo im)) (st_migrations (im_state im)) = st_migrations s0 \<and>
    restore_map (un_evidence (im_undo im)) (st_evidence (im_state im)) = st_evidence s0"
    using c by (simp add: log_covers_restore)
  then show ?thesis
    using c assms(2)
    by (simp add: rollback_state_def rollback_header_def commit_logs_def header_saved_def logs_kept_def
        log_room_def append_bounded_room resize_prefix Let_def)
qed

lemma rollback_restores_plain: "covers s0 im \<Longrightarrow> rollback_state (im_undo im) (im_state im) = s0"
  by (simp add: covers_def log_covers_restore rollback_state_def rollback_header_def header_saved_def
      logs_kept_def resize_def Let_def)

text \<open>The entities and the policy: everything an operation is about, as opposed to the counters and the
  bounded logs that record it.\<close>

definition same_entities :: "vstate \<Rightarrow> vstate \<Rightarrow> bool" where
  "same_entities s t \<longleftrightarrow> st_schema t = st_schema s \<and> st_epoch t = st_epoch s \<and> st_policy t = st_policy s \<and>
    st_policy_generation t = st_policy_generation s \<and> st_tenants t = st_tenants s \<and>
    st_physical t = st_physical s \<and>
    st_backings t = st_backings s \<and>
    st_virtuals t = st_virtuals s \<and>
    st_leases t = st_leases s \<and>
    st_assignments t = st_assignments s \<and>
    st_migrations t = st_migrations s \<and>
    st_evidence t = st_evidence s"

lemma same_entities_refl [simp]: "same_entities s s"
  by (simp add: same_entities_def)

lemma same_entities_trans: "same_entities s t \<Longrightarrow> same_entities t u \<Longrightarrow> same_entities s u"
  by (simp add: same_entities_def)

lemma same_entities_sym: "same_entities s t \<Longrightarrow> same_entities t s"
  by (simp add: same_entities_def)

lemma rollback_entities: "covers s0 im \<Longrightarrow> same_entities s0 (rollback_state (im_undo im) (im_state (commit_logs im)))"
  by (simp add: covers_def log_covers_restore rollback_state_def rollback_header_def commit_logs_def
      header_saved_def logs_kept_def same_entities_def Let_def)

lemma commit_logs_entities [simp]: "same_entities (im_state im) (im_state (commit_logs im))"
  by (simp add: commit_logs_def same_entities_def)

lemma commit_frame [simp]:
  "im_undo (commit_logs im) = im_undo im" "im_changes (commit_logs im) = im_changes im"
  "im_options (commit_logs im) = im_options im" "im_store_failed (commit_logs im) = im_store_failed im"
  by (simp_all add: commit_logs_def)

lemma commit_entities:
  "covers s0 im \<Longrightarrow>
   same_entities (if fst (commit e im) = SC_Ok then im_state im else s0) (im_state (snd (commit e im)))"
  using rollback_entities [of s0 im] by (simp add: commit_def Let_def rollback_def)

lemma commit_failure:
  assumes "covers s0 im" and "log_room s0 (im_changes im)" and "store_answer e (commit_logs im) \<noteq> SC_Ok"
  shows "fst (commit e im) = store_answer e (commit_logs im) \<and> im_state (snd (commit e im)) = s0 \<and>
    im_store_failed (snd (commit e im))"
  using assms rollback_restores [OF assms(1,2)]
  by (simp add: commit_def Let_def rollback_def)

lemma commit_success:
  "store_answer e (commit_logs im) = SC_Ok \<Longrightarrow>
   fst (commit e im) = SC_Ok \<and> im_state (snd (commit e im)) = im_state (commit_logs im) \<and>
   im_store_failed (snd (commit e im)) = im_store_failed im"
  by (simp add: commit_def Let_def)

section \<open>Finalising\<close>

lemma record_decision_state [simp]:
  "im_state (record_decision e c outcome kind im) =
    (im_state im)\<lparr> st_next_sequence := st_next_sequence (im_state im) + 2 \<rparr>"
  "im_undo (record_decision e c outcome kind im) = im_undo im"
  "im_options (record_decision e c outcome kind im) = im_options im"
  "im_store_failed (record_decision e c outcome kind im) = im_store_failed im"
  by (simp_all add: record_decision_def next_id_def Let_def)

lemma push_request_state [simp]:
  "im_state (push_request e c status im) = im_state im" "im_undo (push_request e c status im) = im_undo im"
  "im_options (push_request e c status im) = im_options im"
  "im_store_failed (push_request e c status im) = im_store_failed im"
  by (simp_all add: push_request_def)

lemma account_refusal_entities [simp]:
  "same_entities (im_state im) (im_state (account_refusal code im))" "im_undo (account_refusal code im) = im_undo im"
  "im_options (account_refusal code im) = im_options im"
  "im_store_failed (account_refusal code im) = im_store_failed im"
  by (simp_all add: account_refusal_def Let_def same_entities_def)

lemma covers_record_decision [simp]: "covers s0 (record_decision e c outcome kind im) = covers s0 im"
  by (simp add: covers_def logs_kept_def record_decision_def next_id_def touch_header_def Let_def)

lemma covers_push_request [simp]: "covers s0 (push_request e c status im) = covers s0 im"
  by (simp add: covers_def push_request_def)

lemma covers_account_refusal [simp]: "covers s0 (account_refusal code im) = covers s0 im"
  by (simp add: account_refusal_def Let_def)

text \<open>The operation's effects with the decision recorded, just before the commit.\<close>

definition finalized :: "env \<Rightarrow> op_context \<Rightarrow> status_code \<Rightarrow> audit_kind \<Rightarrow> impl \<Rightarrow> impl" where
  "finalized e c status kind im =
    push_request e c status (record_decision e c status kind
      (if status \<noteq> SC_Ok then account_refusal status im else im))"

lemma finalize_commit:
  "finalize e c status kind im =
    (if fst (commit e (finalized e c status kind im)) \<noteq> SC_Ok
     then fst (commit e (finalized e c status kind im)) else status,
     snd (commit e (finalized e c status kind im)))"
  by (simp add: finalize_def finalized_def Let_def split_beta)

lemma covers_finalized [simp]: "covers s0 (finalized e c status kind im) = covers s0 im"
  by (simp add: finalized_def)

lemma finalized_entities: "same_entities (im_state im) (im_state (finalized e c status kind im))"
proof -
  have "same_entities (im_state (account_refusal status im)) (im_state (finalized e c status kind im))"
    if "status \<noteq> SC_Ok" using that by (simp add: finalized_def same_entities_def)
  moreover have "same_entities (im_state im) (im_state (finalized e c status kind im))" if "status = SC_Ok"
    using that by (simp add: finalized_def same_entities_def)
  ultimately show ?thesis using same_entities_trans account_refusal_entities(1) by blast
qed

text \<open>What an operation leaves behind: the entities it computed when it succeeded, the entities it
  started from when the durable write failed.\<close>

lemma finalize_entities:
  assumes "covers s0 im"
  shows "same_entities (if fst (commit e (finalized e c status kind im)) = SC_Ok then im_state im else s0)
    (im_state (snd (finalize e c status kind im)))"
proof -
  have "covers s0 (finalized e c status kind im)" using assms by simp
  from commit_entities [OF this, of e] finalized_entities [of im e c status kind]
  show ?thesis by (auto simp: finalize_commit dest: same_entities_trans)
qed

lemma refuse_entities:
  assumes "covers s0 im" and "same_entities s0 (im_state im)"
  shows "same_entities s0 (im_state (snd (refuse e c status im)))"
  using finalize_entities [OF assms(1), of e c status AK_AuthorityRefusal] assms(2)
  by (auto simp: refuse_def split_beta dest: same_entities_trans split: if_splits)

lemma refuse_fails: "status \<noteq> SC_Ok \<Longrightarrow> \<exists>code. code \<noteq> SC_Ok \<and> fst (refuse e c status im) = Inl code"
  by (auto simp: refuse_def split_beta finalize_commit)

lemma accept_result:
  "fst (accept e c kind v im) =
    (if fst (commit e (finalized e c SC_Ok kind im)) = SC_Ok then Inr v
     else Inl (fst (commit e (finalized e c SC_Ok kind im))))"
  by (simp add: accept_def split_beta finalize_commit)

lemma accept_state: "snd (accept e c kind v im) = snd (finalize e c SC_Ok kind im)"
  by (simp add: accept_def split_beta)

lemma accept_success:
  assumes "covers s0 im" and "fst (accept e c kind v im) = Inr w"
  shows "w = v \<and> same_entities (im_state im) (im_state (snd (accept e c kind v im)))"
  using finalize_entities [OF assms(1), of e c SC_Ok kind] assms(2)
  by (simp add: accept_result accept_state split: if_splits)

lemma accept_failure:
  assumes "covers s0 im" and "fst (accept e c kind v im) = Inl code"
  shows "same_entities s0 (im_state (snd (accept e c kind v im)))"
  using finalize_entities [OF assms(1), of e c SC_Ok kind] assms(2)
  by (simp add: accept_result accept_state split: if_splits)

section \<open>What is handed to the store\<close>

text \<open>The change set names every entity that differs between two states, and no entity disappears.\<close>

definition table_advances :: "('k::linorder, 'v) omap \<Rightarrow> ('k, 'v) omap \<Rightarrow> 'k list \<Rightarrow> bool" where
  "table_advances m0 m ids \<longleftrightarrow> om_sorted m0 \<and> om_sorted m \<and>
    (\<forall>k. om_find m k = om_find m0 k \<or> k \<in> set ids \<and> om_find m k \<noteq> None)"

definition changes_advance :: "vstate \<Rightarrow> change_set \<Rightarrow> vstate \<Rightarrow> bool" where
  "changes_advance s0 c s \<longleftrightarrow> ch_header c \<and> few_entries c \<and>
    table_advances (st_tenants s0) (st_tenants s) (ch_tenants c) \<and>
    table_advances (st_physical s0) (st_physical s) (ch_physical c) \<and>
    table_advances (st_backings s0) (st_backings s) (ch_backings c) \<and>
    table_advances (st_virtuals s0) (st_virtuals s) (ch_virtuals c) \<and>
    table_advances (st_leases s0) (st_leases s) (ch_leases c) \<and>
    table_advances (st_assignments s0) (st_assignments s) (ch_assignments c) \<and>
    table_advances (st_migrations s0) (st_migrations s) (ch_migrations c) \<and>
    table_advances (st_evidence s0) (st_evidence s) (ch_evidence c) \<and>
    st_audit s = append_bounded kAuditCapacity (st_audit s0) (ch_audit c) \<and>
    st_decisions s = append_bounded kDecisionCapacity (st_decisions s0) (ch_decisions c) \<and>
    st_requests s = append_bounded kRequestWindowCapacity (st_requests s0) (ch_requests c)"

lemma log_covers_advances: "log_covers m0 m l \<Longrightarrow> set (fst l) \<subseteq> set ids \<Longrightarrow> table_advances m0 m ids"
  unfolding log_covers_def table_advances_def by (metis subsetD)

lemma covers_advance:
  assumes "covers s0 im" and "ch_header (im_changes im)" and "few_entries (im_changes im)"
  shows "changes_advance s0 (im_changes im) (im_state (commit_logs im))"
  using assms by (auto simp: covers_def noted_def changes_advance_def commit_logs_def logs_kept_def elim: log_covers_advances)

text \<open>An operation is written through: the store failed, nothing changed, or the store accepted a change set that leads
  from the old state to the new one.\<close>

definition written_through :: "env \<Rightarrow> vstate \<Rightarrow> impl \<Rightarrow> bool" where
  "written_through e s0 im \<longleftrightarrow> im_store_failed im \<or> im_state im = s0 \<or>
    (\<exists>c. changes_advance s0 c (im_state im) \<and>
      (\<forall>store. env_store e = Some store \<longrightarrow> opt_persist (im_options im) \<longrightarrow> ds_apply store (im_state im) c = SC_Ok))"

lemma finalized_header: "ch_header (im_changes (finalized e c status kind im))"
  by (simp add: finalized_def push_request_def record_decision_def touch_header_def Let_def split_beta)

lemma finalized_few: "quiet (im_changes im) \<Longrightarrow> few_entries (im_changes (finalized e c status kind im))"
  by (simp add: quiet_def few_entries_def finalized_def push_request_def record_decision_def touch_header_def next_id_def
      account_refusal_def Let_def)

lemma header_not_empty: "ch_header c \<Longrightarrow> \<not> changes_empty c"
  by (simp add: changes_empty_def change_count_def)

lemma commit_written_through:
  assumes "changes_advance s0 (im_changes im) (im_state (commit_logs im))"
  shows "written_through e s0 (snd (commit e im))"
proof (cases "store_answer e (commit_logs im) = SC_Ok")
  case True
  moreover have "\<not> changes_empty (im_changes im)"
    using assms by (simp add: changes_advance_def header_not_empty)
  ultimately show ?thesis using assms unfolding written_through_def
    by (intro disjI2 exI [of _ "im_changes im"]) (auto simp: commit_def Let_def store_answer_def)
qed (simp add: written_through_def commit_def Let_def rollback_def)

lemma table_advances_trans:
  "table_advances m0 m ids \<Longrightarrow> om_sorted m1 \<Longrightarrow>
   (\<forall>k. om_find m0 k = om_find m1 k \<or> k \<in> set ids \<and> om_find m0 k \<noteq> None) \<Longrightarrow> table_advances m1 m ids"
  unfolding table_advances_def by metis

lemma finalize_written_through: "covers s0 im \<Longrightarrow> quiet (im_changes im) \<Longrightarrow> written_through e s0 (snd (finalize e c status kind im))"
  by (simp add: finalize_commit commit_written_through covers_advance finalized_header finalized_few)

text \<open>The store that keeps everything: no store at all, or one that accepts every change set.\<close>

definition store_accepts :: "env \<Rightarrow> bool" where
  "store_accepts e \<longleftrightarrow> (\<forall>store s c. env_store e = Some store \<longrightarrow> ds_apply store s c = SC_Ok)"

lemma store_accepts_commit: "store_accepts e \<Longrightarrow> fst (commit e im) = SC_Ok"
  by (simp add: commit_def Let_def store_answer_def store_accepts_def split: option.splits)

end
