(* ===== verification/AV_Authority.thy ===== *)
theory AV_Authority
  imports AV_Engine
begin

text \<open>
  Authority checks and the helpers the operations share (\<open>src/runtime.cpp\<close>, \<open>Impl::guard_store\<close> to
  \<open>Impl::recompute_derived_accounting\<close>).

  A C++ reference to a record in a map is the key of that record; reading through the reference is a
  lookup at that moment. \<open>the_virtual\<close> and its relatives give a blank record for a key that is absent,
  which the callers rule out before they use the reference.

  Proved: exactly which authority the checks let pass, that every helper keeps the undo log
  complete, and what \<open>fence_leases\<close> and \<open>transition\<close> do to the state.
\<close>

section \<open>Checks\<close>

definition guard_store :: "impl \<Rightarrow> status_code" where
  "guard_store im = (if im_store_failed im then SC_IoFailure else SC_Ok)"

definition check_epoch :: "authority \<Rightarrow> impl \<Rightarrow> status_code" where
  "check_epoch auth im =
    (case auth_epoch auth of None \<Rightarrow> SC_InvalidArgument
     | Some e \<Rightarrow> if e \<noteq> st_epoch (im_state im) then SC_StaleEpoch else SC_Ok)"

definition check_policy :: "authority \<Rightarrow> impl \<Rightarrow> status_code" where
  "check_policy auth im =
    (case auth_policy_generation auth of None \<Rightarrow> SC_Ok
     | Some g \<Rightarrow> if g \<noteq> st_policy_generation (im_state im) then SC_StalePolicy else SC_Ok)"

definition check_request :: "authority \<Rightarrow> impl \<Rightarrow> status_code" where
  "check_request auth im =
    (case auth_request auth of None \<Rightarrow> SC_Ok
     | Some r \<Rightarrow>
         if list_ex (\<lambda>o'. ro_request o' = r \<and> ro_session o' = option_or 0 (auth_session auth)) (st_requests (im_state im))
         then SC_DuplicateRequest else SC_Ok)"

definition resolve_tenant :: "authority \<Rightarrow> impl \<Rightarrow> tenant_record result" where
  "resolve_tenant auth im =
    (case auth_tenant auth of None \<Rightarrow> Inl SC_InvalidArgument
     | Some i \<Rightarrow>
       (case om_find (st_tenants (im_state im)) i of None \<Rightarrow> Inl SC_NotFound
        | Some t \<Rightarrow>
          (case auth_tenant_generation auth of None \<Rightarrow> Inl SC_InvalidArgument
           | Some g \<Rightarrow> if g \<noteq> tn_generation t then Inl SC_StaleTenant else Inr t)))"

definition resolve_virtual :: "authority \<Rightarrow> impl \<Rightarrow> virtual_record result" where
  "resolve_virtual auth im =
    (case auth_virtual_id auth of None \<Rightarrow> Inl SC_InvalidArgument
     | Some i \<Rightarrow>
       (case om_find (st_virtuals (im_state im)) i of None \<Rightarrow> Inl SC_NotFound
        | Some r \<Rightarrow>
          (case auth_virtual_generation auth of None \<Rightarrow> Inl SC_InvalidArgument
           | Some g \<Rightarrow> if g \<noteq> va_generation r then Inl SC_StaleVirtualGeneration else Inr r)))"

definition require_mutable :: "virtual_record \<Rightarrow> status_code" where
  "require_mutable r =
    (if va_state r = LC_Retired then SC_VirtualRetired
     else if va_state r = LC_Fenced then SC_VirtualFenced
     else SC_Ok)"

definition require_owner :: "virtual_record \<Rightarrow> tenant_record \<Rightarrow> status_code" where
  "require_owner r t =
    (if va_owner r \<noteq> tn_id t then SC_NotAuthorized
     else if va_owner_generation r \<noteq> tn_generation t then SC_StaleTenant
     else if tn_fenced t then SC_TenantFenced
     else SC_Ok)"

text \<open>The checks an owner's operation opens with: preliminary checks, then tenant, then virtual
  accelerator, then ownership.\<close>

definition resolve_owned :: "status_code \<Rightarrow> authority \<Rightarrow> impl \<Rightarrow> (tenant_record \<times> virtual_record) result" where
  "resolve_owned pre auth im =
    (if pre \<noteq> SC_Ok then Inl pre
     else case resolve_tenant auth im of Inl e \<Rightarrow> Inl e
       | Inr t \<Rightarrow>
         (case resolve_virtual auth im of Inl e \<Rightarrow> Inl e
          | Inr r \<Rightarrow>
             if require_owner r t \<noteq> SC_Ok then Inl (require_owner r t) else Inr (t, r)))"

section \<open>References into the maps\<close>

definition the_virtual :: "impl \<Rightarrow> va_id \<Rightarrow> virtual_record" where
  "the_virtual im k = option_or blank_virtual (om_find (st_virtuals (im_state im)) k)"

definition the_tenant :: "impl \<Rightarrow> tn_id \<Rightarrow> tenant_record" where
  "the_tenant im k = option_or blank_tenant (om_find (st_tenants (im_state im)) k)"

definition the_lease :: "impl \<Rightarrow> ls_id \<Rightarrow> lease_record" where
  "the_lease im k = option_or blank_lease (om_find (st_leases (im_state im)) k)"

definition the_backing :: "impl \<Rightarrow> bk_id \<Rightarrow> backing_record" where
  "the_backing im k = option_or blank_backing (om_find (st_backings (im_state im)) k)"

definition physical_of :: "impl \<Rightarrow> backing_record \<Rightarrow> physical_record option" where
  "physical_of im b = om_find (st_physical (im_state im)) (bk_physical b)"

section \<open>Leases\<close>

definition sat_sub :: "'a::len word \<Rightarrow> 'a word \<Rightarrow> 'a word" where
  "sat_sub a b = (if a \<ge> b then a - b else 0)"

definition end_lease :: "lease_state \<Rightarrow> micros \<Rightarrow> string \<Rightarrow> lease_record \<Rightarrow> lease_record" where
  "end_lease st now reason l = l\<lparr> ls_state := st, ls_revoked_at := now, ls_reason := reason \<rparr>"

definition fence_lease :: "string \<Rightarrow> micros \<Rightarrow> ls_id \<Rightarrow> u32 \<times> impl \<Rightarrow> u32 \<times> impl" where
  "fence_lease reason now k acc =
    (case om_find (st_leases (im_state (snd acc))) k of None \<Rightarrow> acc
     | Some l \<Rightarrow>
         if \<not> lease_state_is_live (ls_state l) then acc
         else (fst acc + 1, upd_lease k (end_lease Lease_Fenced now reason) (touch_lease k (snd acc))))"

definition release_tenant_attachments :: "tn_id \<Rightarrow> u32 \<Rightarrow> micros \<Rightarrow> impl \<Rightarrow> impl" where
  "release_tenant_attachments owner live now im =
    (case om_find (st_tenants (im_state im)) owner of None \<Rightarrow> im
     | Some _ \<Rightarrow> upd_tenant owner
         (\<lambda>t. t\<lparr> tn_active_attachments := sat_sub (tn_active_attachments t) live, tn_updated_at := now \<rparr>)
         (touch_tenant owner im))"

definition fence_leases :: "va_id \<Rightarrow> string \<Rightarrow> micros \<Rightarrow> impl \<Rightarrow> u32 \<times> impl" where
  "fence_leases k reason now im =
    (let r = the_virtual im k; (live, im1) = fold (fence_lease reason now) (va_leases r) (0, im) in
     if live = 0 then (0, im1)
     else (live, run_steps
       [touch_virtual (va_id r),
        upd_virtual k (\<lambda>r. r\<lparr> va_active_attachments := 0 \<rparr>),
        release_tenant_attachments (va_owner r) live now,
        upd_accounting (\<lambda>a. a\<lparr> ac_leases_fenced := ac_leases_fenced a + ucast live,
          ac_attachments_active := sat_sub (ac_attachments_active a) (ucast live) \<rparr>),
        touch_header] im1))"

section \<open>Lifecycle transitions\<close>

text \<open>\<open>record.state = target; record.state_generation = next; record.state_reason = reason;
  record.generation = next; record.updated_at = now\<close>: the assignment block that every state change
  of the runtime performs.\<close>

definition enter_state :: "lifecycle \<Rightarrow> string \<Rightarrow> micros \<Rightarrow> virtual_record \<Rightarrow> virtual_record" where
  "enter_state target reason now r = r
    \<lparr> va_state := target, va_state_generation := gen_next (va_state_generation r), va_state_reason := reason,
      va_generation := gen_next (va_generation r), va_updated_at := now \<rparr>"

definition carry_lease :: "va_gen \<Rightarrow> ls_id \<Rightarrow> impl \<Rightarrow> impl" where
  "carry_lease g k im =
    (case om_find (st_leases (im_state im)) k of None \<Rightarrow> im
     | Some l \<Rightarrow>
         if \<not> lease_state_is_live (ls_state l) then im
         else upd_lease k (\<lambda>l. l\<lparr> ls_virtual_generation := g \<rparr>) (touch_lease k im))"

definition transition :: "env \<Rightarrow> va_id \<Rightarrow> lifecycle \<Rightarrow> string \<Rightarrow> impl \<Rightarrow> status_code \<times> impl" where
  "transition e k target reason im =
    (let r = the_virtual im k; legal = check_transition (va_state r) target in
     if legal \<noteq> SC_Ok then (legal, im)
     else
       let im1 = run_steps [touch_virtual (va_id r), upd_virtual k (enter_state target reason (env_now e))] im
       in (SC_Ok,
         if lifecycle_allows_leases (va_state r) \<and> lifecycle_allows_leases target
         then fold (carry_lease (va_generation (the_virtual im1 k))) (va_leases r) im1
         else im1))"

section \<open>Projection and accounting\<close>

definition projection_input_for :: "virtual_record \<Rightarrow> u64 \<Rightarrow> impl \<Rightarrow> projection_input" where
  "projection_input_for r n im =
    (let backing = om_find (st_backings (im_state im)) (va_backing r) in
     \<lparr> pi_contract = va_contract r, pi_backing = backing,
       pi_physical = (case backing of None \<Rightarrow> None | Some b \<Rightarrow> physical_of im b),
       pi_policy = st_policy (im_state im), pi_identity = n,
       pi_generation = (if gen_valid (cp_generation (va_projection r))
         then gen_next (cp_generation (va_projection r)) else gen_initial) \<rparr>)"

definition rebuild_projection :: "virtual_record \<Rightarrow> impl \<Rightarrow> virtual_record \<times> impl" where
  "rebuild_projection r im =
    (let (n, im1) = next_id im; p = build_projection (projection_input_for r n im1) in
     (r\<lparr> va_projection := seal (p\<lparr> cp_backing_generation := va_backing_generation r,
        cp_physical_generation := va_physical_generation r \<rparr>) \<rparr>, im1))"

definition rebuild_projection_at :: "va_id \<Rightarrow> impl \<Rightarrow> impl" where
  "rebuild_projection_at k im =
    (let (r', im1) = rebuild_projection (the_virtual im k) im in upd_virtual k (\<lambda>_. r') im1)"

definition counts_active :: "virtual_record \<Rightarrow> bool" where
  "counts_active r \<longleftrightarrow> va_state r \<noteq> LC_Retired \<and> va_state r \<noteq> LC_Suspended \<and> va_state r \<noteq> LC_Fenced"

definition derived_accounting :: "(va_id, virtual_record) omap \<Rightarrow> accounting \<Rightarrow> accounting" where
  "derived_accounting m a = a
    \<lparr> ac_virtual_active := fold (\<lambda>e n. if counts_active (snd e) then n + 1 else n) m 0,
      ac_attachments_active := fold (\<lambda>e n. n + ucast (va_active_attachments (snd e))) m 0,
      ac_bytes_allocated_current := fold (\<lambda>e n. n + va_allocated_bytes (snd e)) m 0 \<rparr>"

definition recompute_derived_accounting :: "impl \<Rightarrow> impl" where
  "recompute_derived_accounting im =
    touch_header (upd_accounting (derived_accounting (st_virtuals (im_state im))) im)"

section \<open>What the checks establish\<close>

lemma check_epoch_ok [simp]: "check_epoch auth im = SC_Ok \<longleftrightarrow> auth_epoch auth = Some (st_epoch (im_state im))"
  by (auto simp: check_epoch_def split: option.splits)

lemma check_policy_ok [simp]:
  "check_policy auth im = SC_Ok \<longleftrightarrow>
    auth_policy_generation auth = None \<or> auth_policy_generation auth = Some (st_policy_generation (im_state im))"
  by (auto simp: check_policy_def split: option.splits)

lemma check_request_ok:
  "check_request auth im = SC_Ok \<longleftrightarrow>
    (\<forall>r. auth_request auth = Some r \<longrightarrow>
      (\<forall>o' \<in> set (st_requests (im_state im)). \<not> (ro_request o' = r \<and> ro_session o' = option_or 0 (auth_session auth))))"
  by (auto simp: check_request_def list_ex_iff split: option.splits)

lemma guard_store_ok [simp]: "guard_store im = SC_Ok \<longleftrightarrow> \<not> im_store_failed im"
  by (simp add: guard_store_def)

lemma require_mutable_ok [simp]:
  "require_mutable r = SC_Ok \<longleftrightarrow> lifecycle_accepts_mutation (va_state r)"
  by (auto simp: require_mutable_def lifecycle_accepts_mutation_def)

lemma require_owner_ok [simp]:
  "require_owner r t = SC_Ok \<longleftrightarrow>
    va_owner r = tn_id t \<and> va_owner_generation r = tn_generation t \<and> \<not> tn_fenced t"
  by (simp add: require_owner_def)

lemma resolve_tenant_ok:
  "resolve_tenant auth im = Inr t \<longleftrightarrow>
    (\<exists>i. auth_tenant auth = Some i \<and> om_find (st_tenants (im_state im)) i = Some t \<and>
      auth_tenant_generation auth = Some (tn_generation t))"
  by (auto simp: resolve_tenant_def split: option.splits)

lemma resolve_virtual_ok:
  "resolve_virtual auth im = Inr r \<longleftrightarrow>
    (\<exists>i. auth_virtual_id auth = Some i \<and> om_find (st_virtuals (im_state im)) i = Some r \<and>
      auth_virtual_generation auth = Some (va_generation r))"
  by (auto simp: resolve_virtual_def split: option.splits)

lemma resolve_owned_ok:
  "resolve_owned pre auth im = Inr (t, r) \<longleftrightarrow>
    pre = SC_Ok \<and> resolve_tenant auth im = Inr t \<and> resolve_virtual auth im = Inr r \<and> require_owner r t = SC_Ok"
  unfolding resolve_owned_def by (auto simp del: require_owner_ok split: sum.splits)

lemma resolve_tenant_code: "resolve_tenant auth im = Inl c \<Longrightarrow> c \<noteq> SC_Ok"
  by (auto simp: resolve_tenant_def split: option.splits if_splits)

lemma resolve_virtual_code: "resolve_virtual auth im = Inl c \<Longrightarrow> c \<noteq> SC_Ok"
  by (auto simp: resolve_virtual_def split: option.splits if_splits)

lemma resolve_owned_code: "resolve_owned pre auth im = Inl c \<Longrightarrow> c \<noteq> SC_Ok"
  unfolding resolve_owned_def
  by (auto split: sum.splits if_splits dest: resolve_tenant_code resolve_virtual_code simp del: require_owner_ok)

text \<open>Checks do not look at the change set or the undo log.\<close>

lemma begin_op_frame [simp]:
  "im_state (begin_op im) = im_state im" "im_store_failed (begin_op im) = im_store_failed im"
  "im_options (begin_op im) = im_options im" "im_agents (begin_op im) = im_agents im"
  "im_running (begin_op im) = im_running im"
  by (simp_all add: begin_op_def Let_def)

lemma checks_begin_op [simp]:
  "guard_store (begin_op im) = guard_store im" "check_epoch auth (begin_op im) = check_epoch auth im"
  "check_policy auth (begin_op im) = check_policy auth im" "check_request auth (begin_op im) = check_request auth im"
  "resolve_tenant auth (begin_op im) = resolve_tenant auth im"
  "resolve_virtual auth (begin_op im) = resolve_virtual auth im"
  "resolve_owned pre auth (begin_op im) = resolve_owned pre auth im"
  by (simp_all add: guard_store_def check_epoch_def check_policy_def check_request_def
      resolve_tenant_def resolve_virtual_def resolve_owned_def cong: option.case_cong sum.case_cong)

section \<open>Keys and identities\<close>

text \<open>Every record is stored under its own identity.\<close>

definition keyed :: "('v \<Rightarrow> 'k) \<Rightarrow> ('k, 'v) omap \<Rightarrow> bool" where
  "keyed f m \<longleftrightarrow> (\<forall>k v. om_find m k = Some v \<longrightarrow> f v = k)"

definition ids_match :: "vstate \<Rightarrow> bool" where
  "ids_match s \<longleftrightarrow> keyed tn_id (st_tenants s) \<and> keyed pd_id (st_physical s) \<and> keyed bk_id (st_backings s) \<and>
    keyed va_id (st_virtuals s) \<and> keyed ls_id (st_leases s) \<and> keyed as_id (st_assignments s) \<and>
    keyed (\<lambda>m. mp_id (mg_plan m)) (st_migrations s) \<and> keyed ev_id (st_evidence s)"

lemma keyedD: "keyed f m \<Longrightarrow> om_find m k = Some v \<Longrightarrow> f v = k"
  by (simp add: keyed_def)

lemma keyed_empty [simp]: "keyed f om_empty"
  by (simp add: keyed_def)

lemma keyed_put: "keyed f m \<Longrightarrow> f v = k \<Longrightarrow> keyed f (om_put k v m)"
  by (simp add: keyed_def)

lemma keyed_upd: "keyed f m \<Longrightarrow> (\<And>v. f (g v) = f v) \<Longrightarrow> keyed f (om_upd k g m)"
  by (auto simp: keyed_def)

lemma ids_match_virtual: "ids_match s \<Longrightarrow> om_find (st_virtuals s) k = Some r \<Longrightarrow> va_id r = k"
  by (simp add: ids_match_def keyed_def)

lemma ids_match_tenant: "ids_match s \<Longrightarrow> om_find (st_tenants s) k = Some t \<Longrightarrow> tn_id t = k"
  by (simp add: ids_match_def keyed_def)

lemma same_entities_ids: "same_entities s t \<Longrightarrow> ids_match t = ids_match s"
  by (simp add: same_entities_def ids_match_def)

lemma same_entities_maps_sorted: "same_entities s t \<Longrightarrow> maps_sorted t = maps_sorted s"
  by (simp add: same_entities_def maps_sorted_def)

lemma resolved_virtual:
  "ids_match (im_state im) \<Longrightarrow> resolve_virtual auth im = Inr r \<Longrightarrow>
   om_find (st_virtuals (im_state im)) (va_id r) = Some r"
  by (auto simp: resolve_virtual_ok dest: ids_match_virtual)

lemma resolved_tenant:
  "ids_match (im_state im) \<Longrightarrow> resolve_tenant auth im = Inr t \<Longrightarrow>
   om_find (st_tenants (im_state im)) (tn_id t) = Some t"
  by (auto simp: resolve_tenant_ok dest: ids_match_tenant)

section \<open>Helpers keep the undo log complete\<close>

lemma the_virtual_found [simp]: "om_find (st_virtuals (im_state im)) k = Some r \<Longrightarrow> the_virtual im k = r"
  by (simp add: the_virtual_def option_or_def)

text \<open>\<open>touched_virtuals\<close>: the virtual accelerators whose before-image is saved.\<close>

abbreviation touched_virtuals :: "impl \<Rightarrow> va_id set" where
  "touched_virtuals im \<equiv> set (fst (un_virtuals (im_undo im)))"

abbreviation touched_tenants :: "impl \<Rightarrow> tn_id set" where
  "touched_tenants im \<equiv> set (fst (un_tenants (im_undo im)))"

lemma touch_entity_mono: "x \<in> set (fst l) \<Longrightarrow> x \<in> set (fst (touch_entity k m l))"
  by simp

lemma fence_lease_undo [simp]:
  "un_virtuals (im_undo (snd (fence_lease reason now k acc))) = un_virtuals (im_undo (snd acc))"
  "un_tenants (im_undo (snd (fence_lease reason now k acc))) = un_tenants (im_undo (snd acc))"
  by (simp_all add: fence_lease_def split: option.split)

lemma fence_lease_fold_undo [simp]:
  "un_virtuals (im_undo (snd (fold (fence_lease reason now) ks acc))) = un_virtuals (im_undo (snd acc))"
  "un_tenants (im_undo (snd (fold (fence_lease reason now) ks acc))) = un_tenants (im_undo (snd acc))"
  by (induction ks arbitrary: acc) simp_all

lemma covers_fence_lease: "covers s0 (snd acc) \<Longrightarrow> covers s0 (snd (fence_lease reason now k acc))"
  by (simp add: fence_lease_def split: option.split)

lemma covers_fence_lease_fold:
  "covers s0 (snd acc) \<Longrightarrow> covers s0 (snd (fold (fence_lease reason now) ks acc))"
  by (induction ks arbitrary: acc) (simp_all add: covers_fence_lease)

lemma covers_release_tenant [simp]:
  "covers s0 im \<Longrightarrow> covers s0 (release_tenant_attachments owner live now im)"
  by (simp add: release_tenant_attachments_def split: option.split)

lemma release_tenant_undo [simp]:
  "un_virtuals (im_undo (release_tenant_attachments owner live now im)) = un_virtuals (im_undo im)"
  by (simp add: release_tenant_attachments_def split: option.split)

lemma fence_leases_undo:
  "touched_virtuals im \<subseteq> touched_virtuals (snd (fence_leases k reason now im))"
  by (auto simp: fence_leases_def Let_def split_beta)

lemma covers_fence_leases:
  assumes "covers s0 im" and "va_id (the_virtual im k) = k \<or> k \<in> touched_virtuals im"
  shows "covers s0 (snd (fence_leases k reason now im))"
  using assms covers_fence_lease_fold [of s0 "(0, im)"]
  by (auto simp: fence_leases_def Let_def split_beta)

lemma covers_carry_lease: "covers s0 im \<Longrightarrow> covers s0 (carry_lease g k im)"
  by (simp add: carry_lease_def split: option.split)

lemma covers_carry_fold: "covers s0 im \<Longrightarrow> covers s0 (fold (carry_lease g) ks im)"
  by (induction ks arbitrary: im) (simp_all add: covers_carry_lease)

lemma carry_lease_undo [simp]: "un_virtuals (im_undo (carry_lease g k im)) = un_virtuals (im_undo im)"
  by (simp add: carry_lease_def split: option.split)

lemma carry_fold_undo [simp]: "un_virtuals (im_undo (fold (carry_lease g) ks im)) = un_virtuals (im_undo im)"
  by (induction ks arbitrary: im) simp_all

lemma covers_transition:
  assumes "covers s0 im" and "va_id (the_virtual im k) = k \<or> k \<in> touched_virtuals im"
  shows "covers s0 (snd (transition e k target reason im))"
  using assms by (auto simp: transition_def Let_def intro!: covers_carry_fold)

lemma transition_undo: "touched_virtuals im \<subseteq> touched_virtuals (snd (transition e k target reason im))"
  by (auto simp: transition_def Let_def)

lemma covers_rebuild [simp]: "covers s0 (snd (rebuild_projection r im)) = covers s0 im"
  by (simp add: rebuild_projection_def Let_def split_beta)

lemma rebuild_frame [simp]:
  "im_undo (snd (rebuild_projection r im)) = im_undo im"
  "im_state (snd (rebuild_projection r im)) = (im_state im)\<lparr> st_next_sequence := st_next_sequence (im_state im) + 1 \<rparr>"
  "im_store_failed (snd (rebuild_projection r im)) = im_store_failed im"
  by (simp_all add: rebuild_projection_def Let_def split_beta)

lemma covers_rebuild_at: "covers s0 im \<Longrightarrow> k \<in> touched_virtuals im \<Longrightarrow> covers s0 (rebuild_projection_at k im)"
  by (simp add: rebuild_projection_at_def Let_def split_beta)

lemma rebuild_at_undo [simp]: "im_undo (rebuild_projection_at k im) = im_undo im"
  by (simp add: rebuild_projection_at_def Let_def split_beta)

lemma covers_recompute [simp]: "covers s0 (recompute_derived_accounting im) = covers s0 im"
  by (simp add: recompute_derived_accounting_def)

lemma recompute_frame [simp]:
  "im_state (recompute_derived_accounting im) =
    (im_state im)\<lparr> st_accounting := derived_accounting (st_virtuals (im_state im)) (st_accounting (im_state im)) \<rparr>"
  "im_undo (recompute_derived_accounting im) = im_undo im"
  by (simp_all add: recompute_derived_accounting_def)

section \<open>What the helpers do\<close>

definition fence_if_live :: "string \<Rightarrow> micros \<Rightarrow> lease_record \<Rightarrow> lease_record" where
  "fence_if_live reason now l = (if lease_state_is_live (ls_state l) then end_lease Lease_Fenced now reason l else l)"

lemma end_lease_simps [simp]:
  "ls_state (end_lease st now reason l) = st" "ls_id (end_lease st now reason l) = ls_id l"
  "ls_virtual_id (end_lease st now reason l) = ls_virtual_id l"
  by (simp_all add: end_lease_def)

lemma live_states [simp]:
  "lease_state_is_live Lease_Granted" "lease_state_is_live Lease_Active" "\<not> lease_state_is_live Lease_Revoked"
  "\<not> lease_state_is_live Lease_Expired" "\<not> lease_state_is_live Lease_Fenced" "\<not> lease_state_is_live Lease_Superseded"
  by (simp_all add: lease_state_is_live_def)

lemma fence_if_live_dead [simp]: "\<not> lease_state_is_live (ls_state (fence_if_live reason now l))"
  by (simp add: fence_if_live_def)

lemma fence_if_live_idem [simp]: "fence_if_live r n (fence_if_live r n l) = fence_if_live r n l"
  by (simp add: fence_if_live_def)

lemma fence_lease_find:
  "om_find (st_leases (im_state (snd (fence_lease reason now k acc)))) =
    (om_find (st_leases (im_state (snd acc))))(k := map_option (fence_if_live reason now) (om_find (st_leases (im_state (snd acc))) k))"
  by (auto simp: fence_lease_def fence_if_live_def fun_eq_iff split: option.split)

lemma fence_lease_frame [simp]:
  "st_schema (im_state (snd (fence_lease reason now k acc))) = st_schema (im_state (snd acc))"
  "st_next_sequence (im_state (snd (fence_lease reason now k acc))) = st_next_sequence (im_state (snd acc))"
  "st_epoch (im_state (snd (fence_lease reason now k acc))) = st_epoch (im_state (snd acc))"
  "st_policy (im_state (snd (fence_lease reason now k acc))) = st_policy (im_state (snd acc))"
  "st_policy_generation (im_state (snd (fence_lease reason now k acc))) = st_policy_generation (im_state (snd acc))"
  "st_tenants (im_state (snd (fence_lease reason now k acc))) = st_tenants (im_state (snd acc))"
  "st_physical (im_state (snd (fence_lease reason now k acc))) = st_physical (im_state (snd acc))"
  "st_backings (im_state (snd (fence_lease reason now k acc))) = st_backings (im_state (snd acc))"
  "st_virtuals (im_state (snd (fence_lease reason now k acc))) = st_virtuals (im_state (snd acc))"
  "st_assignments (im_state (snd (fence_lease reason now k acc))) = st_assignments (im_state (snd acc))"
  "st_migrations (im_state (snd (fence_lease reason now k acc))) = st_migrations (im_state (snd acc))"
  "st_evidence (im_state (snd (fence_lease reason now k acc))) = st_evidence (im_state (snd acc))"
  "st_accounting (im_state (snd (fence_lease reason now k acc))) = st_accounting (im_state (snd acc))"
  "st_audit (im_state (snd (fence_lease reason now k acc))) = st_audit (im_state (snd acc))"
  "st_decisions (im_state (snd (fence_lease reason now k acc))) = st_decisions (im_state (snd acc))"
  "st_requests (im_state (snd (fence_lease reason now k acc))) = st_requests (im_state (snd acc))"
  by (simp_all add: fence_lease_def split: option.split)

lemma fence_fold_find:
  "om_find (st_leases (im_state (snd (fold (fence_lease reason now) ks acc)))) x =
    (if x \<in> set ks then map_option (fence_if_live reason now) (om_find (st_leases (im_state (snd acc))) x)
     else om_find (st_leases (im_state (snd acc))) x)"
  by (induction ks arbitrary: acc) (auto simp: fence_lease_find option.map_comp comp_def)

lemma fence_fold_frame [simp]:
  "st_schema (im_state (snd (fold (fence_lease reason now) ks acc))) = st_schema (im_state (snd acc))"
  "st_next_sequence (im_state (snd (fold (fence_lease reason now) ks acc))) = st_next_sequence (im_state (snd acc))"
  "st_epoch (im_state (snd (fold (fence_lease reason now) ks acc))) = st_epoch (im_state (snd acc))"
  "st_policy (im_state (snd (fold (fence_lease reason now) ks acc))) = st_policy (im_state (snd acc))"
  "st_policy_generation (im_state (snd (fold (fence_lease reason now) ks acc))) = st_policy_generation (im_state (snd acc))"
  "st_tenants (im_state (snd (fold (fence_lease reason now) ks acc))) = st_tenants (im_state (snd acc))"
  "st_physical (im_state (snd (fold (fence_lease reason now) ks acc))) = st_physical (im_state (snd acc))"
  "st_backings (im_state (snd (fold (fence_lease reason now) ks acc))) = st_backings (im_state (snd acc))"
  "st_virtuals (im_state (snd (fold (fence_lease reason now) ks acc))) = st_virtuals (im_state (snd acc))"
  "st_assignments (im_state (snd (fold (fence_lease reason now) ks acc))) = st_assignments (im_state (snd acc))"
  "st_migrations (im_state (snd (fold (fence_lease reason now) ks acc))) = st_migrations (im_state (snd acc))"
  "st_evidence (im_state (snd (fold (fence_lease reason now) ks acc))) = st_evidence (im_state (snd acc))"
  "st_accounting (im_state (snd (fold (fence_lease reason now) ks acc))) = st_accounting (im_state (snd acc))"
  "st_audit (im_state (snd (fold (fence_lease reason now) ks acc))) = st_audit (im_state (snd acc))"
  "st_decisions (im_state (snd (fold (fence_lease reason now) ks acc))) = st_decisions (im_state (snd acc))"
  "st_requests (im_state (snd (fold (fence_lease reason now) ks acc))) = st_requests (im_state (snd acc))"
  by (induction ks arbitrary: acc) simp_all

lemma release_tenant_frame [simp]:
  "st_schema (im_state (release_tenant_attachments owner live now im)) = st_schema (im_state (im))"
  "st_next_sequence (im_state (release_tenant_attachments owner live now im)) = st_next_sequence (im_state (im))"
  "st_epoch (im_state (release_tenant_attachments owner live now im)) = st_epoch (im_state (im))"
  "st_policy (im_state (release_tenant_attachments owner live now im)) = st_policy (im_state (im))"
  "st_policy_generation (im_state (release_tenant_attachments owner live now im)) = st_policy_generation (im_state (im))"
  "st_physical (im_state (release_tenant_attachments owner live now im)) = st_physical (im_state (im))"
  "st_backings (im_state (release_tenant_attachments owner live now im)) = st_backings (im_state (im))"
  "st_virtuals (im_state (release_tenant_attachments owner live now im)) = st_virtuals (im_state (im))"
  "st_leases (im_state (release_tenant_attachments owner live now im)) = st_leases (im_state (im))"
  "st_assignments (im_state (release_tenant_attachments owner live now im)) = st_assignments (im_state (im))"
  "st_migrations (im_state (release_tenant_attachments owner live now im)) = st_migrations (im_state (im))"
  "st_evidence (im_state (release_tenant_attachments owner live now im)) = st_evidence (im_state (im))"
  "st_accounting (im_state (release_tenant_attachments owner live now im)) = st_accounting (im_state (im))"
  "st_audit (im_state (release_tenant_attachments owner live now im)) = st_audit (im_state (im))"
  "st_decisions (im_state (release_tenant_attachments owner live now im)) = st_decisions (im_state (im))"
  "st_requests (im_state (release_tenant_attachments owner live now im)) = st_requests (im_state (im))"
  by (simp_all add: release_tenant_attachments_def split: option.split)

lemma release_tenant_find:
  "om_find (st_tenants (im_state (release_tenant_attachments owner live now im))) =
    (om_find (st_tenants (im_state im)))(owner := map_option
      (\<lambda>t. t\<lparr> tn_active_attachments := sat_sub (tn_active_attachments t) live, tn_updated_at := now \<rparr>)
      (om_find (st_tenants (im_state im)) owner))"
  by (auto simp: release_tenant_attachments_def fun_eq_iff split: option.split)

lemma fence_leases_frame [simp]:
  "st_schema (im_state (snd (fence_leases k reason now im))) = st_schema (im_state (im))"
  "st_next_sequence (im_state (snd (fence_leases k reason now im))) = st_next_sequence (im_state (im))"
  "st_epoch (im_state (snd (fence_leases k reason now im))) = st_epoch (im_state (im))"
  "st_policy (im_state (snd (fence_leases k reason now im))) = st_policy (im_state (im))"
  "st_policy_generation (im_state (snd (fence_leases k reason now im))) = st_policy_generation (im_state (im))"
  "st_physical (im_state (snd (fence_leases k reason now im))) = st_physical (im_state (im))"
  "st_backings (im_state (snd (fence_leases k reason now im))) = st_backings (im_state (im))"
  "st_assignments (im_state (snd (fence_leases k reason now im))) = st_assignments (im_state (im))"
  "st_migrations (im_state (snd (fence_leases k reason now im))) = st_migrations (im_state (im))"
  "st_evidence (im_state (snd (fence_leases k reason now im))) = st_evidence (im_state (im))"
  "st_audit (im_state (snd (fence_leases k reason now im))) = st_audit (im_state (im))"
  "st_decisions (im_state (snd (fence_leases k reason now im))) = st_decisions (im_state (im))"
  "st_requests (im_state (snd (fence_leases k reason now im))) = st_requests (im_state (im))"
  by (simp_all add: fence_leases_def Let_def split_beta)

text \<open>After \<open>fence_leases\<close> no lease the virtual accelerator lists is live, other leases are as before.\<close>

lemma fence_leases_find:
  "om_find (st_leases (im_state (snd (fence_leases k reason now im)))) x =
    (if x \<in> set (va_leases (the_virtual im k)) then map_option (fence_if_live reason now) (om_find (st_leases (im_state im)) x)
     else om_find (st_leases (im_state im)) x)"
  by (simp add: fence_leases_def Let_def split_beta fence_fold_find)

lemma fence_leases_virtuals:
  "om_find (st_virtuals (im_state (snd (fence_leases k reason now im)))) =
    (if fst (fence_leases k reason now im) = 0 then om_find (st_virtuals (im_state im))
     else (om_find (st_virtuals (im_state im)))(k := map_option (\<lambda>r. r\<lparr> va_active_attachments := 0 \<rparr>)
       (om_find (st_virtuals (im_state im)) k)))"
  by (auto simp: fence_leases_def Let_def split_beta)

text \<open>The virtual accelerator itself changes in its attachment count only.\<close>

lemma fence_leases_virtual:
  "om_find (st_virtuals (im_state (snd (fence_leases k reason now im)))) x = Some r' \<Longrightarrow>
   \<exists>r. om_find (st_virtuals (im_state im)) x = Some r \<and>
     r' = r\<lparr> va_active_attachments := va_active_attachments r' \<rparr>"
  by (auto simp: fence_leases_virtuals split: if_splits)

lemma carry_lease_frame [simp]:
  "st_schema (im_state (carry_lease g k im)) = st_schema (im_state (im))"
  "st_next_sequence (im_state (carry_lease g k im)) = st_next_sequence (im_state (im))"
  "st_epoch (im_state (carry_lease g k im)) = st_epoch (im_state (im))"
  "st_policy (im_state (carry_lease g k im)) = st_policy (im_state (im))"
  "st_policy_generation (im_state (carry_lease g k im)) = st_policy_generation (im_state (im))"
  "st_tenants (im_state (carry_lease g k im)) = st_tenants (im_state (im))"
  "st_physical (im_state (carry_lease g k im)) = st_physical (im_state (im))"
  "st_backings (im_state (carry_lease g k im)) = st_backings (im_state (im))"
  "st_virtuals (im_state (carry_lease g k im)) = st_virtuals (im_state (im))"
  "st_assignments (im_state (carry_lease g k im)) = st_assignments (im_state (im))"
  "st_migrations (im_state (carry_lease g k im)) = st_migrations (im_state (im))"
  "st_evidence (im_state (carry_lease g k im)) = st_evidence (im_state (im))"
  "st_accounting (im_state (carry_lease g k im)) = st_accounting (im_state (im))"
  "st_audit (im_state (carry_lease g k im)) = st_audit (im_state (im))"
  "st_decisions (im_state (carry_lease g k im)) = st_decisions (im_state (im))"
  "st_requests (im_state (carry_lease g k im)) = st_requests (im_state (im))"
  by (simp_all add: carry_lease_def split: option.split)

lemma carry_fold_frame [simp]:
  "st_schema (im_state (fold (carry_lease g) ks im)) = st_schema (im_state (im))"
  "st_next_sequence (im_state (fold (carry_lease g) ks im)) = st_next_sequence (im_state (im))"
  "st_epoch (im_state (fold (carry_lease g) ks im)) = st_epoch (im_state (im))"
  "st_policy (im_state (fold (carry_lease g) ks im)) = st_policy (im_state (im))"
  "st_policy_generation (im_state (fold (carry_lease g) ks im)) = st_policy_generation (im_state (im))"
  "st_tenants (im_state (fold (carry_lease g) ks im)) = st_tenants (im_state (im))"
  "st_physical (im_state (fold (carry_lease g) ks im)) = st_physical (im_state (im))"
  "st_backings (im_state (fold (carry_lease g) ks im)) = st_backings (im_state (im))"
  "st_virtuals (im_state (fold (carry_lease g) ks im)) = st_virtuals (im_state (im))"
  "st_assignments (im_state (fold (carry_lease g) ks im)) = st_assignments (im_state (im))"
  "st_migrations (im_state (fold (carry_lease g) ks im)) = st_migrations (im_state (im))"
  "st_evidence (im_state (fold (carry_lease g) ks im)) = st_evidence (im_state (im))"
  "st_accounting (im_state (fold (carry_lease g) ks im)) = st_accounting (im_state (im))"
  "st_audit (im_state (fold (carry_lease g) ks im)) = st_audit (im_state (im))"
  "st_decisions (im_state (fold (carry_lease g) ks im)) = st_decisions (im_state (im))"
  "st_requests (im_state (fold (carry_lease g) ks im)) = st_requests (im_state (im))"
  by (induction ks arbitrary: im) simp_all

lemma carry_lease_find:
  "om_find (st_leases (im_state (carry_lease g k im))) =
    (om_find (st_leases (im_state im)))(k := map_option
      (\<lambda>l. if lease_state_is_live (ls_state l) then l\<lparr> ls_virtual_generation := g \<rparr> else l)
      (om_find (st_leases (im_state im)) k))"
  by (auto simp: carry_lease_def fun_eq_iff split: option.split)

lemma carry_fold_find:
  "om_find (st_leases (im_state (fold (carry_lease g) ks im))) x =
    (if x \<in> set ks then map_option
      (\<lambda>l. if lease_state_is_live (ls_state l) then l\<lparr> ls_virtual_generation := g \<rparr> else l)
      (om_find (st_leases (im_state im)) x)
     else om_find (st_leases (im_state im)) x)"
  by (induction ks arbitrary: im) (auto simp: carry_lease_find option.map_comp comp_def intro!: option.map_cong)

lemma transition_frame [simp]:
  "st_schema (im_state (snd (transition e k target reason im))) = st_schema (im_state (im))"
  "st_next_sequence (im_state (snd (transition e k target reason im))) = st_next_sequence (im_state (im))"
  "st_epoch (im_state (snd (transition e k target reason im))) = st_epoch (im_state (im))"
  "st_policy (im_state (snd (transition e k target reason im))) = st_policy (im_state (im))"
  "st_policy_generation (im_state (snd (transition e k target reason im))) = st_policy_generation (im_state (im))"
  "st_tenants (im_state (snd (transition e k target reason im))) = st_tenants (im_state (im))"
  "st_physical (im_state (snd (transition e k target reason im))) = st_physical (im_state (im))"
  "st_backings (im_state (snd (transition e k target reason im))) = st_backings (im_state (im))"
  "st_assignments (im_state (snd (transition e k target reason im))) = st_assignments (im_state (im))"
  "st_migrations (im_state (snd (transition e k target reason im))) = st_migrations (im_state (im))"
  "st_evidence (im_state (snd (transition e k target reason im))) = st_evidence (im_state (im))"
  "st_accounting (im_state (snd (transition e k target reason im))) = st_accounting (im_state (im))"
  "st_audit (im_state (snd (transition e k target reason im))) = st_audit (im_state (im))"
  "st_decisions (im_state (snd (transition e k target reason im))) = st_decisions (im_state (im))"
  "st_requests (im_state (snd (transition e k target reason im))) = st_requests (im_state (im))"
  by (simp_all add: transition_def Let_def)

lemma enter_state_simps [simp]:
  "va_state (enter_state target reason now r) = target"
  "va_generation (enter_state target reason now r) = gen_next (va_generation r)"
  "va_id (enter_state target reason now r) = va_id r" "va_leases (enter_state target reason now r) = va_leases r"
  "va_owner (enter_state target reason now r) = va_owner r"
  "va_owner_generation (enter_state target reason now r) = va_owner_generation r"
  "va_assignment (enter_state target reason now r) = va_assignment r"
  "va_backing (enter_state target reason now r) = va_backing r"
  "va_contract (enter_state target reason now r) = va_contract r"
  "va_migration (enter_state target reason now r) = va_migration r"
  "va_active_attachments (enter_state target reason now r) = va_active_attachments r"
  "va_allocated_bytes (enter_state target reason now r) = va_allocated_bytes r"
  by (simp_all add: enter_state_def)

lemma transition_status:
  "fst (transition e k target reason im) = check_transition (va_state (the_virtual im k)) target"
  by (simp add: transition_def Let_def del: check_transition_ok)

lemma transition_refused:
  "fst (transition e k target reason im) \<noteq> SC_Ok \<Longrightarrow> snd (transition e k target reason im) = im"
  by (simp add: transition_def Let_def split: if_splits)

lemma transition_virtuals:
  "fst (transition e k target reason im) = SC_Ok \<Longrightarrow>
   st_virtuals (im_state (snd (transition e k target reason im))) =
     om_upd k (enter_state target reason (env_now e)) (st_virtuals (im_state im))"
  by (simp add: transition_def Let_def split: if_splits)

section \<open>How an operation ends\<close>

text \<open>An operation is atomic when a failure of any kind, refusal or failed durable write, leaves every
  entity and the policy as they were.\<close>

definition atomic_outcome :: "impl \<Rightarrow> 'a result \<times> impl \<Rightarrow> bool" where
  "atomic_outcome im out =
    (case fst out of Inl c \<Rightarrow> c \<noteq> SC_Ok \<and> same_entities (im_state im) (im_state (snd out)) | Inr _ \<Rightarrow> True)"

lemma atomic_refuse:
  assumes "covers (im_state im) im1" and "same_entities (im_state im) (im_state im1)" and "status \<noteq> SC_Ok"
  shows "atomic_outcome im (refuse e c status im1)"
proof -
  have "same_entities (im_state im) (im_state (snd (finalize e c status AK_AuthorityRefusal im1)))"
    using refuse_entities [OF assms(1,2), of e c status] by (simp add: refuse_def split_beta)
  moreover have "fst (finalize e c status AK_AuthorityRefusal im1) \<noteq> SC_Ok"
    using assms(3) by (simp add: finalize_commit)
  ultimately show ?thesis by (simp add: atomic_outcome_def refuse_def split_beta)
qed

lemma atomic_accept:
  assumes "covers (im_state im) im1"
  shows "atomic_outcome im (accept e c kind v im1)"
proof (cases "fst (accept e c kind v im1)")
  case (Inl code)
  moreover have "code \<noteq> SC_Ok" using Inl by (auto simp: accept_result split: if_splits)
  ultimately show ?thesis using accept_failure [OF assms Inl] by (simp add: atomic_outcome_def)
qed (simp add: atomic_outcome_def)

lemma atomic_refuse_begin [intro]:
  "maps_sorted (im_state im) \<Longrightarrow> status \<noteq> SC_Ok \<Longrightarrow> atomic_outcome im (refuse e c status (begin_op im))"
  by (rule atomic_refuse) (simp_all add: covers_begin_op)

text \<open>A successful operation leaves exactly the entities its effects computed.\<close>

lemma accept_entities:
  "covers s0 im1 \<Longrightarrow> fst (accept e c kind v im1) = Inr w \<Longrightarrow>
   w = v \<and> same_entities (im_state im1) (im_state (snd (accept e c kind v im1)))"
  by (rule accept_success)

section \<open>Rendering identities\<close>

definition tn_str :: "tn_id \<Rightarrow> string" where "tn_str i = render_strong_id ''tn'' (id_value i)"
definition va_str :: "va_id \<Rightarrow> string" where "va_str i = render_strong_id ''va'' (id_value i)"
definition bk_str :: "bk_id \<Rightarrow> string" where "bk_str i = render_strong_id ''bk'' (id_value i)"
definition pd_str :: "pd_id \<Rightarrow> string" where "pd_str i = render_strong_id ''pd'' (id_value i)"
definition mg_str :: "mg_id \<Rightarrow> string" where "mg_str i = render_strong_id ''mg'' (id_value i)"

text \<open>Attached, Active and Draining: the states in which work may be running.\<close>

definition is_executing :: "lifecycle \<Rightarrow> bool" where
  "is_executing s \<longleftrightarrow> s = LC_Attached \<or> s = LC_Active \<or> s = LC_Draining"

lemma is_executing_simps [simp]:
  "\<not> is_executing LC_Created" "\<not> is_executing LC_Provisioned" "is_executing LC_Attached" "is_executing LC_Active"
  "is_executing LC_Draining" "\<not> is_executing LC_Suspended" "\<not> is_executing LC_Migrating"
  "\<not> is_executing LC_RecoveryRequired" "\<not> is_executing LC_Fenced" "\<not> is_executing LC_Retired"
  by (simp_all add: is_executing_def)

lemma is_executing_leases: "is_executing s \<longleftrightarrow> lifecycle_allows_leases s"
  by (cases s) (simp_all add: lifecycle_allows_leases_def)

section \<open>Lifecycle discipline of a state change\<close>

definition va_states :: "vstate \<Rightarrow> va_id \<Rightarrow> lifecycle option" where
  "va_states s k = map_option va_state (om_find (st_virtuals s) k)"

text \<open>Every virtual accelerator either keeps its lifecycle state or takes one edge of the table; new ones
  start Provisioned, and none disappears.\<close>

definition lifecycle_step :: "vstate \<Rightarrow> vstate \<Rightarrow> bool" where
  "lifecycle_step s t \<longleftrightarrow> (\<forall>k.
    case va_states s k of
      None \<Rightarrow> va_states t k = None \<or> va_states t k = Some LC_Provisioned
    | Some a \<Rightarrow> (\<exists>b. va_states t k = Some b \<and> (b = a \<or> is_legal_transition a b)))"

text \<open>Effects that leave every lifecycle state alone.\<close>

definition states_kept :: "vstate \<Rightarrow> vstate \<Rightarrow> bool" where
  "states_kept s t \<longleftrightarrow> va_states t = va_states s"

lemma va_states_cong: "st_virtuals t = st_virtuals s \<Longrightarrow> va_states t = va_states s"
  by (simp add: va_states_def fun_eq_iff)

lemma states_kept_refl: "st_virtuals t = st_virtuals s \<Longrightarrow> states_kept s t"
  unfolding states_kept_def by (rule va_states_cong)

lemma states_kept_trans: "states_kept s t \<Longrightarrow> states_kept t u \<Longrightarrow> states_kept s u"
  by (simp add: states_kept_def)

lemma states_kept_step: "states_kept s t \<Longrightarrow> lifecycle_step s t"
  by (auto simp: states_kept_def lifecycle_step_def split: option.split)

lemma lifecycle_step_same: "same_entities s t \<Longrightarrow> lifecycle_step s t"
  by (rule states_kept_step, rule states_kept_refl) (simp add: same_entities_def)

lemma lifecycle_step_cong:
  "va_states s' = va_states s \<Longrightarrow> va_states t' = va_states t \<Longrightarrow> lifecycle_step s' t' = lifecycle_step s t"
  by (simp add: lifecycle_step_def cong: option.case_cong)

lemma va_states_upd:
  "om_find (st_virtuals t) = (om_find (st_virtuals s))(k := map_option f (om_find (st_virtuals s) k)) \<Longrightarrow>
   va_states t = (va_states s)(k := map_option (\<lambda>r. va_state (f r)) (om_find (st_virtuals s) k))"
  by (auto simp: va_states_def fun_eq_iff option.map_comp comp_def)

lemma states_kept_upd:
  assumes "om_find (st_virtuals t) = (om_find (st_virtuals s))(k := map_option f (om_find (st_virtuals s) k))"
    and "\<And>r. om_find (st_virtuals s) k = Some r \<Longrightarrow> va_state (f r) = va_state r"
  shows "states_kept s t"
  using assms(2) unfolding states_kept_def va_states_upd [OF assms(1)]
  by (cases "om_find (st_virtuals s) k") (auto simp: va_states_def)

text \<open>One virtual accelerator changes, after effects that change no state.\<close>

lemma lifecycle_step_upd:
  assumes "states_kept s t"
    and "om_find (st_virtuals u) = (om_find (st_virtuals t))(k := map_option f (om_find (st_virtuals t) k))"
    and "\<And>r. om_find (st_virtuals t) k = Some r \<Longrightarrow>
      va_state (f r) = va_state r \<or> va_state (f r) \<in> set (lifecycle_edges (va_state r))"
  shows "lifecycle_step s u"
proof -
  have s: "va_states s = va_states t" using assms(1) by (simp add: states_kept_def)
  have u: "va_states u = (va_states t)(k := map_option (\<lambda>r. va_state (f r)) (om_find (st_virtuals t) k))"
    by (rule va_states_upd) (rule assms(2))
  show ?thesis
    unfolding lifecycle_step_def s u using assms(3)
    by (auto simp: va_states_def legal_transition_edges split: option.split)
qed

lemma states_kept_virtual:
  "states_kept (im_state im) (im_state im') \<Longrightarrow> om_find (st_virtuals (im_state im)) k = Some r \<Longrightarrow>
   \<exists>r'. om_find (st_virtuals (im_state im')) k = Some r' \<and> va_state r' = va_state r"
  by (auto simp: states_kept_def va_states_def fun_eq_iff dest!: spec [of _ k])

lemma rebuild_record:
  "fst (rebuild_projection r im) = r\<lparr> va_projection := va_projection (fst (rebuild_projection r im)) \<rparr>"
  by (simp add: rebuild_projection_def Let_def split_beta)

lemma rebuild_fields [simp]:
  "va_id (fst (rebuild_projection r im)) = va_id r"
  "va_generation (fst (rebuild_projection r im)) = va_generation r"
  "va_name (fst (rebuild_projection r im)) = va_name r"
  "va_owner (fst (rebuild_projection r im)) = va_owner r"
  "va_owner_generation (fst (rebuild_projection r im)) = va_owner_generation r"
  "va_state (fst (rebuild_projection r im)) = va_state r"
  "va_state_generation (fst (rebuild_projection r im)) = va_state_generation r"
  "va_contract (fst (rebuild_projection r im)) = va_contract r"
  "va_assignment (fst (rebuild_projection r im)) = va_assignment r"
  "va_backing (fst (rebuild_projection r im)) = va_backing r"
  "va_backing_generation (fst (rebuild_projection r im)) = va_backing_generation r"
  "va_physical (fst (rebuild_projection r im)) = va_physical r"
  "va_physical_generation (fst (rebuild_projection r im)) = va_physical_generation r"
  "va_migration (fst (rebuild_projection r im)) = va_migration r"
  "va_migration_generation (fst (rebuild_projection r im)) = va_migration_generation r"
  "va_active_attachments (fst (rebuild_projection r im)) = va_active_attachments r"
  "va_leases (fst (rebuild_projection r im)) = va_leases r"
  "va_allocated_bytes (fst (rebuild_projection r im)) = va_allocated_bytes r"
  "va_policy_generation (fst (rebuild_projection r im)) = va_policy_generation r"
  "va_epoch (fst (rebuild_projection r im)) = va_epoch r"
  "va_backing_history (fst (rebuild_projection r im)) = va_backing_history r"
  by (simp_all add: rebuild_projection_def Let_def split_beta)

lemma rebuild_at_virtuals:
  "st_virtuals (im_state (rebuild_projection_at k im)) =
    om_upd k (\<lambda>_. fst (rebuild_projection (the_virtual im k) im)) (st_virtuals (im_state im))"
  by (simp add: rebuild_projection_at_def Let_def split_beta)

lemma rebuild_at_frame [simp]:
  "st_schema (im_state (rebuild_projection_at k im)) = st_schema (im_state (im))"
  "st_epoch (im_state (rebuild_projection_at k im)) = st_epoch (im_state (im))"
  "st_policy (im_state (rebuild_projection_at k im)) = st_policy (im_state (im))"
  "st_policy_generation (im_state (rebuild_projection_at k im)) = st_policy_generation (im_state (im))"
  "st_tenants (im_state (rebuild_projection_at k im)) = st_tenants (im_state (im))"
  "st_physical (im_state (rebuild_projection_at k im)) = st_physical (im_state (im))"
  "st_backings (im_state (rebuild_projection_at k im)) = st_backings (im_state (im))"
  "st_leases (im_state (rebuild_projection_at k im)) = st_leases (im_state (im))"
  "st_assignments (im_state (rebuild_projection_at k im)) = st_assignments (im_state (im))"
  "st_migrations (im_state (rebuild_projection_at k im)) = st_migrations (im_state (im))"
  "st_evidence (im_state (rebuild_projection_at k im)) = st_evidence (im_state (im))"
  "st_accounting (im_state (rebuild_projection_at k im)) = st_accounting (im_state (im))"
  "st_audit (im_state (rebuild_projection_at k im)) = st_audit (im_state (im))"
  "st_decisions (im_state (rebuild_projection_at k im)) = st_decisions (im_state (im))"
  "st_requests (im_state (rebuild_projection_at k im)) = st_requests (im_state (im))"
  by (simp_all add: rebuild_projection_at_def Let_def split_beta)

lemma rebuild_at_states: "states_kept (im_state im) (im_state (rebuild_projection_at k im))"
  by (rule states_kept_upd [where k = k and f = "\<lambda>_. fst (rebuild_projection (the_virtual im k) im)"])
    (simp_all add: rebuild_at_virtuals)

lemma rebuild_at_the_virtual:
  "om_find (st_virtuals (im_state im)) k = Some r \<Longrightarrow>
   om_find (st_virtuals (im_state (rebuild_projection_at k im))) k = Some (fst (rebuild_projection r im))"
  by (simp add: rebuild_at_virtuals)

lemma fence_leases_states: "states_kept (im_state im) (im_state (snd (fence_leases k reason now im)))"
proof (cases "fst (fence_leases k reason now im) = 0")
  case True
  then show ?thesis by (simp add: states_kept_def va_states_def fun_eq_iff fence_leases_virtuals)
next
  case False
  then show ?thesis
    by (intro states_kept_upd [where k = k and f = "\<lambda>r. r\<lparr> va_active_attachments := 0 \<rparr>"])
      (simp_all add: fence_leases_virtuals)
qed

end
