(* ===== verification/AV_Transaction.thy ===== *)
theory AV_Transaction
  imports AV_Authority
begin

text \<open>
  The contract of an open transaction, shared by every operation of the runtime.

  \<open>txn s0 im\<close> holds between \<open>begin_op\<close> on state \<open>s0\<close> and the commit: the undo log covers every difference to
  \<open>s0\<close>, every record is stored under its own identity, every virtual accelerator has moved along
  legal transitions only, and nothing is in the logs yet. Each primitive effect and each helper of the runtime keeps it, so an
  operation built from them is sound (\<open>op_sound\<close>): if it fails, for whatever reason, no entity changed;
  it keeps the state well formed; it respects the lifecycle table; the store was handed a
  change set that accounts for every difference.
\<close>

section \<open>Legal flow of lifecycle states\<close>

fun flow_opt :: "lifecycle option \<Rightarrow> lifecycle option \<Rightarrow> bool" where
  "flow_opt None None = True"
| "flow_opt None (Some b) = lifecycle_path LC_Provisioned b"
| "flow_opt (Some a) None = False"
| "flow_opt (Some a) (Some b) = lifecycle_path a b"

text \<open>Every virtual accelerator of \<open>s\<close> is one of \<open>t\<close>, in a state that legal transitions reach; new ones
  started Provisioned.\<close>

definition lifecycle_flow :: "vstate \<Rightarrow> vstate \<Rightarrow> bool" where
  "lifecycle_flow s t \<longleftrightarrow> (\<forall>k. flow_opt (va_states s k) (va_states t k))"

definition well_formed :: "vstate \<Rightarrow> bool" where
  "well_formed s \<longleftrightarrow> maps_sorted s \<and> ids_match s"

definition txn :: "vstate \<Rightarrow> impl \<Rightarrow> bool" where
  "txn s0 im \<longleftrightarrow> covers s0 im \<and> ids_match (im_state im) \<and> lifecycle_flow s0 (im_state im) \<and> quiet (im_changes im)"

lemma lifecycle_path_trans: "lifecycle_path s t \<Longrightarrow> lifecycle_path u s \<Longrightarrow> lifecycle_path u t"
  by (induction rule: lifecycle_path.induct) (auto intro: lifecycle_path.step)

lemma lifecycle_path_edge: "t \<in> set (lifecycle_edges s) \<Longrightarrow> lifecycle_path s t"
  by (rule lifecycle_path.step [OF lifecycle_path.here]) (simp add: legal_transition_edges)

lemma flow_opt_refl: "flow_opt x x"
  by (cases x) (simp_all add: lifecycle_path.here)

lemma flow_opt_trans: "flow_opt x y \<Longrightarrow> flow_opt y z \<Longrightarrow> flow_opt x z"
  by (cases x; cases y; cases z) (auto intro: lifecycle_path_trans)

lemma lifecycle_flow_refl: "lifecycle_flow s s"
  by (simp add: lifecycle_flow_def flow_opt_refl)

lemma lifecycle_flow_trans: "lifecycle_flow s t \<Longrightarrow> lifecycle_flow t u \<Longrightarrow> lifecycle_flow s u"
  unfolding lifecycle_flow_def by (blast intro: flow_opt_trans)

lemma lifecycle_flow_cong: "st_virtuals t' = st_virtuals t \<Longrightarrow> lifecycle_flow s t' = lifecycle_flow s t"
  by (simp add: lifecycle_flow_def va_states_def)

lemma lifecycle_flow_same: "same_entities s t \<Longrightarrow> lifecycle_flow s t"
  using lifecycle_flow_refl [of s] lifecycle_flow_cong [of t s s] by (simp add: same_entities_def)

lemma lifecycle_flow_upd:
  assumes "lifecycle_flow s0 s" and "st_virtuals t = om_upd k f (st_virtuals s)"
    and "\<And>r. om_find (st_virtuals s) k = Some r \<Longrightarrow> lifecycle_path (va_state r) (va_state (f r))"
  shows "lifecycle_flow s0 t"
proof (rule lifecycle_flow_trans [OF assms(1)], unfold lifecycle_flow_def, rule allI)
  fix x
  show "flow_opt (va_states s x) (va_states t x)"
    using assms(3) flow_opt_refl
    by (cases "om_find (st_virtuals s) k") (auto simp: va_states_def assms(2))
qed

lemma lifecycle_flow_put:
  assumes "lifecycle_flow s0 s" and "st_virtuals t = om_put k v (st_virtuals s)"
    and "om_find (st_virtuals s) k = None" and "va_state v = LC_Provisioned"
  shows "lifecycle_flow s0 t"
proof (rule lifecycle_flow_trans [OF assms(1)], unfold lifecycle_flow_def, rule allI)
  fix x
  show "flow_opt (va_states s x) (va_states t x)"
    using flow_opt_refl lifecycle_path.here by (auto simp: va_states_def assms(2-4))
qed

text \<open>Retired accelerators stay retired, and none is lost.\<close>

lemma lifecycle_flow_retired:
  "lifecycle_flow s t \<Longrightarrow> va_states s k = Some LC_Retired \<Longrightarrow> va_states t k = Some LC_Retired"
  unfolding lifecycle_flow_def
  by (erule allE [of _ k]) (cases "va_states t k"; auto dest: lifecycle_path_retired)

lemma states_kept_the_virtual:
  "states_kept (im_state im) (im_state im') \<Longrightarrow> om_find (st_virtuals (im_state im)) k = Some r \<Longrightarrow>
   va_state (the_virtual im' k) = va_state r"
  using states_kept_virtual [of im im' k r] by auto

section \<open>Primitive effects keep the contract\<close>

lemma txn_begin [simp]: "well_formed (im_state im) \<Longrightarrow> txn (im_state im) (begin_op im)"
  by (simp add: txn_def well_formed_def covers_begin_op lifecycle_flow_refl)

lemma txn_well_formed: "txn s0 im \<Longrightarrow> well_formed (im_state im)"
  by (auto simp: txn_def well_formed_def dest: covers_sorted)

lemma txn_touch_header [simp]: "txn s0 (touch_header im) = txn s0 im"
  by (simp add: txn_def)

lemma txn_upd_accounting [simp]: "txn s0 (upd_accounting f im) = txn s0 im"
  by (simp add: txn_def ids_match_def lifecycle_flow_def va_states_def)

lemma txn_next_id [simp]: "txn s0 (snd (next_id im)) = txn s0 im"
  by (simp add: txn_def ids_match_def lifecycle_flow_def va_states_def)

lemma keyed_upd_at: "keyed f m \<Longrightarrow> (\<And>v. om_find m k = Some v \<Longrightarrow> f (g v) = f v) \<Longrightarrow> keyed f (om_upd k g m)"
  by (auto simp: keyed_def)

lemma txn_touch_tenant [simp]: "txn s0 im \<Longrightarrow> txn s0 (touch_tenant k im)"
  by (simp add: txn_def)

lemma txn_upd_tenant [simp]:
  "txn s0 im \<Longrightarrow> k \<in> set (fst (un_tenants (im_undo im))) \<Longrightarrow>
   (\<And>v. om_find (st_tenants (im_state im)) k = Some v \<Longrightarrow> tn_id (f v) = tn_id v) \<Longrightarrow> txn s0 (upd_tenant k f im)"
  by (simp add: txn_def ids_match_def keyed_upd_at lifecycle_flow_def va_states_def)

lemma txn_put_tenant [simp]:
  "txn s0 im \<Longrightarrow> k \<in> set (fst (un_tenants (im_undo im))) \<Longrightarrow> tn_id v = k \<Longrightarrow> txn s0 (put_tenant k v im)"
  by (simp add: txn_def ids_match_def keyed_put lifecycle_flow_def va_states_def)

lemma txn_touch_physical [simp]: "txn s0 im \<Longrightarrow> txn s0 (touch_physical k im)"
  by (simp add: txn_def)

lemma txn_upd_physical [simp]:
  "txn s0 im \<Longrightarrow> k \<in> set (fst (un_physical (im_undo im))) \<Longrightarrow>
   (\<And>v. om_find (st_physical (im_state im)) k = Some v \<Longrightarrow> pd_id (f v) = pd_id v) \<Longrightarrow> txn s0 (upd_physical k f im)"
  by (simp add: txn_def ids_match_def keyed_upd_at lifecycle_flow_def va_states_def)

lemma txn_put_physical [simp]:
  "txn s0 im \<Longrightarrow> k \<in> set (fst (un_physical (im_undo im))) \<Longrightarrow> pd_id v = k \<Longrightarrow> txn s0 (put_physical k v im)"
  by (simp add: txn_def ids_match_def keyed_put lifecycle_flow_def va_states_def)

lemma txn_touch_backing [simp]: "txn s0 im \<Longrightarrow> txn s0 (touch_backing k im)"
  by (simp add: txn_def)

lemma txn_upd_backing [simp]:
  "txn s0 im \<Longrightarrow> k \<in> set (fst (un_backings (im_undo im))) \<Longrightarrow>
   (\<And>v. om_find (st_backings (im_state im)) k = Some v \<Longrightarrow> bk_id (f v) = bk_id v) \<Longrightarrow> txn s0 (upd_backing k f im)"
  by (simp add: txn_def ids_match_def keyed_upd_at lifecycle_flow_def va_states_def)

lemma txn_put_backing [simp]:
  "txn s0 im \<Longrightarrow> k \<in> set (fst (un_backings (im_undo im))) \<Longrightarrow> bk_id v = k \<Longrightarrow> txn s0 (put_backing k v im)"
  by (simp add: txn_def ids_match_def keyed_put lifecycle_flow_def va_states_def)

lemma txn_touch_lease [simp]: "txn s0 im \<Longrightarrow> txn s0 (touch_lease k im)"
  by (simp add: txn_def)

lemma txn_upd_lease [simp]:
  "txn s0 im \<Longrightarrow> k \<in> set (fst (un_leases (im_undo im))) \<Longrightarrow>
   (\<And>v. om_find (st_leases (im_state im)) k = Some v \<Longrightarrow> ls_id (f v) = ls_id v) \<Longrightarrow> txn s0 (upd_lease k f im)"
  by (simp add: txn_def ids_match_def keyed_upd_at lifecycle_flow_def va_states_def)

lemma txn_put_lease [simp]:
  "txn s0 im \<Longrightarrow> k \<in> set (fst (un_leases (im_undo im))) \<Longrightarrow> ls_id v = k \<Longrightarrow> txn s0 (put_lease k v im)"
  by (simp add: txn_def ids_match_def keyed_put lifecycle_flow_def va_states_def)

lemma txn_touch_assignment [simp]: "txn s0 im \<Longrightarrow> txn s0 (touch_assignment k im)"
  by (simp add: txn_def)

lemma txn_upd_assignment [simp]:
  "txn s0 im \<Longrightarrow> k \<in> set (fst (un_assignments (im_undo im))) \<Longrightarrow>
   (\<And>v. om_find (st_assignments (im_state im)) k = Some v \<Longrightarrow> as_id (f v) = as_id v) \<Longrightarrow> txn s0 (upd_assignment k f im)"
  by (simp add: txn_def ids_match_def keyed_upd_at lifecycle_flow_def va_states_def)

lemma txn_put_assignment [simp]:
  "txn s0 im \<Longrightarrow> k \<in> set (fst (un_assignments (im_undo im))) \<Longrightarrow> as_id v = k \<Longrightarrow> txn s0 (put_assignment k v im)"
  by (simp add: txn_def ids_match_def keyed_put lifecycle_flow_def va_states_def)

lemma txn_touch_migration [simp]: "txn s0 im \<Longrightarrow> txn s0 (touch_migration k im)"
  by (simp add: txn_def)

lemma txn_upd_migration [simp]:
  "txn s0 im \<Longrightarrow> k \<in> set (fst (un_migrations (im_undo im))) \<Longrightarrow>
   (\<And>v. om_find (st_migrations (im_state im)) k = Some v \<Longrightarrow> (\<lambda>m. mp_id (mg_plan m)) (f v) = (\<lambda>m. mp_id (mg_plan m)) v) \<Longrightarrow> txn s0 (upd_migration k f im)"
  by (simp add: txn_def ids_match_def keyed_upd_at lifecycle_flow_def va_states_def)

lemma txn_put_migration [simp]:
  "txn s0 im \<Longrightarrow> k \<in> set (fst (un_migrations (im_undo im))) \<Longrightarrow> (\<lambda>m. mp_id (mg_plan m)) v = k \<Longrightarrow> txn s0 (put_migration k v im)"
  by (simp add: txn_def ids_match_def keyed_put lifecycle_flow_def va_states_def)

lemma txn_touch_evidence [simp]: "txn s0 im \<Longrightarrow> txn s0 (touch_evidence k im)"
  by (simp add: txn_def)

lemma txn_upd_evidence [simp]:
  "txn s0 im \<Longrightarrow> k \<in> set (fst (un_evidence (im_undo im))) \<Longrightarrow>
   (\<And>v. om_find (st_evidence (im_state im)) k = Some v \<Longrightarrow> ev_id (f v) = ev_id v) \<Longrightarrow> txn s0 (upd_evidence k f im)"
  by (simp add: txn_def ids_match_def keyed_upd_at lifecycle_flow_def va_states_def)

lemma txn_put_evidence [simp]:
  "txn s0 im \<Longrightarrow> k \<in> set (fst (un_evidence (im_undo im))) \<Longrightarrow> ev_id v = k \<Longrightarrow> txn s0 (put_evidence k v im)"
  by (simp add: txn_def ids_match_def keyed_put lifecycle_flow_def va_states_def)

lemma txn_touch_virtual [simp]: "txn s0 im \<Longrightarrow> txn s0 (touch_virtual k im)"
  by (simp add: txn_def)

lemma txn_upd_virtual:
  assumes "txn s0 im" and "k \<in> touched_virtuals im"
    and "\<And>r. om_find (st_virtuals (im_state im)) k = Some r \<Longrightarrow> va_id (f r) = va_id r \<and> lifecycle_path (va_state r) (va_state (f r))"
  shows "txn s0 (upd_virtual k f im)"
proof -
  have "lifecycle_flow s0 (im_state (upd_virtual k f im))"
    by (rule lifecycle_flow_upd [where s = "im_state im" and k = k and f = f]) (use assms in \<open>auto simp: txn_def\<close>)
  then show ?thesis using assms by (simp add: txn_def ids_match_def keyed_upd_at)
qed

lemma txn_upd_virtual_kept [simp]:
  "txn s0 im \<Longrightarrow> k \<in> touched_virtuals im \<Longrightarrow>
   (\<And>r. om_find (st_virtuals (im_state im)) k = Some r \<Longrightarrow> va_id (f r) = va_id r \<and> va_state (f r) = va_state r) \<Longrightarrow>
   txn s0 (upd_virtual k f im)"
  by (rule txn_upd_virtual) (auto intro: lifecycle_path.here)

lemma txn_put_virtual:
  assumes "txn s0 im" and "k \<in> touched_virtuals im" and "va_id v = k"
    and "om_find (st_virtuals (im_state im)) k = None" and "va_state v = LC_Provisioned"
  shows "txn s0 (put_virtual k v im)"
proof -
  have "lifecycle_flow s0 (im_state (put_virtual k v im))"
    by (rule lifecycle_flow_put [where s = "im_state im" and k = k and v = v]) (use assms in \<open>auto simp: txn_def\<close>)
  then show ?thesis using assms by (simp add: txn_def ids_match_def keyed_put)
qed

section \<open>Helpers keep the contract\<close>

text \<open>Updating an absent key does nothing.\<close>

lemma om_upd_absent: "om_find m k = None \<Longrightarrow> om_upd k f m = m"
  unfolding om_find_def om_upd_def by (induction m) (auto split: if_splits)

lemma upd_virtual_absent: "om_find (st_virtuals (im_state im)) k = None \<Longrightarrow> upd_virtual k f im = im"
  by (simp add: upd_virtual_def upd_state_def om_upd_absent)

lemma the_virtual_id:
  "ids_match (im_state im) \<Longrightarrow> om_find (st_virtuals (im_state im)) k \<noteq> None \<Longrightarrow> va_id (the_virtual im k) = k"
  by (auto dest: ids_match_virtual)

lemma txn_fence_lease: "txn s0 (snd acc) \<Longrightarrow> txn s0 (snd (fence_lease reason now k acc))"
  by (simp add: fence_lease_def split: option.split)

lemma txn_fence_lease_fold: "txn s0 (snd acc) \<Longrightarrow> txn s0 (snd (fold (fence_lease reason now) ks acc))"
  by (induction ks arbitrary: acc) (simp_all add: txn_fence_lease)

lemma txn_release_tenant [simp]: "txn s0 im \<Longrightarrow> txn s0 (release_tenant_attachments owner live now im)"
  by (simp add: release_tenant_attachments_def split: option.split)

lemma txn_fence_leases [simp]:
  assumes "txn s0 im"
  shows "txn s0 (snd (fence_leases k reason now im))"
proof -
  let ?im1 = "snd (fold (fence_lease reason now) (va_leases (the_virtual im k)) (0, im))"
  have 1: "txn s0 ?im1" using txn_fence_lease_fold [of s0 "(0, im)"] assms by simp
  have "txn s0 (upd_virtual k (\<lambda>r. r\<lparr> va_active_attachments := 0 \<rparr>) (touch_virtual (va_id (the_virtual im k)) ?im1))"
  proof (cases "om_find (st_virtuals (im_state im)) k")
    case None
    then show ?thesis using 1 by (subst upd_virtual_absent) simp_all
  next
    case (Some r)
    then have "va_id (the_virtual im k) = k" using assms by (auto simp: txn_def dest: ids_match_virtual)
    then show ?thesis using 1 by simp
  qed
  with 1 show ?thesis by (simp add: fence_leases_def Let_def split_beta)
qed

lemma fence_leases_touched [simp]: "x \<in> touched_virtuals im \<Longrightarrow> x \<in> touched_virtuals (snd (fence_leases k reason now im))"
  using fence_leases_undo by blast

lemma fence_leases_tenants_touched [simp]:
  "x \<in> touched_tenants im \<Longrightarrow> x \<in> touched_tenants (snd (fence_leases k reason now im))"
  by (auto simp: fence_leases_def Let_def split_beta release_tenant_attachments_def split: option.split)

lemma txn_carry_lease: "txn s0 im \<Longrightarrow> txn s0 (carry_lease g k im)"
  by (simp add: carry_lease_def split: option.split)

lemma txn_carry_fold: "txn s0 im \<Longrightarrow> txn s0 (fold (carry_lease g) ks im)"
  by (induction ks arbitrary: im) (simp_all add: txn_carry_lease)

text \<open>The assignment block of a state change, when the change is legal.\<close>

lemma txn_enter_state:
  "txn s0 im \<Longrightarrow> k \<in> touched_virtuals im \<Longrightarrow>
   (\<And>r. om_find (st_virtuals (im_state im)) k = Some r \<Longrightarrow> target \<in> set (lifecycle_edges (va_state r))) \<Longrightarrow>
   txn s0 (upd_virtual k (enter_state target reason now) im)"
  by (rule txn_upd_virtual) (auto intro: lifecycle_path_edge)

lemma txn_transition [simp]:
  assumes "txn s0 im"
  shows "txn s0 (snd (transition e k target reason im))"
proof (cases "om_find (st_virtuals (im_state im)) k")
  case None
  then show ?thesis using assms
    by (auto simp: transition_def Let_def upd_virtual_absent intro!: txn_carry_fold)
next
  case (Some r)
  then have "va_id r = k" using assms by (auto simp: txn_def dest: ids_match_virtual)
  then have "txn s0 (upd_virtual k (enter_state target reason (env_now e)) (touch_virtual k im))"
    if "target \<in> set (lifecycle_edges (va_state r))"
    by (intro txn_enter_state) (use that assms Some in auto)
  then show ?thesis using assms Some \<open>va_id r = k\<close> by (auto simp: transition_def Let_def intro!: txn_carry_fold)
qed

lemma transition_touched [simp]: "x \<in> touched_virtuals im \<Longrightarrow> x \<in> touched_virtuals (snd (transition e k target reason im))"
  using transition_undo by blast

lemma txn_rebuild [simp]: "txn s0 (snd (rebuild_projection r im)) = txn s0 im"
  by (simp add: rebuild_projection_def Let_def split_beta)

lemma txn_rebuild_at [simp]: "txn s0 im \<Longrightarrow> k \<in> touched_virtuals im \<Longrightarrow> txn s0 (rebuild_projection_at k im)"
  unfolding rebuild_projection_at_def Let_def split_beta
  by (rule txn_upd_virtual_kept) auto

lemma txn_recompute [simp]: "txn s0 (recompute_derived_accounting im) = txn s0 im"
  by (simp add: recompute_derived_accounting_def)

lemma txn_sequence [simp]: "txn s0 (im\<lparr> im_state := (im_state im)\<lparr> st_next_sequence := n \<rparr> \<rparr>) = txn s0 im"
  by (simp add: txn_def covers_def logs_kept_def ids_match_def lifecycle_flow_def va_states_def)

section \<open>Sound operations\<close>

definition op_sound :: "env \<Rightarrow> impl \<Rightarrow> 'a result \<times> impl \<Rightarrow> bool" where
  "op_sound e im out \<longleftrightarrow> atomic_outcome im out \<and> well_formed (im_state (snd out)) \<and>
    lifecycle_flow (im_state im) (im_state (snd out)) \<and> written_through e (im_state im) (snd out)"

lemma same_entities_well_formed: "same_entities s t \<Longrightarrow> well_formed t = well_formed s"
  by (simp add: well_formed_def same_entities_ids same_entities_maps_sorted)

lemma same_entities_flow: "same_entities t u \<Longrightarrow> lifecycle_flow s u = lifecycle_flow s t"
  by (rule lifecycle_flow_cong) (simp add: same_entities_def)

text \<open>However \<open>finalize\<close> ends, the entities are those of the transaction or those it started from.\<close>

lemma finalize_txn:
  assumes "txn s0 im" and "well_formed s0"
  shows "well_formed (im_state (snd (finalize e c status kind im))) \<and>
    lifecycle_flow s0 (im_state (snd (finalize e c status kind im))) \<and>
    written_through e s0 (snd (finalize e c status kind im))"
proof -
  have c: "covers s0 im" and q: "quiet (im_changes im)" using assms(1) by (simp_all add: txn_def)
  note w = finalize_written_through [OF c q, of e c status kind]
  from finalize_entities [OF c, of e c status kind] consider
    "same_entities (im_state im) (im_state (snd (finalize e c status kind im)))" |
    "same_entities s0 (im_state (snd (finalize e c status kind im)))" by (auto split: if_splits)
  then show ?thesis
  proof cases
    case 1
    then show ?thesis using assms txn_well_formed w
      by (auto simp: same_entities_well_formed [OF 1] same_entities_flow [OF 1] txn_def)
  next
    case 2
    then show ?thesis using assms lifecycle_flow_same w
      by (auto simp: same_entities_well_formed [OF 2])
  qed
qed

lemma sound_refuse:
  assumes "txn (im_state im) im1" and "well_formed (im_state im)"
    and "same_entities (im_state im) (im_state im1)" and "status \<noteq> SC_Ok"
  shows "op_sound e im (refuse e c status im1)"
proof -
  have "atomic_outcome im (refuse e c status im1 :: 'a result \<times> impl)"
    by (rule atomic_refuse) (use assms in \<open>auto simp: txn_def\<close>)
  then show ?thesis using finalize_txn [OF assms(1,2)] by (simp add: op_sound_def refuse_def split_beta)
qed

lemma sound_accept:
  assumes "txn (im_state im) im1" and "well_formed (im_state im)"
  shows "op_sound e im (accept e c kind v im1)"
proof -
  have "atomic_outcome im (accept e c kind v im1)" by (rule atomic_accept) (use assms in \<open>simp add: txn_def\<close>)
  then show ?thesis using finalize_txn [OF assms] by (simp add: op_sound_def accept_def split_beta)
qed

lemma sound_refuse_begin:
  "well_formed (im_state im) \<Longrightarrow> status \<noteq> SC_Ok \<Longrightarrow> op_sound e im (refuse e c status (begin_op im))"
  by (rule sound_refuse) simp_all

lemma sound_query: "well_formed (im_state im) \<Longrightarrow> (\<And>c. fst out = Inl c \<Longrightarrow> c \<noteq> SC_Ok) \<Longrightarrow> snd out = im \<Longrightarrow> op_sound e im out"
  by (auto simp: op_sound_def atomic_outcome_def lifecycle_flow_refl written_through_def split: sum.split)

end
