(* ===== verification/AV_Virtual.thy ===== *)
theory AV_Virtual
  imports AV_Transaction
begin

text \<open>
  Virtual accelerators (\<open>src/runtime.cpp\<close>, \<open>create_virtual\<close> to \<open>retire_virtual\<close>): creation, contract
  replacement, and the lifecycle operations activate, drain, resolve_recovery, suspend, resume, fence
  and retire. Each operation is its guard, its effect on the open transaction, and the handler.

  Proved: a failing operation changes no entity; every successful one moves each virtual accelerator
  along an edge of the lifecycle table; what retirement and suspension release.
\<close>

section \<open>Shared pieces\<close>

definition basic_checks :: "authority \<Rightarrow> impl \<Rightarrow> status_code" where
  "basic_checks auth im = first_error [guard_store im, check_epoch auth im, check_policy auth im]"

definition request_checks :: "authority \<Rightarrow> impl \<Rightarrow> status_code" where
  "request_checks auth im =
    first_error [guard_store im, check_epoch auth im, check_policy auth im, check_request auth im]"

text \<open>Withdraw the authority of an assignment, if it has any.\<close>

definition revoke_assignment :: "as_id \<Rightarrow> string \<Rightarrow> micros \<Rightarrow> impl \<Rightarrow> impl" where
  "revoke_assignment a reason now im =
    (if \<not> id_valid a then im
     else case om_find (st_assignments (im_state im)) a of None \<Rightarrow> im
       | Some x \<Rightarrow>
         if \<not> as_authoritative x then im
         else run_steps
           [touch_assignment a,
            upd_assignment a (\<lambda>x. x\<lparr> as_authoritative := False, as_state := Asg_Revoked, as_revoked_at := now,
              as_reason := reason \<rparr>),
            upd_accounting (\<lambda>c. c\<lparr> ac_backing_revocations := ac_backing_revocations c + 1 \<rparr>)] im)"

definition release_backing :: "bk_id \<Rightarrow> impl \<Rightarrow> impl" where
  "release_backing b im =
    (case om_find (st_backings (im_state im)) b of None \<Rightarrow> im
     | Some _ \<Rightarrow> upd_backing b (\<lambda>x. x\<lparr> bk_assigned_to := no_id, bk_active_assignment := no_id \<rparr>) (touch_backing b im))"

definition unbind :: "virtual_record \<Rightarrow> virtual_record" where
  "unbind r = r
    \<lparr> va_assignment := no_id, va_backing := no_id, va_backing_class := BC_Unknown, va_multiplexing := MX_None,
      va_isolation_class := IC_Unknown, va_isolation := [] \<rparr>"

section \<open>Creating\<close>

definition txt_create_virtual :: string where "txt_create_virtual = ''create_virtual''"
definition txt_provisioned :: string where
  "txt_provisioned = ''provisioned with resource contract and capability projection''"

definition contract_within_policy :: "resource_contract \<Rightarrow> virtualization_policy \<Rightarrow> status_code" where
  "contract_within_policy c policy = first_error
    [refuse_if (rc_memory_ceiling_bytes c > pol_max_memory_ceiling_bytes policy) SC_PolicyViolation,
     refuse_if (rc_compute_share_milli c > pol_max_compute_share_milli policy) SC_PolicyViolation]"

definition create_virtual_guard ::
  "authority \<Rightarrow> string \<Rightarrow> tn_id \<Rightarrow> tn_gen \<Rightarrow> resource_contract \<Rightarrow> impl \<Rightarrow> status_code" where
  "create_virtual_guard auth name owner g contract im = first_error
    [request_checks auth im,
     (case om_find (st_tenants (im_state im)) owner of
        None \<Rightarrow> SC_NotFound
      | Some t \<Rightarrow> first_error [refuse_if (tn_generation t \<noteq> g) SC_StaleTenant, refuse_if (tn_fenced t) SC_TenantFenced]),
     refuse_if (name = []) SC_InvalidArgument,
     refuse_if (length name > 256) SC_InvalidArgument,
     contract_validate (contract_normalize contract),
     contract_within_policy (contract_normalize contract) (st_policy (im_state im)),
     refuse_if (length (st_virtuals (im_state im)) \<ge> unat (pol_max_virtual_accelerators (st_policy (im_state im))))
       SC_LimitExceeded]"

definition new_virtual ::
  "env \<Rightarrow> string \<Rightarrow> tn_id \<Rightarrow> tn_gen \<Rightarrow> resource_contract \<Rightarrow> u64 \<Rightarrow> u64 \<Rightarrow> vstate \<Rightarrow> virtual_record" where
  "new_virtual e name owner g contract n m s = blank_virtual
    \<lparr> va_id := Ident n, va_generation := gen_initial, va_name := name, va_owner := owner,
      va_owner_generation := g,
      va_contract := contract\<lparr> rc_id := Ident m, rc_generation := gen_initial \<rparr>,
      va_policy_generation := st_policy_generation s, va_epoch := st_epoch s,
      va_created_at := env_now e, va_updated_at := env_now e,
      va_state := LC_Provisioned, va_state_generation := gen_initial, va_state_reason := txt_provisioned \<rparr>"

definition create_virtual_effect ::
  "env \<Rightarrow> string \<Rightarrow> tn_id \<Rightarrow> tn_gen \<Rightarrow> resource_contract \<Rightarrow> impl \<Rightarrow> virtual_record \<times> impl" where
  "create_virtual_effect e name owner g contract im =
    (let (n, im1) = next_id im; (m, im2) = next_id im1;
         r0 = new_virtual e name owner g (contract_normalize contract) n m (im_state im);
         (r, im3) = rebuild_projection r0 (touch_virtual (va_id r0) im2)
     in (r, run_steps
       [put_virtual (va_id r) r,
        touch_tenant (tn_id (the_tenant im owner)),
        upd_tenant owner (\<lambda>t. t\<lparr> tn_owned := sort (tn_owned t @ [va_id r]), tn_updated_at := env_now e \<rparr>),
        upd_accounting (\<lambda>a. a\<lparr> ac_virtual_created := ac_virtual_created a + 1,
          ac_virtual_active := ac_virtual_active a + 1 \<rparr>),
        touch_header] im3))"

definition create_virtual ::
  "env \<Rightarrow> authority \<Rightarrow> string \<Rightarrow> tn_id \<Rightarrow> tn_gen \<Rightarrow> resource_contract \<Rightarrow> impl \<Rightarrow> virtual_record result \<times> impl" where
  "create_virtual e auth name owner g contract im0 =
    (let ctx = op_context_of txt_create_virtual auth; im = begin_op im0;
         status = create_virtual_guard auth name owner g contract im in
     if status \<noteq> SC_Ok then refuse e ctx status im
     else let (r, im1) = create_virtual_effect e name owner g contract im
       in accept e (adopt_virtual r ctx) AK_Mutation r im1)"

section \<open>Replacing the contract\<close>

definition txt_update_contract :: string where "txt_update_contract = ''update_contract''"

definition update_contract_guard :: "authority \<Rightarrow> resource_contract \<Rightarrow> impl \<Rightarrow> virtual_record result" where
  "update_contract_guard auth contract im =
    (case resolve_owned (request_checks auth im) auth im of
       Inl c \<Rightarrow> Inl c
     | Inr (t, r) \<Rightarrow>
       (let status = first_error
          [require_mutable r, contract_validate contract, contract_within_policy contract (st_policy (im_state im))]
        in if status \<noteq> SC_Ok then Inl status else Inr r))"

text \<open>The replacement contract is tried against the current backing before anything changes; the trial
  draws an identity from the sequence.\<close>

definition probe_contract :: "virtual_record \<Rightarrow> resource_contract \<Rightarrow> impl \<Rightarrow> status_code \<times> impl" where
  "probe_contract r contract im =
    (case om_find (st_backings (im_state im)) (va_backing r) of
       None \<Rightarrow> (SC_Ok, im)
     | Some b \<Rightarrow>
       (let (n, im1) = next_id im;
            probe = r\<lparr> va_contract := contract\<lparr> rc_id := Ident n, rc_generation := gen_next (rc_generation (va_contract r)) \<rparr> \<rparr>
        in (validate_backing_for b (physical_of im b) probe (st_policy (im_state im)) (im_state im1), im1)))"

text \<open>The generation of the stored contract is the successor of the generation the caller sent
  along: the assignment \<open>target.contract = contract\<close> precedes \<open>target.contract.generation.next()\<close>.\<close>

definition replace_contract :: "env \<Rightarrow> resource_contract \<Rightarrow> u64 \<Rightarrow> virtual_record \<Rightarrow> virtual_record" where
  "replace_contract e contract n r = r
    \<lparr> va_contract := contract\<lparr> rc_id := Ident n, rc_generation := gen_next (rc_generation contract) \<rparr>,
      va_generation := gen_next (va_generation r), va_updated_at := env_now e \<rparr>"

definition update_contract_effect :: "env \<Rightarrow> va_id \<Rightarrow> resource_contract \<Rightarrow> impl \<Rightarrow> impl" where
  "update_contract_effect e k contract im =
    (let (n, im1) = next_id (touch_virtual k im)
     in rebuild_projection_at k (upd_virtual k (replace_contract e contract n) im1))"

definition update_contract :: "env \<Rightarrow> authority \<Rightarrow> resource_contract \<Rightarrow> impl \<Rightarrow> virtual_record result \<times> impl" where
  "update_contract e auth contract0 im0 =
    (let ctx = op_context_of txt_update_contract auth; im = begin_op im0; contract = contract_normalize contract0 in
     case update_contract_guard auth contract im of
       Inl status \<Rightarrow> refuse e ctx status im
     | Inr r \<Rightarrow>
       (let (compatible, im1) = probe_contract r contract im in
        if compatible \<noteq> SC_Ok then refuse e (adopt_virtual r ctx) compatible im1
        else let im2 = update_contract_effect e (va_id r) contract im1; r' = the_virtual im2 (va_id r)
          in accept e (adopt_virtual r' ctx) AK_Mutation r' im2))"

section \<open>Single transitions\<close>

text \<open>The tail shared by the lifecycle operations: transition, then refuse or finish.\<close>

definition transition_or_refuse ::
  "env \<Rightarrow> op_context \<Rightarrow> va_id \<Rightarrow> lifecycle \<Rightarrow> string \<Rightarrow> audit_kind \<Rightarrow> (impl \<Rightarrow> impl) \<Rightarrow> impl \<Rightarrow>
   virtual_record result \<times> impl" where
  "transition_or_refuse e ctx k target reason kind after im =
    (let (status, im1) = transition e k target reason im in
     if status \<noteq> SC_Ok then refuse e ctx status im1
     else let im2 = after im1; r' = the_virtual im2 k in accept e (adopt_virtual r' ctx) kind r' im2)"

definition simple_transition ::
  "env \<Rightarrow> authority \<Rightarrow> op_context \<Rightarrow> lifecycle \<Rightarrow> string \<Rightarrow> audit_kind \<Rightarrow> impl \<Rightarrow> virtual_record result \<times> impl" where
  "simple_transition e auth ctx target reason kind im =
    (case resolve_owned (request_checks auth im) auth im of
       Inl c \<Rightarrow> refuse e ctx c im
     | Inr (t, r) \<Rightarrow>
       if require_mutable r \<noteq> SC_Ok then refuse e ctx (require_mutable r) im
       else transition_or_refuse e (adopt_virtual r ctx) (va_id r) target reason kind (\<lambda>im. im) im)"

definition txt_drain :: string where "txt_drain = ''drain''"

definition drain :: "env \<Rightarrow> authority \<Rightarrow> string \<Rightarrow> impl \<Rightarrow> virtual_record result \<times> impl" where
  "drain e auth reason im0 =
    simple_transition e auth (op_context_of txt_drain auth) LC_Draining reason AK_LifecycleChange (begin_op im0)"

definition txt_activate :: string where "txt_activate = ''activate''"
definition txt_activated :: string where "txt_activated = ''activated''"

definition activation_status :: "virtual_record \<Rightarrow> impl \<Rightarrow> status_code" where
  "activation_status r im =
    (if va_state r = LC_Active then SC_InvalidTransition
     else if va_state r \<noteq> LC_Attached then SC_NotAttached
     else if \<not> id_valid (va_backing r) then SC_BackingUnavailable
     else case om_find (st_assignments (im_state im)) (va_assignment r) of
         None \<Rightarrow> SC_BackingUnavailable
       | Some a \<Rightarrow>
         if \<not> as_authoritative a then SC_BackingUnavailable
         else (case om_find (st_backings (im_state im)) (va_backing r) of
             None \<Rightarrow> SC_BackingUnavailable
           | Some b \<Rightarrow> if \<not> bk_available b then SC_BackingUnavailable else SC_Ok))"

definition owned_guard :: "authority \<Rightarrow> (virtual_record \<Rightarrow> impl \<Rightarrow> status_code) \<Rightarrow> impl \<Rightarrow> virtual_record result" where
  "owned_guard auth extra im =
    (case resolve_owned (basic_checks auth im) auth im of
       Inl c \<Rightarrow> Inl c
     | Inr (t, r) \<Rightarrow> if extra r im \<noteq> SC_Ok then Inl (extra r im) else Inr r)"

definition activate :: "env \<Rightarrow> authority \<Rightarrow> impl \<Rightarrow> virtual_record result \<times> impl" where
  "activate e auth im0 =
    (let ctx = op_context_of txt_activate auth; im = begin_op im0 in
     case owned_guard auth (\<lambda>r im. first_error [require_mutable r, activation_status r im]) im of
       Inl status \<Rightarrow> refuse e ctx status im
     | Inr r \<Rightarrow> transition_or_refuse e (adopt_virtual r ctx) (va_id r) LC_Active txt_activated AK_LifecycleChange
         recompute_derived_accounting im)"

definition txt_resolve_recovery :: string where "txt_resolve_recovery = ''resolve_recovery''"

definition resolve_recovery :: "env \<Rightarrow> authority \<Rightarrow> string \<Rightarrow> impl \<Rightarrow> virtual_record result \<times> impl" where
  "resolve_recovery e auth reason im0 =
    (let ctx = op_context_of txt_resolve_recovery auth; im = begin_op im0 in
     case owned_guard auth (\<lambda>r im. refuse_if (va_state r \<noteq> LC_RecoveryRequired) SC_InvalidTransition) im of
       Inl status \<Rightarrow> refuse e ctx status im
     | Inr r \<Rightarrow> transition_or_refuse e (adopt_virtual r ctx) (va_id r) LC_Suspended reason AK_LifecycleChange
         (\<lambda>im. im) im)"

definition txt_resume :: string where "txt_resume = ''resume''"

definition resume :: "env \<Rightarrow> authority \<Rightarrow> string \<Rightarrow> impl \<Rightarrow> virtual_record result \<times> impl" where
  "resume e auth reason im0 =
    (let ctx = op_context_of txt_resume auth; im = begin_op im0 in
     case owned_guard auth (\<lambda>r im. refuse_if (va_state r \<noteq> LC_Suspended) SC_InvalidTransition) im of
       Inl status \<Rightarrow> refuse e ctx status im
     | Inr r \<Rightarrow> transition_or_refuse e (adopt_virtual r ctx) (va_id r) LC_Provisioned reason AK_LifecycleChange
         recompute_derived_accounting im)"

section \<open>Suspending\<close>

definition txt_suspend :: string where "txt_suspend = ''suspend''"
definition txt_suspended :: "string \<Rightarrow> string" where
  "txt_suspended reason = ''virtual accelerator suspended: '' @ reason"

definition suspend_status :: "virtual_record \<Rightarrow> status_code" where
  "suspend_status r =
    (if va_active_attachments r \<noteq> 0 then SC_Draining
     else if va_state r \<noteq> LC_Provisioned \<and> va_state r \<noteq> LC_Draining then SC_InvalidTransition
     else if \<not> id_valid (va_assignment r) \<and> va_state r \<noteq> LC_Draining then SC_InvalidTransition
     else SC_Ok)"

definition suspend_record :: "virtual_record \<Rightarrow> virtual_record" where
  "suspend_record r =
    unbind (r\<lparr> va_backing_history := map (\<lambda>h. h\<lparr> bh_current := False \<rparr>) (va_backing_history r) \<rparr>)"

definition suspend_effect :: "env \<Rightarrow> virtual_record \<Rightarrow> string \<Rightarrow> impl \<Rightarrow> impl" where
  "suspend_effect e r reason = run_steps
    [revoke_assignment (va_assignment r) (txt_suspended reason) (env_now e),
     release_backing (va_backing r),
     touch_virtual (va_id r),
     upd_virtual (va_id r) suspend_record,
     rebuild_projection_at (va_id r)]"

definition suspend :: "env \<Rightarrow> authority \<Rightarrow> string \<Rightarrow> impl \<Rightarrow> virtual_record result \<times> impl" where
  "suspend e auth reason im0 =
    (let ctx = op_context_of txt_suspend auth; im = begin_op im0 in
     case owned_guard auth (\<lambda>r im. first_error [require_mutable r, suspend_status r]) im of
       Inl status \<Rightarrow> refuse e ctx status im
     | Inr r \<Rightarrow> transition_or_refuse e (adopt_virtual r ctx) (va_id r) LC_Suspended reason AK_LifecycleChange
         recompute_derived_accounting (suspend_effect e r reason im))"

section \<open>Fencing\<close>

definition txt_fence_virtual :: string where "txt_fence_virtual = ''fence_virtual''"
definition txt_virtual_fenced :: "string \<Rightarrow> string" where
  "txt_virtual_fenced reason = ''virtual accelerator fenced: '' @ reason"

definition fence_virtual_effect :: "env \<Rightarrow> virtual_record \<Rightarrow> string \<Rightarrow> impl \<Rightarrow> impl" where
  "fence_virtual_effect e r reason = run_steps
    [(\<lambda>im. snd (fence_leases (va_id r) (txt_virtual_fenced reason) (env_now e) im)),
     touch_virtual (va_id r)]"

definition fence_virtual :: "env \<Rightarrow> authority \<Rightarrow> string \<Rightarrow> impl \<Rightarrow> virtual_record result \<times> impl" where
  "fence_virtual e auth reason im0 =
    (let ctx = op_context_of txt_fence_virtual auth; im = begin_op im0 in
     case owned_guard auth (\<lambda>r im. refuse_if (va_state r = LC_Retired) SC_VirtualRetired) im of
       Inl status \<Rightarrow> refuse e ctx status im
     | Inr r \<Rightarrow> transition_or_refuse e (adopt_virtual r ctx) (va_id r) LC_Fenced reason AK_LifecycleChange
         recompute_derived_accounting (fence_virtual_effect e r reason im))"

section \<open>Retiring\<close>

definition txt_retire_virtual :: string where "txt_retire_virtual = ''retire_virtual''"
definition txt_virtual_retired :: string where "txt_virtual_retired = ''virtual accelerator retired''"

definition close_history :: "micros \<Rightarrow> backing_history \<Rightarrow> backing_history" where
  "close_history now h = h\<lparr> bh_current := False, bh_to := (if bh_to h = 0 then now else bh_to h) \<rparr>"

definition retire_record :: "env \<Rightarrow> string \<Rightarrow> virtual_record \<Rightarrow> virtual_record" where
  "retire_record e reason r =
    unbind (r\<lparr> va_backing_history := map (close_history (env_now e)) (va_backing_history r),
      va_active_attachments := 0, va_retired_at := env_now e, va_retirement_reason := reason \<rparr>)"

definition retire_effect :: "env \<Rightarrow> virtual_record \<Rightarrow> string \<Rightarrow> impl \<Rightarrow> impl" where
  "retire_effect e r reason = run_steps
    [(\<lambda>im. snd (fence_leases (va_id r) txt_virtual_retired (env_now e) im)),
     (\<lambda>im. touch_tenant (tn_id (the_tenant im (va_owner r))) im),
     upd_tenant (va_owner r) (\<lambda>t. t\<lparr> tn_owned := filter (\<lambda>x. x \<noteq> va_id r) (tn_owned t) \<rparr>),
     revoke_assignment (va_assignment r) txt_virtual_retired (env_now e),
     release_backing (va_backing r),
     touch_virtual (va_id r),
     upd_virtual (va_id r) (retire_record e reason),
     rebuild_projection_at (va_id r)]"

definition retire_virtual :: "env \<Rightarrow> authority \<Rightarrow> string \<Rightarrow> impl \<Rightarrow> virtual_record result \<times> impl" where
  "retire_virtual e auth reason im0 =
    (let ctx = op_context_of txt_retire_virtual auth; im = begin_op im0 in
     case owned_guard auth (\<lambda>r im. refuse_if (va_state r = LC_Retired) SC_VirtualRetired) im of
       Inl status \<Rightarrow> refuse e ctx status im
     | Inr r \<Rightarrow> transition_or_refuse e (adopt_virtual r ctx) (va_id r) LC_Retired reason AK_LifecycleChange
         (run_steps [upd_accounting (\<lambda>a. a\<lparr> ac_virtual_retired := ac_virtual_retired a + 1 \<rparr>),
           recompute_derived_accounting])
         (retire_effect e r reason im))"

section \<open>Effects and the undo log\<close>

lemma revoke_frame [simp]:
  "st_schema (im_state (revoke_assignment a reason now im)) = st_schema (im_state (im))"
  "st_next_sequence (im_state (revoke_assignment a reason now im)) = st_next_sequence (im_state (im))"
  "st_epoch (im_state (revoke_assignment a reason now im)) = st_epoch (im_state (im))"
  "st_policy (im_state (revoke_assignment a reason now im)) = st_policy (im_state (im))"
  "st_policy_generation (im_state (revoke_assignment a reason now im)) = st_policy_generation (im_state (im))"
  "st_tenants (im_state (revoke_assignment a reason now im)) = st_tenants (im_state (im))"
  "st_physical (im_state (revoke_assignment a reason now im)) = st_physical (im_state (im))"
  "st_backings (im_state (revoke_assignment a reason now im)) = st_backings (im_state (im))"
  "st_virtuals (im_state (revoke_assignment a reason now im)) = st_virtuals (im_state (im))"
  "st_leases (im_state (revoke_assignment a reason now im)) = st_leases (im_state (im))"
  "st_migrations (im_state (revoke_assignment a reason now im)) = st_migrations (im_state (im))"
  "st_evidence (im_state (revoke_assignment a reason now im)) = st_evidence (im_state (im))"
  "st_audit (im_state (revoke_assignment a reason now im)) = st_audit (im_state (im))"
  "st_decisions (im_state (revoke_assignment a reason now im)) = st_decisions (im_state (im))"
  "st_requests (im_state (revoke_assignment a reason now im)) = st_requests (im_state (im))"
  by (simp_all add: revoke_assignment_def split: option.split)

lemma release_frame [simp]:
  "st_schema (im_state (release_backing b im)) = st_schema (im_state (im))"
  "st_next_sequence (im_state (release_backing b im)) = st_next_sequence (im_state (im))"
  "st_epoch (im_state (release_backing b im)) = st_epoch (im_state (im))"
  "st_policy (im_state (release_backing b im)) = st_policy (im_state (im))"
  "st_policy_generation (im_state (release_backing b im)) = st_policy_generation (im_state (im))"
  "st_tenants (im_state (release_backing b im)) = st_tenants (im_state (im))"
  "st_physical (im_state (release_backing b im)) = st_physical (im_state (im))"
  "st_virtuals (im_state (release_backing b im)) = st_virtuals (im_state (im))"
  "st_leases (im_state (release_backing b im)) = st_leases (im_state (im))"
  "st_assignments (im_state (release_backing b im)) = st_assignments (im_state (im))"
  "st_migrations (im_state (release_backing b im)) = st_migrations (im_state (im))"
  "st_evidence (im_state (release_backing b im)) = st_evidence (im_state (im))"
  "st_accounting (im_state (release_backing b im)) = st_accounting (im_state (im))"
  "st_audit (im_state (release_backing b im)) = st_audit (im_state (im))"
  "st_decisions (im_state (release_backing b im)) = st_decisions (im_state (im))"
  "st_requests (im_state (release_backing b im)) = st_requests (im_state (im))"
  by (simp_all add: release_backing_def split: option.split)

lemma revoke_undo [simp]:
  "un_virtuals (im_undo (revoke_assignment a reason now im)) = un_virtuals (im_undo im)"
  "un_tenants (im_undo (revoke_assignment a reason now im)) = un_tenants (im_undo im)"
  by (simp_all add: revoke_assignment_def split: option.split)

lemma release_undo [simp]:
  "un_virtuals (im_undo (release_backing b im)) = un_virtuals (im_undo im)"
  "un_tenants (im_undo (release_backing b im)) = un_tenants (im_undo im)"
  by (simp_all add: release_backing_def split: option.split)

text \<open>A revoked assignment holds no authority; the others are as before.\<close>

lemma revoke_find:
  "om_find (st_assignments (im_state (revoke_assignment a reason now im))) x =
    (if x = a \<and> id_valid a
     then map_option (\<lambda>y. if as_authoritative y then y\<lparr> as_authoritative := False, as_state := Asg_Revoked,
       as_revoked_at := now, as_reason := reason \<rparr> else y) (om_find (st_assignments (im_state im)) x)
     else om_find (st_assignments (im_state im)) x)"
  by (auto simp: revoke_assignment_def split: option.split)

lemma release_find:
  "om_find (st_backings (im_state (release_backing b im))) x =
    (if x = b then map_option (\<lambda>y. y\<lparr> bk_assigned_to := no_id, bk_active_assignment := no_id \<rparr>)
       (om_find (st_backings (im_state im)) x)
     else om_find (st_backings (im_state im)) x)"
  by (auto simp: release_backing_def split: option.split)

lemma unbind_simps [simp]:
  "va_state (unbind r) = va_state r" "va_id (unbind r) = va_id r" "va_leases (unbind r) = va_leases r"
  "va_assignment (unbind r) = no_id" "va_backing (unbind r) = no_id" "va_generation (unbind r) = va_generation r"
  by (simp_all add: unbind_def)

lemma suspend_record_simps [simp]:
  "va_state (suspend_record r) = va_state r" "va_id (suspend_record r) = va_id r"
  "va_assignment (suspend_record r) = no_id" "va_backing (suspend_record r) = no_id"
  by (simp_all add: suspend_record_def)

lemma retire_record_simps [simp]:
  "va_state (retire_record e reason r) = va_state r" "va_id (retire_record e reason r) = va_id r"
  "va_assignment (retire_record e reason r) = no_id" "va_backing (retire_record e reason r) = no_id"
  by (simp_all add: retire_record_def)

section \<open>The shared tail\<close>

lemma txn_revoke [simp]: "txn s0 im \<Longrightarrow> txn s0 (revoke_assignment a reason now im)"
  by (simp add: revoke_assignment_def split: option.split)

lemma txn_release [simp]: "txn s0 im \<Longrightarrow> txn s0 (release_backing b im)"
  by (simp add: release_backing_def split: option.split)

lemma transition_or_refuse_sound:
  assumes "txn (im_state im0) im" and "well_formed (im_state im0)"
    and "target \<notin> set (lifecycle_edges (va_state (the_virtual im k))) \<Longrightarrow> same_entities (im_state im0) (im_state im)"
    and "\<And>im. txn (im_state im0) im \<Longrightarrow> txn (im_state im0) (after im)"
  shows "op_sound e im0 (transition_or_refuse e ctx k target reason kind after im)"
proof (cases "fst (transition e k target reason im) = SC_Ok")
  case True
  then show ?thesis using assms
    by (auto simp: transition_or_refuse_def split_beta Let_def intro!: sound_accept)
next
  case False
  then have "target \<notin> set (lifecycle_edges (va_state (the_virtual im k)))" by (simp add: transition_status)
  with assms(3) have "same_entities (im_state im0) (im_state im)" by blast
  with False assms show ?thesis
    by (auto simp: transition_or_refuse_def split_beta Let_def transition_refused intro!: sound_refuse)
qed

lemma transition_or_refuse_success:
  assumes "fst (transition_or_refuse e ctx k target reason kind after im) = Inr v"
    and "txn s0 im" and "\<And>im. txn s0 im \<Longrightarrow> txn s0 (after im)"
  shows "target \<in> set (lifecycle_edges (va_state (the_virtual im k))) \<and>
    v = the_virtual (after (snd (transition e k target reason im))) k \<and>
    same_entities (im_state (after (snd (transition e k target reason im))))
      (im_state (snd (transition_or_refuse e ctx k target reason kind after im)))"
proof -
  have ok: "fst (transition e k target reason im) = SC_Ok"
  proof (rule ccontr)
    assume f: "fst (transition e k target reason im) \<noteq> SC_Ok"
    then show False using assms(1) by (simp add: transition_or_refuse_def split_beta Let_def refuse_def)
  qed
  have "covers s0 (after (snd (transition e k target reason im)))"
    using assms(2,3) txn_transition txn_def by blast
  moreover have "target \<in> set (lifecycle_edges (va_state (the_virtual im k)))"
    using ok by (simp add: transition_status)
  ultimately show ?thesis
    using assms(1) accept_entities
    by (fastforce simp: transition_or_refuse_def split_beta Let_def ok)
qed

text \<open>When the steps after the transition leave the virtual accelerators alone, the final state differs
  from the effect by exactly one legal transition of one virtual accelerator.\<close>

lemma transition_or_refuse_step:
  assumes "fst (transition_or_refuse e ctx k target reason kind after im) = Inr v"
    and "txn s0 im" and "\<And>im. txn s0 im \<Longrightarrow> txn s0 (after im)"
    and "\<And>im. st_virtuals (im_state (after im)) = st_virtuals (im_state im)"
  shows "target \<in> set (lifecycle_edges (va_state (the_virtual im k))) \<and>
    st_virtuals (im_state (snd (transition_or_refuse e ctx k target reason kind after im))) =
      om_upd k (enter_state target reason (env_now e)) (st_virtuals (im_state im)) \<and>
    v = the_virtual (snd (transition_or_refuse e ctx k target reason kind after im)) k"
  using transition_or_refuse_success [OF assms(1-3)] assms(4)
  by (auto simp: same_entities_def transition_virtuals transition_status the_virtual_def)

section \<open>Guards\<close>

lemma owned_guard_ok:
  "owned_guard auth extra im = Inr r \<longleftrightarrow>
    (\<exists>t. resolve_owned (basic_checks auth im) auth im = Inr (t, r)) \<and> extra r im = SC_Ok"
  by (auto simp: owned_guard_def split: sum.splits)

lemma owned_guard_code: "owned_guard auth extra im = Inl c \<Longrightarrow> c \<noteq> SC_Ok"
  by (auto simp: owned_guard_def split: sum.splits if_splits dest: resolve_owned_code)

lemma owned_guard_found:
  assumes "ids_match (im_state im)" and "owned_guard auth extra im = Inr r"
  shows "om_find (st_virtuals (im_state im)) (va_id r) = Some r \<and> extra r im = SC_Ok"
  using assms by (auto simp: owned_guard_ok resolve_owned_ok intro: resolved_virtual)

lemma simple_checks_begin [simp]:
  "basic_checks auth (begin_op im) = basic_checks auth im"
  "request_checks auth (begin_op im) = request_checks auth im"
  by (simp_all add: basic_checks_def request_checks_def)

section \<open>The lifecycle operations as one pattern\<close>

text \<open>Guard, effect, transition. Every lifecycle operation but \<open>drain\<close> is an instance.\<close>

definition guarded_transition ::
  "env \<Rightarrow> authority \<Rightarrow> op_context \<Rightarrow> (virtual_record \<Rightarrow> impl \<Rightarrow> status_code) \<Rightarrow> lifecycle \<Rightarrow> string \<Rightarrow>
   (virtual_record \<Rightarrow> impl \<Rightarrow> impl) \<Rightarrow> (impl \<Rightarrow> impl) \<Rightarrow> impl \<Rightarrow> virtual_record result \<times> impl" where
  "guarded_transition e auth ctx extra target reason eff after im0 =
    (let im = begin_op im0 in
     case owned_guard auth extra im of
       Inl status \<Rightarrow> refuse e ctx status im
     | Inr r \<Rightarrow> transition_or_refuse e (adopt_virtual r ctx) (va_id r) target reason AK_LifecycleChange after (eff r im))"

lemma lifecycle_operations:
  "activate e auth im = guarded_transition e auth (op_context_of txt_activate auth)
     (\<lambda>r im. first_error [require_mutable r, activation_status r im]) LC_Active txt_activated (\<lambda>r im. im)
     recompute_derived_accounting im"
  "resolve_recovery e auth reason im = guarded_transition e auth (op_context_of txt_resolve_recovery auth)
     (\<lambda>r im. refuse_if (va_state r \<noteq> LC_RecoveryRequired) SC_InvalidTransition) LC_Suspended reason (\<lambda>r im. im)
     (\<lambda>im. im) im"
  "resume e auth reason im = guarded_transition e auth (op_context_of txt_resume auth)
     (\<lambda>r im. refuse_if (va_state r \<noteq> LC_Suspended) SC_InvalidTransition) LC_Provisioned reason (\<lambda>r im. im)
     recompute_derived_accounting im"
  "suspend e auth reason im = guarded_transition e auth (op_context_of txt_suspend auth)
     (\<lambda>r im. first_error [require_mutable r, suspend_status r]) LC_Suspended reason (\<lambda>r. suspend_effect e r reason)
     recompute_derived_accounting im"
  "fence_virtual e auth reason im = guarded_transition e auth (op_context_of txt_fence_virtual auth)
     (\<lambda>r im. refuse_if (va_state r = LC_Retired) SC_VirtualRetired) LC_Fenced reason
     (\<lambda>r. fence_virtual_effect e r reason) recompute_derived_accounting im"
  "retire_virtual e auth reason im = guarded_transition e auth (op_context_of txt_retire_virtual auth)
     (\<lambda>r im. refuse_if (va_state r = LC_Retired) SC_VirtualRetired) LC_Retired reason (\<lambda>r. retire_effect e r reason)
     (run_steps [upd_accounting (\<lambda>a. a\<lparr> ac_virtual_retired := ac_virtual_retired a + 1 \<rparr>),
       recompute_derived_accounting]) im"
  by (simp_all only: activate_def resolve_recovery_def resume_def suspend_def fence_virtual_def retire_virtual_def
      guarded_transition_def Let_def)

text \<open>The contract an effect has to honour before the transition: it is undoable and it keeps the lifecycle
  states.\<close>

definition effect_ok :: "vstate \<Rightarrow> impl \<Rightarrow> bool" where
  "effect_ok s0 im \<longleftrightarrow> txn s0 im \<and> states_kept s0 (im_state im)"

lemma effect_ok_state:
  "effect_ok (im_state im0) im \<Longrightarrow> om_find (st_virtuals (im_state im0)) k = Some r \<Longrightarrow>
   va_state (the_virtual im k) = va_state r"
  using states_kept_virtual [of im0 im k r] by (auto simp: effect_ok_def)

lemma guarded_transition_sound:
  assumes "well_formed (im_state im0)"
    and "\<And>r. om_find (st_virtuals (im_state im0)) (va_id r) = Some r \<Longrightarrow> extra r (begin_op im0) = SC_Ok \<Longrightarrow>
      effect_ok (im_state im0) (eff r (begin_op im0)) \<and>
      (target \<notin> set (lifecycle_edges (va_state r)) \<longrightarrow> same_entities (im_state im0) (im_state (eff r (begin_op im0))))"
    and "\<And>im. txn (im_state im0) im \<Longrightarrow> txn (im_state im0) (after im)"
  shows "op_sound e im0 (guarded_transition e auth ctx extra target reason eff after im0)"
proof (cases "owned_guard auth extra (begin_op im0)")
  case (Inl c)
  then show ?thesis
    using sound_refuse_begin [OF assms(1) owned_guard_code [OF Inl]] by (simp add: guarded_transition_def Let_def)
next
  case (Inr r)
  then have r: "om_find (st_virtuals (im_state im0)) (va_id r) = Some r" "extra r (begin_op im0) = SC_Ok"
    using owned_guard_found [of "begin_op im0" auth extra r] assms(1) by (auto simp: well_formed_def)
  note k = assms(2) [OF r]
  have "va_state (the_virtual (eff r (begin_op im0)) (va_id r)) = va_state r"
    using effect_ok_state [of im0] k r by blast
  then show ?thesis
    unfolding guarded_transition_def Let_def Inr sum.case
    by (intro transition_or_refuse_sound) (use k assms in \<open>auto simp: effect_ok_def\<close>)
qed

text \<open>A successful operation was let pass by its guard and took exactly one edge: the accelerator the
  caller named enters the target state, every other one keeps its state.\<close>

definition moved :: "env \<Rightarrow> virtual_record \<Rightarrow> lifecycle \<Rightarrow> vstate \<Rightarrow> vstate \<Rightarrow> bool" where
  "moved e r target s t \<longleftrightarrow> om_find (st_virtuals s) (va_id r) = Some r \<and> is_legal_transition (va_state r) target \<and>
    va_states t = (va_states s)(va_id r \<mapsto> target)"

lemma guarded_transition_moved:
  assumes "well_formed (im_state im0)"
    and "\<And>r. om_find (st_virtuals (im_state im0)) (va_id r) = Some r \<Longrightarrow> extra r (begin_op im0) = SC_Ok \<Longrightarrow>
      effect_ok (im_state im0) (eff r (begin_op im0))"
    and "\<And>im. txn (im_state im0) im \<Longrightarrow> txn (im_state im0) (after im)"
    and "\<And>im. st_virtuals (im_state (after im)) = st_virtuals (im_state im)"
    and "fst (guarded_transition e auth ctx extra target reason eff after im0) = Inr v"
  shows "\<exists>r. owned_guard auth extra (begin_op im0) = Inr r \<and>
    moved e r target (im_state im0) (im_state (snd (guarded_transition e auth ctx extra target reason eff after im0)))"
proof (cases "owned_guard auth extra (begin_op im0)")
  case (Inl c)
  then show ?thesis using assms(5) by (simp add: guarded_transition_def refuse_def split_beta Let_def)
next
  case (Inr r)
  then have r: "om_find (st_virtuals (im_state im0)) (va_id r) = Some r" "extra r (begin_op im0) = SC_Ok"
    using owned_guard_found [of "begin_op im0" auth extra r] assms(1) by (auto simp: well_formed_def)
  note k = assms(2) [OF this]
  let ?im = "eff r (begin_op im0)" and ?out = "snd (guarded_transition e auth ctx extra target reason eff after im0)"
  have eq: "guarded_transition e auth ctx extra target reason eff after im0 =
      transition_or_refuse e (adopt_virtual r ctx) (va_id r) target reason AK_LifecycleChange after ?im"
    by (simp add: guarded_transition_def Let_def Inr)
  have t: "target \<in> set (lifecycle_edges (va_state (the_virtual ?im (va_id r))))"
    "st_virtuals (im_state ?out) = om_upd (va_id r) (enter_state target reason (env_now e)) (st_virtuals (im_state ?im))"
    unfolding eq using transition_or_refuse_step [OF assms(5) [unfolded eq], of "im_state im0"] k assms(3,4)
    by (auto simp: effect_ok_def)
  obtain r' where "om_find (st_virtuals (im_state ?im)) (va_id r) = Some r'"
    using states_kept_virtual [of im0 ?im "va_id r" r] k r by (auto simp: effect_ok_def)
  then have "va_states (im_state ?out) = (va_states (im_state ?im))(va_id r \<mapsto> target)"
    by (auto simp: va_states_def t fun_eq_iff)
  then show ?thesis
    using Inr r t effect_ok_state [of im0 ?im "va_id r" r] k
    by (auto simp: moved_def legal_transition_edges effect_ok_def states_kept_def)
qed

section \<open>The effects honour their contract\<close>

lemma effect_ok_begin: "well_formed (im_state im) \<Longrightarrow> effect_ok (im_state im) (begin_op im)"
  by (simp add: effect_ok_def states_kept_refl)

lemma suspend_effect_ok:
  assumes "well_formed (im_state im)"
  shows "effect_ok (im_state im) (suspend_effect e r reason (begin_op im))"
proof -
  let ?im1 = "upd_virtual (va_id r) suspend_record (touch_virtual (va_id r) (release_backing (va_backing r)
      (revoke_assignment (va_assignment r) (txt_suspended reason) (env_now e) (begin_op im))))"
  have "states_kept (im_state im) (im_state ?im1)"
    by (rule states_kept_upd [where k = "va_id r" and f = suspend_record]) simp_all
  then show ?thesis
    using assms states_kept_trans [OF _ rebuild_at_states] by (simp add: effect_ok_def suspend_effect_def)
qed

lemma fence_virtual_effect_ok:
  "well_formed (im_state im) \<Longrightarrow> effect_ok (im_state im) (fence_virtual_effect e r reason (begin_op im))"
  using fence_leases_states [of "begin_op im" "va_id r" "txt_virtual_fenced reason" "env_now e"]
  by (simp add: effect_ok_def fence_virtual_effect_def)

lemma upd_tenant_absent: "om_find (st_tenants (im_state im)) k = None \<Longrightarrow> upd_tenant k f im = im"
  by (simp add: upd_tenant_def upd_state_def om_upd_absent)

lemma txn_disown:
  assumes "txn s0 im" and "\<And>t. tn_id (f t) = tn_id t"
  shows "txn s0 (upd_tenant k f (touch_tenant (tn_id (the_tenant im k)) im))"
proof (cases "om_find (st_tenants (im_state im)) k")
  case None
  then show ?thesis using assms by (subst upd_tenant_absent) simp_all
next
  case (Some t)
  then have "tn_id (the_tenant im k) = k"
    using assms(1) by (auto simp: the_tenant_def option_or_def txn_def dest: ids_match_tenant)
  then show ?thesis using assms by simp
qed

lemma retire_effect_ok:
  assumes "well_formed (im_state im)"
  shows "effect_ok (im_state im) (retire_effect e r reason (begin_op im))"
proof -
  let ?f = "snd (fence_leases (va_id r) txt_virtual_retired (env_now e) (begin_op im))"
  let ?d = "upd_tenant (va_owner r) (\<lambda>t. t\<lparr> tn_owned := filter (\<lambda>x. x \<noteq> va_id r) (tn_owned t) \<rparr>)
      (touch_tenant (tn_id (the_tenant ?f (va_owner r))) ?f)"
  let ?h = "upd_virtual (va_id r) (retire_record e reason) (touch_virtual (va_id r) (release_backing (va_backing r)
      (revoke_assignment (va_assignment r) txt_virtual_retired (env_now e) ?d)))"
  have "txn (im_state im) ?d" by (rule txn_disown) (use assms in auto)
  then have h: "txn (im_state im) ?h" by simp
  have "states_kept (im_state ?f) (im_state ?h)"
    by (rule states_kept_upd [where k = "va_id r" and f = "retire_record e reason"]) simp_all
  then have "states_kept (im_state im) (im_state ?h)"
    using fence_leases_states [of "begin_op im"] states_kept_trans by fastforce
  with h show ?thesis
    using states_kept_trans [OF _ rebuild_at_states] by (simp add: effect_ok_def retire_effect_def)
qed

text \<open>Fencing an accelerator none of whose leases is live changes no entity before the transition.\<close>

definition no_live_lease :: "vstate \<Rightarrow> va_id \<Rightarrow> bool" where
  "no_live_lease s k \<longleftrightarrow>
    (case om_find (st_virtuals s) k of None \<Rightarrow> True
     | Some r \<Rightarrow> list_all (\<lambda>l. case om_find (st_leases s) l of None \<Rightarrow> True
         | Some x \<Rightarrow> \<not> lease_state_is_live (ls_state x)) (va_leases r))"

lemma fence_fold_dead:
  "list_all (\<lambda>l. case om_find (st_leases (im_state im)) l of None \<Rightarrow> True
     | Some x \<Rightarrow> \<not> lease_state_is_live (ls_state x)) ks \<Longrightarrow>
   fold (fence_lease reason now) ks (n, im) = (n, im)"
  by (induction ks) (auto simp: fence_lease_def split: option.splits)

lemma fence_leases_dead:
  "no_live_lease (im_state im) k \<Longrightarrow> om_find (st_virtuals (im_state im)) k = Some r \<Longrightarrow>
   fence_leases k reason now im = (0, im)"
  by (simp add: no_live_lease_def fence_leases_def fence_fold_dead Let_def)

section \<open>The lifecycle operations are sound\<close>

lemma activate_sound: "well_formed (im_state im) \<Longrightarrow> op_sound e im (activate e auth im)"
  unfolding lifecycle_operations by (rule guarded_transition_sound) (simp_all add: effect_ok_begin)

lemma resolve_recovery_sound: "well_formed (im_state im) \<Longrightarrow> op_sound e im (resolve_recovery e auth reason im)"
  unfolding lifecycle_operations by (rule guarded_transition_sound) (simp_all add: effect_ok_begin)

lemma resume_sound: "well_formed (im_state im) \<Longrightarrow> op_sound e im (resume e auth reason im)"
  unfolding lifecycle_operations by (rule guarded_transition_sound) (simp_all add: effect_ok_begin)

lemma suspend_status_edge: "suspend_status r = SC_Ok \<Longrightarrow> LC_Suspended \<in> set (lifecycle_edges (va_state r))"
  by (auto simp: suspend_status_def split: if_splits)

lemma suspend_sound: "well_formed (im_state im) \<Longrightarrow> op_sound e im (suspend e auth reason im)"
  unfolding lifecycle_operations
  by (rule guarded_transition_sound)
    (use suspend_status_edge in \<open>auto simp: suspend_effect_ok split: if_splits\<close>)

lemma retire_sound: "well_formed (im_state im) \<Longrightarrow> op_sound e im (retire_virtual e auth reason im)"
  unfolding lifecycle_operations
  by (rule guarded_transition_sound)
    (use lifecycle_can_retire in \<open>auto simp: retire_effect_ok legal_transition_edges\<close>)

text \<open>Fencing needs that an accelerator already Fenced has no live lease left: otherwise its leases are
  fenced and the operation then still refuses.\<close>

definition fenced_quiet :: "vstate \<Rightarrow> bool" where
  "fenced_quiet s \<longleftrightarrow> (\<forall>k. va_states s k = Some LC_Fenced \<longrightarrow> no_live_lease s k)"

lemma fence_sound:
  assumes "well_formed (im_state im)" and "fenced_quiet (im_state im)"
  shows "op_sound e im (fence_virtual e auth reason im)"
proof -
  have "same_entities (im_state im) (im_state (fence_virtual_effect e r reason (begin_op im)))"
    if "om_find (st_virtuals (im_state im)) (va_id r) = Some r" and "va_state r \<noteq> LC_Retired"
      and "LC_Fenced \<notin> set (lifecycle_edges (va_state r))" for r
  proof -
    have "va_state r = LC_Fenced" using that(2,3) by (cases "va_state r") simp_all
    then have "no_live_lease (im_state (begin_op im)) (va_id r)"
      using assms(2) that(1) by (simp add: fenced_quiet_def va_states_def)
    then show ?thesis using that(1) by (simp add: fence_virtual_effect_def fence_leases_dead [where r = r])
  qed
  then show ?thesis
    unfolding lifecycle_operations using assms(1)
    by (intro guarded_transition_sound) (auto simp: fence_virtual_effect_ok)
qed

lemma drain_sound:
  assumes "well_formed (im_state im)"
  shows "op_sound e im (drain e auth reason im)"
proof (cases "resolve_owned (request_checks auth im) auth im")
  case (Inl c)
  then show ?thesis
    using assms resolve_owned_code by (auto simp: drain_def simple_transition_def intro!: sound_refuse_begin)
next
  case (Inr p)
  obtain t r where p: "p = (t, r)" by fastforce
  then show ?thesis
    unfolding drain_def simple_transition_def using assms Inr
    by (auto intro!: sound_refuse_begin transition_or_refuse_sound simp del: require_mutable_ok)
qed

lemma txn_create_virtual_effect:
  assumes "txn s0 im" and "om_find (st_virtuals (im_state im)) (Ident (st_next_sequence (im_state im))) = None"
    and "om_find (st_tenants (im_state im)) owner = Some t"
  shows "txn s0 (snd (create_virtual_effect e name owner g contract im))"
proof -
  have own: "tn_id (the_tenant im owner) = owner"
    using assms(1,3) by (auto simp: the_tenant_def option_or_def txn_def dest: ids_match_tenant)
  have "txn s0 (put_virtual k v (snd (rebuild_projection r (touch_virtual k (snd (next_id (snd (next_id im))))))))"
    if "va_id v = k" "va_state v = LC_Provisioned" "k = Ident (st_next_sequence (im_state im))" for k v r
    by (rule txn_put_virtual) (use that assms(1,2) in auto)
  then show ?thesis
    by (simp add: create_virtual_effect_def Let_def split_beta own new_virtual_def)
qed

lemma create_virtual_sound:
  assumes "well_formed (im_state im)"
    and "om_find (st_virtuals (im_state im)) (Ident (st_next_sequence (im_state im))) = None"
  shows "op_sound e im (create_virtual e auth name owner g contract im)"
proof (cases "create_virtual_guard auth name owner g contract (begin_op im) = SC_Ok")
  case True
  then obtain t where "om_find (st_tenants (im_state im)) owner = Some t"
    by (auto simp: create_virtual_guard_def split: option.splits if_splits)
  then have "txn (im_state im) (snd (create_virtual_effect e name owner g contract (begin_op im)))"
    using assms by (intro txn_create_virtual_effect) auto
  with True assms show ?thesis by (auto simp: create_virtual_def Let_def split_beta intro!: sound_accept)
next
  case False
  then show ?thesis using assms by (auto simp: create_virtual_def Let_def split_beta intro!: sound_refuse_begin)
qed

lemma replace_contract_simps [simp]:
  "va_id (replace_contract e contract n r) = va_id r" "va_state (replace_contract e contract n r) = va_state r"
  by (simp_all add: replace_contract_def)

lemma probe_contract_frame [simp]:
  "txn s0 (snd (probe_contract r contract im)) = txn s0 im"
  "same_entities (im_state im) (im_state (snd (probe_contract r contract im)))"
  by (simp_all add: probe_contract_def Let_def split_beta same_entities_def split: option.split)

lemma update_contract_sound:
  assumes "well_formed (im_state im)"
  shows "op_sound e im (update_contract e auth contract im)"
proof (cases "update_contract_guard auth (contract_normalize contract) (begin_op im)")
  case (Inl c)
  then have "c \<noteq> SC_Ok"
    by (auto simp: update_contract_guard_def Let_def split: sum.splits if_splits dest: resolve_owned_code)
  then show ?thesis using assms Inl by (simp add: update_contract_def Let_def sound_refuse_begin)
next
  case (Inr r)
  have "txn (im_state im) (snd (probe_contract r c (begin_op im)))"
    "same_entities (im_state im) (im_state (snd (probe_contract r c (begin_op im))))" for c
    using assms probe_contract_frame(2) [of "begin_op im"] by simp_all
  with Inr assms show ?thesis
    by (auto simp: update_contract_def update_contract_effect_def Let_def split_beta intro!: sound_refuse sound_accept)
qed

end
