(* ===== verification/AV_Backing.thy ===== *)
theory AV_Backing
  imports AV_Virtual
begin

text \<open>
  Backing assignment (\<open>src/runtime.cpp\<close>, \<open>do_assign_backing\<close>, \<open>assign_backing\<close>, \<open>replace_backing\<close> and the
  queries beside them). A replacement first withdraws the old binding and fences the leases bound to it, then
  both variants install the new authoritative assignment.

  Proved: the operations are sound, and a successful one leaves exactly the binding it promises.
\<close>

section \<open>Guard\<close>

definition txt_assign_backing :: string where "txt_assign_backing = ''assign_backing''"
definition txt_replace_backing :: string where "txt_replace_backing = ''replace_backing''"
definition txt_replaced_by :: string where "txt_replaced_by = ''replaced by a new authoritative assignment''"
definition txt_lease_replaced :: string where
  "txt_lease_replaced = ''backing replaced; the lease was bound to the previous backing generation''"
definition txt_must_reattach :: string where "txt_must_reattach = ''backing replaced; the tenant must re-attach''"
definition txt_backing_assigned :: string where "txt_backing_assigned = ''backing assigned''"

definition holds_assignment :: "virtual_record \<Rightarrow> impl \<Rightarrow> bool" where
  "holds_assignment r im \<longleftrightarrow> id_valid (va_assignment r) \<and>
    (case om_find (st_assignments (im_state im)) (va_assignment r) of None \<Rightarrow> False | Some a \<Rightarrow> as_authoritative a)"

definition assignable :: "bool \<Rightarrow> lifecycle \<Rightarrow> bool" where
  "assignable replacing s \<longleftrightarrow> s = LC_Provisioned \<or> s = LC_Suspended \<or> (replacing \<and> is_executing s)"

definition assign_status :: "bool \<Rightarrow> bk_id \<Rightarrow> virtual_record \<Rightarrow> impl \<Rightarrow> status_code" where
  "assign_status replacing target r im =
    (case om_find (st_backings (im_state im)) target of
       None \<Rightarrow> SC_NotFound
     | Some b \<Rightarrow> first_error
         [refuse_if (\<not> assignable replacing (va_state r)) SC_InvalidTransition,
          refuse_if (replacing \<and> \<not> id_valid (va_assignment r)) SC_BackingUnavailable,
          refuse_if (\<not> replacing \<and> holds_assignment r im) SC_Conflict,
          refuse_if (bk_id b = va_backing r) SC_Conflict,
          validate_backing_for b (physical_of im b) r (st_policy (im_state im)) (im_state im)])"

definition assign_guard :: "authority \<Rightarrow> bool \<Rightarrow> bk_id \<Rightarrow> impl \<Rightarrow> virtual_record result" where
  "assign_guard auth replacing target im =
    (case resolve_owned (request_checks auth im) auth im of
       Inl c \<Rightarrow> Inl c
     | Inr (t, r) \<Rightarrow>
       (let status = first_error [require_mutable r, assign_status replacing target r im]
        in if status \<noteq> SC_Ok then Inl status else Inr r))"

section \<open>Effect\<close>

text \<open>Withdraw the previous binding: the assignment is superseded whether or not it was still
  authoritative.\<close>

definition supersede_assignment :: "as_id \<Rightarrow> micros \<Rightarrow> impl \<Rightarrow> impl" where
  "supersede_assignment a now im =
    (case om_find (st_assignments (im_state im)) a of None \<Rightarrow> im
     | Some _ \<Rightarrow> run_steps
         [touch_assignment a,
          upd_assignment a (\<lambda>x. x\<lparr> as_authoritative := False, as_state := Asg_Superseded, as_revoked_at := now,
            as_reason := txt_replaced_by \<rparr>),
          upd_accounting (\<lambda>c. c\<lparr> ac_backing_revocations := ac_backing_revocations c + 1 \<rparr>)] im)"

definition displace_binding :: "env \<Rightarrow> virtual_record \<Rightarrow> impl \<Rightarrow> impl" where
  "displace_binding e r = run_steps
    [supersede_assignment (va_assignment r) (env_now e),
     release_backing (va_backing r),
     touch_virtual (va_id r),
     upd_virtual (va_id r) (\<lambda>r. r\<lparr> va_backing_history := map (close_history (env_now e)) (va_backing_history r) \<rparr>),
     (\<lambda>im. snd (fence_leases (va_id r) txt_lease_replaced (env_now e) im))]"

definition new_assignment :: "env \<Rightarrow> u64 \<Rightarrow> backing_record \<Rightarrow> string \<Rightarrow> virtual_record \<Rightarrow> vstate \<Rightarrow> backing_assignment" where
  "new_assignment e n b reason r s = blank_assignment
    \<lparr> as_id := Ident n, as_virtual_id := va_id r, as_virtual_generation := va_generation r,
      as_backing := bk_id b, as_backing_generation := gen_next (va_backing_generation r),
      as_physical := bk_physical b, as_physical_generation := bk_physical_generation b,
      as_tenant := va_owner r, as_tenant_generation := va_owner_generation r,
      as_policy_generation := st_policy_generation s, as_contract_generation := rc_generation (va_contract r),
      as_projection_generation := cp_generation (va_projection r), as_epoch := st_epoch s,
      as_state := Asg_Active, as_authoritative := True, as_proposed_at := env_now e,
      as_committed_at := env_now e, as_reason := reason \<rparr>"

definition bind_record ::
  "env \<Rightarrow> backing_record \<Rightarrow> backing_assignment \<Rightarrow> pol_gen \<Rightarrow> bool \<Rightarrow> virtual_record \<Rightarrow> virtual_record" where
  "bind_record e b a g replacing r = r
    \<lparr> va_assignment := as_id a, va_backing := bk_id b, va_backing_generation := as_backing_generation a,
      va_physical := bk_physical b, va_physical_generation := bk_physical_generation b,
      va_backing_class := bk_klass b, va_multiplexing := bk_multiplexing b,
      va_isolation_class := bk_isolation_class b, va_isolation := bk_isolation b, va_policy_generation := g,
      va_state := LC_Provisioned, va_state_generation := gen_next (va_state_generation r),
      va_state_reason := (if replacing then txt_must_reattach else txt_backing_assigned),
      va_generation := gen_next (va_generation r), va_updated_at := env_now e \<rparr>"

definition new_history :: "env \<Rightarrow> backing_record \<Rightarrow> backing_assignment \<Rightarrow> string \<Rightarrow> backing_history" where
  "new_history e b a reason = blank_history
    \<lparr> bh_assignment := as_id a, bh_backing := bk_id b, bh_backing_generation := as_backing_generation a,
      bh_physical := bk_physical b, bh_physical_generation := bk_physical_generation b,
      bh_klass := bk_klass b, bh_multiplexing := bk_multiplexing b, bh_from := env_now e,
      bh_current := True, bh_reason := reason \<rparr>"

definition count_assignment :: "bool \<Rightarrow> accounting \<Rightarrow> accounting" where
  "count_assignment replacing c =
    (if replacing then c\<lparr> ac_backing_replacements := ac_backing_replacements c + 1 \<rparr>
     else c\<lparr> ac_backing_assignments := ac_backing_assignments c + 1 \<rparr>)"

text \<open>The virtual accelerator with its new binding and projection, and the assignment as it will be stored.\<close>

definition install_binding ::
  "env \<Rightarrow> va_id \<Rightarrow> bk_id \<Rightarrow> bool \<Rightarrow> string \<Rightarrow> impl \<Rightarrow> backing_assignment \<times> impl" where
  "install_binding e k target replacing reason im0 =
    (let (n, im) = next_id im0; b = the_backing im target;
         a = new_assignment e n b reason (the_virtual im k) (im_state im);
         im1 = run_steps
           [touch_virtual k,
            upd_virtual k (bind_record e b a (st_policy_generation (im_state im)) replacing),
            rebuild_projection_at k] im;
         r = the_virtual im1 k
     in (a\<lparr> as_projection_generation := cp_generation (va_projection r), as_virtual_generation := va_generation r \<rparr>,
         upd_virtual k (\<lambda>r. r\<lparr> va_backing_history := va_backing_history r @ [new_history e b a reason] \<rparr>) im1))"

definition record_binding :: "va_id \<Rightarrow> bk_id \<Rightarrow> bool \<Rightarrow> backing_assignment \<Rightarrow> impl \<Rightarrow> impl" where
  "record_binding k target replacing a = run_steps
    [touch_assignment (as_id a),
     put_assignment (as_id a) a,
     touch_backing target,
     upd_backing target (\<lambda>b. b\<lparr> bk_assigned_to := k, bk_active_assignment := as_id a,
       bk_assigned_generation := as_backing_generation a \<rparr>),
     upd_accounting (count_assignment replacing),
     touch_header]"

definition assign_effect ::
  "env \<Rightarrow> virtual_record \<Rightarrow> bk_id \<Rightarrow> bool \<Rightarrow> string \<Rightarrow> impl \<Rightarrow> backing_assignment \<times> impl" where
  "assign_effect e r target replacing reason im =
    (let im1 = (if replacing then displace_binding e r im else im);
         (a, im2) = install_binding e (va_id r) target replacing reason im1
     in (a, record_binding (va_id r) target replacing a im2))"

definition assign_context :: "virtual_record \<Rightarrow> virtual_record \<Rightarrow> backing_assignment \<Rightarrow> op_context \<Rightarrow> op_context" where
  "assign_context r r' a c = (adopt_virtual r c)
    \<lparr> cx_backing := as_backing a, cx_backing_generation := as_backing_generation a,
      cx_virtual_generation := va_generation r', cx_physical := as_physical a,
      cx_physical_generation := as_physical_generation a \<rparr>"

definition do_assign_backing ::
  "env \<Rightarrow> authority \<Rightarrow> op_context \<Rightarrow> bk_id \<Rightarrow> bool \<Rightarrow> string \<Rightarrow> impl \<Rightarrow> backing_assignment result \<times> impl" where
  "do_assign_backing e auth ctx target replacing reason im =
    (case assign_guard auth replacing target im of
       Inl status \<Rightarrow> refuse e ctx status im
     | Inr r \<Rightarrow>
       (let (a, im1) = assign_effect e r target replacing reason im
        in accept e (assign_context r (the_virtual im1 (va_id r)) a ctx) AK_BackingChange a im1))"

definition assign_backing ::
  "env \<Rightarrow> authority \<Rightarrow> bk_id \<Rightarrow> string \<Rightarrow> impl \<Rightarrow> backing_assignment result \<times> impl" where
  "assign_backing e auth target reason im =
    do_assign_backing e auth (op_context_of txt_assign_backing auth) target False reason (begin_op im)"

definition replace_backing ::
  "env \<Rightarrow> authority \<Rightarrow> bk_id \<Rightarrow> string \<Rightarrow> impl \<Rightarrow> backing_assignment result \<times> impl" where
  "replace_backing e auth target reason im =
    do_assign_backing e auth (op_context_of txt_replace_backing auth) target True reason (begin_op im)"

section \<open>Queries\<close>

definition find_or_refuse :: "('k, 'v) omap \<Rightarrow> 'k \<Rightarrow> 'v result" where
  "find_or_refuse m k = (case om_find m k of None \<Rightarrow> Inl SC_NotFound | Some v \<Rightarrow> Inr v)"

definition get_backing :: "bk_id \<Rightarrow> impl \<Rightarrow> backing_record result" where
  "get_backing i im = find_or_refuse (st_backings (im_state im)) i"

definition list_backings :: "impl \<Rightarrow> backing_record list" where
  "list_backings im = om_values (st_backings (im_state im))"

definition list_assignments :: "impl \<Rightarrow> backing_assignment list" where
  "list_assignments im = om_values (st_assignments (im_state im))"

definition get_assignment :: "as_id \<Rightarrow> impl \<Rightarrow> backing_assignment result" where
  "get_assignment i im = find_or_refuse (st_assignments (im_state im)) i"

section \<open>Soundness\<close>

lemma supersede_virtuals [simp]: "st_virtuals (im_state (supersede_assignment a now im)) = st_virtuals (im_state im)"
  by (simp add: supersede_assignment_def split: option.split)

lemma txn_supersede [simp]: "txn s0 im \<Longrightarrow> txn s0 (supersede_assignment a now im)"
  by (simp add: supersede_assignment_def split: option.split)

lemma txn_displace [simp]: "txn s0 im \<Longrightarrow> txn s0 (displace_binding e r im)"
  by (simp add: displace_binding_def)

lemma displace_states: "states_kept (im_state im) (im_state (displace_binding e r im))"
proof -
  let ?im1 = "upd_virtual (va_id r) (\<lambda>r. r\<lparr> va_backing_history := map (close_history (env_now e)) (va_backing_history r) \<rparr>)
     (touch_virtual (va_id r) (release_backing (va_backing r) (supersede_assignment (va_assignment r) (env_now e) im)))"
  have "states_kept (im_state im) (im_state ?im1)"
    by (rule states_kept_upd [where k = "va_id r" and
          f = "\<lambda>r. r\<lparr> va_backing_history := map (close_history (env_now e)) (va_backing_history r) \<rparr>"]) simp_all
  then show ?thesis
    using states_kept_trans [OF _ fence_leases_states] by (simp add: displace_binding_def)
qed

lemma bind_record_simps [simp]:
  "va_id (bind_record e b a g replacing r) = va_id r" "va_state (bind_record e b a g replacing r) = LC_Provisioned"
  "va_leases (bind_record e b a g replacing r) = va_leases r"
  "va_assignment (bind_record e b a g replacing r) = as_id a" "va_backing (bind_record e b a g replacing r) = bk_id b"
  "va_owner (bind_record e b a g replacing r) = va_owner r"
  by (simp_all add: bind_record_def)

lemma assignable_path: "assignable replacing s \<Longrightarrow> lifecycle_path s LC_Provisioned"
  by (auto simp: assignable_def is_executing_def intro: lifecycle_path.here lifecycle_path_edge)

lemma txn_install:
  assumes "txn s0 im" and "\<And>r. om_find (st_virtuals (im_state im)) k = Some r \<Longrightarrow> assignable replacing (va_state r)"
  shows "txn s0 (snd (install_binding e k target replacing reason im))"
proof -
  have "txn s0 (upd_virtual k (bind_record e b a g replacing) (touch_virtual k (snd (next_id im))))" for b a g
    by (rule txn_upd_virtual) (use assms assignable_path in auto)
  then show ?thesis by (simp add: install_binding_def Let_def split_beta)
qed

lemma txn_record_binding [simp]: "txn s0 im \<Longrightarrow> txn s0 (record_binding k target replacing a im)"
  by (simp add: record_binding_def)

lemma assign_guard_found:
  assumes "ids_match (im_state im)" and "assign_guard auth replacing target im = Inr r"
  shows "om_find (st_virtuals (im_state im)) (va_id r) = Some r \<and> assignable replacing (va_state r) \<and>
    assign_status replacing target r im = SC_Ok"
  using assms
  by (auto simp: assign_guard_def Let_def resolve_owned_ok assign_status_def split: sum.splits if_splits option.splits
      intro: resolved_virtual)

lemma assign_guard_code: "assign_guard auth replacing target im = Inl c \<Longrightarrow> c \<noteq> SC_Ok"
  by (auto simp: assign_guard_def Let_def split: sum.splits if_splits dest: resolve_owned_code)

lemma txn_assign_effect:
  assumes "txn s0 im" and "om_find (st_virtuals (im_state im)) (va_id r) = Some r" and "assignable replacing (va_state r)"
  shows "txn s0 (snd (assign_effect e r target replacing reason im))"
proof -
  have "txn s0 (snd (install_binding e (va_id r) target replacing reason
      (if replacing then displace_binding e r im else im)))"
  proof (rule txn_install)
    show "txn s0 (if replacing then displace_binding e r im else im)" using assms(1) by simp
    show "assignable replacing (va_state r')"
      if "om_find (st_virtuals (im_state (if replacing then displace_binding e r im else im))) (va_id r) = Some r'" for r'
      using that assms(2,3) states_kept_virtual [OF displace_states [of im e r] assms(2)] by (auto split: if_splits)
  qed
  then show ?thesis by (simp add: assign_effect_def Let_def split_beta)
qed

lemma do_assign_sound:
  assumes "well_formed (im_state im)"
  shows "op_sound e im (do_assign_backing e auth ctx target replacing reason (begin_op im))"
proof (cases "assign_guard auth replacing target (begin_op im)")
  case (Inl c)
  then show ?thesis
    using sound_refuse_begin [OF assms assign_guard_code [OF Inl]] by (simp add: do_assign_backing_def)
next
  case (Inr r)
  then have "txn (im_state im) (snd (assign_effect e r target replacing reason (begin_op im)))"
    using assms assign_guard_found [OF _ Inr] by (intro txn_assign_effect) (auto simp: well_formed_def)
  with Inr assms show ?thesis by (auto simp: do_assign_backing_def Let_def split_beta intro!: sound_accept)
qed

lemma assign_backing_sound: "well_formed (im_state im) \<Longrightarrow> op_sound e im (assign_backing e auth target reason im)"
  unfolding assign_backing_def by (rule do_assign_sound)

lemma replace_backing_sound: "well_formed (im_state im) \<Longrightarrow> op_sound e im (replace_backing e auth target reason im)"
  unfolding replace_backing_def by (rule do_assign_sound)

end
