(* ===== verification/AV_Leases.thy ===== *)
theory AV_Leases
  imports AV_Backing
begin

text \<open>
  Attachments and leases (\<open>src/runtime.cpp\<close>, \<open>attach\<close>, \<open>renew_lease\<close>, \<open>detach\<close>, \<open>revoke_lease\<close> and their
  queries). A lease binds a tenant to a virtual accelerator under the generations, policy and epoch of the
  moment it is granted.

  Proved: the operations are sound; which leases can be renewed; what granting and releasing does.
\<close>

section \<open>Attaching\<close>

definition txt_attach :: string where "txt_attach = ''attach''"
definition txt_attached :: string where "txt_attached = ''tenant attached under a generation-bound lease''"

definition binding_status :: "virtual_record \<Rightarrow> impl \<Rightarrow> status_code" where
  "binding_status r im =
    (if va_state r \<noteq> LC_Provisioned \<and> va_state r \<noteq> LC_Suspended then SC_InvalidTransition
     else if \<not> id_valid (va_backing r) then SC_BackingUnavailable
     else case om_find (st_assignments (im_state im)) (va_assignment r) of
         None \<Rightarrow> SC_BackingUnavailable
       | Some a \<Rightarrow>
         if \<not> as_authoritative a then SC_BackingUnavailable
         else (case om_find (st_backings (im_state im)) (va_backing r) of
             None \<Rightarrow> SC_StaleBacking
           | Some b \<Rightarrow>
             if bk_exclusive b \<and> (bk_assigned_to b \<noteq> va_id r \<or> bk_active_assignment b \<noteq> va_assignment r)
             then SC_StaleAssignment
             else if \<not> bk_available b \<or> \<not> bk_evidence_fresh b then SC_BackingUnavailable
             else SC_Ok))"

definition live_leases :: "impl \<Rightarrow> ls_id list \<Rightarrow> u32" where
  "live_leases im ks = fold (\<lambda>k n. case om_find (st_leases (im_state im)) k of None \<Rightarrow> n
     | Some l \<Rightarrow> if lease_state_is_live (ls_state l) then n + 1 else n) ks 0"

text \<open>The second limit overrides the status of the first.\<close>

definition attach_limits :: "virtual_record \<Rightarrow> impl \<Rightarrow> status_code" where
  "attach_limits r im =
    (let policy = st_policy (im_state im) in
     if length (st_leases (im_state im)) \<ge> unat (pol_max_leases policy) then SC_LimitExceeded
     else if live_leases im (va_leases r) \<ge> pol_max_attachments_per_virtual policy then SC_AttachLimitReached
     else SC_Ok)"

definition attach_guard :: "authority \<Rightarrow> impl \<Rightarrow> (tenant_record \<times> virtual_record) result" where
  "attach_guard auth im =
    (case resolve_owned (request_checks auth im) auth im of
       Inl c \<Rightarrow> Inl c
     | Inr (t, r) \<Rightarrow>
       (let status = first_error [require_mutable r, binding_status r im, attach_limits r im]
        in if status \<noteq> SC_Ok then Inl status else Inr (t, r)))"

definition lease_expiry :: "env \<Rightarrow> virtualization_policy \<Rightarrow> micros" where
  "lease_expiry e policy =
    (if pol_max_lease_duration_micros policy > 0 then env_now e + pol_max_lease_duration_micros policy else 0)"

definition new_lease ::
  "env \<Rightarrow> rq_id \<Rightarrow> u64 \<Rightarrow> tenant_record \<Rightarrow> virtual_record \<Rightarrow> vstate \<Rightarrow> lease_record" where
  "new_lease e request n t r s = blank_lease
    \<lparr> ls_id := Ident n, ls_generation := gen_initial, ls_virtual_id := va_id r,
      ls_virtual_generation := va_generation r, ls_tenant := tn_id t, ls_tenant_generation := tn_generation t,
      ls_backing_generation := va_backing_generation r, ls_physical_generation := va_physical_generation r,
      ls_policy_generation := st_policy_generation s, ls_epoch := st_epoch s, ls_grant_request := request,
      ls_state := Lease_Active, ls_granted_at := env_now e, ls_expires_at := lease_expiry e (st_policy s) \<rparr>"

definition count_attachment :: "accounting \<Rightarrow> accounting" where
  "count_attachment a =
    (let a = a\<lparr> ac_leases_issued := ac_leases_issued a + 1, ac_attachments_active := ac_attachments_active a + 1 \<rparr> in
     if ac_attachments_active a > ac_peak_attachments_active a
     then a\<lparr> ac_peak_attachments_active := ac_attachments_active a \<rparr> else a)"

definition reserve_attachment :: "env \<Rightarrow> tenant_record \<Rightarrow> virtual_record \<Rightarrow> ls_id \<Rightarrow> impl \<Rightarrow> impl" where
  "reserve_attachment e t r l = run_steps
    [touch_virtual (va_id r),
     upd_virtual (va_id r) (\<lambda>r. r\<lparr> va_leases := sort (va_leases r @ [l]),
       va_active_attachments := va_active_attachments r + 1, va_updated_at := env_now e \<rparr>),
     touch_tenant (tn_id t),
     upd_tenant (tn_id t) (\<lambda>t. t\<lparr> tn_active_attachments := tn_active_attachments t + 1, tn_updated_at := env_now e \<rparr>)]"

definition grant_lease :: "lease_record \<Rightarrow> impl \<Rightarrow> impl" where
  "grant_lease l = run_steps
    [touch_lease (ls_id l), put_lease (ls_id l) l, upd_accounting count_attachment, touch_header]"

definition attach_effect ::
  "env \<Rightarrow> op_context \<Rightarrow> tenant_record \<Rightarrow> virtual_record \<Rightarrow> impl \<Rightarrow> lease_record result \<times> impl" where
  "attach_effect e ctx t r im0 =
    (let (n, im) = next_id im0; l = new_lease e (cx_request ctx) n t r (im_state im);
         im1 = reserve_attachment e t r (ls_id l) im;
         (status, im2) =
           (if is_executing (va_state (the_virtual im1 (va_id r))) then (SC_Ok, im1)
            else transition e (va_id r) LC_Attached txt_attached im1)
     in if status \<noteq> SC_Ok then refuse e ctx status im2
        else
          let g = va_generation (the_virtual im2 (va_id r));
              l' = l\<lparr> ls_virtual_generation := g \<rparr>
          in accept e ((adopt_lease l' ctx)\<lparr> cx_virtual_generation := g \<rparr>) AK_Mutation l' (grant_lease l' im2))"

definition attach :: "env \<Rightarrow> authority \<Rightarrow> impl \<Rightarrow> lease_record result \<times> impl" where
  "attach e auth im0 =
    (let ctx = op_context_of txt_attach auth; im = begin_op im0 in
     case attach_guard auth im of
       Inl status \<Rightarrow> refuse e ctx status im
     | Inr (t, r) \<Rightarrow> attach_effect e (adopt_virtual r ctx) t r im)"

section \<open>Renewing\<close>

definition txt_renew_lease :: string where "txt_renew_lease = ''renew_lease''"

definition renew_status :: "authority \<Rightarrow> virtual_record \<Rightarrow> impl \<Rightarrow> status_code" where
  "renew_status auth r im =
    (case auth_lease auth of None \<Rightarrow> SC_InvalidArgument
     | Some k \<Rightarrow>
       (case om_find (st_leases (im_state im)) k of None \<Rightarrow> SC_NotFound
        | Some l \<Rightarrow>
          (case auth_lease_generation auth of None \<Rightarrow> SC_InvalidArgument
           | Some g \<Rightarrow>
             if ls_generation l \<noteq> g then SC_StaleLease
             else if ls_virtual_id l \<noteq> va_id r then SC_NotAuthorized
             else if \<not> lease_state_is_live (ls_state l) then SC_LeaseRevoked
             else if ls_virtual_generation l \<noteq> va_generation r then SC_StaleLease
             else if ls_backing_generation l \<noteq> va_backing_generation r then SC_StaleLease
             else if ls_policy_generation l \<noteq> st_policy_generation (im_state im) then SC_StalePolicy
             else if ls_epoch l \<noteq> st_epoch (im_state im) then SC_StaleEpoch
             else SC_Ok)))"

definition renew_guard :: "authority \<Rightarrow> impl \<Rightarrow> ls_id result" where
  "renew_guard auth im =
    (case resolve_owned (request_checks auth im) auth im of
       Inl c \<Rightarrow> Inl c
     | Inr (t, r) \<Rightarrow>
       if renew_status auth r im \<noteq> SC_Ok then Inl (renew_status auth r im)
       else Inr (option_or no_id (auth_lease auth)))"

definition renewed :: "env \<Rightarrow> virtualization_policy \<Rightarrow> lease_record \<Rightarrow> lease_record" where
  "renewed e policy l = l
    \<lparr> ls_generation := gen_next (ls_generation l), ls_renewed_at := env_now e, ls_renewals := ls_renewals l + 1,
      ls_expires_at := lease_expiry e policy \<rparr>"

definition renew_effect :: "env \<Rightarrow> ls_id \<Rightarrow> impl \<Rightarrow> impl" where
  "renew_effect e k im = run_steps
    [touch_lease (ls_id (the_lease im k)),
     upd_lease k (renewed e (st_policy (im_state im))),
     upd_accounting (\<lambda>a. a\<lparr> ac_leases_renewed := ac_leases_renewed a + 1 \<rparr>),
     touch_header] im"

definition renew_lease :: "env \<Rightarrow> authority \<Rightarrow> impl \<Rightarrow> lease_record result \<times> impl" where
  "renew_lease e auth im0 =
    (let ctx = op_context_of txt_renew_lease auth; im = begin_op im0 in
     case renew_guard auth im of
       Inl status \<Rightarrow> refuse e ctx status im
     | Inr k \<Rightarrow>
       (let im1 = renew_effect e k im; l = the_lease im1 k
        in accept e (adopt_lease l (adopt_lease (the_lease im k) ctx)) AK_Mutation l im1))"

section \<open>Releasing\<close>

definition lease_status :: "authority \<Rightarrow> bool \<Rightarrow> virtual_record \<Rightarrow> impl \<Rightarrow> lease_record result" where
  "lease_status auth allow_dead r im =
    (case auth_lease auth of None \<Rightarrow> Inl SC_InvalidArgument
     | Some k \<Rightarrow>
       (case om_find (st_leases (im_state im)) k of None \<Rightarrow> Inl SC_NotFound
        | Some l \<Rightarrow>
          (case auth_lease_generation auth of None \<Rightarrow> Inl SC_InvalidArgument
           | Some g \<Rightarrow>
             if ls_generation l \<noteq> g then Inl SC_StaleLease
             else if ls_virtual_id l \<noteq> va_id r then Inl SC_NotAuthorized
             else if \<not> allow_dead \<and> \<not> lease_state_is_live (ls_state l) then Inl SC_LeaseRevoked
             else Inr l)))"

definition resolve_lease_for :: "authority \<Rightarrow> bool \<Rightarrow> impl \<Rightarrow> (virtual_record \<times> lease_record) result" where
  "resolve_lease_for auth allow_dead im =
    (case resolve_owned (request_checks auth im) auth im of
       Inl c \<Rightarrow> Inl c
     | Inr (t, r) \<Rightarrow>
       (case lease_status auth allow_dead r im of Inl c \<Rightarrow> Inl c | Inr l \<Rightarrow> Inr (r, l)))"

definition dec :: "'a::len word \<Rightarrow> 'a word" where
  "dec n = (if n > 0 then n - 1 else n)"

definition drop_attachment :: "env \<Rightarrow> va_id \<Rightarrow> tn_id \<Rightarrow> impl \<Rightarrow> impl" where
  "drop_attachment e k t = run_steps
    [touch_virtual k,
     upd_virtual k (\<lambda>r. r\<lparr> va_active_attachments := dec (va_active_attachments r), va_updated_at := env_now e \<rparr>),
     (\<lambda>im. case om_find (st_tenants (im_state im)) t of None \<Rightarrow> im
        | Some _ \<Rightarrow> upd_tenant t (\<lambda>t. t\<lparr> tn_active_attachments := dec (tn_active_attachments t),
            tn_updated_at := env_now e \<rparr>) (touch_tenant t im))]"

text \<open>The tail of both operations: when the last attachment is gone the accelerator returns to
  Provisioned.\<close>

definition release_tail :: "env \<Rightarrow> op_context \<Rightarrow> va_id \<Rightarrow> bool \<Rightarrow> string \<Rightarrow> impl \<Rightarrow> unit result \<times> impl" where
  "release_tail e ctx k counted note im =
    (let (status, im1) =
       (if counted \<and> va_active_attachments (the_virtual im k) = 0
        then transition e k LC_Provisioned note im else (SC_Ok, im))
     in if status \<noteq> SC_Ok then refuse e ctx status im1
        else accept e (ctx\<lparr> cx_virtual_generation := va_generation (the_virtual im1 k) \<rparr>) AK_Mutation () im1)"

definition txt_detach :: string where "txt_detach = ''detach''"
definition txt_detached :: string where "txt_detached = ''detached by the tenant''"
definition txt_last_released :: string where "txt_last_released = ''the last attachment was released''"

definition detach_effect :: "env \<Rightarrow> virtual_record \<Rightarrow> lease_record \<Rightarrow> impl \<Rightarrow> impl" where
  "detach_effect e r l = run_steps
    [touch_lease (ls_id l),
     upd_lease (ls_id l) (end_lease Lease_Revoked (env_now e) txt_detached),
     drop_attachment e (va_id r) (ls_tenant l),
     upd_accounting (\<lambda>a. a\<lparr> ac_detaches := ac_detaches a + 1,
       ac_attachments_active := dec (ac_attachments_active a) \<rparr>),
     touch_header]"

definition detach :: "env \<Rightarrow> authority \<Rightarrow> impl \<Rightarrow> unit result \<times> impl" where
  "detach e auth im0 =
    (let ctx = op_context_of txt_detach auth; im = begin_op im0 in
     case resolve_lease_for auth False im of
       Inl status \<Rightarrow> refuse e ctx status im
     | Inr (r, l) \<Rightarrow> release_tail e (adopt_lease l ctx) (va_id r) True txt_last_released (detach_effect e r l im))"

definition txt_revoke :: string where "txt_revoke = ''revoke''"
definition txt_revoked :: string where "txt_revoked = ''revoked''"
definition txt_last_revoked :: string where "txt_last_revoked = ''the last attachment was revoked''"

definition revoke_effect :: "env \<Rightarrow> virtual_record \<Rightarrow> lease_record \<Rightarrow> string \<Rightarrow> impl \<Rightarrow> impl" where
  "revoke_effect e r l reason = run_steps
    [touch_lease (ls_id l),
     upd_lease (ls_id l) (end_lease Lease_Revoked (env_now e) (if reason = [] then txt_revoked else reason)),
     (\<lambda>im. if lease_state_is_live (ls_state l)
        then upd_accounting (\<lambda>a. a\<lparr> ac_leases_revoked := ac_leases_revoked a + 1,
            ac_attachments_active := dec (ac_attachments_active a) \<rparr>) (drop_attachment e (va_id r) (ls_tenant l) im)
        else im),
     touch_header]"

definition revoke_lease :: "env \<Rightarrow> authority \<Rightarrow> string \<Rightarrow> impl \<Rightarrow> unit result \<times> impl" where
  "revoke_lease e auth reason im0 =
    (let ctx = op_context_of txt_revoke auth; im = begin_op im0 in
     case resolve_lease_for auth False im of
       Inl status \<Rightarrow> refuse e ctx status im
     | Inr (r, l) \<Rightarrow> release_tail e (adopt_lease l ctx) (va_id r) (lease_state_is_live (ls_state l)) txt_last_revoked
         (revoke_effect e r l reason im))"

section \<open>Queries\<close>

definition get_lease :: "ls_id \<Rightarrow> impl \<Rightarrow> lease_record result" where
  "get_lease i im = find_or_refuse (st_leases (im_state im)) i"

definition list_leases :: "impl \<Rightarrow> lease_record list" where
  "list_leases im = om_values (st_leases (im_state im))"

section \<open>Soundness\<close>

lemma txn_reserve [simp]: "txn s0 im \<Longrightarrow> txn s0 (reserve_attachment e t r l im)"
  by (simp add: reserve_attachment_def)

lemma reserve_states: "states_kept (im_state im) (im_state (reserve_attachment e t r l im))"
  by (rule states_kept_upd [where k = "va_id r" and f = "\<lambda>r. r\<lparr> va_leases := sort (va_leases r @ [l]),
       va_active_attachments := va_active_attachments r + 1, va_updated_at := env_now e \<rparr>"])
    (simp_all add: reserve_attachment_def)

lemma txn_grant [simp]: "txn s0 im \<Longrightarrow> txn s0 (grant_lease l im)"
  by (simp add: grant_lease_def)

lemma attach_guard_ok:
  "attach_guard auth im = Inr (t, r) \<longleftrightarrow>
    resolve_owned (request_checks auth im) auth im = Inr (t, r) \<and> lifecycle_accepts_mutation (va_state r) \<and>
    binding_status r im = SC_Ok \<and> attach_limits r im = SC_Ok"
  by (auto simp: attach_guard_def Let_def split: sum.splits)

lemma attach_guard_code: "attach_guard auth im = Inl c \<Longrightarrow> c \<noteq> SC_Ok"
  by (auto simp: attach_guard_def Let_def split: sum.splits if_splits dest: resolve_owned_code)

lemma binding_status_state:
  "binding_status r im = SC_Ok \<Longrightarrow> va_state r = LC_Provisioned \<or> va_state r = LC_Suspended"
  by (auto simp: binding_status_def split: if_splits)

text \<open>From Provisioned and Suspended the attachment transition is legal, so the late refusal of
  \<open>attach\<close> cannot happen.\<close>

lemma attach_effect_result:
  fixes im :: impl and r :: virtual_record and e :: env and t :: tenant_record and ctx :: op_context
  assumes "om_find (st_virtuals (im_state im)) (va_id r) = Some r"
    and "va_state r = LC_Provisioned \<or> va_state r = LC_Suspended"
  defines "im1 \<equiv> reserve_attachment e t r (Ident (st_next_sequence (im_state im))) (snd (next_id im))"
  defines "im2 \<equiv> snd (transition e (va_id r) LC_Attached txt_attached im1)"
  defines "l \<equiv> (new_lease e (cx_request ctx) (st_next_sequence (im_state im)) t r (im_state (snd (next_id im))))
    \<lparr> ls_virtual_generation := va_generation (the_virtual im2 (va_id r)) \<rparr>"
  shows "fst (transition e (va_id r) LC_Attached txt_attached im1) = SC_Ok"
    and "attach_effect e ctx t r im = accept e ((adopt_lease l ctx)
      \<lparr> cx_virtual_generation := va_generation (the_virtual im2 (va_id r)) \<rparr>) AK_Mutation l (grant_lease l im2)"
proof -
  have "states_kept (im_state im) (im_state im1)"
    using reserve_states [of "snd (next_id im)"] states_kept_refl [of "im_state (snd (next_id im))" "im_state im"]
    unfolding im1_def by (auto intro: states_kept_trans)
  then have st: "va_state (the_virtual im1 (va_id r)) = va_state r"
    using assms(1) by (rule states_kept_the_virtual)
  then show ok: "fst (transition e (va_id r) LC_Attached txt_attached im1) = SC_Ok"
    using assms(2) by (auto simp: transition_status)
  have "\<not> is_executing (va_state (the_virtual im1 (va_id r)))" using st assms(2) by auto
  then show "attach_effect e ctx t r im = accept e ((adopt_lease l ctx)
      \<lparr> cx_virtual_generation := va_generation (the_virtual im2 (va_id r)) \<rparr>) AK_Mutation l (grant_lease l im2)"
    using ok by (simp add: attach_effect_def Let_def split_beta l_def im1_def im2_def new_lease_def)
qed

lemma attach_sound:
  assumes "well_formed (im_state im)"
  shows "op_sound e im (attach e auth im)"
proof (cases "attach_guard auth (begin_op im)")
  case (Inl c)
  then show ?thesis using sound_refuse_begin [OF assms attach_guard_code [OF Inl]] by (simp add: attach_def Let_def)
next
  case (Inr p)
  obtain t r where p: "p = (t, r)" by fastforce
  have g: "om_find (st_virtuals (im_state (begin_op im))) (va_id r) = Some r"
    "va_state r = LC_Provisioned \<or> va_state r = LC_Suspended"
    using Inr assms binding_status_state resolved_virtual [of im auth r]
    by (auto simp: p attach_guard_ok resolve_owned_ok well_formed_def)
  show ?thesis
    unfolding attach_def Let_def Inr p sum.case prod.case attach_effect_result(2) [OF g]
    by (rule sound_accept) (use assms in auto)
qed

lemma renew_guard_ok:
  "renew_guard auth im = Inr k \<longleftrightarrow>
    (\<exists>t r. resolve_owned (request_checks auth im) auth im = Inr (t, r) \<and> renew_status auth r im = SC_Ok) \<and>
    k = option_or no_id (auth_lease auth)"
  by (auto simp: renew_guard_def split: sum.splits)

lemma renew_guard_code: "renew_guard auth im = Inl c \<Longrightarrow> c \<noteq> SC_Ok"
  by (auto simp: renew_guard_def split: sum.splits if_splits dest: resolve_owned_code)

text \<open>A lease that can be renewed is live and was granted under the current generation of everything
  it is bound to.\<close>

definition lease_current :: "vstate \<Rightarrow> lease_record \<Rightarrow> bool" where
  "lease_current s l \<longleftrightarrow> lease_state_is_live (ls_state l) \<and> ls_epoch l = st_epoch s \<and>
    ls_policy_generation l = st_policy_generation s \<and>
    (case om_find (st_virtuals s) (ls_virtual_id l) of None \<Rightarrow> False
     | Some r \<Rightarrow> ls_virtual_generation l = va_generation r \<and> ls_backing_generation l = va_backing_generation r)"

lemma renew_status_ok:
  "renew_status auth r im = SC_Ok \<longleftrightarrow>
    (\<exists>k l. auth_lease auth = Some k \<and> om_find (st_leases (im_state im)) k = Some l \<and>
      auth_lease_generation auth = Some (ls_generation l) \<and> ls_virtual_id l = va_id r \<and>
      lease_state_is_live (ls_state l) \<and> ls_virtual_generation l = va_generation r \<and>
      ls_backing_generation l = va_backing_generation r \<and>
      ls_policy_generation l = st_policy_generation (im_state im) \<and> ls_epoch l = st_epoch (im_state im))"
  by (auto simp: renew_status_def split: option.splits)

lemma renewed_simps [simp]:
  "ls_id (renewed e p l) = ls_id l" "ls_state (renewed e p l) = ls_state l"
  by (simp_all add: renewed_def)

lemma upd_lease_absent: "om_find (st_leases (im_state im)) k = None \<Longrightarrow> upd_lease k f im = im"
  by (simp add: upd_lease_def upd_state_def om_upd_absent)

lemma txn_renew_effect [simp]:
  assumes "txn s0 im"
  shows "txn s0 (renew_effect e k im)"
proof (cases "om_find (st_leases (im_state im)) k")
  case None
  then show ?thesis using assms by (simp add: renew_effect_def upd_lease_absent)
next
  case (Some l)
  then have "ls_id (the_lease im k) = k"
    using assms by (auto simp: the_lease_def option_or_def txn_def ids_match_def dest: keyedD)
  then show ?thesis using assms by (simp add: renew_effect_def)
qed

lemma renew_sound:
  assumes "well_formed (im_state im)"
  shows "op_sound e im (renew_lease e auth im)"
proof (cases "renew_guard auth (begin_op im)")
  case (Inl c)
  then show ?thesis using sound_refuse_begin [OF assms renew_guard_code [OF Inl]] by (simp add: renew_lease_def Let_def)
next
  case (Inr k)
  then show ?thesis using assms by (auto simp: renew_lease_def Let_def intro!: sound_accept)
qed

lemma lease_status_ok:
  "lease_status auth allow_dead r im = Inr l \<longleftrightarrow>
    (\<exists>k. auth_lease auth = Some k \<and> om_find (st_leases (im_state im)) k = Some l \<and>
      auth_lease_generation auth = Some (ls_generation l) \<and> ls_virtual_id l = va_id r \<and>
      (allow_dead \<or> lease_state_is_live (ls_state l)))"
  by (auto simp: lease_status_def split: option.splits)

lemma resolve_lease_ok:
  "resolve_lease_for auth allow_dead im = Inr (r, l) \<longleftrightarrow>
    (\<exists>t. resolve_owned (request_checks auth im) auth im = Inr (t, r)) \<and> lease_status auth allow_dead r im = Inr l"
  by (auto simp: resolve_lease_for_def split: sum.splits)

lemma resolve_lease_code: "resolve_lease_for auth allow_dead im = Inl c \<Longrightarrow> c \<noteq> SC_Ok"
  by (auto simp: resolve_lease_for_def lease_status_def split: sum.splits option.splits if_splits
      dest: resolve_owned_code)

lemma txn_drop_attachment [simp]: "txn s0 im \<Longrightarrow> txn s0 (drop_attachment e k t im)"
  by (simp add: drop_attachment_def split: option.split)

lemma drop_attachment_virtuals [simp]:
  "st_virtuals (im_state (drop_attachment e k t im)) =
    om_upd k (\<lambda>r. r\<lparr> va_active_attachments := dec (va_active_attachments r), va_updated_at := env_now e \<rparr>)
      (st_virtuals (im_state im))"
  by (simp add: drop_attachment_def split: option.split)

lemma txn_detach_effect [simp]: "txn s0 im \<Longrightarrow> txn s0 (detach_effect e r l im)"
  by (simp add: detach_effect_def)

lemma txn_revoke_effect [simp]: "txn s0 im \<Longrightarrow> txn s0 (revoke_effect e r l reason im)"
  by (simp add: revoke_effect_def)

lemma drop_states:
  "st_virtuals (im_state im') = om_upd k (\<lambda>r. r\<lparr> va_active_attachments := dec (va_active_attachments r),
      va_updated_at := n \<rparr>) (st_virtuals (im_state im)) \<Longrightarrow> states_kept (im_state im) (im_state im')"
  by (rule states_kept_upd [where k = k and f = "\<lambda>r. r\<lparr> va_active_attachments := dec (va_active_attachments r),
      va_updated_at := n \<rparr>"]) simp_all

lemma detach_states: "states_kept (im_state im) (im_state (detach_effect e r l im))"
  by (rule drop_states [where k = "va_id r" and n = "env_now e"]) (simp add: detach_effect_def)

lemma revoke_states: "states_kept (im_state im) (im_state (revoke_effect e r l reason im))"
proof (cases "lease_state_is_live (ls_state l)")
  case True
  then show ?thesis by (intro drop_states [where k = "va_id r" and n = "env_now e"]) (simp add: revoke_effect_def)
next
  case False
  then show ?thesis by (intro states_kept_refl) (simp add: revoke_effect_def)
qed

text \<open>Releasing needs that an accelerator with a live lease may return to Provisioned; otherwise the lease
  would be released and the operation then still refuse.\<close>

definition releasable :: "vstate \<Rightarrow> bool" where
  "releasable s \<longleftrightarrow> (\<forall>k l r. om_find (st_leases s) k = Some l \<longrightarrow> lease_state_is_live (ls_state l) \<longrightarrow>
    om_find (st_virtuals s) (ls_virtual_id l) = Some r \<longrightarrow> LC_Provisioned \<in> set (lifecycle_edges (va_state r)))"

lemma release_tail_sound:
  assumes "txn (im_state im0) im" and "well_formed (im_state im0)"
    and "LC_Provisioned \<in> set (lifecycle_edges (va_state (the_virtual im k)))"
  shows "op_sound e im0 (release_tail e ctx k counted note im)"
  using assms by (auto simp: release_tail_def Let_def split_beta transition_status intro!: sound_accept)

lemma released_edge:
  assumes "well_formed (im_state im)" and "releasable (im_state im)"
    and "resolve_lease_for auth False (begin_op im) = Inr (r, l)"
  shows "om_find (st_virtuals (im_state im)) (va_id r) = Some r \<and> LC_Provisioned \<in> set (lifecycle_edges (va_state r))"
proof -
  have "om_find (st_virtuals (im_state im)) (va_id r) = Some r"
    using assms(1,3) resolved_virtual [of im auth r] by (auto simp: resolve_lease_ok resolve_owned_ok well_formed_def)
  moreover obtain k where "om_find (st_leases (im_state im)) k = Some l" "ls_virtual_id l = va_id r"
    "lease_state_is_live (ls_state l)"
    using assms(3) by (auto simp: resolve_lease_ok lease_status_ok)
  ultimately show ?thesis using assms(2) by (auto simp: releasable_def)
qed

lemma detach_sound:
  assumes "well_formed (im_state im)" and "releasable (im_state im)"
  shows "op_sound e im (detach e auth im)"
proof (cases "resolve_lease_for auth False (begin_op im)")
  case (Inl c)
  then show ?thesis using sound_refuse_begin [OF assms(1) resolve_lease_code [OF Inl]] by (simp add: detach_def Let_def)
next
  case (Inr p)
  obtain r l where p: "p = (r, l)" by fastforce
  note e = released_edge [OF assms Inr [unfolded p]]
  then have "va_state (the_virtual (detach_effect e r l (begin_op im)) (va_id r)) = va_state r"
    using states_kept_the_virtual [OF detach_states, of "begin_op im" "va_id r" r] by simp
  with e show ?thesis
    unfolding detach_def Let_def Inr p sum.case prod.case
    by (intro release_tail_sound) (use assms(1) in auto)
qed

lemma revoke_lease_sound:
  assumes "well_formed (im_state im)" and "releasable (im_state im)"
  shows "op_sound e im (revoke_lease e auth reason im)"
proof (cases "resolve_lease_for auth False (begin_op im)")
  case (Inl c)
  then show ?thesis
    using sound_refuse_begin [OF assms(1) resolve_lease_code [OF Inl]] by (simp add: revoke_lease_def Let_def)
next
  case (Inr p)
  obtain r l where p: "p = (r, l)" by fastforce
  note e = released_edge [OF assms Inr [unfolded p]]
  then have "va_state (the_virtual (revoke_effect e r l reason (begin_op im)) (va_id r)) = va_state r"
    using states_kept_the_virtual [OF revoke_states, of "begin_op im" "va_id r" r] by simp
  with e show ?thesis
    unfolding revoke_lease_def Let_def Inr p sum.case prod.case
    by (intro release_tail_sound) (use assms(1) in auto)
qed

end
