(* ===== verification/AV_PolicyChange.thy ===== *)
theory AV_PolicyChange
  imports AV_Leases
begin

text \<open>
  Policy replacement (\<open>src/runtime.cpp\<close>, \<open>set_policy\<close>, \<open>policy\<close>) and the sweeps over all leases, virtual
  accelerators and tenants that it shares with start and shutdown.

  A loop over a map mutates its entries but not its keys: it is a fold over the keys the map has when
  the loop starts. Marking the header as changed is idempotent, so where one sweep marks it per entry and
  another once, one definition serves both.

  Proved: after a policy change no lease is live, nothing is attached, and every accelerator that is not
  retired carries the new policy generation and is bound only to a backing that satisfies the new policy.
\<close>

section \<open>Sweeps\<close>

definition end_live_lease :: "lease_state \<Rightarrow> string \<Rightarrow> micros \<Rightarrow> ls_id \<Rightarrow> impl \<Rightarrow> impl" where
  "end_live_lease st reason now k im =
    (case om_find (st_leases (im_state im)) k of None \<Rightarrow> im
     | Some l \<Rightarrow>
         if \<not> lease_state_is_live (ls_state l) then im
         else run_steps
           [touch_lease (ls_id l),
            upd_lease k (end_lease st now reason),
            upd_accounting (\<lambda>a. a\<lparr> ac_leases_fenced := ac_leases_fenced a + 1 \<rparr>),
            touch_header] im)"

definition end_live_leases :: "lease_state \<Rightarrow> string \<Rightarrow> micros \<Rightarrow> impl \<Rightarrow> impl" where
  "end_live_leases st reason now im = fold (end_live_lease st reason now) (map fst (st_leases (im_state im))) im"

text \<open>\<open>stamp\<close>: whether the sweep also sets \<open>updated_at\<close>.\<close>

definition clear_tenant :: "micros option \<Rightarrow> tn_id \<Rightarrow> impl \<Rightarrow> impl" where
  "clear_tenant stamp k im =
    (case om_find (st_tenants (im_state im)) k of None \<Rightarrow> im
     | Some t \<Rightarrow>
         if tn_active_attachments t = 0 then im
         else upd_tenant k (\<lambda>t. t\<lparr> tn_active_attachments := 0,
             tn_updated_at := option_or (tn_updated_at t) stamp \<rparr>) (touch_tenant (tn_id t) im))"

definition clear_tenants :: "micros option \<Rightarrow> impl \<Rightarrow> impl" where
  "clear_tenants stamp im = fold (clear_tenant stamp) (map fst (st_tenants (im_state im))) im"

section \<open>Replacing the policy\<close>

definition txt_set_policy :: string where "txt_set_policy = ''set_policy''"
definition txt_policy_superseded :: "pol_gen \<Rightarrow> string" where
  "txt_policy_superseded g = ''policy generation advanced to '' @ gen_str g"
definition txt_reestablish :: string where
  "txt_reestablish = ''policy generation advanced; authority must be re-established''"
definition txt_backing_unsatisfied :: string where
  "txt_backing_unsatisfied = ''policy generation advanced and the backing no longer satisfies the contract''"
definition txt_recover_policy :: string where
  "txt_recover_policy = ''policy generation advanced; the current backing no longer satisfies the new policy''"

definition set_policy_guard :: "authority \<Rightarrow> virtualization_policy \<Rightarrow> impl \<Rightarrow> status_code" where
  "set_policy_guard auth policy im = first_error [request_checks auth im, policy_validate (policy_normalize policy)]"

definition install_policy :: "virtualization_policy \<Rightarrow> impl \<Rightarrow> virtualization_policy \<times> impl" where
  "install_policy policy im0 =
    (let (n, im) = next_id (touch_header im0); g = gen_next (st_policy_generation (im_state im));
         updated = (policy_normalize policy)\<lparr> pol_id := Ident n, pol_generation := g \<rparr>
     in (updated, run_steps
       [upd_state (\<lambda>s. s\<lparr> st_policy := updated, st_policy_generation := g \<rparr>),
        upd_accounting (\<lambda>a. a\<lparr> ac_policy_updates := ac_policy_updates a + 1 \<rparr>)] im))"

definition policy_reset :: "pol_gen \<Rightarrow> micros \<Rightarrow> virtual_record \<Rightarrow> virtual_record" where
  "policy_reset g now r =
    (let r1 = r\<lparr> va_active_attachments := 0 \<rparr>;
         r2 = (if is_executing (va_state r1) then enter_state LC_Provisioned txt_reestablish now r1 else r1)
     in r2\<lparr> va_policy_generation := g \<rparr>)"

definition backing_satisfies :: "virtual_record \<Rightarrow> virtualization_policy \<Rightarrow> impl \<Rightarrow> bool" where
  "backing_satisfies r policy im =
    (case om_find (st_backings (im_state im)) (va_backing r) of None \<Rightarrow> True
     | Some b \<Rightarrow> validate_backing_for b (physical_of im b) r policy (im_state im) = SC_Ok)"

definition require_recovery :: "micros \<Rightarrow> virtual_record \<Rightarrow> virtual_record" where
  "require_recovery now r = enter_state LC_RecoveryRequired txt_recover_policy now (r\<lparr> va_assignment := no_id \<rparr>)"

definition invalidate_binding :: "va_id \<Rightarrow> virtual_record \<Rightarrow> micros \<Rightarrow> impl \<Rightarrow> impl" where
  "invalidate_binding k r now = run_steps
    [revoke_assignment (va_assignment r) txt_backing_unsatisfied now,
     release_backing (va_backing r),
     upd_virtual k (require_recovery now)]"

definition revalidate_virtual :: "virtualization_policy \<Rightarrow> micros \<Rightarrow> va_id \<Rightarrow> impl \<Rightarrow> impl" where
  "revalidate_virtual policy now k im =
    (case om_find (st_virtuals (im_state im)) k of None \<Rightarrow> im
     | Some r0 \<Rightarrow>
       if va_state r0 = LC_Retired then im
       else
         let im1 = run_steps [touch_virtual (va_id r0), upd_virtual k (policy_reset (pol_generation policy) now)] im;
             r = the_virtual im1 k
         in rebuild_projection_at k
           (if backing_satisfies r policy im1 then im1 else invalidate_binding k r now im1))"

definition revalidate_virtuals :: "virtualization_policy \<Rightarrow> micros \<Rightarrow> impl \<Rightarrow> impl" where
  "revalidate_virtuals policy now im = fold (revalidate_virtual policy now) (map fst (st_virtuals (im_state im))) im"

definition set_policy_effect :: "env \<Rightarrow> virtualization_policy \<Rightarrow> impl \<Rightarrow> virtualization_policy \<times> impl" where
  "set_policy_effect e policy im =
    (let (updated, im1) = install_policy policy im in
     (updated, run_steps
       [end_live_leases Lease_Superseded (txt_policy_superseded (pol_generation updated)) (env_now e),
        revalidate_virtuals updated (env_now e),
        clear_tenants (Some (env_now e)),
        recompute_derived_accounting,
        touch_header] im1))"

definition set_policy ::
  "env \<Rightarrow> authority \<Rightarrow> virtualization_policy \<Rightarrow> impl \<Rightarrow> virtualization_policy result \<times> impl" where
  "set_policy e auth policy im0 =
    (let ctx = (op_context_of txt_set_policy auth)\<lparr> cx_policy_generation := st_policy_generation (im_state im0) \<rparr>;
         im = begin_op im0; status = set_policy_guard auth policy im in
     if status \<noteq> SC_Ok then refuse e ctx status im
     else let (updated, im1) = set_policy_effect e policy im
       in accept e (ctx\<lparr> cx_policy_generation := pol_generation updated \<rparr>) AK_Mutation updated im1)"

definition policy_of :: "impl \<Rightarrow> virtualization_policy" where
  "policy_of im = st_policy (im_state im)"

section \<open>Soundness\<close>

lemma txn_fold: "(\<And>k im. txn s0 im \<Longrightarrow> txn s0 (f k im)) \<Longrightarrow> txn s0 im \<Longrightarrow> txn s0 (fold f ks im)"
  by (induction ks arbitrary: im) simp_all

lemma txn_ids:
  "txn s0 im \<Longrightarrow> om_find (st_leases (im_state im)) kl = Some l \<Longrightarrow> ls_id l = kl"
  "txn s0 im \<Longrightarrow> om_find (st_tenants (im_state im)) kt = Some t \<Longrightarrow> tn_id t = kt"
  "txn s0 im \<Longrightarrow> om_find (st_virtuals (im_state im)) kr = Some r \<Longrightarrow> va_id r = kr"
  "txn s0 im \<Longrightarrow> om_find (st_backings (im_state im)) kb = Some b \<Longrightarrow> bk_id b = kb"
  "txn s0 im \<Longrightarrow> om_find (st_physical (im_state im)) kp = Some p \<Longrightarrow> pd_id p = kp"
  "txn s0 im \<Longrightarrow> om_find (st_migrations (im_state im)) km = Some m \<Longrightarrow> mp_id (mg_plan m) = km"
  by (auto simp: txn_def ids_match_def dest: keyedD)

lemma txn_end_live_lease: "txn s0 im \<Longrightarrow> txn s0 (end_live_lease st reason now k im)"
  by (auto simp: end_live_lease_def txn_ids split: option.split)

lemma txn_end_live_leases [simp]: "txn s0 im \<Longrightarrow> txn s0 (end_live_leases st reason now im)"
  unfolding end_live_leases_def by (rule txn_fold) (simp_all add: txn_end_live_lease)

lemma txn_clear_tenant: "txn s0 im \<Longrightarrow> txn s0 (clear_tenant stamp k im)"
  by (auto simp: clear_tenant_def txn_ids split: option.split)

lemma txn_clear_tenants [simp]: "txn s0 im \<Longrightarrow> txn s0 (clear_tenants stamp im)"
  unfolding clear_tenants_def by (rule txn_fold) (simp_all add: txn_clear_tenant)

lemma txn_upd_policy [simp]:
  "txn s0 (upd_state (\<lambda>s. s\<lparr> st_policy := p, st_policy_generation := g \<rparr>) im) = txn s0 im"
  by (simp add: txn_def covers_def logs_kept_def ids_match_def lifecycle_flow_def va_states_def)

lemma txn_install_policy [simp]: "txn s0 (snd (install_policy policy im)) = txn s0 im"
  by (simp add: install_policy_def Let_def split_beta)

lemma policy_reset_simps [simp]:
  "va_id (policy_reset g now r) = va_id r" "va_policy_generation (policy_reset g now r) = g"
  "va_active_attachments (policy_reset g now r) = 0" "va_backing (policy_reset g now r) = va_backing r"
  "va_assignment (policy_reset g now r) = va_assignment r"
  "va_state (policy_reset g now r) = (if is_executing (va_state r) then LC_Provisioned else va_state r)"
  by (simp_all add: policy_reset_def Let_def)

lemma require_recovery_simps [simp]:
  "va_id (require_recovery now r) = va_id r" "va_state (require_recovery now r) = LC_RecoveryRequired"
  "va_assignment (require_recovery now r) = no_id" "va_backing (require_recovery now r) = va_backing r"
  "va_policy_generation (require_recovery now r) = va_policy_generation r"
  "va_active_attachments (require_recovery now r) = va_active_attachments r"
  by (simp_all add: require_recovery_def enter_state_def)

lemma executing_reset_path:
  "lifecycle_path s (if is_executing s then LC_Provisioned else s)"
  by (auto simp: is_executing_def intro: lifecycle_path.here lifecycle_path_edge)

lemma recovery_path: "s \<noteq> LC_Retired \<Longrightarrow> lifecycle_path s LC_RecoveryRequired"
  by (cases s) (auto intro: lifecycle_path.here lifecycle_path_edge)

lemma txn_invalidate:
  assumes "txn s0 im" and "k \<in> touched_virtuals im"
    and "\<And>r. om_find (st_virtuals (im_state im)) k = Some r \<Longrightarrow> va_state r \<noteq> LC_Retired"
  shows "txn s0 (invalidate_binding k r now im)"
  unfolding invalidate_binding_def run_steps_simps
  by (rule txn_upd_virtual) (use assms recovery_path in auto)

lemma invalidate_undo [simp]: "un_virtuals (im_undo (invalidate_binding k r now im)) = un_virtuals (im_undo im)"
  by (simp add: invalidate_binding_def)

lemma txn_revalidate:
  assumes "txn s0 im"
  shows "txn s0 (revalidate_virtual policy now k im)"
proof (cases "om_find (st_virtuals (im_state im)) k")
  case (Some r0)
  show ?thesis
  proof (cases "va_state r0 = LC_Retired")
    case False
    let ?im1 = "upd_virtual k (policy_reset (pol_generation policy) now) (touch_virtual k im)"
    have 1: "txn s0 ?im1" by (rule txn_upd_virtual) (use assms executing_reset_path in auto)
    have "txn s0 (invalidate_binding k r now ?im1)" for r
      by (rule txn_invalidate) (use 1 Some False in auto)
    with 1 show ?thesis using txn_ids(3) [OF assms Some] Some False
      by (simp add: revalidate_virtual_def Let_def)
  qed (simp add: revalidate_virtual_def Some assms)
qed (simp add: revalidate_virtual_def assms)

lemma txn_revalidate_virtuals [simp]: "txn s0 im \<Longrightarrow> txn s0 (revalidate_virtuals policy now im)"
  unfolding revalidate_virtuals_def by (rule txn_fold) (simp_all add: txn_revalidate)

lemma txn_set_policy_effect [simp]: "txn s0 im \<Longrightarrow> txn s0 (snd (set_policy_effect e policy im))"
  by (simp add: set_policy_effect_def Let_def split_beta)

lemma set_policy_sound: "well_formed (im_state im) \<Longrightarrow> op_sound e im (set_policy e auth policy im)"
  by (auto simp: set_policy_def Let_def split_beta intro!: sound_accept sound_refuse_begin)

section \<open>What the sweeps do\<close>

lemma fold_frame: "(\<And>k im. P (f k im) = P im) \<Longrightarrow> P (fold f ks im) = P im"
  by (induction ks arbitrary: im) simp_all

text \<open>A sweep establishes a property of each entry it visits, when no later step destroys it.\<close>

lemma fold_establishes:
  assumes "\<And>k im. Q k (f k im)" and "\<And>k x im. Q x im \<Longrightarrow> Q x (f k im)" and "x \<in> set ks \<or> Q x im"
  shows "Q x (fold f ks im)"
  using assms(3)
proof (induction ks arbitrary: im)
  case (Cons k ks)
  then show ?case using assms(1) [of k im] assms(2) [of x im k] by auto
qed simp

lemma end_lease_step_frame [simp]:
  "st_schema (im_state (end_live_lease st reason now k im)) = st_schema (im_state (im))"
  "st_next_sequence (im_state (end_live_lease st reason now k im)) = st_next_sequence (im_state (im))"
  "st_epoch (im_state (end_live_lease st reason now k im)) = st_epoch (im_state (im))"
  "st_policy (im_state (end_live_lease st reason now k im)) = st_policy (im_state (im))"
  "st_policy_generation (im_state (end_live_lease st reason now k im)) = st_policy_generation (im_state (im))"
  "st_tenants (im_state (end_live_lease st reason now k im)) = st_tenants (im_state (im))"
  "st_physical (im_state (end_live_lease st reason now k im)) = st_physical (im_state (im))"
  "st_backings (im_state (end_live_lease st reason now k im)) = st_backings (im_state (im))"
  "st_virtuals (im_state (end_live_lease st reason now k im)) = st_virtuals (im_state (im))"
  "st_assignments (im_state (end_live_lease st reason now k im)) = st_assignments (im_state (im))"
  "st_migrations (im_state (end_live_lease st reason now k im)) = st_migrations (im_state (im))"
  "st_evidence (im_state (end_live_lease st reason now k im)) = st_evidence (im_state (im))"
  "st_audit (im_state (end_live_lease st reason now k im)) = st_audit (im_state (im))"
  "st_decisions (im_state (end_live_lease st reason now k im)) = st_decisions (im_state (im))"
  "st_requests (im_state (end_live_lease st reason now k im)) = st_requests (im_state (im))"
  by (simp_all add: end_live_lease_def split: option.split)

lemma end_leases_frame [simp]:
  "st_schema (im_state (end_live_leases st reason now im)) = st_schema (im_state (im))"
  "st_next_sequence (im_state (end_live_leases st reason now im)) = st_next_sequence (im_state (im))"
  "st_epoch (im_state (end_live_leases st reason now im)) = st_epoch (im_state (im))"
  "st_policy (im_state (end_live_leases st reason now im)) = st_policy (im_state (im))"
  "st_policy_generation (im_state (end_live_leases st reason now im)) = st_policy_generation (im_state (im))"
  "st_tenants (im_state (end_live_leases st reason now im)) = st_tenants (im_state (im))"
  "st_physical (im_state (end_live_leases st reason now im)) = st_physical (im_state (im))"
  "st_backings (im_state (end_live_leases st reason now im)) = st_backings (im_state (im))"
  "st_virtuals (im_state (end_live_leases st reason now im)) = st_virtuals (im_state (im))"
  "st_assignments (im_state (end_live_leases st reason now im)) = st_assignments (im_state (im))"
  "st_migrations (im_state (end_live_leases st reason now im)) = st_migrations (im_state (im))"
  "st_evidence (im_state (end_live_leases st reason now im)) = st_evidence (im_state (im))"
  "st_audit (im_state (end_live_leases st reason now im)) = st_audit (im_state (im))"
  "st_decisions (im_state (end_live_leases st reason now im)) = st_decisions (im_state (im))"
  "st_requests (im_state (end_live_leases st reason now im)) = st_requests (im_state (im))"
  unfolding end_live_leases_def by (rule fold_frame, simp)+

lemma clear_step_frame [simp]:
  "st_schema (im_state (clear_tenant stamp k im)) = st_schema (im_state (im))"
  "st_next_sequence (im_state (clear_tenant stamp k im)) = st_next_sequence (im_state (im))"
  "st_epoch (im_state (clear_tenant stamp k im)) = st_epoch (im_state (im))"
  "st_policy (im_state (clear_tenant stamp k im)) = st_policy (im_state (im))"
  "st_policy_generation (im_state (clear_tenant stamp k im)) = st_policy_generation (im_state (im))"
  "st_physical (im_state (clear_tenant stamp k im)) = st_physical (im_state (im))"
  "st_backings (im_state (clear_tenant stamp k im)) = st_backings (im_state (im))"
  "st_virtuals (im_state (clear_tenant stamp k im)) = st_virtuals (im_state (im))"
  "st_leases (im_state (clear_tenant stamp k im)) = st_leases (im_state (im))"
  "st_assignments (im_state (clear_tenant stamp k im)) = st_assignments (im_state (im))"
  "st_migrations (im_state (clear_tenant stamp k im)) = st_migrations (im_state (im))"
  "st_evidence (im_state (clear_tenant stamp k im)) = st_evidence (im_state (im))"
  "st_accounting (im_state (clear_tenant stamp k im)) = st_accounting (im_state (im))"
  "st_audit (im_state (clear_tenant stamp k im)) = st_audit (im_state (im))"
  "st_decisions (im_state (clear_tenant stamp k im)) = st_decisions (im_state (im))"
  "st_requests (im_state (clear_tenant stamp k im)) = st_requests (im_state (im))"
  by (simp_all add: clear_tenant_def split: option.split)

lemma clear_tenants_frame [simp]:
  "st_schema (im_state (clear_tenants stamp im)) = st_schema (im_state (im))"
  "st_next_sequence (im_state (clear_tenants stamp im)) = st_next_sequence (im_state (im))"
  "st_epoch (im_state (clear_tenants stamp im)) = st_epoch (im_state (im))"
  "st_policy (im_state (clear_tenants stamp im)) = st_policy (im_state (im))"
  "st_policy_generation (im_state (clear_tenants stamp im)) = st_policy_generation (im_state (im))"
  "st_physical (im_state (clear_tenants stamp im)) = st_physical (im_state (im))"
  "st_backings (im_state (clear_tenants stamp im)) = st_backings (im_state (im))"
  "st_virtuals (im_state (clear_tenants stamp im)) = st_virtuals (im_state (im))"
  "st_leases (im_state (clear_tenants stamp im)) = st_leases (im_state (im))"
  "st_assignments (im_state (clear_tenants stamp im)) = st_assignments (im_state (im))"
  "st_migrations (im_state (clear_tenants stamp im)) = st_migrations (im_state (im))"
  "st_evidence (im_state (clear_tenants stamp im)) = st_evidence (im_state (im))"
  "st_accounting (im_state (clear_tenants stamp im)) = st_accounting (im_state (im))"
  "st_audit (im_state (clear_tenants stamp im)) = st_audit (im_state (im))"
  "st_decisions (im_state (clear_tenants stamp im)) = st_decisions (im_state (im))"
  "st_requests (im_state (clear_tenants stamp im)) = st_requests (im_state (im))"
  unfolding clear_tenants_def by (rule fold_frame, simp)+

lemma revalidate_step_frame [simp]:
  "st_schema (im_state (revalidate_virtual policy now k im)) = st_schema (im_state (im))"
  "st_epoch (im_state (revalidate_virtual policy now k im)) = st_epoch (im_state (im))"
  "st_policy (im_state (revalidate_virtual policy now k im)) = st_policy (im_state (im))"
  "st_policy_generation (im_state (revalidate_virtual policy now k im)) = st_policy_generation (im_state (im))"
  "st_tenants (im_state (revalidate_virtual policy now k im)) = st_tenants (im_state (im))"
  "st_physical (im_state (revalidate_virtual policy now k im)) = st_physical (im_state (im))"
  "st_leases (im_state (revalidate_virtual policy now k im)) = st_leases (im_state (im))"
  "st_migrations (im_state (revalidate_virtual policy now k im)) = st_migrations (im_state (im))"
  "st_evidence (im_state (revalidate_virtual policy now k im)) = st_evidence (im_state (im))"
  "st_audit (im_state (revalidate_virtual policy now k im)) = st_audit (im_state (im))"
  "st_decisions (im_state (revalidate_virtual policy now k im)) = st_decisions (im_state (im))"
  "st_requests (im_state (revalidate_virtual policy now k im)) = st_requests (im_state (im))"
  by (simp_all add: revalidate_virtual_def invalidate_binding_def Let_def split: option.split)

lemma revalidate_frame [simp]:
  "st_schema (im_state (revalidate_virtuals policy now im)) = st_schema (im_state (im))"
  "st_epoch (im_state (revalidate_virtuals policy now im)) = st_epoch (im_state (im))"
  "st_policy (im_state (revalidate_virtuals policy now im)) = st_policy (im_state (im))"
  "st_policy_generation (im_state (revalidate_virtuals policy now im)) = st_policy_generation (im_state (im))"
  "st_tenants (im_state (revalidate_virtuals policy now im)) = st_tenants (im_state (im))"
  "st_physical (im_state (revalidate_virtuals policy now im)) = st_physical (im_state (im))"
  "st_leases (im_state (revalidate_virtuals policy now im)) = st_leases (im_state (im))"
  "st_migrations (im_state (revalidate_virtuals policy now im)) = st_migrations (im_state (im))"
  "st_evidence (im_state (revalidate_virtuals policy now im)) = st_evidence (im_state (im))"
  "st_audit (im_state (revalidate_virtuals policy now im)) = st_audit (im_state (im))"
  "st_decisions (im_state (revalidate_virtuals policy now im)) = st_decisions (im_state (im))"
  "st_requests (im_state (revalidate_virtuals policy now im)) = st_requests (im_state (im))"
  unfolding revalidate_virtuals_def by (rule fold_frame, simp)+

lemma om_find_key: "om_find m k = Some v \<Longrightarrow> k \<in> set (map fst m)"
  unfolding om_find_def by (auto simp: map_of_eq_None_iff [symmetric] split: option.splits) (metis not_None_eq map_of_eq_None_iff)

lemma absent_fold:
  "(\<And>k im. om_find (proj (f k im)) x = None \<longleftrightarrow> om_find (proj im) x = None) \<Longrightarrow>
   om_find (proj (fold f ks im)) x = None \<longleftrightarrow> om_find (proj im) x = None"
  by (rule fold_frame)

text \<open>After the lease sweep no lease is live.\<close>

lemma end_live_leases_dead:
  assumes "\<not> lease_state_is_live st" and "om_find (st_leases (im_state (end_live_leases st reason now im))) x = Some l"
  shows "\<not> lease_state_is_live (ls_state l)"
proof -
  let ?Q = "\<lambda>x im. \<forall>l. om_find (st_leases (im_state im)) x = Some l \<longrightarrow> \<not> lease_state_is_live (ls_state l)"
  have "om_find (st_leases (im_state im)) x \<noteq> None"
    using assms(2) absent_fold [of "\<lambda>im. st_leases (im_state im)" "end_live_lease st reason now" x
        "map fst (st_leases (im_state im))" im]
    by (auto simp: end_live_leases_def end_live_lease_def split: option.splits)
  then have "x \<in> set (map fst (st_leases (im_state im)))" by (auto dest: om_find_key)
  then have "?Q x (end_live_leases st reason now im)"
    unfolding end_live_leases_def using assms(1)
    by (intro fold_establishes [where Q = ?Q]) (auto simp: end_live_lease_def split: option.splits)
  then show ?thesis using assms(2) by blast
qed

lemma clear_tenants_zero:
  assumes "om_find (st_tenants (im_state (clear_tenants stamp im))) x = Some t"
  shows "tn_active_attachments t = 0"
proof -
  let ?Q = "\<lambda>x im. \<forall>t. om_find (st_tenants (im_state im)) x = Some t \<longrightarrow> tn_active_attachments t = 0"
  have "om_find (st_tenants (im_state im)) x \<noteq> None"
    using assms absent_fold [of "\<lambda>im. st_tenants (im_state im)" "clear_tenant stamp" x
        "map fst (st_tenants (im_state im))" im]
    by (auto simp: clear_tenants_def clear_tenant_def split: option.splits)
  then have "x \<in> set (map fst (st_tenants (im_state im)))" by (auto dest: om_find_key)
  then have "?Q x (clear_tenants stamp im)"
    unfolding clear_tenants_def
    by (intro fold_establishes [where Q = ?Q]) (auto simp: clear_tenant_def split: option.splits)
  then show ?thesis using assms by blast
qed

text \<open>What revalidation leaves of a virtual accelerator that is not retired.\<close>

definition revalidated :: "pol_gen \<Rightarrow> virtual_record \<Rightarrow> bool" where
  "revalidated g r \<longleftrightarrow> va_state r = LC_Retired \<or>
    va_policy_generation r = g \<and> va_active_attachments r = 0 \<and> \<not> is_executing (va_state r)"

lemma revalidate_virtual_find:
  "om_find (st_virtuals (im_state (revalidate_virtual policy now k im))) x = Some r' \<Longrightarrow>
   \<exists>r. om_find (st_virtuals (im_state im)) x = Some r \<and>
     (if x = k then revalidated (pol_generation policy) r' else r' = r)"
  by (auto simp: revalidate_virtual_def invalidate_binding_def rebuild_at_virtuals revalidated_def Let_def the_virtual_def
      option_or_def split: option.splits if_splits)

lemma revalidate_virtuals_all:
  assumes "om_find (st_virtuals (im_state (revalidate_virtuals policy now im))) x = Some r"
  shows "revalidated (pol_generation policy) r"
proof -
  let ?Q = "\<lambda>x im. \<forall>r. om_find (st_virtuals (im_state im)) x = Some r \<longrightarrow> revalidated (pol_generation policy) r"
  have "om_find (st_virtuals (im_state im)) x \<noteq> None"
    using assms absent_fold [of "\<lambda>im. st_virtuals (im_state im)" "revalidate_virtual policy now" x
        "map fst (st_virtuals (im_state im))" im]
    by (auto simp: revalidate_virtuals_def revalidate_virtual_def invalidate_binding_def rebuild_at_virtuals Let_def
        split: option.splits)
  then have "x \<in> set (map fst (st_virtuals (im_state im)))" by (auto dest: om_find_key)
  then have "?Q x (revalidate_virtuals policy now im)"
    unfolding revalidate_virtuals_def
    by (intro fold_establishes [where Q = ?Q]) (auto dest!: revalidate_virtual_find split: if_splits)
  then show ?thesis using assms by blast
qed

lemma set_policy_outcome:
  assumes "well_formed (im_state im)" and "fst (set_policy e auth policy im) = Inr p"
  defines "s \<equiv> im_state (snd (set_policy e auth policy im))"
  shows "st_policy s = p \<and> st_policy_generation s = gen_next (st_policy_generation (im_state im)) \<and>
    p = (policy_normalize policy)\<lparr> pol_id := Ident (st_next_sequence (im_state im)),
      pol_generation := gen_next (st_policy_generation (im_state im)) \<rparr> \<and>
    policy_validate (policy_normalize policy) = SC_Ok \<and>
    (\<forall>k l. om_find (st_leases s) k = Some l \<longrightarrow> \<not> lease_state_is_live (ls_state l)) \<and>
    (\<forall>k t. om_find (st_tenants s) k = Some t \<longrightarrow> tn_active_attachments t = 0) \<and>
    (\<forall>k r. om_find (st_virtuals s) k = Some r \<longrightarrow> revalidated (st_policy_generation s) r)"
proof -
  let ?im = "begin_op im" and ?eff = "set_policy_effect e policy (begin_op im)"
  have ok: "set_policy_guard auth policy ?im = SC_Ok"
    using assms(2) by (auto simp: set_policy_def Let_def refuse_def split_beta split: if_splits)
  have t: "covers (im_state im) (snd ?eff)" using assms(1) txn_set_policy_effect txn_begin txn_def by blast
  have out: "p = fst ?eff \<and> same_entities (im_state (snd ?eff)) s"
    using assms(2) accept_entities [OF t] unfolding s_def
    by (simp add: set_policy_def Let_def split_beta ok)
  let ?p = "(policy_normalize policy)\<lparr> pol_id := Ident (st_next_sequence (im_state im)),
      pol_generation := gen_next (st_policy_generation (im_state im)) \<rparr>"
  let ?im1 = "snd (install_policy policy ?im)"
  let ?im2 = "end_live_leases Lease_Superseded (txt_policy_superseded (pol_generation ?p)) (env_now e) ?im1"
  let ?im3 = "revalidate_virtuals ?p (env_now e) ?im2"
  have p: "fst (install_policy policy ?im) = ?p" by (simp add: install_policy_def Let_def split_beta)
  have e: "fst ?eff = ?p" "snd ?eff = touch_header (recompute_derived_accounting (clear_tenants (Some (env_now e)) ?im3))"
    by (simp_all add: set_policy_effect_def Let_def split_beta p)
  have s: "st_policy s = ?p" "st_policy_generation s = pol_generation ?p"
    "st_leases s = st_leases (im_state ?im2)" "st_virtuals s = st_virtuals (im_state ?im3)"
    "st_tenants s = st_tenants (im_state (clear_tenants (Some (env_now e)) ?im3))"
    using out by (simp_all add: same_entities_def e install_policy_def Let_def split_beta)
  show ?thesis
    using out ok end_live_leases_dead [of Lease_Superseded] clear_tenants_zero revalidate_virtuals_all [of ?p]
    by (auto simp: s e set_policy_guard_def split: if_splits)
qed

text \<open>C17: A successful policy change installs the normalised policy under the next generation and ends all
  authority derived from the previous one: no lease is live, no tenant and no accelerator counts an
  attachment, and every accelerator that is not retired carries the new policy generation and is neither
  Attached nor Active nor Draining.\<close>

theorem set_policy_ends_authority:
  assumes "well_formed (im_state im)" and "fst (set_policy e auth policy im) = Inr p"
  defines "s \<equiv> im_state (snd (set_policy e auth policy im))"
  shows "st_policy s = p \<and> st_policy_generation s = gen_next (st_policy_generation (im_state im)) \<and>
    p = (policy_normalize policy)\<lparr> pol_id := Ident (st_next_sequence (im_state im)),
      pol_generation := gen_next (st_policy_generation (im_state im)) \<rparr> \<and>
    policy_validate (policy_normalize policy) = SC_Ok \<and>
    (\<forall>k l. om_find (st_leases s) k = Some l \<longrightarrow> \<not> lease_state_is_live (ls_state l)) \<and>
    (\<forall>k t. om_find (st_tenants s) k = Some t \<longrightarrow> tn_active_attachments t = 0) \<and>
    (\<forall>k r. om_find (st_virtuals s) k = Some r \<longrightarrow> revalidated (st_policy_generation s) r)"
  unfolding s_def by (rule set_policy_outcome [OF assms(1,2)])

end
