(* ===== verification/AV_Cutover.thy ===== *)
theory AV_Cutover
  imports AV_PolicyChange
begin

text \<open>
  Migration of a virtual accelerator between backings (\<open>src/runtime.cpp\<close>, \<open>migration_capability\<close>,
  \<open>plan_staleness\<close>, \<open>plan_migration\<close> to \<open>abort_migration\<close>, \<open>do_classify_recovered_migrations\<close> and the
  queries). The phases are planned, prepared (leases drained, destination assignment proposed), committed
  (the cutover: authority moves from source to destination in one durable step), completed; abort is
  possible up to the cutover.

  Proved: the phases are sound, the cutover moves authority exactly once, an aborted or interrupted
  migration leaves the source authoritative.
\<close>

section \<open>What may migrate\<close>

record migration_capability_info =
  mc_supported :: bool
  mc_klass :: migration_class
  mc_reason :: string

definition txt_policy_disabled :: string where
  "txt_policy_disabled = ''migration is disabled by the virtualization policy''"
definition txt_contract_disabled :: string where
  "txt_contract_disabled = ''migration is disabled by the resource contract''"
definition txt_no_class :: string where
  "txt_no_class = ''no implemented migration class is permitted; this runtime implements REBIND_ONLY and DRAIN_AND_RESTART only and never claims state transfer it does not perform''"
definition txt_identity_continuity :: string where
  "txt_identity_continuity = ''identity continuity without execution-state or memory-state movement''"

definition migration_capability :: "virtualization_policy \<Rightarrow> resource_contract \<Rightarrow> migration_capability_info" where
  "migration_capability policy contract =
    (if \<not> pol_migration_allowed policy
     then \<lparr> mc_supported = False, mc_klass = MC_Unsupported, mc_reason = txt_policy_disabled \<rparr>
     else if \<not> rc_migration_allowed contract
     then \<lparr> mc_supported = False, mc_klass = MC_Unsupported, mc_reason = txt_contract_disabled \<rparr>
     else
       let allowed = filter (\<lambda>k. policy_permits_migration_class policy k \<and> contract_permits_migration_class contract k)
             [MC_RebindOnly, MC_DrainAndRestart] in
       if allowed = [] then \<lparr> mc_supported = False, mc_klass = MC_Unsupported, mc_reason = txt_no_class \<rparr>
       else \<lparr> mc_supported = True, mc_klass = last allowed, mc_reason = txt_identity_continuity \<rparr>)"

definition plan_staleness :: "migration_record \<Rightarrow> virtual_record \<Rightarrow> vstate \<Rightarrow> status_code" where
  "plan_staleness m r s =
    (let plan = mg_plan m in first_error
      [refuse_if (mp_epoch plan \<noteq> st_epoch s) SC_StaleEpoch,
       refuse_if (mp_policy_generation plan \<noteq> st_policy_generation s) SC_StalePolicy,
       refuse_if (mp_virtual_generation plan \<noteq> va_generation r) SC_StaleMigration,
       refuse_if (mp_contract_generation plan \<noteq> rc_generation (va_contract r)) SC_StaleMigration,
       refuse_if (\<not> migration_state_after_cutover (mg_state m) \<and>
         (mp_source_backing plan \<noteq> va_backing r \<or> mp_source_backing_generation plan \<noteq> va_backing_generation r)) SC_StaleBacking,
       (case om_find (st_backings s) (mp_source_backing plan) of None \<Rightarrow> SC_StaleBacking
        | Some b \<Rightarrow> refuse_if (bk_generation b \<noteq> mp_source_backing_generation plan) SC_StaleBacking),
       (case om_find (st_backings s) (mp_destination_backing plan) of None \<Rightarrow> SC_StaleBacking
        | Some b \<Rightarrow> refuse_if (bk_generation b \<noteq> mp_destination_backing_generation plan) SC_StaleBacking),
       (case om_find (st_tenants s) (mp_tenant plan) of None \<Rightarrow> SC_StaleTenant
        | Some t \<Rightarrow> refuse_if (tn_generation t \<noteq> mp_tenant_generation plan) SC_StaleTenant)])"

section \<open>Planning\<close>

definition txt_migration_plan :: string where "txt_migration_plan = ''migration_plan''"
definition txt_rationale :: string where
  "txt_rationale = ''identity continuity across backing replacement; no execution-state or memory-state movement is claimed''"
definition txt_planned :: string where
  "txt_planned = ''plan bound to virtual, backing, physical, tenant, contract, projection, policy and epoch generations''"

definition in_flight :: "virtual_record \<Rightarrow> impl \<Rightarrow> bool" where
  "in_flight r im =
    (case om_find (st_migrations (im_state im)) (va_migration r) of None \<Rightarrow> False
     | Some m \<Rightarrow> \<not> migration_state_is_terminal (mg_state m))"

text \<open>The first status may be replaced by that of the second chain, as in the code; it is never cleared.\<close>

definition plan_state_status :: "bk_id \<Rightarrow> virtual_record \<Rightarrow> impl \<Rightarrow> status_code" where
  "plan_state_status target r im =
    (let status =
       (if \<not> id_valid (va_assignment r) \<or> \<not> id_valid (va_backing r) then SC_BackingUnavailable
        else if id_valid (va_migration r) \<and> in_flight r im then SC_MigrationInProgress
        else SC_Ok) in
     if status = SC_Ok \<and> va_state r = LC_Migrating then SC_MigrationInProgress
     else if va_state r \<noteq> LC_Provisioned \<and> va_state r \<noteq> LC_Attached \<and> va_state r \<noteq> LC_Active \<and>
       va_state r \<noteq> LC_Draining \<and> va_state r \<noteq> LC_Suspended then SC_InvalidTransition
     else if target = va_backing r then SC_Conflict
     else status)"

definition unimplemented_class :: "migration_class \<Rightarrow> bool" where
  "unimplemented_class k \<longleftrightarrow> k = MC_Unknown \<or> k = MC_Unsupported \<or> k = MC_CheckpointRestore \<or>
    k = MC_LiveStateTransfer \<or> k = MC_StateReconstruction"

definition plan_class_status :: "migration_class \<Rightarrow> virtual_record \<Rightarrow> impl \<Rightarrow> status_code" where
  "plan_class_status klass r im = first_error
    [refuse_if (\<not> mc_supported (migration_capability (st_policy (im_state im)) (va_contract r))) SC_MigrationUnsupported,
     refuse_if (unimplemented_class klass) SC_MigrationUnsupported,
     refuse_if (\<not> policy_permits_migration_class (st_policy (im_state im)) klass) SC_MigrationClassNotAllowed,
     refuse_if (\<not> contract_permits_migration_class (va_contract r) klass) SC_MigrationClassNotAllowed]"

definition plan_guard :: "authority \<Rightarrow> bk_id \<Rightarrow> migration_class \<Rightarrow> impl \<Rightarrow> virtual_record result" where
  "plan_guard auth target klass im =
    (case resolve_owned (request_checks auth im) auth im of
       Inl c \<Rightarrow> Inl c
     | Inr (t, r) \<Rightarrow>
       (let status = first_error
          [require_mutable r, plan_state_status target r im, plan_class_status klass r im,
           (case om_find (st_backings (im_state im)) target of None \<Rightarrow> SC_NotFound
            | Some b \<Rightarrow> validate_backing_for b (physical_of im b) r (st_policy (im_state im)) (im_state im)),
           refuse_if (length (st_migrations (im_state im)) \<ge> unat (pol_max_migrations (st_policy (im_state im))))
             SC_LimitExceeded]
        in if status \<noteq> SC_Ok then Inl status else Inr r))"

definition new_plan :: "migration_class \<Rightarrow> bk_id \<Rightarrow> u64 \<Rightarrow> virtual_record \<Rightarrow> impl \<Rightarrow> migration_plan" where
  "new_plan klass target n r im =
    (let src = the_backing im (va_backing r); dst = the_backing im target in
     \<lparr> mp_id = Ident n, mp_generation = gen_initial, mp_virtual_id = va_id r,
       mp_virtual_generation = va_generation r, mp_source_backing = va_backing r,
       mp_source_backing_generation = bk_generation src, mp_destination_backing = target,
       mp_destination_backing_generation = bk_generation dst, mp_source_physical = bk_physical src,
       mp_source_physical_generation =
         (case physical_of im src of Some p \<Rightarrow> pd_generation p | None \<Rightarrow> bk_physical_generation src),
       mp_destination_physical = bk_physical dst, mp_destination_physical_generation = bk_physical_generation dst,
       mp_tenant = va_owner r, mp_tenant_generation = va_owner_generation r,
       mp_contract_generation = rc_generation (va_contract r),
       mp_projection_generation = cp_generation (va_projection r),
       mp_policy_generation = st_policy_generation (im_state im), mp_epoch = st_epoch (im_state im),
       mp_klass = klass, mp_state_transfer_required = False, mp_live_state_movement = False,
       mp_rationale = txt_rationale \<rparr>)"

definition new_migration :: "env \<Rightarrow> migration_plan \<Rightarrow> virtual_record \<Rightarrow> migration_record" where
  "new_migration e plan r =
    \<lparr> mg_plan = plan, mg_state = MS_Planned, mg_source_authoritative = True, mg_destination_authoritative = False,
      mg_state_transfer_performed = False, mg_source_assignment = va_assignment r,
      mg_destination_assignment = no_id, mg_destination_projection_generation = no_gen,
      mg_planned_at = env_now e, mg_prepared_at = 0, mg_committed_at = 0, mg_completed_at = 0,
      mg_note = txt_planned \<rparr>"

definition plan_effect ::
  "env \<Rightarrow> bk_id \<Rightarrow> migration_class \<Rightarrow> virtual_record \<Rightarrow> impl \<Rightarrow> migration_record \<times> impl" where
  "plan_effect e target klass r im =
    (let (n, im1) = next_id im; m = new_migration e (new_plan klass target n r im1) r; plan = mg_plan m
     in (m, run_steps
       [touch_virtual (va_id r),
        upd_virtual (va_id r) (\<lambda>r. r\<lparr> va_migration := mp_id plan, va_migration_generation := mp_generation plan \<rparr>),
        touch_migration (mp_id plan),
        put_migration (mp_id plan) m,
        upd_accounting (\<lambda>a. a\<lparr> ac_migrations_planned := ac_migrations_planned a + 1 \<rparr>),
        touch_header] im1))"

definition with_migration :: "migration_plan \<Rightarrow> op_context \<Rightarrow> op_context" where
  "with_migration plan c = c\<lparr> cx_migration := mp_id plan, cx_migration_generation := mp_generation plan \<rparr>"

definition plan_migration ::
  "env \<Rightarrow> authority \<Rightarrow> bk_id \<Rightarrow> migration_class \<Rightarrow> impl \<Rightarrow> migration_record result \<times> impl" where
  "plan_migration e auth target klass im0 =
    (let ctx = op_context_of txt_migration_plan auth; im = begin_op im0 in
     case plan_guard auth target klass im of
       Inl status \<Rightarrow> refuse e ctx status im
     | Inr r \<Rightarrow>
       (let (m, im1) = plan_effect e target klass r im
        in accept e (with_migration (mg_plan m) (adopt_virtual r ctx)) AK_MigrationChange m im1))"

section \<open>The shared prologue of the phases\<close>

definition the_migration :: "impl \<Rightarrow> migration_record \<Rightarrow> mg_id \<Rightarrow> migration_record" where
  "the_migration im d k = option_or d (om_find (st_migrations (im_state im)) k)"

definition migration_status :: "authority \<Rightarrow> virtual_record \<Rightarrow> impl \<Rightarrow> migration_record result" where
  "migration_status auth r im =
    (case auth_migration auth of None \<Rightarrow> Inl SC_InvalidArgument
     | Some k \<Rightarrow>
       (case auth_migration_generation auth of None \<Rightarrow> Inl SC_InvalidArgument
        | Some g \<Rightarrow>
          (case om_find (st_migrations (im_state im)) k of None \<Rightarrow> Inl SC_NotFound
           | Some m \<Rightarrow>
             if mp_generation (mg_plan m) \<noteq> g then Inl SC_StaleMigration
             else if mp_virtual_id (mg_plan m) \<noteq> va_id r then Inl SC_NotAuthorized
             else if plan_staleness m r (im_state im) \<noteq> SC_Ok then Inl (plan_staleness m r (im_state im))
             else Inr m)))"

definition migration_prologue :: "authority \<Rightarrow> impl \<Rightarrow> (migration_record \<times> virtual_record) result" where
  "migration_prologue auth im =
    (case resolve_owned (request_checks auth im) auth im of
       Inl c \<Rightarrow> Inl c
     | Inr (t, r) \<Rightarrow> (case migration_status auth r im of Inl c \<Rightarrow> Inl c | Inr m \<Rightarrow> Inr (m, r)))"

text \<open>Prologue plus the phase's own condition on the migration.\<close>

definition phase_guard ::
  "authority \<Rightarrow> (migration_record \<Rightarrow> impl \<Rightarrow> status_code) \<Rightarrow> impl \<Rightarrow> (migration_record \<times> virtual_record) result" where
  "phase_guard auth extra im =
    (case migration_prologue auth im of
       Inl c \<Rightarrow> Inl c
     | Inr (m, r) \<Rightarrow> if extra m im \<noteq> SC_Ok then Inl (extra m im) else Inr (m, r))"

definition phase_context :: "string \<Rightarrow> authority \<Rightarrow> op_context" where
  "phase_context operation auth = (op_context_of operation auth)
    \<lparr> cx_migration := option_or no_id (auth_migration auth),
      cx_migration_generation := option_or no_gen (auth_migration_generation auth) \<rparr>"

section \<open>Preparing\<close>

definition txt_migration_prepare :: string where "txt_migration_prepare = ''migration_prepare''"
definition txt_migrating :: string where "txt_migrating = ''migration prepared; leases are drained before cutover''"
definition txt_drained :: string where
  "txt_drained = ''migration drained the source backing; the lease is bound to the source generation''"
definition txt_prepared_for :: "mg_id \<Rightarrow> string" where
  "txt_prepared_for i = ''prepared destination for migration '' @ mg_str i"
definition txt_prepared :: string where
  "txt_prepared = ''prepared, source drained through SourceDraining and DestinationPrepared''"

definition destination_assignment ::
  "env \<Rightarrow> u64 \<Rightarrow> backing_record \<Rightarrow> mg_id \<Rightarrow> virtual_record \<Rightarrow> vstate \<Rightarrow> backing_assignment" where
  "destination_assignment e n b i r s = blank_assignment
    \<lparr> as_id := Ident n, as_virtual_id := va_id r, as_virtual_generation := va_generation r,
      as_backing := bk_id b, as_backing_generation := gen_next (va_backing_generation r),
      as_physical := bk_physical b, as_physical_generation := bk_physical_generation b,
      as_tenant := va_owner r, as_tenant_generation := va_owner_generation r,
      as_policy_generation := st_policy_generation s, as_contract_generation := rc_generation (va_contract r),
      as_projection_generation := cp_generation (va_projection r), as_epoch := st_epoch s,
      as_state := Asg_Prepared, as_authoritative := False, as_proposed_at := env_now e,
      as_reason := txt_prepared_for i \<rparr>"

text \<open>The plan follows the generations its own phase has just produced.\<close>

definition retarget :: "virtual_record \<Rightarrow> migration_plan \<Rightarrow> migration_plan" where
  "retarget r plan = plan
    \<lparr> mp_virtual_generation := va_generation r, mp_contract_generation := rc_generation (va_contract r),
      mp_projection_generation := cp_generation (va_projection r) \<rparr>"

definition prepared :: "env \<Rightarrow> as_id \<Rightarrow> virtual_record \<Rightarrow> migration_record \<Rightarrow> migration_record" where
  "prepared e a r m = m
    \<lparr> mg_state := MS_CommitReady, mg_destination_assignment := a, mg_prepared_at := env_now e, mg_note := txt_prepared,
      mg_plan := retarget r ((mg_plan m)\<lparr> mp_generation := gen_next (mp_generation (mg_plan m)) \<rparr>),
      mg_source_authoritative := True, mg_destination_authoritative := False \<rparr>"

definition prepare_effect ::
  "env \<Rightarrow> migration_record \<Rightarrow> virtual_record \<Rightarrow> impl \<Rightarrow> backing_assignment \<times> impl" where
  "prepare_effect e m r im0 =
    (let im = snd (fence_leases (va_id r) txt_drained (env_now e) im0);
         (n, im1) = next_id im; plan = mg_plan m; r' = the_virtual im1 (va_id r);
         a = destination_assignment e n (the_backing im1 (mp_destination_backing plan)) (mp_id plan) r' (im_state im1)
     in (a, run_steps
       [touch_assignment (as_id a),
        put_assignment (as_id a) a,
        touch_migration (mp_id plan),
        upd_migration (mp_id plan) (prepared e (as_id a) r'),
        upd_accounting (\<lambda>c. c\<lparr> ac_migrations_prepared := ac_migrations_prepared c + 1 \<rparr>),
        touch_header] im1))"

definition planned_only :: "migration_record \<Rightarrow> impl \<Rightarrow> status_code" where
  "planned_only m im = refuse_if (mg_state m \<noteq> MS_Planned) SC_InvalidTransition"

definition prepare_migration :: "env \<Rightarrow> authority \<Rightarrow> impl \<Rightarrow> migration_record result \<times> impl" where
  "prepare_migration e auth im0 =
    (let ctx = phase_context txt_migration_prepare auth; im = begin_op im0 in
     case phase_guard auth planned_only im of
       Inl status \<Rightarrow> refuse e ctx status im
     | Inr (m, r) \<Rightarrow>
       (let ctx1 = with_migration (mg_plan m) (adopt_virtual r ctx);
            (drained, im1) = transition e (va_id r) LC_Migrating txt_migrating im
        in if drained \<noteq> SC_Ok then refuse e ctx1 drained im1
           else
             let (a, im2) = prepare_effect e m r im1; m' = the_migration im2 m (mp_id (mg_plan m))
             in accept e (ctx1\<lparr> cx_migration_generation := mp_generation (mg_plan m'),
                  cx_backing_generation := as_backing_generation a \<rparr>) AK_MigrationChange m' im2))"

section \<open>Committing\<close>

definition txt_migration_commit :: string where "txt_migration_commit = ''migration_commit''"
definition txt_committed :: string where
  "txt_committed = ''migration committed: the destination backing is authoritative''"
definition txt_migration_committed :: "mg_id \<Rightarrow> string" where
  "txt_migration_committed i = ''migration '' @ mg_str i @ '' committed''"
definition txt_source_revoked :: string where "txt_source_revoked = ''migration cutover revoked the source authority''"
definition txt_cutover :: string where
  "txt_cutover = ''cutover performed; the source authority was revoked in the same durable step''"

definition commit_status :: "migration_record \<Rightarrow> impl \<Rightarrow> status_code" where
  "commit_status m im = first_error
    [refuse_if (mg_state m \<noteq> MS_CommitReady) SC_InvalidTransition,
     (case om_find (st_assignments (im_state im)) (mg_source_assignment m) of None \<Rightarrow> SC_StaleAssignment
      | Some a \<Rightarrow> refuse_if (\<not> as_authoritative a) SC_StaleAssignment),
     refuse_if (om_find (st_assignments (im_state im)) (mg_destination_assignment m) = None) SC_StaleAssignment]"

definition the_assignment :: "impl \<Rightarrow> as_id \<Rightarrow> backing_assignment" where
  "the_assignment im k = option_or blank_assignment (om_find (st_assignments (im_state im)) k)"

definition rebind_record ::
  "env \<Rightarrow> migration_plan \<Rightarrow> backing_record \<Rightarrow> as_id \<Rightarrow> backing_assignment \<Rightarrow> pol_gen \<Rightarrow> virtual_record \<Rightarrow> virtual_record" where
  "rebind_record e plan b k a g r = r
    \<lparr> va_backing := mp_destination_backing plan, va_backing_generation := as_backing_generation a,
      va_physical := bk_physical b, va_physical_generation := bk_physical_generation b,
      va_backing_class := bk_klass b, va_multiplexing := bk_multiplexing b,
      va_isolation_class := bk_isolation_class b, va_isolation := bk_isolation b, va_assignment := k,
      va_policy_generation := g, va_state := LC_Provisioned,
      va_state_generation := gen_next (va_state_generation r), va_state_reason := txt_committed,
      va_generation := gen_next (va_generation r), va_updated_at := env_now e,
      va_backing_history := map (close_history (env_now e)) (va_backing_history r) \<rparr>"

definition cutover_history :: "env \<Rightarrow> migration_plan \<Rightarrow> backing_record \<Rightarrow> as_id \<Rightarrow> backing_assignment \<Rightarrow> backing_history" where
  "cutover_history e plan b k a = blank_history
    \<lparr> bh_assignment := k, bh_backing := mp_destination_backing plan, bh_backing_generation := as_backing_generation a,
      bh_physical := bk_physical b, bh_physical_generation := bk_physical_generation b, bh_klass := bk_klass b,
      bh_multiplexing := bk_multiplexing b, bh_from := env_now e, bh_current := True,
      bh_reason := txt_migration_committed (mp_id plan) \<rparr>"

definition rebind_virtual :: "env \<Rightarrow> migration_record \<Rightarrow> va_id \<Rightarrow> impl \<Rightarrow> impl" where
  "rebind_virtual e m k im =
    (let plan = mg_plan m; a = mg_destination_assignment m; b = the_backing im (mp_destination_backing plan)
     in run_steps
       [touch_virtual k,
        upd_virtual k (rebind_record e plan b a (the_assignment im a) (st_policy_generation (im_state im))),
        rebuild_projection_at k,
        upd_virtual k (\<lambda>r. r\<lparr> va_backing_history :=
          va_backing_history r @ [cutover_history e plan b a (the_assignment im a)] \<rparr>)] im)"

definition move_authority :: "env \<Rightarrow> migration_record \<Rightarrow> virtual_record \<Rightarrow> impl \<Rightarrow> impl" where
  "move_authority e m r = run_steps
    [touch_assignment (mg_source_assignment m),
     upd_assignment (mg_source_assignment m) (\<lambda>a. a\<lparr> as_authoritative := False, as_state := Asg_Revoked,
       as_revoked_at := env_now e, as_reason := txt_source_revoked \<rparr>),
     upd_accounting (\<lambda>c. c\<lparr> ac_backing_revocations := ac_backing_revocations c + 1 \<rparr>),
     touch_assignment (mg_destination_assignment m),
     upd_assignment (mg_destination_assignment m) (\<lambda>a. a\<lparr> as_authoritative := True, as_state := Asg_Active,
       as_committed_at := env_now e, as_virtual_generation := va_generation r,
       as_projection_generation := cp_generation (va_projection r) \<rparr>)]"

definition move_backings :: "migration_record \<Rightarrow> va_id \<Rightarrow> impl \<Rightarrow> impl" where
  "move_backings m k im =
    (let plan = mg_plan m; a = mg_destination_assignment m in run_steps
      [touch_backing (mp_source_backing plan),
       upd_backing (mp_source_backing plan) (\<lambda>b. b\<lparr> bk_assigned_to := no_id, bk_active_assignment := no_id \<rparr>),
       touch_backing (mp_destination_backing plan),
       upd_backing (mp_destination_backing plan) (\<lambda>b. b\<lparr> bk_assigned_to := k, bk_active_assignment := a,
         bk_assigned_generation := as_backing_generation (the_assignment im a) \<rparr>)] im)"

definition committed :: "env \<Rightarrow> virtual_record \<Rightarrow> migration_record \<Rightarrow> migration_record" where
  "committed e r m = m
    \<lparr> mg_state := MS_Committed, mg_plan := retarget r (mg_plan m), mg_source_authoritative := False,
      mg_destination_authoritative := True, mg_committed_at := env_now e, mg_note := txt_cutover \<rparr>"

definition commit_effect :: "env \<Rightarrow> migration_record \<Rightarrow> va_id \<Rightarrow> impl \<Rightarrow> impl" where
  "commit_effect e m k im =
    (let im1 = rebind_virtual e m k im; r = the_virtual im1 k; i = mp_id (mg_plan m)
     in run_steps
       [move_authority e m r, move_backings m k, touch_migration i, upd_migration i (committed e r),
        upd_accounting (\<lambda>c. c\<lparr> ac_migrations_committed := ac_migrations_committed c + 1 \<rparr>), touch_header] im1)"

definition commit_migration :: "env \<Rightarrow> authority \<Rightarrow> impl \<Rightarrow> migration_record result \<times> impl" where
  "commit_migration e auth im0 =
    (let ctx = phase_context txt_migration_commit auth; im = begin_op im0 in
     case phase_guard auth commit_status im of
       Inl status \<Rightarrow> refuse e ctx status im
     | Inr (m, r) \<Rightarrow>
       (let im1 = commit_effect e m (va_id r) im; m' = the_migration im1 m (mp_id (mg_plan m))
        in accept e (with_migration (mg_plan m') (adopt_virtual (the_virtual im1 (va_id r)) ctx)) AK_MigrationChange m' im1))"

section \<open>Completing\<close>

definition txt_migration_complete :: string where "txt_migration_complete = ''migration_complete''"
definition txt_completed :: string where
  "txt_completed = ''identity continuity preserved; the tenant must re-establish attachment authority''"

definition committed_only :: "migration_record \<Rightarrow> impl \<Rightarrow> status_code" where
  "committed_only m im = refuse_if (mg_state m \<noteq> MS_Committed) SC_InvalidTransition"

definition complete_effect :: "env \<Rightarrow> migration_record \<Rightarrow> va_id \<Rightarrow> impl \<Rightarrow> impl" where
  "complete_effect e m k = run_steps
    [touch_migration (mp_id (mg_plan m)),
     upd_migration (mp_id (mg_plan m)) (\<lambda>m. m\<lparr> mg_state := MS_SourceRevoked \<rparr>),
     upd_migration (mp_id (mg_plan m)) (\<lambda>m. m\<lparr> mg_state := MS_Completed, mg_completed_at := env_now e,
       mg_note := txt_completed \<rparr>),
     touch_virtual k,
     upd_virtual k (\<lambda>r. r\<lparr> va_migration_generation := mp_generation (mg_plan m) \<rparr>)]"

definition complete_migration :: "env \<Rightarrow> authority \<Rightarrow> impl \<Rightarrow> migration_record result \<times> impl" where
  "complete_migration e auth im0 =
    (let ctx = op_context_of txt_migration_complete auth; im = begin_op im0 in
     case phase_guard auth committed_only im of
       Inl status \<Rightarrow> refuse e ctx status im
     | Inr (m, r) \<Rightarrow>
       (let im1 = complete_effect e m (va_id r) im
        in accept e (with_migration (mg_plan m) (adopt_virtual r ctx)) AK_MigrationChange
          (the_migration im1 m (mp_id (mg_plan m))) im1))"

section \<open>Aborting\<close>

definition txt_migration_abort :: string where "txt_migration_abort = ''migration_abort''"
definition txt_aborted :: "string \<Rightarrow> string" where
  "txt_aborted reason = ''migration aborted before cutover: '' @ reason"
definition txt_source_remains :: string where
  "txt_source_remains = ''migration aborted before cutover; the source backing remains authoritative''"

definition abortable :: "migration_record \<Rightarrow> impl \<Rightarrow> status_code" where
  "abortable m im = first_error
    [refuse_if (migration_state_after_cutover (mg_state m)) SC_InvalidTransition,
     refuse_if (migration_state_is_terminal (mg_state m)) SC_InvalidTransition]"

definition fail_destination :: "micros \<Rightarrow> string \<Rightarrow> as_id \<Rightarrow> impl \<Rightarrow> impl" where
  "fail_destination now reason a im =
    (case om_find (st_assignments (im_state im)) a of None \<Rightarrow> im
     | Some _ \<Rightarrow> upd_assignment a (\<lambda>x. x\<lparr> as_state := Asg_Failed, as_authoritative := False,
         as_revoked_at := now, as_reason := reason \<rparr>) (touch_assignment a im))"

definition aborted :: "micros \<Rightarrow> string \<Rightarrow> migration_record \<Rightarrow> migration_record" where
  "aborted now note m = m
    \<lparr> mg_state := MS_Aborted, mg_source_authoritative := True, mg_destination_authoritative := False,
      mg_completed_at := now, mg_note := note \<rparr>"

definition abort_effect :: "env \<Rightarrow> migration_record \<Rightarrow> string \<Rightarrow> impl \<Rightarrow> impl" where
  "abort_effect e m reason = run_steps
    [fail_destination (env_now e) (txt_aborted reason) (mg_destination_assignment m),
     touch_migration (mp_id (mg_plan m)),
     upd_migration (mp_id (mg_plan m)) (aborted (env_now e) reason),
     upd_accounting (\<lambda>c. c\<lparr> ac_migrations_aborted := ac_migrations_aborted c + 1 \<rparr>)]"

definition abort_migration :: "env \<Rightarrow> authority \<Rightarrow> string \<Rightarrow> impl \<Rightarrow> migration_record result \<times> impl" where
  "abort_migration e auth reason im0 =
    (let ctx = op_context_of txt_migration_abort auth; im = begin_op im0 in
     case phase_guard auth abortable im of
       Inl status \<Rightarrow> refuse e ctx status im
     | Inr (m, r) \<Rightarrow>
       (let ctx1 = with_migration (mg_plan m) (adopt_virtual r ctx); im1 = abort_effect e m reason im;
            (status, im2) =
              (if va_state (the_virtual im1 (va_id r)) = LC_Migrating
               then transition e (va_id r) LC_Provisioned txt_source_remains im1 else (SC_Ok, im1))
        in if status \<noteq> SC_Ok then refuse e ctx1 status im2
           else accept e (ctx1\<lparr> cx_virtual_generation := va_generation (the_virtual im2 (va_id r)) \<rparr>) AK_MigrationChange
             (the_migration im2 m (mp_id (mg_plan m))) (touch_header im2)))"

section \<open>Queries\<close>

definition get_migration :: "mg_id \<Rightarrow> impl \<Rightarrow> migration_record result" where
  "get_migration i im = find_or_refuse (st_migrations (im_state im)) i"

definition list_migrations :: "impl \<Rightarrow> migration_record list" where
  "list_migrations im = om_values (st_migrations (im_state im))"

section \<open>Classification after a restart\<close>

definition txt_classify :: string where "txt_classify = ''classify_recovered_migrations''"
definition txt_durable_cutover :: string where
  "txt_durable_cutover = ''cutover was durable before the restart; the migration is completed''"
definition txt_interrupted :: string where
  "txt_interrupted = ''coordinator restart found an in-flight migration before the cutover; the source remains authoritative''"

definition fail_prepared :: "micros \<Rightarrow> as_id \<Rightarrow> impl \<Rightarrow> impl" where
  "fail_prepared now a im =
    (case om_find (st_assignments (im_state im)) a of None \<Rightarrow> im
     | Some x \<Rightarrow>
         if as_authoritative x then im
         else upd_assignment a (\<lambda>x. x\<lparr> as_state := Asg_Failed, as_revoked_at := now, as_reason := txt_interrupted \<rparr>)
           (touch_assignment a im))"

definition abandon_migration :: "micros \<Rightarrow> mg_id \<Rightarrow> migration_record \<Rightarrow> virtual_record \<Rightarrow> impl \<Rightarrow> impl" where
  "abandon_migration now k m r = run_steps
    [touch_migration (mp_id (mg_plan m)),
     upd_migration k (aborted now txt_interrupted),
     upd_accounting (\<lambda>c. c\<lparr> ac_migrations_aborted := ac_migrations_aborted c + 1 \<rparr>),
     fail_prepared now (mg_destination_assignment m),
     touch_virtual (va_id r),
     upd_virtual (mp_virtual_id (mg_plan m)) (\<lambda>r. if va_state r = LC_Migrating
       then enter_state LC_Provisioned txt_interrupted now r else r)]"

definition classify_one :: "micros \<Rightarrow> mg_id \<Rightarrow> nat \<times> impl \<Rightarrow> nat \<times> impl" where
  "classify_one now k acc =
    (let (n, im) = acc in
     case om_find (st_migrations (im_state im)) k of None \<Rightarrow> acc
     | Some m \<Rightarrow>
       (case om_find (st_virtuals (im_state im)) (mp_virtual_id (mg_plan m)) of None \<Rightarrow> acc
        | Some r \<Rightarrow>
          if mg_state m = MS_Committed
          then (n + 1, run_steps
            [touch_migration (mp_id (mg_plan m)),
             upd_migration k (\<lambda>m. m\<lparr> mg_state := MS_SourceRevoked \<rparr>),
             upd_migration k (\<lambda>m. m\<lparr> mg_state := MS_Completed, mg_completed_at := now, mg_note := txt_durable_cutover \<rparr>)] im)
          else if migration_state_is_terminal (mg_state m) then acc
          else if mg_state m = MS_RecoveryRequired then acc
          else (n + 1, abandon_migration now k m r im)))"

definition do_classify_recovered_migrations :: "env \<Rightarrow> impl \<Rightarrow> unit result \<times> impl" where
  "do_classify_recovered_migrations e im0 =
    (let ctx = blank_context\<lparr> cx_operation := txt_classify, cx_epoch := st_epoch (im_state im0) \<rparr>;
         im = begin_op im0;
         (n, im1) = fold (classify_one (env_now e)) (map fst (st_migrations (im_state im))) (0, im)
     in if n = 0 then (Inr (), im1\<lparr> im_changes := empty_changes, im_undo := blank_undo \<rparr>)
        else accept e ctx AK_Recovery () (touch_header im1))"

section \<open>Guards\<close>

lemma migration_status_ok:
  "migration_status auth r im = Inr m \<longleftrightarrow>
    (\<exists>k. auth_migration auth = Some k \<and> auth_migration_generation auth = Some (mp_generation (mg_plan m)) \<and>
      om_find (st_migrations (im_state im)) k = Some m \<and> mp_virtual_id (mg_plan m) = va_id r \<and>
      plan_staleness m r (im_state im) = SC_Ok)"
  by (auto simp: migration_status_def split: option.splits)

lemma migration_status_code: "migration_status auth r im = Inl c \<Longrightarrow> c \<noteq> SC_Ok"
  by (auto simp: migration_status_def split: option.splits if_splits)

lemma phase_guard_ok:
  "phase_guard auth extra im = Inr (m, r) \<longleftrightarrow>
    (\<exists>t. resolve_owned (request_checks auth im) auth im = Inr (t, r)) \<and> migration_status auth r im = Inr m \<and>
    extra m im = SC_Ok"
  by (auto simp: phase_guard_def migration_prologue_def split: sum.splits)

lemma phase_guard_code: "phase_guard auth extra im = Inl c \<Longrightarrow> c \<noteq> SC_Ok"
  by (auto simp: phase_guard_def migration_prologue_def split: sum.splits if_splits
      dest: resolve_owned_code migration_status_code)

text \<open>What a phase may rely on.\<close>

lemma phase_guard_found:
  assumes "well_formed (im_state im)" and "phase_guard auth extra (begin_op im) = Inr (m, r)"
  shows "om_find (st_virtuals (im_state im)) (va_id r) = Some r"
    and "om_find (st_migrations (im_state im)) (mp_id (mg_plan m)) = Some m"
    and "mp_virtual_id (mg_plan m) = va_id r" and "plan_staleness m r (im_state im) = SC_Ok"
    and "extra m (begin_op im) = SC_Ok"
proof -
  have "ids_match (im_state im)" using assms(1) by (simp add: well_formed_def)
  then show "om_find (st_virtuals (im_state im)) (va_id r) = Some r"
    "om_find (st_migrations (im_state im)) (mp_id (mg_plan m)) = Some m"
    using assms(2) resolved_virtual [of im auth r]
    by (auto simp: phase_guard_ok resolve_owned_ok migration_status_ok ids_match_def dest: keyedD)
qed (use assms(2) in \<open>auto simp: phase_guard_ok migration_status_ok\<close>)

lemma plan_guard_code: "plan_guard auth target klass im = Inl c \<Longrightarrow> c \<noteq> SC_Ok"
  by (auto simp: plan_guard_def Let_def split: sum.splits if_splits dest: resolve_owned_code)

section \<open>Soundness\<close>

lemma migration_ids [simp]:
  "mp_id (retarget r plan) = mp_id plan" "mp_id (mg_plan (prepared e a r m)) = mp_id (mg_plan m)"
  "mp_id (mg_plan (committed e r m)) = mp_id (mg_plan m)" "mg_plan (aborted now note m) = mg_plan m"
  "mp_virtual_id (retarget r plan) = mp_virtual_id plan"
  by (simp_all add: retarget_def prepared_def committed_def aborted_def)

lemma plan_sound:
  assumes "well_formed (im_state im)"
  shows "op_sound e im (plan_migration e auth target klass im)"
proof (cases "plan_guard auth target klass (begin_op im)")
  case (Inl c)
  then show ?thesis
    using sound_refuse_begin [OF assms plan_guard_code [OF Inl]] by (simp add: plan_migration_def Let_def)
next
  case (Inr r)
  then show ?thesis using assms
    by (auto simp: plan_migration_def plan_effect_def new_migration_def Let_def split_beta intro!: sound_accept)
qed

lemma txn_prepare_effect [simp]: "txn s0 im \<Longrightarrow> txn s0 (snd (prepare_effect e m r im))"
  by (simp add: prepare_effect_def Let_def split_beta)

lemma prepare_sound:
  assumes "well_formed (im_state im)"
  shows "op_sound e im (prepare_migration e auth im)"
proof (cases "phase_guard auth planned_only (begin_op im)")
  case (Inl c)
  then show ?thesis
    using sound_refuse_begin [OF assms phase_guard_code [OF Inl]] by (simp add: prepare_migration_def Let_def)
next
  case (Inr p)
  obtain m r where p: "p = (m, r)" by fastforce
  let ?t = "transition e (va_id r) LC_Migrating txt_migrating (begin_op im)"
  have "snd ?t = begin_op im" if "fst ?t \<noteq> SC_Ok" using that by (rule transition_refused)
  then show ?thesis using assms Inr
    by (auto simp: prepare_migration_def Let_def split_beta p intro!: sound_accept sound_refuse)
qed

lemma rebind_record_simps [simp]:
  "va_id (rebind_record e plan b k a g r) = va_id r" "va_state (rebind_record e plan b k a g r) = LC_Provisioned"
  "va_assignment (rebind_record e plan b k a g r) = k"
  "va_backing (rebind_record e plan b k a g r) = mp_destination_backing plan"
  "va_generation (rebind_record e plan b k a g r) = gen_next (va_generation r)"
  "va_backing_generation (rebind_record e plan b k a g r) = as_backing_generation a"
  "va_leases (rebind_record e plan b k a g r) = va_leases r"
  by (simp_all add: rebind_record_def)

lemma provisioned_path: "s \<noteq> LC_Retired \<Longrightarrow> lifecycle_path s LC_Provisioned"
proof (cases s)
  case LC_Fenced
  have "lifecycle_path LC_Fenced LC_RecoveryRequired" by (rule lifecycle_path_edge) simp
  then have "lifecycle_path LC_Fenced LC_Provisioned"
    by (rule lifecycle_path.step) (simp add: legal_transition_edges)
  then show ?thesis using LC_Fenced by simp
qed (auto intro: lifecycle_path.here lifecycle_path_edge)

lemma txn_rebind:
  assumes "txn s0 im" and "\<And>r. om_find (st_virtuals (im_state im)) k = Some r \<Longrightarrow> va_state r \<noteq> LC_Retired"
  shows "txn s0 (rebind_virtual e m k im)"
proof -
  have "txn s0 (upd_virtual k (rebind_record e plan b a x g) (touch_virtual k im))" for plan b a x g
    by (rule txn_upd_virtual) (use assms provisioned_path in auto)
  then show ?thesis by (simp add: rebind_virtual_def Let_def)
qed

lemma txn_move [simp]:
  "txn s0 im \<Longrightarrow> txn s0 (move_authority e m r im)" "txn s0 im \<Longrightarrow> txn s0 (move_backings m k im)"
  by (simp_all add: move_authority_def move_backings_def Let_def)

lemma txn_commit_effect:
  "txn s0 im \<Longrightarrow> (\<And>r. om_find (st_virtuals (im_state im)) k = Some r \<Longrightarrow> va_state r \<noteq> LC_Retired) \<Longrightarrow>
   txn s0 (commit_effect e m k im)"
  using txn_rebind [of s0 im k e m] by (simp add: commit_effect_def Let_def)

text \<open>\<open>commit_migration\<close> does not itself check that the accelerator is not retired; it relies on
  the generation that retirement advances.\<close>

definition commit_ready_alive :: "vstate \<Rightarrow> bool" where
  "commit_ready_alive s \<longleftrightarrow> (\<forall>k m r. om_find (st_migrations s) k = Some m \<longrightarrow> mg_state m = MS_CommitReady \<longrightarrow>
    om_find (st_virtuals s) (mp_virtual_id (mg_plan m)) = Some r \<longrightarrow>
    mp_virtual_generation (mg_plan m) = va_generation r \<longrightarrow> va_state r \<noteq> LC_Retired)"

lemma plan_staleness_generation:
  "plan_staleness m r s = SC_Ok \<Longrightarrow> mp_virtual_generation (mg_plan m) = va_generation r"
  by (simp add: plan_staleness_def Let_def del: first_error.simps)

lemma plan_staleness_destination:
  "plan_staleness m r s = SC_Ok \<Longrightarrow> \<exists>b. om_find (st_backings s) (mp_destination_backing (mg_plan m)) = Some b"
  by (auto simp: plan_staleness_def Let_def split: option.splits simp del: first_error.simps)

lemma commit_status_ok:
  "commit_status m im = SC_Ok \<longleftrightarrow> mg_state m = MS_CommitReady \<and>
    (\<exists>a. om_find (st_assignments (im_state im)) (mg_source_assignment m) = Some a \<and> as_authoritative a) \<and>
    (\<exists>a. om_find (st_assignments (im_state im)) (mg_destination_assignment m) = Some a)"
  by (auto simp: commit_status_def split: option.splits simp del: first_error.simps)

lemma commit_sound:
  assumes "well_formed (im_state im)" and "commit_ready_alive (im_state im)"
  shows "op_sound e im (commit_migration e auth im)"
proof (cases "phase_guard auth commit_status (begin_op im)")
  case (Inl c)
  then show ?thesis
    using sound_refuse_begin [OF assms(1) phase_guard_code [OF Inl]] by (simp add: commit_migration_def Let_def)
next
  case (Inr p)
  obtain m r where p: "p = (m, r)" by fastforce
  note f = phase_guard_found [OF assms(1) Inr [unfolded p]]
  have "mg_state m = MS_CommitReady" using f(5) by (simp add: commit_status_ok)
  then have "va_state r \<noteq> LC_Retired"
    using assms(2) f(1-3) plan_staleness_generation [OF f(4)] by (auto simp: commit_ready_alive_def)
  then have "txn (im_state im) (commit_effect e m (va_id r) (begin_op im))"
    using assms(1) f(1) by (intro txn_commit_effect) auto
  then show ?thesis using assms(1) Inr
    by (auto simp: commit_migration_def Let_def p intro!: sound_accept)
qed

lemma complete_sound:
  assumes "well_formed (im_state im)"
  shows "op_sound e im (complete_migration e auth im)"
proof (cases "phase_guard auth committed_only (begin_op im)")
  case (Inl c)
  then show ?thesis
    using sound_refuse_begin [OF assms phase_guard_code [OF Inl]] by (simp add: complete_migration_def Let_def)
next
  case (Inr p)
  then show ?thesis using assms
    by (auto simp: complete_migration_def complete_effect_def Let_def split_beta intro!: sound_accept)
qed

lemma txn_fail_destination [simp]: "txn s0 im \<Longrightarrow> txn s0 (fail_destination now reason a im)"
  by (simp add: fail_destination_def split: option.split)

lemma txn_abort_effect [simp]: "txn s0 im \<Longrightarrow> txn s0 (abort_effect e m reason im)"
  by (simp add: abort_effect_def)

lemma abort_sound:
  assumes "well_formed (im_state im)"
  shows "op_sound e im (abort_migration e auth reason im)"
proof (cases "phase_guard auth abortable (begin_op im)")
  case (Inl c)
  then show ?thesis
    using sound_refuse_begin [OF assms phase_guard_code [OF Inl]] by (simp add: abort_migration_def Let_def)
next
  case (Inr p)
  then show ?thesis using assms
    by (auto simp: abort_migration_def Let_def split_beta transition_status intro!: sound_accept)
qed

lemma txn_fail_prepared [simp]: "txn s0 im \<Longrightarrow> txn s0 (fail_prepared now a im)"
  by (simp add: fail_prepared_def split: option.split)

lemma fail_prepared_virtuals [simp]: "st_virtuals (im_state (fail_prepared now a im)) = st_virtuals (im_state im)"
  by (simp add: fail_prepared_def split: option.split)

lemma txn_abandon:
  assumes "txn s0 im" and "om_find (st_migrations (im_state im)) k = Some m"
    and "om_find (st_virtuals (im_state im)) (mp_virtual_id (mg_plan m)) = Some r"
  shows "txn s0 (abandon_migration now k m r im)"
proof -
  have i: "mp_id (mg_plan m) = k" "va_id r = mp_virtual_id (mg_plan m)"
    using txn_ids(6) [OF assms(1,2)] txn_ids(3) [OF assms(1,3)] by simp_all
  show ?thesis
    unfolding abandon_migration_def run_steps_simps i
    by (rule txn_upd_virtual) (use assms in \<open>auto intro: lifecycle_path.here lifecycle_path_edge\<close>)
qed

lemma txn_classify_one: "txn s0 (snd acc) \<Longrightarrow> txn s0 (snd (classify_one now k acc))"
  by (auto simp: classify_one_def split_beta Let_def txn_ids txn_abandon split: option.split)

lemma txn_classify_fold: "txn s0 (snd acc) \<Longrightarrow> txn s0 (snd (fold (classify_one now) ks acc))"
  by (induction ks arbitrary: acc) (simp_all add: txn_classify_one)

lemma classify_none: "fst (fold (classify_one now) ks (n, im)) = n \<Longrightarrow> snd (fold (classify_one now) ks (n, im)) = im"
proof -
  have mono: "fst acc \<le> fst (fold (classify_one now) ks acc)" for ks acc
  proof (induction ks arbitrary: acc)
    case (Cons k ks)
    have "fst acc \<le> fst (classify_one now k acc)"
      by (auto simp: classify_one_def split_beta Let_def split: option.split)
    also have "\<dots> \<le> fst (fold (classify_one now) ks (classify_one now k acc))" by (rule Cons.IH)
    finally show ?case by simp
  qed simp
  show "fst (fold (classify_one now) ks (n, im)) = n \<Longrightarrow> snd (fold (classify_one now) ks (n, im)) = im"
  proof (induction ks)
    case (Cons k ks)
    have "classify_one now k (n, im) = (n, im) \<or> fst (classify_one now k (n, im)) = n + 1"
      by (auto simp: classify_one_def split: option.split)
    then show ?case using Cons mono [of "classify_one now k (n, im)" ks] by auto
  qed simp
qed

lemma classify_sound:
  assumes "well_formed (im_state im)"
  shows "op_sound e im (do_classify_recovered_migrations e im)"
proof -
  let ?f = "fold (classify_one (env_now e)) (map fst (st_migrations (im_state im))) (0, begin_op im)"
  have t: "txn (im_state im) (snd ?f)" using assms by (intro txn_classify_fold) simp
  show ?thesis
  proof (cases "fst ?f = 0")
    case True
    then have "snd ?f = begin_op im" by (rule classify_none)
    then show ?thesis using True assms
      by (simp add: do_classify_recovered_migrations_def Let_def split_beta op_sound_def atomic_outcome_def lifecycle_flow_refl
        written_through_def)
  next
    case False
    then show ?thesis using t assms
      by (auto simp: do_classify_recovered_migrations_def Let_def split_beta intro!: sound_accept)
  qed
qed

section \<open>The cutover\<close>

lemma rebind_frame [simp]:
  "st_assignments (im_state (rebind_virtual e m k im)) = st_assignments (im_state im)"
  "st_backings (im_state (rebind_virtual e m k im)) = st_backings (im_state im)"
  "st_migrations (im_state (rebind_virtual e m k im)) = st_migrations (im_state im)"
  by (simp_all add: rebind_virtual_def Let_def)

lemma move_frame [simp]:
  "st_migrations (im_state (move_authority e m r im)) = st_migrations (im_state im)"
  "st_migrations (im_state (move_backings m k im)) = st_migrations (im_state im)"
  "st_virtuals (im_state (move_authority e m r im)) = st_virtuals (im_state im)"
  "st_virtuals (im_state (move_backings m k im)) = st_virtuals (im_state im)"
  "st_assignments (im_state (move_backings m k im)) = st_assignments (im_state im)"
  "st_backings (im_state (move_authority e m r im)) = st_backings (im_state im)"
  by (simp_all add: move_authority_def move_backings_def Let_def)

lemma rebind_virtual_find:
  "om_find (st_virtuals (im_state im)) k = Some r \<Longrightarrow>
   \<exists>r'. om_find (st_virtuals (im_state (rebind_virtual e m k im))) k = Some r' \<and>
     va_assignment r' = mg_destination_assignment m \<and> va_backing r' = mp_destination_backing (mg_plan m) \<and>
     va_state r' = LC_Provisioned \<and> va_generation r' = gen_next (va_generation r)"
  by (auto simp: rebind_virtual_def Let_def rebuild_at_virtuals the_virtual_def option_or_def)

text \<open>C8: the cutover. When \<open>commit_migration\<close> succeeds the source assignment, authoritative before, is not
  any more, the destination assignment is, the accelerator is bound to the destination and Provisioned
  under a new generation, both backings agree, and the migration the caller named records that authority
  moved.\<close>

theorem commit_moves_authority:
  assumes "well_formed (im_state im)" and "commit_ready_alive (im_state im)"
    and "fst (commit_migration e auth im) = Inr m'"
  shows "\<exists>m r. auth_migration auth = Some (mp_id (mg_plan m)) \<and> auth_virtual_id auth = Some (va_id r) \<and>
    om_find (st_migrations (im_state im)) (mp_id (mg_plan m)) = Some m \<and> mg_state m = MS_CommitReady \<and>
    om_find (st_virtuals (im_state im)) (va_id r) = Some r \<and>
    (\<exists>a. om_find (st_assignments (im_state im)) (mg_source_assignment m) = Some a \<and> as_authoritative a) \<and>
    (let s = im_state (snd (commit_migration e auth im)) in
      (mg_source_assignment m \<noteq> mg_destination_assignment m \<longrightarrow>
        (\<exists>a. om_find (st_assignments s) (mg_source_assignment m) = Some a \<and> \<not> as_authoritative a)) \<and>
      (\<exists>a. om_find (st_assignments s) (mg_destination_assignment m) = Some a \<and> as_authoritative a) \<and>
      (\<exists>r'. om_find (st_virtuals s) (va_id r) = Some r' \<and> va_assignment r' = mg_destination_assignment m \<and>
        va_backing r' = mp_destination_backing (mg_plan m) \<and> va_state r' = LC_Provisioned \<and>
        va_generation r' = gen_next (va_generation r)) \<and>
      (\<exists>b. om_find (st_backings s) (mp_destination_backing (mg_plan m)) = Some b \<and> bk_assigned_to b = va_id r \<and>
        bk_active_assignment b = mg_destination_assignment m) \<and>
      om_find (st_migrations s) (mp_id (mg_plan m)) = Some m' \<and>
      mg_state m' = MS_Committed \<and> mg_destination_authoritative m' \<and> \<not> mg_source_authoritative m')"
proof (cases "phase_guard auth commit_status (begin_op im)")
  case (Inl c)
  then show ?thesis using assms(3) by (simp add: commit_migration_def Let_def refuse_def split_beta)
next
  case (Inr p)
  obtain m r where p: "p = (m, r)" by fastforce
  note f = phase_guard_found [OF assms(1) Inr [unfolded p]]
  have named: "auth_migration auth = Some (mp_id (mg_plan m))" "auth_virtual_id auth = Some (va_id r)"
    using Inr p assms(1) by (auto simp: phase_guard_ok migration_status_ok resolve_owned_ok resolve_virtual_ok
        well_formed_def ids_match_def dest: keyedD)
  have st: "mg_state m = MS_CommitReady" using f(5) by (simp add: commit_status_ok)
  obtain src dst where a: "om_find (st_assignments (im_state im)) (mg_source_assignment m) = Some src" "as_authoritative src"
    "om_find (st_assignments (im_state im)) (mg_destination_assignment m) = Some dst"
    using f(5) by (auto simp: commit_status_ok)
  obtain db where b: "om_find (st_backings (im_state im)) (mp_destination_backing (mg_plan m)) = Some db"
    using plan_staleness_destination [OF f(4)] by blast
  have alive: "va_state r \<noteq> LC_Retired"
    using assms(2) f(1-3) st plan_staleness_generation [OF f(4)] by (auto simp: commit_ready_alive_def)
  let ?k = "va_id r" and ?im1 = "rebind_virtual e m (va_id r) (begin_op im)"
  let ?eff = "commit_effect e m ?k (begin_op im)" and ?s = "im_state (snd (commit_migration e auth im))"
  have "txn (im_state im) ?eff" using assms(1) alive f(1) by (intro txn_commit_effect) auto
  then have "covers (im_state im) ?eff" by (simp add: txn_def)
  moreover have "commit_migration e auth im = accept e (with_migration (mg_plan (the_migration ?eff m (mp_id (mg_plan m))))
      (adopt_virtual (the_virtual ?eff ?k) (phase_context txt_migration_commit auth))) AK_MigrationChange
      (the_migration ?eff m (mp_id (mg_plan m))) ?eff"
    by (simp add: commit_migration_def Let_def Inr p)
  ultimately have out: "m' = the_migration ?eff m (mp_id (mg_plan m))" "same_entities (im_state ?eff) ?s"
    using accept_entities assms(3) by metis+
  obtain r1 where r1: "om_find (st_virtuals (im_state ?im1)) ?k = Some r1" "va_assignment r1 = mg_destination_assignment m"
    "va_backing r1 = mp_destination_backing (mg_plan m)" "va_state r1 = LC_Provisioned" "va_generation r1 = gen_next (va_generation r)"
    using rebind_virtual_find [of "begin_op im" ?k r e m] f(1) by auto
  have s: "st_virtuals ?s = st_virtuals (im_state ?im1)"
    "om_find (st_migrations ?s) (mp_id (mg_plan m)) = Some (committed e r1 m)"
    "st_assignments ?s = st_assignments (im_state (move_authority e m r1 ?im1))"
    "st_backings ?s = st_backings (im_state (move_backings m ?k (move_authority e m r1 ?im1)))"
    using out(2) f(2) r1(1) by (simp_all add: same_entities_def commit_effect_def Let_def)
  have m': "m' = committed e r1 m" using out(1) f(2) r1(1)
    by (simp add: the_migration_def option_or_def commit_effect_def Let_def)
  show ?thesis
    by (rule exI [of _ m], rule exI [of _ r])
      (use named f(1,2) st a b r1 in \<open>auto simp: Let_def s m' committed_def move_authority_def move_backings_def\<close>)
qed

end
