(* ===== verification/AV_Devices.thy ===== *)
theory AV_Devices
  imports AV_PolicyChange
begin

text \<open>
  Physical devices (\<open>src/runtime.cpp\<close>, \<open>validate_stable_key\<close> to \<open>physical_lost\<close>, with the descriptors of
  \<open>include/av/backend.hpp\<close>): registration and refresh of a device and its backings, and the loss of a device.

  Proved: the operations are sound, stable keys are never bare ordinals, provenance is never relabelled,
  and losing a device withdraws every binding and lease that rested on it.
\<close>

section \<open>Descriptors\<close>

record backing_descriptor =
  bd_label :: string
  bd_klass :: backing_class
  bd_multiplexing :: multiplexing
  bd_isolation_class :: isolation_class
  bd_capacity_bytes :: u64
  bd_compute_units :: u32
  bd_mechanism :: string
  bd_isolation :: "isolation_claim list"
  bd_capabilities :: capability_surface
  bd_exclusive :: bool
  bd_externally_lifecycle_managed :: bool
  bd_external_partition_ref :: string

record device_descriptor =
  dd_stable_key :: string
  dd_vendor :: string
  dd_model :: string
  dd_driver_version :: string
  dd_architecture :: string
  dd_provenance :: provenance
  dd_memory_total_bytes :: u64
  dd_compute_units :: u32
  dd_compute_capability_major :: u32
  dd_compute_capability_minor :: u32
  dd_mechanism :: string
  dd_hardware_partition_capable :: bool
  dd_virtual_function_capable :: bool
  dd_mig_capable :: bool
  dd_backings :: "backing_descriptor list"

section \<open>Checks\<close>

definition validate_stable_key :: "string \<Rightarrow> status_code" where
  "validate_stable_key key = first_error
    [refuse_if (key = []) SC_InvalidArgument,
     refuse_if (length key > 256) SC_InvalidArgument,
     refuse_if (list_all (\<lambda>c. dec_digit c \<noteq> None) key) SC_InvalidArgument]"

definition same_physical_identity :: "physical_record \<Rightarrow> device_descriptor \<Rightarrow> bool" where
  "same_physical_identity r d \<longleftrightarrow> pd_vendor r = dd_vendor d \<and> pd_model r = dd_model d \<and>
    pd_memory_total_bytes r = dd_memory_total_bytes d \<and> pd_architecture r = dd_architecture d"

definition provenance_consistent :: "provenance \<Rightarrow> backing_class \<Rightarrow> bool" where
  "provenance_consistent declared klass =
    (let expected = class_native_provenance klass in
     expected = declared \<or> (declared = PV_Unsupported \<and> expected = PV_Real) \<or>
     (declared = PV_Synthetic \<and> expected = PV_Synthetic))"

definition check_descriptor :: "provenance \<Rightarrow> backing_descriptor \<Rightarrow> status_code" where
  "check_descriptor declared b = first_error
    [refuse_if (bd_klass b = BC_Unknown) SC_InvalidArgument,
     refuse_if (\<not> provenance_consistent declared (bd_klass b)) SC_IntegrityFailure,
     refuse_if (bd_isolation b = []) SC_InvalidArgument]"

definition check_session :: "ag_id \<Rightarrow> boot_id \<Rightarrow> impl \<Rightarrow> status_code" where
  "check_session agent boot im =
    (case om_find (im_agents im) agent of None \<Rightarrow> SC_NotFound
     | Some s \<Rightarrow> first_error
         [refuse_if (ag_boot s \<noteq> boot) SC_StaleAgentBoot, refuse_if (\<not> ag_connected s) SC_ConnectionLost])"

definition kMaxPhysicalDevices :: nat where "kMaxPhysicalDevices = 4096"

definition register_guard :: "authority \<Rightarrow> ag_id \<Rightarrow> boot_id \<Rightarrow> device_descriptor \<Rightarrow> impl \<Rightarrow> status_code" where
  "register_guard auth agent boot d im = first_error
    [guard_store im, check_epoch auth im, check_request auth im, validate_stable_key (dd_stable_key d),
     check_session agent boot im,
     refuse_if (dd_provenance d = PV_Unknown) SC_InvalidArgument,
     first_error (map (check_descriptor (dd_provenance d)) (dd_backings d)),
     refuse_if (length (st_physical (im_state im)) \<ge> kMaxPhysicalDevices) SC_LimitExceeded]"

section \<open>The device record\<close>

definition the_physical :: "impl \<Rightarrow> pd_id \<Rightarrow> physical_record" where
  "the_physical im k = option_or blank_physical (om_find (st_physical (im_state im)) k)"

text \<open>\<open>std::map::emplace\<close> leaves an existing entry alone.\<close>

definition emplace_physical :: "pd_id \<Rightarrow> physical_record \<Rightarrow> impl \<Rightarrow> impl" where
  "emplace_physical k v im = (case om_find (st_physical (im_state im)) k of None \<Rightarrow> put_physical k v im | Some _ \<Rightarrow> im)"

definition emplace_backing :: "bk_id \<Rightarrow> backing_record \<Rightarrow> impl \<Rightarrow> impl" where
  "emplace_backing k v im = (case om_find (st_backings (im_state im)) k of None \<Rightarrow> put_backing k v im | Some _ \<Rightarrow> im)"

definition open_device :: "device_descriptor \<Rightarrow> impl \<Rightarrow> pd_id \<times> bool \<times> impl" where
  "open_device d im =
    (case List.find (\<lambda>x. pd_stable_key (snd x) = dd_stable_key d) (st_physical (im_state im)) of
       None \<Rightarrow>
         (let (n, im1) = next_id im;
              r = blank_physical\<lparr> pd_id := Ident n, pd_generation := gen_initial, pd_stable_key := dd_stable_key d \<rparr>
          in (pd_id r, False, emplace_physical (pd_id r) r (touch_physical (pd_id r) im1)))
     | Some (k, r) \<Rightarrow>
         (let changed = \<not> same_physical_identity r d
          in (k, changed, upd_physical k (\<lambda>r. if changed then r\<lparr> pd_generation := gen_next (pd_generation r) \<rparr> else r)
               (touch_physical (pd_id r) im))))"

definition describe_device ::
  "env \<Rightarrow> ag_id \<Rightarrow> boot_id \<Rightarrow> device_descriptor \<Rightarrow> u64 \<Rightarrow> physical_record \<Rightarrow> physical_record" where
  "describe_device e agent boot d n r = r
    \<lparr> pd_agent := agent, pd_boot := boot, pd_vendor := dd_vendor d, pd_model := dd_model d,
      pd_driver_version := dd_driver_version d, pd_architecture := dd_architecture d,
      pd_provenance := dd_provenance d, pd_memory_total_bytes := dd_memory_total_bytes d,
      pd_compute_units := dd_compute_units d, pd_compute_capability_major := dd_compute_capability_major d,
      pd_compute_capability_minor := dd_compute_capability_minor d, pd_mechanism := dd_mechanism d,
      pd_hardware_partition_capable := dd_hardware_partition_capable d,
      pd_virtual_function_capable := dd_virtual_function_capable d, pd_mig_capable := dd_mig_capable d,
      pd_registered_at := (if pd_registered_at r = 0 then env_now e else pd_registered_at r),
      pd_evidence_at := env_now e, pd_present := True, pd_evidence := Ident n,
      pd_evidence_generation := gen_initial \<rparr>"

definition device_evidence ::
  "env \<Rightarrow> ag_id \<Rightarrow> boot_id \<Rightarrow> device_descriptor \<Rightarrow> bool \<Rightarrow> physical_record \<Rightarrow> evidence_record" where
  "device_evidence e agent boot d changed r = blank_evidence
    \<lparr> ev_id := pd_evidence r, ev_generation := pd_evidence_generation r,
      ev_kind := (if changed then EK_DeviceDiscovery else EK_CapabilityQuery), ev_provenance := dd_provenance d,
      ev_agent := agent, ev_boot := boot, ev_physical := pd_id r, ev_physical_generation := pd_generation r,
      ev_produced_at := env_now e, ev_mechanism := dd_mechanism d, ev_detail := dd_vendor d @ '' '' @ dd_model d,
      ev_payload_fingerprint := fnv1a64 (text_bytes
        (dd_vendor d @ ''|'' @ dd_model d @ ''|'' @ dec_string (unat (dd_memory_total_bytes d)))) \<rparr>"

definition record_evidence :: "evidence_record \<Rightarrow> impl \<Rightarrow> impl" where
  "record_evidence v = run_steps
    [touch_evidence (ev_id v), put_evidence (ev_id v) v,
     upd_accounting (\<lambda>a. a\<lparr> ac_evidence_records := ac_evidence_records a + 1 \<rparr>)]"

section \<open>Its backings\<close>

definition describe_backing ::
  "env \<Rightarrow> provenance \<Rightarrow> physical_record \<Rightarrow> backing_descriptor \<Rightarrow> backing_record \<Rightarrow> backing_record" where
  "describe_backing e declared p src b = b
    \<lparr> bk_physical_generation := pd_generation p, bk_klass := bd_klass src, bk_provenance := declared,
      bk_mechanism := bd_mechanism src,
      bk_multiplexing := (if bd_multiplexing src = MX_None then default_multiplexing_for (bd_klass src)
        else bd_multiplexing src),
      bk_isolation_class := bd_isolation_class src, bk_isolation := fold profile_set (bd_isolation src) [],
      bk_capabilities := bd_capabilities src, bk_capacity_bytes := bd_capacity_bytes src,
      bk_compute_units := bd_compute_units src, bk_capability_rank := backing_class_rank (bd_klass src),
      bk_evidence := pd_evidence p, bk_evidence_generation := pd_evidence_generation p, bk_evidence_at := env_now e,
      bk_evidence_fresh := True, bk_available := True, bk_exclusive := bd_exclusive src,
      bk_externally_lifecycle_managed := bd_externally_lifecycle_managed src,
      bk_external_partition_ref := bd_external_partition_ref src \<rparr>"

definition open_backing :: "pd_id \<Rightarrow> backing_descriptor \<Rightarrow> impl \<Rightarrow> bk_id \<times> impl" where
  "open_backing k src im =
    (let p = the_physical im k in
     case List.find (\<lambda>x. bk_physical (snd x) = pd_id p \<and> bk_label (snd x) = bd_label src) (st_backings (im_state im)) of
       None \<Rightarrow>
         (let (n, im1) = next_id im;
              b = blank_backing\<lparr> bk_id := Ident n, bk_generation := gen_initial, bk_physical := pd_id p,
                bk_label := bd_label src \<rparr>
          in (bk_id b, run_steps
            [touch_backing (bk_id b), emplace_backing (bk_id b) b,
             upd_physical k (\<lambda>p. p\<lparr> pd_backings := sort (pd_backings p @ [bk_id b]) \<rparr>)] im1))
     | Some (j, b) \<Rightarrow>
         (j, upd_backing j (\<lambda>b. b\<lparr> bk_generation := gen_next (bk_generation b) \<rparr>) (touch_backing (bk_id b) im)))"

definition materialise :: "env \<Rightarrow> pd_id \<Rightarrow> provenance \<Rightarrow> backing_descriptor \<Rightarrow> impl \<Rightarrow> impl" where
  "materialise e k declared src im =
    (let (j, im1) = open_backing k src im
     in upd_backing j (describe_backing e declared (the_physical im1 k) src) im1)"

definition revive_backing :: "env \<Rightarrow> physical_record \<Rightarrow> bk_id \<Rightarrow> impl \<Rightarrow> impl" where
  "revive_backing e p j im =
    (case om_find (st_backings (im_state im)) j of None \<Rightarrow> im
     | Some _ \<Rightarrow> upd_backing j (\<lambda>b. b\<lparr> bk_available := True, bk_evidence_fresh := True, bk_evidence_at := env_now e,
         bk_evidence := pd_evidence p, bk_evidence_generation := pd_evidence_generation p \<rparr>) (touch_backing j im))"

definition txt_generation_changed :: string where
  "txt_generation_changed = ''the physical device generation changed under this backing''"
definition txt_rebind :: string where
  "txt_rebind = ''the physical device generation changed; the binding must be re-established''"

definition unseat_holder :: "env \<Rightarrow> va_id \<Rightarrow> impl \<Rightarrow> impl" where
  "unseat_holder e h im =
    (case om_find (st_virtuals (im_state im)) h of None \<Rightarrow> im
     | Some r \<Rightarrow>
         if va_state r = LC_Retired then im
         else upd_virtual h (enter_state LC_RecoveryRequired txt_rebind (env_now e)) (touch_virtual h im))"

definition revoke_active :: "env \<Rightarrow> as_id \<Rightarrow> impl \<Rightarrow> impl" where
  "revoke_active e a im =
    (case om_find (st_assignments (im_state im)) a of None \<Rightarrow> im
     | Some x \<Rightarrow>
         if \<not> as_authoritative x then im
         else run_steps
           [touch_assignment a,
            upd_assignment a (\<lambda>x. x\<lparr> as_authoritative := False, as_state := Asg_Revoked,
              as_revoked_at := env_now e, as_reason := txt_generation_changed \<rparr>),
            upd_accounting (\<lambda>c. c\<lparr> ac_backing_revocations := ac_backing_revocations c + 1 \<rparr>),
            unseat_holder e (as_virtual_id x)] im)"

definition invalidate_backing :: "env \<Rightarrow> bk_id \<Rightarrow> impl \<Rightarrow> impl" where
  "invalidate_backing e j im =
    (case om_find (st_backings (im_state im)) j of None \<Rightarrow> im
     | Some b \<Rightarrow> run_steps
         [revoke_active e (bk_active_assignment b),
          touch_backing j,
          upd_backing j (\<lambda>b. b\<lparr> bk_assigned_to := no_id, bk_active_assignment := no_id \<rparr>)] im)"

section \<open>Registration\<close>

definition txt_register_physical :: string where "txt_register_physical = ''register_physical''"

definition register_effect ::
  "env \<Rightarrow> ag_id \<Rightarrow> boot_id \<Rightarrow> device_descriptor \<Rightarrow> impl \<Rightarrow> pd_id \<times> impl" where
  "register_effect e agent boot d im =
    (let (k, changed, im1) = open_device d im;
         (n, im2) = next_id im1;
         im3 = upd_physical k (describe_device e agent boot d n) im2;
         im4 = record_evidence (device_evidence e agent boot d changed (the_physical im3 k)) im3;
         im5 = fold (materialise e k (dd_provenance d)) (dd_backings d) im4;
         p = the_physical im5 k;
         im6 = (if \<not> changed then fold (revive_backing e p) (pd_backings p) im5
                else fold (invalidate_backing e) (pd_backings p) im5)
     in (k, run_steps
       [upd_accounting (\<lambda>a. a\<lparr> ac_physical_registered := ac_physical_registered a + 1 \<rparr>), touch_header] im6))"

definition do_register_physical ::
  "env \<Rightarrow> authority \<Rightarrow> ag_id \<Rightarrow> boot_id \<Rightarrow> device_descriptor \<Rightarrow> impl \<Rightarrow> physical_record result \<times> impl" where
  "do_register_physical e auth agent boot d im0 =
    (let ctx = op_context_of txt_register_physical auth; im = begin_op im0; status = register_guard auth agent boot d im in
     if status \<noteq> SC_Ok then refuse e ctx status im
     else
       let (k, im1) = register_effect e agent boot d im; p = the_physical im1 k
       in accept e (ctx\<lparr> cx_physical := pd_id p, cx_physical_generation := pd_generation p \<rparr>) AK_Mutation p im1)"

definition refresh_physical ::
  "env \<Rightarrow> authority \<Rightarrow> pd_id \<Rightarrow> pd_gen \<Rightarrow> device_descriptor \<Rightarrow> impl \<Rightarrow> physical_record result \<times> impl" where
  "refresh_physical e auth k g d im =
    (case om_find (st_physical (im_state im)) k of
       None \<Rightarrow> (Inl SC_NotFound, im)
     | Some p \<Rightarrow>
         if pd_generation p \<noteq> g then (Inl SC_StalePhysicalDevice, im)
         else do_register_physical e auth (pd_agent p) (pd_boot p) d im)"

definition get_physical :: "pd_id \<Rightarrow> impl \<Rightarrow> physical_record result" where
  "get_physical k im = find_or_refuse (st_physical (im_state im)) k"

definition list_physical :: "impl \<Rightarrow> physical_record list" where
  "list_physical im = om_values (st_physical (im_state im))"

section \<open>Loss\<close>

definition txt_physical_lost :: string where "txt_physical_lost = ''physical_lost''"
definition txt_disappeared :: "string \<Rightarrow> string" where
  "txt_disappeared reason = ''backing device disappeared: '' @ reason"
definition txt_device_gone :: string where "txt_device_gone = ''physical device disappeared''"

definition physical_lost_guard :: "pd_id \<Rightarrow> pd_gen \<Rightarrow> impl \<Rightarrow> status_code" where
  "physical_lost_guard k g im = first_error
    [guard_store im,
     (case om_find (st_physical (im_state im)) k of None \<Rightarrow> SC_NotFound
      | Some p \<Rightarrow> refuse_if (pd_generation p \<noteq> g) SC_StalePhysicalDevice)]"

definition evict_holder :: "env \<Rightarrow> string \<Rightarrow> va_id \<Rightarrow> bk_id \<Rightarrow> impl \<Rightarrow> impl" where
  "evict_holder e reason h j im =
    (case om_find (st_virtuals (im_state im)) h of None \<Rightarrow> im
     | Some r \<Rightarrow> run_steps
         [touch_virtual h,
          upd_virtual h (\<lambda>r. if is_executing (va_state r)
            then enter_state LC_RecoveryRequired (txt_disappeared reason) (env_now e) r else r),
          (\<lambda>im. snd (fence_leases h (txt_disappeared reason) (env_now e) im)),
          revoke_assignment (va_assignment r) txt_device_gone (env_now e),
          upd_backing j (\<lambda>b. b\<lparr> bk_assigned_to := no_id, bk_active_assignment := no_id \<rparr>)] im)"

definition lose_backing :: "env \<Rightarrow> string \<Rightarrow> bk_id \<Rightarrow> impl \<Rightarrow> impl" where
  "lose_backing e reason j im =
    (case om_find (st_backings (im_state im)) j of None \<Rightarrow> im
     | Some b \<Rightarrow>
       (let im1 = run_steps
          [touch_backing j, upd_backing j (\<lambda>b. b\<lparr> bk_available := False, bk_evidence_fresh := False \<rparr>)] im
        in if id_valid (bk_assigned_to b) then evict_holder e reason (bk_assigned_to b) j im1 else im1))"

definition owned_attachments :: "impl \<Rightarrow> va_id list \<Rightarrow> u32" where
  "owned_attachments im ks = fold (\<lambda>k n. case om_find (st_virtuals (im_state im)) k of None \<Rightarrow> n
     | Some r \<Rightarrow> n + va_active_attachments r) ks 0"

definition recount_tenant :: "micros \<Rightarrow> tn_id \<Rightarrow> impl \<Rightarrow> impl" where
  "recount_tenant now k im =
    (case om_find (st_tenants (im_state im)) k of None \<Rightarrow> im
     | Some t \<Rightarrow>
       (let live = owned_attachments im (tn_owned t) in
        if live = tn_active_attachments t then im
        else upd_tenant k (\<lambda>t. t\<lparr> tn_active_attachments := live, tn_updated_at := now \<rparr>) (touch_tenant (tn_id t) im)))"

definition recount_tenants :: "micros \<Rightarrow> impl \<Rightarrow> impl" where
  "recount_tenants now im = fold (recount_tenant now) (map fst (st_tenants (im_state im))) im"

definition physical_lost_effect :: "env \<Rightarrow> pd_id \<Rightarrow> string \<Rightarrow> impl \<Rightarrow> impl" where
  "physical_lost_effect e k reason im =
    (let im1 = run_steps [touch_physical k, upd_physical k (\<lambda>p. p\<lparr> pd_present := False \<rparr>)] im
     in run_steps
       [fold (lose_backing e reason) (pd_backings (the_physical im1 k)),
        recount_tenants (env_now e),
        upd_accounting (\<lambda>a. a\<lparr> ac_physical_lost := ac_physical_lost a + 1 \<rparr>),
        recompute_derived_accounting,
        touch_header] im1)"

definition physical_lost :: "env \<Rightarrow> pd_id \<Rightarrow> pd_gen \<Rightarrow> string \<Rightarrow> impl \<Rightarrow> unit result \<times> impl" where
  "physical_lost e k g reason im0 =
    (let ctx = blank_context\<lparr> cx_operation := txt_physical_lost, cx_epoch := st_epoch (im_state im0) \<rparr>;
         im = begin_op im0; status = physical_lost_guard k g im in
     if status \<noteq> SC_Ok then refuse e ctx status im
     else accept e (ctx\<lparr> cx_physical := k, cx_physical_generation := g \<rparr>) AK_Mutation ()
       (physical_lost_effect e k reason im))"

section \<open>Soundness of registration\<close>

lemma list_find_entry:
  "List.find P m = Some (k, v) \<Longrightarrow> om_sorted m \<Longrightarrow> om_find m k = Some v"
  by (metis find_Some_iff nth_mem om_find_in)

lemma txn_sorted: "txn s0 im \<Longrightarrow> maps_sorted (im_state im)"
  by (auto simp: txn_def dest: covers_sorted)

lemma txn_emplace_physical [simp]:
  "txn s0 im \<Longrightarrow> k \<in> set (fst (un_physical (im_undo im))) \<Longrightarrow> pd_id v = k \<Longrightarrow> txn s0 (emplace_physical k v im)"
  by (simp add: emplace_physical_def split: option.split)

lemma txn_emplace_backing [simp]:
  "txn s0 im \<Longrightarrow> k \<in> set (fst (un_backings (im_undo im))) \<Longrightarrow> bk_id v = k \<Longrightarrow> txn s0 (emplace_backing k v im)"
  by (simp add: emplace_backing_def split: option.split)

abbreviation touched_physical :: "impl \<Rightarrow> pd_id set" where
  "touched_physical im \<equiv> set (fst (un_physical (im_undo im)))"

abbreviation touched_backings :: "impl \<Rightarrow> bk_id set" where
  "touched_backings im \<equiv> set (fst (un_backings (im_undo im)))"

lemma emplace_undo [simp]:
  "im_undo (emplace_physical k v im) = im_undo im" "im_undo (emplace_backing j w im) = im_undo im"
  by (simp_all add: emplace_physical_def emplace_backing_def split: option.split)

lemma open_device_ok:
  assumes "txn s0 im"
  shows "txn s0 (snd (snd (open_device d im))) \<and> fst (open_device d im) \<in> touched_physical (snd (snd (open_device d im)))"
proof (cases "List.find (\<lambda>x. pd_stable_key (snd x) = dd_stable_key d) (st_physical (im_state im))")
  case None
  then show ?thesis using assms by (simp add: open_device_def Let_def split_beta)
next
  case (Some x)
  obtain k r where x: "x = (k, r)" by fastforce
  have "om_find (st_physical (im_state im)) k = Some r"
    using Some txn_sorted [OF assms] by (auto simp: x maps_sorted_def intro: list_find_entry)
  then have "pd_id r = k" using assms txn_ids(5) by blast
  then show ?thesis using assms Some by (simp add: open_device_def x Let_def)
qed

lemma open_backing_ok:
  assumes "txn s0 im" and "k \<in> touched_physical im"
  shows "txn s0 (snd (open_backing k src im)) \<and> fst (open_backing k src im) \<in> touched_backings (snd (open_backing k src im)) \<and>
    k \<in> touched_physical (snd (open_backing k src im))"
proof (cases "List.find (\<lambda>x. bk_physical (snd x) = pd_id (the_physical im k) \<and> bk_label (snd x) = bd_label src)
    (st_backings (im_state im))")
  case None
  then show ?thesis using assms by (simp add: open_backing_def Let_def split_beta)
next
  case (Some x)
  obtain j b where x: "x = (j, b)" by fastforce
  have "om_find (st_backings (im_state im)) j = Some b"
    using Some txn_sorted [OF assms(1)] by (auto simp: x maps_sorted_def intro: list_find_entry)
  then have "bk_id b = j" using assms(1) txn_ids(4) by blast
  then show ?thesis using assms Some by (simp add: open_backing_def x Let_def)
qed

lemma materialise_ok:
  "txn s0 im \<and> k \<in> touched_physical im \<Longrightarrow>
   txn s0 (materialise e k declared src im) \<and> k \<in> touched_physical (materialise e k declared src im)"
  using open_backing_ok [of s0 im k src] by (simp add: materialise_def Let_def split_beta describe_backing_def)

lemma materialise_fold_ok:
  "txn s0 im \<and> k \<in> touched_physical im \<Longrightarrow> txn s0 (fold (materialise e k declared) bs im)"
  using fold_invariant [where P = "\<lambda>im. txn s0 im \<and> k \<in> touched_physical im" and Q = "\<lambda>_. True"
      and f = "materialise e k declared" and xs = bs and s = im] materialise_ok by blast

lemma txn_revive: "txn s0 im \<Longrightarrow> txn s0 (revive_backing e p j im)"
  by (simp add: revive_backing_def split: option.split)

lemma txn_unseat [simp]:
  assumes "txn s0 im"
  shows "txn s0 (unseat_holder e h im)"
proof -
  have "txn s0 (upd_virtual h (enter_state LC_RecoveryRequired txt_rebind (env_now e)) (touch_virtual h im))"
    if "om_find (st_virtuals (im_state im)) h = Some r" "va_state r \<noteq> LC_Retired" for r
    by (rule txn_upd_virtual) (use assms that recovery_path in auto)
  then show ?thesis using assms by (simp add: unseat_holder_def split: option.split)
qed

lemma txn_revoke_active [simp]: "txn s0 im \<Longrightarrow> txn s0 (revoke_active e a im)"
  by (simp add: revoke_active_def split: option.split)

lemma txn_invalidate_backing: "txn s0 im \<Longrightarrow> txn s0 (invalidate_backing e j im)"
  by (simp add: invalidate_backing_def split: option.split)

lemma txn_record_evidence [simp]: "txn s0 im \<Longrightarrow> txn s0 (record_evidence v im)"
  by (simp add: record_evidence_def)

lemma record_evidence_undo [simp]: "un_physical (im_undo (record_evidence v im)) = un_physical (im_undo im)"
  by (simp add: record_evidence_def)

lemma txn_register_effect:
  assumes "txn s0 im"
  shows "txn s0 (snd (register_effect e agent boot d im))"
proof -
  obtain k changed im1 where o: "open_device d im = (k, changed, im1)" by (cases "open_device d im") auto
  have 1: "txn s0 im1" "k \<in> touched_physical im1" using open_device_ok [OF assms, of d] by (simp_all add: o)
  have "txn s0 (fold (materialise e k (dd_provenance d)) bs (record_evidence v
      (upd_physical k (describe_device e agent boot d n) (snd (next_id im1)))))" for n v bs
    using 1 by (intro materialise_fold_ok) (simp add: describe_device_def)
  moreover have "txn s0 im \<Longrightarrow> txn s0 (fold (revive_backing e p) js im)"
    "txn s0 im \<Longrightarrow> txn s0 (fold (invalidate_backing e) js im)" for p js im
    by (auto intro!: txn_fold txn_revive txn_invalidate_backing)
  ultimately show ?thesis by (simp add: register_effect_def o Let_def split_beta)
qed

lemma register_sound:
  "well_formed (im_state im) \<Longrightarrow> op_sound e im (do_register_physical e auth agent boot d im)"
  by (auto simp: do_register_physical_def Let_def split_beta intro!: sound_accept sound_refuse_begin txn_register_effect)

lemma refresh_sound: "well_formed (im_state im) \<Longrightarrow> op_sound e im (refresh_physical e auth k g d im)"
  by (auto simp: refresh_physical_def register_sound intro!: sound_query split: option.split)

section \<open>Soundness of loss\<close>

lemma txn_evict_holder:
  assumes "txn s0 im" and "j \<in> touched_backings im"
  shows "txn s0 (evict_holder e reason h j im)"
proof -
  have "txn s0 (upd_virtual h (\<lambda>r. if is_executing (va_state r)
      then enter_state LC_RecoveryRequired (txt_disappeared reason) (env_now e) r else r) (touch_virtual h im))"
    by (rule txn_upd_virtual) (use assms in \<open>auto simp: is_executing_def intro: lifecycle_path.here lifecycle_path_edge\<close>)
  moreover have "un_backings (im_undo (snd (fence_leases h x y im))) = un_backings (im_undo im)" for x y im
  proof -
    have "un_backings (im_undo (snd (fold (fence_lease x y) ks acc))) = un_backings (im_undo (snd acc))" for ks acc
      by (induction ks arbitrary: acc) (auto simp: fence_lease_def split: option.splits)
    then show ?thesis
      by (auto simp: fence_leases_def Let_def split_beta release_tenant_attachments_def split: option.splits)
  qed
  moreover have "un_backings (im_undo (revoke_assignment a x y im)) = un_backings (im_undo im)" for a x y im
    by (simp add: revoke_assignment_def split: option.split)
  ultimately show ?thesis using assms by (simp add: evict_holder_def split: option.split)
qed

lemma txn_lose_backing: "txn s0 im \<Longrightarrow> txn s0 (lose_backing e reason j im)"
  by (auto simp: lose_backing_def Let_def txn_evict_holder split: option.split)

lemma txn_lose_fold [simp]: "txn s0 im \<Longrightarrow> txn s0 (fold (lose_backing e reason) js im)"
  by (rule txn_fold) (simp_all add: txn_lose_backing)

lemma txn_recount: "txn s0 im \<Longrightarrow> txn s0 (recount_tenant now k im)"
  by (auto simp: recount_tenant_def Let_def txn_ids split: option.split)

lemma txn_recount_tenants [simp]: "txn s0 im \<Longrightarrow> txn s0 (recount_tenants now im)"
  unfolding recount_tenants_def by (rule txn_fold) (simp_all add: txn_recount)

lemma txn_physical_lost_effect [simp]: "txn s0 im \<Longrightarrow> txn s0 (physical_lost_effect e k reason im)"
  by (simp add: physical_lost_effect_def Let_def)

lemma physical_lost_sound: "well_formed (im_state im) \<Longrightarrow> op_sound e im (physical_lost e k g reason im)"
  by (auto simp: physical_lost_def Let_def intro!: sound_accept sound_refuse_begin)

end
