(* ===== verification/AV_Recovery.thy ===== *)
theory AV_Recovery
  imports AV_Cutover AV_Devices
begin

text \<open>
  Start, recovery, shutdown and agent sessions (\<open>src/runtime.cpp\<close>, \<open>start\<close>, \<open>shutdown\<close>, \<open>register_agent\<close>,
  \<open>agent_heartbeat\<close>, \<open>agent_disconnected\<close>, \<open>list_agents\<close>, \<open>find_agent\<close> and the authority helpers), with the
  structural check of a recovered state (\<open>src/state_codec.cpp\<close>, \<open>validate_state\<close>).

  Proved: a start that recovers durable state begins a new epoch in which nothing of the previous process's
  authority is left, and keeps the state well formed; agent sessions are fenced by their boot identity.
\<close>

section \<open>The structural check\<close>

definition valid_virtual :: "vstate \<Rightarrow> virtual_record \<Rightarrow> bool" where
  "valid_virtual s r \<longleftrightarrow> gen_valid (va_generation r) \<and> om_contains (st_tenants s) (va_owner r) \<and>
    (id_valid (rc_id (va_contract r)) \<longrightarrow> contract_validate (va_contract r) = SC_Ok) \<and>
    (lifecycle_requires_backing (va_state r) \<longrightarrow>
      id_valid (va_backing r) \<and> om_contains (st_backings s) (va_backing r) \<and>
      (case om_find (st_assignments s) (va_assignment r) of None \<Rightarrow> False | Some a \<Rightarrow> as_authoritative a)) \<and>
    unat (va_active_attachments r) \<le> length (va_leases r)"

definition valid_header :: "vstate \<Rightarrow> bool" where
  "valid_header s \<longleftrightarrow> st_schema s = schema_version \<and> gen_valid (st_epoch s) \<and> st_next_sequence s \<noteq> 0 \<and>
    gen_valid (st_policy_generation s) \<and> policy_validate (st_policy s) = SC_Ok"

definition validate_state :: "vstate \<Rightarrow> status_code" where
  "validate_state s = first_error
    [refuse_if (\<not> valid_header s) SC_CorruptState,
     refuse_if (\<not> list_all (\<lambda>t. gen_valid (tn_generation t) \<and> length (tn_owned t) \<le> length (st_virtuals s))
       (om_values (st_tenants s))) SC_CorruptState,
     refuse_if (\<not> list_all (\<lambda>p. gen_valid (pd_generation p)) (om_values (st_physical s))) SC_CorruptState,
     refuse_if (\<not> list_all (\<lambda>b. gen_valid (bk_generation b) \<and> om_contains (st_physical s) (bk_physical b))
       (om_values (st_backings s))) SC_CorruptState,
     refuse_if (\<not> list_all (valid_virtual s) (om_values (st_virtuals s))) SC_CorruptState,
     refuse_if (\<not> list_all (\<lambda>l. gen_valid (ls_generation l) \<and> om_contains (st_virtuals s) (ls_virtual_id l) \<and>
       om_contains (st_tenants s) (ls_tenant l)) (om_values (st_leases s))) SC_CorruptState,
     refuse_if (\<not> list_all (\<lambda>a. om_contains (st_virtuals s) (as_virtual_id a) \<and> om_contains (st_backings s) (as_backing a))
       (om_values (st_assignments s))) SC_CorruptState,
     refuse_if (\<not> list_all (\<lambda>m. om_contains (st_virtuals s) (mp_virtual_id (mg_plan m)) \<and>
       om_contains (st_backings s) (mp_source_backing (mg_plan m)) \<and>
       om_contains (st_backings s) (mp_destination_backing (mg_plan m))) (om_values (st_migrations s))) SC_CorruptState,
     refuse_if (length (st_virtuals s) > unat (pol_max_virtual_accelerators (st_policy s))) SC_CorruptState,
     refuse_if (length (st_tenants s) > unat (pol_max_tenants (st_policy s))) SC_CorruptState]"

section \<open>Starting\<close>

definition txt_coordinator_start :: string where "txt_coordinator_start = ''coordinator_start''"
definition txt_restart_lease :: string where
  "txt_restart_lease = ''coordinator restart advanced the epoch; process-local lease authority is not restored''"
definition txt_restart_virtual :: string where
  "txt_restart_virtual = ''coordinator restart invalidated process-local attachment authority''"

definition start_epoch :: "bool \<Rightarrow> vstate \<Rightarrow> vstate" where
  "start_epoch recovered s =
    (let s1 = (if \<not> gen_valid (st_epoch s) then s\<lparr> st_epoch := gen_initial \<rparr>
               else if recovered then s\<lparr> st_epoch := gen_next (st_epoch s) \<rparr> else s)
     in s1\<lparr> st_schema := schema_version \<rparr>)"

definition set_initial_policy :: "virtualization_policy \<Rightarrow> pol_gen \<Rightarrow> impl \<Rightarrow> impl" where
  "set_initial_policy p g im0 =
    (let (n, im) = next_id im0
     in upd_state (\<lambda>s. s\<lparr> st_policy := p\<lparr> pol_id := Ident n, pol_generation := g \<rparr>, st_policy_generation := g \<rparr>) im)"

definition start_policy :: "impl \<Rightarrow> impl" where
  "start_policy im =
    (if \<not> gen_valid (st_policy_generation (im_state im)) then set_initial_policy default_policy gen_initial im
     else if id_value (pol_id (st_policy (im_state im))) = 0
     then set_initial_policy (st_policy (im_state im)) (st_policy_generation (im_state im)) im
     else im)"

definition release_virtual :: "string \<Rightarrow> micros \<Rightarrow> va_id \<Rightarrow> impl \<Rightarrow> impl" where
  "release_virtual reason now k im =
    (case om_find (st_virtuals (im_state im)) k of None \<Rightarrow> im
     | Some r \<Rightarrow>
       (let im1 = (if va_active_attachments r \<noteq> 0
            then upd_virtual k (\<lambda>r. r\<lparr> va_active_attachments := 0 \<rparr>) (touch_virtual (va_id r) im) else im)
        in if is_executing (va_state r)
           then upd_virtual k (enter_state LC_Provisioned reason now) (touch_virtual (va_id r) im1) else im1))"

definition release_virtuals :: "string \<Rightarrow> micros \<Rightarrow> impl \<Rightarrow> impl" where
  "release_virtuals reason now im = fold (release_virtual reason now) (map fst (st_virtuals (im_state im))) im"

definition distrust_backing :: "bk_id \<Rightarrow> impl \<Rightarrow> impl" where
  "distrust_backing k im =
    (case om_find (st_backings (im_state im)) k of None \<Rightarrow> im
     | Some b \<Rightarrow> upd_backing k (\<lambda>b. b\<lparr> bk_available := False, bk_evidence_fresh := False \<rparr>) (touch_backing (bk_id b) im))"

definition distrust_physical :: "pd_id \<Rightarrow> impl \<Rightarrow> impl" where
  "distrust_physical k im =
    (case om_find (st_physical (im_state im)) k of None \<Rightarrow> im
     | Some p \<Rightarrow> upd_physical k (\<lambda>p. p\<lparr> pd_present := False \<rparr>) (touch_physical (pd_id p) im))"

definition distrust_backings :: "impl \<Rightarrow> impl" where
  "distrust_backings im = fold distrust_backing (map fst (st_backings (im_state im))) im"

definition distrust_devices :: "impl \<Rightarrow> impl" where
  "distrust_devices im = fold distrust_physical (map fst (st_physical (im_state im))) im"

definition clear_requests :: "impl \<Rightarrow> impl" where
  "clear_requests im =
    (if st_requests (im_state im) \<noteq> []
     then touch_header (upd_state (\<lambda>s. s\<lparr> st_requests := [] \<rparr>) im) else im)"

definition recover_state :: "env \<Rightarrow> impl \<Rightarrow> impl" where
  "recover_state e = run_steps
    [end_live_leases Lease_Expired txt_restart_lease (env_now e),
     release_virtuals txt_restart_virtual (env_now e),
     clear_tenants (Some (env_now e)),
     distrust_backings,
     distrust_devices,
     clear_requests,
     recompute_derived_accounting,
     touch_header]"

definition start_effect :: "env \<Rightarrow> bool \<Rightarrow> impl \<Rightarrow> impl" where
  "start_effect e recovered im0 =
    (let im = run_steps
       [upd_state (start_epoch recovered), start_policy,
        upd_accounting (\<lambda>a. a\<lparr> ac_coordinator_boots := ac_coordinator_boots a + 1 \<rparr>), touch_header,
        (\<lambda>im. if recovered then recover_state e im else im)] im0;
         ctx = blank_context\<lparr> cx_operation := txt_coordinator_start, cx_epoch := st_epoch (im_state im) \<rparr>
     in record_decision e ctx SC_Ok AK_Recovery im)"

definition store_status :: "env \<Rightarrow> (durable_store \<Rightarrow> status_code) \<Rightarrow> status_code" where
  "store_status e f = (case env_store e of None \<Rightarrow> SC_Ok | Some store \<Rightarrow> f store)"

definition start_load :: "env \<Rightarrow> impl \<Rightarrow> vstate result" where
  "start_load e im = (case env_store e of None \<Rightarrow> Inr (im_state im) | Some store \<Rightarrow> ds_load store)"

definition start_recovered :: "env \<Rightarrow> bool" where
  "start_recovered e = (case env_store e of None \<Rightarrow> False | Some store \<Rightarrow> ds_present store)"

text \<open>After the first commit: classify interrupted migrations, check the state, compact the store.\<close>

definition start_finish :: "env \<Rightarrow> bool \<Rightarrow> impl \<Rightarrow> unit result \<times> impl" where
  "start_finish e recovered im =
    (let (classified, im1) = (if recovered then do_classify_recovered_migrations e im else (Inr (), im)) in
     case classified of
       Inl c \<Rightarrow> (Inl c, im1)
     | Inr _ \<Rightarrow>
       (let valid = (if recovered then validate_state (im_state im1) else SC_Ok) in
        if valid \<noteq> SC_Ok then (Inl valid, im1)
        else let compacted = store_status e (\<lambda>store. ds_compact store (im_state im1)) in
          if compacted \<noteq> SC_Ok then (Inl compacted, im1)
          else (Inr (), im1\<lparr> im_running := True \<rparr>)))"

definition start :: "env \<Rightarrow> impl \<Rightarrow> unit result \<times> impl" where
  "start e im =
    (if im_running im then (Inr (), im)
     else if store_status e ds_open \<noteq> SC_Ok then (Inl (store_status e ds_open), im)
     else
       let im1 = begin_op im in
       case start_load e im1 of
         Inl c \<Rightarrow> (Inl c, rollback im1)
       | Inr s \<Rightarrow>
         (let (persisted, im2) = commit e (start_effect e (start_recovered e) (im1\<lparr> im_state := s \<rparr>)) in
          if persisted \<noteq> SC_Ok then (Inl persisted, im2)
          else start_finish e (start_recovered e) im2))"

section \<open>Shutting down\<close>

definition txt_coordinator_shutdown :: string where "txt_coordinator_shutdown = ''coordinator_shutdown''"
definition txt_shutdown_lease :: string where
  "txt_shutdown_lease = ''coordinator shutdown revoked process-local authority''"
definition txt_shutdown_virtual :: string where
  "txt_shutdown_virtual = ''coordinator shutdown released attachment authority''"

definition shutdown_effect :: "env \<Rightarrow> impl \<Rightarrow> impl" where
  "shutdown_effect e im =
    record_decision e (blank_context\<lparr> cx_operation := txt_coordinator_shutdown, cx_epoch := st_epoch (im_state im) \<rparr>)
      SC_Ok AK_Mutation (run_steps
        [end_live_leases Lease_Fenced txt_shutdown_lease (env_now e),
         release_virtuals txt_shutdown_virtual (env_now e),
         clear_tenants None,
         recompute_derived_accounting,
         touch_header] im)"

definition shutdown :: "env \<Rightarrow> impl \<Rightarrow> unit result \<times> impl" where
  "shutdown e im =
    (if \<not> im_running im then (Inr (), im)
     else
       let (committed, im1) = commit e (shutdown_effect e (begin_op im));
           result = (if committed \<noteq> SC_Ok then committed
             else first_error [store_status e (\<lambda>store. ds_compact store (im_state im1)), store_status e ds_close])
       in (if result \<noteq> SC_Ok then Inl result else Inr (), im1\<lparr> im_agents := om_empty, im_running := False \<rparr>))"

section \<open>Authority helpers\<close>

definition current_authority :: "impl \<Rightarrow> authority" where
  "current_authority im = blank_authority
    \<lparr> auth_epoch := Some (st_epoch (im_state im)),
      auth_policy_generation := Some (st_policy_generation (im_state im)) \<rparr>"

definition virtual_authority :: "va_id \<Rightarrow> va_gen \<Rightarrow> impl \<Rightarrow> authority" where
  "virtual_authority i g im = (current_authority im)\<lparr> auth_virtual_id := Some i, auth_virtual_generation := Some g \<rparr>"

section \<open>Agent sessions\<close>

definition agent_identity :: "ag_id \<Rightarrow> impl \<Rightarrow> ag_id \<times> impl" where
  "agent_identity requested im =
    (if id_valid requested then (requested, im) else let (n, im1) = next_id im in (Ident n, im1))"

definition agent_connected :: "ag_id \<Rightarrow> impl \<Rightarrow> bool" where
  "agent_connected i im = (case om_find (im_agents im) i of None \<Rightarrow> False | Some s \<Rightarrow> ag_connected s)"

definition new_session :: "env \<Rightarrow> ag_id \<Rightarrow> u64 \<Rightarrow> string \<Rightarrow> string \<Rightarrow> u64 \<Rightarrow> agent_session" where
  "new_session e i n name endpoint connection =
    \<lparr> ag_id = i, ag_boot = Ident n, ag_name = name, ag_endpoint = endpoint, ag_connected = True,
      ag_connected_at = env_now e, ag_last_seen = env_now e, ag_connection_id = connection, ag_devices = [] \<rparr>"

text \<open>The session and the counter are changed before the transaction is opened.\<close>

definition register_agent ::
  "env \<Rightarrow> string \<Rightarrow> string \<Rightarrow> u64 \<Rightarrow> ag_id \<Rightarrow> impl \<Rightarrow> agent_session result \<times> impl" where
  "register_agent e name endpoint connection requested im =
    (if name = [] then (Inl SC_InvalidArgument, im)
     else if length name > 128 then (Inl SC_InvalidArgument, im)
     else
       let (i, im1) = agent_identity requested im in
       if agent_connected i im1 then (Inl SC_AlreadyExists, im1)
       else
         let (n, im2) = next_id im1; session = new_session e i n name endpoint connection;
             im3 = upd_accounting (\<lambda>a. a\<lparr> ac_agent_boots := ac_agent_boots a + 1 \<rparr>)
               (im2\<lparr> im_agents := om_put i session (im_agents im2) \<rparr>);
             (persisted, im4) = commit e (touch_header (begin_op im3))
         in (if persisted \<noteq> SC_Ok then Inl persisted else Inr session, im4))"

definition upd_agent :: "ag_id \<Rightarrow> (agent_session \<Rightarrow> agent_session) \<Rightarrow> impl \<Rightarrow> impl" where
  "upd_agent i f im = im\<lparr> im_agents := om_upd i f (im_agents im) \<rparr>"

definition agent_heartbeat :: "env \<Rightarrow> ag_id \<Rightarrow> boot_id \<Rightarrow> impl \<Rightarrow> unit result \<times> impl" where
  "agent_heartbeat e i boot im =
    (case om_find (im_agents im) i of None \<Rightarrow> (Inl SC_NotFound, im)
     | Some s \<Rightarrow>
         if ag_boot s \<noteq> boot then (Inl SC_StaleAgentBoot, im)
         else if \<not> ag_connected s then (Inl SC_NotAttached, im)
         else (Inr (), upd_agent i (\<lambda>s. s\<lparr> ag_last_seen := env_now e \<rparr>) im))"

definition agent_disconnected :: "ag_id \<Rightarrow> boot_id \<Rightarrow> impl \<Rightarrow> unit result \<times> impl" where
  "agent_disconnected i boot im =
    (case om_find (im_agents im) i of None \<Rightarrow> (Inl SC_NotFound, im)
     | Some s \<Rightarrow>
         if ag_boot s \<noteq> boot then (Inl SC_StaleAgentBoot, im)
         else (Inr (), upd_agent i (\<lambda>s. s\<lparr> ag_connected := False \<rparr>) im))"

definition list_agents :: "impl \<Rightarrow> agent_session list" where
  "list_agents im = om_values (im_agents im)"

definition find_agent :: "ag_id \<Rightarrow> impl \<Rightarrow> agent_session result" where
  "find_agent i im = find_or_refuse (im_agents im) i"

section \<open>Well-formedness without an undo log\<close>

text \<open>\<open>start\<close> replaces the state after the transaction was opened, so the undo log does not cover it; what is
  kept is the shape of the state and the lifecycle discipline.\<close>

definition shape :: "vstate \<Rightarrow> impl \<Rightarrow> bool" where
  "shape s0 im \<longleftrightarrow> well_formed (im_state im) \<and> lifecycle_flow s0 (im_state im)"

lemma shape_same: "same_entities (im_state im) (im_state im') \<Longrightarrow> shape s0 im' = shape s0 im"
  by (simp add: shape_def same_entities_well_formed same_entities_flow)

lemma shape_header [simp]:
  "shape s0 (touch_header im) = shape s0 im" "shape s0 (upd_accounting f im) = shape s0 im"
  "shape s0 (snd (next_id im)) = shape s0 im"
  by (auto intro!: shape_same simp: same_entities_def)

lemma shape_touch [simp]:
  "shape s0 (touch_lease l im) = shape s0 im" "shape s0 (touch_tenant t im) = shape s0 im"
  "shape s0 (touch_virtual v im) = shape s0 im" "shape s0 (touch_backing b im) = shape s0 im"
  "shape s0 (touch_physical p im) = shape s0 im"
  by (simp_all add: shape_def)

lemma shape_upd:
  "shape s0 im \<Longrightarrow> (\<And>v. ls_id (fl v) = ls_id v) \<Longrightarrow> shape s0 (upd_lease kl fl im)"
  "shape s0 im \<Longrightarrow> (\<And>v. tn_id (ft v) = tn_id v) \<Longrightarrow> shape s0 (upd_tenant kt ft im)"
  "shape s0 im \<Longrightarrow> (\<And>v. bk_id (fb v) = bk_id v) \<Longrightarrow> shape s0 (upd_backing kb fb im)"
  "shape s0 im \<Longrightarrow> (\<And>v. pd_id (fp v) = pd_id v) \<Longrightarrow> shape s0 (upd_physical kp fp im)"
  by (simp_all add: shape_def well_formed_def maps_sorted_def ids_match_def keyed_upd_at lifecycle_flow_def va_states_def)

lemma shape_upd_virtual:
  assumes "shape s0 im" and "\<And>r. om_find (st_virtuals (im_state im)) k = Some r \<Longrightarrow>
      va_id (f r) = va_id r \<and> lifecycle_path (va_state r) (va_state (f r))"
  shows "shape s0 (upd_virtual k f im)"
proof -
  have "lifecycle_flow s0 (im_state (upd_virtual k f im))"
    by (rule lifecycle_flow_upd [where s = "im_state im" and k = k and f = f]) (use assms in \<open>auto simp: shape_def\<close>)
  then show ?thesis
    using assms by (simp add: shape_def well_formed_def maps_sorted_def ids_match_def keyed_upd_at)
qed

lemma shape_fold: "(\<And>k im. shape s0 im \<Longrightarrow> shape s0 (f k im)) \<Longrightarrow> shape s0 im \<Longrightarrow> shape s0 (fold f ks im)"
  by (induction ks arbitrary: im) simp_all

lemma shape_release_virtual:
  assumes "shape s0 im"
  shows "shape s0 (release_virtual reason now k im)"
proof (cases "om_find (st_virtuals (im_state im)) k")
  case (Some r)
  let ?im1 = "if va_active_attachments r \<noteq> 0
    then upd_virtual k (\<lambda>r. r\<lparr> va_active_attachments := 0 \<rparr>) (touch_virtual (va_id r) im) else im"
  have "shape s0 (upd_virtual k (\<lambda>r. r\<lparr> va_active_attachments := 0 \<rparr>) (touch_virtual (va_id r) im))"
    by (rule shape_upd_virtual) (use assms in \<open>auto intro: lifecycle_path.here\<close>)
  then have 1: "shape s0 ?im1" using assms by simp
  have "shape s0 (upd_virtual k (enter_state LC_Provisioned reason now) (touch_virtual (va_id r) ?im1))"
    if "is_executing (va_state r)"
    by (rule shape_upd_virtual) (use that 1 Some in \<open>auto simp: is_executing_def intro!: lifecycle_path_edge split: if_splits\<close>)
  with 1 show ?thesis by (simp add: release_virtual_def Some Let_def)
qed (simp add: release_virtual_def assms)

lemma shape_recover:
  assumes "shape s0 im"
  shows "shape s0 (recover_state e im)"
proof -
  have l: "shape s0 im \<Longrightarrow> shape s0 (end_live_leases st reason now im)" for st reason now im
    unfolding end_live_leases_def
    by (rule shape_fold) (auto simp: end_live_lease_def shape_upd split: option.split)
  have v: "shape s0 im \<Longrightarrow> shape s0 (release_virtuals reason now im)" for reason now im
    unfolding release_virtuals_def by (rule shape_fold) (simp_all add: shape_release_virtual)
  have t: "shape s0 im \<Longrightarrow> shape s0 (clear_tenants stamp im)" for stamp im
    unfolding clear_tenants_def by (rule shape_fold) (auto simp: clear_tenant_def shape_upd split: option.split)
  have b: "shape s0 im \<Longrightarrow> shape s0 (distrust_backings im)" for im
    unfolding distrust_backings_def by (rule shape_fold) (auto simp: distrust_backing_def shape_upd split: option.split)
  have d: "shape s0 im \<Longrightarrow> shape s0 (distrust_devices im)" for im
    unfolding distrust_devices_def by (rule shape_fold) (auto simp: distrust_physical_def shape_upd split: option.split)
  have r: "shape s0 (clear_requests im) = shape s0 im" for im
    by (rule shape_same) (simp add: clear_requests_def same_entities_def)
  have a: "shape s0 (recompute_derived_accounting im) = shape s0 im" for im
    by (rule shape_same) (simp add: same_entities_def)
  show ?thesis unfolding recover_state_def run_steps_simps shape_header r a by (intro d b t v l assms)
qed

lemma shape_start_policy [simp]: "shape s0 (start_policy im) = shape s0 im"
  by (simp add: start_policy_def set_initial_policy_def split_beta shape_def well_formed_def maps_sorted_def
      ids_match_def lifecycle_flow_def va_states_def)

lemma shape_start_effect:
  assumes "well_formed (im_state im)"
  shows "shape (im_state im) (start_effect e recovered im)"
proof -
  have "shape (im_state im) (upd_state (start_epoch recovered) im)"
    using assms
    by (simp add: shape_def start_epoch_def Let_def well_formed_def maps_sorted_def ids_match_def lifecycle_flow_def
        va_states_def flow_opt_refl)
  then have "shape (im_state im) (recover_state e (touch_header (upd_accounting f
      (start_policy (upd_state (start_epoch recovered) im)))))" for f
    by (intro shape_recover) simp
  moreover have "shape s0 (record_decision e c o' kd im') = shape s0 im'" for s0 c o' kd im'
    by (rule shape_same) (simp add: same_entities_def)
  ultimately show ?thesis
    using \<open>shape (im_state im) (upd_state (start_epoch recovered) im)\<close>
    by (cases recovered) (simp_all add: start_effect_def Let_def)
qed

section \<open>What recovery leaves\<close>

definition released :: "virtual_record \<Rightarrow> bool" where
  "released r \<longleftrightarrow> va_active_attachments r = 0 \<and> \<not> is_executing (va_state r)"

text \<open>Nothing of the previous process's authority: no live lease, nothing attached or executing, no
  backing trusted, no device present.\<close>

definition quiescent :: "vstate \<Rightarrow> bool" where
  "quiescent s \<longleftrightarrow>
    (\<forall>k l. om_find (st_leases s) k = Some l \<longrightarrow> \<not> lease_state_is_live (ls_state l)) \<and>
    (\<forall>k r. om_find (st_virtuals s) k = Some r \<longrightarrow> released r) \<and>
    (\<forall>k t. om_find (st_tenants s) k = Some t \<longrightarrow> tn_active_attachments t = 0) \<and>
    (\<forall>k b. om_find (st_backings s) k = Some b \<longrightarrow> \<not> bk_available b \<and> \<not> bk_evidence_fresh b) \<and>
    (\<forall>k p. om_find (st_physical s) k = Some p \<longrightarrow> \<not> pd_present p)"

lemma sweep_all:
  assumes "\<And>k im. \<forall>v. om_find (proj (f k im)) k = Some v \<longrightarrow> P v"
    and "\<And>k x im v. om_find (proj (f k im)) x = Some v \<Longrightarrow> \<exists>u. om_find (proj im) x = Some u \<and> (x = k \<or> v = u)"
    and "om_find (proj (fold f (map fst (proj im)) im)) x = Some v"
  shows "P v"
proof -
  let ?Q = "\<lambda>x im. \<forall>v. om_find (proj im) x = Some v \<longrightarrow> P v"
  have keep: "om_find (proj (f k im)) x = Some v \<Longrightarrow> \<exists>u. om_find (proj im) x = Some u" for k x im v
    using assms(2) by blast
  have "om_find (proj (fold f ks im)) x = Some v \<Longrightarrow> \<exists>u. om_find (proj im) x = Some u" for ks im v
    by (induction ks arbitrary: im) (auto dest: keep)
  then have "x \<in> set (map fst (proj im))" using assms(3) om_find_key by metis
  then have "?Q x (fold f (map fst (proj im)) im)"
  proof (intro fold_establishes [where Q = ?Q])
    show "?Q k (f k im)" for k im by (rule assms(1))
    show "?Q x (f k im)" if "?Q x im" for k x im
      using that assms(1) [of k im] assms(2) [of k im x] by metis
  qed simp
  then show ?thesis using assms(3) by blast
qed

lemma release_virtual_find:
  "om_find (st_virtuals (im_state (release_virtual reason now k im))) x = Some r' \<Longrightarrow>
   \<exists>r. om_find (st_virtuals (im_state im)) x = Some r \<and> (if x = k then released r' else r' = r)"
  by (auto simp: release_virtual_def Let_def released_def split: option.splits if_splits)

lemma release_virtuals_all:
  "om_find (st_virtuals (im_state (release_virtuals reason now im))) x = Some r \<Longrightarrow> released r"
  unfolding release_virtuals_def
  by (rule sweep_all [where proj = "\<lambda>im. st_virtuals (im_state im)"])
    (auto dest!: release_virtual_find split: if_splits)

lemma distrust_backings_all:
  "om_find (st_backings (im_state (distrust_backings im))) x = Some b \<Longrightarrow> \<not> bk_available b \<and> \<not> bk_evidence_fresh b"
  unfolding distrust_backings_def
  by (rule sweep_all [where proj = "\<lambda>im. st_backings (im_state im)"])
    (auto simp: distrust_backing_def split: option.splits if_splits)

lemma distrust_devices_all: "om_find (st_physical (im_state (distrust_devices im))) x = Some p \<Longrightarrow> \<not> pd_present p"
  unfolding distrust_devices_def
  by (rule sweep_all [where proj = "\<lambda>im. st_physical (im_state im)"])
    (auto simp: distrust_physical_def split: option.splits if_splits)

lemma release_step_frame [simp]:
  "st_schema (im_state (release_virtual reason now k im)) = st_schema (im_state (im))"
  "st_next_sequence (im_state (release_virtual reason now k im)) = st_next_sequence (im_state (im))"
  "st_epoch (im_state (release_virtual reason now k im)) = st_epoch (im_state (im))"
  "st_policy (im_state (release_virtual reason now k im)) = st_policy (im_state (im))"
  "st_policy_generation (im_state (release_virtual reason now k im)) = st_policy_generation (im_state (im))"
  "st_tenants (im_state (release_virtual reason now k im)) = st_tenants (im_state (im))"
  "st_physical (im_state (release_virtual reason now k im)) = st_physical (im_state (im))"
  "st_backings (im_state (release_virtual reason now k im)) = st_backings (im_state (im))"
  "st_leases (im_state (release_virtual reason now k im)) = st_leases (im_state (im))"
  "st_assignments (im_state (release_virtual reason now k im)) = st_assignments (im_state (im))"
  "st_migrations (im_state (release_virtual reason now k im)) = st_migrations (im_state (im))"
  "st_evidence (im_state (release_virtual reason now k im)) = st_evidence (im_state (im))"
  "st_accounting (im_state (release_virtual reason now k im)) = st_accounting (im_state (im))"
  "st_audit (im_state (release_virtual reason now k im)) = st_audit (im_state (im))"
  "st_decisions (im_state (release_virtual reason now k im)) = st_decisions (im_state (im))"
  "st_requests (im_state (release_virtual reason now k im)) = st_requests (im_state (im))"
  by (simp_all add: release_virtual_def Let_def split: option.split)

lemma release_virtuals_frame [simp]:
  "st_schema (im_state (release_virtuals reason now im)) = st_schema (im_state (im))"
  "st_next_sequence (im_state (release_virtuals reason now im)) = st_next_sequence (im_state (im))"
  "st_epoch (im_state (release_virtuals reason now im)) = st_epoch (im_state (im))"
  "st_policy (im_state (release_virtuals reason now im)) = st_policy (im_state (im))"
  "st_policy_generation (im_state (release_virtuals reason now im)) = st_policy_generation (im_state (im))"
  "st_tenants (im_state (release_virtuals reason now im)) = st_tenants (im_state (im))"
  "st_physical (im_state (release_virtuals reason now im)) = st_physical (im_state (im))"
  "st_backings (im_state (release_virtuals reason now im)) = st_backings (im_state (im))"
  "st_leases (im_state (release_virtuals reason now im)) = st_leases (im_state (im))"
  "st_assignments (im_state (release_virtuals reason now im)) = st_assignments (im_state (im))"
  "st_migrations (im_state (release_virtuals reason now im)) = st_migrations (im_state (im))"
  "st_evidence (im_state (release_virtuals reason now im)) = st_evidence (im_state (im))"
  "st_accounting (im_state (release_virtuals reason now im)) = st_accounting (im_state (im))"
  "st_audit (im_state (release_virtuals reason now im)) = st_audit (im_state (im))"
  "st_decisions (im_state (release_virtuals reason now im)) = st_decisions (im_state (im))"
  "st_requests (im_state (release_virtuals reason now im)) = st_requests (im_state (im))"
  unfolding release_virtuals_def by (rule fold_frame, simp)+

lemma distrust_backing_frame [simp]:
  "st_schema (im_state (distrust_backings im)) = st_schema (im_state (im))"
  "st_next_sequence (im_state (distrust_backings im)) = st_next_sequence (im_state (im))"
  "st_epoch (im_state (distrust_backings im)) = st_epoch (im_state (im))"
  "st_policy (im_state (distrust_backings im)) = st_policy (im_state (im))"
  "st_policy_generation (im_state (distrust_backings im)) = st_policy_generation (im_state (im))"
  "st_tenants (im_state (distrust_backings im)) = st_tenants (im_state (im))"
  "st_physical (im_state (distrust_backings im)) = st_physical (im_state (im))"
  "st_virtuals (im_state (distrust_backings im)) = st_virtuals (im_state (im))"
  "st_leases (im_state (distrust_backings im)) = st_leases (im_state (im))"
  "st_assignments (im_state (distrust_backings im)) = st_assignments (im_state (im))"
  "st_migrations (im_state (distrust_backings im)) = st_migrations (im_state (im))"
  "st_evidence (im_state (distrust_backings im)) = st_evidence (im_state (im))"
  "st_accounting (im_state (distrust_backings im)) = st_accounting (im_state (im))"
  "st_audit (im_state (distrust_backings im)) = st_audit (im_state (im))"
  "st_decisions (im_state (distrust_backings im)) = st_decisions (im_state (im))"
  "st_requests (im_state (distrust_backings im)) = st_requests (im_state (im))"
  unfolding distrust_backings_def by (rule fold_frame, simp add: distrust_backing_def split: option.split)+

lemma distrust_devices_frame [simp]:
  "st_schema (im_state (distrust_devices im)) = st_schema (im_state (im))"
  "st_next_sequence (im_state (distrust_devices im)) = st_next_sequence (im_state (im))"
  "st_epoch (im_state (distrust_devices im)) = st_epoch (im_state (im))"
  "st_policy (im_state (distrust_devices im)) = st_policy (im_state (im))"
  "st_policy_generation (im_state (distrust_devices im)) = st_policy_generation (im_state (im))"
  "st_tenants (im_state (distrust_devices im)) = st_tenants (im_state (im))"
  "st_backings (im_state (distrust_devices im)) = st_backings (im_state (im))"
  "st_virtuals (im_state (distrust_devices im)) = st_virtuals (im_state (im))"
  "st_leases (im_state (distrust_devices im)) = st_leases (im_state (im))"
  "st_assignments (im_state (distrust_devices im)) = st_assignments (im_state (im))"
  "st_migrations (im_state (distrust_devices im)) = st_migrations (im_state (im))"
  "st_evidence (im_state (distrust_devices im)) = st_evidence (im_state (im))"
  "st_accounting (im_state (distrust_devices im)) = st_accounting (im_state (im))"
  "st_audit (im_state (distrust_devices im)) = st_audit (im_state (im))"
  "st_decisions (im_state (distrust_devices im)) = st_decisions (im_state (im))"
  "st_requests (im_state (distrust_devices im)) = st_requests (im_state (im))"
  unfolding distrust_devices_def by (rule fold_frame, simp add: distrust_physical_def split: option.split)+

lemma clear_requests_frame [simp]:
  "st_schema (im_state (clear_requests im)) = st_schema (im_state (im))"
  "st_next_sequence (im_state (clear_requests im)) = st_next_sequence (im_state (im))"
  "st_epoch (im_state (clear_requests im)) = st_epoch (im_state (im))"
  "st_policy (im_state (clear_requests im)) = st_policy (im_state (im))"
  "st_policy_generation (im_state (clear_requests im)) = st_policy_generation (im_state (im))"
  "st_tenants (im_state (clear_requests im)) = st_tenants (im_state (im))"
  "st_physical (im_state (clear_requests im)) = st_physical (im_state (im))"
  "st_backings (im_state (clear_requests im)) = st_backings (im_state (im))"
  "st_virtuals (im_state (clear_requests im)) = st_virtuals (im_state (im))"
  "st_leases (im_state (clear_requests im)) = st_leases (im_state (im))"
  "st_assignments (im_state (clear_requests im)) = st_assignments (im_state (im))"
  "st_migrations (im_state (clear_requests im)) = st_migrations (im_state (im))"
  "st_evidence (im_state (clear_requests im)) = st_evidence (im_state (im))"
  "st_accounting (im_state (clear_requests im)) = st_accounting (im_state (im))"
  "st_audit (im_state (clear_requests im)) = st_audit (im_state (im))"
  "st_decisions (im_state (clear_requests im)) = st_decisions (im_state (im))"
  by (simp_all add: clear_requests_def)

lemma recover_quiescent: "quiescent (im_state (recover_state e im))"
  by (auto simp: quiescent_def recover_state_def
      dest: end_live_leases_dead [rotated] release_virtuals_all clear_tenants_zero distrust_backings_all distrust_devices_all)

lemma recover_frame [simp]: "st_epoch (im_state (recover_state e im)) = st_epoch (im_state im)"
  by (simp add: recover_state_def)

lemma start_policy_frame [simp]: "st_epoch (im_state (start_policy im)) = st_epoch (im_state im)"
  by (simp add: start_policy_def set_initial_policy_def split_beta)

lemma quiescent_same: "same_entities s t \<Longrightarrow> quiescent t = quiescent s"
  by (simp add: quiescent_def same_entities_def)

lemma start_effect_recovered:
  "quiescent (im_state (start_effect e True im))"
  "gen_valid (st_epoch (im_state im)) \<Longrightarrow> st_epoch (im_state (start_effect e True im)) = gen_next (st_epoch (im_state im))"
proof -
  have "quiescent (s\<lparr> st_next_sequence := n \<rparr>) = quiescent s" for s n by (simp add: quiescent_def)
  then show "quiescent (im_state (start_effect e True im))"
    using recover_quiescent by (simp add: start_effect_def Let_def)
  show "gen_valid (st_epoch (im_state im)) \<Longrightarrow> st_epoch (im_state (start_effect e True im)) = gen_next (st_epoch (im_state im))"
    by (simp add: start_effect_def Let_def start_epoch_def)
qed

section \<open>Classification keeps the quiet\<close>

lemma fail_prepared_frame [simp]:
  "st_schema (im_state (fail_prepared now a im)) = st_schema (im_state (im))"
  "st_next_sequence (im_state (fail_prepared now a im)) = st_next_sequence (im_state (im))"
  "st_epoch (im_state (fail_prepared now a im)) = st_epoch (im_state (im))"
  "st_policy (im_state (fail_prepared now a im)) = st_policy (im_state (im))"
  "st_policy_generation (im_state (fail_prepared now a im)) = st_policy_generation (im_state (im))"
  "st_tenants (im_state (fail_prepared now a im)) = st_tenants (im_state (im))"
  "st_physical (im_state (fail_prepared now a im)) = st_physical (im_state (im))"
  "st_backings (im_state (fail_prepared now a im)) = st_backings (im_state (im))"
  "st_virtuals (im_state (fail_prepared now a im)) = st_virtuals (im_state (im))"
  "st_leases (im_state (fail_prepared now a im)) = st_leases (im_state (im))"
  "st_migrations (im_state (fail_prepared now a im)) = st_migrations (im_state (im))"
  "st_evidence (im_state (fail_prepared now a im)) = st_evidence (im_state (im))"
  "st_accounting (im_state (fail_prepared now a im)) = st_accounting (im_state (im))"
  "st_audit (im_state (fail_prepared now a im)) = st_audit (im_state (im))"
  "st_decisions (im_state (fail_prepared now a im)) = st_decisions (im_state (im))"
  "st_requests (im_state (fail_prepared now a im)) = st_requests (im_state (im))"
  by (simp_all add: fail_prepared_def split: option.split)

lemma classify_step_frame [simp]:
  "st_schema (im_state (snd (classify_one now k acc))) = st_schema (im_state (snd acc))"
  "st_next_sequence (im_state (snd (classify_one now k acc))) = st_next_sequence (im_state (snd acc))"
  "st_epoch (im_state (snd (classify_one now k acc))) = st_epoch (im_state (snd acc))"
  "st_policy (im_state (snd (classify_one now k acc))) = st_policy (im_state (snd acc))"
  "st_policy_generation (im_state (snd (classify_one now k acc))) = st_policy_generation (im_state (snd acc))"
  "st_tenants (im_state (snd (classify_one now k acc))) = st_tenants (im_state (snd acc))"
  "st_physical (im_state (snd (classify_one now k acc))) = st_physical (im_state (snd acc))"
  "st_backings (im_state (snd (classify_one now k acc))) = st_backings (im_state (snd acc))"
  "st_leases (im_state (snd (classify_one now k acc))) = st_leases (im_state (snd acc))"
  "st_evidence (im_state (snd (classify_one now k acc))) = st_evidence (im_state (snd acc))"
  "st_audit (im_state (snd (classify_one now k acc))) = st_audit (im_state (snd acc))"
  "st_decisions (im_state (snd (classify_one now k acc))) = st_decisions (im_state (snd acc))"
  "st_requests (im_state (snd (classify_one now k acc))) = st_requests (im_state (snd acc))"
  by (simp_all add: classify_one_def abandon_migration_def split_beta Let_def split: option.split)

lemma classify_frame [simp]:
  "st_schema (im_state (snd (fold (classify_one now) ks acc))) = st_schema (im_state (snd acc))"
  "st_next_sequence (im_state (snd (fold (classify_one now) ks acc))) = st_next_sequence (im_state (snd acc))"
  "st_epoch (im_state (snd (fold (classify_one now) ks acc))) = st_epoch (im_state (snd acc))"
  "st_policy (im_state (snd (fold (classify_one now) ks acc))) = st_policy (im_state (snd acc))"
  "st_policy_generation (im_state (snd (fold (classify_one now) ks acc))) = st_policy_generation (im_state (snd acc))"
  "st_tenants (im_state (snd (fold (classify_one now) ks acc))) = st_tenants (im_state (snd acc))"
  "st_physical (im_state (snd (fold (classify_one now) ks acc))) = st_physical (im_state (snd acc))"
  "st_backings (im_state (snd (fold (classify_one now) ks acc))) = st_backings (im_state (snd acc))"
  "st_leases (im_state (snd (fold (classify_one now) ks acc))) = st_leases (im_state (snd acc))"
  "st_evidence (im_state (snd (fold (classify_one now) ks acc))) = st_evidence (im_state (snd acc))"
  "st_audit (im_state (snd (fold (classify_one now) ks acc))) = st_audit (im_state (snd acc))"
  "st_decisions (im_state (snd (fold (classify_one now) ks acc))) = st_decisions (im_state (snd acc))"
  "st_requests (im_state (snd (fold (classify_one now) ks acc))) = st_requests (im_state (snd acc))"
  by (induction ks arbitrary: acc) simp_all

lemma classify_virtual:
  "om_find (st_virtuals (im_state (snd (classify_one now k acc)))) x = Some r \<Longrightarrow>
   \<exists>r0. om_find (st_virtuals (im_state (snd acc))) x = Some r0 \<and>
     (r = r0 \<or> r = enter_state LC_Provisioned txt_interrupted now r0)"
  by (auto simp: classify_one_def abandon_migration_def split_beta Let_def split: option.splits if_splits)

lemma classify_released:
  "(\<And>x r. om_find (st_virtuals (im_state (snd acc))) x = Some r \<Longrightarrow> released r) \<Longrightarrow>
   om_find (st_virtuals (im_state (snd (fold (classify_one now) ks acc)))) x = Some r \<Longrightarrow> released r"
proof (induction ks arbitrary: acc)
  case (Cons k ks)
  have "released r" if "om_find (st_virtuals (im_state (snd (classify_one now k acc)))) x = Some r" for x r
    using classify_virtual [OF that] Cons.prems(1) by (auto simp: released_def)
  then show ?case using Cons.IH [of "classify_one now k acc"] Cons.prems(2) by simp
qed simp

text \<open>A migration that no longer claims authority in flight.\<close>

definition settled :: "migration_record \<Rightarrow> bool" where
  "settled m \<longleftrightarrow> \<not> migration_state_holds_authority (mg_state m)"

lemma classify_settles:
  "om_find (st_migrations (im_state (snd (classify_one now k acc)))) k = Some m \<Longrightarrow>
   settled m \<or> om_find (st_virtuals (im_state (snd acc))) (mp_virtual_id (mg_plan m)) = None"
  by (auto simp: classify_one_def abandon_migration_def split_beta Let_def settled_def aborted_def
      migration_state_holds_authority_def migration_state_is_terminal_def split: option.splits if_splits)

lemma classify_others:
  "x \<noteq> k \<Longrightarrow> om_find (st_migrations (im_state (snd (classify_one now k acc)))) x = om_find (st_migrations (im_state (snd acc))) x"
  by (auto simp: classify_one_def abandon_migration_def split_beta Let_def split: option.splits)

lemma classify_known:
  "om_find (st_virtuals (im_state (snd (classify_one now k acc)))) x = None \<longleftrightarrow>
   om_find (st_virtuals (im_state (snd acc))) x = None"
  by (auto simp: classify_one_def abandon_migration_def split_beta Let_def split: option.splits)

lemma classify_all_settled:
  assumes "om_find (st_migrations (im_state (snd (fold (classify_one now) ks acc)))) x = Some m" and "x \<in> set ks"
    and "om_find (st_virtuals (im_state (snd acc))) (mp_virtual_id (mg_plan m)) \<noteq> None"
  shows "settled m"
proof -
  let ?Q = "\<lambda>x acc. \<forall>m. om_find (st_migrations (im_state (snd acc))) x = Some m \<longrightarrow>
      settled m \<or> om_find (st_virtuals (im_state (snd acc))) (mp_virtual_id (mg_plan m)) = None"
  have hit: "?Q k (classify_one now k acc)" for k acc
    using classify_settles [of now k acc] by (auto simp: classify_known)
  have "?Q x (fold (classify_one now) ks acc)"
  proof (rule fold_establishes [where Q = ?Q])
    show "?Q k (classify_one now k acc)" for k acc by (rule hit)
    show "?Q x (classify_one now k acc)" if "?Q x acc" for k x acc
      using that hit [of k acc] by (cases "x = k") (auto simp: classify_others classify_known)
  qed (use assms(2) in simp)
  moreover have "om_find (st_virtuals (im_state (snd (fold (classify_one now) ks acc)))) y = None \<longleftrightarrow>
      om_find (st_virtuals (im_state (snd acc))) y = None" for y
    by (induction ks arbitrary: acc) (simp_all add: classify_known)
  ultimately show ?thesis using assms by auto
qed

section \<open>Restart\<close>

abbreviation classified :: "env \<Rightarrow> impl \<Rightarrow> nat \<times> impl" where
  "classified e im \<equiv> fold (classify_one (env_now e)) (map fst (st_migrations (im_state im))) (0, begin_op im)"

lemma classify_result:
  assumes "well_formed (im_state im)" and "fst (do_classify_recovered_migrations e im) = Inr ()"
  shows "same_entities (im_state (snd (classified e im))) (im_state (snd (do_classify_recovered_migrations e im)))"
proof (cases "fst (classified e im) = 0")
  case True
  then show ?thesis by (simp add: do_classify_recovered_migrations_def Let_def split_beta)
next
  case False
  have "txn (im_state im) (touch_header (snd (classified e im)))"
    using assms(1) by (simp add: txn_classify_fold)
  then have "covers (im_state im) (touch_header (snd (classified e im)))" by (simp add: txn_def)
  from accept_entities [OF this, of e "blank_context\<lparr> cx_operation := txt_classify, cx_epoch := st_epoch (im_state im) \<rparr>"
      AK_Recovery "()" "()"]
  show ?thesis using assms(2) False by (simp add: do_classify_recovered_migrations_def Let_def split_beta)
qed

lemma classified_quiescent: "quiescent (im_state im) \<Longrightarrow> quiescent (im_state (snd (classified e im)))"
  using classify_released [of "(0, begin_op im)"] by (simp add: quiescent_def)

lemma classified_settled:
  assumes "om_find (st_migrations (im_state (snd (classified e im)))) k = Some m"
    and "om_contains (st_virtuals (im_state (snd (classified e im)))) (mp_virtual_id (mg_plan m))"
  shows "settled m"
proof -
  have virt: "om_find (st_virtuals (im_state (snd (fold (classify_one n) ks acc)))) y = None \<longleftrightarrow>
      om_find (st_virtuals (im_state (snd acc))) y = None" for n ks acc y
    by (induction ks arbitrary: acc) (simp_all add: classify_known)
  have mig: "om_find (st_migrations (im_state (snd (fold (classify_one n) ks acc)))) x = Some m \<Longrightarrow>
      om_find (st_migrations (im_state (snd acc))) x \<noteq> None" for n ks acc x
  proof (induction ks arbitrary: acc)
    case (Cons k ks)
    then have "om_find (st_migrations (im_state (snd (classify_one n k acc)))) x \<noteq> None" by simp
    then show ?case
      by (auto simp: classify_one_def abandon_migration_def split_beta Let_def split: option.splits if_splits)
  qed simp
  have "k \<in> set (map fst (st_migrations (im_state im)))"
    using mig [OF assms(1)] by (auto dest: om_find_key)
  then show ?thesis
    using assms(2) virt by (intro classify_all_settled [OF assms(1)]) (auto simp: om_contains_def)
qed

lemma start_recovers:
  assumes "\<not> im_running im" and "env_store e = Some store" and "ds_present store" and "ds_load store = Inr s"
    and "well_formed s" and "gen_valid (st_epoch s)" and "fst (start e im) = Inr ()"
  shows "im_running (snd (start e im)) \<and>
    (let t = im_state (snd (start e im)) in
      st_epoch t = gen_next (st_epoch s) \<and> quiescent t \<and> well_formed t \<and> lifecycle_flow s t \<and>
      validate_state t = SC_Ok \<and> (\<forall>k m. om_find (st_migrations t) k = Some m \<longrightarrow> settled m))"
proof -
  let ?im1 = "start_effect e True ((begin_op im)\<lparr> im_state := s \<rparr>)"
  let ?im2 = "snd (commit e ?im1)" and ?c = "do_classify_recovered_migrations e (snd (commit e ?im1))"
  have rec: "start_recovered e" using assms(2,3) by (simp add: start_recovered_def)
  have c: "fst (commit e ?im1) = SC_Ok"
    using assms rec by (auto simp: start_def Let_def split_beta start_load_def split: if_splits)
  have start: "start e im = start_finish e True ?im2"
    using assms rec c by (auto simp: start_def Let_def split_beta start_load_def split: if_splits)
  have fin: "fst ?c = Inr ()" "validate_state (im_state (snd ?c)) = SC_Ok"
    "start e im = (Inr (), (snd ?c)\<lparr> im_running := True \<rparr>)"
    using assms(7) unfolding start
    by (auto simp: start_finish_def Let_def split_beta split: sum.splits if_splits)
  have e1: "same_entities (im_state ?im1) (im_state ?im2)"
    using c by (auto simp: commit_def Let_def split: if_splits)
  have sh: "shape s ?im1" using shape_start_effect [of "(begin_op im)\<lparr> im_state := s \<rparr>" e True] assms(5) by simp
  have w2: "well_formed (im_state ?im2)" "lifecycle_flow s (im_state ?im2)" "quiescent (im_state ?im2)"
    "st_epoch (im_state ?im2) = gen_next (st_epoch s)"
    using sh e1 start_effect_recovered [where e = e and im = "(begin_op im)\<lparr> im_state := s \<rparr>"] assms(6)
    by (auto simp: shape_def same_entities_well_formed [OF e1] same_entities_flow [OF e1] quiescent_same [OF e1] same_entities_def)
  note e2 = classify_result [OF w2(1) fin(1)]
  have "op_sound e ?im2 ?c" using w2(1) by (rule classify_sound)
  then have w3: "well_formed (im_state (snd ?c))" "lifecycle_flow s (im_state (snd ?c))"
    using w2(2) lifecycle_flow_trans by (auto simp: op_sound_def)
  have q: "quiescent (im_state (snd ?c))"
    using classified_quiescent [OF w2(3)] quiescent_same [OF e2] by simp
  have ep: "st_epoch (im_state (snd ?c)) = gen_next (st_epoch s)" using e2 w2(4) by (simp add: same_entities_def)
  have "settled m" if m: "om_find (st_migrations (im_state (snd ?c))) k = Some m" for k m
  proof -
    have "m \<in> set (om_values (st_migrations (im_state (snd ?c))))"
      using m w3(1) by (auto simp: well_formed_def maps_sorted_def om_values_find)
    then have "om_contains (st_virtuals (im_state (snd ?c))) (mp_virtual_id (mg_plan m))"
      using fin(2) by (auto simp: validate_state_def list_all_iff simp del: first_error.simps)
    then show ?thesis
      using m e2 by (intro classified_settled [of e ?im2 k m]) (simp_all add: same_entities_def)
  qed
  then show ?thesis using fin(2,3) w3 q ep by (simp add: Let_def)
qed

text \<open>C9: A start that finds durable state begins the next epoch, and nothing of the previous process's
  authority is left: every lease is dead, nothing is attached or executing, no backing is trusted and no
  device present before fresh evidence arrives, and no migration is in flight. The state is well formed,
  passes the structural check, and every virtual accelerator got to its state by legal transitions.\<close>

theorem restart_ends_authority:
  assumes "\<not> im_running im" and "env_store e = Some store" and "ds_present store" and "ds_load store = Inr s"
    and "well_formed s" and "gen_valid (st_epoch s)" and "fst (start e im) = Inr ()"
  shows "im_running (snd (start e im)) \<and>
    (let t = im_state (snd (start e im)) in
      st_epoch t = gen_next (st_epoch s) \<and> quiescent t \<and> well_formed t \<and> lifecycle_flow s t \<and>
      validate_state t = SC_Ok \<and> (\<forall>k m. om_find (st_migrations t) k = Some m \<longrightarrow> settled m))"
  by (rule start_recovers) (fact assms)+

section \<open>Shutdown and sessions\<close>

lemma txn_release_virtual:
  assumes "txn s0 im"
  shows "txn s0 (release_virtual reason now k im)"
proof (cases "om_find (st_virtuals (im_state im)) k")
  case (Some r)
  have i: "va_id r = k" using txn_ids(3) [OF assms Some] .
  let ?im1 = "if va_active_attachments r \<noteq> 0
    then upd_virtual k (\<lambda>r. r\<lparr> va_active_attachments := 0 \<rparr>) (touch_virtual (va_id r) im) else im"
  have 1: "txn s0 ?im1" using assms i by simp
  have "txn s0 (upd_virtual k (enter_state LC_Provisioned reason now) (touch_virtual (va_id r) ?im1))"
    if "is_executing (va_state r)"
    by (rule txn_upd_virtual) (use that 1 i Some in \<open>auto simp: is_executing_def intro!: lifecycle_path_edge split: if_splits\<close>)
  with 1 show ?thesis by (simp add: release_virtual_def Some Let_def)
qed (simp add: release_virtual_def assms)

lemma txn_release_virtuals [simp]: "txn s0 im \<Longrightarrow> txn s0 (release_virtuals reason now im)"
  unfolding release_virtuals_def by (rule txn_fold) (simp_all add: txn_release_virtual)

text \<open>The shutdown records its decision before the commit.\<close>

definition shutdown_cleared :: "env \<Rightarrow> impl \<Rightarrow> impl" where
  "shutdown_cleared e im = run_steps
    [end_live_leases Lease_Fenced txt_shutdown_lease (env_now e), release_virtuals txt_shutdown_virtual (env_now e),
     clear_tenants None, recompute_derived_accounting, touch_header] im"

lemma txn_shutdown_cleared: "txn s0 im \<Longrightarrow> txn s0 (shutdown_cleared e im)"
  by (simp add: shutdown_cleared_def)

lemma shutdown_effect_cleared:
  "shutdown_effect e im = record_decision e (blank_context\<lparr> cx_operation := txt_coordinator_shutdown,
     cx_epoch := st_epoch (im_state im) \<rparr>) SC_Ok AK_Mutation (shutdown_cleared e im)"
  by (simp add: shutdown_effect_def shutdown_cleared_def)

text \<open>Whatever the store answers, the committed or rolled-back state is well formed.\<close>

lemma commit_txn:
  assumes "covers s0 im" and "ids_match (im_state im)" and "lifecycle_flow s0 (im_state im)" and "well_formed s0"
  shows "well_formed (im_state (snd (commit e im))) \<and> lifecycle_flow s0 (im_state (snd (commit e im)))"
proof -
  have wf: "well_formed (im_state im)" using assms(1,2) by (simp add: well_formed_def covers_sorted)
  from commit_entities [OF assms(1), of e] consider
    "same_entities (im_state im) (im_state (snd (commit e im)))" | "same_entities s0 (im_state (snd (commit e im)))"
    by (auto split: if_splits)
  then show ?thesis
  proof cases
    case 1
    then show ?thesis using assms wf
      by (simp add: same_entities_well_formed [OF 1] same_entities_flow [OF 1])
  next
    case 2
    then show ?thesis using assms lifecycle_flow_same by (auto simp: same_entities_well_formed [OF 2])
  qed
qed

lemma shutdown_state: "im_running im \<Longrightarrow> im_state (snd (shutdown e im)) = im_state (snd (commit e (shutdown_effect e (begin_op im))))"
  by (simp add: shutdown_def Let_def split_beta)

lemma shutdown_shape:
  assumes "well_formed (im_state im)"
  shows "well_formed (im_state (snd (shutdown e im))) \<and> lifecycle_flow (im_state im) (im_state (snd (shutdown e im))) \<and>
    written_through e (im_state im) (snd (shutdown e im))"
proof (cases "im_running im")
  case True
  let ?im0 = "shutdown_cleared e (begin_op im)" and ?im1 = "shutdown_effect e (begin_op im)"
  have "txn (im_state im) ?im0" using assms by (intro txn_shutdown_cleared) simp
  then have txn: "covers (im_state im) ?im1" "ids_match (im_state ?im1)" "lifecycle_flow (im_state im) (im_state ?im1)"
    and "quiet (im_changes ?im0)"
    by (simp_all add: shutdown_effect_cleared txn_def ids_match_def lifecycle_flow_def va_states_def)
  then have "ch_header (im_changes ?im1)" "few_entries (im_changes ?im1)"
    by (simp_all add: shutdown_effect_cleared record_decision_def touch_header_def next_id_def quiet_def few_entries_def Let_def)
  then have "written_through e (im_state im) (snd (commit e ?im1))"
    using txn by (intro commit_written_through covers_advance) simp_all
  then have "written_through e (im_state im) (snd (shutdown e im))"
    using True by (simp add: shutdown_def Let_def split_beta written_through_def)
  with commit_txn [OF txn assms, of e] show ?thesis by (simp add: shutdown_state [OF True])
next
  case False
  then show ?thesis using assms by (simp add: shutdown_def lifecycle_flow_refl written_through_def)
qed

lemma agent_ops_entities:
  "same_entities (im_state im) (im_state (snd (agent_heartbeat e i boot im)))"
  "same_entities (im_state im) (im_state (snd (agent_disconnected i boot im)))"
  by (simp_all add: agent_heartbeat_def agent_disconnected_def upd_agent_def split: option.split)

lemma register_agent_entities:
  assumes "well_formed (im_state im)"
  shows "same_entities (im_state im) (im_state (snd (register_agent e name endpoint connection requested im)))"
proof -
  have i: "same_entities (im_state im) (im_state (snd (agent_identity requested im)))"
    by (simp add: agent_identity_def split_beta same_entities_def)
  let ?f = "\<lambda>a. a\<lparr> ac_agent_boots := ac_agent_boots a + 1 \<rparr>"
  have "same_entities (im_state im) (im_state (snd (commit e (touch_header (begin_op (upd_accounting ?f
      ((snd (next_id (snd (agent_identity requested im))))\<lparr> im_agents := m \<rparr>)))))))" (is "same_entities _ (im_state (snd (commit e (touch_header (begin_op ?im3)))))") for m
  proof -
    have 3: "same_entities (im_state im) (im_state ?im3)" using i by (simp add: same_entities_def)
    have "covers (im_state ?im3) (touch_header (begin_op ?im3))"
      using assms same_entities_maps_sorted [OF 3] by (simp add: covers_begin_op well_formed_def del: upd_accounting_frame)
    from commit_entities [OF this, of e] have "same_entities (im_state ?im3) (im_state (snd (commit e (touch_header (begin_op ?im3)))))"
      by (auto split: if_splits)
    then show ?thesis using 3 same_entities_trans by blast
  qed
  then show ?thesis using i by (simp add: register_agent_def Let_def split_beta)
qed

text \<open>A registered agent: the identities taken and the boot counted are in the header the store was given. A
  registration refused for a connected agent has taken an identity all the same, which the store learns of
  with the next write.\<close>

lemma register_agent_written:
  assumes "well_formed (im_state im)" and "fst (register_agent e name endpoint connection requested im) = Inr a"
  shows "written_through e (im_state im) (snd (register_agent e name endpoint connection requested im))"
proof -
  obtain m where out: "snd (register_agent e name endpoint connection requested im) =
      snd (commit e (touch_header (begin_op (upd_accounting (\<lambda>a. a\<lparr> ac_agent_boots := ac_agent_boots a + 1 \<rparr>)
        ((snd (next_id (snd (agent_identity requested im))))\<lparr> im_agents := m \<rparr>)))))" (is "_ = snd (commit e (touch_header (begin_op ?im3)))")
    using assms(2) by (auto simp: register_agent_def Let_def split_beta split: if_splits)
  have same: "same_entities (im_state im) (im_state ?im3)" "logs_kept (im_state im) (im_state ?im3)"
    by (simp_all add: agent_identity_def split_beta same_entities_def logs_kept_def)
  have sorted: "maps_sorted (im_state ?im3)"
    using assms(1) same_entities_maps_sorted [OF same(1)] by (simp add: well_formed_def del: upd_accounting_frame)
  then have "covers (im_state ?im3) (touch_header (begin_op ?im3))"
    unfolding covers_touch_header by (rule covers_begin_op)
  then have "changes_advance (im_state ?im3) (im_changes (touch_header (begin_op ?im3)))
      (im_state (commit_logs (touch_header (begin_op ?im3))))"
    by (rule covers_advance) (simp_all add: touch_header_def few_entries_def begin_op_def empty_changes_def Let_def)
  then have "changes_advance (im_state im) (im_changes (touch_header (begin_op ?im3)))
      (im_state (commit_logs (touch_header (begin_op ?im3))))"
    using same by (simp add: changes_advance_def same_entities_def logs_kept_def del: upd_accounting_frame)
  then show ?thesis unfolding out by (rule commit_written_through)
qed

text \<open>A boot identity that was replaced is refused by every agent operation.\<close>

lemma stale_boot_refused:
  "om_find (im_agents im) i = Some s \<Longrightarrow> ag_boot s \<noteq> boot \<Longrightarrow>
   fst (agent_heartbeat e i boot im) = Inl SC_StaleAgentBoot \<and> fst (agent_disconnected i boot im) = Inl SC_StaleAgentBoot \<and>
   check_session i boot im = SC_StaleAgentBoot"
  by (simp add: agent_heartbeat_def agent_disconnected_def check_session_def refuse_if_def)

end
