(* ===== verification/AV_StateCodec.thy ===== *)
theory AV_StateCodec
  imports AV_RecordCodec AV_Recovery
begin

text \<open>
  Codecs of the durable records and of the whole state (\<open>src/state_codec.cpp\<close>): header with accounting
  counters, tenants, devices, backings, virtual accelerators with their backing history, leases,
  assignments, migrations, evidence, and the three logs; \<open>encode_snapshot\<close>, \<open>decode_snapshot\<close> and
  \<open>state_fingerprint\<close>.

  The log entries carry texts and raw outcome numbers that the state of the runtime model leaves out;
  here they are the records \<open>stored_audit\<close>, \<open>stored_decision\<close> and \<open>stored_request\<close>, and a
  \<open>stored_state\<close> is the state with these logs beside it.
\<close>

section \<open>Stored enumerations\<close>

text \<open>In durable records an out-of-domain value is corruption.\<close>

interpretation provenance_stored: enum_codec SC_CorruptState provenance_value provenance_table
proof
  show "provenance_value v < length provenance_table" "provenance_table ! provenance_value v = v" for v by (cases v; simp add: provenance_table_def kProvenanceNames_def)+
qed (simp add: provenance_table_def kProvenanceNames_def)

interpretation backing_class_stored: enum_codec SC_CorruptState backing_class_value backing_class_table
  by unfold_locales

interpretation multiplexing_stored: enum_codec SC_CorruptState multiplexing_value multiplexing_table
  by unfold_locales

interpretation isolation_class_stored: enum_codec SC_CorruptState isolation_class_value isolation_class_table
proof
  show "isolation_class_value v < length isolation_class_table" "isolation_class_table ! isolation_class_value v = v" for v by (cases v; simp add: isolation_class_table_def kIsolationClassNames_def)+
qed (simp add: isolation_class_table_def kIsolationClassNames_def)

interpretation lifecycle_stored: enum_codec SC_CorruptState lifecycle_value lifecycle_table
proof
  show "lifecycle_value v < length lifecycle_table" "lifecycle_table ! lifecycle_value v = v" for v by (cases v; simp add: lifecycle_table_def lifecycle_names_def)+
qed (simp add: lifecycle_table_def lifecycle_names_def)

interpretation lease_state_stored: enum_codec SC_CorruptState lease_state_value lease_state_table
proof
  show "lease_state_value v < length lease_state_table" "lease_state_table ! lease_state_value v = v" for v by (cases v; simp add: lease_state_table_def lease_state_names_def)+
qed (simp add: lease_state_table_def lease_state_names_def)

interpretation assignment_state_stored: enum_codec SC_CorruptState assignment_state_value assignment_state_table
proof
  show "assignment_state_value v < length assignment_state_table" "assignment_state_table ! assignment_state_value v = v" for v by (cases v; simp add: assignment_state_table_def assignment_state_names_def)+
qed (simp add: assignment_state_table_def assignment_state_names_def)

interpretation migration_state_stored: enum_codec SC_CorruptState migration_state_value migration_state_table
proof
  show "migration_state_value v < length migration_state_table" "migration_state_table ! migration_state_value v = v" for v by (cases v; simp add: migration_state_table_def migration_state_names_def)+
qed (simp add: migration_state_table_def migration_state_names_def)

interpretation audit_kind_stored: enum_codec SC_CorruptState audit_kind_value audit_kind_table
proof
  show "audit_kind_value v < length audit_kind_table" "audit_kind_table ! audit_kind_value v = v" for v by (cases v; simp add: audit_kind_table_def audit_kind_names_def)+
qed (simp add: audit_kind_table_def audit_kind_names_def)

interpretation evidence_kind_stored: enum_codec SC_CorruptState evidence_kind_value evidence_kind_table
proof
  show "evidence_kind_value v < length evidence_kind_table" "evidence_kind_table ! evidence_kind_value v = v" for v by (cases v; simp add: evidence_kind_table_def)+
qed (simp add: evidence_kind_table_def)

lemmas [field_reads] =
  provenance_stored.reads_value
  backing_class_stored.reads_value
  multiplexing_stored.reads_value
  isolation_class_stored.reads_value
  lifecycle_stored.reads_value
  lease_state_stored.reads_value
  assignment_state_stored.reads_value
  migration_state_stored.reads_value
  audit_kind_stored.reads_value
  evidence_kind_stored.reads_value

text \<open>Lists of identities are sorted after they are read.\<close>

definition kMaxStoredItems :: nat where
  "kMaxStoredItems = 4194304"

definition dec_sorted_ids :: "'t ident list dec" where
  "dec_sorted_ids = dec_bind (decode_list dec_id kMaxStoredItems) (\<lambda>ids. dec_return (sort ids))"

definition sorted_ids_fit :: "decoder \<Rightarrow> 't ident list \<Rightarrow> bool" where
  "sorted_ids_fit d ids \<longleftrightarrow> list_fits (\<lambda>_ _. True) kMaxStoredItems d ids \<and> sorted ids"

lemma sorted_ids_fit_skip [simp]:
  "sorted_ids_fit (skip n d) ids = sorted_ids_fit d ids"
  "sorted_ids_fit (d\<lparr> dec_data := bs, dec_pos := n \<rparr>) ids = sorted_ids_fit d ids"
  by (simp_all add: sorted_ids_fit_def)

lemma sorted_ids_read [field_reads]: "sorted_ids_fit d ids \<Longrightarrow> reads dec_sorted_ids d (enc_list enc_id ids) ids"
  unfolding dec_sorted_ids_def
  by (intro reads_last [OF id_codec.reads_list] reads_return) (auto simp: sorted_ids_fit_def sorted_sort_id)

section \<open>The header\<close>

definition encode_accounting :: "accounting \<Rightarrow> bytes" where
  "encode_accounting r =
    enc_u64 (ac_coordinator_boots r) @ enc_u64 (ac_agent_boots r) @ enc_u64 (ac_physical_registered r) @
    enc_u64 (ac_physical_lost r) @ enc_u64 (ac_virtual_created r) @ enc_u64 (ac_virtual_retired r) @
    enc_u64 (ac_virtual_active r) @ enc_u64 (ac_leases_issued r) @ enc_u64 (ac_leases_renewed r) @
    enc_u64 (ac_leases_revoked r) @ enc_u64 (ac_leases_fenced r) @ enc_u64 (ac_attachments_active r) @
    enc_u64 (ac_peak_attachments_active r) @ enc_u64 (ac_detaches r) @ enc_u64 (ac_backing_assignments r) @
    enc_u64 (ac_backing_replacements r) @ enc_u64 (ac_backing_revocations r) @
    enc_u64 (ac_migrations_planned r) @ enc_u64 (ac_migrations_prepared r) @
    enc_u64 (ac_migrations_committed r) @ enc_u64 (ac_migrations_aborted r) @
    enc_u64 (ac_stale_authority_refusals r) @ enc_u64 (ac_authority_refusals r) @
    enc_u64 (ac_lifecycle_refusals r) @ enc_u64 (ac_contract_violation_refusals r) @
    enc_u64 (ac_isolation_refusals r) @ enc_u64 (ac_capability_refusals r) @
    enc_u64 (ac_oversubscription_denials r) @ enc_u64 (ac_protocol_violations r) @
    enc_u64 (ac_duplicate_request_refusals r) @ enc_u64 (ac_policy_updates r) @
    enc_u64 (ac_evidence_records r) @ enc_u64 (ac_allocation_operations r) @ enc_u64 (ac_kernel_operations r) @
    enc_u64 (ac_bytes_allocated_current r) @ enc_u64 (ac_bytes_allocated_peak r) @
    enc_u64 (ac_persistence_writes r) @ enc_u64 (ac_persistence_bytes r) @
    enc_u64 (ac_persistence_compactions r)"

definition decode_accounting :: "accounting dec" where
  "decode_accounting =
    dec_bind dec_u64 (\<lambda>coordinator_boots. dec_bind dec_u64 (\<lambda>agent_boots.
    dec_bind dec_u64 (\<lambda>physical_registered. dec_bind dec_u64 (\<lambda>physical_lost.
    dec_bind dec_u64 (\<lambda>virtual_created. dec_bind dec_u64 (\<lambda>virtual_retired.
    dec_bind dec_u64 (\<lambda>virtual_active. dec_bind dec_u64 (\<lambda>leases_issued.
    dec_bind dec_u64 (\<lambda>leases_renewed. dec_bind dec_u64 (\<lambda>leases_revoked.
    dec_bind dec_u64 (\<lambda>leases_fenced. dec_bind dec_u64 (\<lambda>attachments_active.
    dec_bind dec_u64 (\<lambda>peak_attachments_active. dec_bind dec_u64 (\<lambda>detaches.
    dec_bind dec_u64 (\<lambda>backing_assignments. dec_bind dec_u64 (\<lambda>backing_replacements.
    dec_bind dec_u64 (\<lambda>backing_revocations. dec_bind dec_u64 (\<lambda>migrations_planned.
    dec_bind dec_u64 (\<lambda>migrations_prepared. dec_bind dec_u64 (\<lambda>migrations_committed.
    dec_bind dec_u64 (\<lambda>migrations_aborted. dec_bind dec_u64 (\<lambda>stale_authority_refusals.
    dec_bind dec_u64 (\<lambda>authority_refusals. dec_bind dec_u64 (\<lambda>lifecycle_refusals.
    dec_bind dec_u64 (\<lambda>contract_violation_refusals. dec_bind dec_u64 (\<lambda>isolation_refusals.
    dec_bind dec_u64 (\<lambda>capability_refusals. dec_bind dec_u64 (\<lambda>oversubscription_denials.
    dec_bind dec_u64 (\<lambda>protocol_violations. dec_bind dec_u64 (\<lambda>duplicate_request_refusals.
    dec_bind dec_u64 (\<lambda>policy_updates. dec_bind dec_u64 (\<lambda>evidence_records.
    dec_bind dec_u64 (\<lambda>allocation_operations. dec_bind dec_u64 (\<lambda>kernel_operations.
    dec_bind dec_u64 (\<lambda>bytes_allocated_current. dec_bind dec_u64 (\<lambda>bytes_allocated_peak.
    dec_bind dec_u64 (\<lambda>persistence_writes. dec_bind dec_u64 (\<lambda>persistence_bytes.
    dec_bind dec_u64 (\<lambda>persistence_compactions.
    dec_return
      \<lparr> ac_coordinator_boots = coordinator_boots, ac_agent_boots = agent_boots,
        ac_physical_registered = physical_registered, ac_physical_lost = physical_lost,
        ac_virtual_created = virtual_created, ac_virtual_retired = virtual_retired,
        ac_virtual_active = virtual_active, ac_leases_issued = leases_issued,
        ac_leases_renewed = leases_renewed, ac_leases_revoked = leases_revoked,
        ac_leases_fenced = leases_fenced, ac_attachments_active = attachments_active,
        ac_peak_attachments_active = peak_attachments_active, ac_detaches = detaches,
        ac_backing_assignments = backing_assignments, ac_backing_replacements = backing_replacements,
        ac_backing_revocations = backing_revocations, ac_migrations_planned = migrations_planned,
        ac_migrations_prepared = migrations_prepared, ac_migrations_committed = migrations_committed,
        ac_migrations_aborted = migrations_aborted, ac_stale_authority_refusals = stale_authority_refusals,
        ac_authority_refusals = authority_refusals, ac_lifecycle_refusals = lifecycle_refusals,
        ac_contract_violation_refusals = contract_violation_refusals,
        ac_isolation_refusals = isolation_refusals, ac_capability_refusals = capability_refusals,
        ac_oversubscription_denials = oversubscription_denials, ac_protocol_violations = protocol_violations,
        ac_duplicate_request_refusals = duplicate_request_refusals, ac_policy_updates = policy_updates,
        ac_evidence_records = evidence_records, ac_allocation_operations = allocation_operations,
        ac_kernel_operations = kernel_operations, ac_bytes_allocated_current = bytes_allocated_current,
        ac_bytes_allocated_peak = bytes_allocated_peak, ac_persistence_writes = persistence_writes,
        ac_persistence_bytes = persistence_bytes, ac_persistence_compactions = persistence_compactions \<rparr>)))))))))))))))))))))))))))))))))))))))"

definition accounting_fits :: "decoder \<Rightarrow> accounting \<Rightarrow> bool" where
  "accounting_fits d r = True"

interpretation accounting_codec: record_codec encode_accounting decode_accounting accounting_fits
proof (rule record_codec_of_reads)
  fix d and r :: accounting
  assume f: "accounting_fits d r"
  show "reads decode_accounting d (encode_accounting r) r"
    unfolding decode_accounting_def encode_accounting_def
    by ((rule reads_bind, (rule field_reads; simp add: f [unfolded accounting_fits_def]))+, rule reads_last,
        (rule field_reads; simp add: f [unfolded accounting_fits_def]), rule reads_return, simp)
qed (simp_all add: accounting_fits_def encode_accounting_def)

lemmas [field_reads] = accounting_codec.reads_value
lemmas [simp] = accounting_codec.fits_skip accounting_codec.fits_move

definition encode_header :: "vstate \<Rightarrow> bytes" where
  "encode_header s =
    enc_u32 (st_schema s) @ enc_u64 (st_next_sequence s) @ enc_gen (st_epoch s) @ enc_gen (st_policy_generation s) @
    encode_policy (st_policy s) @ encode_accounting (st_accounting s)"

text \<open>The decoded state carries the header only; the tables of \<open>VirtualizationState state;\<close> are empty.\<close>

definition decode_header :: "vstate dec" where
  "decode_header =
    dec_bind dec_u32 (\<lambda>schema. dec_bind dec_u64 (\<lambda>sequence. dec_bind dec_gen (\<lambda>epoch.
    dec_bind dec_gen (\<lambda>policy_generation. dec_bind decode_policy (\<lambda>policy. dec_bind decode_accounting (\<lambda>accounting.
    dec_return (initial_state
      \<lparr> st_schema := schema, st_next_sequence := sequence, st_epoch := epoch,
        st_policy_generation := policy_generation, st_policy := policy, st_accounting := accounting \<rparr>)))))))"

definition header_of :: "vstate \<Rightarrow> vstate" where
  "header_of s = initial_state
    \<lparr> st_schema := st_schema s, st_next_sequence := st_next_sequence s, st_epoch := st_epoch s,
      st_policy_generation := st_policy_generation s, st_policy := st_policy s, st_accounting := st_accounting s \<rparr>"

lemma header_reads [field_reads]:
  assumes "policy_fits d (st_policy s)"
  shows "reads decode_header d (encode_header s) (header_of s)"
  unfolding decode_header_def encode_header_def
  by ((rule reads_bind, (rule field_reads; simp add: assms))+, rule reads_last,
      (rule field_reads; simp add: accounting_fits_def), rule reads_return, simp add: header_of_def)

section \<open>Entities\<close>

definition encode_tenant :: "tenant_record \<Rightarrow> bytes" where
  "encode_tenant r =
    enc_id (tn_id r) @ enc_gen (tn_generation r) @ enc_str (tn_name r) @ enc_str (tn_external_subject r) @
    enc_u64 (tn_created_at r) @ enc_u64 (tn_updated_at r) @ enc_boolean (tn_fenced r) @
    enc_str (tn_fence_reason r) @ enc_u32 (tn_active_attachments r) @ enc_list enc_id (tn_owned r)"

definition decode_tenant :: "tenant_record dec" where
  "decode_tenant =
    dec_bind dec_id (\<lambda>id'. dec_bind dec_gen (\<lambda>generation'. dec_bind dec_str (\<lambda>label.
    dec_bind dec_str (\<lambda>external_subject. dec_bind dec_u64 (\<lambda>created_at.
    dec_bind dec_u64 (\<lambda>updated_at. dec_bind dec_boolean (\<lambda>fenced.
    dec_bind dec_str (\<lambda>fence_reason. dec_bind dec_u32 (\<lambda>active_attachments.
    dec_bind dec_sorted_ids (\<lambda>owned.
    dec_return
      \<lparr> tn_id = id', tn_generation = generation', tn_name = label, tn_external_subject = external_subject,
        tn_created_at = created_at, tn_updated_at = updated_at, tn_fenced = fenced,
        tn_fence_reason = fence_reason, tn_active_attachments = active_attachments, tn_owned = owned \<rparr>))))))))))"

definition tenant_fits :: "decoder \<Rightarrow> tenant_record \<Rightarrow> bool" where
  "tenant_fits d r \<longleftrightarrow>
    str_fits d (tn_name r) \<and> str_fits d (tn_external_subject r) \<and>
    str_fits d (tn_fence_reason r) \<and> sorted_ids_fit d (tn_owned r)"

interpretation tenant_codec: record_codec encode_tenant decode_tenant tenant_fits
proof (rule record_codec_of_reads)
  fix d and r :: tenant_record
  assume f: "tenant_fits d r"
  show "reads decode_tenant d (encode_tenant r) r"
    unfolding decode_tenant_def encode_tenant_def
    by ((rule reads_bind, (rule field_reads; simp add: f [unfolded tenant_fits_def]))+, rule reads_last,
        (rule field_reads; simp add: f [unfolded tenant_fits_def]), rule reads_return, simp)
qed (simp_all add: tenant_fits_def encode_tenant_def)

lemmas [field_reads] = tenant_codec.reads_value
lemmas [simp] = tenant_codec.fits_skip tenant_codec.fits_move

definition encode_physical :: "physical_record \<Rightarrow> bytes" where
  "encode_physical r =
    enc_id (pd_id r) @ enc_gen (pd_generation r) @ enc_id (pd_agent r) @ enc_id (pd_boot r) @
    enc_str (pd_stable_key r) @ enc_str (pd_vendor r) @ enc_str (pd_model r) @ enc_str (pd_driver_version r) @
    enc_str (pd_architecture r) @ enc_enum provenance_value (pd_provenance r) @
    enc_u64 (pd_memory_total_bytes r) @ enc_u32 (pd_compute_units r) @ enc_u32 (pd_compute_capability_major r) @
    enc_u32 (pd_compute_capability_minor r) @ enc_str (pd_mechanism r) @
    enc_boolean (pd_hardware_partition_capable r) @ enc_boolean (pd_virtual_function_capable r) @
    enc_boolean (pd_mig_capable r) @ enc_u64 (pd_registered_at r) @ enc_u64 (pd_evidence_at r) @
    enc_id (pd_evidence r) @ enc_gen (pd_evidence_generation r) @ enc_boolean (pd_present r) @
    enc_list enc_id (pd_backings r)"

definition decode_physical :: "physical_record dec" where
  "decode_physical =
    dec_bind dec_id (\<lambda>id'. dec_bind dec_gen (\<lambda>generation'. dec_bind dec_id (\<lambda>agent.
    dec_bind dec_id (\<lambda>boot. dec_bind dec_str (\<lambda>stable_key. dec_bind dec_str (\<lambda>vendor.
    dec_bind dec_str (\<lambda>model. dec_bind dec_str (\<lambda>driver_version.
    dec_bind dec_str (\<lambda>architecture.
    dec_bind (dec_enum SC_CorruptState provenance_table) (\<lambda>provenance.
    dec_bind dec_u64 (\<lambda>memory_total_bytes. dec_bind dec_u32 (\<lambda>compute_units.
    dec_bind dec_u32 (\<lambda>compute_capability_major. dec_bind dec_u32 (\<lambda>compute_capability_minor.
    dec_bind dec_str (\<lambda>mechanism. dec_bind dec_boolean (\<lambda>hardware_partition_capable.
    dec_bind dec_boolean (\<lambda>virtual_function_capable. dec_bind dec_boolean (\<lambda>mig_capable.
    dec_bind dec_u64 (\<lambda>registered_at. dec_bind dec_u64 (\<lambda>evidence_at.
    dec_bind dec_id (\<lambda>evidence. dec_bind dec_gen (\<lambda>evidence_generation.
    dec_bind dec_boolean (\<lambda>present. dec_bind dec_sorted_ids (\<lambda>backings.
    dec_return
      \<lparr> pd_id = id', pd_generation = generation', pd_agent = agent, pd_boot = boot, pd_stable_key = stable_key,
        pd_vendor = vendor, pd_model = model, pd_driver_version = driver_version,
        pd_architecture = architecture, pd_provenance = provenance, pd_memory_total_bytes = memory_total_bytes,
        pd_compute_units = compute_units, pd_compute_capability_major = compute_capability_major,
        pd_compute_capability_minor = compute_capability_minor, pd_mechanism = mechanism,
        pd_hardware_partition_capable = hardware_partition_capable,
        pd_virtual_function_capable = virtual_function_capable, pd_mig_capable = mig_capable,
        pd_registered_at = registered_at, pd_evidence_at = evidence_at, pd_evidence = evidence,
        pd_evidence_generation = evidence_generation, pd_present = present, pd_backings = backings \<rparr>))))))))))))))))))))))))"

definition physical_fits :: "decoder \<Rightarrow> physical_record \<Rightarrow> bool" where
  "physical_fits d r \<longleftrightarrow>
    str_fits d (pd_stable_key r) \<and> str_fits d (pd_vendor r) \<and> str_fits d (pd_model r) \<and>
    str_fits d (pd_driver_version r) \<and> str_fits d (pd_architecture r) \<and>
    str_fits d (pd_mechanism r) \<and> sorted_ids_fit d (pd_backings r)"

interpretation physical_codec: record_codec encode_physical decode_physical physical_fits
proof (rule record_codec_of_reads)
  fix d and r :: physical_record
  assume f: "physical_fits d r"
  show "reads decode_physical d (encode_physical r) r"
    unfolding decode_physical_def encode_physical_def
    by ((rule reads_bind, (rule field_reads; simp add: f [unfolded physical_fits_def]))+, rule reads_last,
        (rule field_reads; simp add: f [unfolded physical_fits_def]), rule reads_return, simp)
qed (simp_all add: physical_fits_def encode_physical_def)

lemmas [field_reads] = physical_codec.reads_value
lemmas [simp] = physical_codec.fits_skip physical_codec.fits_move

definition encode_backing :: "backing_record \<Rightarrow> bytes" where
  "encode_backing r =
    enc_id (bk_id r) @ enc_gen (bk_generation r) @ enc_id (bk_physical r) @ enc_gen (bk_physical_generation r) @
    enc_enum backing_class_value (bk_klass r) @ enc_enum provenance_value (bk_provenance r) @
    enc_str (bk_label r) @ enc_str (bk_mechanism r) @ enc_enum multiplexing_value (bk_multiplexing r) @
    enc_enum isolation_class_value (bk_isolation_class r) @ encode_isolation_profile (bk_isolation r) @
    encode_capability_surface (bk_capabilities r) @ enc_u64 (bk_capacity_bytes r) @
    enc_u32 (bk_compute_units r) @ enc_u32 (bk_capability_rank r) @ enc_id (bk_evidence r) @
    enc_gen (bk_evidence_generation r) @ enc_u64 (bk_evidence_at r) @ enc_boolean (bk_evidence_fresh r) @
    enc_boolean (bk_available r) @ enc_boolean (bk_exclusive r) @
    enc_boolean (bk_externally_lifecycle_managed r) @ enc_str (bk_external_partition_ref r) @
    enc_id (bk_assigned_to r) @ enc_id (bk_active_assignment r) @ enc_gen (bk_assigned_generation r)"

definition decode_backing :: "backing_record dec" where
  "decode_backing =
    dec_bind dec_id (\<lambda>id'. dec_bind dec_gen (\<lambda>generation'. dec_bind dec_id (\<lambda>physical.
    dec_bind dec_gen (\<lambda>physical_generation.
    dec_bind (dec_enum SC_CorruptState backing_class_table) (\<lambda>klass.
    dec_bind (dec_enum SC_CorruptState provenance_table) (\<lambda>provenance. dec_bind dec_str (\<lambda>label.
    dec_bind dec_str (\<lambda>mechanism.
    dec_bind (dec_enum SC_CorruptState multiplexing_table) (\<lambda>multiplexing.
    dec_bind (dec_enum SC_CorruptState isolation_class_table) (\<lambda>isolation_class.
    dec_bind decode_isolation_profile (\<lambda>isolation.
    dec_bind decode_capability_surface (\<lambda>capabilities. dec_bind dec_u64 (\<lambda>capacity_bytes.
    dec_bind dec_u32 (\<lambda>compute_units. dec_bind dec_u32 (\<lambda>capability_rank.
    dec_bind dec_id (\<lambda>evidence. dec_bind dec_gen (\<lambda>evidence_generation.
    dec_bind dec_u64 (\<lambda>evidence_at. dec_bind dec_boolean (\<lambda>evidence_fresh.
    dec_bind dec_boolean (\<lambda>available. dec_bind dec_boolean (\<lambda>exclusive.
    dec_bind dec_boolean (\<lambda>externally_lifecycle_managed.
    dec_bind dec_str (\<lambda>external_partition_ref. dec_bind dec_id (\<lambda>assigned_to.
    dec_bind dec_id (\<lambda>active_assignment. dec_bind dec_gen (\<lambda>assigned_generation.
    dec_return
      \<lparr> bk_id = id', bk_generation = generation', bk_physical = physical,
        bk_physical_generation = physical_generation, bk_klass = klass, bk_provenance = provenance,
        bk_label = label, bk_mechanism = mechanism, bk_multiplexing = multiplexing,
        bk_isolation_class = isolation_class, bk_isolation = isolation, bk_capabilities = capabilities,
        bk_capacity_bytes = capacity_bytes, bk_compute_units = compute_units,
        bk_capability_rank = capability_rank, bk_evidence = evidence,
        bk_evidence_generation = evidence_generation, bk_evidence_at = evidence_at,
        bk_evidence_fresh = evidence_fresh, bk_available = available, bk_exclusive = exclusive,
        bk_externally_lifecycle_managed = externally_lifecycle_managed,
        bk_external_partition_ref = external_partition_ref, bk_assigned_to = assigned_to,
        bk_active_assignment = active_assignment, bk_assigned_generation = assigned_generation \<rparr>))))))))))))))))))))))))))"

definition backing_fits :: "decoder \<Rightarrow> backing_record \<Rightarrow> bool" where
  "backing_fits d r \<longleftrightarrow>
    str_fits d (bk_label r) \<and> str_fits d (bk_mechanism r) \<and>
    isolation_profile_fits d (bk_isolation r) \<and> capability_surface_fits d (bk_capabilities r) \<and>
    str_fits d (bk_external_partition_ref r)"

interpretation backing_codec: record_codec encode_backing decode_backing backing_fits
proof (rule record_codec_of_reads)
  fix d and r :: backing_record
  assume f: "backing_fits d r"
  show "reads decode_backing d (encode_backing r) r"
    unfolding decode_backing_def encode_backing_def
    by ((rule reads_bind, (rule field_reads; simp add: f [unfolded backing_fits_def]))+, rule reads_last,
        (rule field_reads; simp add: f [unfolded backing_fits_def]), rule reads_return, simp)
qed (simp_all add: backing_fits_def encode_backing_def)

lemmas [field_reads] = backing_codec.reads_value
lemmas [simp] = backing_codec.fits_skip backing_codec.fits_move

definition encode_backing_history :: "backing_history \<Rightarrow> bytes" where
  "encode_backing_history r =
    enc_id (bh_assignment r) @ enc_id (bh_backing r) @ enc_gen (bh_backing_generation r) @
    enc_id (bh_physical r) @ enc_gen (bh_physical_generation r) @ enc_enum backing_class_value (bh_klass r) @
    enc_enum multiplexing_value (bh_multiplexing r) @ enc_u64 (bh_from r) @ enc_u64 (bh_to r) @
    enc_boolean (bh_current r) @ enc_str (bh_reason r)"

definition decode_backing_history :: "backing_history dec" where
  "decode_backing_history =
    dec_bind dec_id (\<lambda>assignment. dec_bind dec_id (\<lambda>backing.
    dec_bind dec_gen (\<lambda>backing_generation. dec_bind dec_id (\<lambda>physical.
    dec_bind dec_gen (\<lambda>physical_generation.
    dec_bind (dec_enum SC_CorruptState backing_class_table) (\<lambda>klass.
    dec_bind (dec_enum SC_CorruptState multiplexing_table) (\<lambda>multiplexing.
    dec_bind dec_u64 (\<lambda>since. dec_bind dec_u64 (\<lambda>until. dec_bind dec_boolean (\<lambda>current.
    dec_bind dec_str (\<lambda>reason.
    dec_return
      \<lparr> bh_assignment = assignment, bh_backing = backing, bh_backing_generation = backing_generation,
        bh_physical = physical, bh_physical_generation = physical_generation, bh_klass = klass,
        bh_multiplexing = multiplexing, bh_from = since, bh_to = until, bh_current = current, bh_reason = reason \<rparr>)))))))))))"

definition backing_history_fits :: "decoder \<Rightarrow> backing_history \<Rightarrow> bool" where
  "backing_history_fits d r \<longleftrightarrow>
    str_fits d (bh_reason r)"

interpretation backing_history_codec: record_codec encode_backing_history decode_backing_history backing_history_fits
proof (rule record_codec_of_reads)
  fix d and r :: backing_history
  assume f: "backing_history_fits d r"
  show "reads decode_backing_history d (encode_backing_history r) r"
    unfolding decode_backing_history_def encode_backing_history_def
    by ((rule reads_bind, (rule field_reads; simp add: f [unfolded backing_history_fits_def]))+, rule reads_last,
        (rule field_reads; simp add: f [unfolded backing_history_fits_def]), rule reads_return, simp)
qed (simp_all add: backing_history_fits_def encode_backing_history_def)

lemmas [field_reads] = backing_history_codec.reads_value
lemmas [simp] = backing_history_codec.fits_skip backing_history_codec.fits_move

lemmas [field_reads] = backing_history_codec.reads_list
lemmas [simp] = backing_history_codec.list_fits_skip backing_history_codec.list_fits_move

definition encode_virtual :: "virtual_record \<Rightarrow> bytes" where
  "encode_virtual r =
    enc_id (va_id r) @ enc_gen (va_generation r) @ enc_str (va_name r) @ enc_id (va_owner r) @
    enc_gen (va_owner_generation r) @ enc_enum lifecycle_value (va_state r) @ enc_gen (va_state_generation r) @
    enc_str (va_state_reason r) @ encode_contract (va_contract r) @ encode_projection (va_projection r) @
    enc_id (va_assignment r) @ enc_id (va_backing r) @ enc_gen (va_backing_generation r) @
    enc_id (va_physical r) @ enc_gen (va_physical_generation r) @
    enc_enum backing_class_value (va_backing_class r) @ enc_enum multiplexing_value (va_multiplexing r) @
    enc_enum isolation_class_value (va_isolation_class r) @ encode_isolation_profile (va_isolation r) @
    enc_gen (va_policy_generation r) @ enc_gen (va_epoch r) @ enc_id (va_migration r) @
    enc_gen (va_migration_generation r) @ enc_u64 (va_created_at r) @ enc_u64 (va_updated_at r) @
    enc_u64 (va_retired_at r) @ enc_str (va_retirement_reason r) @ enc_u64 (va_allocated_bytes r) @
    enc_u64 (va_peak_allocated_bytes r) @ enc_u64 (va_allocation_operations r) @
    enc_u64 (va_kernel_operations r) @ enc_u32 (va_active_attachments r) @ enc_list enc_id (va_leases r) @
    enc_list encode_backing_history (va_backing_history r)"

definition decode_virtual :: "virtual_record dec" where
  "decode_virtual =
    dec_bind dec_id (\<lambda>id'. dec_bind dec_gen (\<lambda>generation'. dec_bind dec_str (\<lambda>label.
    dec_bind dec_id (\<lambda>owner. dec_bind dec_gen (\<lambda>owner_generation.
    dec_bind (dec_enum SC_CorruptState lifecycle_table) (\<lambda>state.
    dec_bind dec_gen (\<lambda>state_generation. dec_bind dec_str (\<lambda>state_reason.
    dec_bind decode_contract (\<lambda>contract. dec_bind decode_projection (\<lambda>projection.
    dec_bind dec_id (\<lambda>assignment. dec_bind dec_id (\<lambda>backing.
    dec_bind dec_gen (\<lambda>backing_generation. dec_bind dec_id (\<lambda>physical.
    dec_bind dec_gen (\<lambda>physical_generation.
    dec_bind (dec_enum SC_CorruptState backing_class_table) (\<lambda>backing_class.
    dec_bind (dec_enum SC_CorruptState multiplexing_table) (\<lambda>multiplexing.
    dec_bind (dec_enum SC_CorruptState isolation_class_table) (\<lambda>isolation_class.
    dec_bind decode_isolation_profile (\<lambda>isolation. dec_bind dec_gen (\<lambda>policy_generation.
    dec_bind dec_gen (\<lambda>epoch. dec_bind dec_id (\<lambda>migration.
    dec_bind dec_gen (\<lambda>migration_generation. dec_bind dec_u64 (\<lambda>created_at.
    dec_bind dec_u64 (\<lambda>updated_at. dec_bind dec_u64 (\<lambda>retired_at.
    dec_bind dec_str (\<lambda>retirement_reason. dec_bind dec_u64 (\<lambda>allocated_bytes.
    dec_bind dec_u64 (\<lambda>peak_allocated_bytes. dec_bind dec_u64 (\<lambda>allocation_operations.
    dec_bind dec_u64 (\<lambda>kernel_operations. dec_bind dec_u32 (\<lambda>active_attachments.
    dec_bind dec_sorted_ids (\<lambda>leases.
    dec_bind (decode_list decode_backing_history kMaxStoredItems) (\<lambda>backing_history.
    dec_return
      \<lparr> va_id = id', va_generation = generation', va_name = label, va_owner = owner,
        va_owner_generation = owner_generation, va_state = state, va_state_generation = state_generation,
        va_state_reason = state_reason, va_contract = contract, va_projection = projection,
        va_assignment = assignment, va_backing = backing, va_backing_generation = backing_generation,
        va_physical = physical, va_physical_generation = physical_generation, va_backing_class = backing_class,
        va_multiplexing = multiplexing, va_isolation_class = isolation_class, va_isolation = isolation,
        va_policy_generation = policy_generation, va_epoch = epoch, va_migration = migration,
        va_migration_generation = migration_generation, va_created_at = created_at, va_updated_at = updated_at,
        va_retired_at = retired_at, va_retirement_reason = retirement_reason,
        va_allocated_bytes = allocated_bytes, va_peak_allocated_bytes = peak_allocated_bytes,
        va_allocation_operations = allocation_operations, va_kernel_operations = kernel_operations,
        va_active_attachments = active_attachments, va_leases = leases, va_backing_history = backing_history \<rparr>))))))))))))))))))))))))))))))))))"

definition virtual_fits :: "decoder \<Rightarrow> virtual_record \<Rightarrow> bool" where
  "virtual_fits d r \<longleftrightarrow>
    str_fits d (va_name r) \<and> str_fits d (va_state_reason r) \<and> contract_fits d (va_contract r) \<and>
    projection_fits d (va_projection r) \<and> isolation_profile_fits d (va_isolation r) \<and>
    str_fits d (va_retirement_reason r) \<and> sorted_ids_fit d (va_leases r) \<and>
    list_fits backing_history_fits kMaxStoredItems d (va_backing_history r)"

interpretation virtual_codec: record_codec encode_virtual decode_virtual virtual_fits
proof (rule record_codec_of_reads)
  fix d and r :: virtual_record
  assume f: "virtual_fits d r"
  show "reads decode_virtual d (encode_virtual r) r"
    unfolding decode_virtual_def encode_virtual_def
    by ((rule reads_bind, (rule field_reads; simp add: f [unfolded virtual_fits_def]))+, rule reads_last,
        (rule field_reads; simp add: f [unfolded virtual_fits_def]), rule reads_return, simp)
qed (simp_all add: virtual_fits_def encode_virtual_def)

lemmas [field_reads] = virtual_codec.reads_value
lemmas [simp] = virtual_codec.fits_skip virtual_codec.fits_move

definition encode_lease :: "lease_record \<Rightarrow> bytes" where
  "encode_lease r =
    enc_id (ls_id r) @ enc_gen (ls_generation r) @ enc_id (ls_virtual_id r) @
    enc_gen (ls_virtual_generation r) @ enc_id (ls_tenant r) @ enc_gen (ls_tenant_generation r) @
    enc_gen (ls_backing_generation r) @ enc_gen (ls_physical_generation r) @ enc_gen (ls_policy_generation r) @
    enc_gen (ls_epoch r) @ enc_id (ls_grant_request r) @ enc_enum lease_state_value (ls_state r) @
    enc_u64 (ls_granted_at r) @ enc_u64 (ls_renewed_at r) @ enc_u64 (ls_expires_at r) @
    enc_u64 (ls_revoked_at r) @ enc_u32 (ls_renewals r) @ enc_str (ls_reason r)"

definition decode_lease :: "lease_record dec" where
  "decode_lease =
    dec_bind dec_id (\<lambda>id'. dec_bind dec_gen (\<lambda>generation'. dec_bind dec_id (\<lambda>virtual_id.
    dec_bind dec_gen (\<lambda>virtual_generation. dec_bind dec_id (\<lambda>tenant.
    dec_bind dec_gen (\<lambda>tenant_generation. dec_bind dec_gen (\<lambda>backing_generation.
    dec_bind dec_gen (\<lambda>physical_generation. dec_bind dec_gen (\<lambda>policy_generation.
    dec_bind dec_gen (\<lambda>epoch. dec_bind dec_id (\<lambda>grant_request.
    dec_bind (dec_enum SC_CorruptState lease_state_table) (\<lambda>state.
    dec_bind dec_u64 (\<lambda>granted_at. dec_bind dec_u64 (\<lambda>renewed_at.
    dec_bind dec_u64 (\<lambda>expires_at. dec_bind dec_u64 (\<lambda>revoked_at.
    dec_bind dec_u32 (\<lambda>renewals. dec_bind dec_str (\<lambda>reason.
    dec_return
      \<lparr> ls_id = id', ls_generation = generation', ls_virtual_id = virtual_id,
        ls_virtual_generation = virtual_generation, ls_tenant = tenant,
        ls_tenant_generation = tenant_generation, ls_backing_generation = backing_generation,
        ls_physical_generation = physical_generation, ls_policy_generation = policy_generation,
        ls_epoch = epoch, ls_grant_request = grant_request, ls_state = state, ls_granted_at = granted_at,
        ls_renewed_at = renewed_at, ls_expires_at = expires_at, ls_revoked_at = revoked_at,
        ls_renewals = renewals, ls_reason = reason \<rparr>))))))))))))))))))"

definition lease_fits :: "decoder \<Rightarrow> lease_record \<Rightarrow> bool" where
  "lease_fits d r \<longleftrightarrow>
    str_fits d (ls_reason r)"

interpretation lease_codec: record_codec encode_lease decode_lease lease_fits
proof (rule record_codec_of_reads)
  fix d and r :: lease_record
  assume f: "lease_fits d r"
  show "reads decode_lease d (encode_lease r) r"
    unfolding decode_lease_def encode_lease_def
    by ((rule reads_bind, (rule field_reads; simp add: f [unfolded lease_fits_def]))+, rule reads_last,
        (rule field_reads; simp add: f [unfolded lease_fits_def]), rule reads_return, simp)
qed (simp_all add: lease_fits_def encode_lease_def)

lemmas [field_reads] = lease_codec.reads_value
lemmas [simp] = lease_codec.fits_skip lease_codec.fits_move

definition encode_assignment :: "backing_assignment \<Rightarrow> bytes" where
  "encode_assignment r =
    enc_id (as_id r) @ enc_id (as_virtual_id r) @ enc_gen (as_virtual_generation r) @ enc_id (as_backing r) @
    enc_gen (as_backing_generation r) @ enc_id (as_physical r) @ enc_gen (as_physical_generation r) @
    enc_id (as_tenant r) @ enc_gen (as_tenant_generation r) @ enc_gen (as_policy_generation r) @
    enc_gen (as_contract_generation r) @ enc_gen (as_projection_generation r) @ enc_gen (as_epoch r) @
    enc_enum assignment_state_value (as_state r) @ enc_boolean (as_authoritative r) @
    enc_u64 (as_proposed_at r) @ enc_u64 (as_committed_at r) @ enc_u64 (as_revoked_at r) @ enc_str (as_reason r)"

definition decode_assignment :: "backing_assignment dec" where
  "decode_assignment =
    dec_bind dec_id (\<lambda>id'. dec_bind dec_id (\<lambda>virtual_id.
    dec_bind dec_gen (\<lambda>virtual_generation. dec_bind dec_id (\<lambda>backing.
    dec_bind dec_gen (\<lambda>backing_generation. dec_bind dec_id (\<lambda>physical.
    dec_bind dec_gen (\<lambda>physical_generation. dec_bind dec_id (\<lambda>tenant.
    dec_bind dec_gen (\<lambda>tenant_generation. dec_bind dec_gen (\<lambda>policy_generation.
    dec_bind dec_gen (\<lambda>contract_generation. dec_bind dec_gen (\<lambda>projection_generation.
    dec_bind dec_gen (\<lambda>epoch.
    dec_bind (dec_enum SC_CorruptState assignment_state_table) (\<lambda>state.
    dec_bind dec_boolean (\<lambda>authoritative. dec_bind dec_u64 (\<lambda>proposed_at.
    dec_bind dec_u64 (\<lambda>committed_at. dec_bind dec_u64 (\<lambda>revoked_at.
    dec_bind dec_str (\<lambda>reason.
    dec_return
      \<lparr> as_id = id', as_virtual_id = virtual_id, as_virtual_generation = virtual_generation,
        as_backing = backing, as_backing_generation = backing_generation, as_physical = physical,
        as_physical_generation = physical_generation, as_tenant = tenant,
        as_tenant_generation = tenant_generation, as_policy_generation = policy_generation,
        as_contract_generation = contract_generation, as_projection_generation = projection_generation,
        as_epoch = epoch, as_state = state, as_authoritative = authoritative, as_proposed_at = proposed_at,
        as_committed_at = committed_at, as_revoked_at = revoked_at, as_reason = reason \<rparr>)))))))))))))))))))"

definition assignment_fits :: "decoder \<Rightarrow> backing_assignment \<Rightarrow> bool" where
  "assignment_fits d r \<longleftrightarrow>
    str_fits d (as_reason r)"

interpretation assignment_codec: record_codec encode_assignment decode_assignment assignment_fits
proof (rule record_codec_of_reads)
  fix d and r :: backing_assignment
  assume f: "assignment_fits d r"
  show "reads decode_assignment d (encode_assignment r) r"
    unfolding decode_assignment_def encode_assignment_def
    by ((rule reads_bind, (rule field_reads; simp add: f [unfolded assignment_fits_def]))+, rule reads_last,
        (rule field_reads; simp add: f [unfolded assignment_fits_def]), rule reads_return, simp)
qed (simp_all add: assignment_fits_def encode_assignment_def)

lemmas [field_reads] = assignment_codec.reads_value
lemmas [simp] = assignment_codec.fits_skip assignment_codec.fits_move

definition encode_migration :: "migration_record \<Rightarrow> bytes" where
  "encode_migration r =
    encode_migration_plan (mg_plan r) @ enc_enum migration_state_value (mg_state r) @
    enc_boolean (mg_source_authoritative r) @ enc_boolean (mg_destination_authoritative r) @
    enc_boolean (mg_state_transfer_performed r) @ enc_id (mg_source_assignment r) @
    enc_id (mg_destination_assignment r) @ enc_gen (mg_destination_projection_generation r) @
    enc_u64 (mg_planned_at r) @ enc_u64 (mg_prepared_at r) @ enc_u64 (mg_committed_at r) @
    enc_u64 (mg_completed_at r) @ enc_str (mg_note r)"

definition decode_migration :: "migration_record dec" where
  "decode_migration =
    dec_bind decode_migration_plan (\<lambda>plan.
    dec_bind (dec_enum SC_CorruptState migration_state_table) (\<lambda>state.
    dec_bind dec_boolean (\<lambda>source_authoritative.
    dec_bind dec_boolean (\<lambda>destination_authoritative.
    dec_bind dec_boolean (\<lambda>state_transfer_performed. dec_bind dec_id (\<lambda>source_assignment.
    dec_bind dec_id (\<lambda>destination_assignment.
    dec_bind dec_gen (\<lambda>destination_projection_generation. dec_bind dec_u64 (\<lambda>planned_at.
    dec_bind dec_u64 (\<lambda>prepared_at. dec_bind dec_u64 (\<lambda>committed_at.
    dec_bind dec_u64 (\<lambda>completed_at. dec_bind dec_str (\<lambda>note.
    dec_return
      \<lparr> mg_plan = plan, mg_state = state, mg_source_authoritative = source_authoritative,
        mg_destination_authoritative = destination_authoritative,
        mg_state_transfer_performed = state_transfer_performed, mg_source_assignment = source_assignment,
        mg_destination_assignment = destination_assignment,
        mg_destination_projection_generation = destination_projection_generation, mg_planned_at = planned_at,
        mg_prepared_at = prepared_at, mg_committed_at = committed_at, mg_completed_at = completed_at,
        mg_note = note \<rparr>)))))))))))))"

definition migration_fits :: "decoder \<Rightarrow> migration_record \<Rightarrow> bool" where
  "migration_fits d r \<longleftrightarrow>
    migration_plan_fits d (mg_plan r) \<and> str_fits d (mg_note r)"

interpretation migration_codec: record_codec encode_migration decode_migration migration_fits
proof (rule record_codec_of_reads)
  fix d and r :: migration_record
  assume f: "migration_fits d r"
  show "reads decode_migration d (encode_migration r) r"
    unfolding decode_migration_def encode_migration_def
    by ((rule reads_bind, (rule field_reads; simp add: f [unfolded migration_fits_def]))+, rule reads_last,
        (rule field_reads; simp add: f [unfolded migration_fits_def]), rule reads_return, simp)
qed (simp_all add: migration_fits_def encode_migration_def)

lemmas [field_reads] = migration_codec.reads_value
lemmas [simp] = migration_codec.fits_skip migration_codec.fits_move

definition encode_evidence :: "evidence_record \<Rightarrow> bytes" where
  "encode_evidence r =
    enc_id (ev_id r) @ enc_gen (ev_generation r) @ enc_enum evidence_kind_value (ev_kind r) @
    enc_enum provenance_value (ev_provenance r) @ enc_id (ev_agent r) @ enc_id (ev_boot r) @
    enc_id (ev_physical r) @ enc_gen (ev_physical_generation r) @ enc_id (ev_backing r) @
    enc_gen (ev_backing_generation r) @ enc_u64 (ev_produced_at r) @ enc_u64 (ev_payload_fingerprint r) @
    enc_str (ev_mechanism r) @ enc_str (ev_detail r)"

definition decode_evidence :: "evidence_record dec" where
  "decode_evidence =
    dec_bind dec_id (\<lambda>id'. dec_bind dec_gen (\<lambda>generation'.
    dec_bind (dec_enum SC_CorruptState evidence_kind_table) (\<lambda>kind.
    dec_bind (dec_enum SC_CorruptState provenance_table) (\<lambda>provenance. dec_bind dec_id (\<lambda>agent.
    dec_bind dec_id (\<lambda>boot. dec_bind dec_id (\<lambda>physical.
    dec_bind dec_gen (\<lambda>physical_generation. dec_bind dec_id (\<lambda>backing.
    dec_bind dec_gen (\<lambda>backing_generation. dec_bind dec_u64 (\<lambda>produced_at.
    dec_bind dec_u64 (\<lambda>payload_fingerprint. dec_bind dec_str (\<lambda>mechanism.
    dec_bind dec_str (\<lambda>detail.
    dec_return
      \<lparr> ev_id = id', ev_generation = generation', ev_kind = kind, ev_provenance = provenance, ev_agent = agent,
        ev_boot = boot, ev_physical = physical, ev_physical_generation = physical_generation,
        ev_backing = backing, ev_backing_generation = backing_generation, ev_produced_at = produced_at,
        ev_payload_fingerprint = payload_fingerprint, ev_mechanism = mechanism, ev_detail = detail \<rparr>))))))))))))))"

definition evidence_fits :: "decoder \<Rightarrow> evidence_record \<Rightarrow> bool" where
  "evidence_fits d r \<longleftrightarrow>
    str_fits d (ev_mechanism r) \<and> str_fits d (ev_detail r)"

interpretation evidence_codec: record_codec encode_evidence decode_evidence evidence_fits
proof (rule record_codec_of_reads)
  fix d and r :: evidence_record
  assume f: "evidence_fits d r"
  show "reads decode_evidence d (encode_evidence r) r"
    unfolding decode_evidence_def encode_evidence_def
    by ((rule reads_bind, (rule field_reads; simp add: f [unfolded evidence_fits_def]))+, rule reads_last,
        (rule field_reads; simp add: f [unfolded evidence_fits_def]), rule reads_return, simp)
qed (simp_all add: evidence_fits_def encode_evidence_def)

lemmas [field_reads] = evidence_codec.reads_value
lemmas [simp] = evidence_codec.fits_skip evidence_codec.fits_move

section \<open>Logs\<close>

record stored_audit =
  sa_id :: dec_id
  sa_at :: micros
  sa_kind :: audit_kind
  sa_operation :: string
  sa_outcome :: u32
  sa_detail :: string
  sa_epoch :: epoch
  sa_virtual_id :: va_id
  sa_virtual_generation :: va_gen
  sa_tenant :: tn_id
  sa_tenant_generation :: tn_gen
  sa_backing :: bk_id
  sa_backing_generation :: bk_gen
  sa_migration :: mg_id
  sa_migration_generation :: mg_gen

record stored_decision =
  sd_id :: dec_id
  sd_at :: micros
  sd_operation :: string
  sd_outcome :: u32
  sd_reason :: string
  sd_epoch :: epoch
  sd_virtual_id :: va_id
  sd_virtual_generation :: va_gen
  sd_tenant :: tn_id
  sd_tenant_generation :: tn_gen
  sd_backing :: bk_id
  sd_backing_generation :: bk_gen
  sd_physical :: pd_id
  sd_physical_generation :: pd_gen
  sd_lease :: ls_id
  sd_lease_generation :: ls_gen
  sd_policy_generation :: pol_gen
  sd_migration :: mg_id
  sd_migration_generation :: mg_gen
  sd_request :: rq_id

record stored_request =
  sr_request :: rq_id
  sr_session :: u64
  sr_operation :: string
  sr_outcome :: u32
  sr_at :: micros

text \<open>The outcome is read back without a range check: any number is accepted.\<close>

definition encode_audit :: "stored_audit \<Rightarrow> bytes" where
  "encode_audit r =
    enc_id (sa_id r) @ enc_u64 (sa_at r) @ enc_enum audit_kind_value (sa_kind r) @ enc_str (sa_operation r) @
    enc_u32 (sa_outcome r) @ enc_str (sa_detail r) @ enc_gen (sa_epoch r) @ enc_id (sa_virtual_id r) @
    enc_gen (sa_virtual_generation r) @ enc_id (sa_tenant r) @ enc_gen (sa_tenant_generation r) @
    enc_id (sa_backing r) @ enc_gen (sa_backing_generation r) @ enc_id (sa_migration r) @
    enc_gen (sa_migration_generation r)"

definition decode_audit :: "stored_audit dec" where
  "decode_audit =
    dec_bind dec_id (\<lambda>id'. dec_bind dec_u64 (\<lambda>at.
    dec_bind (dec_enum SC_CorruptState audit_kind_table) (\<lambda>kind. dec_bind dec_str (\<lambda>operation.
    dec_bind dec_u32 (\<lambda>outcome. dec_bind dec_str (\<lambda>detail. dec_bind dec_gen (\<lambda>epoch.
    dec_bind dec_id (\<lambda>virtual_id. dec_bind dec_gen (\<lambda>virtual_generation.
    dec_bind dec_id (\<lambda>tenant. dec_bind dec_gen (\<lambda>tenant_generation.
    dec_bind dec_id (\<lambda>backing. dec_bind dec_gen (\<lambda>backing_generation.
    dec_bind dec_id (\<lambda>migration. dec_bind dec_gen (\<lambda>migration_generation.
    dec_return
      \<lparr> sa_id = id', sa_at = at, sa_kind = kind, sa_operation = operation, sa_outcome = outcome,
        sa_detail = detail, sa_epoch = epoch, sa_virtual_id = virtual_id,
        sa_virtual_generation = virtual_generation, sa_tenant = tenant,
        sa_tenant_generation = tenant_generation, sa_backing = backing,
        sa_backing_generation = backing_generation, sa_migration = migration,
        sa_migration_generation = migration_generation \<rparr>)))))))))))))))"

definition audit_fits :: "decoder \<Rightarrow> stored_audit \<Rightarrow> bool" where
  "audit_fits d r \<longleftrightarrow>
    str_fits d (sa_operation r) \<and> str_fits d (sa_detail r)"

interpretation audit_codec: record_codec encode_audit decode_audit audit_fits
proof (rule record_codec_of_reads)
  fix d and r :: stored_audit
  assume f: "audit_fits d r"
  show "reads decode_audit d (encode_audit r) r"
    unfolding decode_audit_def encode_audit_def
    by ((rule reads_bind, (rule field_reads; simp add: f [unfolded audit_fits_def]))+, rule reads_last,
        (rule field_reads; simp add: f [unfolded audit_fits_def]), rule reads_return, simp)
qed (simp_all add: audit_fits_def encode_audit_def)

lemmas [field_reads] = audit_codec.reads_value
lemmas [simp] = audit_codec.fits_skip audit_codec.fits_move

definition encode_decision :: "stored_decision \<Rightarrow> bytes" where
  "encode_decision r =
    enc_id (sd_id r) @ enc_u64 (sd_at r) @ enc_str (sd_operation r) @ enc_u32 (sd_outcome r) @
    enc_str (sd_reason r) @ enc_gen (sd_epoch r) @ enc_id (sd_virtual_id r) @
    enc_gen (sd_virtual_generation r) @ enc_id (sd_tenant r) @ enc_gen (sd_tenant_generation r) @
    enc_id (sd_backing r) @ enc_gen (sd_backing_generation r) @ enc_id (sd_physical r) @
    enc_gen (sd_physical_generation r) @ enc_id (sd_lease r) @ enc_gen (sd_lease_generation r) @
    enc_gen (sd_policy_generation r) @ enc_id (sd_migration r) @ enc_gen (sd_migration_generation r) @
    enc_id (sd_request r)"

definition decode_decision :: "stored_decision dec" where
  "decode_decision =
    dec_bind dec_id (\<lambda>id'. dec_bind dec_u64 (\<lambda>at. dec_bind dec_str (\<lambda>operation.
    dec_bind dec_u32 (\<lambda>outcome. dec_bind dec_str (\<lambda>reason. dec_bind dec_gen (\<lambda>epoch.
    dec_bind dec_id (\<lambda>virtual_id. dec_bind dec_gen (\<lambda>virtual_generation.
    dec_bind dec_id (\<lambda>tenant. dec_bind dec_gen (\<lambda>tenant_generation.
    dec_bind dec_id (\<lambda>backing. dec_bind dec_gen (\<lambda>backing_generation.
    dec_bind dec_id (\<lambda>physical. dec_bind dec_gen (\<lambda>physical_generation.
    dec_bind dec_id (\<lambda>lease. dec_bind dec_gen (\<lambda>lease_generation.
    dec_bind dec_gen (\<lambda>policy_generation. dec_bind dec_id (\<lambda>migration.
    dec_bind dec_gen (\<lambda>migration_generation. dec_bind dec_id (\<lambda>request.
    dec_return
      \<lparr> sd_id = id', sd_at = at, sd_operation = operation, sd_outcome = outcome, sd_reason = reason,
        sd_epoch = epoch, sd_virtual_id = virtual_id, sd_virtual_generation = virtual_generation,
        sd_tenant = tenant, sd_tenant_generation = tenant_generation, sd_backing = backing,
        sd_backing_generation = backing_generation, sd_physical = physical,
        sd_physical_generation = physical_generation, sd_lease = lease, sd_lease_generation = lease_generation,
        sd_policy_generation = policy_generation, sd_migration = migration,
        sd_migration_generation = migration_generation, sd_request = request \<rparr>))))))))))))))))))))"

definition decision_fits :: "decoder \<Rightarrow> stored_decision \<Rightarrow> bool" where
  "decision_fits d r \<longleftrightarrow>
    str_fits d (sd_operation r) \<and> str_fits d (sd_reason r)"

interpretation decision_codec: record_codec encode_decision decode_decision decision_fits
proof (rule record_codec_of_reads)
  fix d and r :: stored_decision
  assume f: "decision_fits d r"
  show "reads decode_decision d (encode_decision r) r"
    unfolding decode_decision_def encode_decision_def
    by ((rule reads_bind, (rule field_reads; simp add: f [unfolded decision_fits_def]))+, rule reads_last,
        (rule field_reads; simp add: f [unfolded decision_fits_def]), rule reads_return, simp)
qed (simp_all add: decision_fits_def encode_decision_def)

lemmas [field_reads] = decision_codec.reads_value
lemmas [simp] = decision_codec.fits_skip decision_codec.fits_move

definition encode_request_outcome :: "stored_request \<Rightarrow> bytes" where
  "encode_request_outcome r =
    enc_id (sr_request r) @ enc_u64 (sr_session r) @ enc_str (sr_operation r) @ enc_u32 (sr_outcome r) @
    enc_u64 (sr_at r)"

definition decode_request_outcome :: "stored_request dec" where
  "decode_request_outcome =
    dec_bind dec_id (\<lambda>request. dec_bind dec_u64 (\<lambda>conn. dec_bind dec_str (\<lambda>operation.
    dec_bind dec_u32 (\<lambda>outcome. dec_bind dec_u64 (\<lambda>at.
    dec_return
      \<lparr> sr_request = request, sr_session = conn, sr_operation = operation, sr_outcome = outcome, sr_at = at \<rparr>)))))"

definition request_outcome_fits :: "decoder \<Rightarrow> stored_request \<Rightarrow> bool" where
  "request_outcome_fits d r \<longleftrightarrow>
    str_fits d (sr_operation r)"

interpretation request_outcome_codec: record_codec encode_request_outcome decode_request_outcome request_outcome_fits
proof (rule record_codec_of_reads)
  fix d and r :: stored_request
  assume f: "request_outcome_fits d r"
  show "reads decode_request_outcome d (encode_request_outcome r) r"
    unfolding decode_request_outcome_def encode_request_outcome_def
    by ((rule reads_bind, (rule field_reads; simp add: f [unfolded request_outcome_fits_def]))+, rule reads_last,
        (rule field_reads; simp add: f [unfolded request_outcome_fits_def]), rule reads_return, simp)
qed (simp_all add: request_outcome_fits_def encode_request_outcome_def)

lemmas [field_reads] = request_outcome_codec.reads_value
lemmas [simp] = request_outcome_codec.fits_skip request_outcome_codec.fits_move

section \<open>Snapshots\<close>

record stored_state =
  ss_state :: vstate
  ss_audit :: "stored_audit list"
  ss_decisions :: "stored_decision list"
  ss_requests :: "stored_request list"

definition encode_snapshot :: "stored_state \<Rightarrow> bytes" where
  "encode_snapshot ss = (let s = ss_state ss in
    encode_header s @
    enc_list encode_tenant (om_values (st_tenants s)) @
    enc_list encode_physical (om_values (st_physical s)) @
    enc_list encode_backing (om_values (st_backings s)) @
    enc_list encode_virtual (om_values (st_virtuals s)) @
    enc_list encode_lease (om_values (st_leases s)) @
    enc_list encode_assignment (om_values (st_assignments s)) @
    enc_list encode_migration (om_values (st_migrations s)) @
    enc_list encode_evidence (om_values (st_evidence s)) @
    enc_list encode_audit (ss_audit ss) @
    enc_list encode_decision (ss_decisions ss) @
    enc_list encode_request_outcome (ss_requests ss))"

text \<open>\<open>std::map::emplace\<close> does nothing when the key is taken.\<close>

definition om_emplace :: "'k::linorder \<Rightarrow> 'v \<Rightarrow> ('k, 'v) omap \<Rightarrow> ('k, 'v) omap" where
  "om_emplace k v m = (if om_contains m k then m else om_put k v m)"

definition emplace_all :: "('v \<Rightarrow> 'k::linorder) \<Rightarrow> 'v list \<Rightarrow> ('k, 'v) omap" where
  "emplace_all key rs = fold (\<lambda>r. om_emplace (key r) r) rs om_empty"

definition snapshot_limits :: decode_limits where
  "snapshot_limits = \<lparr> max_string = 64 * 1024, max_bytes = 1024 * 1024, max_items = kMaxStoredItems, max_depth = 32 \<rparr>"

definition decode_stored_state :: "stored_state dec" where
  "decode_stored_state =
    dec_bind decode_header (\<lambda>s.
    dec_bind (decode_list decode_tenant kMaxStoredItems) (\<lambda>tenants.
    dec_bind (decode_list decode_physical kMaxStoredItems) (\<lambda>physical.
    dec_bind (decode_list decode_backing kMaxStoredItems) (\<lambda>backings.
    dec_bind (decode_list decode_virtual kMaxStoredItems) (\<lambda>virtuals.
    dec_bind (decode_list decode_lease kMaxStoredItems) (\<lambda>leases.
    dec_bind (decode_list decode_assignment kMaxStoredItems) (\<lambda>assignments.
    dec_bind (decode_list decode_migration kMaxStoredItems) (\<lambda>migrations.
    dec_bind (decode_list decode_evidence kMaxStoredItems) (\<lambda>evidence.
    dec_bind (decode_list decode_audit kMaxStoredItems) (\<lambda>audit.
    dec_bind (decode_list decode_decision kMaxStoredItems) (\<lambda>decisions.
    dec_bind (decode_list decode_request_outcome kMaxStoredItems) (\<lambda>requests.
    dec_return
      \<lparr> ss_state = s\<lparr> st_tenants := emplace_all tn_id tenants, st_physical := emplace_all pd_id physical,
          st_backings := emplace_all bk_id backings, st_virtuals := emplace_all va_id virtuals,
          st_leases := emplace_all ls_id leases, st_assignments := emplace_all as_id assignments,
          st_migrations := emplace_all (\<lambda>m. mp_id (mg_plan m)) migrations, st_evidence := emplace_all ev_id evidence \<rparr>,
        ss_audit = audit, ss_decisions = decisions, ss_requests = requests \<rparr>))))))))))))"

definition decode_snapshot :: "bytes \<Rightarrow> stored_state result" where
  "decode_snapshot bs =
    (case decode_stored_state (decoder_of bs snapshot_limits) of Inl e \<Rightarrow> Inl e
     | Inr (ss, d) \<Rightarrow> if require_end d \<noteq> SC_Ok then Inl (require_end d) else Inr ss)"

definition state_fingerprint :: "stored_state \<Rightarrow> u64" where
  "state_fingerprint ss = fnv1a64 (encode_snapshot ss)"

text \<open>The sizes a snapshot may have to be read back: strings up to 64 KiB, tables up to \<open>2^22\<close> entries, sorted
  identity lists.\<close>

definition stored_state_fits :: "decoder \<Rightarrow> stored_state \<Rightarrow> bool" where
  "stored_state_fits d ss \<longleftrightarrow> (let s = ss_state ss in
    policy_fits d (st_policy s) \<and>
    list_fits tenant_fits kMaxStoredItems d (om_values (st_tenants s)) \<and>
    list_fits physical_fits kMaxStoredItems d (om_values (st_physical s)) \<and>
    list_fits backing_fits kMaxStoredItems d (om_values (st_backings s)) \<and>
    list_fits virtual_fits kMaxStoredItems d (om_values (st_virtuals s)) \<and>
    list_fits lease_fits kMaxStoredItems d (om_values (st_leases s)) \<and>
    list_fits assignment_fits kMaxStoredItems d (om_values (st_assignments s)) \<and>
    list_fits migration_fits kMaxStoredItems d (om_values (st_migrations s)) \<and>
    list_fits evidence_fits kMaxStoredItems d (om_values (st_evidence s)) \<and>
    list_fits audit_fits kMaxStoredItems d (ss_audit ss) \<and>
    list_fits decision_fits kMaxStoredItems d (ss_decisions ss) \<and>
    list_fits request_outcome_fits kMaxStoredItems d (ss_requests ss))"

definition snapshot_fits :: "stored_state \<Rightarrow> bool" where
  "snapshot_fits ss \<longleftrightarrow> stored_state_fits (decoder_of [] snapshot_limits) ss"

text \<open>A stored state holds its logs beside the tables.\<close>

definition logs_beside :: "stored_state \<Rightarrow> bool" where
  "logs_beside ss \<longleftrightarrow> st_audit (ss_state ss) = [] \<and> st_decisions (ss_state ss) = [] \<and> st_requests (ss_state ss) = []"

subsection \<open>Tables are rebuilt\<close>

lemma om_put_last: "\<forall>j \<in> set (map fst m). j < k \<Longrightarrow> om_put k v m = m @ [(k, v)]"
  by (induction k v m rule: om_put.induct) (auto simp: not_less_iff_gr_or_eq)

lemma emplace_append:
  assumes "om_sorted (p @ q)" and "\<forall>(k, v) \<in> set q. key v = k"
  shows "fold (\<lambda>r. om_emplace (key r) r) (om_values q) p = p @ q"
  using assms
proof (induction q arbitrary: p)
  case (Cons e q)
  obtain k v where e: "e = (k, v)" by (cases e)
  have lt: "\<forall>j \<in> set (map fst p). j < k"
    using Cons.prems(1) by (auto simp: om_sorted_def sorted_wrt_append e)
  then have "om_find p k = None" by (auto simp: om_find_def map_of_eq_None_iff)
  then have "om_emplace (key v) v p = p @ [(k, v)]"
    using Cons.prems(2) lt by (simp add: om_emplace_def om_contains_def om_put_last e)
  then show ?case using Cons.IH [of "p @ [(k, v)]"] Cons.prems by (simp add: om_values_def e)
qed (simp add: om_values_def)

lemma emplace_all_values:
  assumes "om_sorted m" and "keyed key m"
  shows "emplace_all key (om_values m) = m"
proof -
  have "\<forall>(k, v) \<in> set m. key v = k" using assms by (auto simp: om_find_in keyed_def)
  from emplace_append [OF _ this, of "[]"] assms(1) show ?thesis by (simp add: emplace_all_def om_empty_def)
qed

subsection \<open>Round trip\<close>

lemmas table_reads = tenant_codec.reads_list physical_codec.reads_list backing_codec.reads_list
  virtual_codec.reads_list lease_codec.reads_list assignment_codec.reads_list migration_codec.reads_list
  evidence_codec.reads_list audit_codec.reads_list decision_codec.reads_list request_outcome_codec.reads_list

lemmas [simp] = tenant_codec.list_fits_skip physical_codec.list_fits_skip backing_codec.list_fits_skip
  virtual_codec.list_fits_skip lease_codec.list_fits_skip assignment_codec.list_fits_skip migration_codec.list_fits_skip
  evidence_codec.list_fits_skip audit_codec.list_fits_skip decision_codec.list_fits_skip request_outcome_codec.list_fits_skip

lemma stored_state_reads:
  assumes "well_formed (ss_state ss)" and "logs_beside ss" and "stored_state_fits d ss"
  shows "reads decode_stored_state d (encode_snapshot ss) ss"
proof -
  note f = assms(3) [unfolded stored_state_fits_def Let_def]
  have tables: "emplace_all tn_id (om_values (st_tenants (ss_state ss))) = st_tenants (ss_state ss)"
    "emplace_all pd_id (om_values (st_physical (ss_state ss))) = st_physical (ss_state ss)"
    "emplace_all bk_id (om_values (st_backings (ss_state ss))) = st_backings (ss_state ss)"
    "emplace_all va_id (om_values (st_virtuals (ss_state ss))) = st_virtuals (ss_state ss)"
    "emplace_all ls_id (om_values (st_leases (ss_state ss))) = st_leases (ss_state ss)"
    "emplace_all as_id (om_values (st_assignments (ss_state ss))) = st_assignments (ss_state ss)"
    "emplace_all (\<lambda>m. mp_id (mg_plan m)) (om_values (st_migrations (ss_state ss))) = st_migrations (ss_state ss)"
    "emplace_all ev_id (om_values (st_evidence (ss_state ss))) = st_evidence (ss_state ss)"
    using assms(1) by (simp_all add: emplace_all_values well_formed_def maps_sorted_def ids_match_def)
  show ?thesis
    unfolding decode_stored_state_def encode_snapshot_def Let_def
    by (rule reads_bind, rule header_reads, simp add: f, (rule reads_bind, (rule table_reads; simp add: f))+, rule reads_last,
        (rule table_reads; simp add: f), rule reads_return,
        use assms(2) in \<open>simp add: tables header_of_def initial_state_def logs_beside_def\<close>)
qed

lemma stored_state_fits_move:
  "stored_state_fits (d\<lparr> dec_data := bs, dec_pos := n \<rparr>) ss = stored_state_fits d ss"
  by (simp only: stored_state_fits_def policy_codec.fits_move tenant_codec.list_fits_move physical_codec.list_fits_move
      backing_codec.list_fits_move virtual_codec.list_fits_move lease_codec.list_fits_move
      assignment_codec.list_fits_move migration_codec.list_fits_move evidence_codec.list_fits_move
      audit_codec.list_fits_move decision_codec.list_fits_move request_outcome_codec.list_fits_move)

lemma snapshot_fits_bytes: "snapshot_fits ss \<Longrightarrow> stored_state_fits (decoder_of bs snapshot_limits) ss"
  using stored_state_fits_move [where d = "decoder_of [] snapshot_limits" and bs = bs and n = 0 and ss = ss]
  by (simp add: snapshot_fits_def decoder_of_def)

lemma decode_encoded:
  assumes "well_formed (ss_state ss)" and "logs_beside ss" and "snapshot_fits ss"
  shows "decode_snapshot (encode_snapshot ss @ extra) = (if extra = [] then Inr ss else Inl SC_ProtocolViolation)"
proof -
  let ?d = "decoder_of (encode_snapshot ss @ extra) snapshot_limits"
  have "starts ?d (encode_snapshot ss)" by (simp add: starts_def decoder_of_def)
  then have "decode_stored_state ?d = Inr (ss, skip (length (encode_snapshot ss)) ?d)"
    by (rule readsD [OF stored_state_reads [OF assms(1,2) snapshot_fits_bytes [OF assms(3)]]])
  then show ?thesis by (simp add: decode_snapshot_def require_end_def at_end_def decoder_of_def)
qed

text \<open>C21: what is saved is what is loaded: a well-formed state within the size limits decodes from its snapshot
  to itself, tables, header and logs, and a snapshot followed by anything else is refused.\<close>

theorem snapshot_roundtrip:
  assumes "well_formed (ss_state ss)" and "logs_beside ss" and "snapshot_fits ss"
  shows "decode_snapshot (encode_snapshot ss) = Inr ss \<and>
    (\<forall>b bs. decode_snapshot (encode_snapshot ss @ b # bs) = Inl SC_ProtocolViolation)"
  using decode_encoded [OF assms, of "[]"] decode_encoded [OF assms] by simp

end
