(* ===== verification/AV_Buffer.thy ===== *)
theory AV_Buffer
  imports AV_Codec
begin

text \<open>
  Reading fixed-width integers at an offset of a byte buffer (\<open>src/codec.cpp\<close>, \<open>get_u16\<close>, \<open>get_u32\<close>, \<open>get_u64\<close>), shared
  by the file headers of the durable store and the frame headers of the control protocol. A read past the end
  gives zero.

  Proved: what was put at an offset is read back there, and changing one byte of a word changes the word.
\<close>

definition get_word :: "nat \<Rightarrow> bytes \<Rightarrow> nat \<Rightarrow> 'w::len word" where
  "get_word n bs offset = (if offset + n > length bs then 0 else le_word (take n (drop offset bs)))"

definition get_u16 :: "bytes \<Rightarrow> nat \<Rightarrow> u16" where
  "get_u16 = get_word 2"

definition get_u32 :: "bytes \<Rightarrow> nat \<Rightarrow> u32" where
  "get_u32 = get_word 4"

definition get_u64 :: "bytes \<Rightarrow> nat \<Rightarrow> u64" where
  "get_u64 = get_word 8"

section \<open>Read back\<close>

lemma length_enc [simp]: "length (enc_u16 a) = 2" "length (enc_u32 b) = 4" "length (enc_u64 c) = 8"
  by (simp_all add: enc_u16_def enc_u32_def enc_u64_def)

lemma get_word_here: "LENGTH('w) \<le> 8 * n \<Longrightarrow> get_word n (le_bytes n v @ bs) 0 = (v :: 'w::len word)"
  by (simp add: get_word_def le_roundtrip)

lemma get_word_after: "length as \<le> offset \<Longrightarrow> get_word n (as @ bs) offset = get_word n bs (offset - length as)"
  by (auto simp: get_word_def le_iff_add)

lemma enc_u16_le: "enc_u16 v = le_bytes 2 v"
  by (simp add: enc_u16_def le_bytes_def numeral_2_eq_2)

lemma get_u16_at [simp]:
  "get_u16 (enc_u16 v @ bs) 0 = v" "length as \<le> offset \<Longrightarrow> get_u16 (as @ bs) offset = get_u16 bs (offset - length as)"
  by (simp_all add: get_u16_def enc_u16_le get_word_here get_word_after)

lemma get_u32_at [simp]:
  "get_u32 (enc_u32 v @ bs) 0 = v" "length as \<le> offset \<Longrightarrow> get_u32 (as @ bs) offset = get_u32 bs (offset - length as)"
  by (simp_all add: get_u32_def enc_u32_def get_word_here get_word_after)

lemma get_u64_at [simp]:
  "get_u64 (enc_u64 v @ bs) 0 = v" "length as \<le> offset \<Longrightarrow> get_u64 (as @ bs) offset = get_u64 bs (offset - length as)"
  by (simp_all add: get_u64_def enc_u64_def get_word_here get_word_after)

lemma get_u32_alone [simp]: "get_u32 (enc_u32 v) 0 = v"
  using get_u32_at(1) [of v "[]"] by simp

lemma get_u64_alone [simp]: "get_u64 (enc_u64 v) 0 = v"
  using get_u64_at(1) [of v "[]"] by simp

lemma get_word_take: "offset + n \<le> k \<Longrightarrow> offset + n \<le> length bs \<Longrightarrow> get_word n (take k bs) offset = get_word n bs offset"
  by (simp add: get_word_def min_def drop_take take_take)

lemma get_u32_take: "offset + 4 \<le> n \<Longrightarrow> offset + 4 \<le> length bs \<Longrightarrow> get_u32 (take n bs) offset = get_u32 bs offset"
  by (simp add: get_u32_def get_word_take)

section \<open>Damage\<close>

lemma bit_le_word:
  "bit (fold (\<lambda>i v. v OR push_bit (8 * i) (ucast (bs ! i :: u8))) [0..<k] 0 :: 'w::len word) j \<longleftrightarrow>
   j < 8 * k \<and> j < LENGTH('w) \<and> bit (bs ! (j div 8)) (j mod 8)"
proof (induction k)
  case (Suc k)
  let ?prev = "fold (\<lambda>i v. v OR push_bit (8 * i) (ucast (bs ! i))) [0..<k] 0 :: 'w word"
  have step: "bit (?prev OR push_bit (8 * k) (ucast (bs ! k))) j \<longleftrightarrow>
      bit ?prev j \<or> 8 * k \<le> j \<and> j < LENGTH('w) \<and> bit (bs ! k) (j - 8 * k)"
    by (auto simp: bit_simps)
  consider "j < 8 * k" | "8 * k \<le> j" "j < 8 * Suc k" | "8 * Suc k \<le> j" by linarith
  then show ?case
  proof cases
    case 2
    then obtain m where "j = 8 * k + m" "m < 8" by (auto simp: le_iff_add)
    then show ?thesis using step Suc by simp
  next
    case 3
    then have "\<not> bit (bs ! k) (j - 8 * k)" by (auto dest: bit_imp_le_length)
    then show ?thesis using 3 step Suc by simp
  qed (use step Suc in simp)
qed simp

lemma le_word_inj:
  assumes "le_word bs = (le_word cs :: 'w::len word)" and "length bs = length cs" and "8 * length bs \<le> LENGTH('w)"
  shows "bs = cs"
proof (rule nth_equalityI [OF assms(2)])
  fix i assume i: "i < length bs"
  show "bs ! i = cs ! i"
  proof (rule bit_word_eqI)
    fix m :: nat assume "m < LENGTH(8)"
    then have m: "8 * i + m < 8 * length bs" "(8 * i + m) div 8 = i" "(8 * i + m) mod 8 = m" using i by simp_all
    have "bit (le_word bs :: 'w word) (8 * i + m) = bit (le_word cs :: 'w word) (8 * i + m)" by (simp add: assms(1))
    then show "bit (bs ! i) m = bit (cs ! i) m" using m assms(2,3) by (simp add: le_word_def bit_le_word)
  qed
qed

lemma get_u32_update:
  assumes "offset \<le> i" "i < offset + 4" "offset + 4 \<le> length bs" "b \<noteq> bs ! i"
  shows "get_u32 (bs[i := b]) offset \<noteq> get_u32 bs offset"
proof
  assume "get_u32 (bs[i := b]) offset = get_u32 bs offset"
  then have "take 4 (drop offset (bs[i := b])) = take 4 (drop offset bs)"
    using assms(3) by (intro le_word_inj [where 'w = 32]) (simp_all add: get_u32_def get_word_def)
  then have "take 4 (drop offset (bs[i := b])) ! (i - offset) = take 4 (drop offset bs) ! (i - offset)" by simp
  then show False using assms by simp
qed

lemma get_u32_update_other: "i < offset \<or> offset + 4 \<le> i \<Longrightarrow> get_u32 (bs[i := b]) offset = get_u32 bs offset"
  by (auto simp: get_u32_def get_word_def drop_update_swap not_less)


end
