(* ===== verification/AV_Journal.thy ===== *)
theory AV_Journal
  imports AV_StateCodec AV_Buffer
begin

text \<open>
  The durable store (\<open>src/persistence.cpp\<close>, \<open>include/av/persistence.hpp\<close>): the change set encoded record by
  record, the framing of a journal record with length and CRC-32C, the snapshot file, the replay of the
  journal over the snapshot, and the file store with its operations.

  The disk is the contents of the two files. What the operating system answers to a write is an
  argument of the operations: a replacement of a file happens completely or not at all, an append may stop after any
  number of bytes.
\<close>

section \<open>Entities\<close>

datatype entity_kind =
    EN_Header
  | EN_Tenant
  | EN_Physical
  | EN_Backing
  | EN_Virtual
  | EN_Lease
  | EN_Assignment
  | EN_Migration
  | EN_Evidence
  | EN_Audit
  | EN_Decision
  | EN_Request

definition entity_kinds :: "entity_kind list" where
  "entity_kinds = [EN_Header, EN_Tenant, EN_Physical, EN_Backing, EN_Virtual, EN_Lease,
     EN_Assignment, EN_Migration, EN_Evidence, EN_Audit, EN_Decision, EN_Request]"

primrec entity_kind_value :: "entity_kind \<Rightarrow> nat" where
  "entity_kind_value EN_Header = 0"
| "entity_kind_value EN_Tenant = 1"
| "entity_kind_value EN_Physical = 2"
| "entity_kind_value EN_Backing = 3"
| "entity_kind_value EN_Virtual = 4"
| "entity_kind_value EN_Lease = 5"
| "entity_kind_value EN_Assignment = 6"
| "entity_kind_value EN_Migration = 7"
| "entity_kind_value EN_Evidence = 8"
| "entity_kind_value EN_Audit = 9"
| "entity_kind_value EN_Decision = 10"
| "entity_kind_value EN_Request = 11"

primrec entity_kind_name :: "entity_kind \<Rightarrow> string" where
  "entity_kind_name EN_Header = ''header''"
| "entity_kind_name EN_Tenant = ''tenant''"
| "entity_kind_name EN_Physical = ''physical''"
| "entity_kind_name EN_Backing = ''backing''"
| "entity_kind_name EN_Virtual = ''virtual''"
| "entity_kind_name EN_Lease = ''lease''"
| "entity_kind_name EN_Assignment = ''assignment''"
| "entity_kind_name EN_Migration = ''migration''"
| "entity_kind_name EN_Evidence = ''evidence''"
| "entity_kind_name EN_Audit = ''audit''"
| "entity_kind_name EN_Decision = ''decision''"
| "entity_kind_name EN_Request = ''request''"

text \<open>\<open>ChangeSet\<close> with the log entries in their stored form.\<close>

record stored_changes =
  sg_header :: bool
  sg_tenants :: "tn_id list"
  sg_physical :: "pd_id list"
  sg_backings :: "bk_id list"
  sg_virtuals :: "va_id list"
  sg_leases :: "ls_id list"
  sg_assignments :: "as_id list"
  sg_migrations :: "mg_id list"
  sg_evidence :: "ev_id list"
  sg_audit :: "stored_audit list"
  sg_decisions :: "stored_decision list"
  sg_requests :: "stored_request list"

definition changes_count :: "stored_changes \<Rightarrow> nat" where
  "changes_count g = (if sg_header g then 1 else 0) + length (sg_tenants g) + length (sg_physical g) + length (sg_backings g) + length (sg_virtuals g) +
    length (sg_leases g) + length (sg_assignments g) + length (sg_migrations g) + length (sg_evidence g) + length (sg_audit g) + length (sg_decisions g) + length (sg_requests g)"

section \<open>Replaying a record\<close>

text \<open>What a journal record says, and what it does to the state: entities are superseded, log entries
  appended with the oldest erased beyond the capacity.\<close>

datatype durable_update =
    DU_Header vstate
  | DU_Tenant tenant_record
  | DU_Physical physical_record
  | DU_Backing backing_record
  | DU_Virtual virtual_record
  | DU_Lease lease_record
  | DU_Assignment backing_assignment
  | DU_Migration migration_record
  | DU_Evidence evidence_record
  | DU_Audit stored_audit
  | DU_Decision stored_decision
  | DU_Request stored_request

definition decode_update :: "'a dec \<Rightarrow> ('a \<Rightarrow> durable_update) \<Rightarrow> decoder \<Rightarrow> durable_update result" where
  "decode_update rd mk d = (case rd d of Inl e \<Rightarrow> Inl e | Inr res \<Rightarrow> Inr (mk (fst res)))"

fun update_of :: "entity_kind \<Rightarrow> decoder \<Rightarrow> durable_update result" where
  "update_of EN_Header d = decode_update decode_header DU_Header d"
| "update_of EN_Tenant d = decode_update decode_tenant DU_Tenant d"
| "update_of EN_Physical d = decode_update decode_physical DU_Physical d"
| "update_of EN_Backing d = decode_update decode_backing DU_Backing d"
| "update_of EN_Virtual d = decode_update decode_virtual DU_Virtual d"
| "update_of EN_Lease d = decode_update decode_lease DU_Lease d"
| "update_of EN_Assignment d = decode_update decode_assignment DU_Assignment d"
| "update_of EN_Migration d = decode_update decode_migration DU_Migration d"
| "update_of EN_Evidence d = decode_update decode_evidence DU_Evidence d"
| "update_of EN_Audit d = decode_update decode_audit DU_Audit d"
| "update_of EN_Decision d = decode_update decode_decision DU_Decision d"
| "update_of EN_Request d = decode_update decode_request_outcome DU_Request d"

definition on_state :: "(vstate \<Rightarrow> vstate) \<Rightarrow> stored_state \<Rightarrow> stored_state" where
  "on_state f ss = ss\<lparr> ss_state := f (ss_state ss) \<rparr>"

fun apply_update :: "durable_update \<Rightarrow> stored_state \<Rightarrow> stored_state" where
  "apply_update (DU_Header h) ss = on_state (\<lambda>s. s
    \<lparr> st_schema := st_schema h, st_next_sequence := st_next_sequence h, st_epoch := st_epoch h,
      st_policy := st_policy h, st_policy_generation := st_policy_generation h, st_accounting := st_accounting h \<rparr>) ss"
| "apply_update (DU_Tenant r) ss = on_state (\<lambda>s. s\<lparr> st_tenants := om_put (tn_id r) r (st_tenants s) \<rparr>) ss"
| "apply_update (DU_Physical r) ss = on_state (\<lambda>s. s\<lparr> st_physical := om_put (pd_id r) r (st_physical s) \<rparr>) ss"
| "apply_update (DU_Backing r) ss = on_state (\<lambda>s. s\<lparr> st_backings := om_put (bk_id r) r (st_backings s) \<rparr>) ss"
| "apply_update (DU_Virtual r) ss = on_state (\<lambda>s. s\<lparr> st_virtuals := om_put (va_id r) r (st_virtuals s) \<rparr>) ss"
| "apply_update (DU_Lease r) ss = on_state (\<lambda>s. s\<lparr> st_leases := om_put (ls_id r) r (st_leases s) \<rparr>) ss"
| "apply_update (DU_Assignment r) ss = on_state (\<lambda>s. s\<lparr> st_assignments := om_put (as_id r) r (st_assignments s) \<rparr>) ss"
| "apply_update (DU_Migration r) ss = on_state (\<lambda>s. s\<lparr> st_migrations := om_put (mp_id (mg_plan r)) r (st_migrations s) \<rparr>) ss"
| "apply_update (DU_Evidence r) ss = on_state (\<lambda>s. s\<lparr> st_evidence := om_put (ev_id r) r (st_evidence s) \<rparr>) ss"
| "apply_update (DU_Audit a) ss = ss\<lparr> ss_audit := append_bounded kAuditCapacity (ss_audit ss) [a] \<rparr>"
| "apply_update (DU_Decision a) ss = ss\<lparr> ss_decisions := append_bounded kDecisionCapacity (ss_decisions ss) [a] \<rparr>"
| "apply_update (DU_Request a) ss = ss\<lparr> ss_requests := append_bounded kRequestWindowCapacity (ss_requests ss) [a] \<rparr>"

definition apply_record :: "entity_kind \<Rightarrow> decoder \<Rightarrow> stored_state \<Rightarrow> stored_state result" where
  "apply_record kind body ss = (case update_of kind body of Inl e \<Rightarrow> Inl e | Inr u \<Rightarrow> Inr (apply_update u ss))"

section \<open>Encoding a change set\<close>

record encoded_change =
  ec_kind :: entity_kind
  ec_id :: u64
  ec_body :: bytes

definition encode_table :: "entity_kind \<Rightarrow> ('v \<Rightarrow> bytes) \<Rightarrow> ('t ident, 'v) omap \<Rightarrow> 't ident list \<Rightarrow> encoded_change list" where
  "encode_table kind enc m ids = concat (map (\<lambda>i. case om_find m i of None \<Rightarrow> []
    | Some r \<Rightarrow> [\<lparr> ec_kind = kind, ec_id = id_value i, ec_body = enc r \<rparr>]) ids)"

definition encode_changes :: "stored_state \<Rightarrow> stored_changes \<Rightarrow> encoded_change list" where
  "encode_changes ss g = (let s = ss_state ss in
    (if sg_header g then [\<lparr> ec_kind = EN_Header, ec_id = 0, ec_body = encode_header s \<rparr>] else []) @
    encode_table EN_Tenant encode_tenant (st_tenants s) (sg_tenants g) @
    encode_table EN_Physical encode_physical (st_physical s) (sg_physical g) @
    encode_table EN_Backing encode_backing (st_backings s) (sg_backings g) @
    encode_table EN_Virtual encode_virtual (st_virtuals s) (sg_virtuals g) @
    encode_table EN_Lease encode_lease (st_leases s) (sg_leases g) @
    encode_table EN_Assignment encode_assignment (st_assignments s) (sg_assignments g) @
    encode_table EN_Migration encode_migration (st_migrations s) (sg_migrations g) @
    encode_table EN_Evidence encode_evidence (st_evidence s) (sg_evidence g) @
    map (\<lambda>a. \<lparr> ec_kind = EN_Audit, ec_id = id_value (sa_id a), ec_body = encode_audit a \<rparr>) (sg_audit g) @
    map (\<lambda>a. \<lparr> ec_kind = EN_Decision, ec_id = id_value (sd_id a), ec_body = encode_decision a \<rparr>) (sg_decisions g) @
    map (\<lambda>a. \<lparr> ec_kind = EN_Request, ec_id = id_value (sr_request a), ec_body = encode_request_outcome a \<rparr>) (sg_requests g))"

section \<open>Framing\<close>

definition kSnapshotMagic :: u32 where "kSnapshotMagic = 0x31535641"
definition kJournalMagic :: u32 where "kJournalMagic = 0x314A5641"
definition kSnapshotHeaderSize :: nat where "kSnapshotHeaderSize = 16"
definition kJournalHeaderSize :: nat where "kJournalHeaderSize = 8"
definition kJournalRecordHeaderSize :: nat where "kJournalRecordHeaderSize = 8"
definition kJournalRecordPrefixSize :: nat where "kJournalRecordPrefixSize = 9"
definition kMaxJournalRecord :: nat where "kMaxJournalRecord = 16 * 1024 * 1024"

lemmas journal_constants = kSnapshotHeaderSize_def kJournalHeaderSize_def kJournalRecordHeaderSize_def
  kJournalRecordPrefixSize_def kMaxJournalRecord_def

definition journal_header_bytes :: bytes where
  "journal_header_bytes = enc_u32 kJournalMagic @ enc_u32 schema_version"

definition record_payload :: "encoded_change \<Rightarrow> bytes" where
  "record_payload c = of_nat (entity_kind_value (ec_kind c)) # enc_u64 (ec_id c) @ ec_body c"

definition frame_journal_record :: "encoded_change \<Rightarrow> bytes" where
  "frame_journal_record c = (let payload = record_payload c in
    enc_u32 (of_nat (length payload)) @ enc_u32 (crc32c payload) @ payload)"

definition encode_snapshot_file :: "stored_state \<Rightarrow> bytes" where
  "encode_snapshot_file ss = (let payload = encode_snapshot ss in
    enc_u32 kSnapshotMagic @ enc_u32 schema_version @ enc_u32 (of_nat (length payload)) @ enc_u32 (crc32c payload) @ payload)"

definition decode_snapshot_file :: "bytes \<Rightarrow> stored_state result" where
  "decode_snapshot_file bs =
    (if length bs < kSnapshotHeaderSize then Inl SC_TruncatedState
     else if get_u32 bs 0 \<noteq> kSnapshotMagic then Inl SC_CorruptState
     else if get_u32 bs 4 \<noteq> schema_version then Inl SC_CorruptState
     else if length bs - kSnapshotHeaderSize \<noteq> unat (get_u32 bs 8) then Inl SC_TruncatedState
     else if crc32c (drop kSnapshotHeaderSize bs) \<noteq> get_u32 bs 12 then Inl SC_IntegrityFailure
     else decode_snapshot (drop kSnapshotHeaderSize bs))"

section \<open>Replaying the journal\<close>

datatype torn_tail = Torn_Reject | Torn_Discard

text \<open>The state and whether an incomplete record at the end was discarded.\<close>

definition handle_torn :: "torn_tail \<Rightarrow> stored_state \<Rightarrow> (stored_state \<times> bool) result" where
  "handle_torn torn ss = (if torn = Torn_Reject then Inl SC_TruncatedState else Inr (ss, True))"

function replay_records :: "torn_tail \<Rightarrow> bytes \<Rightarrow> stored_state \<Rightarrow> (stored_state \<times> bool) result" where
  "replay_records torn bs ss =
    (if bs = [] then Inr (ss, False)
     else if length bs < kJournalRecordHeaderSize then handle_torn torn ss
     else
       let n = unat (get_u32 bs 0); payload = take n (drop kJournalRecordHeaderSize bs) in
       if n < kJournalRecordPrefixSize \<or> n > kMaxJournalRecord then Inl SC_CorruptState
       else if length bs - kJournalRecordHeaderSize < n then handle_torn torn ss
       else if crc32c payload \<noteq> get_u32 bs 4 then Inl SC_IntegrityFailure
       else if unat (payload ! 0) > entity_kind_value EN_Request then Inl SC_CorruptState
       else
         (case apply_record (entity_kinds ! unat (payload ! 0))
             (decoder_of (drop kJournalRecordPrefixSize payload) default_limits) ss of
            Inl e \<Rightarrow> Inl e
          | Inr ss' \<Rightarrow> replay_records torn (drop (kJournalRecordHeaderSize + n) bs) ss'))"
  by pat_completeness auto
termination
  by (relation "measure (\<lambda>(torn, bs, ss). length bs)") (auto simp: journal_constants)

declare replay_records.simps [simp del]

definition replay_journal :: "torn_tail \<Rightarrow> bytes \<Rightarrow> stored_state \<Rightarrow> (stored_state \<times> bool) result" where
  "replay_journal torn bs ss =
    (if length bs < kJournalHeaderSize then Inl SC_TruncatedState
     else if get_u32 bs 0 \<noteq> kJournalMagic then Inl SC_CorruptState
     else if get_u32 bs 4 \<noteq> schema_version then Inl SC_CorruptState
     else replay_records torn (drop kJournalHeaderSize bs) ss)"

section \<open>What a change set says\<close>

text \<open>The updates a change set stands for, without the bytes.\<close>

definition table_updates :: "('v \<Rightarrow> durable_update) \<Rightarrow> ('k, 'v) omap \<Rightarrow> 'k list \<Rightarrow> durable_update list" where
  "table_updates mk m ids = concat (map (\<lambda>i. case om_find m i of None \<Rightarrow> [] | Some r \<Rightarrow> [mk r]) ids)"

definition updates_of :: "stored_state \<Rightarrow> stored_changes \<Rightarrow> durable_update list" where
  "updates_of ss g = (let s = ss_state ss in
    (if sg_header g then [DU_Header (header_of s)] else []) @
    table_updates DU_Tenant (st_tenants s) (sg_tenants g) @
    table_updates DU_Physical (st_physical s) (sg_physical g) @
    table_updates DU_Backing (st_backings s) (sg_backings g) @
    table_updates DU_Virtual (st_virtuals s) (sg_virtuals g) @
    table_updates DU_Lease (st_leases s) (sg_leases g) @
    table_updates DU_Assignment (st_assignments s) (sg_assignments g) @
    table_updates DU_Migration (st_migrations s) (sg_migrations g) @
    table_updates DU_Evidence (st_evidence s) (sg_evidence g) @
    map DU_Audit (sg_audit g) @ map DU_Decision (sg_decisions g) @ map DU_Request (sg_requests g))"

fun change_of :: "durable_update \<Rightarrow> encoded_change" where
  "change_of (DU_Header h) = \<lparr> ec_kind = EN_Header, ec_id = 0, ec_body = encode_header h \<rparr>"
| "change_of (DU_Tenant r) = \<lparr> ec_kind = EN_Tenant, ec_id = id_value (tn_id r), ec_body = encode_tenant r \<rparr>"
| "change_of (DU_Physical r) = \<lparr> ec_kind = EN_Physical, ec_id = id_value (pd_id r), ec_body = encode_physical r \<rparr>"
| "change_of (DU_Backing r) = \<lparr> ec_kind = EN_Backing, ec_id = id_value (bk_id r), ec_body = encode_backing r \<rparr>"
| "change_of (DU_Virtual r) = \<lparr> ec_kind = EN_Virtual, ec_id = id_value (va_id r), ec_body = encode_virtual r \<rparr>"
| "change_of (DU_Lease r) = \<lparr> ec_kind = EN_Lease, ec_id = id_value (ls_id r), ec_body = encode_lease r \<rparr>"
| "change_of (DU_Assignment r) = \<lparr> ec_kind = EN_Assignment, ec_id = id_value (as_id r), ec_body = encode_assignment r \<rparr>"
| "change_of (DU_Migration r) = \<lparr> ec_kind = EN_Migration, ec_id = id_value (mp_id (mg_plan r)), ec_body = encode_migration r \<rparr>"
| "change_of (DU_Evidence r) = \<lparr> ec_kind = EN_Evidence, ec_id = id_value (ev_id r), ec_body = encode_evidence r \<rparr>"
| "change_of (DU_Audit r) = \<lparr> ec_kind = EN_Audit, ec_id = id_value (sa_id r), ec_body = encode_audit r \<rparr>"
| "change_of (DU_Decision r) = \<lparr> ec_kind = EN_Decision, ec_id = id_value (sd_id r), ec_body = encode_decision r \<rparr>"
| "change_of (DU_Request r) = \<lparr> ec_kind = EN_Request, ec_id = id_value (sr_request r), ec_body = encode_request_outcome r \<rparr>"

text \<open>What replay can read back: the strings and lists of the record within the decoder's default limits, the
  record within the bound of the journal.\<close>

fun body_fits :: "decoder \<Rightarrow> durable_update \<Rightarrow> bool" where
  "body_fits d (DU_Header h) \<longleftrightarrow> header_of h = h \<and> policy_fits d (st_policy h)"
| "body_fits d (DU_Tenant r) \<longleftrightarrow> tenant_fits d r"
| "body_fits d (DU_Physical r) \<longleftrightarrow> physical_fits d r"
| "body_fits d (DU_Backing r) \<longleftrightarrow> backing_fits d r"
| "body_fits d (DU_Virtual r) \<longleftrightarrow> virtual_fits d r"
| "body_fits d (DU_Lease r) \<longleftrightarrow> lease_fits d r"
| "body_fits d (DU_Assignment r) \<longleftrightarrow> assignment_fits d r"
| "body_fits d (DU_Migration r) \<longleftrightarrow> migration_fits d r"
| "body_fits d (DU_Evidence r) \<longleftrightarrow> evidence_fits d r"
| "body_fits d (DU_Audit r) \<longleftrightarrow> audit_fits d r"
| "body_fits d (DU_Decision r) \<longleftrightarrow> decision_fits d r"
| "body_fits d (DU_Request r) \<longleftrightarrow> request_outcome_fits d r"

definition update_fits :: "durable_update \<Rightarrow> bool" where
  "update_fits u \<longleftrightarrow> body_fits (decoder_of [] default_limits) u \<and>
    length (record_payload (change_of u)) \<le> kMaxJournalRecord"

lemma table_changes:
  assumes "keyed key m" and "\<And>r. change_of (mk r) = \<lparr> ec_kind = kind, ec_id = id_value (key r), ec_body = enc r \<rparr>"
  shows "encode_table kind enc m ids = map change_of (table_updates mk m ids)"
  using assms by (induction ids) (auto simp: encode_table_def table_updates_def keyed_def split: option.split)

lemma encode_changes_updates:
  assumes "ids_match (ss_state ss)"
  shows "encode_changes ss g = map change_of (updates_of ss g)"
proof -
  let ?s = "ss_state ss"
  have "encode_header (header_of ?s) = encode_header ?s"
    by (simp add: encode_header_def header_of_def)
  moreover have keys: "keyed tn_id (st_tenants ?s)" "keyed pd_id (st_physical ?s)" "keyed bk_id (st_backings ?s)"
    "keyed va_id (st_virtuals ?s)" "keyed ls_id (st_leases ?s)" "keyed as_id (st_assignments ?s)"
    "keyed (\<lambda>m. mp_id (mg_plan m)) (st_migrations ?s)" "keyed ev_id (st_evidence ?s)"
    using assms by (simp_all add: ids_match_def)
  moreover have
    "\<And>ids. encode_table EN_Tenant encode_tenant (st_tenants ?s) ids = map change_of (table_updates DU_Tenant (st_tenants ?s) ids)"
    "\<And>ids. encode_table EN_Physical encode_physical (st_physical ?s) ids = map change_of (table_updates DU_Physical (st_physical ?s) ids)"
    "\<And>ids. encode_table EN_Backing encode_backing (st_backings ?s) ids = map change_of (table_updates DU_Backing (st_backings ?s) ids)"
    "\<And>ids. encode_table EN_Virtual encode_virtual (st_virtuals ?s) ids = map change_of (table_updates DU_Virtual (st_virtuals ?s) ids)"
    "\<And>ids. encode_table EN_Lease encode_lease (st_leases ?s) ids = map change_of (table_updates DU_Lease (st_leases ?s) ids)"
    "\<And>ids. encode_table EN_Assignment encode_assignment (st_assignments ?s) ids = map change_of (table_updates DU_Assignment (st_assignments ?s) ids)"
    "\<And>ids. encode_table EN_Migration encode_migration (st_migrations ?s) ids = map change_of (table_updates DU_Migration (st_migrations ?s) ids)"
    "\<And>ids. encode_table EN_Evidence encode_evidence (st_evidence ?s) ids = map change_of (table_updates DU_Evidence (st_evidence ?s) ids)"
    by (rule table_changes, rule keys, simp)+
  ultimately show ?thesis by (simp add: encode_changes_def updates_of_def Let_def)
qed

subsection \<open>A record is read back\<close>

lemma decode_update_reads:
  "reads rd d bs v \<Longrightarrow> starts d bs \<Longrightarrow> decode_update rd mk d = Inr (mk v)"
  by (simp add: decode_update_def readsD)

lemmas record_reads = header_reads tenant_codec.reads_value physical_codec.reads_value backing_codec.reads_value
  virtual_codec.reads_value lease_codec.reads_value assignment_codec.reads_value migration_codec.reads_value
  evidence_codec.reads_value audit_codec.reads_value decision_codec.reads_value request_outcome_codec.reads_value

lemma update_of_change:
  "body_fits d u \<Longrightarrow> starts d (ec_body (change_of u)) \<Longrightarrow> update_of (ec_kind (change_of u)) d = Inr u"
  by (cases u) (auto dest: record_reads [THEN decode_update_reads])

lemma body_fits_move: "body_fits (d\<lparr> dec_data := bs, dec_pos := n \<rparr>) u = body_fits d u"
  by (cases u) simp_all

lemma apply_record_change:
  assumes "body_fits (decoder_of [] lim) u"
  shows "apply_record (ec_kind (change_of u)) (decoder_of (ec_body (change_of u)) lim) ss = Inr (apply_update u ss)"
proof -
  have "body_fits (decoder_of (ec_body (change_of u)) lim) u"
    using body_fits_move [where d = "decoder_of [] lim" and bs = "ec_body (change_of u)" and n = 0] assms by (simp add: decoder_of_def)
  then show ?thesis by (simp add: apply_record_def update_of_change starts_def decoder_of_def)
qed

subsection \<open>Frames\<close>

lemma entity_kind_position [simp]:
  "unat (of_nat (entity_kind_value k) :: u8) = entity_kind_value k" "entity_kind_value k \<le> 11"
  "entity_kinds ! entity_kind_value k = k"
  by (cases k; simp add: entity_kinds_def)+

lemma length_record_payload: "length (record_payload c) = kJournalRecordPrefixSize + length (ec_body c)"
  by (simp add: record_payload_def journal_constants enc_u64_def)

lemma record_payload_parts:
  "record_payload c ! 0 = of_nat (entity_kind_value (ec_kind c))"
  "drop kJournalRecordPrefixSize (record_payload c) = ec_body c"
  by (simp_all add: record_payload_def journal_constants enc_u64_def numeral_eq_Suc)

lemma unat_of_length: "n \<le> kMaxJournalRecord \<Longrightarrow> unat (of_nat n :: u32) = n"
  by (simp add: kMaxJournalRecord_def unsigned_of_nat take_bit_nat_eq_self)

lemma length_frame: "length (frame_journal_record c) = kJournalRecordHeaderSize + length (record_payload c)"
  by (simp add: frame_journal_record_def Let_def journal_constants)

lemma frame_shape:
  assumes "update_fits u"
  shows "unat (get_u32 (frame_journal_record (change_of u) @ rest) 0) = length (record_payload (change_of u))"
    "get_u32 (frame_journal_record (change_of u) @ rest) 4 = crc32c (record_payload (change_of u))"
    "drop kJournalRecordHeaderSize (frame_journal_record (change_of u) @ rest) = record_payload (change_of u) @ rest"
  using assms by (simp_all add: frame_journal_record_def Let_def update_fits_def unat_of_length journal_constants)

lemma replay_frame:
  assumes "update_fits u"
  shows "replay_records torn (frame_journal_record (change_of u) @ rest) ss = replay_records torn rest (apply_update u ss)"
proof -
  let ?f = "frame_journal_record (change_of u)" and ?p = "record_payload (change_of u)"
  have f: "?f @ rest \<noteq> []" "\<not> length (?f @ rest) < kJournalRecordHeaderSize"
    "length (?f @ rest) - kJournalRecordHeaderSize = length ?p + length rest"
    "drop (kJournalRecordHeaderSize + length ?p) (?f @ rest) = rest"
    by (auto simp: length_frame journal_constants simp flip: length_greater_0_conv)
  have p: "\<not> (length ?p < kJournalRecordPrefixSize \<or> length ?p > kMaxJournalRecord)"
    using assms by (simp add: update_fits_def length_record_payload)
  have a: "apply_record (ec_kind (change_of u)) (decoder_of (ec_body (change_of u)) default_limits) ss = Inr (apply_update u ss)"
    by (rule apply_record_change) (use assms in \<open>simp add: update_fits_def\<close>)
  show ?thesis
    by (subst replay_records.simps)
      (simp only: f p frame_shape [OF assms] Let_def if_False take_append take_all_iff record_payload_parts
        entity_kind_position not_less, simp add: a record_payload_parts entity_kind_position(2) [THEN leD])
qed

lemma replay_torn:
  assumes "update_fits u" and "0 < n" and "n < length (frame_journal_record (change_of u))"
  shows "replay_records torn (take n (frame_journal_record (change_of u))) ss = handle_torn torn ss"
proof -
  let ?f = "frame_journal_record (change_of u)" and ?p = "record_payload (change_of u)"
  have ne: "take n ?f \<noteq> []" using assms(2,3) by auto
  have len: "length (take n ?f) = n" using assms(3) by simp
  have p: "\<not> (length ?p < kJournalRecordPrefixSize \<or> length ?p > kMaxJournalRecord)"
    using assms by (simp add: update_fits_def length_record_payload)
  show ?thesis
  proof (cases "n < kJournalRecordHeaderSize")
    case True
    then show ?thesis using ne len by (subst replay_records.simps) simp
  next
    case False
    then have "unat (get_u32 (take n ?f) 0) = length ?p"
      using frame_shape(1) [OF assms(1), of "[]"] assms(3) by (simp add: get_u32_take journal_constants)
    moreover have "n - kJournalRecordHeaderSize < length ?p"
      using assms(3) False by (simp add: length_frame)
    ultimately show ?thesis
      using ne len p False by (subst replay_records.simps) (simp add: Let_def)
  qed
qed

text \<open>The bytes of a batch, and what of it is complete after \<open>n\<close> of them.\<close>

definition batch :: "durable_update list \<Rightarrow> bytes" where
  "batch us = concat (map (\<lambda>u. frame_journal_record (change_of u)) us)"

fun complete_records :: "nat \<Rightarrow> durable_update list \<Rightarrow> durable_update list \<times> bool" where
  "complete_records n [] = ([], True)"
| "complete_records n (u # us) = (let l = length (frame_journal_record (change_of u)) in
    if l \<le> n then (u # fst (complete_records (n - l) us), snd (complete_records (n - l) us)) else ([], n = 0))"

lemma replay_batch:
  "list_all update_fits us \<Longrightarrow>
   replay_records torn (batch us @ rest) ss = replay_records torn rest (fold apply_update us ss)"
  by (induction us arbitrary: ss) (simp_all add: batch_def replay_frame)

lemma replay_end [simp]: "replay_records torn [] ss = Inr (ss, False)"
  by (subst replay_records.simps) simp

lemma replay_partial:
  "list_all update_fits us \<Longrightarrow>
   replay_records torn (take n (batch us)) ss =
     (let ss' = fold apply_update (fst (complete_records n us)) ss in
      if snd (complete_records n us) then Inr (ss', False) else handle_torn torn ss')"
proof (induction us arbitrary: n ss)
  case (Cons u us)
  let ?f = "frame_journal_record (change_of u)"
  have b: "batch (u # us) = ?f @ batch us" by (simp add: batch_def)
  show ?case
  proof (cases "length ?f \<le> n")
    case True
    then have "take n (batch (u # us)) = ?f @ take (n - length ?f) (batch us)" by (simp add: b)
    then show ?thesis using Cons True by (simp add: replay_frame Let_def)
  next
    case False
    then have "take n (batch (u # us)) = take n ?f" by (simp add: b)
    then show ?thesis using Cons.prems False replay_torn [of u n] by (simp add: Let_def)
  qed
qed (simp add: batch_def)

lemma complete_prefix: "\<exists>k \<le> length us. fst (complete_records n us) = take k us"
proof (induction us arbitrary: n)
  case (Cons u us)
  from Cons.IH [of "n - length (frame_journal_record (change_of u))"] obtain k
    where "k \<le> length us" "fst (complete_records (n - length (frame_journal_record (change_of u))) us) = take k us" by auto
  then show ?case
    by (cases "length (frame_journal_record (change_of u)) \<le> n")
      (auto simp: Let_def intro: exI [of _ "Suc k"] exI [of _ 0])
qed simp

lemma complete_all: "length (batch us) \<le> n \<Longrightarrow> complete_records n us = (us, True)"
  by (induction us arbitrary: n) (auto simp: batch_def Let_def prod_eq_iff)

lemma complete_whole:
  "fst (complete_records (length (batch us) + n) (us @ vs)) = us @ fst (complete_records n vs)"
  by (induction us) (simp_all add: batch_def Let_def add.assoc)

end
