(* ===== verification/AV_Store.thy ===== *)
theory AV_Store
  imports AV_Journal
begin

text \<open>
  The durable stores (\<open>src/persistence.cpp\<close>, \<open>FileDurableStore\<close> and \<open>MemoryDurableStore\<close>;
  \<open>include/av/persistence.hpp\<close>, \<open>StoreOptions\<close> and the interface \<open>DurableStore\<close>).

  The disk is the contents of the two files of the state directory. What the operating system answers to a call is an
  argument of the operation: the replacement of a file through a temporary one happens or does not, an append
  may stop after any number of bytes, a file may fail to open or to be read.

  \<open>DurableStore\<close> is the locale \<open>durable_contract\<close>: a store that holds a state still holds the runtime's state after it
  accepted a change set that leads there. Both stores are interpretations of it. Further: a crash at any
  byte of an append leaves the state after some of the records, a crash between the two writes of a compaction loses
  nothing, and a changed byte of a snapshot is detected.
\<close>

section \<open>Files\<close>

record disk =
  dk_snapshot :: "bytes option"
  dk_journal :: "bytes option"

datatype read_answer = Read_Done | Read_Not_Opened | Read_Failed

datatype append_answer = Append_Done | Append_Not_Opened | Append_Stopped nat

record io_answers =
  io_directory :: bool
  io_read_snapshot :: read_answer
  io_read_journal :: read_answer
  io_header :: bool
  io_append :: append_answer
  io_snapshot :: bool
  io_truncate :: bool

definition io_ok :: io_answers where
  "io_ok = \<lparr> io_directory = True, io_read_snapshot = Read_Done, io_read_journal = Read_Done, io_header = True,
     io_append = Append_Done, io_snapshot = True, io_truncate = True \<rparr>"

text \<open>The contents and whether the file exists. A file that cannot be opened counts as absent.\<close>

fun read_file_bytes :: "read_answer \<Rightarrow> bytes option \<Rightarrow> (bytes \<times> bool) result" where
  "read_file_bytes _ None = Inr ([], False)"
| "read_file_bytes Read_Done (Some bs) = Inr (bs, True)"
| "read_file_bytes Read_Not_Opened (Some bs) = Inr ([], False)"
| "read_file_bytes Read_Failed (Some bs) = Inl SC_IoFailure"

definition write_file_atomic :: "bool \<Rightarrow> bytes \<Rightarrow> bytes option \<Rightarrow> status_code \<times> bytes option" where
  "write_file_atomic done bs file = (if done then (SC_Ok, Some bs) else (SC_IoFailure, file))"

definition append_file_bytes :: "append_answer \<Rightarrow> bytes \<Rightarrow> bytes option \<Rightarrow> status_code \<times> bytes option" where
  "append_file_bytes answer bs file =
    (let old = (case file of None \<Rightarrow> [] | Some cs \<Rightarrow> cs) in
     if bs = [] then (SC_Ok, file)
     else case answer of
       Append_Done \<Rightarrow> (SC_Ok, Some (old @ bs))
     | Append_Not_Opened \<Rightarrow> (SC_IoFailure, file)
     | Append_Stopped n \<Rightarrow> (SC_IoFailure, Some (old @ take n bs)))"

section \<open>The file store\<close>

record store_options =
  so_directory :: string
  so_enabled :: bool
  so_deferred :: bool
  so_deferred_threshold :: nat
  so_compaction_journal_bytes :: nat
  so_torn_tail :: torn_tail
  so_durable_sync :: bool

definition default_store_options :: store_options where
  "default_store_options = \<lparr> so_directory = [], so_enabled = True, so_deferred = False, so_deferred_threshold = 256,
     so_compaction_journal_bytes = 4 * 1024 * 1024, so_torn_tail = Torn_Reject, so_durable_sync = True \<rparr>"

record file_store =
  fs_options :: store_options
  fs_opened :: bool
  fs_snapshot_present :: bool
  fs_journal_initialized :: bool
  fs_discarded_tail :: bool
  fs_journal_bytes :: nat
  fs_last_snapshot_bytes :: nat
  fs_bytes_written :: u64
  fs_write_count :: u64
  fs_compactions :: u64

definition make_file_store :: "store_options \<Rightarrow> file_store" where
  "make_file_store options = \<lparr> fs_options = options, fs_opened = False, fs_snapshot_present = False,
     fs_journal_initialized = False, fs_discarded_tail = False, fs_journal_bytes = 0, fs_last_snapshot_bytes = 0,
     fs_bytes_written = 0, fs_write_count = 0, fs_compactions = 0 \<rparr>"

definition ensure_directory :: "bool \<Rightarrow> string \<Rightarrow> status_code" where
  "ensure_directory created path = (if path = [] \<or> created then SC_Ok else SC_IoFailure)"

definition file_open :: "io_answers \<Rightarrow> file_store \<times> disk \<Rightarrow> status_code \<times> file_store \<times> disk" where
  "file_open io = (\<lambda>(fs, dk).
    (let created = ensure_directory (io_directory io) (so_directory (fs_options fs)) in
     if created \<noteq> SC_Ok then (created, fs, dk)
     else case read_file_bytes (io_read_snapshot io) (dk_snapshot dk) of Inl e \<Rightarrow> (e, fs, dk)
     | Inr (_, exists) \<Rightarrow>
       (let fs1 = fs\<lparr> fs_snapshot_present := exists \<rparr> in
        case read_file_bytes (io_read_journal io) (dk_journal dk) of Inl e \<Rightarrow> (e, fs1, dk)
        | Inr (journal, exists) \<Rightarrow>
            (SC_Ok, fs1\<lparr> fs_journal_bytes := (if exists then length journal else 0),
               fs_journal_initialized := exists, fs_opened := True \<rparr>, dk))))"

definition file_compact :: "io_answers \<Rightarrow> file_store \<times> disk \<Rightarrow> stored_state \<Rightarrow> status_code \<times> file_store \<times> disk" where
  "file_compact io = (\<lambda>(fs, dk) ss.
    (if \<not> so_enabled (fs_options fs) then (SC_Ok, fs, dk)
     else if \<not> fs_opened fs then (SC_NotReady, fs, dk)
     else
       let bs = encode_snapshot_file ss; (written, snapshot) = write_file_atomic (io_snapshot io) bs (dk_snapshot dk) in
       if written \<noteq> SC_Ok then (written, fs, dk\<lparr> dk_snapshot := snapshot \<rparr>)
       else
         let dk1 = dk\<lparr> dk_snapshot := snapshot \<rparr>;
             fs1 = fs\<lparr> fs_snapshot_present := True, fs_last_snapshot_bytes := length bs,
               fs_write_count := fs_write_count fs + 1, fs_bytes_written := fs_bytes_written fs + of_nat (length bs),
               fs_compactions := fs_compactions fs + 1 \<rparr>;
             header = journal_header_bytes;
             (truncated, journal) = write_file_atomic (io_truncate io) header (dk_journal dk1) in
         if truncated \<noteq> SC_Ok then (truncated, fs1, dk1\<lparr> dk_journal := journal \<rparr>)
         else (SC_Ok, fs1\<lparr> fs_journal_initialized := True, fs_journal_bytes := length header,
                 fs_write_count := fs_write_count fs1 + 1,
                 fs_bytes_written := fs_bytes_written fs1 + of_nat (length header) \<rparr>,
               dk1\<lparr> dk_journal := journal \<rparr>)))"

text \<open>The journal header on the first write.\<close>

definition init_journal :: "io_answers \<Rightarrow> file_store \<times> disk \<Rightarrow> status_code \<times> file_store \<times> disk" where
  "init_journal io = (\<lambda>(fs, dk).
    (if fs_journal_initialized fs then (SC_Ok, fs, dk)
     else
       let header = journal_header_bytes; (written, journal) = write_file_atomic (io_header io) header (dk_journal dk) in
       if written \<noteq> SC_Ok then (written, fs, dk\<lparr> dk_journal := journal \<rparr>)
       else (SC_Ok, fs\<lparr> fs_journal_initialized := True, fs_journal_bytes := length header \<rparr>,
             dk\<lparr> dk_journal := journal \<rparr>)))"

definition compaction_threshold :: "file_store \<Rightarrow> nat" where
  "compaction_threshold fs = max (so_compaction_journal_bytes (fs_options fs)) (fs_last_snapshot_bytes fs * 2)"

definition append_batch :: "io_answers \<Rightarrow> encoded_change list \<Rightarrow> file_store \<times> disk \<Rightarrow> status_code \<times> file_store \<times> disk" where
  "append_batch io encoded = (\<lambda>(fs, dk).
    (let bs = concat (map frame_journal_record encoded);
         (status, journal) = append_file_bytes (io_append io) bs (dk_journal dk) in
     if status \<noteq> SC_Ok then (status, fs, dk\<lparr> dk_journal := journal \<rparr>)
     else (SC_Ok, fs\<lparr> fs_write_count := fs_write_count fs + of_nat (length encoded),
             fs_bytes_written := fs_bytes_written fs + of_nat (length bs),
             fs_journal_bytes := fs_journal_bytes fs + length bs \<rparr>,
           dk\<lparr> dk_journal := journal \<rparr>)))"

definition file_apply ::
  "io_answers \<Rightarrow> file_store \<times> disk \<Rightarrow> stored_state \<Rightarrow> stored_changes \<Rightarrow> status_code \<times> file_store \<times> disk" where
  "file_apply io = (\<lambda>(fs, dk) ss g.
    (if \<not> so_enabled (fs_options fs) then (SC_Ok, fs, dk)
     else if \<not> fs_opened fs then (SC_NotReady, fs, dk)
     else if changes_count g = 0 then (SC_Ok, fs, dk)
     else
       let encoded = encode_changes ss g in
       if encoded = [] then (SC_Ok, fs, dk)
       else case init_journal io (fs, dk) of (written, st1) \<Rightarrow>
         if written \<noteq> SC_Ok then (written, st1)
         else case append_batch io encoded st1 of (status, st2) \<Rightarrow>
           if status \<noteq> SC_Ok then (status, st2)
           else if fs_journal_bytes (fst st2) > compaction_threshold (fst st2) then file_compact io st2 ss
           else (SC_Ok, st2)))"

definition empty_store_state :: stored_state where
  "empty_store_state = \<lparr> ss_state = initial_state\<lparr> st_schema := schema_version \<rparr>, ss_audit = [], ss_decisions = [], ss_requests = [] \<rparr>"

definition load_snapshot :: "io_answers \<Rightarrow> disk \<Rightarrow> (stored_state \<times> bool) result" where
  "load_snapshot io dk = (case read_file_bytes (io_read_snapshot io) (dk_snapshot dk) of Inl e \<Rightarrow> Inl e
    | Inr (bs, exists) \<Rightarrow>
        if exists then (case decode_snapshot_file bs of Inl e \<Rightarrow> Inl e | Inr ss \<Rightarrow> Inr (ss, True))
        else Inr (empty_store_state, False))"

definition checked_state :: "stored_state \<Rightarrow> stored_state result" where
  "checked_state ss = (let valid = validate_state (ss_state ss) in if valid \<noteq> SC_Ok then Inl valid else Inr ss)"

definition file_load :: "io_answers \<Rightarrow> file_store \<times> disk \<Rightarrow> stored_state result \<times> file_store \<times> disk" where
  "file_load io = (\<lambda>(fs, dk).
    (if \<not> so_enabled (fs_options fs) then (Inr empty_store_state, fs, dk)
     else case load_snapshot io dk of Inl e \<Rightarrow> (Inl e, fs, dk)
     | Inr (ss, loaded) \<Rightarrow>
       (case read_file_bytes (io_read_journal io) (dk_journal dk) of Inl e \<Rightarrow> (Inl e, fs, dk)
        | Inr (journal, exists) \<Rightarrow>
          if exists \<and> journal \<noteq> [] then
            (case replay_journal (so_torn_tail (fs_options fs)) journal ss of Inl e \<Rightarrow> (Inl e, fs, dk)
             | Inr (ss', discarded) \<Rightarrow> (checked_state ss', fs\<lparr> fs_discarded_tail := discarded \<rparr>, dk))
          else if loaded then (checked_state ss, fs, dk)
          else (Inr ss, fs, dk))))"

definition file_flush :: "file_store \<times> disk \<Rightarrow> status_code \<times> file_store \<times> disk" where
  "file_flush st = (SC_Ok, st)"

definition file_close :: "file_store \<times> disk \<Rightarrow> status_code \<times> file_store \<times> disk" where
  "file_close = (\<lambda>(fs, dk). (SC_Ok, fs\<lparr> fs_opened := False \<rparr>, dk))"

definition file_present :: "file_store \<Rightarrow> bool" where
  "file_present fs \<longleftrightarrow> fs_snapshot_present fs \<or> fs_journal_bytes fs > kJournalHeaderSize"

definition file_pending_changes :: "file_store \<Rightarrow> nat" where
  "file_pending_changes fs = 0"

section \<open>The memory store\<close>

record memory_store =
  ms_state :: stored_state
  ms_opened :: bool
  ms_present :: bool
  ms_writes :: u64
  ms_compactions :: u64

definition make_memory_store :: memory_store where
  "make_memory_store = \<lparr> ms_state = empty_store_state, ms_opened = False, ms_present = False, ms_writes = 0,
     ms_compactions = 0 \<rparr>"

definition memory_open :: "memory_store \<Rightarrow> status_code \<times> memory_store" where
  "memory_open ms = (SC_Ok, ms\<lparr> ms_opened := True, ms_state := on_state (\<lambda>s. s\<lparr> st_schema := schema_version \<rparr>) (ms_state ms) \<rparr>)"

fun apply_encoded :: "encoded_change list \<Rightarrow> stored_state \<Rightarrow> status_code \<times> stored_state" where
  "apply_encoded [] ss = (SC_Ok, ss)"
| "apply_encoded (c # cs) ss = (case apply_record (ec_kind c) (decoder_of (ec_body c) default_limits) ss of
    Inl e \<Rightarrow> (e, ss) | Inr ss' \<Rightarrow> apply_encoded cs ss')"

definition memory_apply :: "memory_store \<Rightarrow> stored_state \<Rightarrow> stored_changes \<Rightarrow> status_code \<times> memory_store" where
  "memory_apply ms ss g =
    (if \<not> ms_opened ms then (SC_NotReady, ms)
     else case apply_encoded (encode_changes ss g) (ms_state ms) of (status, ss') \<Rightarrow>
       if status \<noteq> SC_Ok then (status, ms\<lparr> ms_state := ss' \<rparr>)
       else (SC_Ok, ms\<lparr> ms_state := ss', ms_present := True, ms_writes := ms_writes ms + 1 \<rparr>))"

definition memory_compact :: "memory_store \<Rightarrow> stored_state \<Rightarrow> status_code \<times> memory_store" where
  "memory_compact ms ss = (SC_Ok, ms\<lparr> ms_state := ss, ms_present := True, ms_writes := ms_writes ms + 1,
     ms_compactions := ms_compactions ms + 1 \<rparr>)"

definition memory_load :: "memory_store \<Rightarrow> stored_state result" where
  "memory_load ms = Inr (ms_state ms)"

definition memory_close :: "memory_store \<Rightarrow> status_code \<times> memory_store" where
  "memory_close ms = (SC_Ok, ms\<lparr> ms_opened := False \<rparr>)"

section \<open>From one state to the next\<close>

text \<open>The change set accounts for every difference between two stored states.\<close>

definition advances :: "stored_state \<Rightarrow> stored_changes \<Rightarrow> stored_state \<Rightarrow> bool" where
  "advances ss0 g ss \<longleftrightarrow> (let s0 = ss_state ss0; s = ss_state ss in
    sg_header g \<and> logs_beside ss0 \<and> logs_beside ss \<and>
    table_advances (st_tenants s0) (st_tenants s) (sg_tenants g) \<and>
    table_advances (st_physical s0) (st_physical s) (sg_physical g) \<and>
    table_advances (st_backings s0) (st_backings s) (sg_backings g) \<and>
    table_advances (st_virtuals s0) (st_virtuals s) (sg_virtuals g) \<and>
    table_advances (st_leases s0) (st_leases s) (sg_leases g) \<and>
    table_advances (st_assignments s0) (st_assignments s) (sg_assignments g) \<and>
    table_advances (st_migrations s0) (st_migrations s) (sg_migrations g) \<and>
    table_advances (st_evidence s0) (st_evidence s) (sg_evidence g) \<and>
    ss_audit ss = append_bounded kAuditCapacity (ss_audit ss0) (sg_audit g) \<and>
    ss_decisions ss = append_bounded kDecisionCapacity (ss_decisions ss0) (sg_decisions g) \<and>
    ss_requests ss = append_bounded kRequestWindowCapacity (ss_requests ss0) (sg_requests g))"

definition logs_bounded :: "stored_state \<Rightarrow> bool" where
  "logs_bounded ss \<longleftrightarrow> length (ss_audit ss) \<le> kAuditCapacity \<and> length (ss_decisions ss) \<le> kDecisionCapacity \<and>
    length (ss_requests ss) \<le> kRequestWindowCapacity"

definition put_all :: "('v \<Rightarrow> 'k::linorder) \<Rightarrow> ('k, 'v) omap \<Rightarrow> 'k list \<Rightarrow> ('k, 'v) omap \<Rightarrow> ('k, 'v) omap" where
  "put_all key m ids m0 = fold (\<lambda>i acc. case om_find m i of None \<Rightarrow> acc | Some r \<Rightarrow> om_put (key r) r acc) ids m0"

lemma put_all_find:
  "keyed key m \<Longrightarrow>
   om_find (put_all key m ids m0) k = (if k \<in> set ids \<and> om_find m k \<noteq> None then om_find m k else om_find m0 k)"
proof (induction ids arbitrary: m0)
  case (Cons i ids)
  then show ?case by (cases "om_find m i") (auto simp: put_all_def keyed_def)
qed (simp add: put_all_def)

lemma put_all_sorted: "om_sorted m0 \<Longrightarrow> om_sorted (put_all key m ids m0)"
  unfolding put_all_def by (induction ids arbitrary: m0) (simp_all split: option.split)

lemma put_all_advances: "keyed key m \<Longrightarrow> table_advances m0 m ids \<Longrightarrow> put_all key m ids m0 = m"
proof (rule om_extensional)
  assume k: "keyed key m" and a: "table_advances m0 m ids"
  show "om_find (put_all key m ids m0) = om_find m"
  proof
    fix x
    show "om_find (put_all key m ids m0) x = om_find m x"
      using a put_all_find [OF k, of ids m0 x] unfolding table_advances_def by (auto dest: spec [of _ x])
  qed
qed (simp_all add: table_advances_def put_all_sorted)

lemma append_bounded_append:
  "append_bounded cap (append_bounded cap xs ys) zs = append_bounded cap xs (ys @ zs)"
proof -
  let ?a = "length xs + length ys - cap" and ?w = "xs @ ys @ zs"
  have bounded: "append_bounded cap us vs = drop (length (us @ vs) - cap) (us @ vs)" for us vs :: "'a list"
    by (simp add: append_bounded_def Let_def)
  have 1: "append_bounded cap xs ys @ zs = drop ?a ?w" by (simp add: bounded)
  have "length (drop ?a ?w) - cap + ?a = length ?w - cap" by simp
  then show ?thesis unfolding bounded [of "append_bounded cap xs ys" zs] 1 drop_drop bounded [of xs "ys @ zs"] by simp
qed

lemma append_bounded_none: "length xs \<le> cap \<Longrightarrow> append_bounded cap xs [] = xs"
  by (simp add: append_bounded_def)

lemma append_bounded_length: "length (append_bounded cap xs ys) \<le> cap"
  by (simp add: append_bounded_def Let_def)

lemma append_bounded_fold:
  "length xs \<le> cap \<Longrightarrow> fold (\<lambda>y l. append_bounded cap l [y]) ys xs = append_bounded cap xs ys"
proof (induction ys arbitrary: xs)
  case (Cons y ys)
  then show ?case using append_bounded_append [of cap xs "[y]" ys] by (simp add: append_bounded_length)
qed (simp add: append_bounded_none)

lemma fold_tables:
  "fold apply_update (table_updates DU_Tenant m_tenant ids_tenant) ss =
    on_state (\<lambda>s. s\<lparr> st_tenants := put_all tn_id m_tenant ids_tenant (st_tenants s) \<rparr>) ss"
  "fold apply_update (table_updates DU_Physical m_physical ids_physical) ss =
    on_state (\<lambda>s. s\<lparr> st_physical := put_all pd_id m_physical ids_physical (st_physical s) \<rparr>) ss"
  "fold apply_update (table_updates DU_Backing m_backing ids_backing) ss =
    on_state (\<lambda>s. s\<lparr> st_backings := put_all bk_id m_backing ids_backing (st_backings s) \<rparr>) ss"
  "fold apply_update (table_updates DU_Virtual m_virtual ids_virtual) ss =
    on_state (\<lambda>s. s\<lparr> st_virtuals := put_all va_id m_virtual ids_virtual (st_virtuals s) \<rparr>) ss"
  "fold apply_update (table_updates DU_Lease m_lease ids_lease) ss =
    on_state (\<lambda>s. s\<lparr> st_leases := put_all ls_id m_lease ids_lease (st_leases s) \<rparr>) ss"
  "fold apply_update (table_updates DU_Assignment m_assignment ids_assignment) ss =
    on_state (\<lambda>s. s\<lparr> st_assignments := put_all as_id m_assignment ids_assignment (st_assignments s) \<rparr>) ss"
  "fold apply_update (table_updates DU_Migration m_migration ids_migration) ss =
    on_state (\<lambda>s. s\<lparr> st_migrations := put_all (\<lambda>m. mp_id (mg_plan m)) m_migration ids_migration (st_migrations s) \<rparr>) ss"
  "fold apply_update (table_updates DU_Evidence m_evidence ids_evidence) ss =
    on_state (\<lambda>s. s\<lparr> st_evidence := put_all ev_id m_evidence ids_evidence (st_evidence s) \<rparr>) ss"
  subgoal by (induction ids_tenant arbitrary: ss) (simp_all add: table_updates_def put_all_def on_state_def split: option.split)
  subgoal by (induction ids_physical arbitrary: ss) (simp_all add: table_updates_def put_all_def on_state_def split: option.split)
  subgoal by (induction ids_backing arbitrary: ss) (simp_all add: table_updates_def put_all_def on_state_def split: option.split)
  subgoal by (induction ids_virtual arbitrary: ss) (simp_all add: table_updates_def put_all_def on_state_def split: option.split)
  subgoal by (induction ids_lease arbitrary: ss) (simp_all add: table_updates_def put_all_def on_state_def split: option.split)
  subgoal by (induction ids_assignment arbitrary: ss) (simp_all add: table_updates_def put_all_def on_state_def split: option.split)
  subgoal by (induction ids_migration arbitrary: ss) (simp_all add: table_updates_def put_all_def on_state_def split: option.split)
  subgoal by (induction ids_evidence arbitrary: ss) (simp_all add: table_updates_def put_all_def on_state_def split: option.split)
  done

lemma fold_logs:
  "fold apply_update (map DU_Audit as) ss = ss\<lparr> ss_audit := fold (\<lambda>y l. append_bounded kAuditCapacity l [y]) as (ss_audit ss) \<rparr>"
  "fold apply_update (map DU_Decision ds) ss =
    ss\<lparr> ss_decisions := fold (\<lambda>y l. append_bounded kDecisionCapacity l [y]) ds (ss_decisions ss) \<rparr>"
  "fold apply_update (map DU_Request rs) ss =
    ss\<lparr> ss_requests := fold (\<lambda>y l. append_bounded kRequestWindowCapacity l [y]) rs (ss_requests ss) \<rparr>"
  subgoal by (induction as arbitrary: ss) simp_all
  subgoal by (induction ds arbitrary: ss) simp_all
  subgoal by (induction rs arbitrary: ss) simp_all
  done

lemma advances_fold:
  assumes "advances ss0 g ss" and "ids_match (ss_state ss)" and "logs_bounded ss0"
  shows "fold apply_update (updates_of ss g) ss0 = ss"
proof -
  note a = assms(1) [unfolded advances_def Let_def]
  have tables:
    "put_all tn_id (st_tenants (ss_state ss)) (sg_tenants g) (st_tenants (ss_state ss0)) = st_tenants (ss_state ss)"
    "put_all pd_id (st_physical (ss_state ss)) (sg_physical g) (st_physical (ss_state ss0)) = st_physical (ss_state ss)"
    "put_all bk_id (st_backings (ss_state ss)) (sg_backings g) (st_backings (ss_state ss0)) = st_backings (ss_state ss)"
    "put_all va_id (st_virtuals (ss_state ss)) (sg_virtuals g) (st_virtuals (ss_state ss0)) = st_virtuals (ss_state ss)"
    "put_all ls_id (st_leases (ss_state ss)) (sg_leases g) (st_leases (ss_state ss0)) = st_leases (ss_state ss)"
    "put_all as_id (st_assignments (ss_state ss)) (sg_assignments g) (st_assignments (ss_state ss0)) = st_assignments (ss_state ss)"
    "put_all (\<lambda>m. mp_id (mg_plan m)) (st_migrations (ss_state ss)) (sg_migrations g) (st_migrations (ss_state ss0)) = st_migrations (ss_state ss)"
    "put_all ev_id (st_evidence (ss_state ss)) (sg_evidence g) (st_evidence (ss_state ss0)) = st_evidence (ss_state ss)"
    using a assms(2) by (simp_all add: put_all_advances ids_match_def)
  have logs: "fold (\<lambda>y l. append_bounded kAuditCapacity l [y]) (sg_audit g) (ss_audit ss0) = ss_audit ss"
    "fold (\<lambda>y l. append_bounded kDecisionCapacity l [y]) (sg_decisions g) (ss_decisions ss0) = ss_decisions ss"
    "fold (\<lambda>y l. append_bounded kRequestWindowCapacity l [y]) (sg_requests g) (ss_requests ss0) = ss_requests ss"
    using a assms(3) by (simp_all add: append_bounded_fold logs_bounded_def)
  have "ss_state (fold apply_update (updates_of ss g) ss0) = ss_state ss"
    using a by (intro vstate.equality)
      (simp_all add: updates_of_def Let_def fold_tables fold_logs on_state_def tables header_of_def logs_beside_def)
  then show ?thesis
    using a by (intro stored_state.equality)
      (simp_all add: updates_of_def Let_def fold_tables fold_logs on_state_def logs)
qed

section \<open>The contract of a durable store\<close>

text \<open>What a store can take: a state whose snapshot can be read back, and records that replay can read back.\<close>

definition storable :: "stored_state \<Rightarrow> bool" where
  "storable ss \<longleftrightarrow> well_formed (ss_state ss) \<and> logs_beside ss \<and> logs_bounded ss \<and> snapshot_fits ss \<and>
    length (encode_snapshot ss) < 2 ^ 32"

definition recordable :: "stored_state \<Rightarrow> stored_changes \<Rightarrow> bool" where
  "recordable ss g \<longleftrightarrow> storable ss \<and> list_all update_fits (updates_of ss g)"

text \<open>A sequence of writes, up to the first refusal, and the condition that each starts where the last one ended.\<close>

fun write_all ::
  "('io \<Rightarrow> 's \<Rightarrow> stored_state \<Rightarrow> stored_changes \<Rightarrow> status_code \<times> 's) \<Rightarrow> 's \<Rightarrow>
   ('io \<times> stored_state \<times> stored_changes) list \<Rightarrow> status_code \<times> 's" where
  "write_all app st [] = (SC_Ok, st)"
| "write_all app st ((io, ss, g) # ws) = (case app io st ss g of (status, st') \<Rightarrow>
    if status \<noteq> SC_Ok then (status, st') else write_all app st' ws)"

fun linked :: "stored_state \<Rightarrow> ('io \<times> stored_state \<times> stored_changes) list \<Rightarrow> bool" where
  "linked ss0 [] = True"
| "linked ss0 ((io, ss, g) # ws) = (advances ss0 g ss \<and> recordable ss g \<and> linked ss ws)"

fun last_state :: "stored_state \<Rightarrow> ('io \<times> stored_state \<times> stored_changes) list \<Rightarrow> stored_state" where
  "last_state ss0 [] = ss0"
| "last_state ss0 ((io, ss, g) # ws) = last_state ss ws"

locale durable_contract =
  fixes app :: "'io \<Rightarrow> 's \<Rightarrow> stored_state \<Rightarrow> stored_changes \<Rightarrow> status_code \<times> 's"
    and compact :: "'io \<Rightarrow> 's \<Rightarrow> stored_state \<Rightarrow> status_code \<times> 's"
    and load :: "'s \<Rightarrow> stored_state result"
    and holds :: "'s \<Rightarrow> stored_state \<Rightarrow> bool"
  assumes app_holds: "holds st ss0 \<Longrightarrow> advances ss0 g ss \<Longrightarrow> recordable ss g \<Longrightarrow>
      fst (app io st ss g) = SC_Ok \<Longrightarrow> holds (snd (app io st ss g)) ss"
    and compact_holds: "holds st ss0 \<Longrightarrow> storable ss \<Longrightarrow> fst (compact io st ss) = SC_Ok \<Longrightarrow> holds (snd (compact io st ss)) ss"
    and load_holds: "holds st ss \<Longrightarrow> validate_state (ss_state ss) = SC_Ok \<Longrightarrow> load st = Inr ss"
begin

lemma writes_hold:
  "holds st ss0 \<Longrightarrow> linked ss0 ws \<Longrightarrow> fst (write_all app st ws) = SC_Ok \<Longrightarrow>
   holds (snd (write_all app st ws)) (last_state ss0 ws)"
proof (induction ws arbitrary: st ss0)
  case (Cons w ws)
  obtain io ss g where w: "w = (io, ss, g)" by (cases w)
  obtain status st' where a: "app io st ss g = (status, st')" by fastforce
  have "status = SC_Ok" using Cons.prems(3) by (simp add: w a split: if_splits)
  then have "holds st' ss" using app_holds [of st ss0 g ss io] Cons.prems(1,2) by (simp add: w a)
  then show ?case using Cons.IH [of st' ss] Cons.prems(2,3) \<open>status = SC_Ok\<close> by (simp add: w a)
qed simp

lemma writes_reload:
  "holds st ss0 \<Longrightarrow> linked ss0 ws \<Longrightarrow> fst (write_all app st ws) = SC_Ok \<Longrightarrow>
   validate_state (ss_state (last_state ss0 ws)) = SC_Ok \<Longrightarrow> load (snd (write_all app st ws)) = Inr (last_state ss0 ws)"
  by (rule load_holds [OF writes_hold])

lemma compacted_reload:
  "holds st ss0 \<Longrightarrow> storable ss \<Longrightarrow> fst (compact io st ss) = SC_Ok \<Longrightarrow> validate_state (ss_state ss) = SC_Ok \<Longrightarrow>
   load (snd (compact io st ss)) = Inr ss"
  by (rule load_holds [OF compact_holds])

end

subsection \<open>The memory store keeps it\<close>

definition memory_holds :: "memory_store \<Rightarrow> stored_state \<Rightarrow> bool" where
  "memory_holds ms ss \<longleftrightarrow> ms_opened ms \<and> ms_state ms = ss \<and> logs_bounded ss"

lemma apply_encoded_updates:
  "list_all update_fits us \<Longrightarrow> apply_encoded (map change_of us) ss = (SC_Ok, fold apply_update us ss)"
  by (induction us arbitrary: ss) (simp_all add: update_fits_def apply_record_change)

lemma recordable_updates:
  assumes "recordable ss g" and "advances ss0 g ss" and "logs_bounded ss0"
  shows "list_all update_fits (updates_of ss g)" "encode_changes ss g = map change_of (updates_of ss g)"
    "fold apply_update (updates_of ss g) ss0 = ss" "updates_of ss g \<noteq> []" "changes_count g \<noteq> 0"
  using assms advances_fold [OF assms(2)]
  by (simp_all add: recordable_def storable_def well_formed_def encode_changes_updates advances_def updates_of_def Let_def
      changes_count_def)

interpretation memory: durable_contract "\<lambda>_ :: unit. memory_apply" "\<lambda>_ :: unit. memory_compact" memory_load memory_holds
proof
  fix st ss0 g ss
  assume h: "memory_holds st ss0" and a: "advances ss0 g ss" and r: "recordable ss g"
  then show "memory_holds (snd (memory_apply st ss g)) ss"
    using recordable_updates [OF r a]
    by (simp add: memory_holds_def memory_apply_def apply_encoded_updates recordable_def storable_def)
qed (simp_all add: memory_holds_def memory_compact_def memory_load_def storable_def)

subsection \<open>The file store keeps it\<close>

text \<open>What the two files say: the state of the snapshot, or an empty one, with the complete records of the journal
  applied in order.\<close>

definition snapshot_holds :: "bytes option \<Rightarrow> stored_state \<Rightarrow> bool" where
  "snapshot_holds file base \<longleftrightarrow>
    (case file of None \<Rightarrow> base = empty_store_state | Some bs \<Rightarrow> decode_snapshot_file bs = Inr base)"

definition journal_holds :: "bytes option \<Rightarrow> durable_update list \<Rightarrow> bool" where
  "journal_holds file us \<longleftrightarrow> list_all update_fits us \<and>
    (case file of None \<Rightarrow> us = [] | Some bs \<Rightarrow> bs = journal_header_bytes @ batch us)"

definition disk_holds :: "disk \<Rightarrow> stored_state \<Rightarrow> bool" where
  "disk_holds dk ss \<longleftrightarrow> (\<exists>base us. snapshot_holds (dk_snapshot dk) base \<and> journal_holds (dk_journal dk) us \<and>
    ss = fold apply_update us base)"

definition file_holds :: "file_store \<times> disk \<Rightarrow> stored_state \<Rightarrow> bool" where
  "file_holds st ss \<longleftrightarrow> so_enabled (fs_options (fst st)) \<and> fs_opened (fst st) \<and>
    (fs_journal_initialized (fst st) \<longleftrightarrow> dk_journal (snd st) \<noteq> None) \<and> disk_holds (snd st) ss \<and> logs_bounded ss"

lemma snapshot_file_roundtrip:
  assumes "storable ss"
  shows "decode_snapshot_file (encode_snapshot_file ss) = Inr ss"
proof -
  have "unat (of_nat (length (encode_snapshot ss)) :: u32) = length (encode_snapshot ss)"
    using assms by (simp add: storable_def unsigned_of_nat take_bit_nat_eq_self)
  moreover have "decode_snapshot (encode_snapshot ss) = Inr ss"
    using assms decode_encoded [of ss "[]"] by (simp add: storable_def)
  ultimately show ?thesis
    by (simp add: decode_snapshot_file_def encode_snapshot_file_def Let_def journal_constants)
qed

lemma length_journal_header [simp]: "length journal_header_bytes = kJournalHeaderSize"
  by (simp add: journal_header_bytes_def journal_constants)

lemma replay_journal_header:
  "replay_journal torn (journal_header_bytes @ bs) ss = replay_records torn bs ss"
proof -
  have "get_u32 (journal_header_bytes @ bs) 0 = kJournalMagic" "get_u32 (journal_header_bytes @ bs) 4 = schema_version"
    by (simp_all add: journal_header_bytes_def)
  then show ?thesis by (simp add: replay_journal_def)
qed

lemma journal_header_nonempty [simp]: "journal_header_bytes \<noteq> []"
  by (simp add: journal_constants flip: length_greater_0_conv)

text \<open>Loading a disk with a possibly incomplete journal.\<close>

lemma load_partial:
  assumes "snapshot_holds (dk_snapshot dk) base" and "list_all update_fits us" and "so_enabled (fs_options fs)"
    and "dk_journal dk = Some (journal_header_bytes @ take n (batch us))"
  shows "fst (file_load io_ok (fs, dk)) =
    (let ss = fold apply_update (fst (complete_records n us)) base in
     if snd (complete_records n us) \<or> so_torn_tail (fs_options fs) = Torn_Discard then checked_state ss else Inl SC_TruncatedState)"
proof -
  obtain b where "load_snapshot io_ok dk = Inr (base, b)"
    using assms(1) by (cases "dk_snapshot dk") (auto simp: snapshot_holds_def load_snapshot_def io_ok_def)
  moreover have "read_file_bytes (io_read_journal io_ok) (dk_journal dk) = Inr (journal_header_bytes @ take n (batch us), True)"
    by (simp add: assms(4) io_ok_def)
  ultimately show ?thesis
    using assms(3) by (cases "so_torn_tail (fs_options fs)")
      (simp_all add: file_load_def replay_journal_header replay_partial [OF assms(2)] handle_torn_def Let_def)
qed

lemma file_load_holds:
  assumes "file_holds (fs, dk) ss" and "validate_state (ss_state ss) = SC_Ok"
  shows "fst (file_load io_ok (fs, dk)) = Inr ss"
proof -
  obtain base us where h: "snapshot_holds (dk_snapshot dk) base" "journal_holds (dk_journal dk) us" "ss = fold apply_update us base"
    using assms(1) by (auto simp: file_holds_def disk_holds_def)
  have e: "so_enabled (fs_options fs)" using assms(1) by (simp add: file_holds_def)
  show ?thesis
  proof (cases "dk_journal dk")
    case None
    then have "ss = base" using h by (simp add: journal_holds_def)
    then show ?thesis using h(1) e None assms(2)
      by (cases "dk_snapshot dk") (auto simp: file_load_def load_snapshot_def snapshot_holds_def io_ok_def checked_state_def)
  next
    case (Some bs)
    then have "bs = journal_header_bytes @ take (length (batch us)) (batch us)" "list_all update_fits us"
      using h(2) by (simp_all add: journal_holds_def)
    then show ?thesis using load_partial [OF h(1) _ e, of us "length (batch us)"] Some assms(2) h(3)
      by (simp add: complete_all checked_state_def)
  qed
qed

lemma init_journal_holds:
  assumes "file_holds st ss" and "fst (init_journal io st) = SC_Ok"
  shows "file_holds (snd (init_journal io st)) ss \<and> dk_journal (snd (snd (init_journal io st))) \<noteq> None"
proof -
  obtain fs dk where st: "st = (fs, dk)" by fastforce
  show ?thesis
  proof (cases "fs_journal_initialized fs")
    case True
    then show ?thesis using assms by (simp add: st init_journal_def file_holds_def)
  next
    case False
    then have "dk_journal dk = None" using assms(1) by (simp add: st file_holds_def)
    moreover obtain base where "snapshot_holds (dk_snapshot dk) base" "ss = base"
      using assms(1) calculation by (auto simp: st file_holds_def disk_holds_def journal_holds_def)
    then have "disk_holds (dk\<lparr> dk_journal := Some journal_header_bytes \<rparr>) ss"
      unfolding disk_holds_def by (intro exI [of _ base] exI [of _ "[]"]) (simp add: journal_holds_def batch_def)
    ultimately show ?thesis using False assms
      by (auto simp: st init_journal_def file_holds_def write_file_atomic_def split: if_splits)
  qed
qed

lemma batch_append: "batch (us @ vs) = batch us @ batch vs"
  by (simp add: batch_def)

lemma append_batch_bytes:
  "append_batch io (map change_of us) (fs, dk) =
    (let (status, journal) = append_file_bytes (io_append io) (batch us) (dk_journal dk) in
     if status \<noteq> SC_Ok then (status, fs, dk\<lparr> dk_journal := journal \<rparr>)
     else (SC_Ok, fs\<lparr> fs_write_count := fs_write_count fs + of_nat (length us),
             fs_bytes_written := fs_bytes_written fs + of_nat (length (batch us)),
             fs_journal_bytes := fs_journal_bytes fs + length (batch us) \<rparr>,
           dk\<lparr> dk_journal := journal \<rparr>))"
  by (simp add: append_batch_def batch_def comp_def Let_def split: prod.split)

lemma batch_nonempty: "us \<noteq> [] \<Longrightarrow> batch us \<noteq> []"
  by (cases us) (simp_all add: batch_def length_frame journal_constants flip: length_greater_0_conv)

lemma append_batch_holds:
  assumes "file_holds st ss0" and "dk_journal (snd st) \<noteq> None" and "list_all update_fits us" and "us \<noteq> []"
    and "fst (append_batch io (map change_of us) st) = SC_Ok" and "logs_bounded (fold apply_update us ss0)"
  shows "file_holds (snd (append_batch io (map change_of us) st)) (fold apply_update us ss0)"
proof -
  obtain fs dk where st: "st = (fs, dk)" by fastforce
  obtain base vs where h: "snapshot_holds (dk_snapshot dk) base" "list_all update_fits vs"
      "dk_journal dk = Some (journal_header_bytes @ batch vs)" "ss0 = fold apply_update vs base"
    using assms(1,2) by (auto simp: st file_holds_def disk_holds_def journal_holds_def)
  have f: "append_file_bytes (io_append io) (batch us) (dk_journal dk) = (SC_Ok, Some (journal_header_bytes @ batch (vs @ us)))"
    using assms(5) batch_nonempty [OF assms(4)]
    by (cases "io_append io") (auto simp: st append_batch_bytes append_file_bytes_def h(3) batch_append Let_def)
  have "journal_holds (Some (journal_header_bytes @ batch (vs @ us))) (vs @ us)"
    using h(2) assms(3) by (simp add: journal_holds_def)
  moreover have "fold apply_update us ss0 = fold apply_update (vs @ us) base" by (simp add: h(4))
  ultimately have "disk_holds (dk\<lparr> dk_journal := Some (journal_header_bytes @ batch (vs @ us)) \<rparr>) (fold apply_update us ss0)"
    unfolding disk_holds_def using h(1) by (intro exI [of _ base] exI [of _ "vs @ us"]) simp
  then show ?thesis using assms(1,2,6) f by (simp add: st append_batch_bytes file_holds_def)
qed

lemma file_compact_holds:
  assumes "file_holds st ss0" and "storable ss" and "fst (file_compact io st ss) = SC_Ok"
  shows "file_holds (snd (file_compact io st ss)) ss"
proof -
  obtain fs dk where st: "st = (fs, dk)" by fastforce
  have "journal_holds (Some journal_header_bytes) []" "snapshot_holds (Some (encode_snapshot_file ss)) ss"
    using assms(2) by (simp_all add: journal_holds_def batch_def snapshot_holds_def snapshot_file_roundtrip)
  then have "disk_holds (dk\<lparr> dk_snapshot := Some (encode_snapshot_file ss), dk_journal := Some journal_header_bytes \<rparr>) ss"
    unfolding disk_holds_def by (intro exI [of _ ss] exI [of _ "[]"]) simp
  then show ?thesis using assms
    by (auto simp: st file_compact_def file_holds_def write_file_atomic_def storable_def Let_def split: if_splits)
qed

lemma file_apply_holds:
  assumes "file_holds st ss0" and "advances ss0 g ss" and "recordable ss g" and "fst (file_apply io st ss g) = SC_Ok"
  shows "file_holds (snd (file_apply io st ss g)) ss"
proof -
  obtain fs dk where st: "st = (fs, dk)" by fastforce
  have "logs_bounded ss0" using assms(1) by (simp add: file_holds_def)
  note u = recordable_updates [OF assms(3,2) this]
  obtain s1 st1 where i: "init_journal io st = (s1, st1)" by (cases "init_journal io st")
  obtain s2 st2 where a: "append_batch io (map change_of (updates_of ss g)) st1 = (s2, st2)"
    by (cases "append_batch io (map change_of (updates_of ss g)) st1")
  have out: "file_apply io st ss g = (if s1 \<noteq> SC_Ok then (s1, st1) else if s2 \<noteq> SC_Ok then (s2, st2)
      else if fs_journal_bytes (fst st2) > compaction_threshold (fst st2) then file_compact io st2 ss else (SC_Ok, st2))"
    using assms(1) u(2,4,5) i a by (simp add: st file_apply_def file_holds_def)
  have ok: "s1 = SC_Ok" "s2 = SC_Ok" using assms(4) out by (auto split: if_splits)
  have "file_holds st1 ss0 \<and> dk_journal (snd st1) \<noteq> None" using init_journal_holds [OF assms(1), of io] i ok by simp
  then have "file_holds st2 ss"
    using append_batch_holds [of st1 ss0 "updates_of ss g" io] u a ok assms(3) by (simp add: recordable_def storable_def)
  then show ?thesis using out ok file_compact_holds [of st2 ss ss io] assms(3,4) by (auto simp: recordable_def split: if_splits)
qed

interpretation files: durable_contract file_apply file_compact "\<lambda>st. fst (file_load io_ok st)" file_holds
  by unfold_locales (auto intro: file_apply_holds file_compact_holds file_load_holds)

section \<open>What is written is what is loaded\<close>


text \<open>The same writes for the store in memory, which has nothing to ask the operating system.\<close>

definition memory_writes :: "('io \<times> stored_state \<times> stored_changes) list \<Rightarrow> (unit \<times> stored_state \<times> stored_changes) list" where
  "memory_writes ws = map (\<lambda>(io, w). ((), w)) ws"

lemma memory_writes_linked: "linked ss0 (memory_writes ws) = linked ss0 ws" "last_state ss0 (memory_writes ws) = last_state ss0 ws"
  by (induction ws arbitrary: ss0; force simp: memory_writes_def)+

lemma memory_accepts:
  "memory_holds ms ss0 \<Longrightarrow> linked ss0 ws \<Longrightarrow> fst (write_all (\<lambda>_ :: unit. memory_apply) ms ws) = SC_Ok"
proof (induction ws arbitrary: ms ss0)
  case (Cons w ws)
  obtain io ss g where w: "w = (io, ss, g)" by (cases w)
  have a: "advances ss0 g ss" "recordable ss g" "linked ss ws" using Cons.prems(2) by (simp_all add: w)
  have ok: "fst (memory_apply ms ss g) = SC_Ok"
    using Cons.prems(1) recordable_updates [OF a(2,1)]
    by (simp add: memory_holds_def memory_apply_def apply_encoded_updates)
  have "memory_holds (snd (memory_apply ms ss g)) ss" by (rule memory.app_holds [OF Cons.prems(1) a(1,2) ok])
  then show ?case using Cons.IH [OF _ a(3)] ok by (simp add: w split_beta)
qed simp


section \<open>Crashes\<close>

text \<open>C11: A write cut off after any number of bytes is reported as a failure, and what is loaded afterwards is the state
  before it with the first \<open>k\<close> of its records applied, for some \<open>k\<close>. If the cut fell inside a record and the store
  is set to reject torn tails, loading is refused instead. Nothing else is ever loaded.\<close>

theorem torn_append_recovers_prefix:
  assumes "file_holds (fs, dk) ss0" and "fs_journal_initialized fs" and "advances ss0 g ss" and "recordable ss g"
    and "io_append io = Append_Stopped n" and "file_apply io (fs, dk) ss g = (status, fs', dk')"
  shows "status = SC_IoFailure \<and> (\<exists>k \<le> length (updates_of ss g).
    let loaded = fst (file_load io_ok (fs', dk')); kept = fold apply_update (take k (updates_of ss g)) ss0 in
    loaded = checked_state kept \<or> so_torn_tail (fs_options fs) = Torn_Reject \<and> loaded = Inl SC_TruncatedState)"
proof -
  let ?us = "updates_of ss g"
  have "logs_bounded ss0" using assms(1) by (simp add: file_holds_def)
  note u = recordable_updates [OF assms(4,3) this]
  obtain base vs where h: "snapshot_holds (dk_snapshot dk) base" "list_all update_fits vs"
      "dk_journal dk = Some (journal_header_bytes @ batch vs)" "ss0 = fold apply_update vs base"
    using assms(1,2) by (auto simp: file_holds_def disk_holds_def journal_holds_def)
  have out: "status = SC_IoFailure" "fs' = fs" "dk' = dk\<lparr> dk_journal := Some (journal_header_bytes @ batch vs @ take n (batch ?us)) \<rparr>"
    using assms u h(3) batch_nonempty [OF u(4)]
    by (auto simp: file_apply_def file_holds_def init_journal_def append_batch_bytes append_file_bytes_def Let_def)
  let ?n = "length (batch vs) + n"
  have journal: "dk_journal dk' = Some (journal_header_bytes @ take ?n (batch (vs @ ?us)))"
    by (simp add: out(3) batch_append)
  have enabled: "so_enabled (fs_options fs)" using assms(1) by (simp add: file_holds_def)
  have "fst (complete_records ?n (vs @ ?us)) = vs @ fst (complete_records n ?us)" by (rule complete_whole)
  moreover obtain k where k: "k \<le> length ?us" "fst (complete_records n ?us) = take k ?us" using complete_prefix by blast
  ultimately have "fold apply_update (fst (complete_records ?n (vs @ ?us))) base = fold apply_update (take k ?us) ss0"
    by (simp add: h(4))
  moreover have "fst (file_load io_ok (fs', dk')) =
    (let kept = fold apply_update (fst (complete_records ?n (vs @ ?us))) base in
     if snd (complete_records ?n (vs @ ?us)) \<or> so_torn_tail (fs_options fs) = Torn_Discard then checked_state kept else Inl SC_TruncatedState)"
    using load_partial [of dk' base "vs @ ?us" fs' ?n] h(1,2) u(1) enabled journal by (simp add: out)
  ultimately show ?thesis using k(1) out(1) by (cases "so_torn_tail (fs_options fs)") (auto simp: Let_def intro!: exI [of _ k])
qed

lemma crc32c_update: "j < length bs \<Longrightarrow> b \<noteq> bs ! j \<Longrightarrow> crc32c (bs[j := b]) \<noteq> crc32c bs"
  using crc32c_byte [of "take j bs" b "drop (Suc j) bs" "bs ! j"] by (simp add: upd_conv_take_nth_drop id_take_nth_drop [symmetric])

subsection \<open>Replaying twice\<close>

text \<open>The entries a list of updates puts into each table.\<close>

fun tenants_put :: "durable_update \<Rightarrow> (tn_id \<times> tenant_record) option" where
  "tenants_put (DU_Tenant r) = Some (tn_id r, r)"
| "tenants_put _ = None"

fun physical_put :: "durable_update \<Rightarrow> (pd_id \<times> physical_record) option" where
  "physical_put (DU_Physical r) = Some (pd_id r, r)"
| "physical_put _ = None"

fun backings_put :: "durable_update \<Rightarrow> (bk_id \<times> backing_record) option" where
  "backings_put (DU_Backing r) = Some (bk_id r, r)"
| "backings_put _ = None"

fun virtuals_put :: "durable_update \<Rightarrow> (va_id \<times> virtual_record) option" where
  "virtuals_put (DU_Virtual r) = Some (va_id r, r)"
| "virtuals_put _ = None"

fun leases_put :: "durable_update \<Rightarrow> (ls_id \<times> lease_record) option" where
  "leases_put (DU_Lease r) = Some (ls_id r, r)"
| "leases_put _ = None"

fun assignments_put :: "durable_update \<Rightarrow> (as_id \<times> backing_assignment) option" where
  "assignments_put (DU_Assignment r) = Some (as_id r, r)"
| "assignments_put _ = None"

fun migrations_put :: "durable_update \<Rightarrow> (mg_id \<times> migration_record) option" where
  "migrations_put (DU_Migration r) = Some (mp_id (mg_plan r), r)"
| "migrations_put _ = None"

fun evidence_put :: "durable_update \<Rightarrow> (ev_id \<times> evidence_record) option" where
  "evidence_put (DU_Evidence r) = Some (ev_id r, r)"
| "evidence_put _ = None"

definition put_entries :: "('k::linorder \<times> 'v) list \<Rightarrow> ('k, 'v) omap \<Rightarrow> ('k, 'v) omap" where
  "put_entries es m = fold (\<lambda>(k, v). om_put k v) es m"

lemma put_entries_find: "om_find (put_entries es m) = om_find m ++ map_of (rev es)"
  unfolding put_entries_def by (induction es arbitrary: m) (auto simp: map_add_def fun_eq_iff split: option.split)

lemma put_entries_sorted: "om_sorted m \<Longrightarrow> om_sorted (put_entries es m)"
  unfolding put_entries_def by (induction es arbitrary: m) auto

lemma put_entries_twice: "om_sorted (put_entries es m) \<Longrightarrow> put_entries es (put_entries es m) = put_entries es m"
  by (rule om_extensional) (auto simp: put_entries_sorted put_entries_find map_add_def fun_eq_iff split: option.split)

lemma apply_update_puts:
  "st_tenants (ss_state (apply_update u ss)) =
    (case tenants_put u of None \<Rightarrow> st_tenants (ss_state ss) | Some (k, v) \<Rightarrow> om_put k v (st_tenants (ss_state ss)))"
  "st_physical (ss_state (apply_update u ss)) =
    (case physical_put u of None \<Rightarrow> st_physical (ss_state ss) | Some (k, v) \<Rightarrow> om_put k v (st_physical (ss_state ss)))"
  "st_backings (ss_state (apply_update u ss)) =
    (case backings_put u of None \<Rightarrow> st_backings (ss_state ss) | Some (k, v) \<Rightarrow> om_put k v (st_backings (ss_state ss)))"
  "st_virtuals (ss_state (apply_update u ss)) =
    (case virtuals_put u of None \<Rightarrow> st_virtuals (ss_state ss) | Some (k, v) \<Rightarrow> om_put k v (st_virtuals (ss_state ss)))"
  "st_leases (ss_state (apply_update u ss)) =
    (case leases_put u of None \<Rightarrow> st_leases (ss_state ss) | Some (k, v) \<Rightarrow> om_put k v (st_leases (ss_state ss)))"
  "st_assignments (ss_state (apply_update u ss)) =
    (case assignments_put u of None \<Rightarrow> st_assignments (ss_state ss) | Some (k, v) \<Rightarrow> om_put k v (st_assignments (ss_state ss)))"
  "st_migrations (ss_state (apply_update u ss)) =
    (case migrations_put u of None \<Rightarrow> st_migrations (ss_state ss) | Some (k, v) \<Rightarrow> om_put k v (st_migrations (ss_state ss)))"
  "st_evidence (ss_state (apply_update u ss)) =
    (case evidence_put u of None \<Rightarrow> st_evidence (ss_state ss) | Some (k, v) \<Rightarrow> om_put k v (st_evidence (ss_state ss)))"
  by (cases u; simp add: on_state_def)+

lemma fold_puts:
  "st_tenants (ss_state (fold apply_update us ss)) = put_entries (List.map_filter tenants_put us) (st_tenants (ss_state ss))"
  "st_physical (ss_state (fold apply_update us ss)) = put_entries (List.map_filter physical_put us) (st_physical (ss_state ss))"
  "st_backings (ss_state (fold apply_update us ss)) = put_entries (List.map_filter backings_put us) (st_backings (ss_state ss))"
  "st_virtuals (ss_state (fold apply_update us ss)) = put_entries (List.map_filter virtuals_put us) (st_virtuals (ss_state ss))"
  "st_leases (ss_state (fold apply_update us ss)) = put_entries (List.map_filter leases_put us) (st_leases (ss_state ss))"
  "st_assignments (ss_state (fold apply_update us ss)) = put_entries (List.map_filter assignments_put us) (st_assignments (ss_state ss))"
  "st_migrations (ss_state (fold apply_update us ss)) = put_entries (List.map_filter migrations_put us) (st_migrations (ss_state ss))"
  "st_evidence (ss_state (fold apply_update us ss)) = put_entries (List.map_filter evidence_put us) (st_evidence (ss_state ss))"
  by (induction us arbitrary: ss; simp add: put_entries_def map_filter_simps apply_update_puts split: option.split)+

fun header_put :: "durable_update \<Rightarrow> vstate option" where
  "header_put (DU_Header h) = Some h"
| "header_put _ = None"

lemma header_of_eq:
  "header_of s = header_of t \<longleftrightarrow> st_schema s = st_schema t \<and> st_next_sequence s = st_next_sequence t \<and> st_epoch s = st_epoch t \<and>
    st_policy_generation s = st_policy_generation t \<and> st_policy s = st_policy t \<and> st_accounting s = st_accounting t"
  by (auto simp: header_of_def initial_state_def)

lemma apply_update_header:
  "header_of (ss_state (apply_update u ss)) = (case header_put u of None \<Rightarrow> header_of (ss_state ss) | Some h \<Rightarrow> header_of h)"
  by (cases u) (simp_all add: on_state_def header_of_def)

lemma fold_header:
  "header_of (ss_state (fold apply_update us ss)) = fold (\<lambda>h _. header_of h) (List.map_filter header_put us) (header_of (ss_state ss))"
  by (induction us arbitrary: ss) (simp_all add: map_filter_simps apply_update_header split: option.split)

lemma fold_last_twice: "fold (\<lambda>h _. f h) hs (fold (\<lambda>h _. f h) hs a) = fold (\<lambda>h _. f h) hs a"
  by (induction hs rule: rev_induct) simp_all

lemma apply_update_logs:
  "st_audit (ss_state (apply_update u ss)) = st_audit (ss_state ss)"
  "st_decisions (ss_state (apply_update u ss)) = st_decisions (ss_state ss)"
  "st_requests (ss_state (apply_update u ss)) = st_requests (ss_state ss)"
  by (cases u; simp add: on_state_def)+

lemma fold_state_logs:
  "st_audit (ss_state (fold apply_update us ss)) = st_audit (ss_state ss)"
  "st_decisions (ss_state (fold apply_update us ss)) = st_decisions (ss_state ss)"
  "st_requests (ss_state (fold apply_update us ss)) = st_requests (ss_state ss)"
  by (induction us arbitrary: ss; simp add: apply_update_logs)+

lemma replay_twice:
  assumes "maps_sorted (ss_state (fold apply_update us ss))"
  shows "ss_state (fold apply_update us (fold apply_update us ss)) = ss_state (fold apply_update us ss)"
proof -
  have "header_of (ss_state (fold apply_update us (fold apply_update us ss))) = header_of (ss_state (fold apply_update us ss))"
    by (simp only: fold_header fold_last_twice)
  then show ?thesis using assms unfolding header_of_eq
    by (intro vstate.equality) (simp_all add: fold_puts put_entries_twice maps_sorted_def fold_state_logs)
qed

text \<open>C12: A compaction that wrote the new snapshot and then failed, or crashed, before it truncated the journal loses
  nothing and confuses nothing: the journal's records are replayed over a snapshot that has them already, and tables
  and header come out the same. Only the logs may hold entries twice.\<close>

theorem interrupted_compaction_keeps_state:
  assumes "file_holds (fs, dk) ss" and "storable ss" and "io_snapshot io" and "\<not> io_truncate io"
    and "file_compact io (fs, dk) ss = (status, fs', dk')"
  shows "status = SC_IoFailure \<and>
    (\<exists>ss'. fst (file_load io_ok (fs', dk')) = checked_state ss' \<and> ss_state ss' = ss_state ss)"
proof -
  obtain base us where h: "journal_holds (dk_journal dk) us" "ss = fold apply_update us base"
    using assms(1) by (auto simp: file_holds_def disk_holds_def)
  have enabled: "so_enabled (fs_options fs)" "fs_opened fs" using assms(1) by (simp_all add: file_holds_def)
  then have out: "status = SC_IoFailure" "fs_options fs' = fs_options fs" "dk_journal dk' = dk_journal dk"
      "dk_snapshot dk' = Some (encode_snapshot_file ss)"
    using assms(3-5) by (auto simp: file_compact_def write_file_atomic_def Let_def)
  have snapshot: "snapshot_holds (dk_snapshot dk') ss"
    using assms(2) by (simp add: out(4) snapshot_holds_def snapshot_file_roundtrip)
  show ?thesis
  proof (cases "dk_journal dk")
    case None
    then have "fst (file_load io_ok (fs', dk')) = checked_state ss"
      using enabled(1) assms(2)
      by (simp add: file_load_def load_snapshot_def io_ok_def out snapshot_file_roundtrip)
    then show ?thesis using out(1) by blast
  next
    case (Some bs)
    then have us: "list_all update_fits us" "dk_journal dk' = Some (journal_header_bytes @ take (length (batch us)) (batch us))"
      using h(1) by (simp_all add: journal_holds_def out(3))
    have "fst (file_load io_ok (fs', dk')) = checked_state (fold apply_update us ss)"
      using load_partial [OF snapshot us(1) _ us(2)] enabled(1) by (simp add: out(2) complete_all Let_def)
    moreover have "ss_state (fold apply_update us ss) = ss_state ss"
      using replay_twice [of us base] assms(2) by (simp add: h(2) storable_def well_formed_def)
    ultimately show ?thesis using out(1) by blast
  qed
qed

section \<open>Damage\<close>

text \<open>C32: A snapshot in which any one byte was changed, in its header or in its payload, is not loaded.\<close>

theorem damaged_snapshot_refused:
  assumes "length (encode_snapshot ss) < 2 ^ 32" and "i < length (encode_snapshot_file ss)" and "b \<noteq> encode_snapshot_file ss ! i"
  shows "decode_snapshot_file ((encode_snapshot_file ss)[i := b]) \<in>
    Inl ` {SC_CorruptState, SC_TruncatedState, SC_IntegrityFailure}"
proof -
  let ?f = "encode_snapshot_file ss"
  let ?p = "drop 16 ?f"
  have len: "16 \<le> length ?f" by (simp add: encode_snapshot_file_def Let_def)
  have f: "get_u32 ?f 0 = kSnapshotMagic" "get_u32 ?f 4 = schema_version" "unat (get_u32 ?f 8) = length ?f - 16"
      "get_u32 ?f 12 = crc32c ?p"
    using assms(1) by (simp_all add: encode_snapshot_file_def Let_def unsigned_of_nat take_bit_nat_eq_self)
  consider "i < 4" | "4 \<le> i" "i < 8" | "8 \<le> i" "i < 12" | "12 \<le> i" "i < 16" | "16 \<le> i" by linarith
  then show ?thesis
  proof cases
    case 1
    then show ?thesis using get_u32_update [of 0 i ?f b] assms(3) len f
      by (simp add: decode_snapshot_file_def journal_constants)
  next
    case 2
    then show ?thesis using get_u32_update [of 4 i ?f b] assms(3) len f
      by (simp add: decode_snapshot_file_def journal_constants get_u32_update_other)
  next
    case 3
    then have "get_u32 (?f[i := b]) 8 \<noteq> get_u32 ?f 8" using get_u32_update [of 8 i ?f b] assms(3) len by simp
    then have "unat (get_u32 (?f[i := b]) 8) \<noteq> length ?f - 16" using f(3) unsigned_word_eqI by metis
    then show ?thesis using 3 len f by (auto simp: decode_snapshot_file_def journal_constants get_u32_update_other)
  next
    case 4
    then show ?thesis using get_u32_update [of 12 i ?f b] assms(3) len f
      by (simp add: decode_snapshot_file_def journal_constants get_u32_update_other)
  next
    case 5
    then have "crc32c (drop 16 (?f[i := b])) \<noteq> crc32c ?p"
      using crc32c_update [of "i - 16" ?p b] assms(2,3) by (simp add: drop_update_swap)
    then show ?thesis using 5 len f by (simp add: decode_snapshot_file_def journal_constants get_u32_update_other)
  qed
qed

end
