(* ===== verification/AV_Tenancy.thy ===== *)
theory AV_Tenancy
  imports AV_Transaction
begin

text \<open>
  Tenants (\<open>src/runtime.cpp\<close>, \<open>create_tenant\<close>, \<open>get_tenant\<close>, \<open>list_tenants\<close>, \<open>fence_tenant\<close>,
  \<open>transfer_ownership\<close>). Each operation is its guard (the first failing check), its effect on the open
  transaction, and the handler that composes them.
\<close>

section \<open>Creating a tenant\<close>

definition txt_create_tenant :: string where "txt_create_tenant = ''create_tenant''"

definition create_tenant_guard :: "authority \<Rightarrow> string \<Rightarrow> string \<Rightarrow> impl \<Rightarrow> status_code" where
  "create_tenant_guard auth name subject im = first_error
    [guard_store im, check_epoch auth im, check_policy auth im, check_request auth im,
     refuse_if (name = []) SC_InvalidArgument,
     refuse_if (length name > 256) SC_InvalidArgument,
     refuse_if (length subject > 512) SC_InvalidArgument,
     refuse_if (length (st_tenants (im_state im)) \<ge> unat (pol_max_tenants (st_policy (im_state im)))) SC_LimitExceeded]"

definition new_tenant :: "env \<Rightarrow> string \<Rightarrow> string \<Rightarrow> u64 \<Rightarrow> tenant_record" where
  "new_tenant e name subject n = blank_tenant
    \<lparr> tn_id := Ident n, tn_generation := gen_initial, tn_name := name, tn_external_subject := subject,
      tn_created_at := env_now e, tn_updated_at := env_now e \<rparr>"

definition create_tenant_effect :: "env \<Rightarrow> string \<Rightarrow> string \<Rightarrow> impl \<Rightarrow> tenant_record \<times> impl" where
  "create_tenant_effect e name subject im =
    (let (n, im1) = next_id im; t = new_tenant e name subject n in
     (t, put_tenant (tn_id t) t (touch_tenant (tn_id t) im1)))"

definition create_tenant :: "env \<Rightarrow> authority \<Rightarrow> string \<Rightarrow> string \<Rightarrow> impl \<Rightarrow> tenant_record result \<times> impl" where
  "create_tenant e auth name subject im0 =
    (let ctx = op_context_of txt_create_tenant auth; im = begin_op im0;
         status = create_tenant_guard auth name subject im in
     if status \<noteq> SC_Ok then refuse e ctx status im
     else let (t, im1) = create_tenant_effect e name subject im
       in accept e (adopt_tenant t ctx) AK_Mutation t im1)"

definition get_tenant :: "tn_id \<Rightarrow> impl \<Rightarrow> tenant_record result" where
  "get_tenant i im = (case om_find (st_tenants (im_state im)) i of None \<Rightarrow> Inl SC_NotFound | Some t \<Rightarrow> Inr t)"

definition list_tenants :: "impl \<Rightarrow> tenant_record list" where
  "list_tenants im = om_values (st_tenants (im_state im))"

section \<open>Fencing a tenant\<close>

definition txt_fence_tenant :: string where "txt_fence_tenant = ''fence_tenant''"

definition txt_tenant_fenced :: "tn_id \<Rightarrow> string" where
  "txt_tenant_fenced i = ''tenant '' @ tn_str i @ '' was fenced''"

definition txt_owner_fenced :: "tn_id \<Rightarrow> string" where
  "txt_owner_fenced i = ''owning tenant '' @ tn_str i @ '' was fenced''"

definition fence_tenant_guard :: "authority \<Rightarrow> tn_id \<Rightarrow> tn_gen \<Rightarrow> impl \<Rightarrow> status_code" where
  "fence_tenant_guard auth i g im = first_error
    [guard_store im, check_epoch auth im, check_request auth im,
     (case om_find (st_tenants (im_state im)) i of
        None \<Rightarrow> SC_NotFound
      | Some t \<Rightarrow> first_error [refuse_if (tn_generation t \<noteq> g) SC_StaleTenant, refuse_if (tn_fenced t) SC_TenantFenced])]"

definition fence_owned :: "env \<Rightarrow> tn_id \<Rightarrow> tn_gen \<Rightarrow> va_id \<Rightarrow> impl \<Rightarrow> impl" where
  "fence_owned e i g k im =
    (case om_find (st_virtuals (im_state im)) k of None \<Rightarrow> im
     | Some _ \<Rightarrow> run_steps
       [touch_virtual k,
        upd_virtual k (\<lambda>r. r\<lparr> va_owner_generation := g \<rparr>),
        (\<lambda>im. snd (fence_leases k (txt_tenant_fenced i) (env_now e) im)),
        upd_virtual k (\<lambda>r. if is_executing (va_state r)
          then enter_state LC_Fenced (txt_owner_fenced i) (env_now e) r else r)] im)"

definition fence_tenant_effect :: "env \<Rightarrow> tn_id \<Rightarrow> string \<Rightarrow> impl \<Rightarrow> impl" where
  "fence_tenant_effect e i reason im =
    (let im1 = run_steps
       [touch_tenant i,
        upd_tenant i (\<lambda>t. t\<lparr> tn_fenced := True, tn_fence_reason := reason,
          tn_generation := gen_next (tn_generation t), tn_updated_at := env_now e \<rparr>)] im;
         t = the_tenant im1 i
     in run_steps
       [fold (fence_owned e i (tn_generation t)) (tn_owned t),
        upd_tenant i (\<lambda>t. t\<lparr> tn_active_attachments := 0 \<rparr>),
        recompute_derived_accounting] im1)"

definition fence_tenant :: "env \<Rightarrow> authority \<Rightarrow> tn_id \<Rightarrow> tn_gen \<Rightarrow> string \<Rightarrow> impl \<Rightarrow> unit result \<times> impl" where
  "fence_tenant e auth i g reason im0 =
    (let ctx = op_context_of txt_fence_tenant auth; im = begin_op im0; status = fence_tenant_guard auth i g im in
     if status \<noteq> SC_Ok then refuse e ctx status im
     else let im1 = fence_tenant_effect e i reason im
       in accept e (adopt_tenant (the_tenant im1 i) ctx) AK_Mutation () im1)"

section \<open>Transferring ownership\<close>

definition txt_transfer_ownership :: string where "txt_transfer_ownership = ''transfer_ownership''"

definition txt_transferred_to :: "tn_id \<Rightarrow> string" where
  "txt_transferred_to i = ''ownership transferred to tenant '' @ tn_str i"

definition txt_transfer_released :: string where
  "txt_transfer_released = ''ownership transferred; attachments were released''"

definition transfer_guard ::
  "authority \<Rightarrow> tn_id \<Rightarrow> tn_gen \<Rightarrow> impl \<Rightarrow> (tenant_record \<times> virtual_record) result" where
  "transfer_guard auth new_owner g im =
    (case resolve_owned (first_error [guard_store im, check_epoch auth im, check_policy auth im, check_request auth im])
        auth im of
       Inl c \<Rightarrow> Inl c
     | Inr (t, r) \<Rightarrow>
       (let status =
          (case om_find (st_tenants (im_state im)) new_owner of
             None \<Rightarrow> SC_NotFound
           | Some d \<Rightarrow> first_error
               [refuse_if (tn_generation d \<noteq> g) SC_StaleTenant, refuse_if (tn_fenced d) SC_TenantFenced,
                refuse_if (new_owner = va_owner r) SC_Conflict])
        in if status \<noteq> SC_Ok then Inl status else Inr (t, r)))"

definition hand_over :: "env \<Rightarrow> tenant_record \<Rightarrow> virtual_record \<Rightarrow> virtual_record" where
  "hand_over e d r =
    (let r1 = r\<lparr> va_owner := tn_id d, va_owner_generation := tn_generation d, va_active_attachments := 0 \<rparr>;
         r2 = (if is_executing (va_state r1)
           then r1\<lparr> va_state := LC_Provisioned, va_state_generation := gen_next (va_state_generation r1),
                    va_state_reason := txt_transfer_released \<rparr>
           else r1)
     in r2\<lparr> va_generation := gen_next (va_generation r2), va_updated_at := env_now e \<rparr>)"

definition transfer_effect :: "env \<Rightarrow> tn_id \<Rightarrow> tn_id \<Rightarrow> va_id \<Rightarrow> impl \<Rightarrow> impl" where
  "transfer_effect e src dst k im =
    (let im1 = run_steps
       [(\<lambda>im. snd (fence_leases k (txt_transferred_to dst) (env_now e) im)),
        upd_tenant src (\<lambda>t. t\<lparr> tn_owned := filter (\<lambda>x. x \<noteq> k) (tn_owned t), tn_active_attachments := 0,
          tn_updated_at := env_now e \<rparr>),
        touch_tenant src,
        upd_tenant dst (\<lambda>t. t\<lparr> tn_owned := sort (tn_owned t @ [k]), tn_updated_at := env_now e \<rparr>),
        touch_tenant dst,
        touch_virtual k] im
     in upd_virtual k (hand_over e (the_tenant im1 dst)) im1)"

definition transfer_ownership :: "env \<Rightarrow> authority \<Rightarrow> tn_id \<Rightarrow> tn_gen \<Rightarrow> impl \<Rightarrow> tenant_record result \<times> impl" where
  "transfer_ownership e auth new_owner g im0 =
    (let ctx = op_context_of txt_transfer_ownership auth; im = begin_op im0 in
     case transfer_guard auth new_owner g im of
       Inl status \<Rightarrow> refuse e ctx status im
     | Inr (t, r) \<Rightarrow>
       (let im1 = transfer_effect e (tn_id t) new_owner (va_id r) im
        in accept e (adopt_virtual (the_virtual im1 (va_id r)) ctx) AK_Mutation (the_tenant im1 new_owner) im1))"

section \<open>Creating and fencing are sound\<close>

lemma create_tenant_sound: "well_formed (im_state im) \<Longrightarrow> op_sound e im (create_tenant e auth name subject im)"
  by (auto simp: create_tenant_def create_tenant_effect_def Let_def split_beta
      intro!: sound_accept sound_refuse_begin)

lemma executing_fence_edge: "is_executing s \<Longrightarrow> LC_Fenced \<in> set (lifecycle_edges s)"
  by (auto simp: is_executing_def)

lemma txn_fence_owned:
  assumes "txn s0 im"
  shows "txn s0 (fence_owned e i g k im)"
proof -
  let ?im1 = "upd_virtual k (\<lambda>r. r\<lparr> va_owner_generation := g \<rparr>) (touch_virtual k im)"
  let ?im2 = "snd (fence_leases k (txt_tenant_fenced i) (env_now e) ?im1)"
  have "txn s0 (upd_virtual k (\<lambda>r. if is_executing (va_state r)
      then enter_state LC_Fenced (txt_owner_fenced i) (env_now e) r else r) ?im2)"
    by (rule txn_upd_virtual)
      (use assms executing_fence_edge in \<open>auto intro: lifecycle_path_edge lifecycle_path.here\<close>)
  then show ?thesis using assms by (simp add: fence_owned_def split: option.split)
qed

lemma fence_owned_tenants_touched [simp]:
  "x \<in> touched_tenants im \<Longrightarrow> x \<in> touched_tenants (fence_owned e i g k im)"
  by (simp add: fence_owned_def split: option.split)

lemma txn_fence_owned_fold: "txn s0 im \<Longrightarrow> txn s0 (fold (fence_owned e i g) ks im)"
  by (induction ks arbitrary: im) (simp_all add: txn_fence_owned)

lemma fence_owned_fold_touched [simp]:
  "x \<in> touched_tenants im \<Longrightarrow> x \<in> touched_tenants (fold (fence_owned e i g) ks im)"
  by (induction ks arbitrary: im) simp_all

lemma txn_fence_tenant_effect: "txn s0 im \<Longrightarrow> txn s0 (fence_tenant_effect e i reason im)"
  by (simp add: fence_tenant_effect_def Let_def txn_fence_owned_fold)

lemma fence_tenant_sound: "well_formed (im_state im) \<Longrightarrow> op_sound e im (fence_tenant e auth i g reason im)"
  by (auto simp: fence_tenant_def Let_def intro!: sound_accept sound_refuse_begin txn_fence_tenant_effect)

section \<open>Transfer\<close>

text \<open>\<open>transfer_ownership\<close> changes the two tenant records before it saves their before-images. The undo log
  therefore covers the operation up to the tenants only: a failed durable write puts everything back
  except them. Among the tenants only those in \<open>D\<close> differ.\<close>

definition txn_but_tenants :: "tn_id set \<Rightarrow> vstate \<Rightarrow> impl \<Rightarrow> bool" where
  "txn_but_tenants D s0 im \<longleftrightarrow>
    (\<exists>m. well_formed (s0\<lparr> st_tenants := m \<rparr>) \<and> txn (s0\<lparr> st_tenants := m \<rparr>) im \<and>
      (\<forall>k. om_find m k = om_find (st_tenants s0) k \<or> k \<in> D \<and> om_find m k \<noteq> None))"

lemma log_covers_both: "log_covers m0 m l \<Longrightarrow> k \<notin> set (fst l) \<Longrightarrow> log_covers (om_upd k f m0) (om_upd k f m) l"
  unfolding log_covers_def by auto

lemma but_tenants_start: "txn s0 im \<Longrightarrow> well_formed s0 \<Longrightarrow> txn_but_tenants D s0 im"
  unfolding txn_but_tenants_def by (rule exI [of _ "st_tenants s0"]) simp

lemma but_tenants_touch [simp]: "txn_but_tenants D s0 im \<Longrightarrow> txn_but_tenants D s0 (touch_tenant k im)"
  "txn_but_tenants D s0 im \<Longrightarrow> txn_but_tenants D s0 (touch_virtual x im)"
  unfolding txn_but_tenants_def by (metis txn_touch_tenant, metis txn_touch_virtual)

lemma but_tenants_upd:
  assumes "txn_but_tenants D s0 im" and "\<And>t. tn_id (f t) = tn_id t" and "k \<in> D"
  shows "txn_but_tenants D s0 (upd_tenant k f im)"
proof -
  obtain m where m: "well_formed (s0\<lparr> st_tenants := m \<rparr>)" "txn (s0\<lparr> st_tenants := m \<rparr>) im"
    and d: "\<forall>k. om_find m k = om_find (st_tenants s0) k \<or> k \<in> D \<and> om_find m k \<noteq> None"
    using assms(1) by (auto simp: txn_but_tenants_def)
  show ?thesis
  proof (cases "k \<in> touched_tenants im")
    case True
    then have "txn (s0\<lparr> st_tenants := m \<rparr>) (upd_tenant k f im)" using m assms(2) by auto
    then show ?thesis using m(1) d by (auto simp: txn_but_tenants_def)
  next
    case False
    have "well_formed (s0\<lparr> st_tenants := om_upd k f m \<rparr>)"
      using m(1) assms(2) by (simp add: well_formed_def maps_sorted_def ids_match_def keyed_upd_at)
    moreover have "txn (s0\<lparr> st_tenants := om_upd k f m \<rparr>) (upd_tenant k f im)"
      using m(2) assms(2) False
      by (simp add: txn_def covers_def header_saved_def logs_kept_def log_covers_both ids_match_def keyed_upd_at
          lifecycle_flow_def va_states_def)
    moreover have "om_find (om_upd k f m) j = om_find (st_tenants s0) j \<or> j \<in> D \<and> om_find (om_upd k f m) j \<noteq> None" for j
      using d assms(3) by (cases "om_find m k") (auto dest: spec [of _ j])
    ultimately show ?thesis unfolding txn_but_tenants_def by blast
  qed
qed

lemma hand_over_simps [simp]:
  "va_id (hand_over e d r) = va_id r"
  "va_state (hand_over e d r) = (if is_executing (va_state r) then LC_Provisioned else va_state r)"
  by (simp_all add: hand_over_def Let_def)

lemma executing_release_edge: "is_executing s \<Longrightarrow> LC_Provisioned \<in> set (lifecycle_edges s)"
  by (auto simp: is_executing_def)

lemma but_tenants_hand_over:
  assumes "txn_but_tenants D s0 im" and "k \<in> touched_virtuals im"
  shows "txn_but_tenants D s0 (upd_virtual k (hand_over e d) im)"
proof -
  have "txn (s0\<lparr> st_tenants := m \<rparr>) (upd_virtual k (hand_over e d) im)" if "txn (s0\<lparr> st_tenants := m \<rparr>) im" for m
    by (rule txn_upd_virtual)
      (use that assms(2) executing_release_edge in \<open>auto intro: lifecycle_path_edge lifecycle_path.here\<close>)
  then show ?thesis using assms(1) by (auto simp: txn_but_tenants_def)
qed

lemma but_tenants_transfer:
  assumes "txn s0 im" and "well_formed s0"
  shows "txn_but_tenants {src, dst} s0 (transfer_effect e src dst k im)"
proof -
  have "txn_but_tenants {src, dst} s0 (snd (fence_leases k (txt_transferred_to dst) (env_now e) im))"
    using assms by (intro but_tenants_start) simp_all
  then show ?thesis
    unfolding transfer_effect_def Let_def run_steps_simps
    by (intro but_tenants_hand_over but_tenants_touch but_tenants_upd) simp_all
qed

lemma transfer_touches: "{src, dst} \<subseteq> touched_tenants (transfer_effect e src dst k im)"
  by (simp add: transfer_effect_def Let_def)

lemma but_tenants_written:
  assumes "txn_but_tenants D s0 im" and "D \<subseteq> touched_tenants im" and "well_formed s0"
  shows "written_through e s0 (snd (finalize e c status kind im))"
proof -
  let ?f = "finalized e c status kind im"
  obtain m where "txn (s0\<lparr> st_tenants := m \<rparr>) im"
    and diff: "\<forall>k. om_find m k = om_find (st_tenants s0) k \<or> k \<in> D \<and> om_find m k \<noteq> None"
    using assms(1) unfolding txn_but_tenants_def by blast
  then have cov: "covers (s0\<lparr> st_tenants := m \<rparr>) ?f" and few: "few_entries (im_changes ?f)"
    by (simp_all add: txn_def finalized_few)
  then have adv: "changes_advance (s0\<lparr> st_tenants := m \<rparr>) (im_changes ?f) (im_state (commit_logs ?f))"
    by (simp add: covers_advance finalized_header)
  have "im_undo ?f = im_undo im" by (simp add: finalized_def)
  then have "D \<subseteq> set (ch_tenants (im_changes ?f))"
    using cov assms(2) by (auto simp: covers_def noted_def)
  then have "\<forall>k. om_find m k = om_find (st_tenants s0) k \<or> k \<in> set (ch_tenants (im_changes ?f)) \<and> om_find m k \<noteq> None"
    using diff by blast
  moreover have "table_advances m (st_tenants (im_state (commit_logs ?f))) (ch_tenants (im_changes ?f))"
    using adv by (simp add: changes_advance_def)
  moreover have "om_sorted (st_tenants s0)" using assms(3) by (simp add: well_formed_def maps_sorted_def)
  ultimately have "table_advances (st_tenants s0) (st_tenants (im_state (commit_logs ?f))) (ch_tenants (im_changes ?f))"
    using table_advances_trans by blast
  then have "changes_advance s0 (im_changes ?f) (im_state (commit_logs ?f))"
    using adv by (simp add: changes_advance_def)
  then show ?thesis by (simp add: finalize_commit commit_written_through)
qed

definition same_but_tenants :: "vstate \<Rightarrow> vstate \<Rightarrow> bool" where
  "same_but_tenants s t \<longleftrightarrow> same_entities (s\<lparr> st_tenants := st_tenants t \<rparr>) t"

lemma transfer_sound:
  assumes "well_formed (im_state im)"
  shows "well_formed (im_state (snd (transfer_ownership e auth d g im))) \<and>
    lifecycle_flow (im_state im) (im_state (snd (transfer_ownership e auth d g im))) \<and>
    written_through e (im_state im) (snd (transfer_ownership e auth d g im)) \<and>
    (\<forall>c. fst (transfer_ownership e auth d g im) = Inl c \<longrightarrow>
      c \<noteq> SC_Ok \<and> same_but_tenants (im_state im) (im_state (snd (transfer_ownership e auth d g im))))"
proof (cases "transfer_guard auth d g (begin_op im)")
  case (Inl c)
  then have "c \<noteq> SC_Ok"
    by (auto simp: transfer_guard_def Let_def split: sum.splits if_splits dest: resolve_owned_code)
  then have "op_sound e im (transfer_ownership e auth d g im)"
    using assms Inl by (simp add: transfer_ownership_def Let_def sound_refuse_begin)
  then show ?thesis
    by (auto simp: op_sound_def atomic_outcome_def same_but_tenants_def same_entities_def split: sum.splits)
next
  case (Inr p)
  obtain t r where p: "p = (t, r)" by fastforce
  let ?s = "im_state im" and ?im1 = "transfer_effect e (tn_id t) d (va_id r) (begin_op im)"
  note but = but_tenants_transfer [OF txn_begin [OF assms] assms, where e = e and src = "tn_id t" and dst = d and k = "va_id r"]
  obtain m where m: "well_formed (?s\<lparr> st_tenants := m \<rparr>)" "txn (?s\<lparr> st_tenants := m \<rparr>) ?im1"
    using but unfolding txn_but_tenants_def by blast
  let ?c = "adopt_virtual (the_virtual ?im1 (va_id r)) (op_context_of txt_transfer_ownership auth)"
  let ?out = "accept e ?c AK_Mutation (the_tenant ?im1 d) ?im1"
  have eq: "transfer_ownership e auth d g im = ?out" by (simp add: transfer_ownership_def Let_def Inr p)
  have flow: "lifecycle_flow (?s\<lparr> st_tenants := m \<rparr>) x = lifecycle_flow ?s x" for x
    by (simp add: lifecycle_flow_def va_states_def)
  have fail: "c \<noteq> SC_Ok \<and> same_but_tenants ?s (im_state (snd ?out))" if "fst ?out = Inl c" for c
  proof -
    have "covers (?s\<lparr> st_tenants := m \<rparr>) ?im1" using m(2) by (simp add: txn_def)
    from accept_failure [OF this that] have "same_but_tenants ?s (im_state (snd ?out))"
      by (auto simp: same_but_tenants_def same_entities_def)
    moreover have "c \<noteq> SC_Ok" using that by (auto simp: accept_result split: if_splits)
    ultimately show ?thesis by blast
  qed
  have "written_through e ?s (snd ?out)"
    unfolding accept_state by (rule but_tenants_written [OF but transfer_touches]) (rule assms)
  moreover have "well_formed (im_state (snd ?out)) \<and> lifecycle_flow ?s (im_state (snd ?out))"
    using finalize_txn [OF m(2,1), of e ?c SC_Ok AK_Mutation] unfolding accept_state flow by blast
  ultimately show ?thesis using fail unfolding eq by blast
qed

end
