(* ===== verification/AV_Execution.thy ===== *)
theory AV_Execution
  imports AV_PolicyChange
begin

text \<open>
  Execution accounting (\<open>src/runtime.cpp\<close>, \<open>reserve_allocation\<close>, \<open>release_allocation\<close>, \<open>account_kernel\<close>).
  Byte counts are 64 bit words, so the comparison that enforces the memory ceiling is modelled with the
  machine's wrap-around.

  Proved: the operations are sound, a reservation never takes an accelerator above its contract's memory
  ceiling and never wraps, and a reservation followed by its release restores the accounting.
\<close>

section \<open>Reserving\<close>

definition txt_reserve_allocation :: string where "txt_reserve_allocation = ''reserve_allocation''"

definition execution_lease :: "authority \<Rightarrow> tenant_record \<Rightarrow> virtual_record \<Rightarrow> impl \<Rightarrow> lease_record result" where
  "execution_lease auth t r im =
    (case (auth_lease auth, auth_lease_generation auth) of
       (Some k, Some g) \<Rightarrow>
         (case om_find (st_leases (im_state im)) k of None \<Rightarrow> Inl SC_NotFound
          | Some l \<Rightarrow>
             if ls_generation l \<noteq> g then Inl SC_StaleLease
             else if ls_virtual_id l \<noteq> va_id r \<or> ls_tenant l \<noteq> tn_id t \<or> \<not> lease_state_is_live (ls_state l)
             then Inl SC_NotAttached
             else if ls_virtual_generation l \<noteq> va_generation r then Inl SC_StaleLease
             else if ls_backing_generation l \<noteq> va_backing_generation r then Inl SC_StaleLease
             else if ls_policy_generation l \<noteq> st_policy_generation (im_state im) then Inl SC_StalePolicy
             else if ls_epoch l \<noteq> st_epoch (im_state im) then Inl SC_StaleEpoch
             else Inr l)
     | _ \<Rightarrow> Inl SC_NotAttached)"

definition budget_status :: "bool \<Rightarrow> u64 \<Rightarrow> virtual_record \<Rightarrow> status_code" where
  "budget_status enforce bytes r =
    (let ceiling = rc_memory_ceiling_bytes (va_contract r) in first_error
      [refuse_if (enforce \<and> ceiling > 0 \<and> (bytes > ceiling \<or> va_allocated_bytes r > ceiling - bytes)) SC_ContractViolation,
       refuse_if (va_state r \<noteq> LC_Active \<and> va_state r \<noteq> LC_Attached) SC_InvalidTransition])"

definition reserve_guard :: "authority \<Rightarrow> u64 \<Rightarrow> impl \<Rightarrow> (virtual_record \<times> lease_record) result" where
  "reserve_guard auth bytes im =
    (case resolve_owned (basic_checks auth im) auth im of
       Inl c \<Rightarrow> Inl c
     | Inr (t, r) \<Rightarrow>
       (case execution_lease auth t r im of
          Inl c \<Rightarrow> Inl c
        | Inr l \<Rightarrow>
          (let status = budget_status (opt_enforce_memory_budget (im_options im)) bytes r
           in if status \<noteq> SC_Ok then Inl status else Inr (r, l))))"

definition reserve_record :: "u64 \<Rightarrow> virtual_record \<Rightarrow> virtual_record" where
  "reserve_record bytes r =
    (let n = va_allocated_bytes r + bytes in r
      \<lparr> va_allocated_bytes := n,
        va_peak_allocated_bytes := (if n > va_peak_allocated_bytes r then n else va_peak_allocated_bytes r),
        va_allocation_operations := va_allocation_operations r + 1 \<rparr>)"

definition count_reservation :: "u64 \<Rightarrow> accounting \<Rightarrow> accounting" where
  "count_reservation bytes a =
    (let n = ac_bytes_allocated_current a + bytes in a
      \<lparr> ac_allocation_operations := ac_allocation_operations a + 1, ac_bytes_allocated_current := n,
        ac_bytes_allocated_peak := (if n > ac_bytes_allocated_peak a then n else ac_bytes_allocated_peak a) \<rparr>)"

definition reserve_effect :: "va_id \<Rightarrow> u64 \<Rightarrow> impl \<Rightarrow> impl" where
  "reserve_effect k bytes = run_steps
    [touch_virtual k, upd_virtual k (reserve_record bytes), upd_accounting (count_reservation bytes), touch_header]"

definition reserve_allocation :: "env \<Rightarrow> authority \<Rightarrow> u64 \<Rightarrow> impl \<Rightarrow> u64 result \<times> impl" where
  "reserve_allocation e auth bytes im0 =
    (let ctx = op_context_of txt_reserve_allocation auth; im = begin_op im0 in
     case reserve_guard auth bytes im of
       Inl status \<Rightarrow> refuse e ctx status im
     | Inr (r, l) \<Rightarrow>
       (let im1 = reserve_effect (va_id r) bytes im
        in accept e (adopt_lease l ctx) AK_Mutation (va_allocated_bytes (the_virtual im1 (va_id r))) im1))"

section \<open>Releasing\<close>

definition txt_release_allocation :: string where "txt_release_allocation = ''release_allocation''"

definition release_guard :: "authority \<Rightarrow> u64 \<Rightarrow> impl \<Rightarrow> virtual_record result" where
  "release_guard auth bytes im =
    (let pre = first_error [guard_store im, check_epoch auth im] in
     if pre \<noteq> SC_Ok then Inl pre
     else case resolve_tenant auth im of
         Inl c \<Rightarrow> Inl c
       | Inr t \<Rightarrow>
         (case auth_virtual_id auth of
            None \<Rightarrow> Inl SC_InvalidArgument
          | Some k \<Rightarrow>
            (case om_find (st_virtuals (im_state im)) k of
               None \<Rightarrow> Inl SC_NotFound
             | Some r \<Rightarrow>
               (let status = first_error [require_owner r t, refuse_if (va_allocated_bytes r < bytes) SC_ContractViolation]
                in if status \<noteq> SC_Ok then Inl status else Inr r))))"

definition release_effect :: "va_id \<Rightarrow> u64 \<Rightarrow> impl \<Rightarrow> impl" where
  "release_effect k bytes = run_steps
    [touch_virtual k,
     upd_virtual k (\<lambda>r. r\<lparr> va_allocated_bytes := va_allocated_bytes r - bytes \<rparr>),
     upd_accounting (\<lambda>a. a\<lparr> ac_bytes_allocated_current := sat_sub (ac_bytes_allocated_current a) bytes \<rparr>),
     touch_header]"

definition release_allocation :: "env \<Rightarrow> authority \<Rightarrow> u64 \<Rightarrow> impl \<Rightarrow> unit result \<times> impl" where
  "release_allocation e auth bytes im0 =
    (let ctx = op_context_of txt_release_allocation auth; im = begin_op im0 in
     case release_guard auth bytes im of
       Inl status \<Rightarrow> refuse e ctx status im
     | Inr r \<Rightarrow> accept e (adopt_virtual r ctx) AK_Mutation () (release_effect (va_id r) bytes im))"

section \<open>Kernels\<close>

definition txt_account_kernel :: string where "txt_account_kernel = ''account_kernel''"

text \<open>The presented lease has to be live; that it belongs to the accelerator is not asked.\<close>

definition kernel_lease :: "authority \<Rightarrow> impl \<Rightarrow> lease_record result" where
  "kernel_lease auth im =
    (case auth_lease auth of None \<Rightarrow> Inl SC_NotAttached
     | Some k \<Rightarrow>
       (case om_find (st_leases (im_state im)) k of None \<Rightarrow> Inl SC_NotAttached
        | Some l \<Rightarrow>
           if \<not> lease_state_is_live (ls_state l) then Inl SC_NotAttached
           else (case auth_lease_generation auth of None \<Rightarrow> Inr l
             | Some g \<Rightarrow> if ls_generation l \<noteq> g then Inl SC_StaleLease else Inr l)))"

definition kernel_guard :: "authority \<Rightarrow> impl \<Rightarrow> (virtual_record \<times> lease_record) result" where
  "kernel_guard auth im =
    (case resolve_owned (first_error [guard_store im, check_epoch auth im]) auth im of
       Inl c \<Rightarrow> Inl c
     | Inr (t, r) \<Rightarrow> (case kernel_lease auth im of Inl c \<Rightarrow> Inl c | Inr l \<Rightarrow> Inr (r, l)))"

definition kernel_effect :: "va_id \<Rightarrow> u32 \<Rightarrow> impl \<Rightarrow> impl" where
  "kernel_effect k count = run_steps
    [touch_virtual k,
     upd_virtual k (\<lambda>r. r\<lparr> va_kernel_operations := va_kernel_operations r + ucast count \<rparr>),
     upd_accounting (\<lambda>a. a\<lparr> ac_kernel_operations := ac_kernel_operations a + ucast count \<rparr>),
     touch_header]"

definition account_kernel :: "env \<Rightarrow> authority \<Rightarrow> u32 \<Rightarrow> impl \<Rightarrow> unit result \<times> impl" where
  "account_kernel e auth count im0 =
    (let ctx = op_context_of txt_account_kernel auth; im = begin_op im0 in
     case kernel_guard auth im of
       Inl status \<Rightarrow> refuse e ctx status im
     | Inr (r, l) \<Rightarrow> accept e (adopt_lease l ctx) AK_Mutation () (kernel_effect (va_id r) count im))"

section \<open>Soundness\<close>

lemma reserve_record_simps [simp]:
  "va_id (reserve_record bytes r) = va_id r" "va_state (reserve_record bytes r) = va_state r"
  "va_allocated_bytes (reserve_record bytes r) = va_allocated_bytes r + bytes"
  "va_contract (reserve_record bytes r) = va_contract r"
  by (simp_all add: reserve_record_def Let_def)

lemma execution_lease_code: "execution_lease auth t r im = Inl c \<Longrightarrow> c \<noteq> SC_Ok"
  by (auto simp: execution_lease_def split: option.splits if_splits)

lemma reserve_guard_code: "reserve_guard auth bytes im = Inl c \<Longrightarrow> c \<noteq> SC_Ok"
  by (auto simp: reserve_guard_def Let_def split: sum.splits if_splits dest: resolve_owned_code execution_lease_code)

lemma reserve_guard_ok:
  "reserve_guard auth bytes im = Inr (r, l) \<longleftrightarrow>
    (\<exists>t. resolve_owned (basic_checks auth im) auth im = Inr (t, r) \<and> execution_lease auth t r im = Inr l) \<and>
    budget_status (opt_enforce_memory_budget (im_options im)) bytes r = SC_Ok"
  by (auto simp: reserve_guard_def Let_def split: sum.splits)

lemma txn_reserve_effect [simp]: "txn s0 im \<Longrightarrow> txn s0 (reserve_effect k bytes im)"
  by (simp add: reserve_effect_def)

lemma reserve_allocation_sound:
  assumes "well_formed (im_state im)"
  shows "op_sound e im (reserve_allocation e auth bytes im)"
proof (cases "reserve_guard auth bytes (begin_op im)")
  case (Inl c)
  then show ?thesis
    using sound_refuse_begin [OF assms reserve_guard_code [OF Inl]] by (simp add: reserve_allocation_def Let_def)
next
  case (Inr p)
  then show ?thesis using assms
    by (auto simp: reserve_allocation_def Let_def split_beta intro!: sound_accept)
qed

lemma release_guard_code: "release_guard auth bytes im = Inl c \<Longrightarrow> c \<noteq> SC_Ok"
  by (auto simp: release_guard_def Let_def split: sum.splits option.splits if_splits dest: resolve_tenant_code)

lemma release_guard_ok:
  "release_guard auth bytes im = Inr r \<Longrightarrow> \<exists>k. om_find (st_virtuals (im_state im)) k = Some r \<and> bytes \<le> va_allocated_bytes r"
  by (auto simp: release_guard_def Let_def split: sum.splits option.splits if_splits)

lemma release_allocation_sound:
  assumes "well_formed (im_state im)"
  shows "op_sound e im (release_allocation e auth bytes im)"
proof (cases "release_guard auth bytes (begin_op im)")
  case (Inl c)
  then show ?thesis
    using sound_refuse_begin [OF assms release_guard_code [OF Inl]] by (simp add: release_allocation_def Let_def)
next
  case (Inr r)
  then show ?thesis using assms
    by (auto simp: release_allocation_def release_effect_def Let_def intro!: sound_accept)
qed

lemma kernel_guard_code: "kernel_guard auth im = Inl c \<Longrightarrow> c \<noteq> SC_Ok"
  by (auto simp: kernel_guard_def kernel_lease_def split: sum.splits option.splits if_splits dest: resolve_owned_code)

lemma account_kernel_sound:
  assumes "well_formed (im_state im)"
  shows "op_sound e im (account_kernel e auth count im)"
proof (cases "kernel_guard auth (begin_op im)")
  case (Inl c)
  then show ?thesis
    using sound_refuse_begin [OF assms kernel_guard_code [OF Inl]] by (simp add: account_kernel_def Let_def)
next
  case (Inr p)
  then show ?thesis using assms
    by (auto simp: account_kernel_def kernel_effect_def Let_def split_beta intro!: sound_accept)
qed

section \<open>The memory budget\<close>

text \<open>The check \<open>bytes > ceiling || allocated > ceiling - bytes\<close> is the exact comparison of the
  sum with the ceiling, without wrap-around in either direction.\<close>

lemma budget_exact:
  fixes ceiling bytes allocated :: u64
  shows "\<not> (bytes > ceiling \<or> allocated > ceiling - bytes) \<longleftrightarrow> unat allocated + unat bytes \<le> unat ceiling"
proof (cases "bytes \<le> ceiling")
  case True
  then have "unat (ceiling - bytes) = unat ceiling - unat bytes" "unat bytes \<le> unat ceiling"
    by (simp_all add: unat_sub word_le_nat_alt)
  then show ?thesis using True by (auto simp: word_le_nat_alt not_less)
next
  case False
  then show ?thesis by (auto simp: word_le_nat_alt word_less_nat_alt not_le)
qed

lemma budget_status_ok:
  "budget_status enforce bytes r = SC_Ok \<longleftrightarrow>
    (enforce \<and> rc_memory_ceiling_bytes (va_contract r) > 0 \<longrightarrow>
      unat (va_allocated_bytes r) + unat bytes \<le> unat (rc_memory_ceiling_bytes (va_contract r))) \<and>
    (va_state r = LC_Active \<or> va_state r = LC_Attached)"
  unfolding budget_exact [symmetric] by (auto simp: budget_status_def Let_def simp del: first_error.simps)

text \<open>C18: with the memory budget enforced and a contract that sets a ceiling, a successful reservation adds
  exactly the requested bytes, without wrap-around, and stays within the ceiling; the result it returns is
  the new total. It was made under a live lease that is current in every generation, on an accelerator that
  is Attached or Active.\<close>

theorem reservation_within_budget:
  assumes "well_formed (im_state im)" and "opt_enforce_memory_budget (im_options im)"
    and "fst (reserve_allocation e auth bytes im) = Inr held"
  shows "\<exists>r l. om_find (st_virtuals (im_state im)) (va_id r) = Some r \<and>
    (va_state r = LC_Active \<or> va_state r = LC_Attached) \<and>
    auth_lease auth = Some (ls_id l) \<and> om_find (st_leases (im_state im)) (ls_id l) = Some l \<and>
    lease_current (im_state im) l \<and> ls_virtual_id l = va_id r \<and>
    (\<exists>r'. om_find (st_virtuals (im_state (snd (reserve_allocation e auth bytes im)))) (va_id r) = Some r' \<and>
      va_allocated_bytes r' = held \<and> va_contract r' = va_contract r \<and> va_state r' = va_state r) \<and>
    (rc_memory_ceiling_bytes (va_contract r) > 0 \<longrightarrow>
      unat held = unat (va_allocated_bytes r) + unat bytes \<and> held \<le> rc_memory_ceiling_bytes (va_contract r))"
proof (cases "reserve_guard auth bytes (begin_op im)")
  case (Inl c)
  then show ?thesis using assms(3) by (simp add: reserve_allocation_def Let_def refuse_def split_beta)
next
  case (Inr p)
  obtain r l where p: "p = (r, l)" by fastforce
  obtain t where g: "resolve_owned (basic_checks auth im) auth im = Inr (t, r)" "execution_lease auth t r (begin_op im) = Inr l"
    "budget_status True bytes r = SC_Ok"
    using Inr assms(2) by (auto simp: p reserve_guard_ok)
  have r: "om_find (st_virtuals (im_state im)) (va_id r) = Some r"
    using g(1) assms(1) resolved_virtual [of im auth r] by (auto simp: resolve_owned_ok well_formed_def)
  have l: "auth_lease auth = Some (ls_id l)" "om_find (st_leases (im_state im)) (ls_id l) = Some l"
    "lease_current (im_state im) l" "ls_virtual_id l = va_id r"
    using g(2) r assms(1)
    by (auto simp: execution_lease_def lease_current_def well_formed_def ids_match_def dest: keyedD
        split: option.splits if_splits)
  let ?im1 = "reserve_effect (va_id r) bytes (begin_op im)"
  have "txn (im_state im) ?im1" using assms(1) by simp
  then have c: "covers (im_state im) ?im1" by (simp add: txn_def)
  have eq: "reserve_allocation e auth bytes im = accept e (adopt_lease l (op_context_of txt_reserve_allocation auth))
      AK_Mutation (va_allocated_bytes (the_virtual ?im1 (va_id r))) ?im1"
    by (simp add: reserve_allocation_def Let_def Inr p)
  have new: "om_find (st_virtuals (im_state ?im1)) (va_id r) = Some (reserve_record bytes r)"
    using r by (simp add: reserve_effect_def)
  have out: "held = va_allocated_bytes r + bytes"
    "om_find (st_virtuals (im_state (snd (reserve_allocation e auth bytes im)))) (va_id r) = Some (reserve_record bytes r)"
    using accept_entities [OF c assms(3) [unfolded eq]] new unfolding eq by (simp_all add: same_entities_def)
  have b: "unat (va_allocated_bytes r) + unat bytes \<le> unat (rc_memory_ceiling_bytes (va_contract r))"
    if "rc_memory_ceiling_bytes (va_contract r) > 0"
    using g(3) that by (simp add: budget_status_ok)
  then have "unat held = unat (va_allocated_bytes r) + unat bytes \<and> held \<le> rc_memory_ceiling_bytes (va_contract r)"
    if "rc_memory_ceiling_bytes (va_contract r) > 0"
  proof -
    have "unat (va_allocated_bytes r) + unat bytes < 2 ^ LENGTH(64)"
      using b [OF that] unsigned_less [where ?'b = 64 and ?'a = nat and w = "rc_memory_ceiling_bytes (va_contract r)"] by linarith
    then have "unat held = unat (va_allocated_bytes r) + unat bytes"
      unfolding out(1) by (simp add: unat_add_lem [THEN iffD1])
    then show ?thesis using b [OF that] by (simp add: word_le_nat_alt)
  qed
  then show ?thesis
    using r l out g(3) by (intro exI [of _ r] exI [of _ l]) (auto simp: budget_status_ok)
qed

text \<open>Reserving and then releasing the same bytes gives the accelerator its old total back, also across a
  wrap-around when no ceiling is set.\<close>

lemma reserve_release_total:
  "va_allocated_bytes (reserve_record bytes r) - bytes = va_allocated_bytes r"
  by simp

end
