(* ===== verification/AV_Views.thy ===== *)
theory AV_Views
  imports AV_Cutover AV_Execution
begin

text \<open>
  Queries and explanations (\<open>src/runtime.cpp\<close>, \<open>make_view\<close>, \<open>query_virtual\<close> to \<open>audit_tail\<close>, with the structs of
  \<open>include/av/runtime.hpp\<close> and \<open>isolation_state_meaning\<close> of \<open>src/isolation.cpp\<close>).

  Proved: what each transparency level hides, that an isolation explanation accounts for every dimension
  exactly once, and what the listing and log queries return.
\<close>

section \<open>Views\<close>

record virtual_view =
  vv_id :: va_id
  vv_generation :: va_gen
  vv_name :: string
  vv_state :: lifecycle
  vv_state_generation :: va_gen
  vv_state_reason :: string
  vv_owner :: tn_id
  vv_owner_generation :: tn_gen
  vv_owner_is_caller :: bool
  vv_contract :: resource_contract
  vv_projection :: capability_projection
  vv_multiplexing :: multiplexing
  vv_isolation_class :: isolation_class
  vv_transparency :: transparency
  vv_backing_disclosed :: bool
  vv_backing_class :: backing_class
  vv_backing_provenance :: provenance
  vv_backing_mechanism :: string
  vv_backing :: bk_id
  vv_backing_generation :: bk_gen
  vv_physical :: pd_id
  vv_physical_generation :: pd_gen
  vv_physical_stable_key :: string
  vv_physical_model :: string
  vv_active_attachments :: u32
  vv_attached_to_caller :: bool
  vv_caller_lease :: ls_id
  vv_caller_lease_generation :: ls_gen
  vv_migration_class :: migration_class
  vv_migration_supported :: bool
  vv_has_active_migration :: bool
  vv_allocated_bytes :: u64
  vv_created_at :: micros
  vv_updated_at :: micros

text \<open>The fields that do not depend on transparency, backing or lease; the rest has its default.\<close>

definition base_view :: "vstate \<Rightarrow> virtual_record \<Rightarrow> authority \<Rightarrow> virtual_view" where
  "base_view s r auth =
    (let capability = migration_capability (st_policy s) (va_contract r) in
     \<lparr> vv_id = va_id r, vv_generation = va_generation r, vv_name = va_name r, vv_state = va_state r,
       vv_state_generation = va_state_generation r, vv_state_reason = va_state_reason r,
       vv_owner = va_owner r, vv_owner_generation = va_owner_generation r,
       vv_owner_is_caller = (auth_tenant auth = Some (va_owner r)), vv_contract = va_contract r,
       vv_projection = va_projection r, vv_multiplexing = va_multiplexing r,
       vv_isolation_class = va_isolation_class r, vv_transparency = pol_transparency (st_policy s),
       vv_backing_disclosed = False, vv_backing_class = va_backing_class r, vv_backing_provenance = PV_Unknown,
       vv_backing_mechanism = cp_mechanism (va_projection r), vv_backing = no_id,
       vv_backing_generation = no_gen, vv_physical = no_id, vv_physical_generation = no_gen,
       vv_physical_stable_key = [], vv_physical_model = [], vv_active_attachments = va_active_attachments r,
       vv_attached_to_caller = False, vv_caller_lease = no_id, vv_caller_lease_generation = no_gen,
       vv_migration_class = (if mc_supported capability then mc_klass capability else MC_Unsupported),
       vv_migration_supported = mc_supported capability,
       vv_has_active_migration = (id_valid (va_migration r) \<and>
         (case om_find (st_migrations s) (va_migration r) of None \<Rightarrow> False
          | Some m \<Rightarrow> \<not> migration_state_is_terminal (mg_state m))),
       vv_allocated_bytes = va_allocated_bytes r, vv_created_at = va_created_at r, vv_updated_at = va_updated_at r \<rparr>)"

definition disclose_binding :: "transparency \<Rightarrow> virtual_record \<Rightarrow> virtual_view \<Rightarrow> virtual_view" where
  "disclose_binding t r v =
    (case t of
       TR_Opaque \<Rightarrow> v\<lparr> vv_backing_disclosed := False \<rparr>
     | TR_Summary \<Rightarrow> v\<lparr> vv_backing_disclosed := True, vv_backing_generation := va_backing_generation r,
         vv_physical_generation := va_physical_generation r \<rparr>
     | TR_Full \<Rightarrow> v\<lparr> vv_backing_disclosed := True, vv_backing := va_backing r,
         vv_backing_generation := va_backing_generation r, vv_physical := va_physical r,
         vv_physical_generation := va_physical_generation r \<rparr>)"

definition disclose_backing :: "vstate \<Rightarrow> virtual_record \<Rightarrow> virtual_view \<Rightarrow> virtual_view" where
  "disclose_backing s r v =
    (case om_find (st_backings s) (va_backing r) of
       None \<Rightarrow> v\<lparr> vv_backing_provenance := PV_Unknown \<rparr>
     | Some b \<Rightarrow>
       (let v1 = v\<lparr> vv_backing_provenance := bk_provenance b, vv_backing_mechanism := bk_mechanism b \<rparr> in
        if pol_transparency (st_policy s) = TR_Full
        then (case om_find (st_physical s) (bk_physical b) of None \<Rightarrow> v1
          | Some p \<Rightarrow> v1\<lparr> vv_physical_stable_key := pd_stable_key p, vv_physical_model := pd_model p \<rparr>)
        else v1))"

definition disclose_lease :: "vstate \<Rightarrow> virtual_record \<Rightarrow> authority \<Rightarrow> virtual_view \<Rightarrow> virtual_view" where
  "disclose_lease s r auth v =
    (case auth_lease auth of None \<Rightarrow> v
     | Some k \<Rightarrow>
       (case om_find (st_leases s) k of None \<Rightarrow> v
        | Some l \<Rightarrow>
          if ls_virtual_id l = va_id r
          then v\<lparr> vv_attached_to_caller := lease_state_is_live (ls_state l), vv_caller_lease := ls_id l,
            vv_caller_lease_generation := ls_generation l \<rparr>
          else v))"

definition make_view :: "vstate \<Rightarrow> virtual_record \<Rightarrow> authority \<Rightarrow> virtual_view" where
  "make_view s r auth =
    disclose_lease s r auth (disclose_backing s r (disclose_binding (pol_transparency (st_policy s)) r (base_view s r auth)))"

definition kMaxListedVirtuals :: nat where "kMaxListedVirtuals = 4194304"

definition query_virtual :: "authority \<Rightarrow> va_id \<Rightarrow> impl \<Rightarrow> virtual_view result" where
  "query_virtual auth i im =
    (case om_find (st_virtuals (im_state im)) i of None \<Rightarrow> Inl SC_NotFound
     | Some r \<Rightarrow> Inr (make_view (im_state im) r auth))"

text \<open>The listing stops once it holds the maximum, so a maximum of at least one is a prefix.\<close>

definition list_virtual :: "authority \<Rightarrow> impl \<Rightarrow> virtual_view list" where
  "list_virtual auth im =
    take kMaxListedVirtuals (map (\<lambda>r. make_view (im_state im) r auth)
      (filter (\<lambda>r. auth_tenant auth = None \<or> auth_tenant auth = Some (va_owner r)) (om_values (st_virtuals (im_state im)))))"

definition raw_virtual :: "va_id \<Rightarrow> impl \<Rightarrow> virtual_record result" where
  "raw_virtual i im = find_or_refuse (st_virtuals (im_state im)) i"

definition get_projection :: "va_id \<Rightarrow> impl \<Rightarrow> capability_projection result" where
  "get_projection i im = map_sum (\<lambda>c. c) va_projection (raw_virtual i im)"

definition get_contract :: "va_id \<Rightarrow> impl \<Rightarrow> resource_contract result" where
  "get_contract i im = map_sum (\<lambda>c. c) va_contract (raw_virtual i im)"

section \<open>Explanations\<close>

primrec isolation_state_meaning :: "isolation_state \<Rightarrow> string" where
  "isolation_state_meaning IS_Unsupported = ''the backing mechanism cannot provide this isolation dimension at all''"
| "isolation_state_meaning IS_Unknown = ''the runtime cannot prove the state of this dimension; consumers must fail closed''"
| "isolation_state_meaning IS_Shared = ''no isolation on this dimension: state is shared with other virtual accelerators''"
| "isolation_state_meaning IS_Partial = ''isolation is provided only partially, or is provided for a subset of the mechanism''"
| "isolation_state_meaning IS_Isolated = ''this dimension is isolated and the claim is supported by evidence''"

record isolation_explanation =
  ix_id :: va_id
  ix_generation :: va_gen
  ix_isolation_class :: isolation_class
  ix_provenance :: provenance
  ix_mechanism :: string
  ix_multiplexing :: multiplexing
  ix_claims :: "isolation_claim list"
  ix_isolated :: "isolation_claim list"
  ix_partial :: "isolation_claim list"
  ix_shared :: "isolation_claim list"
  ix_unknown :: "isolation_claim list"
  ix_unsupported :: "isolation_claim list"
  ix_unmet_requirements :: "isolation_requirement list"
  ix_satisfies_policy :: bool

definition txt_no_claim :: string where
  "txt_no_claim = ''no evidence-backed claim is recorded for this dimension''"

definition explain_claim :: "string \<Rightarrow> isolation_profile \<Rightarrow> isolation_dimension \<Rightarrow> isolation_claim" where
  "explain_claim mechanism profile d =
    (let claim =
       (case profile_find profile d of Some c \<Rightarrow> c
        | None \<Rightarrow> \<lparr> ic_dimension = d, ic_state = IS_Unknown, ic_evidence = no_id, ic_evidence_gen = no_gen,
            ic_mechanism = mechanism, ic_rationale = txt_no_claim \<rparr>);
         claim1 = (if ic_mechanism claim = [] then claim\<lparr> ic_mechanism := mechanism \<rparr> else claim)
     in if ic_rationale claim1 = [] then claim1\<lparr> ic_rationale := isolation_state_meaning (ic_state claim1) \<rparr> else claim1)"

definition claims_in :: "isolation_state \<Rightarrow> isolation_claim list \<Rightarrow> isolation_claim list" where
  "claims_in st cs = filter (\<lambda>c. ic_state c = st) cs"

definition explain_isolation :: "va_id \<Rightarrow> impl \<Rightarrow> isolation_explanation result" where
  "explain_isolation i im =
    (case om_find (st_virtuals (im_state im)) i of None \<Rightarrow> Inl SC_NotFound
     | Some r \<Rightarrow>
       (let (prov, mech) =
          (case om_find (st_backings (im_state im)) (va_backing r) of
             Some b \<Rightarrow> (bk_provenance b, bk_mechanism b) | None \<Rightarrow> (PV_Unknown, txt_no_backing));
            claims = map (explain_claim mech (va_isolation r)) all_isolation_dimensions;
            evaluation = evaluate_isolation (va_isolation r) (merged_requirements (va_contract r) (st_policy (im_state im)))
        in Inr \<lparr> ix_id = va_id r, ix_generation = va_generation r, ix_isolation_class = va_isolation_class r,
          ix_provenance = prov, ix_mechanism = mech, ix_multiplexing = va_multiplexing r, ix_claims = claims,
          ix_isolated = claims_in IS_Isolated claims, ix_partial = claims_in IS_Partial claims,
          ix_shared = claims_in IS_Shared claims, ix_unknown = claims_in IS_Unknown claims,
          ix_unsupported = claims_in IS_Unsupported claims, ix_unmet_requirements = ie_unmet evaluation,
          ix_satisfies_policy = ie_satisfied evaluation \<rparr>))"

record migration_explanation =
  mx_id :: va_id
  mx_supported :: bool
  mx_klass :: migration_class
  mx_reason :: string
  mx_state_transfer_required :: bool
  mx_live_state_movement :: bool
  mx_has_active_migration :: bool
  mx_state :: migration_state

definition txt_needs_source :: string where
  "txt_needs_source = ''migration requires an authoritative source backing assignment''"

definition explain_migration :: "va_id \<Rightarrow> impl \<Rightarrow> migration_explanation result" where
  "explain_migration i im =
    (case om_find (st_virtuals (im_state im)) i of None \<Rightarrow> Inl SC_NotFound
     | Some r \<Rightarrow>
       (let capability = migration_capability (st_policy (im_state im)) (va_contract r);
            migration = om_find (st_migrations (im_state im)) (va_migration r);
            x = \<lparr> mx_id = i, mx_supported = mc_supported capability,
              mx_klass = (if mc_supported capability then mc_klass capability else MC_Unsupported),
              mx_reason = mc_reason capability, mx_state_transfer_required = False, mx_live_state_movement = False,
              mx_has_active_migration = (case migration of None \<Rightarrow> False
                | Some m \<Rightarrow> \<not> migration_state_is_terminal (mg_state m)),
              mx_state = (case migration of None \<Rightarrow> MS_Planned | Some m \<Rightarrow> mg_state m) \<rparr>
        in Inr (if \<not> id_valid (va_backing r)
          then x\<lparr> mx_supported := False, mx_klass := MC_Unsupported, mx_reason := txt_needs_source \<rparr> else x)))"

section \<open>Logs\<close>

text \<open>Newest first; the loop stops after the entry that reaches the limit, so a limit of zero still
  returns one.\<close>

definition explain_decisions :: "va_id \<Rightarrow> nat \<Rightarrow> impl \<Rightarrow> decision list" where
  "explain_decisions i limit im =
    take (max 1 limit) (filter (\<lambda>d. dc_virtual_id d = i) (rev (st_decisions (im_state im))))"

definition audit_tail :: "nat \<Rightarrow> impl \<Rightarrow> audit_entry list" where
  "audit_tail limit im =
    (let xs = st_audit (im_state im) in drop (length xs - min limit (length xs)) xs)"

definition accounting_of :: "impl \<Rightarrow> accounting" where
  "accounting_of im = st_accounting (im_state im)"

section \<open>What a view hides\<close>

lemma disclose_lease_frame [simp]:
  "vv_backing_disclosed (disclose_lease s r auth v) = vv_backing_disclosed v"
  "vv_backing (disclose_lease s r auth v) = vv_backing v"
  "vv_backing_generation (disclose_lease s r auth v) = vv_backing_generation v"
  "vv_physical (disclose_lease s r auth v) = vv_physical v"
  "vv_physical_generation (disclose_lease s r auth v) = vv_physical_generation v"
  "vv_physical_stable_key (disclose_lease s r auth v) = vv_physical_stable_key v"
  "vv_physical_model (disclose_lease s r auth v) = vv_physical_model v"
  "vv_owner (disclose_lease s r auth v) = vv_owner v"
  "vv_owner_is_caller (disclose_lease s r auth v) = vv_owner_is_caller v"
  "vv_id (disclose_lease s r auth v) = vv_id v"
  "vv_state (disclose_lease s r auth v) = vv_state v"
  by (simp_all add: disclose_lease_def split: option.split)

lemma disclose_backing_frame [simp]:
  "vv_backing_disclosed (disclose_backing s r v) = vv_backing_disclosed v"
  "vv_backing (disclose_backing s r v) = vv_backing v"
  "vv_backing_generation (disclose_backing s r v) = vv_backing_generation v"
  "vv_physical (disclose_backing s r v) = vv_physical v"
  "vv_physical_generation (disclose_backing s r v) = vv_physical_generation v"
  "vv_owner (disclose_backing s r v) = vv_owner v"
  "vv_owner_is_caller (disclose_backing s r v) = vv_owner_is_caller v"
  "vv_id (disclose_backing s r v) = vv_id v"
  "vv_state (disclose_backing s r v) = vv_state v"
  "pol_transparency (st_policy s) \<noteq> TR_Full \<Longrightarrow> vv_physical_stable_key (disclose_backing s r v) = vv_physical_stable_key v"
  "pol_transparency (st_policy s) \<noteq> TR_Full \<Longrightarrow> vv_physical_model (disclose_backing s r v) = vv_physical_model v"
  by (simp_all add: disclose_backing_def Let_def split: option.split)

lemma disclose_binding_frame [simp]:
  "vv_physical_stable_key (disclose_binding t r v) = vv_physical_stable_key v"
  "vv_physical_model (disclose_binding t r v) = vv_physical_model v"
  "vv_owner (disclose_binding t r v) = vv_owner v" "vv_owner_is_caller (disclose_binding t r v) = vv_owner_is_caller v"
  by (simp_all add: disclose_binding_def split: transparency.split)

lemma base_view_simps [simp]:
  "vv_backing (base_view s r auth) = no_id" "vv_backing_generation (base_view s r auth) = no_gen"
  "vv_physical (base_view s r auth) = no_id" "vv_physical_generation (base_view s r auth) = no_gen"
  "vv_physical_stable_key (base_view s r auth) = []" "vv_physical_model (base_view s r auth) = []"
  "vv_owner (base_view s r auth) = va_owner r" "vv_owner_is_caller (base_view s r auth) = (auth_tenant auth = Some (va_owner r))"
  by (simp_all add: base_view_def Let_def)


text \<open>The one thing the device record could leak is what FULL shows of it: with any other level the view
  does not depend on the registry of physical devices at all.\<close>

lemma view_independent_of_devices:
  "pol_transparency (st_policy s) \<noteq> TR_Full \<Longrightarrow> make_view (s\<lparr> st_physical := m \<rparr>) r auth = make_view s r auth"
  by (simp add: make_view_def disclose_lease_def disclose_backing_def base_view_def Let_def cong: option.case_cong)

section \<open>Explanations are complete\<close>

lemma explain_claim_dimension: "ic_dimension (explain_claim mech profile d) = d"
  by (auto simp: explain_claim_def profile_find_def find_Some_iff Let_def split: option.split)

lemma explain_claim_state: "ic_state (explain_claim mech profile d) = state_of profile d"
  by (simp add: explain_claim_def state_of_def Let_def split: option.split)

lemma explain_claim_text: "mech \<noteq> [] \<Longrightarrow> ic_mechanism (explain_claim mech profile d) \<noteq> [] \<and> ic_rationale (explain_claim mech profile d) \<noteq> []"
proof -
  have "isolation_state_meaning st \<noteq> []" for st by (cases st) simp_all
  then show "mech \<noteq> [] \<Longrightarrow> ic_mechanism (explain_claim mech profile d) \<noteq> [] \<and> ic_rationale (explain_claim mech profile d) \<noteq> []"
    by (auto simp: explain_claim_def Let_def txt_no_claim_def split: option.split)
qed

lemma claims_partition:
  "length (claims_in IS_Isolated cs) + length (claims_in IS_Partial cs) + length (claims_in IS_Shared cs) +
   length (claims_in IS_Unknown cs) + length (claims_in IS_Unsupported cs) = length cs"
proof (induction cs)
  case (Cons c cs)
  then show ?case by (cases "ic_state c") (simp_all add: claims_in_def)
qed (simp add: claims_in_def)

text \<open>An isolation explanation has exactly one claim per dimension, in the fixed order, whose state is
  what the accelerator's profile records (Unknown where nothing is recorded); each claim is filed in exactly
  one of the five groups; and the verdict is that of the evaluation over the merged requirements.\<close>

theorem isolation_explanation_complete:
  assumes "explain_isolation i im = Inr x"
  shows "\<exists>r. om_find (st_virtuals (im_state im)) i = Some r \<and>
    map ic_dimension (ix_claims x) = all_isolation_dimensions \<and>
    (\<forall>c \<in> set (ix_claims x). ic_state c = state_of (va_isolation r) (ic_dimension c)) \<and>
    length (ix_isolated x) + length (ix_partial x) + length (ix_shared x) + length (ix_unknown x) +
      length (ix_unsupported x) = length (ix_claims x) \<and>
    set (ix_isolated x) = {c \<in> set (ix_claims x). ic_state c = IS_Isolated} \<and>
    ix_satisfies_policy x = (ix_unmet_requirements x = []) \<and>
    (ix_satisfies_policy x \<longleftrightarrow> (\<forall>q \<in> set (merged_requirements (va_contract r) (st_policy (im_state im))).
      isolation_state_at_least (state_of (va_isolation r) (ir_dimension q)) (ir_minimum q)))"
proof -
  obtain r where r: "om_find (st_virtuals (im_state im)) i = Some r"
    using assms by (auto simp: explain_isolation_def split: option.splits)
  let ?q = "merged_requirements (va_contract r) (st_policy (im_state im))"
  let ?e = "evaluate_isolation (va_isolation r) ?q"
  let ?mech = "snd (case om_find (st_backings (im_state im)) (va_backing r) of
    Some b \<Rightarrow> (bk_provenance b, bk_mechanism b) | None \<Rightarrow> (PV_Unknown, txt_no_backing))"
  have x: "ix_claims x = map (explain_claim ?mech (va_isolation r)) all_isolation_dimensions"
    "ix_isolated x = claims_in IS_Isolated (ix_claims x)" "ix_partial x = claims_in IS_Partial (ix_claims x)"
    "ix_shared x = claims_in IS_Shared (ix_claims x)" "ix_unknown x = claims_in IS_Unknown (ix_claims x)"
    "ix_unsupported x = claims_in IS_Unsupported (ix_claims x)"
    "ix_satisfies_policy x = ie_satisfied ?e" "ix_unmet_requirements x = ie_unmet ?e"
    using assms r by (auto simp: explain_isolation_def Let_def split_beta)
  have "map ic_dimension (ix_claims x) = all_isolation_dimensions"
    by (simp add: x(1) comp_def explain_claim_dimension)
  moreover have "\<forall>c \<in> set (ix_claims x). ic_state c = state_of (va_isolation r) (ic_dimension c)"
    by (simp add: x(1) explain_claim_state explain_claim_dimension)
  moreover have "length (ix_isolated x) + length (ix_partial x) + length (ix_shared x) + length (ix_unknown x) +
      length (ix_unsupported x) = length (ix_claims x)"
    unfolding x(2-6) by (rule claims_partition)
  moreover have "set (ix_isolated x) = {c \<in> set (ix_claims x). ic_state c = IS_Isolated}"
    by (auto simp: x(2) claims_in_def)
  moreover have "ix_satisfies_policy x = (ix_unmet_requirements x = [])"
    "ix_satisfies_policy x = list_all (requirement_met (va_isolation r)) ?q"
    unfolding x(7,8) using evaluate_isolation_correct [of "va_isolation r" ?q] by blast+
  ultimately show ?thesis using r by (auto simp: list_all_iff)
qed

lemma view_of_own: "v \<in> set (list_virtual auth im) \<Longrightarrow> auth_tenant auth = Some t \<Longrightarrow> vv_owner v = t \<and> vv_owner_is_caller v"
  by (auto dest!: in_set_takeD simp: list_virtual_def make_view_def)

end
