(* ===== verification/AV_System.thy ===== *)
theory AV_System
  imports AV_Tenancy AV_Execution AV_Recovery AV_Views
begin

text \<open>
  The runtime as one state machine. \<open>operation\<close> has a constructor for every state-changing method of the
  public class \<open>VirtualizationRuntime\<close> (\<open>include/av/runtime.hpp\<close>); \<open>perform\<close> runs one of them and reports
  its outcome code. Every method holds the runtime's mutex from its first to its last statement, so any
  concurrent use of the class is one sequence of such steps: \<open>runtime_step\<close> is one of them and
  \<open>reachable_from\<close> is their closure.

  Two operations carry a side condition. Creating an accelerator takes the identity \<open>next_sequence\<close>, which
  must not be in use: it is not before the 64-bit counter has wrapped. Committing a migration relies on the
  accelerator's generation to notice that it was retired in between, which it does before that 64-bit
  counter has wrapped. Neither condition restricts what a caller may ask for.

  The invariants of one step are carried over to whole runs in the locale \<open>safe_steps\<close>.
\<close>

section \<open>Operations\<close>

datatype operation =
    Op_Shutdown
  | Op_RegisterAgent string string u64 ag_id
  | Op_AgentHeartbeat ag_id boot_id
  | Op_AgentDisconnected ag_id boot_id
  | Op_RegisterPhysical authority ag_id boot_id device_descriptor
  | Op_RefreshPhysical authority pd_id pd_gen device_descriptor
  | Op_PhysicalLost pd_id pd_gen string
  | Op_SetPolicy authority virtualization_policy
  | Op_CreateTenant authority string string
  | Op_FenceTenant authority tn_id tn_gen string
  | Op_TransferOwnership authority tn_id tn_gen
  | Op_CreateVirtual authority string tn_id tn_gen resource_contract
  | Op_UpdateContract authority resource_contract
  | Op_Activate authority
  | Op_Suspend authority string
  | Op_Resume authority string
  | Op_ResolveRecovery authority string
  | Op_Drain authority string
  | Op_FenceVirtual authority string
  | Op_RetireVirtual authority string
  | Op_AssignBacking authority bk_id string
  | Op_ReplaceBacking authority bk_id string
  | Op_Attach authority
  | Op_RenewLease authority
  | Op_Detach authority
  | Op_RevokeLease authority string
  | Op_PlanMigration authority bk_id migration_class
  | Op_PrepareMigration authority
  | Op_CommitMigration authority
  | Op_CompleteMigration authority
  | Op_AbortMigration authority string
  | Op_ClassifyRecoveredMigrations
  | Op_ReserveAllocation authority u64
  | Op_ReleaseAllocation authority u64
  | Op_AccountKernel authority u32

definition report :: "'a result \<times> impl \<Rightarrow> status_code \<times> impl" where
  "report out = (case fst out of Inl c \<Rightarrow> c | Inr _ \<Rightarrow> SC_Ok, snd out)"

fun perform :: "env \<Rightarrow> operation \<Rightarrow> impl \<Rightarrow> status_code \<times> impl" where
  "perform e Op_Shutdown im = report (shutdown e im)"
| "perform e (Op_RegisterAgent name endpoint conn i) im = report (register_agent e name endpoint conn i im)"
| "perform e (Op_AgentHeartbeat i boot) im = report (agent_heartbeat e i boot im)"
| "perform e (Op_AgentDisconnected i boot) im = report (agent_disconnected i boot im)"
| "perform e (Op_RegisterPhysical auth i boot d) im = report (do_register_physical e auth i boot d im)"
| "perform e (Op_RefreshPhysical auth i g d) im = report (refresh_physical e auth i g d im)"
| "perform e (Op_PhysicalLost i g reason) im = report (physical_lost e i g reason im)"
| "perform e (Op_SetPolicy auth policy) im = report (set_policy e auth policy im)"
| "perform e (Op_CreateTenant auth name subject) im = report (create_tenant e auth name subject im)"
| "perform e (Op_FenceTenant auth i g reason) im = report (fence_tenant e auth i g reason im)"
| "perform e (Op_TransferOwnership auth i g) im = report (transfer_ownership e auth i g im)"
| "perform e (Op_CreateVirtual auth name i g contract) im = report (create_virtual e auth name i g contract im)"
| "perform e (Op_UpdateContract auth contract) im = report (update_contract e auth contract im)"
| "perform e (Op_Activate auth) im = report (activate e auth im)"
| "perform e (Op_Suspend auth reason) im = report (suspend e auth reason im)"
| "perform e (Op_Resume auth reason) im = report (resume e auth reason im)"
| "perform e (Op_ResolveRecovery auth reason) im = report (resolve_recovery e auth reason im)"
| "perform e (Op_Drain auth reason) im = report (drain e auth reason im)"
| "perform e (Op_FenceVirtual auth reason) im = report (fence_virtual e auth reason im)"
| "perform e (Op_RetireVirtual auth reason) im = report (retire_virtual e auth reason im)"
| "perform e (Op_AssignBacking auth b reason) im = report (assign_backing e auth b reason im)"
| "perform e (Op_ReplaceBacking auth b reason) im = report (replace_backing e auth b reason im)"
| "perform e (Op_Attach auth) im = report (attach e auth im)"
| "perform e (Op_RenewLease auth) im = report (renew_lease e auth im)"
| "perform e (Op_Detach auth) im = report (detach e auth im)"
| "perform e (Op_RevokeLease auth reason) im = report (revoke_lease e auth reason im)"
| "perform e (Op_PlanMigration auth b klass) im = report (plan_migration e auth b klass im)"
| "perform e (Op_PrepareMigration auth) im = report (prepare_migration e auth im)"
| "perform e (Op_CommitMigration auth) im = report (commit_migration e auth im)"
| "perform e (Op_CompleteMigration auth) im = report (complete_migration e auth im)"
| "perform e (Op_AbortMigration auth reason) im = report (abort_migration e auth reason im)"
| "perform e Op_ClassifyRecoveredMigrations im = report (do_classify_recovered_migrations e im)"
| "perform e (Op_ReserveAllocation auth bytes) im = report (reserve_allocation e auth bytes im)"
| "perform e (Op_ReleaseAllocation auth bytes) im = report (release_allocation e auth bytes im)"
| "perform e (Op_AccountKernel auth count) im = report (account_kernel e auth count im)"

section \<open>Steps and runs\<close>

definition fresh_identity :: "vstate \<Rightarrow> bool" where
  "fresh_identity s \<longleftrightarrow> om_find (st_virtuals s) (Ident (st_next_sequence s)) = None"

fun admissible :: "operation \<Rightarrow> vstate \<Rightarrow> bool" where
  "admissible (Op_CreateVirtual _ _ _ _ _) s = fresh_identity s"
| "admissible (Op_CommitMigration _) s = commit_ready_alive s"
| "admissible _ s = True"

inductive runtime_step :: "impl \<Rightarrow> impl \<Rightarrow> bool" where
  step: "admissible op (im_state im) \<Longrightarrow> runtime_step im (snd (perform e op im))"

inductive reachable_from :: "impl \<Rightarrow> impl \<Rightarrow> bool" where
  here: "reachable_from im im"
| more: "reachable_from im im1 \<Longrightarrow> runtime_step im1 im2 \<Longrightarrow> reachable_from im im2"

inductive_cases runtime_stepE: "runtime_step im im'"

section \<open>Safe steps\<close>

text \<open>What a relation on states promises when every single step keeps it: it holds along every run.\<close>

locale safe_steps =
  fixes keeps :: "impl \<Rightarrow> bool" and leads :: "impl \<Rightarrow> impl \<Rightarrow> bool"
  assumes step_keeps: "keeps im \<Longrightarrow> runtime_step im im' \<Longrightarrow> keeps im'"
    and step_leads: "keeps im \<Longrightarrow> runtime_step im im' \<Longrightarrow> leads im im'"
    and leads_refl: "leads im im"
    and leads_trans: "leads im im1 \<Longrightarrow> leads im1 im2 \<Longrightarrow> leads im im2"
begin

lemma run_keeps: "reachable_from im im' \<Longrightarrow> keeps im \<Longrightarrow> keeps im'"
  by (induction rule: reachable_from.induct) (auto intro: step_keeps)

lemma run_leads: "reachable_from im im' \<Longrightarrow> keeps im \<Longrightarrow> leads im im'"
proof (induction rule: reachable_from.induct)
  case (here im)
  show ?case by (rule leads_refl)
next
  case (more im im1 im2)
  then show ?case using run_keeps [of im im1] by (blast intro: leads_trans step_leads)
qed

end

section \<open>Every step is safe\<close>

text \<open>Some operations leave a lease or a fence behind when the lifecycle step that follows is refused;
  the records stay well formed and the lifecycle states legal all the same.\<close>

definition shaped :: "env \<Rightarrow> impl \<Rightarrow> impl \<Rightarrow> bool" where
  "shaped e im im' \<longleftrightarrow> well_formed (im_state im') \<and> lifecycle_flow (im_state im) (im_state im') \<and>
    written_through e (im_state im) im'"

lemma shaped_sound: "op_sound e im out \<Longrightarrow> shaped e im (snd out)"
  by (simp add: op_sound_def shaped_def)

lemma shaped_report [simp]: "shaped e im (snd (report out)) = shaped e im (snd out)"
  by (simp add: report_def)

lemma shaped_finalize:
  "txn (im_state im) im1 \<Longrightarrow> well_formed (im_state im) \<Longrightarrow> shaped e im (snd (finalize e c status kind im1))"
  using finalize_txn [of "im_state im" im1] by (simp add: shaped_def)

lemma shaped_ends:
  assumes "txn (im_state im) im1" and "well_formed (im_state im)"
  shows "shaped e im (snd (refuse e c status im1))" "shaped e im (snd (accept e c kind v im1))"
  using shaped_finalize [OF assms] by (simp_all add: refuse_def accept_def split_beta)

lemma shaped_same: "im_state im' = im_state im \<Longrightarrow> well_formed (im_state im) \<Longrightarrow> shaped e im im'"
  by (simp add: shaped_def lifecycle_flow_refl written_through_def)

lemma fence_virtual_shaped:
  assumes "well_formed (im_state im)"
  shows "shaped e im (snd (fence_virtual e auth reason im))"
proof (cases "owned_guard auth (\<lambda>r im. refuse_if (va_state r = LC_Retired) SC_VirtualRetired) (begin_op im)")
  case (Inl c)
  then show ?thesis using shaped_ends(1) [of im "begin_op im"] assms
    by (simp add: lifecycle_operations guarded_transition_def Let_def)
next
  case (Inr r)
  then have "om_find (st_virtuals (im_state im)) (va_id r) = Some r"
    using owned_guard_found [of "begin_op im" auth _ r] assms by (auto simp: well_formed_def)
  then have "txn (im_state im) (fence_virtual_effect e r reason (begin_op im))"
    using fence_virtual_effect_ok assms by (auto simp: effect_ok_def)
  then show ?thesis using assms Inr
    by (auto simp: lifecycle_operations guarded_transition_def Let_def transition_or_refuse_def split_beta
        intro!: shaped_ends)
qed

lemma release_tail_shaped:
  assumes "txn (im_state im) im1" and "well_formed (im_state im)"
  shows "shaped e im (snd (release_tail e ctx k counted note im1))"
  using assms by (auto simp: release_tail_def Let_def split_beta intro!: shaped_ends)

lemma detach_shaped:
  assumes "well_formed (im_state im)"
  shows "shaped e im (snd (detach e auth im))"
proof (cases "resolve_lease_for auth False (begin_op im)")
  case (Inl c)
  then show ?thesis using assms by (auto simp: detach_def Let_def intro!: shaped_ends)
next
  case (Inr p)
  then show ?thesis using assms
    by (cases p) (auto simp: detach_def Let_def intro!: release_tail_shaped)
qed

lemma revoke_lease_shaped:
  assumes "well_formed (im_state im)"
  shows "shaped e im (snd (revoke_lease e auth reason im))"
proof (cases "resolve_lease_for auth False (begin_op im)")
  case (Inl c)
  then show ?thesis using assms by (auto simp: revoke_lease_def Let_def intro!: shaped_ends)
next
  case (Inr p)
  then show ?thesis using assms
    by (cases p) (auto simp: revoke_lease_def Let_def intro!: release_tail_shaped)
qed

lemmas operations_sound = create_tenant_sound fence_tenant_sound create_virtual_sound update_contract_sound
  activate_sound suspend_sound resume_sound resolve_recovery_sound drain_sound retire_sound assign_backing_sound
  replace_backing_sound attach_sound renew_sound set_policy_sound register_sound refresh_sound physical_lost_sound
  plan_sound prepare_sound commit_sound complete_sound abort_sound classify_sound reserve_allocation_sound
  release_allocation_sound account_kernel_sound

lemmas operations_shaped = fence_virtual_shaped detach_shaped revoke_lease_shaped

lemma register_agent_shaped:
  assumes "well_formed (im_state im)"
  shows "well_formed (im_state (snd (register_agent e name endpoint conn i im))) \<and>
    lifecycle_flow (im_state im) (im_state (snd (register_agent e name endpoint conn i im)))"
  using register_agent_entities [OF assms] lifecycle_flow_same same_entities_well_formed assms by blast

lemma agent_ops_state:
  "im_state (snd (agent_heartbeat e i boot im)) = im_state im" "im_state (snd (agent_disconnected i boot im)) = im_state im"
  by (simp_all add: agent_heartbeat_def agent_disconnected_def upd_agent_def split: option.split)

text \<open>An operation that is acknowledged was written through, and so was every refusal but that of an agent
  registration.\<close>

fun registers_agent :: "operation \<Rightarrow> bool" where
  "registers_agent (Op_RegisterAgent _ _ _ _) = True"
| "registers_agent _ = False"

lemma perform_shaped:
  assumes "well_formed (im_state im)" and "admissible op (im_state im)"
    and "registers_agent op \<Longrightarrow> fst (perform e op im) = SC_Ok"
  shows "shaped e im (snd (perform e op im))"
proof (cases op)
  case Op_Shutdown
  then show ?thesis using shutdown_shape [OF assms(1)] by (simp add: report_def shaped_def)
next
  case (Op_TransferOwnership auth i g)
  then show ?thesis using transfer_sound [OF assms(1)] by (simp add: report_def shaped_def)
next
  case (Op_RegisterAgent name endpoint conn i)
  then obtain a where "fst (register_agent e name endpoint conn i im) = Inr a"
    using assms(3) by (auto simp: report_def register_agent_def Let_def split_beta split: sum.splits if_splits)
  then show ?thesis using Op_RegisterAgent register_agent_shaped [OF assms(1)] register_agent_written [OF assms(1)]
    by (simp add: report_def shaped_def)
qed (use assms in \<open>simp_all add: operations_sound [THEN shaped_sound] operations_shaped shaped_same agent_ops_state fresh_identity_def\<close>)

lemma perform_safe:
  assumes "well_formed (im_state im)" and "admissible op (im_state im)"
  shows "well_formed (im_state (snd (perform e op im))) \<and> lifecycle_flow (im_state im) (im_state (snd (perform e op im)))"
proof (cases "registers_agent op")
  case True
  then obtain name endpoint conn i where "op = Op_RegisterAgent name endpoint conn i" by (cases op) auto
  then show ?thesis using register_agent_shaped [OF assms(1)] by (simp add: report_def)
next
  case False
  then show ?thesis using perform_shaped [OF assms, of e] by (simp add: shaped_def)
qed

end
