(* ===== verification/AV_Safety.thy ===== *)
theory AV_Safety
  imports AV_System
begin

text \<open>
  Properties of every run of the runtime: the states it reaches, what a refused operation leaves behind,
  which authority a successful operation must have presented, and whose accelerator it may change.
\<close>

section \<open>Runs\<close>

lemma step_safe: "well_formed (im_state im) \<Longrightarrow> runtime_step im im' \<Longrightarrow>
   well_formed (im_state im') \<and> lifecycle_flow (im_state im) (im_state im')"
  by (erule runtime_stepE) (simp add: perform_safe)

interpretation runtime: safe_steps "\<lambda>im. well_formed (im_state im)" "\<lambda>im im'. lifecycle_flow (im_state im) (im_state im')"
  by unfold_locales (auto dest: step_safe simp: lifecycle_flow_refl intro: lifecycle_flow_trans)


text \<open>Retirement is final: a virtual accelerator that is retired stays on record and stays
  retired in every state the runtime reaches.\<close>

theorem retired_forever:
  assumes "well_formed (im_state im)" and "reachable_from im im'"
    and "om_find (st_virtuals (im_state im)) k = Some r" and "va_state r = LC_Retired"
  shows "\<exists>r'. om_find (st_virtuals (im_state im')) k = Some r' \<and> va_state r' = LC_Retired"
  using lifecycle_flow_retired [OF runtime.run_leads [OF assms(2,1)], of k] assms(3,4)
  by (auto simp: va_states_def)

section \<open>Refused operations\<close>

text \<open>When the undo log covers an operation completely. It does not for a transfer of ownership, and a
  shutdown has no undo: it is the end of the process.\<close>

fun reversible :: "operation \<Rightarrow> vstate \<Rightarrow> bool" where
  "reversible Op_Shutdown s = False"
| "reversible (Op_TransferOwnership _ _ _) s = False"
| "reversible (Op_FenceVirtual _ _) s = fenced_quiet s"
| "reversible (Op_Detach _) s = releasable s"
| "reversible (Op_RevokeLease _ _) s = releasable s"
| "reversible _ s = True"

lemma sound_refused:
  "op_sound e im out \<Longrightarrow> fst (report out) \<noteq> SC_Ok \<Longrightarrow> same_entities (im_state im) (im_state (snd (report out)))"
  by (auto simp: report_def op_sound_def atomic_outcome_def split: sum.splits)

lemmas operations_atomic = operations_sound fence_sound detach_sound revoke_lease_sound


section \<open>Authority\<close>

fun authority_of :: "operation \<Rightarrow> authority option" where
  "authority_of Op_Shutdown = None"
| "authority_of (Op_RegisterAgent _ _ _ _) = None"
| "authority_of (Op_AgentHeartbeat _ _) = None"
| "authority_of (Op_AgentDisconnected _ _) = None"
| "authority_of (Op_PhysicalLost _ _ _) = None"
| "authority_of Op_ClassifyRecoveredMigrations = None"
| "authority_of (Op_RegisterPhysical auth _ _ _) = Some auth"
| "authority_of (Op_RefreshPhysical auth _ _ _) = Some auth"
| "authority_of (Op_SetPolicy auth _) = Some auth"
| "authority_of (Op_CreateTenant auth _ _) = Some auth"
| "authority_of (Op_FenceTenant auth _ _ _) = Some auth"
| "authority_of (Op_TransferOwnership auth _ _) = Some auth"
| "authority_of (Op_CreateVirtual auth _ _ _ _) = Some auth"
| "authority_of (Op_UpdateContract auth _) = Some auth"
| "authority_of (Op_Activate auth) = Some auth"
| "authority_of (Op_Suspend auth _) = Some auth"
| "authority_of (Op_Resume auth _) = Some auth"
| "authority_of (Op_ResolveRecovery auth _) = Some auth"
| "authority_of (Op_Drain auth _) = Some auth"
| "authority_of (Op_FenceVirtual auth _) = Some auth"
| "authority_of (Op_RetireVirtual auth _) = Some auth"
| "authority_of (Op_AssignBacking auth _ _) = Some auth"
| "authority_of (Op_ReplaceBacking auth _ _) = Some auth"
| "authority_of (Op_Attach auth) = Some auth"
| "authority_of (Op_RenewLease auth) = Some auth"
| "authority_of (Op_Detach auth) = Some auth"
| "authority_of (Op_RevokeLease auth _) = Some auth"
| "authority_of (Op_PlanMigration auth _ _) = Some auth"
| "authority_of (Op_PrepareMigration auth) = Some auth"
| "authority_of (Op_CommitMigration auth) = Some auth"
| "authority_of (Op_CompleteMigration auth) = Some auth"
| "authority_of (Op_AbortMigration auth _) = Some auth"
| "authority_of (Op_ReserveAllocation auth _) = Some auth"
| "authority_of (Op_ReleaseAllocation auth _) = Some auth"
| "authority_of (Op_AccountKernel auth _) = Some auth"

lemma report_refuse [simp]: "status \<noteq> SC_Ok \<Longrightarrow> fst (report (refuse e c status im)) \<noteq> SC_Ok"
  by (auto simp: report_def refuse_def split_beta finalize_def commit_def Let_def)

lemma report_error [simp]: "fst (report (Inl c, im)) = c"
  by (simp add: report_def)

text \<open>What all authority checks of the runtime open with.\<close>

definition current_epoch :: "authority \<Rightarrow> impl \<Rightarrow> bool" where
  "current_epoch auth im \<longleftrightarrow> \<not> im_store_failed im \<and> auth_epoch auth = Some (st_epoch (im_state im))"

lemma checks_current:
  "guard_store im = SC_Ok \<Longrightarrow> check_epoch auth im = SC_Ok \<Longrightarrow> current_epoch auth im"
  by (auto simp: guard_store_def check_epoch_def current_epoch_def split: option.splits if_splits)

lemma current_begin [simp]: "current_epoch auth (begin_op im) = current_epoch auth im"
  by (simp add: current_epoch_def begin_op_def Let_def)

text \<open>The authority an owner's operation needs: the current epoch, the tenant at its current generation and
  not fenced, and the accelerator, at its current generation, owned by that tenant.\<close>

definition owner_authority :: "authority \<Rightarrow> impl \<Rightarrow> bool" where
  "owner_authority auth im \<longleftrightarrow> current_epoch auth im \<and>
    (\<exists>t r. resolve_tenant auth im = Inr t \<and> resolve_virtual auth im = Inr r \<and> require_owner r t = SC_Ok)"

lemma owner_begin [simp]: "owner_authority auth (begin_op im) = owner_authority auth im"
  by (simp add: owner_authority_def)

lemma checks_need_epoch [simp]:
  "\<not> current_epoch auth im \<Longrightarrow> basic_checks auth im \<noteq> SC_Ok"
  "\<not> current_epoch auth im \<Longrightarrow> request_checks auth im \<noteq> SC_Ok"
  "\<not> current_epoch auth im \<Longrightarrow> guard_store im = SC_Ok \<Longrightarrow> check_epoch auth im \<noteq> SC_Ok"
  using checks_current [of im auth] by (auto simp: basic_checks_def request_checks_def simp del: first_error.simps)

lemma unowned:
  assumes "\<not> owner_authority auth im" and "pre = SC_Ok \<Longrightarrow> current_epoch auth im"
  shows "\<exists>c. c \<noteq> SC_Ok \<and> resolve_owned pre auth im = Inl c"
proof (cases "resolve_owned pre auth im")
  case (Inl c)
  then show ?thesis using resolve_owned_code [OF Inl] by blast
next
  case (Inr p)
  then show ?thesis using assms by (cases p) (auto simp: resolve_owned_ok owner_authority_def)
qed

lemma unowned_checks:
  assumes "\<not> owner_authority auth im"
  obtains c d f where "c \<noteq> SC_Ok" "resolve_owned (request_checks auth im) auth im = Inl c"
    "d \<noteq> SC_Ok" "resolve_owned (basic_checks auth im) auth im = Inl d"
    "f \<noteq> SC_Ok" "resolve_owned (first_error [guard_store im, check_epoch auth im]) auth im = Inl f"
proof -
  have 1: "request_checks auth im = SC_Ok \<Longrightarrow> current_epoch auth im"
    "basic_checks auth im = SC_Ok \<Longrightarrow> current_epoch auth im"
    "first_error [guard_store im, check_epoch auth im] = SC_Ok \<Longrightarrow> current_epoch auth im"
    using checks_need_epoch [of auth im] by (auto simp del: first_error.simps)
  show thesis using unowned [OF assms 1(1)] unowned [OF assms 1(2)] unowned [OF assms 1(3)] that by blast
qed

fun owner_operation :: "operation \<Rightarrow> bool" where
  "owner_operation (Op_ReleaseAllocation _ _) = False"
| "owner_operation (Op_RegisterPhysical _ _ _ _) = False"
| "owner_operation (Op_RefreshPhysical _ _ _ _) = False"
| "owner_operation (Op_SetPolicy _ _) = False"
| "owner_operation (Op_CreateTenant _ _ _) = False"
| "owner_operation (Op_FenceTenant _ _ _ _) = False"
| "owner_operation (Op_CreateVirtual _ _ _ _ _) = False"
| "owner_operation op = (authority_of op \<noteq> None)"

lemmas guard_defs = transfer_guard_def update_contract_guard_def simple_transition_def owned_guard_def assign_guard_def
  attach_guard_def renew_guard_def resolve_lease_for_def plan_guard_def phase_guard_def migration_prologue_def
  reserve_guard_def kernel_guard_def

lemmas operation_defs = transfer_ownership_def update_contract_def activate_def suspend_def resume_def
  resolve_recovery_def drain_def fence_virtual_def retire_virtual_def assign_backing_def replace_backing_def
  do_assign_backing_def attach_def renew_lease_def detach_def revoke_lease_def plan_migration_def
  prepare_migration_def commit_migration_def complete_migration_def abort_migration_def reserve_allocation_def
  account_kernel_def

lemma unowned_refused:
  assumes "owner_operation op" and "authority_of op = Some auth" and "\<not> owner_authority auth im"
  shows "fst (perform e op im) \<noteq> SC_Ok"
proof -
  obtain c d f where "c \<noteq> SC_Ok" "resolve_owned (request_checks auth (begin_op im)) auth (begin_op im) = Inl c"
    "d \<noteq> SC_Ok" "resolve_owned (basic_checks auth (begin_op im)) auth (begin_op im) = Inl d"
    "f \<noteq> SC_Ok"
    "resolve_owned (first_error [guard_store (begin_op im), check_epoch auth (begin_op im)]) auth (begin_op im) = Inl f"
    using unowned_checks [of auth "begin_op im"] assms(3) by auto
  note facts = this
  show ?thesis
    using assms(1,2) facts
    by (cases op) (simp_all add: operation_defs guard_defs Let_def request_checks_def [symmetric] del: first_error.simps)
qed

text \<open>The other operations: release looks the accelerator up without its generation.\<close>

lemma stale_epoch_refused:
  assumes "authority_of op = Some auth" and "\<not> current_epoch auth im"
  shows "fst (perform e op im) \<noteq> SC_Ok"
proof (cases "owner_operation op")
  case True
  then show ?thesis using assms by (intro unowned_refused) (auto simp: owner_authority_def)
next
  case False
  let ?im = "begin_op im"
  have 1: "request_checks auth ?im \<noteq> SC_Ok" "first_error [guard_store ?im, check_epoch auth ?im] \<noteq> SC_Ok"
    "guard_store ?im = SC_Ok \<Longrightarrow> check_epoch auth ?im \<noteq> SC_Ok"
    using checks_need_epoch [of auth ?im] assms(2) by (auto simp del: first_error.simps)
  then have 2: "create_tenant_guard auth name subject ?im \<noteq> SC_Ok" "fence_tenant_guard auth i g ?im \<noteq> SC_Ok"
    "create_virtual_guard auth name i g contract ?im \<noteq> SC_Ok" "set_policy_guard auth policy ?im \<noteq> SC_Ok"
    "register_guard auth a b d ?im \<noteq> SC_Ok" for name subject i g contract policy a b d
    unfolding create_tenant_guard_def fence_tenant_guard_def create_virtual_guard_def set_policy_guard_def
      register_guard_def first_error_ok by auto
  show ?thesis
    using False assms(1) 1 2
    by (cases op) (simp_all add: create_tenant_def fence_tenant_def create_virtual_def set_policy_def
        do_register_physical_def refresh_physical_def release_allocation_def release_guard_def Let_def
        del: first_error.simps first_error_ok split: option.split)
qed


section \<open>Whose accelerator an operation changes\<close>

definition others_kept :: "va_id \<Rightarrow> vstate \<Rightarrow> vstate \<Rightarrow> bool" where
  "others_kept k s t \<longleftrightarrow> (\<forall>j. j \<noteq> k \<longrightarrow> om_find (st_virtuals t) j = om_find (st_virtuals s) j)"

lemma others_same: "same_entities s t \<Longrightarrow> others_kept k s t"
  by (simp add: others_kept_def same_entities_def)

lemma upd_virtual_other [simp]:
  "j \<noteq> k \<Longrightarrow> om_find (st_virtuals (im_state (upd_virtual k f im))) j = om_find (st_virtuals (im_state im)) j"
  by (simp add: upd_virtual_def upd_state_def)

lemma fence_lease_virtuals [simp]: "st_virtuals (im_state (snd (fence_lease reason now l acc))) = st_virtuals (im_state (snd acc))"
  by (simp add: fence_lease_def split: option.split)

lemma fence_fold_virtuals [simp]:
  "st_virtuals (im_state (snd (fold (fence_lease reason now) ls acc))) = st_virtuals (im_state (snd acc))"
  by (induction ls arbitrary: acc) simp_all

lemma fence_leases_other [simp]:
  "j \<noteq> k \<Longrightarrow> om_find (st_virtuals (im_state (snd (fence_leases k reason now im)))) j = om_find (st_virtuals (im_state im)) j"
  by (simp add: fence_leases_def Let_def split_beta release_tenant_attachments_def split: option.split)

lemma carry_fold_virtuals [simp]:
  "st_virtuals (im_state (fold (carry_lease g) ls im)) = st_virtuals (im_state im)"
  by (induction ls arbitrary: im) (simp_all add: carry_lease_def split: option.split)

lemma transition_other [simp]:
  "j \<noteq> k \<Longrightarrow> om_find (st_virtuals (im_state (snd (transition e k target reason im)))) j = om_find (st_virtuals (im_state im)) j"
  by (simp add: transition_def Let_def)

lemma rebuild_other [simp]:
  "j \<noteq> k \<Longrightarrow> om_find (st_virtuals (im_state (rebuild_projection_at k im))) j = om_find (st_virtuals (im_state im)) j"
  by (simp add: rebuild_projection_at_def rebuild_projection_def Let_def split_beta)

lemma binding_helpers_virtuals [simp]:
  "st_virtuals (im_state (revoke_assignment a reason now im)) = st_virtuals (im_state im)"
  "st_virtuals (im_state (release_backing b im)) = st_virtuals (im_state im)"
  "st_virtuals (im_state (supersede_assignment a now im)) = st_virtuals (im_state im)"
  by (simp_all add: revoke_assignment_def release_backing_def supersede_assignment_def split: option.split)

lemma effects_other:
  assumes "j \<noteq> va_id r"
  shows "om_find (st_virtuals (im_state (suspend_effect e r reason im))) j = om_find (st_virtuals (im_state im)) j"
    "om_find (st_virtuals (im_state (fence_virtual_effect e r reason im))) j = om_find (st_virtuals (im_state im)) j"
    "om_find (st_virtuals (im_state (retire_effect e r reason im))) j = om_find (st_virtuals (im_state im)) j"
    "om_find (st_virtuals (im_state (snd (assign_effect e r target replacing reason im)))) j = om_find (st_virtuals (im_state im)) j"
    "om_find (st_virtuals (im_state (detach_effect e r l im))) j = om_find (st_virtuals (im_state im)) j"
    "om_find (st_virtuals (im_state (revoke_effect e r l reason im))) j = om_find (st_virtuals (im_state im)) j"
    "om_find (st_virtuals (im_state (snd (plan_effect e target klass r im)))) j = om_find (st_virtuals (im_state im)) j"
  using assms
  by (simp_all add: suspend_effect_def fence_virtual_effect_def retire_effect_def assign_effect_def detach_effect_def
      revoke_effect_def plan_effect_def Let_def split_beta displace_binding_def install_binding_def record_binding_def
      drop_attachment_def split: option.split)

end
