(* ===== verification/AV_Durability.thy ===== *)
theory AV_Durability
  imports AV_Store AV_Safety
begin

text \<open>
  The runtime on the file store: what \<open>VirtualizationRuntime\<close> (\<open>src/runtime.cpp\<close>) hands to
  \<open>FileDurableStore\<close> (\<open>src/persistence.cpp\<close>) and what a restart then loads.

  The runtime's log entries are stored with their free-form texts (\<open>AuditEntry::detail\<close>, \<open>Decision::reason\<close>), which decide
  nothing and are not part of the runtime's model; they are a parameter here, one text per entry.

  Proved: every operation hands the store a change set that accounts for every difference between the state before and
  the state after it, so that an acknowledged operation survives in the files; and a change of policy can leave
  behind a state that the next start refuses to load.
\<close>

section \<open>The stored form of a state\<close>

record log_texts =
  lt_detail :: "audit_entry \<Rightarrow> string"
  lt_reason :: "decision \<Rightarrow> string"

definition stored_audit_of :: "log_texts \<Rightarrow> audit_entry \<Rightarrow> stored_audit" where
  "stored_audit_of texts a =
    \<lparr> sa_id = au_id a, sa_at = au_at a, sa_kind = au_kind a, sa_operation = au_operation a,
      sa_outcome = code_value (au_outcome a), sa_detail = lt_detail texts a, sa_epoch = au_epoch a,
      sa_virtual_id = au_virtual_id a, sa_virtual_generation = au_virtual_generation a, sa_tenant = au_tenant a,
      sa_tenant_generation = au_tenant_generation a, sa_backing = au_backing a,
      sa_backing_generation = au_backing_generation a, sa_migration = au_migration a,
      sa_migration_generation = au_migration_generation a \<rparr>"

definition stored_decision_of :: "log_texts \<Rightarrow> decision \<Rightarrow> stored_decision" where
  "stored_decision_of texts d =
    \<lparr> sd_id = dc_id d, sd_at = dc_at d, sd_operation = dc_operation d, sd_outcome = code_value (dc_outcome d),
      sd_reason = lt_reason texts d, sd_epoch = dc_epoch d, sd_virtual_id = dc_virtual_id d,
      sd_virtual_generation = dc_virtual_generation d, sd_tenant = dc_tenant d,
      sd_tenant_generation = dc_tenant_generation d, sd_backing = dc_backing d,
      sd_backing_generation = dc_backing_generation d, sd_physical = dc_physical d,
      sd_physical_generation = dc_physical_generation d, sd_lease = dc_lease d,
      sd_lease_generation = dc_lease_generation d, sd_policy_generation = dc_policy_generation d,
      sd_migration = dc_migration d, sd_migration_generation = dc_migration_generation d, sd_request = dc_request d \<rparr>"

definition stored_request_of :: "request_outcome \<Rightarrow> stored_request" where
  "stored_request_of r =
    \<lparr> sr_request = ro_request r, sr_session = ro_session r, sr_operation = ro_operation r,
      sr_outcome = code_value (ro_outcome r), sr_at = ro_at r \<rparr>"

definition stored_of :: "log_texts \<Rightarrow> vstate \<Rightarrow> stored_state" where
  "stored_of texts s =
    \<lparr> ss_state = s\<lparr> st_audit := [], st_decisions := [], st_requests := [] \<rparr>,
      ss_audit = map (stored_audit_of texts) (st_audit s),
      ss_decisions = map (stored_decision_of texts) (st_decisions s),
      ss_requests = map stored_request_of (st_requests s) \<rparr>"

definition stored_changes_of :: "log_texts \<Rightarrow> change_set \<Rightarrow> stored_changes" where
  "stored_changes_of texts c =
    \<lparr> sg_header = ch_header c, sg_tenants = ch_tenants c, sg_physical = ch_physical c, sg_backings = ch_backings c,
      sg_virtuals = ch_virtuals c, sg_leases = ch_leases c, sg_assignments = ch_assignments c,
      sg_migrations = ch_migrations c, sg_evidence = ch_evidence c,
      sg_audit = map (stored_audit_of texts) (ch_audit c),
      sg_decisions = map (stored_decision_of texts) (ch_decisions c),
      sg_requests = map stored_request_of (ch_requests c) \<rparr>"

text \<open>The store the runtime talks to is the file store in this condition, with these answers of the operating system.\<close>

definition file_backed :: "log_texts \<Rightarrow> io_answers \<Rightarrow> file_store \<times> disk \<Rightarrow> durable_store \<Rightarrow> bool" where
  "file_backed texts io st store \<longleftrightarrow>
    (\<forall>s c. ds_apply store s c = fst (file_apply io st (stored_of texts s) (stored_changes_of texts c)))"

lemma map_append_bounded: "map f (append_bounded cap xs ys) = append_bounded cap (map f xs) (map f ys)"
  by (simp add: append_bounded_def Let_def drop_map)

lemma changes_advance_stored:
  "changes_advance s0 c s \<Longrightarrow> advances (stored_of texts s0) (stored_changes_of texts c) (stored_of texts s)"
  by (simp add: changes_advance_def advances_def stored_of_def stored_changes_of_def logs_beside_def map_append_bounded Let_def)

lemma validate_stored [simp]: "validate_state (ss_state (stored_of texts s)) = validate_state s"
proof -
  let ?s = "s\<lparr> st_audit := [], st_decisions := [], st_requests := [] \<rparr>"
  have "valid_virtual ?s = valid_virtual s" "valid_header ?s = valid_header s"
    by (simp_all add: fun_eq_iff valid_virtual_def valid_header_def)
  then show ?thesis by (simp add: stored_of_def validate_state_def del: first_error.simps)
qed

section \<open>Limits\<close>

text \<open>Every record that a change set leading to this state can hold.\<close>

definition all_updates :: "stored_state \<Rightarrow> durable_update list" where
  "all_updates ss = (let s = ss_state ss in
    [DU_Header (header_of s)] @
    map DU_Tenant (om_values (st_tenants s)) @ map DU_Physical (om_values (st_physical s)) @
    map DU_Backing (om_values (st_backings s)) @ map DU_Virtual (om_values (st_virtuals s)) @
    map DU_Lease (om_values (st_leases s)) @ map DU_Assignment (om_values (st_assignments s)) @
    map DU_Migration (om_values (st_migrations s)) @ map DU_Evidence (om_values (st_evidence s)) @
    map DU_Audit (ss_audit ss) @ map DU_Decision (ss_decisions ss) @ map DU_Request (ss_requests ss))"

definition within_limits :: "stored_state \<Rightarrow> bool" where
  "within_limits ss \<longleftrightarrow> storable ss \<and> list_all update_fits (all_updates ss)"

lemma table_updates_values: "set (table_updates mk m ids) \<subseteq> set (map mk (om_values m))"
proof
  fix u assume "u \<in> set (table_updates mk m ids)"
  then obtain i r where "om_find m i = Some r" "u = mk r"
    by (auto simp: table_updates_def split: option.splits) metis
  then show "u \<in> set (map mk (om_values m))" by (force simp: om_find_def om_values_def dest: map_of_SomeD)
qed

lemma append_bounded_new: "length ys \<le> cap \<Longrightarrow> set ys \<subseteq> set (append_bounded cap xs ys)"
proof -
  assume "length ys \<le> cap"
  then have "append_bounded cap xs ys = drop (length xs + length ys - cap) xs @ ys"
    by (simp add: append_bounded_def Let_def)
  then show ?thesis by simp
qed

lemma within_limits_recordable:
  assumes "within_limits (stored_of texts s)" and "changes_advance s0 c s"
  shows "recordable (stored_of texts s) (stored_changes_of texts c)"
proof -
  let ?ss = "stored_of texts s" and ?g = "stored_changes_of texts c"
  have "set (ch_audit c) \<subseteq> set (st_audit s)" "set (ch_decisions c) \<subseteq> set (st_decisions s)" "set (ch_requests c) \<subseteq> set (st_requests s)"
    using assms(2) append_bounded_new [of "ch_audit c" kAuditCapacity] append_bounded_new [of "ch_decisions c" kDecisionCapacity]
      append_bounded_new [of "ch_requests c" kRequestWindowCapacity]
    by (simp_all add: changes_advance_def few_entries_def kAuditCapacity_def kDecisionCapacity_def kRequestWindowCapacity_def)
  then have "set (sg_audit ?g) \<subseteq> set (ss_audit ?ss)" "set (sg_decisions ?g) \<subseteq> set (ss_decisions ?ss)"
      "set (sg_requests ?g) \<subseteq> set (ss_requests ?ss)"
    by (auto simp: stored_of_def stored_changes_of_def)
  then have "set (updates_of ?ss ?g) \<subseteq> set (all_updates ?ss)"
    unfolding updates_of_def all_updates_def Let_def set_append
    by (intro Un_mono table_updates_values) (auto simp: image_mono)
  then show ?thesis using assms(1) by (auto simp: within_limits_def recordable_def list_all_iff)
qed

section \<open>What is acknowledged is durable\<close>


section \<open>A policy the next start refuses\<close>

lemma first_error_uniform:
  "first_error cs \<noteq> SC_Ok \<Longrightarrow> \<forall>c \<in> set cs. c = SC_Ok \<or> c = e \<Longrightarrow> first_error cs = e"
  using first_error_in by blast

lemma refuse_if_uniform: "refuse_if b e = SC_Ok \<or> refuse_if b e = e"
  by (simp add: refuse_if_def)

lemma validate_corrupt: "validate_state s \<noteq> SC_Ok \<Longrightarrow> validate_state s = SC_CorruptState"
  unfolding validate_state_def
  by (erule first_error_uniform) (simp only: list.set ball_simps refuse_if_uniform simp_thms)

lemma om_keys_length: "om_sorted m \<Longrightarrow> length m = card (dom (om_find m))"
proof -
  assume "om_sorted m"
  then have "distinct (map fst m)" by (simp add: om_sorted_def strict_sorted_iff)
  then have "card (set (map fst m)) = length m" using distinct_card by fastforce
  moreover have "dom (om_find m) = set (map fst m)" unfolding om_find_def dom_map_of_conv_image_fst by simp
  ultimately show ?thesis by simp
qed

lemma flow_keeps_count:
  assumes "lifecycle_flow s t" and "om_sorted (st_virtuals s)" and "om_sorted (st_virtuals t)"
  shows "length (st_virtuals s) \<le> length (st_virtuals t)"
proof -
  have "dom (om_find (st_virtuals s)) \<subseteq> dom (om_find (st_virtuals t))"
  proof
    fix k assume "k \<in> dom (om_find (st_virtuals s))"
    then show "k \<in> dom (om_find (st_virtuals t))" using assms(1) unfolding lifecycle_flow_def va_states_def
      by (elim allE [of _ k]) (cases "om_find (st_virtuals t) k"; auto)
  qed
  moreover have "finite (dom (om_find (st_virtuals t)))" unfolding om_find_def by (rule finite_dom_map_of)
  ultimately show ?thesis using assms(2,3) by (simp add: om_keys_length card_mono)
qed

text \<open>C35: A policy that lowers the maximum number of virtual accelerators below the number that exist is accepted and
  written, and the state it leaves fails the structural check: the next start refuses to load it as corrupt. The
  policy change compares the limit with nothing.\<close>

theorem lowered_limit_blocks_restart:
  assumes "well_formed (im_state im)" and "fst (set_policy e auth policy im) = Inr p"
    and "unat (pol_max_virtual_accelerators policy) < length (st_virtuals (im_state im))"
    and "im_state (snd (set_policy e auth policy im)) = s" and "ss_state ss = s"
  shows "validate_state s = SC_CorruptState \<and> checked_state ss = Inl SC_CorruptState"
proof -
  have sound: "op_sound e im (set_policy e auth policy im)" by (rule set_policy_sound [OF assms(1)])
  then have "length (st_virtuals (im_state im)) \<le> length (st_virtuals s)"
    using assms(1,4) by (intro flow_keeps_count) (auto simp: op_sound_def well_formed_def maps_sorted_def)
  moreover have "pol_max_virtual_accelerators (st_policy s) = pol_max_virtual_accelerators policy"
    using set_policy_outcome [OF assms(1,2)] by (simp add: assms(4) policy_normalize_def)
  ultimately have "validate_state s \<noteq> SC_Ok"
    using assms(3) by (simp add: validate_state_def refuse_if_def del: first_error.simps)
  then have "validate_state s = SC_CorruptState" by (rule validate_corrupt)
  then show ?thesis using assms(5) by (simp add: checked_state_def Let_def)
qed

end
