(* ===== verification/AV_Scope.thy ===== *)
theory AV_Scope
  imports AV_Safety
begin

text \<open>
  The scope of an owner's operation: it changes the record of no other virtual accelerator than the one its
  authority names, and that one belongs to the calling tenant.
\<close>

lemma others_refuse:
  "well_formed (im_state im) \<Longrightarrow> others_kept k (im_state im) (im_state (snd (report (refuse e c status (begin_op im)))))"
  using refuse_entities [of "im_state im" "begin_op im" e c status] txn_begin [of im]
  by (intro others_same) (simp add: report_def txn_def)

lemma commit_keeps: "fst (commit e im) = SC_Ok \<Longrightarrow> same_entities (im_state im) (im_state (snd (commit e im)))"
  by (auto simp: commit_def Let_def commit_logs_def upd_state_def same_entities_def split: if_splits)

lemma others_accept:
  assumes "others_kept k s (im_state im)" and "fst (report (accept e c kind v im)) = SC_Ok"
  shows "others_kept k s (im_state (snd (report (accept e c kind v im))))"
proof -
  have "fst (commit e (finalized e c SC_Ok kind im)) = SC_Ok"
    using assms(2) by (auto simp: report_def accept_result split: if_splits)
  from commit_keeps [OF this] finalized_entities [of im e c SC_Ok kind]
  have "same_entities (im_state im) (im_state (snd (accept e c kind v im)))"
    by (simp add: accept_state finalize_commit same_entities_def)
  then show ?thesis using assms(1) by (simp add: report_def others_kept_def same_entities_def)
qed

lemma named_virtual:
  assumes "well_formed (im_state im)" and "resolve_virtual auth (begin_op im) = Inr r" and "auth_virtual_id auth = Some k"
  shows "va_id r = k"
  using assms ids_match_virtual [of "im_state im" k r] by (auto simp: resolve_virtual_ok well_formed_def)

text \<open>The accelerator a guard hands on is the one the authority resolves to.\<close>

lemma guards_resolve:
  "transfer_guard auth i g im = Inr (t, r) \<Longrightarrow> resolve_virtual auth im = Inr r"
  "update_contract_guard auth contract im = Inr r \<Longrightarrow> resolve_virtual auth im = Inr r"
  "owned_guard auth extra im = Inr r \<Longrightarrow> resolve_virtual auth im = Inr r"
  "assign_guard auth replacing target im = Inr r \<Longrightarrow> resolve_virtual auth im = Inr r"
  "attach_guard auth im = Inr (t, r) \<Longrightarrow> resolve_virtual auth im = Inr r"
  "resolve_lease_for auth dead im = Inr (r, l) \<Longrightarrow> resolve_virtual auth im = Inr r"
  "plan_guard auth target klass im = Inr r \<Longrightarrow> resolve_virtual auth im = Inr r"
  "phase_guard auth phase im = Inr (m, r) \<Longrightarrow> resolve_virtual auth im = Inr r"
  "reserve_guard auth bytes im = Inr (r, l) \<Longrightarrow> resolve_virtual auth im = Inr r"
  "kernel_guard auth im = Inr (r, l) \<Longrightarrow> resolve_virtual auth im = Inr r"
  by (auto simp: guard_defs resolve_owned_ok Let_def split: sum.splits if_splits prod.splits option.splits)

lemma others_transition_or_refuse:
  assumes "\<And>j. j \<noteq> k \<Longrightarrow> om_find (st_virtuals (im_state im)) j = om_find (st_virtuals s) j"
    and "\<And>im. st_virtuals (im_state (after im)) = st_virtuals (im_state im)"
    and "fst (report (transition_or_refuse e ctx k target reason kind after im)) = SC_Ok"
  shows "others_kept k s (im_state (snd (report (transition_or_refuse e ctx k target reason kind after im))))"
proof -
  let ?im = "snd (transition e k target reason im)"
  have "others_kept k s (im_state (after ?im))" using assms(1,2) by (simp add: others_kept_def)
  then show ?thesis
    using assms(3) unfolding transition_or_refuse_def Let_def split_beta
    by (cases "fst (transition e k target reason im) = SC_Ok") (auto intro: others_accept)
qed

lemma others_guarded:
  assumes "well_formed (im_state im)" and "auth_virtual_id auth = Some k"
    and "\<And>r im j. j \<noteq> va_id r \<Longrightarrow> om_find (st_virtuals (im_state (eff r im))) j = om_find (st_virtuals (im_state im)) j"
    and "\<And>im. st_virtuals (im_state (after im)) = st_virtuals (im_state im)"
    and "fst (report (guarded_transition e auth ctx extra target reason eff after im)) = SC_Ok"
  shows "others_kept k (im_state im) (im_state (snd (report (guarded_transition e auth ctx extra target reason eff after im))))"
proof (cases "owned_guard auth extra (begin_op im)")
  case (Inl c)
  then show ?thesis using assms(1) by (simp add: guarded_transition_def Let_def others_refuse)
next
  case (Inr r)
  have k: "va_id r = k" using named_virtual [OF assms(1) guards_resolve(3) [OF Inr] assms(2)] .
  have "fst (report (transition_or_refuse e (adopt_virtual r ctx) k target reason AK_LifecycleChange after
      (eff r (begin_op im)))) = SC_Ok"
    using assms(5) Inr k by (simp add: guarded_transition_def Let_def)
  then show ?thesis
    unfolding guarded_transition_def Let_def Inr sum.case k
    by (intro others_transition_or_refuse) (use k assms(3,4) in auto)
qed

text \<open>An operation that consists of a guard and an effect on the accelerator the guard resolved.\<close>

lemma others_effect:
  assumes "well_formed (im_state im)" and "auth_virtual_id auth = Some k" and "resolve_virtual auth (begin_op im) = Inr r"
    and "\<And>j. j \<noteq> va_id r \<Longrightarrow> om_find (st_virtuals (im_state im1)) j = om_find (st_virtuals (im_state im)) j"
    and "fst (report (accept e c kind v im1)) = SC_Ok"
  shows "others_kept k (im_state im) (im_state (snd (report (accept e c kind v im1))))"
  using named_virtual [OF assms(1,3,2)] assms(4) by (intro others_accept [OF _ assms(5)]) (simp add: others_kept_def)

lemma begin_virtuals: "om_find (st_virtuals (im_state (begin_op im))) j = om_find (st_virtuals (im_state im)) j"
  by simp

lemma release_tail_other:
  assumes "well_formed (im_state im)" and "auth_virtual_id auth = Some k" and "resolve_virtual auth (begin_op im) = Inr r"
    and "\<And>j. j \<noteq> va_id r \<Longrightarrow> om_find (st_virtuals (im_state im1)) j = om_find (st_virtuals (im_state im)) j"
    and "fst (report (release_tail e c (va_id r) counted note im1)) = SC_Ok"
  shows "others_kept k (im_state im) (im_state (snd (report (release_tail e c (va_id r) counted note im1))))"
  using assms(5) unfolding release_tail_def Let_def split_beta
  by (auto intro!: others_effect [OF assms(1-3)] simp: assms(4) split: if_splits)

lemma migration_effects_other:
  assumes "j \<noteq> k"
  shows "om_find (st_virtuals (im_state (commit_effect e m k im))) j = om_find (st_virtuals (im_state im)) j"
    "om_find (st_virtuals (im_state (complete_effect e m k im))) j = om_find (st_virtuals (im_state im)) j"
    "om_find (st_virtuals (im_state (abort_effect e m reason im))) j = om_find (st_virtuals (im_state im)) j"
    "va_id r = k \<Longrightarrow> om_find (st_virtuals (im_state (snd (prepare_effect e m r im)))) j = om_find (st_virtuals (im_state im)) j"
  using assms
  by (simp_all add: commit_effect_def complete_effect_def abort_effect_def prepare_effect_def Let_def split_beta
      rebind_virtual_def move_authority_def move_backings_def fail_destination_def split: option.split)

lemma owner_effects_other:
  assumes "j \<noteq> k"
  shows "om_find (st_virtuals (im_state (reserve_effect k bytes im))) j = om_find (st_virtuals (im_state im)) j"
    "om_find (st_virtuals (im_state (release_effect k bytes im))) j = om_find (st_virtuals (im_state im)) j"
    "om_find (st_virtuals (im_state (kernel_effect k count im))) j = om_find (st_virtuals (im_state im)) j"
    "om_find (st_virtuals (im_state (renew_effect e l im))) j = om_find (st_virtuals (im_state im)) j"
    "om_find (st_virtuals (im_state (transfer_effect e t d k im))) j = om_find (st_virtuals (im_state im)) j"
    "om_find (st_virtuals (im_state (update_contract_effect e k contract im))) j = om_find (st_virtuals (im_state im)) j"
    "st_virtuals (im_state (snd (probe_contract r contract im))) = st_virtuals (im_state im)"
    "st_virtuals (im_state (grant_lease l' im)) = st_virtuals (im_state im)"
    "va_id r = k \<Longrightarrow> om_find (st_virtuals (im_state (reserve_attachment e t' r l im))) j = om_find (st_virtuals (im_state im)) j"
  using assms
  by (simp_all add: reserve_effect_def release_effect_def kernel_effect_def renew_effect_def transfer_effect_def
      update_contract_effect_def probe_contract_def grant_lease_def reserve_attachment_def Let_def split_beta split: option.split)

section \<open>The operations\<close>

definition in_scope :: "authority \<Rightarrow> impl \<Rightarrow> 'a result \<times> impl \<Rightarrow> bool" where
  "in_scope auth im out \<longleftrightarrow> (\<forall>k. auth_virtual_id auth = Some k \<longrightarrow> fst (report out) = SC_Ok \<longrightarrow>
    others_kept k (im_state im) (im_state (snd (report out))))"

lemma in_scope_refuse: "well_formed (im_state im) \<Longrightarrow> in_scope auth im (refuse e c status (begin_op im))"
  by (simp add: in_scope_def others_refuse)

lemma in_scope_guarded:
  assumes "well_formed (im_state im)"
    and "\<And>r im j. j \<noteq> va_id r \<Longrightarrow> om_find (st_virtuals (im_state (eff r im))) j = om_find (st_virtuals (im_state im)) j"
    and "\<And>im. st_virtuals (im_state (after im)) = st_virtuals (im_state im)"
  shows "in_scope auth im (guarded_transition e auth ctx extra target reason eff after im)"
  unfolding in_scope_def by (intro allI impI others_guarded) (use assms in auto)

lemma lifecycle_in_scope:
  assumes "well_formed (im_state im)"
  shows "in_scope auth im (activate e auth im)" "in_scope auth im (suspend e auth reason im)"
    "in_scope auth im (resume e auth reason im)" "in_scope auth im (resolve_recovery e auth reason im)"
    "in_scope auth im (fence_virtual e auth reason im)" "in_scope auth im (retire_virtual e auth reason im)"
  unfolding lifecycle_operations
  by (intro in_scope_guarded [OF assms]; simp add: effects_other recompute_derived_accounting_def)+

lemma in_scope_effect:
  assumes "well_formed (im_state im)" and "resolve_virtual auth (begin_op im) = Inr r"
    and "\<And>j. j \<noteq> va_id r \<Longrightarrow> om_find (st_virtuals (im_state im1)) j = om_find (st_virtuals (im_state im)) j"
  shows "in_scope auth im (accept e c kind v im1)"
  unfolding in_scope_def by (intro allI impI, rule others_effect) (use assms in auto)

lemma in_scope_failed: "status \<noteq> SC_Ok \<Longrightarrow> in_scope auth im (refuse e c status im1)"
  by (simp add: in_scope_def)

lemma drain_in_scope:
  assumes "well_formed (im_state im)"
  shows "in_scope auth im (drain e auth reason im)"
proof (cases "resolve_owned (request_checks auth (begin_op im)) auth (begin_op im)")
  case (Inl c)
  then show ?thesis using assms by (simp add: drain_def simple_transition_def in_scope_refuse)
next
  case (Inr p)
  then obtain t r where p: "p = (t, r)" and r: "resolve_virtual auth (begin_op im) = Inr r"
    by (cases p) (auto simp: resolve_owned_ok)
  show ?thesis
    using assms unfolding drain_def simple_transition_def Inr p sum.case prod.case transition_or_refuse_def Let_def split_beta
    by (auto intro!: in_scope_refuse in_scope_effect [OF assms r] in_scope_failed)
qed

lemma binding_in_scope:
  assumes "well_formed (im_state im)"
  shows "in_scope auth im (assign_backing e auth target reason im)"
    "in_scope auth im (replace_backing e auth target reason im)"
proof -
  have "in_scope auth im (do_assign_backing e auth ctx target replacing reason (begin_op im))" for ctx replacing
  proof (cases "assign_guard auth replacing target (begin_op im)")
    case (Inl c)
    then show ?thesis using assms by (simp add: do_assign_backing_def in_scope_refuse)
  next
    case (Inr r)
    then show ?thesis
      unfolding do_assign_backing_def Let_def split_beta Inr sum.case
      by (intro in_scope_effect [OF assms guards_resolve(4) [OF Inr]]) (simp add: effects_other)
  qed
  then show "in_scope auth im (assign_backing e auth target reason im)"
    "in_scope auth im (replace_backing e auth target reason im)"
    by (simp_all add: assign_backing_def replace_backing_def)
qed

lemma contract_in_scope:
  assumes "well_formed (im_state im)"
  shows "in_scope auth im (update_contract e auth contract im)"
proof (cases "update_contract_guard auth (contract_normalize contract) (begin_op im)")
  case (Inl c)
  then show ?thesis using assms by (simp add: update_contract_def Let_def in_scope_refuse)
next
  case (Inr r)
  then show ?thesis
    unfolding update_contract_def Let_def split_beta Inr sum.case
    by (auto intro!: in_scope_effect [OF assms guards_resolve(2) [OF Inr]] in_scope_failed simp: owner_effects_other)
qed

lemma transfer_in_scope:
  assumes "well_formed (im_state im)"
  shows "in_scope auth im (transfer_ownership e auth i g im)"
proof (cases "transfer_guard auth i g (begin_op im)")
  case (Inl c)
  then show ?thesis using assms by (simp add: transfer_ownership_def Let_def in_scope_refuse)
next
  case (Inr p)
  obtain t r where p: "p = (t, r)" by fastforce
  show ?thesis
    unfolding transfer_ownership_def Let_def split_beta Inr p sum.case prod.case
    by (intro in_scope_effect [OF assms guards_resolve(1) [OF Inr [unfolded p]]]) (simp add: owner_effects_other)
qed

lemma attach_in_scope:
  assumes "well_formed (im_state im)"
  shows "in_scope auth im (attach e auth im)"
proof (cases "attach_guard auth (begin_op im)")
  case (Inl c)
  then show ?thesis using assms by (simp add: attach_def Let_def in_scope_refuse)
next
  case (Inr p)
  obtain t r where p: "p = (t, r)" by fastforce
  note r = guards_resolve(5) [OF Inr [unfolded p]]
  show ?thesis
    unfolding attach_def attach_effect_def Let_def split_beta Inr p sum.case prod.case
    by (auto intro!: in_scope_effect [OF assms r] in_scope_failed simp: owner_effects_other)
qed

lemma lease_in_scope:
  assumes "well_formed (im_state im)"
  shows "in_scope auth im (detach e auth im)" "in_scope auth im (revoke_lease e auth reason im)"
    "in_scope auth im (renew_lease e auth im)"
proof -
  have tail: "in_scope auth im (release_tail e c (va_id r) counted why im1)"
    if "resolve_virtual auth (begin_op im) = Inr r"
      "\<And>j. j \<noteq> va_id r \<Longrightarrow> om_find (st_virtuals (im_state im1)) j = om_find (st_virtuals (im_state im)) j"
    for r c counted why im1
    unfolding in_scope_def by (intro allI impI, rule release_tail_other) (use assms that in auto)
  show "in_scope auth im (detach e auth im)" "in_scope auth im (revoke_lease e auth reason im)"
    using assms by (auto simp: detach_def revoke_lease_def Let_def in_scope_refuse effects_other
        split: sum.split prod.split intro!: tail dest: guards_resolve(6))
  have "in_scope auth im (accept e c kind v (renew_effect e l (begin_op im)))" for c kind v l
  proof -
    have "others_kept k (im_state im) (im_state (renew_effect e l (begin_op im)))" for k
      by (simp add: others_kept_def owner_effects_other)
    then show ?thesis by (auto simp: in_scope_def intro: others_accept)
  qed
  then show "in_scope auth im (renew_lease e auth im)"
    using assms by (auto simp: renew_lease_def Let_def in_scope_refuse split: sum.split)
qed

lemma plan_in_scope:
  assumes "well_formed (im_state im)"
  shows "in_scope auth im (plan_migration e auth target klass im)"
proof (cases "plan_guard auth target klass (begin_op im)")
  case (Inl c)
  then show ?thesis using assms by (simp add: plan_migration_def Let_def in_scope_refuse)
next
  case (Inr r)
  then show ?thesis
    unfolding plan_migration_def Let_def split_beta Inr sum.case
    by (intro in_scope_effect [OF assms guards_resolve(7) [OF Inr]]) (simp add: effects_other)
qed

lemma phase_in_scope:
  assumes "well_formed (im_state im)"
    and "\<And>p. resolve_virtual auth (begin_op im) = Inr (snd p) \<Longrightarrow> in_scope auth im (run p)"
  shows "in_scope auth im (case phase_guard auth phase (begin_op im) of
      Inl status \<Rightarrow> refuse e ctx status (begin_op im) | Inr p \<Rightarrow> run p)"
proof (cases "phase_guard auth phase (begin_op im)")
  case (Inl c)
  then show ?thesis using assms(1) by (simp add: in_scope_refuse)
next
  case (Inr p)
  then show ?thesis using assms(2) guards_resolve(8) [of auth phase "begin_op im" "fst p" "snd p"] by simp
qed

lemma migration_in_scope:
  assumes "well_formed (im_state im)"
  shows "in_scope auth im (prepare_migration e auth im)" "in_scope auth im (commit_migration e auth im)"
    "in_scope auth im (complete_migration e auth im)" "in_scope auth im (abort_migration e auth reason im)"
  unfolding prepare_migration_def commit_migration_def complete_migration_def abort_migration_def Let_def split_beta
  by (intro phase_in_scope [OF assms];
      auto intro!: in_scope_effect [OF assms] in_scope_failed simp: migration_effects_other)+

lemma execution_in_scope:
  assumes "well_formed (im_state im)"
  shows "in_scope auth im (reserve_allocation e auth bytes im)" "in_scope auth im (account_kernel e auth count im)"
  unfolding reserve_allocation_def account_kernel_def Let_def
  using assms guards_resolve(9) [of auth bytes "begin_op im"] guards_resolve(10) [of auth "begin_op im"]
  by (auto intro!: in_scope_effect [OF assms] simp: in_scope_refuse owner_effects_other split: sum.split prod.split)

lemma release_in_scope:
  assumes "well_formed (im_state im)"
  shows "in_scope auth im (release_allocation e auth bytes im)"
proof (cases "release_guard auth bytes (begin_op im)")
  case (Inl c)
  then show ?thesis using assms by (simp add: release_allocation_def Let_def in_scope_refuse)
next
  case (Inr r)
  then obtain k where k: "auth_virtual_id auth = Some k" "om_find (st_virtuals (im_state im)) k = Some r"
    by (auto simp: release_guard_def Let_def split: if_splits sum.splits option.splits)
  then have "va_id r = k" using assms ids_match_virtual [of "im_state im" k r] by (simp add: well_formed_def)
  with k have "others_kept j (im_state im) (im_state (release_effect (va_id r) bytes (begin_op im)))"
    if "auth_virtual_id auth = Some j" for j
    using that by (simp add: others_kept_def owner_effects_other)
  then show ?thesis
    unfolding release_allocation_def Let_def Inr sum.case in_scope_def by (auto intro: others_accept)
qed

lemmas operations_in_scope = transfer_in_scope contract_in_scope lifecycle_in_scope drain_in_scope binding_in_scope
  attach_in_scope lease_in_scope plan_in_scope migration_in_scope execution_in_scope release_in_scope

fun tenant_operation :: "operation \<Rightarrow> bool" where
  "tenant_operation (Op_ReleaseAllocation _ _) = True"
| "tenant_operation op = owner_operation op"

lemma perform_in_scope:
  assumes "well_formed (im_state im)" and "tenant_operation op" and "authority_of op = Some auth"
    and "auth_virtual_id auth = Some k" and "fst (perform e op im) = SC_Ok"
  shows "others_kept k (im_state im) (im_state (snd (perform e op im)))"
  using assms(2-5) operations_in_scope [OF assms(1)]
  by (cases op) (simp_all add: in_scope_def)

text \<open>C7: tenants do not disturb one another: a successful operation of a tenant leaves
  the record of every virtual accelerator but the one its authority names untouched.\<close>

theorem tenant_operation_confined:
  assumes "well_formed (im_state im)" and "tenant_operation op" and "authority_of op = Some auth"
    and "auth_virtual_id auth = Some k" and "fst (perform e op im) = SC_Ok" and "j \<noteq> k"
  shows "om_find (st_virtuals (im_state (snd (perform e op im)))) j = om_find (st_virtuals (im_state im)) j"
  using perform_in_scope [OF assms(1-5)] assms(6) by (simp add: others_kept_def)

end
