(* ===== verification/AV_Audit.thy ===== *)
theory AV_Audit
  imports AV_Projection
begin

text \<open>
  The invariant audit (\<open>include/av/invariant.hpp\<close>, \<open>src/invariant.cpp\<close>): \<open>run_invariant_audit\<close>, one definition
  per loop of the source in its order, each the list of violations the loop appends. A violation carries the
  stable code and the identities of the source; its \<open>detail\<close> text is left out. The audit is
  then shown to be clean exactly on the states that satisfy a declarative consistency condition.
\<close>

section \<open>Codes and violations\<close>

datatype invariant_code =
    INV_VirtualIdentityUnique
  | INV_VirtualGenerationMonotonic
  | INV_LifecycleLegal
  | INV_TenantReferenceValid
  | INV_BackingReferenceValid
  | INV_PhysicalGenerationValid
  | INV_NoStaleBackingActive
  | INV_RetiredHoldsNoLease
  | INV_FencedTenantNoAuthority
  | INV_LeaseGenerationBound
  | INV_ProjectionConsistent
  | INV_ContractValid
  | INV_MigrationEndpointsPresent
  | INV_SingleAuthoritativeBacking
  | INV_NoSourceAuthorityAfterCutover
  | INV_PolicyGenerationConsistent
  | INV_EpochConsistent
  | INV_PersistenceIntegrity
  | INV_AccountingClosure
  | INV_BackingHolderConsistent
  | INV_IsolationTruthful
  | INV_AttachmentCountConsistent

definition invariant_names :: "(invariant_code \<times> string) list" where
  "invariant_names =
    [(INV_VirtualIdentityUnique, ''virtual_identity_unique''),
     (INV_VirtualGenerationMonotonic, ''virtual_generation_monotonic''),
     (INV_LifecycleLegal, ''lifecycle_legal''),
     (INV_TenantReferenceValid, ''tenant_reference_valid''),
     (INV_BackingReferenceValid, ''backing_reference_valid''),
     (INV_PhysicalGenerationValid, ''physical_generation_valid''),
     (INV_NoStaleBackingActive, ''no_stale_backing_active''),
     (INV_RetiredHoldsNoLease, ''retired_holds_no_lease''),
     (INV_FencedTenantNoAuthority, ''fenced_tenant_no_authority''),
     (INV_LeaseGenerationBound, ''lease_generation_bound''),
     (INV_ProjectionConsistent, ''capability_projection_consistent''),
     (INV_ContractValid, ''resource_contract_valid''),
     (INV_MigrationEndpointsPresent, ''migration_endpoints_present''),
     (INV_SingleAuthoritativeBacking, ''single_authoritative_backing''),
     (INV_NoSourceAuthorityAfterCutover, ''no_source_authority_after_cutover''),
     (INV_PolicyGenerationConsistent, ''policy_generation_consistent''),
     (INV_EpochConsistent, ''coordinator_epoch_consistent''),
     (INV_PersistenceIntegrity, ''persistence_integrity''),
     (INV_AccountingClosure, ''accounting_closure''),
     (INV_BackingHolderConsistent, ''backing_holder_consistent''),
     (INV_IsolationTruthful, ''isolation_truthful''),
     (INV_AttachmentCountConsistent, ''attachment_count_consistent'')]"

record invariant_violation =
  iv_code :: invariant_code
  iv_virtual_id :: va_id
  iv_tenant :: tn_id
  iv_lease :: ls_id
  iv_backing :: bk_id
  iv_physical :: pd_id
  iv_migration :: mg_id

definition violation :: "invariant_code \<Rightarrow> invariant_violation" where
  "violation c =
    \<lparr> iv_code = c, iv_virtual_id = no_id, iv_tenant = no_id, iv_lease = no_id, iv_backing = no_id,
      iv_physical = no_id, iv_migration = no_id \<rparr>"

text \<open>The \<open>fail\<close> closure: a violation that names the accelerator, its owner and its binding.\<close>

definition fail_for :: "invariant_code \<Rightarrow> virtual_record \<Rightarrow> invariant_violation" where
  "fail_for c r = (violation c)
    \<lparr> iv_virtual_id := va_id r, iv_tenant := va_owner r, iv_backing := va_backing r, iv_physical := va_physical r \<rparr>"

definition flag :: "bool \<Rightarrow> 'a \<Rightarrow> 'a list" where
  "flag c v = (if c then [v] else [])"

definition loop :: "('a \<Rightarrow> 'b list) \<Rightarrow> 'a list \<Rightarrow> 'b list" where
  "loop f xs = concat (map f xs)"

lemma flag_Nil [simp]: "flag c v = [] \<longleftrightarrow> \<not> c"
  by (simp add: flag_def)

lemma loop_Nil [simp]: "loop f xs = [] \<longleftrightarrow> (\<forall>x \<in> set xs. f x = [])"
  by (simp add: loop_def)

section \<open>Identity, tenants, devices\<close>

definition audit_identity :: "va_id \<times> virtual_record \<Rightarrow> invariant_violation list" where
  "audit_identity = (\<lambda>(k, r).
    flag (va_id r \<noteq> k \<or> \<not> id_valid (va_id r)) (fail_for INV_VirtualIdentityUnique r) @
    flag (\<not> gen_valid (va_generation r)) (fail_for INV_VirtualGenerationMonotonic r) @
    flag (gen_valid (va_state_generation r) \<and> gen_value (va_state_generation r) > gen_value (va_generation r))
      (fail_for INV_VirtualGenerationMonotonic r) @
    flag (\<not> gen_valid (va_state_generation r)) (fail_for INV_LifecycleLegal r) @
    flag (lifecycle_is_terminal (va_state r) \<and> va_state r \<noteq> LC_Retired) (fail_for INV_LifecycleLegal r))"

definition live_lease :: "vstate \<Rightarrow> ls_id \<Rightarrow> bool" where
  "live_lease s i = (case om_find (st_leases s) i of None \<Rightarrow> False | Some l \<Rightarrow> lease_state_is_live (ls_state l))"

definition audit_tenant_reference :: "vstate \<Rightarrow> va_id \<times> virtual_record \<Rightarrow> invariant_violation list" where
  "audit_tenant_reference s = (\<lambda>(k, r).
    case om_find (st_tenants s) (va_owner r) of
      None \<Rightarrow> [fail_for INV_TenantReferenceValid r]
    | Some t \<Rightarrow>
        flag (va_owner_generation r \<noteq> tn_generation t) (fail_for INV_TenantReferenceValid r) @
        (if tn_fenced t
         then flag (va_active_attachments r \<noteq> 0) (fail_for INV_FencedTenantNoAuthority r) @
           loop (\<lambda>i. flag (live_lease s i) (fail_for INV_FencedTenantNoAuthority r)) (va_leases r)
         else []))"

definition audit_backing_device :: "vstate \<Rightarrow> bk_id \<times> backing_record \<Rightarrow> invariant_violation list" where
  "audit_backing_device s = (\<lambda>(k, b).
    let device = (violation INV_PhysicalGenerationValid)\<lparr> iv_backing := bk_id b, iv_physical := bk_physical b \<rparr> in
    case om_find (st_physical s) (bk_physical b) of
      None \<Rightarrow> [device]
    | Some p \<Rightarrow>
        flag (bk_physical_generation b \<noteq> pd_generation p) device @
        flag (\<not> gen_valid (bk_generation b)) ((violation INV_BackingReferenceValid)\<lparr> iv_backing := bk_id b \<rparr>))"

section \<open>Assignments\<close>

definition audit_assignment :: "vstate \<Rightarrow> as_id \<times> backing_assignment \<Rightarrow> invariant_violation list" where
  "audit_assignment s = (\<lambda>(k, a).
    flag (as_id a \<noteq> k \<or> \<not> id_valid (as_id a)) (violation INV_BackingReferenceValid) @
    (case om_find (st_virtuals s) (as_virtual_id a) of
       None \<Rightarrow> [(violation INV_BackingReferenceValid)\<lparr> iv_virtual_id := as_virtual_id a \<rparr>]
     | Some r \<Rightarrow> flag (\<not> om_contains (st_backings s) (as_backing a))
         ((violation INV_BackingReferenceValid)\<lparr> iv_virtual_id := as_virtual_id a, iv_backing := as_backing a \<rparr>)))"

text \<open>\<open>counts[key] += 1\<close>, with the value-initialised entry of \<open>std::map::operator[]\<close>.\<close>

definition tally :: "'k::linorder \<Rightarrow> ('k, nat) omap \<Rightarrow> ('k, nat) omap" where
  "tally k m = om_put k (Suc (case om_find m k of None \<Rightarrow> 0 | Some n \<Rightarrow> n)) m"

definition counted_assignments :: "vstate \<Rightarrow> backing_assignment list" where
  "counted_assignments s =
    filter (\<lambda>a. om_contains (st_virtuals s) (as_virtual_id a) \<and> as_authoritative a) (om_values (st_assignments s))"

definition authoritative_assignments :: "vstate \<Rightarrow> (va_id, nat) omap" where
  "authoritative_assignments s = fold (\<lambda>a. tally (as_virtual_id a)) (counted_assignments s) om_empty"

definition backing_holders :: "vstate \<Rightarrow> (bk_id, nat) omap" where
  "backing_holders s = fold (\<lambda>a. tally (as_backing a)) (counted_assignments s) om_empty"

definition audit_single_authority :: "vstate \<Rightarrow> va_id \<times> nat \<Rightarrow> invariant_violation list" where
  "audit_single_authority s = (\<lambda>(k, n). flag (n > 1)
    (case om_find (st_virtuals s) k of None \<Rightarrow> violation INV_SingleAuthoritativeBacking
     | Some r \<Rightarrow> fail_for INV_SingleAuthoritativeBacking r))"

definition audit_single_holder :: "vstate \<Rightarrow> bk_id \<times> nat \<Rightarrow> invariant_violation list" where
  "audit_single_holder s = (\<lambda>(k, n).
    if n \<le> 1 then []
    else flag (\<not> (case om_find (st_backings s) k of None \<Rightarrow> False | Some b \<Rightarrow> \<not> bk_exclusive b))
      ((violation INV_SingleAuthoritativeBacking)\<lparr> iv_backing := k \<rparr>))"

definition audit_binding :: "vstate \<Rightarrow> va_id \<times> virtual_record \<Rightarrow> invariant_violation list" where
  "audit_binding s = (\<lambda>(k, r).
    (if id_valid (va_backing r)
     then case om_find (st_backings s) (va_backing r) of
         None \<Rightarrow> [fail_for INV_BackingReferenceValid r]
       | Some b \<Rightarrow> flag (bk_exclusive b \<and> id_valid (bk_assigned_to b) \<and> bk_assigned_to b \<noteq> va_id r)
           (fail_for INV_BackingHolderConsistent r)
     else []) @
    (if id_valid (va_assignment r)
     then case om_find (st_assignments s) (va_assignment r) of
         None \<Rightarrow> [fail_for INV_BackingReferenceValid r]
       | Some a \<Rightarrow> flag (\<not> as_authoritative a \<and> lifecycle_requires_backing (va_state r))
           (fail_for INV_NoStaleBackingActive r)
     else flag (lifecycle_requires_backing (va_state r)) (fail_for INV_NoStaleBackingActive r)) @
    flag (id_valid (va_backing r) \<and> gen_value (va_backing_generation r) = 0) (fail_for INV_NoStaleBackingActive r))"

definition audit_retired :: "va_id \<times> virtual_record \<Rightarrow> invariant_violation list" where
  "audit_retired = (\<lambda>(k, r).
    if va_state r = LC_Retired
    then flag (va_active_attachments r \<noteq> 0) (fail_for INV_RetiredHoldsNoLease r) @
      flag (id_valid (va_backing r) \<or> id_valid (va_assignment r)) (fail_for INV_RetiredHoldsNoLease r)
    else [])"

section \<open>Leases\<close>

definition audit_lease :: "vstate \<Rightarrow> ls_id \<times> lease_record \<Rightarrow> invariant_violation list" where
  "audit_lease s = (\<lambda>(k, l).
    case om_find (st_virtuals s) (ls_virtual_id l) of
      None \<Rightarrow> [(violation INV_LeaseGenerationBound)\<lparr> iv_lease := ls_id l \<rparr>]
    | Some r \<Rightarrow>
        flag (\<not> gen_valid (ls_generation l)) (fail_for INV_LeaseGenerationBound r) @
        flag (\<not> om_contains (st_tenants s) (ls_tenant l)) (fail_for INV_TenantReferenceValid r) @
        (if \<not> lease_state_is_live (ls_state l) then []
         else
          flag (ls_virtual_generation l \<noteq> va_generation r) (fail_for INV_LeaseGenerationBound r) @
          flag (ls_backing_generation l \<noteq> va_backing_generation r) (fail_for INV_LeaseGenerationBound r) @
          flag (ls_policy_generation l \<noteq> st_policy_generation s) (fail_for INV_PolicyGenerationConsistent r) @
          flag (ls_epoch l \<noteq> st_epoch s) (fail_for INV_EpochConsistent r) @
          flag (\<not> lifecycle_allows_leases (va_state r)) (fail_for INV_LeaseGenerationBound r)))"

section \<open>Projections, contracts, isolation\<close>

definition audit_advertised :: "virtual_record \<Rightarrow> backing_record \<Rightarrow> capability_entry \<Rightarrow> invariant_violation list" where
  "audit_advertised r b c =
    (if ce_verdict c \<noteq> CV_Supported then []
     else case surface_find (bk_capabilities b) (ce_key c) of
         None \<Rightarrow> []
       | Some source \<Rightarrow>
           flag (ce_verdict source = CV_Unsupported) (fail_for INV_ProjectionConsistent r) @
           flag (ce_verdict source = CV_Unknown) (fail_for INV_ProjectionConsistent r))"

definition audit_projection :: "vstate \<Rightarrow> va_id \<times> virtual_record \<Rightarrow> invariant_violation list" where
  "audit_projection s = (\<lambda>(k, r). let p = va_projection r in
    flag (contract_validate (va_contract r) \<noteq> SC_Ok) (fail_for INV_ContractValid r) @
    flag (\<not> gen_valid (rc_generation (va_contract r))) (fail_for INV_ContractValid r) @
    flag (\<not> gen_valid (cp_generation p)) (fail_for INV_ProjectionConsistent r) @
    flag (cp_contract_generation p \<noteq> rc_generation (va_contract r)) (fail_for INV_ProjectionConsistent r) @
    flag (cp_backing_generation p \<noteq> va_backing_generation r) (fail_for INV_ProjectionConsistent r) @
    flag (va_state r \<noteq> LC_Retired \<and> cp_policy_generation p \<noteq> st_policy_generation s)
      (fail_for INV_PolicyGenerationConsistent r) @
    (if id_valid (va_backing r)
     then case om_find (st_backings s) (va_backing r) of
         None \<Rightarrow> []
       | Some b \<Rightarrow> loop (audit_advertised r b) (cp_surface p)
     else []) @
    flag (gen_value (va_policy_generation r) > gen_value (st_policy_generation s))
      (fail_for INV_PolicyGenerationConsistent r) @
    flag (gen_value (va_epoch r) > gen_value (st_epoch s)) (fail_for INV_EpochConsistent r))"

definition audit_isolation :: "vstate \<Rightarrow> va_id \<times> virtual_record \<Rightarrow> invariant_violation list" where
  "audit_isolation s = (\<lambda>(k, r).
    loop (\<lambda>c. flag (ic_state c \<noteq> IS_Unknown \<and> ic_mechanism c = []) (fail_for INV_IsolationTruthful r))
      (va_isolation r) @
    (if va_isolation_class r = IC_HardwarePartition
     then flag (case om_find (st_backings s) (va_backing r) of None \<Rightarrow> True
         | Some b \<Rightarrow> bk_klass b \<noteq> BC_HardwarePartition) (fail_for INV_IsolationTruthful r)
     else []))"

section \<open>Migrations\<close>

definition assignment_is :: "vstate \<Rightarrow> as_id \<Rightarrow> bool \<Rightarrow> bool" where
  "assignment_is s i v = (case om_find (st_assignments s) i of None \<Rightarrow> False | Some a \<Rightarrow> as_authoritative a = v)"

definition audit_migration :: "vstate \<Rightarrow> mg_id \<times> migration_record \<Rightarrow> invariant_violation list" where
  "audit_migration s = (\<lambda>(k, m). let plan = mg_plan m in
    if mp_id plan \<noteq> k \<or> \<not> id_valid (mp_id plan) then [violation INV_MigrationEndpointsPresent]
    else case om_find (st_virtuals s) (mp_virtual_id plan) of
      None \<Rightarrow> [(violation INV_MigrationEndpointsPresent)\<lparr> iv_migration := mp_id plan \<rparr>]
    | Some r \<Rightarrow>
        flag (\<not> om_contains (st_backings s) (mp_source_backing plan)) (fail_for INV_MigrationEndpointsPresent r) @
        flag (\<not> om_contains (st_backings s) (mp_destination_backing plan)) (fail_for INV_MigrationEndpointsPresent r) @
        flag (mp_klass plan = MC_LiveStateTransfer \<and> \<not> mp_live_state_movement plan)
          (fail_for INV_MigrationEndpointsPresent r) @
        (if migration_state_after_cutover (mg_state m)
         then flag (mg_source_authoritative m) (fail_for INV_NoSourceAuthorityAfterCutover r) @
           flag (assignment_is s (mg_source_assignment m) True) (fail_for INV_NoSourceAuthorityAfterCutover r) @
           flag (assignment_is s (mg_destination_assignment m) False) (fail_for INV_SingleAuthoritativeBacking r)
         else []) @
        flag (\<not> migration_state_after_cutover (mg_state m) \<and> \<not> migration_state_is_terminal (mg_state m) \<and>
            mg_destination_authoritative m) (fail_for INV_SingleAuthoritativeBacking r))"

section \<open>Accounting\<close>

definition counts_as_active :: "lifecycle \<Rightarrow> bool" where
  "counts_as_active s \<longleftrightarrow> s \<noteq> LC_Retired \<and> s \<noteq> LC_Suspended \<and> s \<noteq> LC_Fenced"

text \<open>The running totals, at the width of the source.\<close>

definition expected_active :: "vstate \<Rightarrow> u64" where
  "expected_active s =
    fold (\<lambda>r n. if counts_as_active (va_state r) then n + 1 else n) (om_values (st_virtuals s)) 0"

definition expected_attachments :: "vstate \<Rightarrow> u64" where
  "expected_attachments s = fold (\<lambda>r n. n + ucast (va_active_attachments r)) (om_values (st_virtuals s)) 0"

definition expected_bytes :: "vstate \<Rightarrow> u64" where
  "expected_bytes s = fold (\<lambda>r n. n + va_allocated_bytes r) (om_values (st_virtuals s)) 0"

definition live_count :: "vstate \<Rightarrow> virtual_record \<Rightarrow> u32" where
  "live_count s r = fold (\<lambda>i n. if live_lease s i then n + 1 else n) (va_leases r) 0"

definition audit_attachments :: "vstate \<Rightarrow> va_id \<times> virtual_record \<Rightarrow> invariant_violation list" where
  "audit_attachments s = (\<lambda>(k, r).
    flag (live_count s r \<noteq> va_active_attachments r) (fail_for INV_AttachmentCountConsistent r))"

definition audit_owned :: "vstate \<Rightarrow> tenant_record \<Rightarrow> va_id \<Rightarrow> invariant_violation list" where
  "audit_owned s t i =
    (case om_find (st_virtuals s) i of
       None \<Rightarrow> [(violation INV_TenantReferenceValid)\<lparr> iv_tenant := tn_id t \<rparr>]
     | Some r \<Rightarrow> flag (va_owner r \<noteq> tn_id t)
         ((violation INV_TenantReferenceValid)\<lparr> iv_tenant := tn_id t, iv_virtual_id := i \<rparr>))"

definition claimed_attachments :: "vstate \<Rightarrow> tenant_record \<Rightarrow> u32" where
  "claimed_attachments s t =
    fold (\<lambda>i n. case om_find (st_virtuals s) i of None \<Rightarrow> n | Some r \<Rightarrow> n + va_active_attachments r) (tn_owned t) 0"

definition audit_tenant :: "vstate \<Rightarrow> tn_id \<times> tenant_record \<Rightarrow> invariant_violation list" where
  "audit_tenant s = (\<lambda>(k, t).
    loop (audit_owned s t) (tn_owned t) @
    flag (claimed_attachments s t \<noteq> tn_active_attachments t)
      ((violation INV_AttachmentCountConsistent)\<lparr> iv_tenant := tn_id t \<rparr>))"

definition audit_totals :: "vstate \<Rightarrow> invariant_violation list" where
  "audit_totals s = (let a = st_accounting s in
    flag (ac_virtual_active a \<noteq> expected_active s) (violation INV_AccountingClosure) @
    flag (ac_attachments_active a \<noteq> expected_attachments s) (violation INV_AccountingClosure) @
    flag (ac_bytes_allocated_current a \<noteq> expected_bytes s) (violation INV_AccountingClosure))"

section \<open>The audit\<close>

definition audit_violations :: "vstate \<Rightarrow> invariant_violation list" where
  "audit_violations s =
    loop audit_identity (st_virtuals s) @
    loop (audit_tenant_reference s) (st_virtuals s) @
    loop (audit_backing_device s) (st_backings s) @
    loop (audit_assignment s) (st_assignments s) @
    loop (audit_single_authority s) (authoritative_assignments s) @
    loop (audit_single_holder s) (backing_holders s) @
    loop (audit_binding s) (st_virtuals s) @
    loop audit_retired (st_virtuals s) @
    loop (audit_lease s) (st_leases s) @
    loop (audit_projection s) (st_virtuals s) @
    loop (audit_isolation s) (st_virtuals s) @
    loop (audit_migration s) (st_migrations s) @
    loop (audit_attachments s) (st_virtuals s) @
    loop (audit_tenant s) (st_tenants s) @
    audit_totals s"

record audit_report =
  ar_virtuals_checked :: nat
  ar_tenants_checked :: nat
  ar_backings_checked :: nat
  ar_leases_checked :: nat
  ar_assignments_checked :: nat
  ar_migrations_checked :: nat
  ar_physical_checked :: nat
  ar_violations :: "invariant_violation list"
  ar_state_fingerprint :: u64
  ar_epoch :: u64

text \<open>The fingerprint of the encoded state is an argument: it does not influence the findings.\<close>

definition run_invariant_audit :: "(vstate \<Rightarrow> u64) \<Rightarrow> vstate \<Rightarrow> audit_report" where
  "run_invariant_audit fingerprint s =
    \<lparr> ar_virtuals_checked = length (st_virtuals s), ar_tenants_checked = length (st_tenants s),
      ar_backings_checked = length (st_backings s), ar_leases_checked = length (st_leases s),
      ar_assignments_checked = length (st_assignments s), ar_migrations_checked = length (st_migrations s),
      ar_physical_checked = length (st_physical s), ar_violations = audit_violations s,
      ar_state_fingerprint = fingerprint s, ar_epoch = gen_value (st_epoch s) \<rparr>"

definition audit_clean :: "audit_report \<Rightarrow> bool" where
  "audit_clean r \<longleftrightarrow> ar_violations r = []"

section \<open>What a clean audit means\<close>

text \<open>Declarative counterparts. The binding of a virtual accelerator to its backing, its assignment and its
  projection:\<close>

definition bound_to :: "vstate \<Rightarrow> virtual_record \<Rightarrow> bool" where
  "bound_to s r \<longleftrightarrow>
    (id_valid (va_backing r) \<longrightarrow> gen_valid (va_backing_generation r) \<and>
      (\<exists>b. om_find (st_backings s) (va_backing r) = Some b \<and>
        (bk_exclusive b \<and> id_valid (bk_assigned_to b) \<longrightarrow> bk_assigned_to b = va_id r) \<and>
        (\<forall>c \<in> set (cp_surface (va_projection r)). ce_verdict c = CV_Supported \<longrightarrow>
          map_option ce_verdict (surface_find (bk_capabilities b) (ce_key c)) \<in> {None, Some CV_Supported, Some CV_Constrained}))) \<and>
    (id_valid (va_assignment r) \<longrightarrow> om_contains (st_assignments s) (va_assignment r)) \<and>
    (lifecycle_requires_backing (va_state r) \<longrightarrow>
      id_valid (va_assignment r) \<and> assignment_is s (va_assignment r) True) \<and>
    (va_state r = LC_Retired \<longrightarrow> \<not> id_valid (va_backing r) \<and> \<not> id_valid (va_assignment r) \<and> va_active_attachments r = 0)"

definition projected :: "vstate \<Rightarrow> virtual_record \<Rightarrow> bool" where
  "projected s r \<longleftrightarrow>
    contract_validate (va_contract r) = SC_Ok \<and> gen_valid (rc_generation (va_contract r)) \<and>
    gen_valid (cp_generation (va_projection r)) \<and>
    cp_contract_generation (va_projection r) = rc_generation (va_contract r) \<and>
    cp_backing_generation (va_projection r) = va_backing_generation r \<and>
    (va_state r \<noteq> LC_Retired \<longrightarrow> cp_policy_generation (va_projection r) = st_policy_generation s) \<and>
    va_policy_generation r \<le> st_policy_generation s \<and> va_epoch r \<le> st_epoch s"

definition truthful :: "vstate \<Rightarrow> virtual_record \<Rightarrow> bool" where
  "truthful s r \<longleftrightarrow>
    (\<forall>c \<in> set (va_isolation r). ic_state c \<noteq> IS_Unknown \<longrightarrow> ic_mechanism c \<noteq> []) \<and>
    (va_isolation_class r = IC_HardwarePartition \<longrightarrow>
      map_option bk_klass (om_find (st_backings s) (va_backing r)) = Some BC_HardwarePartition)"

text \<open>Its identity and its owner; the attachments are the live leases.\<close>

definition owned_right :: "vstate \<Rightarrow> virtual_record \<Rightarrow> bool" where
  "owned_right s r \<longleftrightarrow>
    (\<exists>t. om_find (st_tenants s) (va_owner r) = Some t \<and> va_owner_generation r = tn_generation t \<and>
      (tn_fenced t \<longrightarrow> va_active_attachments r = 0 \<and> (\<forall>i \<in> set (va_leases r). \<not> live_lease s i)))"

definition virtual_consistent :: "vstate \<Rightarrow> va_id \<Rightarrow> virtual_record \<Rightarrow> bool" where
  "virtual_consistent s k r \<longleftrightarrow>
    va_id r = k \<and> id_valid k \<and> gen_valid (va_state_generation r) \<and> va_state_generation r \<le> va_generation r \<and>
    owned_right s r \<and> bound_to s r \<and> projected s r \<and> truthful s r \<and>
    va_active_attachments r = of_nat (length (filter (live_lease s) (va_leases r)))"

definition backing_consistent :: "vstate \<Rightarrow> backing_record \<Rightarrow> bool" where
  "backing_consistent s b \<longleftrightarrow> gen_valid (bk_generation b) \<and>
    map_option pd_generation (om_find (st_physical s) (bk_physical b)) = Some (bk_physical_generation b)"

definition assignment_consistent :: "vstate \<Rightarrow> as_id \<Rightarrow> backing_assignment \<Rightarrow> bool" where
  "assignment_consistent s k a \<longleftrightarrow> as_id a = k \<and> id_valid k \<and>
    om_contains (st_virtuals s) (as_virtual_id a) \<and> om_contains (st_backings s) (as_backing a)"

text \<open>At most one authoritative assignment per accelerator, and per exclusive backing.\<close>

definition single_authority :: "vstate \<Rightarrow> bool" where
  "single_authority s \<longleftrightarrow>
    (\<forall>k k' a a'. om_find (st_assignments s) k = Some a \<longrightarrow> om_find (st_assignments s) k' = Some a' \<longrightarrow>
      as_authoritative a \<longrightarrow> as_authoritative a' \<longrightarrow> k \<noteq> k' \<longrightarrow>
      as_virtual_id a \<noteq> as_virtual_id a' \<and>
      (as_backing a = as_backing a' \<longrightarrow> map_option bk_exclusive (om_find (st_backings s) (as_backing a)) = Some False))"

definition lease_consistent :: "vstate \<Rightarrow> lease_record \<Rightarrow> bool" where
  "lease_consistent s l \<longleftrightarrow> gen_valid (ls_generation l) \<and> om_contains (st_tenants s) (ls_tenant l) \<and>
    (\<exists>r. om_find (st_virtuals s) (ls_virtual_id l) = Some r \<and>
      (lease_state_is_live (ls_state l) \<longrightarrow>
        ls_virtual_generation l = va_generation r \<and> ls_backing_generation l = va_backing_generation r \<and>
        ls_policy_generation l = st_policy_generation s \<and> ls_epoch l = st_epoch s \<and>
        lifecycle_allows_leases (va_state r)))"

definition migration_consistent :: "vstate \<Rightarrow> mg_id \<Rightarrow> migration_record \<Rightarrow> bool" where
  "migration_consistent s k m \<longleftrightarrow> mp_id (mg_plan m) = k \<and> id_valid k \<and>
    om_contains (st_virtuals s) (mp_virtual_id (mg_plan m)) \<and>
    om_contains (st_backings s) (mp_source_backing (mg_plan m)) \<and>
    om_contains (st_backings s) (mp_destination_backing (mg_plan m)) \<and>
    (mp_klass (mg_plan m) = MC_LiveStateTransfer \<longrightarrow> mp_live_state_movement (mg_plan m)) \<and>
    (if migration_state_after_cutover (mg_state m)
     then \<not> mg_source_authoritative m \<and> \<not> assignment_is s (mg_source_assignment m) True \<and>
       \<not> assignment_is s (mg_destination_assignment m) False
     else mg_destination_authoritative m \<longrightarrow> migration_state_is_terminal (mg_state m))"

definition tenant_consistent :: "vstate \<Rightarrow> tenant_record \<Rightarrow> bool" where
  "tenant_consistent s t \<longleftrightarrow>
    (\<forall>i \<in> set (tn_owned t). map_option va_owner (om_find (st_virtuals s) i) = Some (tn_id t)) \<and>
    tn_active_attachments t =
      (\<Sum>i\<leftarrow>tn_owned t. case om_find (st_virtuals s) i of None \<Rightarrow> 0 | Some r \<Rightarrow> va_active_attachments r)"

definition accounts_closed :: "vstate \<Rightarrow> bool" where
  "accounts_closed s \<longleftrightarrow>
    ac_virtual_active (st_accounting s) =
      of_nat (length (filter (\<lambda>r. counts_as_active (va_state r)) (om_values (st_virtuals s)))) \<and>
    ac_attachments_active (st_accounting s) = (\<Sum>r\<leftarrow>om_values (st_virtuals s). ucast (va_active_attachments r)) \<and>
    ac_bytes_allocated_current (st_accounting s) = (\<Sum>r\<leftarrow>om_values (st_virtuals s). va_allocated_bytes r)"

definition state_consistent :: "vstate \<Rightarrow> bool" where
  "state_consistent s \<longleftrightarrow>
    (\<forall>k r. om_find (st_virtuals s) k = Some r \<longrightarrow> virtual_consistent s k r) \<and>
    (\<forall>k t. om_find (st_tenants s) k = Some t \<longrightarrow> tenant_consistent s t) \<and>
    (\<forall>k b. om_find (st_backings s) k = Some b \<longrightarrow> backing_consistent s b) \<and>
    (\<forall>k a. om_find (st_assignments s) k = Some a \<longrightarrow> assignment_consistent s k a) \<and>
    (\<forall>k l. om_find (st_leases s) k = Some l \<longrightarrow> lease_consistent s l) \<and>
    (\<forall>k m. om_find (st_migrations s) k = Some m \<longrightarrow> migration_consistent s k m) \<and>
    single_authority s \<and> accounts_closed s"

subsection \<open>Counting\<close>

lemma fold_count: "fold (\<lambda>x n. if P x then n + 1 else n) xs (a :: 'a::len word) = a + of_nat (length (filter P xs))"
  by (induction xs arbitrary: a) (simp_all add: algebra_simps)

lemma fold_sum: "fold (\<lambda>x n. n + f x) xs (a :: 'a::len word) = a + (\<Sum>x\<leftarrow>xs. f x)"
  by (induction xs arbitrary: a) (simp_all add: algebra_simps)

lemma fold_sum_option:
  "fold (\<lambda>i n. case g i of None \<Rightarrow> n | Some r \<Rightarrow> n + f r) is (a :: 'a::len word) =
    a + (\<Sum>i\<leftarrow>is. case g i of None \<Rightarrow> 0 | Some r \<Rightarrow> f r)"
  by (induction "is" arbitrary: a) (simp_all add: algebra_simps split: option.split)

lemma tally_sorted [simp]: "om_sorted m \<Longrightarrow> om_sorted (tally k m)"
  by (simp add: tally_def)

lemma tally_fold_sorted: "om_sorted m \<Longrightarrow> om_sorted (fold (\<lambda>a. tally (f a)) as m)"
  by (induction as arbitrary: m) simp_all

definition tallied :: "('k, nat) omap \<Rightarrow> 'k \<Rightarrow> nat" where
  "tallied m k = (case om_find m k of None \<Rightarrow> 0 | Some n \<Rightarrow> n)"

lemma tallied_tally: "tallied (tally k m) j = (if j = k then Suc (tallied m j) else tallied m j)"
  by (simp add: tallied_def tally_def)

lemma tallied_fold: "tallied (fold (\<lambda>a. tally (f a)) as m) k = tallied m k + length (filter (\<lambda>a. f a = k) as)"
  by (induction as arbitrary: m) (simp_all add: tallied_tally)

text \<open>A key occurs more than once exactly when two different positions carry it.\<close>

lemma repeated_iff:
  assumes "distinct ks"
  shows "length (filter P ks) > 1 \<longleftrightarrow> (\<exists>k \<in> set ks. \<exists>k' \<in> set ks. k \<noteq> k' \<and> P k \<and> P k')"
proof -
  have "length (filter P ks) = card (set (filter P ks))" 
    using assms by (metis distinct_card distinct_filter)
  then show ?thesis by (auto simp: card_le_Suc0_iff_eq not_le [symmetric])
qed

lemma loop_omap: "om_sorted m \<Longrightarrow> loop f m = [] \<longleftrightarrow> (\<forall>k v. om_find m k = Some v \<longrightarrow> f (k, v) = [])"
  by (auto simp: om_find_in [symmetric])

lemma counted_repeated:
  assumes "om_sorted (st_assignments s)"
  shows "length (filter P (counted_assignments s)) > 1 \<longleftrightarrow>
    (\<exists>k k' a a'. om_find (st_assignments s) k = Some a \<and> om_find (st_assignments s) k' = Some a' \<and> k \<noteq> k' \<and>
      om_contains (st_virtuals s) (as_virtual_id a) \<and> om_contains (st_virtuals s) (as_virtual_id a') \<and>
      as_authoritative a \<and> as_authoritative a' \<and> P a \<and> P a')"
proof -
  let ?C = "\<lambda>a. om_contains (st_virtuals s) (as_virtual_id a) \<and> as_authoritative a"
  have d: "distinct (st_assignments s)" using om_sorted_distinct [OF assms] by (simp add: distinct_map)
  have "length (filter P (counted_assignments s)) = length (filter (\<lambda>e. ?C (snd e) \<and> P (snd e)) (st_assignments s))"
    by (simp add: counted_assignments_def om_values_def filter_map o_def conj_commute)
  with repeated_iff [OF d, of "\<lambda>e. ?C (snd e) \<and> P (snd e)"] om_find_in [OF assms] show ?thesis
    by (fastforce simp: om_find_in [OF assms])
qed

lemma tallies_over_one:
  assumes "om_sorted m"
  shows "(\<forall>(k, n) \<in> set m. n > 1 \<longrightarrow> Q k) \<longleftrightarrow> (\<forall>k. tallied m k > 1 \<longrightarrow> Q k)"
  using om_find_in [OF assms] by (fastforce simp: tallied_def split: option.splits)

lemma tallied_empty [simp]: "tallied om_empty k = 0"
  by (simp add: tallied_def)

lemma authoritative_tallied:
  "om_sorted (authoritative_assignments s)"
  "tallied (authoritative_assignments s) k = length (filter (\<lambda>a. as_virtual_id a = k) (counted_assignments s))"
  by (simp_all add: authoritative_assignments_def tally_fold_sorted tallied_fold)

lemma holders_tallied:
  "om_sorted (backing_holders s)"
  "tallied (backing_holders s) k = length (filter (\<lambda>a. as_backing a = k) (counted_assignments s))"
  by (simp_all add: backing_holders_def tally_fold_sorted tallied_fold)

lemma audit_single_holder_clean:
  "audit_single_holder s (k, n) = [] \<longleftrightarrow>
    (n > 1 \<longrightarrow> map_option bk_exclusive (om_find (st_backings s) k) = Some False)"
  by (auto simp: audit_single_holder_def not_less split: option.splits)

lemma single_authority_audit:
  assumes "om_sorted (st_assignments s)"
    and "\<forall>k a. om_find (st_assignments s) k = Some a \<longrightarrow> om_contains (st_virtuals s) (as_virtual_id a)"
  shows "loop (audit_single_authority s) (authoritative_assignments s) = [] \<and>
      loop (audit_single_holder s) (backing_holders s) = [] \<longleftrightarrow> single_authority s"
proof -
  have 1: "loop (audit_single_authority s) (authoritative_assignments s) = [] \<longleftrightarrow>
      (\<forall>k. length (filter (\<lambda>a. as_virtual_id a = k) (counted_assignments s)) > 1 \<longrightarrow> False)"
    unfolding authoritative_tallied(2) [symmetric] tallies_over_one [OF authoritative_tallied(1), symmetric]
    by (auto simp: audit_single_authority_def)
  have 2: "loop (audit_single_holder s) (backing_holders s) = [] \<longleftrightarrow>
      (\<forall>k. length (filter (\<lambda>a. as_backing a = k) (counted_assignments s)) > 1 \<longrightarrow>
        map_option bk_exclusive (om_find (st_backings s) k) = Some False)"
    unfolding holders_tallied(2) [symmetric] tallies_over_one [OF holders_tallied(1), symmetric]
    by (auto simp: audit_single_holder_clean simp del: option.map_sel)
  show ?thesis unfolding 1 2 counted_repeated [OF assms(1)] single_authority_def
    using assms(2) by (intro iffI allI impI conjI; metis)
qed

subsection \<open>Each loop\<close>

lemma audit_identity_clean:
  "audit_identity (k, r) = [] \<longleftrightarrow>
    va_id r = k \<and> id_valid k \<and> gen_valid (va_state_generation r) \<and> va_state_generation r \<le> va_generation r"
  by (auto simp: audit_identity_def lifecycle_is_terminal_def less_eq_generation_def gen_valid_def not_less)

lemma audit_tenant_reference_clean: "audit_tenant_reference s (k, r) = [] \<longleftrightarrow> owned_right s r"
  by (auto simp: audit_tenant_reference_def owned_right_def split: option.splits)

lemma audit_advertised_clean:
  "audit_advertised r b c = [] \<longleftrightarrow> (ce_verdict c = CV_Supported \<longrightarrow>
    map_option ce_verdict (surface_find (bk_capabilities b) (ce_key c)) \<in> {None, Some CV_Supported, Some CV_Constrained})"
proof (cases "surface_find (bk_capabilities b) (ce_key c)")
  case (Some e)
  then show ?thesis by (cases "ce_verdict e") (auto simp: audit_advertised_def)
qed (auto simp: audit_advertised_def)

lemma audit_projection_clean:
  "audit_projection s (k, r) = [] \<longleftrightarrow> projected s r \<and>
    (\<forall>b. id_valid (va_backing r) \<longrightarrow> om_find (st_backings s) (va_backing r) = Some b \<longrightarrow>
      (\<forall>c \<in> set (cp_surface (va_projection r)). audit_advertised r b c = []))"
  by (cases "om_find (st_backings s) (va_backing r)")
    (simp_all add: audit_projection_def projected_def Let_def less_eq_generation_def not_less, argo+)

lemma audit_binding_split:
  "audit_binding s (k, r) = [] \<longleftrightarrow>
    (id_valid (va_backing r) \<longrightarrow> gen_valid (va_backing_generation r) \<and>
      (\<exists>b. om_find (st_backings s) (va_backing r) = Some b \<and>
        (bk_exclusive b \<and> id_valid (bk_assigned_to b) \<longrightarrow> bk_assigned_to b = va_id r))) \<and>
    (id_valid (va_assignment r) \<longrightarrow> om_contains (st_assignments s) (va_assignment r)) \<and>
    (lifecycle_requires_backing (va_state r) \<longrightarrow>
      id_valid (va_assignment r) \<and> assignment_is s (va_assignment r) True)"
  by (cases "om_find (st_backings s) (va_backing r)"; cases "om_find (st_assignments s) (va_assignment r)")
    (auto simp: audit_binding_def om_contains_def assignment_is_def gen_valid_def)

lemma audit_retired_clean:
  "audit_retired (k, r) = [] \<longleftrightarrow>
    (va_state r = LC_Retired \<longrightarrow> \<not> id_valid (va_backing r) \<and> \<not> id_valid (va_assignment r) \<and> va_active_attachments r = 0)"
  by (auto simp: audit_retired_def)

lemma audit_binding_clean:
  "audit_binding s (k, r) = [] \<and> audit_retired (k, r) = [] \<and> audit_projection s (k, r) = [] \<longleftrightarrow>
    bound_to s r \<and> projected s r"
  unfolding audit_binding_split audit_retired_clean audit_projection_clean bound_to_def audit_advertised_clean
  by (cases "om_find (st_backings s) (va_backing r)") (simp_all, blast+)

lemma audit_isolation_clean: "audit_isolation s (k, r) = [] \<longleftrightarrow> truthful s r"
  by (auto simp: audit_isolation_def truthful_def split: option.splits)

lemma audit_attachments_clean:
  "audit_attachments s (k, r) = [] \<longleftrightarrow> va_active_attachments r = of_nat (length (filter (live_lease s) (va_leases r)))"
  by (auto simp: audit_attachments_def live_count_def fold_count)

lemma audit_virtual_clean:
  "audit_identity (k, r) = [] \<and> audit_tenant_reference s (k, r) = [] \<and> audit_binding s (k, r) = [] \<and>
   audit_retired (k, r) = [] \<and> audit_projection s (k, r) = [] \<and> audit_isolation s (k, r) = [] \<and>
   audit_attachments s (k, r) = [] \<longleftrightarrow> virtual_consistent s k r"
  using audit_binding_clean [of s k r]
  unfolding virtual_consistent_def audit_identity_clean audit_tenant_reference_clean audit_isolation_clean
    audit_attachments_clean by blast

lemma audit_backing_clean: "audit_backing_device s (k, b) = [] \<longleftrightarrow> backing_consistent s b"
  by (auto simp: audit_backing_device_def backing_consistent_def Let_def split: option.splits)

lemma audit_assignment_clean: "audit_assignment s (k, a) = [] \<longleftrightarrow> assignment_consistent s k a"
  by (auto simp: audit_assignment_def assignment_consistent_def om_contains_def split: option.splits)

lemma audit_lease_clean: "audit_lease s (k, l) = [] \<longleftrightarrow> lease_consistent s l"
  by (auto simp: audit_lease_def lease_consistent_def split: option.splits)

lemma audit_migration_clean: "audit_migration s (k, m) = [] \<longleftrightarrow> migration_consistent s k m"
  by (auto simp: audit_migration_def migration_consistent_def Let_def om_contains_def split: option.splits)

lemma audit_tenant_clean: "audit_tenant s (k, t) = [] \<longleftrightarrow> tenant_consistent s t"
  by (auto simp: audit_tenant_def tenant_consistent_def audit_owned_def claimed_attachments_def fold_sum_option
      split: option.splits)

lemma audit_totals_clean: "audit_totals s = [] \<longleftrightarrow> accounts_closed s"
  by (simp add: audit_totals_def accounts_closed_def Let_def expected_active_def expected_attachments_def
      expected_bytes_def fold_sum fold_count [where P = "\<lambda>r. counts_as_active (va_state r)"])

lemmas audit_loops_clean = audit_backing_clean audit_assignment_clean audit_lease_clean audit_migration_clean
  audit_tenant_clean audit_totals_clean

subsection \<open>The audit as a whole\<close>

lemma virtual_loops_clean:
  assumes "om_sorted m"
  shows "loop audit_identity m = [] \<and> loop (audit_tenant_reference s) m = [] \<and> loop (audit_binding s) m = [] \<and>
    loop audit_retired m = [] \<and> loop (audit_projection s) m = [] \<and> loop (audit_isolation s) m = [] \<and>
    loop (audit_attachments s) m = [] \<longleftrightarrow> (\<forall>k r. om_find m k = Some r \<longrightarrow> virtual_consistent s k r)"
  unfolding loop_omap [OF assms] audit_virtual_clean [symmetric] by blast

text \<open>C13: the audit finds nothing exactly on consistent states: the counting loops and early exits of the
  source decide the declarative condition, no violation is missed and none is reported without cause.\<close>

theorem audit_clean_iff_consistent:
  assumes "maps_sorted s"
  shows "audit_clean (run_invariant_audit fingerprint s) \<longleftrightarrow> state_consistent s"
proof -
  have sorted: "om_sorted (st_tenants s)" "om_sorted (st_backings s)" "om_sorted (st_virtuals s)"
    "om_sorted (st_leases s)" "om_sorted (st_assignments s)" "om_sorted (st_migrations s)"
    using assms by (simp_all add: maps_sorted_def)
  have single: "loop (audit_single_authority s) (authoritative_assignments s) = [] \<and>
      loop (audit_single_holder s) (backing_holders s) = [] \<longleftrightarrow> single_authority s"
    if "\<forall>k a. om_find (st_assignments s) k = Some a \<longrightarrow> assignment_consistent s k a"
    using single_authority_audit [OF sorted(5)] that by (simp add: assignment_consistent_def)
  have loops:
    "loop (audit_backing_device s) (st_backings s) = [] \<longleftrightarrow> (\<forall>k b. om_find (st_backings s) k = Some b \<longrightarrow> backing_consistent s b)"
    "loop (audit_assignment s) (st_assignments s) = [] \<longleftrightarrow>
      (\<forall>k a. om_find (st_assignments s) k = Some a \<longrightarrow> assignment_consistent s k a)"
    "loop (audit_lease s) (st_leases s) = [] \<longleftrightarrow> (\<forall>k l. om_find (st_leases s) k = Some l \<longrightarrow> lease_consistent s l)"
    "loop (audit_migration s) (st_migrations s) = [] \<longleftrightarrow>
      (\<forall>k m. om_find (st_migrations s) k = Some m \<longrightarrow> migration_consistent s k m)"
    "loop (audit_tenant s) (st_tenants s) = [] \<longleftrightarrow> (\<forall>k t. om_find (st_tenants s) k = Some t \<longrightarrow> tenant_consistent s t)"
    by (simp_all only: sorted [THEN loop_omap] audit_loops_clean)
  show ?thesis
    unfolding audit_clean_def run_invariant_audit_def audit_report.simps audit_violations_def append_is_Nil_conv
      state_consistent_def loops audit_totals_clean virtual_loops_clean [OF sorted(3), symmetric]
    using single by argo
qed

end
