(* ===== verification/AV_Consistency.thy ===== *)
theory AV_Consistency
  imports AV_Audit AV_System
begin

text \<open>
  The invariant audit applied to what the runtime does: what it finds after a restart, and the accounting
  totals after the operations that recompute them.
\<close>

section \<open>Where a code can come from\<close>

lemma set_loop [simp]: "set (loop f xs) = (\<Union>x \<in> set xs. set (f x))"
  by (simp add: loop_def)

lemma set_flag [simp]: "v \<in> set (flag c w) \<longleftrightarrow> c \<and> v = w"
  by (auto simp: flag_def)

lemma violation_code [simp]: "iv_code (violation c) = c" "iv_code (fail_for c r) = c"
  by (simp_all add: violation_def fail_for_def)

definition authority_codes :: "invariant_code set" where
  "authority_codes = {INV_FencedTenantNoAuthority, INV_LeaseGenerationBound, INV_AttachmentCountConsistent}"

lemma authority_codes_iff [simp]:
  "c \<in> authority_codes \<longleftrightarrow>
    c = INV_FencedTenantNoAuthority \<or> c = INV_LeaseGenerationBound \<or> c = INV_AttachmentCountConsistent"
  by (simp add: authority_codes_def)

lemma loops_without_authority:
  "v \<in> set (audit_identity e) \<Longrightarrow> iv_code v \<notin> authority_codes"
  "v \<in> set (audit_backing_device s b) \<Longrightarrow> iv_code v \<notin> authority_codes"
  "v \<in> set (audit_assignment s a) \<Longrightarrow> iv_code v \<notin> authority_codes"
  "v \<in> set (audit_single_authority s n) \<Longrightarrow> iv_code v \<notin> authority_codes"
  "v \<in> set (audit_single_holder s h) \<Longrightarrow> iv_code v \<notin> authority_codes"
  "v \<in> set (audit_binding s e) \<Longrightarrow> iv_code v \<notin> authority_codes"
  "v \<in> set (audit_retired e) \<Longrightarrow> iv_code v \<notin> authority_codes"
  "v \<in> set (audit_isolation s e) \<Longrightarrow> iv_code v \<notin> authority_codes"
  "v \<in> set (audit_totals s) \<Longrightarrow> iv_code v \<notin> authority_codes"
  by (auto simp: audit_identity_def audit_backing_device_def audit_assignment_def audit_single_authority_def
      audit_single_holder_def audit_binding_def audit_retired_def audit_isolation_def audit_totals_def Let_def
      split: option.splits if_splits prod.splits)

lemma advertised_without_authority:
  "v \<in> set (case x of None \<Rightarrow> [] | Some b \<Rightarrow> loop (audit_advertised r b) cs) \<Longrightarrow> iv_code v \<notin> authority_codes"
  by (auto simp: audit_advertised_def split: option.splits if_splits)

lemma flag_without_authority: "v \<in> set (flag c (fail_for k r)) \<Longrightarrow> k \<notin> authority_codes \<Longrightarrow> iv_code v \<notin> authority_codes"
  by auto

lemma projection_without_authority:
  "v \<in> set (audit_projection s (k, r)) \<Longrightarrow> iv_code v \<notin> authority_codes"
  unfolding audit_projection_def Let_def prod.case set_append Un_iff
  by (elim disjE; (erule flag_without_authority, simp)?)
    (cases "id_valid (va_backing r)"; simp only: if_True if_False set_simps empty_iff not_False_eq_True advertised_without_authority)

lemma migration_without_authority: "v \<in> set (audit_migration s e) \<Longrightarrow> iv_code v \<notin> authority_codes"
  by (cases e) (auto simp: audit_migration_def Let_def split: option.splits if_splits)

section \<open>After a restart\<close>

lemma quiescent_no_live: "quiescent s \<Longrightarrow> \<not> live_lease s i"
  by (auto simp: quiescent_def live_lease_def split: option.splits)

lemma quiescent_released:
  assumes "quiescent s" and "om_find (st_virtuals s) k = Some r"
  shows "va_active_attachments r = 0"
  using assms by (auto simp: quiescent_def released_def)

lemma quiescent_virtuals:
  assumes "quiescent s" and "maps_sorted s" and "(k, r) \<in> set (st_virtuals s)"
  shows "audit_attachments s (k, r) = []"
    and "v \<in> set (audit_tenant_reference s (k, r)) \<Longrightarrow> iv_code v \<notin> authority_codes"
proof -
  have r: "va_active_attachments r = 0"
    using assms quiescent_released by (auto simp: maps_sorted_def om_find_in)
  show "audit_attachments s (k, r) = []"
    unfolding audit_attachments_clean r by (simp add: quiescent_no_live [OF assms(1)])
  show "v \<in> set (audit_tenant_reference s (k, r)) \<Longrightarrow> iv_code v \<notin> authority_codes"
    by (auto simp: audit_tenant_reference_def r quiescent_no_live [OF assms(1)] split: option.splits if_splits)
qed

lemma quiescent_tenant:
  assumes "quiescent s" and "maps_sorted s" and "(k, t) \<in> set (st_tenants s)"
  shows "v \<in> set (audit_tenant s (k, t)) \<Longrightarrow> iv_code v \<notin> authority_codes"
proof -
  have 1: "tn_active_attachments t = 0" using assms by (auto simp: quiescent_def maps_sorted_def om_find_in)
  have "(case om_find (st_virtuals s) i of None \<Rightarrow> 0 | Some r \<Rightarrow> va_active_attachments r) = 0" for i
    using quiescent_released [OF assms(1)] by (simp split: option.split)
  then have 2: "claimed_attachments s t = 0" by (simp add: claimed_attachments_def fold_sum_option)
  show "v \<in> set (audit_tenant s (k, t)) \<Longrightarrow> iv_code v \<notin> authority_codes"
    by (auto simp: audit_tenant_def 1 2 audit_owned_def split: option.splits)
qed

lemma validated_lease:
  assumes "quiescent s" and "maps_sorted s" and "validate_state s = SC_Ok" and "(k, l) \<in> set (st_leases s)"
  shows "audit_lease s (k, l) = []"
proof -
  have "l \<in> set (om_values (st_leases s))" using assms(4) by (force simp: om_values_def)
  then have "gen_valid (ls_generation l) \<and> om_contains (st_virtuals s) (ls_virtual_id l) \<and>
      om_contains (st_tenants s) (ls_tenant l)"
    using assms(3) by (auto simp: validate_state_def list_all_iff simp del: first_error.simps)
  moreover have "\<not> lease_state_is_live (ls_state l)"
    using assms by (auto simp: quiescent_def maps_sorted_def om_find_in)
  ultimately show ?thesis unfolding audit_lease_clean by (auto simp: lease_consistent_def om_contains_def)
qed

lemma quiescent_audit:
  assumes "quiescent s" and "maps_sorted s" and "validate_state s = SC_Ok" and "v \<in> set (audit_violations s)"
  shows "iv_code v \<notin> authority_codes"
  using assms(4) loops_without_authority migration_without_authority
    projection_without_authority quiescent_virtuals [OF assms(1,2)] quiescent_tenant [OF assms(1,2)] validated_lease [OF assms(1-3)]
  unfolding audit_violations_def set_append set_loop Un_iff UN_iff
  by (elim disjE bexE) (auto simp del: authority_codes_iff)

text \<open>C16: A restart that succeeds passes the runtime's own audit of authority: in the state it produces
  the audit reports no lease bound to the wrong generation, no attachment count that differs from the
  live leases, and no authority kept by a fenced tenant.\<close>

theorem restart_passes_authority_audit:
  assumes "\<not> im_running im" and "env_store e = Some store" and "ds_present store" and "ds_load store = Inr s"
    and "well_formed s" and "gen_valid (st_epoch s)" and "fst (start e im) = Inr ()"
  shows "iv_code ` set (ar_violations (run_invariant_audit fingerprint (im_state (snd (start e im))))) \<inter>
    {INV_FencedTenantNoAuthority, INV_LeaseGenerationBound, INV_AttachmentCountConsistent} = {}"
  using quiescent_audit [of "im_state (snd (start e im))"] start_recovers [OF assms]
  by (fastforce simp: run_invariant_audit_def Let_def well_formed_def)

section \<open>Accounting\<close>

lemma counts_agree: "counts_active r = counts_as_active (va_state r)"
  by (simp add: counts_active_def counts_as_active_def)

lemma recompute_closes: "accounts_closed (im_state (recompute_derived_accounting im))"
  by (simp add: accounts_closed_def recompute_derived_accounting_def derived_accounting_def upd_accounting_def
      touch_header_def upd_state_def om_values_def fold_count [where P = "\<lambda>e. counts_as_active (va_state (snd e))"]
      fold_sum counts_agree filter_map o_def Let_def)

lemma accounts_closed_cong:
  "st_accounting s = st_accounting t \<Longrightarrow> st_virtuals s = st_virtuals t \<Longrightarrow> accounts_closed s = accounts_closed t"
  by (simp add: accounts_closed_def)

lemma finalized_accounting:
  "st_accounting (im_state (commit_logs (finalized e c SC_Ok kind im))) = st_accounting (im_state im)"
  "st_virtuals (im_state (commit_logs (finalized e c SC_Ok kind im))) = st_virtuals (im_state im)"
  by (simp_all add: finalized_def commit_logs_def push_request_def record_decision_def Let_def split_beta)

lemma accept_closed:
  assumes "fst (report (accept e c kind v im)) = SC_Ok" and "accounts_closed (im_state im)"
  shows "accounts_closed (im_state (snd (report (accept e c kind v im))))"
proof -
  have "fst (commit e (finalized e c SC_Ok kind im)) = SC_Ok"
    using assms(1) by (auto simp: report_def accept_result split: if_splits)
  then have "im_state (snd (accept e c kind v im)) = im_state (commit_logs (finalized e c SC_Ok kind im))"
    by (auto simp: accept_state finalize_commit commit_def Let_def split: if_splits)
  then show ?thesis
    using assms(2) accounts_closed_cong [OF finalized_accounting] by (simp add: report_def)
qed

lemma refused_not_ok: "fst (report (refuse e c status im)) = SC_Ok \<Longrightarrow> status = SC_Ok"
  by (auto simp: report_def refuse_def finalize_def split_beta Let_def split: if_splits)

lemma transition_closed:
  assumes "\<And>im. accounts_closed (im_state (after im))"
    and "fst (report (transition_or_refuse e c k target reason kind after im)) = SC_Ok"
  shows "accounts_closed (im_state (snd (report (transition_or_refuse e c k target reason kind after im))))"
  using assms(2) unfolding transition_or_refuse_def Let_def split_beta
  by (auto dest!: refused_not_ok intro!: accept_closed assms(1) split: if_splits)

text \<open>The operations that end by recomputing the derived totals.\<close>

fun recomputing :: "operation \<Rightarrow> bool" where
  "recomputing (Op_Activate _) = True"
| "recomputing (Op_Resume _ _) = True"
| "recomputing (Op_Suspend _ _) = True"
| "recomputing (Op_FenceVirtual _ _) = True"
| "recomputing (Op_RetireVirtual _ _) = True"
| "recomputing (Op_FenceTenant _ _ _ _) = True"
| "recomputing (Op_SetPolicy _ _) = True"
| "recomputing (Op_PhysicalLost _ _ _) = True"
| "recomputing _ = False"

text \<open>\<open>closes out\<close>: if the outcome is a success, the totals are those of the records.\<close>

definition closes :: "'a result \<times> impl \<Rightarrow> bool" where
  "closes out \<longleftrightarrow> (fst (report out) = SC_Ok \<longrightarrow> accounts_closed (im_state (snd (report out))))"

lemma closes_accept: "accounts_closed (im_state im) \<Longrightarrow> closes (accept e c kind v im)"
  by (simp add: closes_def accept_closed)

lemma closes_refuse: "status \<noteq> SC_Ok \<Longrightarrow> closes (refuse e c status im)"
  by (auto simp: closes_def dest: refused_not_ok)

lemma closes_transition:
  "(\<And>im. accounts_closed (im_state (after im))) \<Longrightarrow> closes (transition_or_refuse e c k target reason kind after im)"
  by (simp add: closes_def transition_closed)

lemma closes_guarded:
  assumes "\<And>c. guard = Inl c \<Longrightarrow> c \<noteq> SC_Ok" and "\<And>r. closes (f r)"
  shows "closes (case guard of Inl c \<Rightarrow> refuse e ctx c im | Inr r \<Rightarrow> f r)"
  using assms by (cases guard) (simp_all add: closes_refuse)

lemma recompute_closes_then:
  "accounts_closed (im_state (touch_header (recompute_derived_accounting im)))"
  "accounts_closed (im_state (run_steps [upd_accounting f, recompute_derived_accounting] im))"
  by (simp_all only: touch_header_frame run_steps_simps recompute_closes)

lemma lifecycle_operations_closed:
  "closes (activate e auth im)" "closes (resume e auth reason im)" "closes (suspend e auth reason im)"
  "closes (fence_virtual e auth reason im)" "closes (retire_virtual e auth reason im)"
  unfolding activate_def resume_def suspend_def fence_virtual_def retire_virtual_def Let_def
  by (intro closes_guarded closes_transition recompute_closes recompute_closes_then;
      erule owned_guard_code)+

lemma sweeping_operations_closed:
  "closes (fence_tenant e auth i g reason im)"
  "closes (set_policy e auth policy im)"
  "closes (physical_lost e k gp reason im)"
  unfolding fence_tenant_def set_policy_def physical_lost_def fence_tenant_effect_def set_policy_effect_def
    physical_lost_effect_def Let_def split_beta run_steps_simps fst_conv snd_conv
  by (simp_all only: closes_accept recompute_closes recompute_closes_then if_split if_True simp_thms)
    (simp_all add: closes_refuse)

text \<open>The derived totals of the accounting, the number of active virtual accelerators, of attachments
  and of allocated bytes, are those of the records after every operation that recomputes them,
  whatever the totals were before.\<close>

theorem totals_recomputed:
  assumes "recomputing op" and "fst (perform e op im) = SC_Ok"
  shows "accounts_closed (im_state (snd (perform e op im)))"
  using assms lifecycle_operations_closed sweeping_operations_closed
  by (cases op) (simp_all add: closes_def)

end
