(* ===== verification/AV_Scenario.thy ===== *)
theory AV_Scenario
  imports AV_Scope AV_Consistency
begin

text \<open>
  One concrete installation, on which the properties of the other theories are exercised: a tenant with a
  virtual accelerator on the first of two backings of one device. The state comes in two stages: with a
  running attachment, and with a migration to the second backing prepared.
\<close>

section \<open>The installation\<close>

definition sc_env :: env where
  "sc_env = \<lparr> env_now = 100, env_store = None \<rparr>"

definition sc_options :: runtime_options where
  "sc_options = \<lparr> opt_name = ''coordinator'', opt_persist = True, opt_deferred_persistence = False,
     opt_deferred_threshold = 0, opt_max_connections = 64, opt_enforce_memory_budget = True \<rparr>"

definition sc_tenant :: tenant_record where
  "sc_tenant = blank_tenant\<lparr> tn_id := Ident 1, tn_generation := gen_initial, tn_name := ''acme'',
     tn_active_attachments := 1, tn_owned := [Ident 5] \<rparr>"

definition sc_backing :: "bk_id \<Rightarrow> backing_record" where
  "sc_backing i = blank_backing\<lparr> bk_id := i, bk_generation := Generation 2, bk_physical := Ident 2,
     bk_physical_generation := gen_initial, bk_klass := BC_SyntheticMigratable, bk_provenance := PV_Synthetic,
     bk_multiplexing := MX_Synthetic, bk_capacity_bytes := 1000, bk_capability_rank := 10, bk_available := True \<rparr>"

definition sc_device :: physical_record where
  "sc_device = blank_physical\<lparr> pd_id := Ident 2, pd_generation := gen_initial, pd_present := True,
     pd_backings := [Ident 3, Ident 4] \<rparr>"

definition sc_virtual :: virtual_record where
  "sc_virtual = blank_virtual\<lparr> va_id := Ident 5, va_generation := Generation 7, va_name := ''va'', va_owner := Ident 1,
     va_owner_generation := gen_initial, va_state := LC_Active, va_contract := empty_contract\<lparr> rc_memory_ceiling_bytes := 100 \<rparr>,
     va_assignment := Ident 6, va_backing := Ident 3, va_backing_generation := Generation 2, va_physical := Ident 2,
     va_physical_generation := gen_initial, va_allocated_bytes := 40, va_active_attachments := 1,
     va_leases := [Ident 8] \<rparr>"

definition sc_neighbour :: tenant_record where
  "sc_neighbour = blank_tenant\<lparr> tn_id := Ident 10, tn_generation := gen_initial, tn_name := ''other'',
     tn_owned := [Ident 11] \<rparr>"

definition sc_retired :: virtual_record where
  "sc_retired = blank_virtual\<lparr> va_id := Ident 11, va_generation := Generation 4, va_owner := Ident 10,
     va_owner_generation := gen_initial, va_state := LC_Retired \<rparr>"

definition sc_source :: backing_assignment where
  "sc_source = blank_assignment\<lparr> as_id := Ident 6, as_virtual_id := Ident 5, as_backing := Ident 3,
     as_state := Asg_Active, as_authoritative := True \<rparr>"

definition sc_lease :: lease_record where
  "sc_lease = blank_lease\<lparr> ls_id := Ident 8, ls_generation := gen_initial, ls_virtual_id := Ident 5,
     ls_virtual_generation := Generation 7, ls_tenant := Ident 1, ls_tenant_generation := gen_initial,
     ls_backing_generation := Generation 2, ls_physical_generation := gen_initial, ls_policy_generation := gen_initial,
     ls_epoch := gen_initial, ls_state := Lease_Active \<rparr>"

definition sc_policy :: virtualization_policy where
  "sc_policy = default_policy\<lparr> pol_id := Ident 12, pol_generation := gen_initial, pol_max_virtual_accelerators := 8,
     pol_max_tenants := 8, pol_max_leases := 8, pol_max_migrations := 8 \<rparr>"

definition sc_running :: vstate where
  "sc_running = initial_state\<lparr> st_next_sequence := 20, st_epoch := gen_initial, st_policy := sc_policy,
     st_policy_generation := gen_initial, st_tenants := [(Ident 1, sc_tenant), (Ident 10, sc_neighbour)], st_physical := [(Ident 2, sc_device)],
     st_backings := [(Ident 3, (sc_backing (Ident 3))\<lparr> bk_assigned_to := Ident 5, bk_active_assignment := Ident 6 \<rparr>),
       (Ident 4, sc_backing (Ident 4))],
     st_virtuals := [(Ident 5, sc_virtual), (Ident 11, sc_retired)], st_leases := [(Ident 8, sc_lease)],
     st_assignments := [(Ident 6, sc_source)] \<rparr>"

definition sc_impl :: "vstate \<Rightarrow> impl" where
  "sc_impl s = \<lparr> im_options = sc_options, im_state = s, im_changes = empty_changes, im_undo = blank_undo,
     im_agents = om_empty, im_running = True, im_store_failed = False, im_store_failure = SC_Ok \<rparr>"

definition sc_auth :: authority where
  "sc_auth = blank_authority\<lparr> auth_epoch := Some gen_initial, auth_tenant := Some (Ident 1),
     auth_tenant_generation := Some gen_initial, auth_virtual_id := Some (Ident 5),
     auth_virtual_generation := Some (Generation 7), auth_lease := Some (Ident 8),
     auth_lease_generation := Some gen_initial \<rparr>"

lemmas scenario_defs = sc_env_def sc_options_def sc_tenant_def sc_backing_def sc_device_def sc_virtual_def sc_neighbour_def sc_retired_def
  sc_source_def sc_lease_def sc_policy_def sc_running_def sc_impl_def sc_auth_def

lemma sc_running_well_formed: "well_formed (im_state (sc_impl sc_running))"
  by (simp add: well_formed_def maps_sorted_def ids_match_def keyed_def scenario_defs initial_state_def om_sorted_def
      om_find_def om_empty_def less_ident_def)

lemma sc_retired_found:
  "om_find (st_virtuals (im_state (sc_impl sc_running))) (Ident 11) = Some sc_retired" "va_state sc_retired = LC_Retired"
  by (simp_all add: scenario_defs om_find_def)

section \<open>The properties at this state\<close>

lemma sc_drain_step: "reachable_from (sc_impl sc_running) (snd (perform sc_env (Op_Drain sc_auth ''maintenance'') (sc_impl sc_running)))"
  by (rule reachable_from.more [OF reachable_from.here], rule runtime_step.step) simp


theorem retired_forever_witness:
  "\<exists>r'. om_find (st_virtuals (im_state (snd (perform sc_env (Op_Drain sc_auth ''maintenance'') (sc_impl sc_running)))))
    (Ident 11) = Some r' \<and> va_state r' = LC_Retired"
  by (rule retired_forever [OF sc_running_well_formed sc_drain_step sc_retired_found])


lemma sc_reserve: "fst (reserve_allocation sc_env sc_auth 60 (sc_impl sc_running)) = Inr 100"
  by code_simp

lemma sc_reserved: "fst (perform sc_env (Op_ReserveAllocation sc_auth 60) (sc_impl sc_running)) = SC_Ok"
  by (simp add: report_def sc_reserve)


theorem tenant_operation_confined_witness:
  "om_find (st_virtuals (im_state (snd (perform sc_env (Op_ReserveAllocation sc_auth 60) (sc_impl sc_running))))) (Ident 11) =
    Some sc_retired"
proof -
  have "auth_virtual_id sc_auth = Some (Ident 5)" by (simp add: sc_auth_def)
  from tenant_operation_confined [OF sc_running_well_formed _ _ this sc_reserved, of "Ident 11"]
  show ?thesis by (simp add: sc_retired_found)
qed

theorem reservation_within_budget_witness:
  "fst (reserve_allocation sc_env sc_auth 60 (sc_impl sc_running)) = Inr 100 \<and>
   (\<exists>r l. om_find (st_virtuals sc_running) (va_id r) = Some r \<and> om_find (st_leases sc_running) (ls_id l) = Some l \<and>
     lease_current sc_running l \<and> ls_virtual_id l = va_id r)"
proof -
  have "opt_enforce_memory_budget (im_options (sc_impl sc_running))" by (simp add: scenario_defs)
  from reservation_within_budget [OF sc_running_well_formed this sc_reserve]
  have "\<exists>r l. om_find (st_virtuals sc_running) (va_id r) = Some r \<and> om_find (st_leases sc_running) (ls_id l) = Some l \<and>
     lease_current sc_running l \<and> ls_virtual_id l = va_id r"
    by (auto simp: sc_impl_def)
  with sc_reserve show ?thesis by blast
qed

lemma sc_set_policy: "\<exists>p. fst (set_policy sc_env sc_auth default_policy (sc_impl sc_running)) = Inr p"
proof -
  have g: "set_policy_guard sc_auth default_policy (begin_op (sc_impl sc_running)) = SC_Ok" by code_simp
  have "store_accepts sc_env" by (simp add: store_accepts_def sc_env_def)
  then show ?thesis
    by (simp add: set_policy_def Let_def split_beta g accept_result store_accepts_commit)
qed

theorem set_policy_ends_authority_witness:
  "\<not> (\<exists>k l. om_find (st_leases (im_state (snd (set_policy sc_env sc_auth default_policy (sc_impl sc_running))))) k = Some l \<and>
     lease_state_is_live (ls_state l))"
proof -
  obtain p where "fst (set_policy sc_env sc_auth default_policy (sc_impl sc_running)) = Inr p" using sc_set_policy by blast
  from set_policy_ends_authority [OF sc_running_well_formed this] show ?thesis by blast
qed

theorem totals_recomputed_witness:
  "accounts_closed (im_state (snd (perform sc_env (Op_SetPolicy sc_auth default_policy) (sc_impl sc_running))))"
proof -
  have "fst (perform sc_env (Op_SetPolicy sc_auth default_policy) (sc_impl sc_running)) = SC_Ok"
    using sc_set_policy by (auto simp: report_def)
  from totals_recomputed [OF _ this] show ?thesis by simp
qed

theorem audit_clean_iff_consistent_witness:
  "audit_clean (run_invariant_audit (\<lambda>_. 0) initial_state) \<and> \<not> audit_clean (run_invariant_audit (\<lambda>_. 0) sc_running)"
proof -
  have 1: "state_consistent initial_state"
    by (simp add: state_consistent_def initial_state_def single_authority_def accounts_closed_def om_values_def om_empty_def
        om_find_def blank_accounting_def)
  have 2: "\<not> state_consistent sc_running"
    by (simp add: state_consistent_def accounts_closed_def scenario_defs initial_state_def blank_accounting_def om_values_def
        counts_as_active_def)
  have "maps_sorted sc_running" using sc_running_well_formed by (simp add: well_formed_def sc_impl_def)
  with 1 2 show ?thesis
    by (simp add: audit_clean_iff_consistent [OF maps_sorted_initial] audit_clean_iff_consistent)
qed

section \<open>A prepared migration\<close>

definition sc_plan :: migration_plan where
  "sc_plan = \<lparr> mp_id = Ident 9, mp_generation = Generation 2, mp_virtual_id = Ident 5, mp_virtual_generation = Generation 7,
     mp_source_backing = Ident 3, mp_source_backing_generation = Generation 2, mp_destination_backing = Ident 4,
     mp_destination_backing_generation = Generation 2, mp_source_physical = Ident 2,
     mp_source_physical_generation = gen_initial, mp_destination_physical = Ident 2,
     mp_destination_physical_generation = gen_initial, mp_tenant = Ident 1, mp_tenant_generation = gen_initial,
     mp_contract_generation = no_gen, mp_projection_generation = no_gen, mp_policy_generation = gen_initial,
     mp_epoch = gen_initial, mp_klass = MC_RebindOnly, mp_state_transfer_required = False,
     mp_live_state_movement = False, mp_rationale = txt_rationale \<rparr>"

definition sc_migration :: migration_record where
  "sc_migration = \<lparr> mg_plan = sc_plan, mg_state = MS_CommitReady, mg_source_authoritative = True,
     mg_destination_authoritative = False, mg_state_transfer_performed = False, mg_source_assignment = Ident 6,
     mg_destination_assignment = Ident 7, mg_destination_projection_generation = no_gen, mg_planned_at = 0,
     mg_prepared_at = 0, mg_committed_at = 0, mg_completed_at = 0, mg_note = txt_prepared \<rparr>"

definition sc_destination :: backing_assignment where
  "sc_destination = blank_assignment\<lparr> as_id := Ident 7, as_virtual_id := Ident 5, as_backing := Ident 4,
     as_backing_generation := Generation 3, as_state := Asg_Prepared \<rparr>"

definition sc_migrating :: vstate where
  "sc_migrating = sc_running\<lparr>
     st_virtuals := [(Ident 5, sc_virtual\<lparr> va_state := LC_Migrating, va_active_attachments := 0, va_migration := Ident 9 \<rparr>),
       (Ident 11, sc_retired)],
     st_leases := [(Ident 8, sc_lease\<lparr> ls_state := Lease_Fenced \<rparr>)],
     st_assignments := [(Ident 6, sc_source), (Ident 7, sc_destination)],
     st_migrations := [(Ident 9, sc_migration)] \<rparr>"

definition sc_migration_auth :: authority where
  "sc_migration_auth = sc_auth\<lparr> auth_migration := Some (Ident 9), auth_migration_generation := Some (Generation 2) \<rparr>"

lemmas migrating_defs = sc_plan_def sc_migration_def sc_destination_def sc_migrating_def sc_migration_auth_def

lemma sc_migrating_well_formed:
  "well_formed (im_state (sc_impl sc_migrating))" "commit_ready_alive (im_state (sc_impl sc_migrating))"
  by (simp_all add: well_formed_def maps_sorted_def ids_match_def keyed_def scenario_defs migrating_defs initial_state_def
      om_sorted_def om_find_def om_empty_def less_ident_def commit_ready_alive_def)

lemma sc_env_accepts: "store_accepts sc_env"
  by (simp add: store_accepts_def sc_env_def)

lemma sc_commit: "\<exists>m'. fst (commit_migration sc_env sc_migration_auth (sc_impl sc_migrating)) = Inr m'"
proof -
  have "phase_guard sc_migration_auth commit_status (begin_op (sc_impl sc_migrating)) =
      Inr (sc_migration, sc_virtual\<lparr> va_state := LC_Migrating, va_active_attachments := 0, va_migration := Ident 9 \<rparr>)"
    by code_simp
  then show ?thesis
    by (auto simp: commit_migration_def Let_def split_beta accept_result store_accepts_commit sc_env_accepts)
qed

theorem commit_moves_authority_witness:
  "\<exists>m' a. om_find (st_migrations (im_state (snd (commit_migration sc_env sc_migration_auth (sc_impl sc_migrating)))))
      (Ident 9) = Some m' \<and> mg_destination_authoritative m' \<and> \<not> mg_source_authoritative m' \<and>
    om_find (st_assignments (im_state (snd (commit_migration sc_env sc_migration_auth (sc_impl sc_migrating)))))
      (Ident 6) = Some a \<and> \<not> as_authoritative a"
proof -
  obtain m' where "fst (commit_migration sc_env sc_migration_auth (sc_impl sc_migrating)) = Inr m'"
    using sc_commit by blast
  note r = commit_moves_authority [OF sc_migrating_well_formed this]
  have 1: "auth_migration sc_migration_auth = Some (Ident 9)" by (simp add: sc_migration_auth_def)
  have 2: "om_find (st_migrations (im_state (sc_impl sc_migrating))) (Ident 9) = Some sc_migration"
    "mg_source_assignment sc_migration = Ident 6" "mg_destination_assignment sc_migration = Ident 7"
    by (simp_all add: sc_impl_def migrating_defs om_find_def)
  from r 1 2 show ?thesis by (auto simp: Let_def)
qed

section \<open>Recovery\<close>

text \<open>A durable state that still shows an attachment of the process that died.\<close>

definition sc_durable :: vstate where
  "sc_durable = initial_state\<lparr> st_next_sequence := 20, st_epoch := gen_initial, st_policy := sc_policy,
     st_policy_generation := gen_initial, st_tenants := [(Ident 1, sc_tenant)],
     st_virtuals := [(Ident 5, blank_virtual\<lparr> va_id := Ident 5, va_generation := Generation 7, va_owner := Ident 1,
       va_state := LC_Provisioned, va_active_attachments := 1, va_leases := [Ident 8] \<rparr>)],
     st_leases := [(Ident 8, sc_lease)] \<rparr>"

definition sc_store :: "vstate \<Rightarrow> durable_store" where
  "sc_store s = \<lparr> ds_open = SC_Ok, ds_present = True, ds_load = Inr s, ds_apply = (\<lambda>_ _. SC_Ok),
     ds_compact = (\<lambda>_. SC_Ok), ds_close = SC_Ok \<rparr>"

definition sc_boot_env :: env where
  "sc_boot_env = sc_env\<lparr> env_store := Some (sc_store sc_durable) \<rparr>"

definition sc_stopped :: impl where
  "sc_stopped = (sc_impl initial_state)\<lparr> im_running := False \<rparr>"

lemma sc_boot:
  "\<not> im_running sc_stopped" "env_store sc_boot_env = Some (sc_store sc_durable)"
  "ds_present (sc_store sc_durable)" "ds_load (sc_store sc_durable) = Inr sc_durable"
  "well_formed sc_durable" "gen_valid (st_epoch sc_durable)" "fst (start sc_boot_env sc_stopped) = Inr ()"
proof -
  show "fst (start sc_boot_env sc_stopped) = Inr ()" by code_simp
qed (simp_all add: sc_stopped_def sc_boot_env_def sc_store_def sc_durable_def well_formed_def maps_sorted_def
      ids_match_def keyed_def scenario_defs initial_state_def om_sorted_def om_find_def om_empty_def gen_initial_def
      gen_valid_def)

theorem restart_ends_authority_witness:
  "st_epoch (im_state (snd (start sc_boot_env sc_stopped))) = Generation 2 \<and>
   quiescent (im_state (snd (start sc_boot_env sc_stopped)))"
proof -
  have "gen_next (st_epoch sc_durable) = Generation 2"
    by (simp add: sc_durable_def gen_initial_def gen_next_def)
  with restart_ends_authority [OF sc_boot] show ?thesis by (simp add: Let_def)
qed

theorem restart_passes_authority_audit_witness:
  "INV_LeaseGenerationBound \<notin>
    iv_code ` set (ar_violations (run_invariant_audit (\<lambda>_. 0) (im_state (snd (start sc_boot_env sc_stopped)))))"
  using restart_passes_authority_audit [OF sc_boot, of "\<lambda>_. 0"] by blast

section \<open>What is disclosed\<close>


theorem isolation_explanation_complete_witness:
  "\<exists>x. explain_isolation (Ident 5) (sc_impl sc_running) = Inr x \<and> map ic_dimension (ix_claims x) = all_isolation_dimensions"
proof -
  have "om_find (st_virtuals (im_state (sc_impl sc_running))) (Ident 5) = Some sc_virtual"
    by (simp add: sc_impl_def sc_running_def om_find_def)
  then obtain x where "explain_isolation (Ident 5) (sc_impl sc_running) = Inr x"
    by (auto simp: explain_isolation_def Let_def split_beta)
  with isolation_explanation_complete [OF this] show ?thesis by blast
qed


end
