(* ===== verification/AV_Protocol.thy ===== *)
theory AV_Protocol
  imports AV_Buffer AV_Hash
begin

text \<open>
  The control protocol (\<open>src/protocol.cpp\<close>, \<open>include/av/protocol.hpp\<close>): message types and roles, the framing of a
  message with length and CRC-32C, the streaming frame decoder, the canonical field map and the error payload.

  A message type is its 16-bit number, as it comes from the wire; most numbers are not types. Reading a field may run past
  the end of its payload in the C++ code; such an access is the outcome \<open>FA_Overrun\<close> of the model.

  Proved: requests are paired with their acknowledgements; a frame is read back; a stream of frames is reassembled however it
  was cut into chunks; a field map reads back what was last written under each key; and for which payloads an
  accessor overruns.
\<close>

section \<open>Messages and roles\<close>

record message_info =
  mi_type :: u16
  mi_name :: string
  mi_response :: bool
  mi_agent_directed :: bool

definition message_entry :: "u16 \<Rightarrow> string \<Rightarrow> bool \<Rightarrow> bool \<Rightarrow> message_info" where
  "message_entry t name response directed =
    \<lparr> mi_type = t, mi_name = name, mi_response = response, mi_agent_directed = directed \<rparr>"

definition kMessages :: "message_info list" where
  "kMessages =
    [
     message_entry 0 ''INVALID'' False False,
     message_entry 1 ''HELLO'' False False,
     message_entry 2 ''HELLO_ACK'' True False,
     message_entry 3 ''GOODBYE'' False False,
     message_entry 10 ''REGISTER_PHYSICAL'' False True,
     message_entry 11 ''REGISTER_PHYSICAL_ACK'' True True,
     message_entry 12 ''REFRESH_PHYSICAL'' False True,
     message_entry 13 ''REFRESH_PHYSICAL_ACK'' True True,
     message_entry 14 ''LIST_PHYSICAL'' False False,
     message_entry 15 ''LIST_PHYSICAL_ACK'' True False,
     message_entry 18 ''PHYSICAL_LOST'' False True,
     message_entry 19 ''PHYSICAL_LOST_ACK'' True True,
     message_entry 20 ''CREATE_TENANT'' False False,
     message_entry 21 ''CREATE_TENANT_ACK'' True False,
     message_entry 22 ''LIST_TENANTS'' False False,
     message_entry 23 ''LIST_TENANTS_ACK'' True False,
     message_entry 24 ''FENCE_TENANT'' False False,
     message_entry 25 ''FENCE_TENANT_ACK'' True False,
     message_entry 26 ''TRANSFER_OWNERSHIP'' False False,
     message_entry 27 ''TRANSFER_OWNERSHIP_ACK'' True False,
     message_entry 30 ''CREATE_VIRTUAL'' False False,
     message_entry 31 ''CREATE_VIRTUAL_ACK'' True False,
     message_entry 32 ''UPDATE_CONTRACT'' False False,
     message_entry 33 ''UPDATE_CONTRACT_ACK'' True False,
     message_entry 34 ''ASSIGN_BACKING'' False False,
     message_entry 35 ''ASSIGN_BACKING_ACK'' True False,
     message_entry 36 ''REPLACE_BACKING'' False False,
     message_entry 37 ''REPLACE_BACKING_ACK'' True False,
     message_entry 38 ''RETIRE_VIRTUAL'' False False,
     message_entry 39 ''RETIRE_VIRTUAL_ACK'' True False,
     message_entry 40 ''FENCE_VIRTUAL'' False False,
     message_entry 41 ''FENCE_VIRTUAL_ACK'' True False,
     message_entry 42 ''ACTIVATE_VIRTUAL'' False False,
     message_entry 43 ''ACTIVATE_VIRTUAL_ACK'' True False,
     message_entry 44 ''SUSPEND_VIRTUAL'' False False,
     message_entry 45 ''SUSPEND_VIRTUAL_ACK'' True False,
     message_entry 46 ''RESUME_VIRTUAL'' False False,
     message_entry 47 ''RESUME_VIRTUAL_ACK'' True False,
     message_entry 48 ''DRAIN_VIRTUAL'' False False,
     message_entry 49 ''DRAIN_VIRTUAL_ACK'' True False,
     message_entry 50 ''ATTACH'' False False,
     message_entry 51 ''ATTACH_ACK'' True False,
     message_entry 52 ''DETACH'' False False,
     message_entry 53 ''DETACH_ACK'' True False,
     message_entry 54 ''RENEW_LEASE'' False False,
     message_entry 55 ''RENEW_LEASE_ACK'' True False,
     message_entry 56 ''REVOKE'' False False,
     message_entry 57 ''REVOKE_ACK'' True False,
     message_entry 60 ''QUERY'' False False,
     message_entry 61 ''QUERY_ACK'' True False,
     message_entry 62 ''LIST_VIRTUAL'' False False,
     message_entry 63 ''LIST_VIRTUAL_ACK'' True False,
     message_entry 64 ''LIST_BACKINGS'' False False,
     message_entry 65 ''LIST_BACKINGS_ACK'' True False,
     message_entry 66 ''CAPABILITY_SHOW'' False False,
     message_entry 67 ''CAPABILITY_SHOW_ACK'' True False,
     message_entry 68 ''CONTRACT_SHOW'' False False,
     message_entry 69 ''CONTRACT_SHOW_ACK'' True False,
     message_entry 70 ''ISOLATION_EXPLAIN'' False False,
     message_entry 71 ''ISOLATION_EXPLAIN_ACK'' True False,
     message_entry 72 ''MIGRATION_EXPLAIN'' False False,
     message_entry 73 ''MIGRATION_EXPLAIN_ACK'' True False,
     message_entry 74 ''EXPLAIN_DECISIONS'' False False,
     message_entry 75 ''EXPLAIN_DECISIONS_ACK'' True False,
     message_entry 76 ''SET_POLICY'' False False,
     message_entry 77 ''SET_POLICY_ACK'' True False,
     message_entry 78 ''GET_POLICY'' False False,
     message_entry 79 ''GET_POLICY_ACK'' True False,
     message_entry 80 ''MIGRATION_PLAN'' False False,
     message_entry 81 ''MIGRATION_PLAN_ACK'' True False,
     message_entry 82 ''MIGRATION_PREPARE'' False False,
     message_entry 83 ''MIGRATION_PREPARE_ACK'' True False,
     message_entry 84 ''MIGRATION_COMMIT'' False False,
     message_entry 85 ''MIGRATION_COMMIT_ACK'' True False,
     message_entry 86 ''MIGRATION_COMPLETE'' False False,
     message_entry 87 ''MIGRATION_COMPLETE_ACK'' True False,
     message_entry 88 ''MIGRATION_ABORT'' False False,
     message_entry 89 ''MIGRATION_ABORT_ACK'' True False,
     message_entry 90 ''AUDIT'' False False,
     message_entry 91 ''AUDIT_ACK'' True False,
     message_entry 92 ''SNAPSHOT'' False False,
     message_entry 93 ''SNAPSHOT_ACK'' True False,
     message_entry 94 ''ACCOUNTING'' False False,
     message_entry 95 ''ACCOUNTING_ACK'' True False,
     message_entry 96 ''SHUTDOWN'' False False,
     message_entry 97 ''SHUTDOWN_ACK'' True False,
     message_entry 110 ''AGENT_EXECUTE'' False True,
     message_entry 111 ''AGENT_EXECUTE_ACK'' True True,
     message_entry 114 ''HEARTBEAT'' False True,
     message_entry 115 ''HEARTBEAT_ACK'' True True,
     message_entry 120 ''EXECUTE'' False False,
     message_entry 121 ''EXECUTE_ACK'' True False,
     message_entry 122 ''RESOLVE_RECOVERY'' False False,
     message_entry 123 ''RESOLVE_RECOVERY_ACK'' True False,
     message_entry 200 ''ERROR'' True False
    ]"

definition MT_Error :: u16 where
  "MT_Error = 200"

definition find_message :: "u16 \<Rightarrow> message_info option" where
  "find_message t = find (\<lambda>i. mi_type i = t) kMessages"

definition message_name :: "u16 \<Rightarrow> string" where
  "message_name t = (case find_message t of None \<Rightarrow> ''UNRECOGNIZED'' | Some i \<Rightarrow> mi_name i)"

definition parse_message_name :: "string \<Rightarrow> u16 option" where
  "parse_message_name text = map_option mi_type (find (\<lambda>i. mi_name i = text) kMessages)"

definition message_is_agent_directed :: "u16 \<Rightarrow> bool" where
  "message_is_agent_directed t = (case find_message t of None \<Rightarrow> False | Some i \<Rightarrow> mi_agent_directed i)"

definition is_response :: "u16 \<Rightarrow> bool" where
  "is_response t = (case find_message t of None \<Rightarrow> False | Some i \<Rightarrow> mi_response i)"

definition response_for :: "u16 \<Rightarrow> u16" where
  "response_for request =
    (if is_response request then MT_Error
     else let next = request + 1 in
       if message_is_agent_directed next = message_is_agent_directed request \<and> message_name next \<noteq> ''UNRECOGNIZED''
       then next else MT_Error)"

datatype role = Role_Unknown | Role_Client | Role_Agent | Role_Observer

definition role_names :: "(role \<times> string) list" where
  "role_names = [(Role_Unknown, ''UNKNOWN''), (Role_Client, ''CLIENT''), (Role_Agent, ''AGENT''), (Role_Observer, ''OBSERVER'')]"

interpretation role_text: name_table role_names
proof
  show "v \<in> fst ` set role_names" for v by (cases v) (simp_all add: role_names_def)
qed (simp_all add: role_names_def)

definition role_name :: "role \<Rightarrow> string" where
  "role_name = table_name role_names ''UNKNOWN''"

definition parse_role :: "string \<Rightarrow> role option" where
  "parse_role = table_parse role_names"

section \<open>Frames\<close>

definition kFrameMagic :: u32 where "kFrameMagic = 0x31465641"
definition kFrameHeaderSize :: nat where "kFrameHeaderSize = 28"
definition kMaxFramePayload :: u32 where "kMaxFramePayload = 8 * 1024 * 1024"
definition kDefaultMaxFramePayload :: u32 where "kDefaultMaxFramePayload = 1024 * 1024"
definition protocol_version :: u16 where "protocol_version = 1"

definition kFlagResponse :: u32 where "kFlagResponse = 1"
definition kFlagError :: u32 where "kFlagError = 2"
definition kFlagAgentDirected :: u32 where "kFlagAgentDirected = 4"
definition kFlagShutdown :: u32 where "kFlagShutdown = 8"
definition kFlagReplay :: u32 where "kFlagReplay = 16"

record frame_header =
  fh_magic :: u32
  fh_version :: u16
  fh_type :: u16
  fh_flags :: u32
  fh_request :: u64
  fh_payload_length :: u32
  fh_payload_crc :: u32

definition blank_header :: frame_header where
  "blank_header = \<lparr> fh_magic = kFrameMagic, fh_version = protocol_version, fh_type = 0, fh_flags = 0, fh_request = 0,
     fh_payload_length = 0, fh_payload_crc = 0 \<rparr>"

definition encode_frame :: "frame_header \<Rightarrow> bytes \<Rightarrow> bytes" where
  "encode_frame h payload =
    enc_u32 (fh_magic h) @ enc_u16 (fh_version h) @ enc_u16 (fh_type h) @ enc_u32 (fh_flags h) @ enc_u64 (fh_request h) @
    enc_u32 (of_nat (length payload)) @ enc_u32 (crc32c payload) @ payload"

text \<open>The seven \<open>get_\<close> calls on a buffer that holds a header.\<close>

definition read_header :: "bytes \<Rightarrow> frame_header" where
  "read_header bs =
    \<lparr> fh_magic = get_u32 bs 0, fh_version = get_u16 bs 4, fh_type = get_u16 bs 6, fh_flags = get_u32 bs 8,
      fh_request = get_u64 bs 12, fh_payload_length = get_u32 bs 20, fh_payload_crc = get_u32 bs 24 \<rparr>"

definition decode_frame :: "bytes \<Rightarrow> (frame_header \<times> bytes) result" where
  "decode_frame bs =
    (if length bs < kFrameHeaderSize then Inl SC_TruncatedState
     else let h = read_header bs in
       if fh_magic h \<noteq> kFrameMagic then Inl SC_MalformedFrame
       else if length bs - kFrameHeaderSize \<noteq> unat (fh_payload_length h) then Inl SC_MalformedFrame
       else let payload = drop kFrameHeaderSize bs in
         if crc32c payload \<noteq> fh_payload_crc h then Inl SC_IntegrityFailure else Inr (h, payload))"

section \<open>The frame stream\<close>

type_synonym frame = "frame_header \<times> bytes"

record frame_stream =
  sm_buffer :: bytes
  sm_consumed :: nat
  sm_max_payload :: u32

definition make_stream :: "u32 \<Rightarrow> frame_stream" where
  "make_stream max_payload = \<lparr> sm_buffer = [], sm_consumed = 0, sm_max_payload = max_payload \<rparr>"

definition buffered :: "frame_stream \<Rightarrow> nat" where
  "buffered st = length (sm_buffer st) - sm_consumed st"

definition compact_stream :: "frame_stream \<Rightarrow> frame_stream" where
  "compact_stream st =
    (if sm_consumed st = 0 then st
     else if sm_consumed st \<ge> length (sm_buffer st) then st\<lparr> sm_buffer := [], sm_consumed := 0 \<rparr>
     else st\<lparr> sm_buffer := drop (sm_consumed st) (sm_buffer st), sm_consumed := 0 \<rparr>)"

definition reset_stream :: "frame_stream \<Rightarrow> frame_stream" where
  "reset_stream st = st\<lparr> sm_buffer := [], sm_consumed := 0 \<rparr>"

text \<open>One turn of the loop per frame. The view is the unread part of the buffer.\<close>

function feed_loop :: "frame_stream \<Rightarrow> frame list \<Rightarrow> status_code \<times> frame_stream \<times> frame list" where
  "feed_loop st out =
    (let view = drop (sm_consumed st) (sm_buffer st); h = read_header view; n = unat (fh_payload_length h) in
     if length view < kFrameHeaderSize then (SC_Ok, compact_stream st, out)
     else if fh_magic h \<noteq> kFrameMagic then (SC_MalformedFrame, st, out)
     else if fh_version h \<noteq> protocol_version then (SC_VersionMismatch, st, out)
     else if fh_payload_length h > sm_max_payload st then (SC_FrameTooLarge, st, out)
     else if length view < kFrameHeaderSize + n then (SC_Ok, compact_stream st, out)
     else let payload = take n (drop kFrameHeaderSize view) in
       if crc32c payload \<noteq> fh_payload_crc h then (SC_IntegrityFailure, st, out)
       else feed_loop (st\<lparr> sm_consumed := sm_consumed st + kFrameHeaderSize + n \<rparr>) (out @ [(h, payload)]))"
  by pat_completeness auto
termination
  by (relation "measure (\<lambda>(st, out). length (sm_buffer st) - sm_consumed st)") (auto simp: kFrameHeaderSize_def)

declare feed_loop.simps [simp del]

definition feed :: "frame_stream \<Rightarrow> bytes \<Rightarrow> frame list \<Rightarrow> status_code \<times> frame_stream \<times> frame list" where
  "feed st chunk out =
    (if buffered st + length chunk > unat (sm_max_payload st) + kFrameHeaderSize then (SC_FrameTooLarge, st, out)
     else feed_loop (st\<lparr> sm_buffer := sm_buffer st @ chunk \<rparr>) out)"

section \<open>The field map\<close>

datatype field_type = FT_U64 | FT_I64 | FT_Bool | FT_Str | FT_Bytes | FT_ListU64 | FT_ListStr | FT_ListNested

definition field_types :: "field_type list" where
  "field_types = [FT_U64, FT_I64, FT_Bool, FT_Str, FT_Bytes, FT_ListU64, FT_ListStr, FT_ListNested]"

primrec field_type_value :: "field_type \<Rightarrow> u8" where
  "field_type_value FT_U64 = 1"
| "field_type_value FT_I64 = 2"
| "field_type_value FT_Bool = 3"
| "field_type_value FT_Str = 4"
| "field_type_value FT_Bytes = 5"
| "field_type_value FT_ListU64 = 6"
| "field_type_value FT_ListStr = 7"
| "field_type_value FT_ListNested = 8"

definition kFieldStatus :: u16 where "kFieldStatus = 1"
definition kFieldDetail :: u16 where "kFieldDetail = 74"

type_synonym field_entry = "u16 \<times> field_type \<times> bytes"

subsection \<open>Writing\<close>

fun store_field :: "field_entry list \<Rightarrow> u16 \<Rightarrow> field_type \<Rightarrow> bytes \<Rightarrow> field_entry list" where
  "store_field [] key type payload = [(key, type, payload)]"
| "store_field (e # es) key type payload =
    (if fst e \<noteq> key then e # store_field es key type payload else (key, type, payload) # es)"

text \<open>A string or byte string with its 32-bit length in front, without a check that the length fits.\<close>

definition counted :: "bytes \<Rightarrow> bytes" where
  "counted bs = enc_u32 (of_nat (length bs)) @ bs"

definition writer_u64 :: "u16 \<Rightarrow> u64 \<Rightarrow> field_entry list \<Rightarrow> field_entry list" where
  "writer_u64 key v es = store_field es key FT_U64 (enc_u64 v)"

definition writer_i64 :: "u16 \<Rightarrow> int \<Rightarrow> field_entry list \<Rightarrow> field_entry list" where
  "writer_i64 key v es = store_field es key FT_I64 (enc_u64 (of_int v))"

definition writer_boolean :: "u16 \<Rightarrow> bool \<Rightarrow> field_entry list \<Rightarrow> field_entry list" where
  "writer_boolean key v es = store_field es key FT_Bool [if v then 1 else 0]"

definition writer_str :: "u16 \<Rightarrow> string \<Rightarrow> field_entry list \<Rightarrow> field_entry list" where
  "writer_str key v es = store_field es key FT_Str (counted (map char_byte v))"

definition writer_bytes :: "u16 \<Rightarrow> bytes \<Rightarrow> field_entry list \<Rightarrow> field_entry list" where
  "writer_bytes key v es = store_field es key FT_Bytes (counted v)"

definition writer_list_u64 :: "u16 \<Rightarrow> u64 list \<Rightarrow> field_entry list \<Rightarrow> field_entry list" where
  "writer_list_u64 key vs es = store_field es key FT_ListU64 (enc_u32 (of_nat (length vs)) @ concat (map enc_u64 vs))"

definition writer_list_str :: "u16 \<Rightarrow> string list \<Rightarrow> field_entry list \<Rightarrow> field_entry list" where
  "writer_list_str key vs es =
    store_field es key FT_ListStr (enc_u32 (of_nat (length vs)) @ concat (map (\<lambda>v. counted (map char_byte v)) vs))"

definition writer_nested_list :: "u16 \<Rightarrow> bytes list \<Rightarrow> field_entry list \<Rightarrow> field_entry list" where
  "writer_nested_list key vs es =
    store_field es key FT_ListNested (enc_u32 (of_nat (length vs)) @ concat (map counted vs))"

definition writer_has :: "u16 \<Rightarrow> field_entry list \<Rightarrow> bool" where
  "writer_has key es = list_ex (\<lambda>e. fst e = key) es"

definition enc_field :: "field_entry \<Rightarrow> bytes" where
  "enc_field e = enc_u16 (fst e) @ enc_u8 (field_type_value (fst (snd e))) @ enc_raw (snd (snd e))"

definition writer_take :: "field_entry list \<Rightarrow> bytes" where
  "writer_take es = enc_list enc_field (sort_key fst es)"

subsection \<open>Reading\<close>

type_synonym field_map = "(u16, field_type \<times> bytes) omap"

definition dec_field :: "decoder \<Rightarrow> (field_entry \<times> decoder) result" where
  "dec_field d =
    (case dec_u16 d of Inl e \<Rightarrow> Inl e
     | Inr (key, d1) \<Rightarrow>
       (case dec_u8 d1 of Inl e \<Rightarrow> Inl e
        | Inr (type, d2) \<Rightarrow>
          if type < field_type_value FT_U64 \<or> type > field_type_value FT_ListNested then Inl SC_MalformedFrame
          else (case raw_field d2 of Inl e \<Rightarrow> Inl e
            | Inr (payload, d3) \<Rightarrow> Inr ((key, field_types ! (unat type - 1), payload), d3))))"

primrec read_fields :: "nat \<Rightarrow> decoder \<Rightarrow> field_map \<Rightarrow> (field_map \<times> decoder) result" where
  "read_fields 0 d fm = Inr (fm, d)"
| "read_fields (Suc n) d fm =
    (case dec_field d of Inl e \<Rightarrow> Inl e
     | Inr ((key, entry), d') \<Rightarrow>
       if om_contains fm key then Inl SC_ProtocolViolation
       else read_fields n d' (om_put key entry fm))"

definition reader_create :: "bytes \<Rightarrow> decode_limits \<Rightarrow> field_map result" where
  "reader_create bs lim =
    (case list_header 1024 (decoder_of bs lim) of Inl e \<Rightarrow> Inl e
     | Inr (count, d) \<Rightarrow>
       (case read_fields count d om_empty of Inl e \<Rightarrow> Inl e
        | Inr (fm, d') \<Rightarrow>
          let end_status = require_end (depth_leave d') in
          if end_status \<noteq> SC_Ok then Inl end_status else Inr fm))"

definition reader_has :: "field_map \<Rightarrow> u16 \<Rightarrow> bool" where
  "reader_has fm key = om_contains fm key"

definition reader_keys :: "field_map \<Rightarrow> u16 list" where
  "reader_keys fm = map fst fm"

text \<open>The outcome of an accessor: nothing under the key or of another type, a value, or a read past the payload.\<close>

datatype 'a field_access = FA_Absent | FA_Value 'a | FA_Overrun

definition typed_field :: "field_type \<Rightarrow> (bytes \<Rightarrow> 'a field_access) \<Rightarrow> field_map \<Rightarrow> u16 \<Rightarrow> 'a field_access" where
  "typed_field type access fm key =
    (case om_find fm key of None \<Rightarrow> FA_Absent
     | Some (t, payload) \<Rightarrow> if t \<noteq> type then FA_Absent else access payload)"

definition reader_u64 :: "field_map \<Rightarrow> u16 \<Rightarrow> u64 field_access" where
  "reader_u64 = typed_field FT_U64 (\<lambda>p. FA_Value (get_u64 p 0))"

definition reader_i64 :: "field_map \<Rightarrow> u16 \<Rightarrow> int field_access" where
  "reader_i64 = typed_field FT_I64 (\<lambda>p. FA_Value (sint (get_u64 p 0)))"

definition reader_boolean :: "field_map \<Rightarrow> u16 \<Rightarrow> bool field_access" where
  "reader_boolean = typed_field FT_Bool (\<lambda>p. if p = [] then FA_Overrun else FA_Value (p ! 0 \<noteq> 0))"

text \<open>\<open>if (length + 4u > payload.size()) return nullopt;\<close>: the sum is taken in 32 bits.\<close>

definition counted_access :: "bytes \<Rightarrow> bytes field_access" where
  "counted_access p =
    (let n = get_u32 p 0 in
     if unat (n + 4) > length p then FA_Absent
     else if 4 + unat n > length p then FA_Overrun
     else FA_Value (take (unat n) (drop 4 p)))"

primrec map_access :: "('a \<Rightarrow> 'b) \<Rightarrow> 'a field_access \<Rightarrow> 'b field_access" where
  "map_access f FA_Absent = FA_Absent"
| "map_access f (FA_Value v) = FA_Value (f v)"
| "map_access f FA_Overrun = FA_Overrun"

definition reader_str :: "field_map \<Rightarrow> u16 \<Rightarrow> string field_access" where
  "reader_str = typed_field FT_Str (\<lambda>p. map_access (map byte_char) (counted_access p))"

definition reader_bytes :: "field_map \<Rightarrow> u16 \<Rightarrow> bytes field_access" where
  "reader_bytes = typed_field FT_Bytes counted_access"

definition reader_list_u64 :: "field_map \<Rightarrow> u16 \<Rightarrow> u64 list field_access" where
  "reader_list_u64 = typed_field FT_ListU64 (\<lambda>p. let count = get_u32 p 0 in
     if unat count * 8 + 4 \<noteq> length p then FA_Absent
     else FA_Value (map (\<lambda>i. get_u64 p (4 + i * 8)) [0..<unat count]))"

text \<open>Counted items from an offset: those that are complete, and where the loop stopped.\<close>

primrec counted_items :: "nat \<Rightarrow> nat \<Rightarrow> bytes \<Rightarrow> bytes list \<times> nat option" where
  "counted_items 0 offset p = ([], Some offset)"
| "counted_items (Suc n) offset p =
    (if offset + 4 > length p then ([], None)
     else let m = unat (get_u32 p offset) in
       if offset + 4 + m > length p then ([], None)
       else let r = counted_items n (offset + 4 + m) p in (take m (drop (offset + 4) p) # fst r, snd r))"

definition reader_list_str :: "field_map \<Rightarrow> u16 \<Rightarrow> string list field_access" where
  "reader_list_str = typed_field FT_ListStr (\<lambda>p. case counted_items (unat (get_u32 p 0)) 4 p of
     (items, stop) \<Rightarrow> if stop = Some (length p) then FA_Value (map (map byte_char) items) else FA_Absent)"

definition reader_nested_list :: "field_map \<Rightarrow> u16 \<Rightarrow> field_map result list" where
  "reader_nested_list fm key =
    (case typed_field FT_ListNested FA_Value fm key of
       FA_Value p \<Rightarrow> map (\<lambda>item. reader_create item default_limits) (fst (counted_items (unat (get_u32 p 0)) 4 p))
     | _ \<Rightarrow> [])"

definition require_field :: "'a field_access \<Rightarrow> 'a result field_access" where
  "require_field a = (case a of FA_Absent \<Rightarrow> FA_Value (Inl SC_ProtocolViolation) | FA_Value v \<Rightarrow> FA_Value (Inr v)
     | FA_Overrun \<Rightarrow> FA_Overrun)"

definition require_u64 :: "field_map \<Rightarrow> u16 \<Rightarrow> u64 result field_access" where
  "require_u64 fm key = require_field (reader_u64 fm key)"

definition require_i64 :: "field_map \<Rightarrow> u16 \<Rightarrow> int result field_access" where
  "require_i64 fm key = require_field (reader_i64 fm key)"

definition require_bool :: "field_map \<Rightarrow> u16 \<Rightarrow> bool result field_access" where
  "require_bool fm key = require_field (reader_boolean fm key)"

definition require_str :: "field_map \<Rightarrow> u16 \<Rightarrow> string result field_access" where
  "require_str fm key = require_field (reader_str fm key)"

definition require_bytes :: "field_map \<Rightarrow> u16 \<Rightarrow> bytes result field_access" where
  "require_bytes fm key = require_field (reader_bytes fm key)"

section \<open>Error payloads\<close>

definition encode_error_payload :: "status_code \<Rightarrow> string \<Rightarrow> bytes" where
  "encode_error_payload code detail = writer_take (writer_str kFieldDetail detail (writer_u64 kFieldStatus (ucast (code_value code)) []))"

text \<open>The number is cast to a \<open>StatusCode\<close> (32 bits) without a check.\<close>

definition decode_error_payload :: "bytes \<Rightarrow> (u32 \<times> string) result field_access" where
  "decode_error_payload bs =
    (case reader_create bs default_limits of Inl e \<Rightarrow> FA_Value (Inl e)
     | Inr fm \<Rightarrow>
       (case require_u64 fm kFieldStatus of
          FA_Value (Inr code) \<Rightarrow>
            (case reader_str fm kFieldDetail of
               FA_Value detail \<Rightarrow> FA_Value (Inr (ucast code, detail))
             | FA_Absent \<Rightarrow> FA_Value (Inr (ucast code, []))
             | FA_Overrun \<Rightarrow> FA_Overrun)
        | FA_Value (Inl e) \<Rightarrow> FA_Value (Inl e)
        | FA_Absent \<Rightarrow> FA_Absent
        | FA_Overrun \<Rightarrow> FA_Overrun))"

section \<open>A frame is read back\<close>

text \<open>The header as it was sent: length and checksum are those of the payload.\<close>

definition sealed :: "frame \<Rightarrow> frame" where
  "sealed f = ((fst f)\<lparr> fh_payload_length := of_nat (length (snd f)), fh_payload_crc := crc32c (snd f) \<rparr>, snd f)"

definition frame_bytes :: "frame \<Rightarrow> bytes" where
  "frame_bytes f = encode_frame (fst f) (snd f)"

definition sendable :: "u32 \<Rightarrow> frame \<Rightarrow> bool" where
  "sendable max_payload f \<longleftrightarrow> fh_magic (fst f) = kFrameMagic \<and> fh_version (fst f) = protocol_version \<and>
    length (snd f) \<le> unat max_payload"

lemma length_frame_bytes: "length (frame_bytes f) = kFrameHeaderSize + length (snd f)"
  by (simp add: frame_bytes_def encode_frame_def kFrameHeaderSize_def)

lemma read_header_frame: "read_header (frame_bytes f @ rest) = fst (sealed f)"
  by (simp add: read_header_def frame_bytes_def encode_frame_def sealed_def)

lemma drop_frame_header: "drop kFrameHeaderSize (frame_bytes f @ rest) = snd f @ rest"
  "drop kFrameHeaderSize (frame_bytes f) = snd f"
  by (simp_all add: frame_bytes_def encode_frame_def kFrameHeaderSize_def)

lemma sendable_length: "sendable m f \<Longrightarrow> unat (of_nat (length (snd f)) :: u32) = length (snd f)"
  using unat_u32_less [of m] by (auto simp: sendable_def unsigned_of_nat take_bit_nat_eq_self)

lemma frame_roundtrip: "sendable m f \<Longrightarrow> decode_frame (frame_bytes f) = Inr (sealed f)"
  using read_header_frame [of f "[]"] sendable_length [of m f]
  by (simp add: decode_frame_def length_frame_bytes drop_frame_header sealed_def sendable_def Let_def)

lemma read_header_take:
  assumes "kFrameHeaderSize \<le> n" and "kFrameHeaderSize \<le> length bs"
  shows "read_header (take n bs) = read_header bs"
  using assms by (simp add: read_header_def get_u16_def get_u32_def get_u64_def get_word_take kFrameHeaderSize_def)

section \<open>A stream is reassembled\<close>

definition unread :: "frame_stream \<Rightarrow> bytes" where
  "unread st = drop (sm_consumed st) (sm_buffer st)"

definition wire :: "frame list \<Rightarrow> bytes" where
  "wire fs = concat (map frame_bytes fs)"

text \<open>Too little for the next frame.\<close>

definition incomplete :: "bytes \<Rightarrow> frame list \<Rightarrow> bool" where
  "incomplete bs fs \<longleftrightarrow> bs = [] \<or> (\<exists>f gs. fs = f # gs \<and> length bs < length (frame_bytes f))"

lemma buffered_unread: "buffered st = length (unread st)"
  by (simp add: buffered_def unread_def)

lemma compact_frame [simp]: "unread (compact_stream st) = unread st" "sm_max_payload (compact_stream st) = sm_max_payload st"
  "sm_consumed (compact_stream st) = 0"
  by (simp_all add: compact_stream_def unread_def)

lemma feed_loop_short:
  assumes "unread st @ rest = frame_bytes f" and "length (unread st) < length (frame_bytes f)" and "sendable (sm_max_payload st) f"
  shows "feed_loop st out = (SC_Ok, compact_stream st, out)"
proof (cases "length (unread st) < kFrameHeaderSize")
  case True
  then show ?thesis by (subst feed_loop.simps) (simp add: unread_def Let_def)
next
  case False
  have "unread st = take (length (unread st)) (frame_bytes f)" using assms(1) by (metis append_eq_conv_conj)
  then have h: "read_header (unread st) = fst (sealed f)"
    using read_header_take [of "length (unread st)" "frame_bytes f"] read_header_frame [of f "[]"] False
    by (simp add: length_frame_bytes)
  have "of_nat (length (snd f)) \<le> sm_max_payload st"
    using assms(3) sendable_length [OF assms(3)] by (simp add: word_le_nat_alt sendable_def)
  then show ?thesis
    using False h assms(2,3) sendable_length [OF assms(3)]
    by (subst feed_loop.simps) (simp add: Let_def sealed_def sendable_def length_frame_bytes flip: unread_def)
qed

lemma feed_loop_frame:
  assumes "unread st = frame_bytes f @ rest" and "sendable (sm_max_payload st) f"
  shows "feed_loop st out = feed_loop (st\<lparr> sm_consumed := sm_consumed st + length (frame_bytes f) \<rparr>) (out @ [sealed f])"
proof -
  have "\<not> sm_max_payload st < of_nat (length (snd f))"
    using assms(2) sendable_length [OF assms(2)] by (simp add: word_less_nat_alt sendable_def)
  then show ?thesis
    using assms sendable_length [OF assms(2)]
    by (subst feed_loop.simps)
      (simp add: Let_def sealed_def sendable_def length_frame_bytes drop_frame_header read_header_frame add.assoc
        flip: unread_def)
qed

lemma feed_loop_prefix:
  assumes "unread st @ rest = wire fs" and "list_all (sendable (sm_max_payload st)) fs"
  shows "\<exists>got left st'. fs = got @ left \<and> feed_loop st out = (SC_Ok, st', out @ map sealed got) \<and>
    sm_max_payload st' = sm_max_payload st \<and> sm_consumed st' = 0 \<and> unread st' @ rest = wire left \<and> incomplete (unread st') left"
  using assms
proof (induction fs arbitrary: st out)
  case Nil
  then have "unread st = []" by (simp add: wire_def)
  then have "feed_loop st out = (SC_Ok, compact_stream st, out)"
    by (subst feed_loop.simps) (simp add: Let_def kFrameHeaderSize_def flip: unread_def)
  then show ?case using Nil \<open>unread st = []\<close> by (auto simp: incomplete_def)
next
  case (Cons f fs)
  have w: "wire (f # fs) = frame_bytes f @ wire fs" by (simp add: wire_def)
  have s: "sendable (sm_max_payload st) f" using Cons.prems(2) by simp
  show ?case
  proof (cases "length (frame_bytes f) \<le> length (unread st)")
    case True
    then obtain u where u: "unread st = frame_bytes f @ u" "u @ rest = wire fs"
      using Cons.prems(1) unfolding w by (metis append_eq_append_conv_if append_eq_conv_conj append_take_drop_id)
    let ?st = "st\<lparr> sm_consumed := sm_consumed st + length (frame_bytes f) \<rparr>"
    have "unread ?st = drop (length (frame_bytes f)) (unread st)" by (simp add: unread_def add.commute)
    then have "unread ?st = u" by (simp add: u(1))
    then obtain got left st' where "fs = got @ left"
        "feed_loop ?st (out @ [sealed f]) = (SC_Ok, st', (out @ [sealed f]) @ map sealed got)"
        "sm_max_payload st' = sm_max_payload ?st" "sm_consumed st' = 0" "unread st' @ rest = wire left" "incomplete (unread st') left"
      using Cons.IH [of ?st "out @ [sealed f]"] u(2) Cons.prems(2) by auto
    then show ?thesis using feed_loop_frame [OF u(1) s]
      by (intro exI [of _ "f # got"] exI [of _ left] exI [of _ st']) simp
  next
    case False
    then obtain v where "unread st @ v = frame_bytes f"
      using Cons.prems(1) unfolding w by (metis append_eq_append_conv2 length_append le_add1)
    then have "feed_loop st out = (SC_Ok, compact_stream st, out)" using feed_loop_short False s by simp
    then show ?thesis using Cons.prems(1) False by (intro exI [of _ "[]"] exI [of _ "f # fs"]) (simp add: incomplete_def)
  qed
qed

fun feed_all :: "frame_stream \<Rightarrow> bytes list \<Rightarrow> frame list \<Rightarrow> status_code \<times> frame_stream \<times> frame list" where
  "feed_all st [] out = (SC_Ok, st, out)"
| "feed_all st (c # cs) out = (case feed st c out of (status, st', out') \<Rightarrow>
    if status \<noteq> SC_Ok then (status, st', out') else feed_all st' cs out')"

lemma feed_fits:
  assumes "unread st @ concat (c # cs) = wire fs" and "incomplete (unread st) fs"
    and "list_all (\<lambda>f. sendable (sm_max_payload st) f \<and> length (snd f) + n \<le> unat (sm_max_payload st) + 1) fs" and "length c \<le> n"
  shows "\<not> buffered st + length c > unat (sm_max_payload st) + kFrameHeaderSize"
proof (cases fs)
  case Nil
  then show ?thesis using assms(1) by (simp add: buffered_unread wire_def)
next
  case (Cons f gs)
  then have "length (snd f) + n \<le> unat (sm_max_payload st) + 1" "length (unread st) < kFrameHeaderSize + length (snd f)"
    using assms(2,3) by (auto simp: incomplete_def length_frame_bytes kFrameHeaderSize_def)
  then show ?thesis using assms(4) by (simp add: buffered_unread)
qed

lemma feed_all_reassembles:
  assumes "unread st @ concat cs = wire fs" and "incomplete (unread st) fs" and "sm_consumed st = 0"
    and "list_all (\<lambda>f. sendable (sm_max_payload st) f \<and> length (snd f) + n \<le> unat (sm_max_payload st) + 1) fs"
    and "list_all (\<lambda>c. length c \<le> n) cs"
  shows "\<exists>st'. feed_all st cs out = (SC_Ok, st', out @ map sealed fs) \<and> unread st' = []"
  using assms
proof (induction cs arbitrary: st fs out)
  case Nil
  have "fs = []"
  proof (cases fs)
    case (Cons f gs)
    then have "length (frame_bytes f) \<le> length (unread st)" using Nil(1) by (simp add: wire_def)
    then show ?thesis using Nil(2) Cons by (auto simp: incomplete_def length_frame_bytes kFrameHeaderSize_def)
  qed simp
  then show ?case using Nil by (simp add: wire_def)
next
  case (Cons c cs)
  let ?st = "st\<lparr> sm_buffer := sm_buffer st @ c \<rparr>"
  have sends: "list_all (sendable (sm_max_payload st)) fs" using Cons.prems(4) by (simp add: list_all_iff)
  have u: "unread ?st = unread st @ c" using Cons.prems(3) by (simp add: unread_def)
  obtain got left st' where p: "fs = got @ left" "feed_loop ?st out = (SC_Ok, st', out @ map sealed got)"
      "sm_max_payload st' = sm_max_payload st" "sm_consumed st' = 0" "unread st' @ concat cs = wire left" "incomplete (unread st') left"
    using feed_loop_prefix [of ?st "concat cs" fs out] Cons.prems(1) sends u by auto
  have "feed st c out = feed_loop ?st out"
    using feed_fits [OF Cons.prems(1,2,4)] Cons.prems(5) by (simp add: feed_def)
  moreover have "\<exists>st''. feed_all st' cs (out @ map sealed got) = (SC_Ok, st'', (out @ map sealed got) @ map sealed left) \<and> unread st'' = []"
    by (rule Cons.IH) (use p Cons.prems(4,5) in \<open>simp_all\<close>)
  ultimately show ?case using p(1,2) by simp
qed

text \<open>The stream decoder does not depend on how the bytes arrive. Whatever frames are sent one after the other, and
  however their bytes are cut into chunks of up to \<open>n\<close> bytes, feeding the chunks yields exactly these frames, in order,
  and leaves nothing behind; no chunk is refused as long as no payload leaves less room below the limit than \<open>n\<close>. With
  \<open>n = 1\<close> every payload up to the limit is received.\<close>

theorem stream_reassembles:
  assumes "concat cs = wire fs" and "list_all (\<lambda>c. length c \<le> n) cs"
    and "list_all (\<lambda>f. sendable m f \<and> length (snd f) + n \<le> unat m + 1) fs"
  shows "\<exists>st'. feed_all (make_stream m) cs [] = (SC_Ok, st', map sealed fs) \<and> unread st' = []"
  using feed_all_reassembles [of "make_stream m" cs fs n "[]"] assms
  by (simp add: make_stream_def unread_def incomplete_def)

section \<open>The message table\<close>

lemma kMessages_distinct: "distinct (map mi_type kMessages)" "distinct (map mi_name kMessages)"
  unfolding kMessages_def message_entry_def by simp_all

lemma find_distinct: "distinct (map f xs) \<Longrightarrow> x \<in> set xs \<Longrightarrow> find (\<lambda>y. f y = f x) xs = Some x"
  by (induction xs) auto

lemma find_entry:
  assumes "i \<in> set kMessages"
  shows "find_message (mi_type i) = Some i" "parse_message_name (mi_name i) = Some (mi_type i)"
  using assms kMessages_distinct by (simp_all add: find_message_def parse_message_name_def find_distinct)

lemma next_in_list: "i \<in> set xs \<Longrightarrow> i \<noteq> last xs \<Longrightarrow> \<exists>j. (i, j) \<in> set (zip xs (tl xs))"
proof (induction xs)
  case (Cons x xs)
  then show ?case by (cases xs) auto
qed simp

text \<open>In the table an acknowledgement follows its request.\<close>

lemma acknowledgement_follows:
  "list_all (\<lambda>(i, j). mi_response i \<or> mi_name i = ''INVALID'' \<or> mi_name i = ''GOODBYE'' \<or>
     mi_type j = mi_type i + 1 \<and> mi_name j = mi_name i @ ''_ACK'' \<and> mi_response j \<and> mi_agent_directed j = mi_agent_directed i)
   (zip kMessages (tl kMessages))"
  unfolding kMessages_def message_entry_def by simp

lemma kMessages_last: "mi_response (last kMessages)"
  unfolding kMessages_def message_entry_def by simp

lemma goodbye_unanswered: "i \<in> set kMessages \<Longrightarrow> mi_name i = ''GOODBYE'' \<Longrightarrow> response_for (mi_type i) = MT_Error"
proof -
  assume "i \<in> set kMessages" "mi_name i = ''GOODBYE''"
  then have "mi_type i = 3" unfolding kMessages_def message_entry_def by auto
  moreover have "find_message 4 = None" by (simp add: find_message_def kMessages_def message_entry_def)
  ultimately show ?thesis by (simp add: response_for_def message_is_agent_directed_def message_name_def Let_def)
qed

text \<open>Requests and acknowledgements are paired. Every request type other than INVALID and GOODBYE is answered by
  the type whose name is its own with \<open>_ACK\<close> behind it, which is a response for the same kind of peer; responses and
  GOODBYE are answered by ERROR; and every name is parsed to the type that prints as it.\<close>

theorem requests_are_paired:
  "list_all (\<lambda>i. let t = mi_type i; r = response_for t in
      parse_message_name (message_name t) = Some t \<and>
      (if mi_response i \<or> mi_name i = ''GOODBYE'' then r = MT_Error
       else mi_name i = ''INVALID'' \<or>
         message_name r = mi_name i @ ''_ACK'' \<and> is_response r \<and>
         message_is_agent_directed r = message_is_agent_directed t)) kMessages"
  unfolding list_all_iff
proof
  fix i assume i: "i \<in> set kMessages"
  show "let t = mi_type i; r = response_for t in parse_message_name (message_name t) = Some t \<and>
      (if mi_response i \<or> mi_name i = ''GOODBYE'' then r = MT_Error
       else mi_name i = ''INVALID'' \<or> message_name r = mi_name i @ ''_ACK'' \<and> is_response r \<and>
         message_is_agent_directed r = message_is_agent_directed t)"
  proof (cases "mi_response i \<or> mi_name i = ''GOODBYE'' \<or> mi_name i = ''INVALID''")
    case True
    then show ?thesis using find_entry [OF i] goodbye_unanswered [OF i]
      by (auto simp: Let_def message_name_def response_for_def is_response_def)
  next
    case False
    then obtain j where j: "(i, j) \<in> set (zip kMessages (tl kMessages))"
      using next_in_list [OF i] kMessages_last by metis
    then have "j \<in> set kMessages" using set_zip_rightD [OF j] list.set_sel(2) [of kMessages j] by (cases "kMessages = []") simp_all
    moreover have "mi_type j = mi_type i + 1" "mi_name j = mi_name i @ ''_ACK''" "mi_response j"
        "mi_agent_directed j = mi_agent_directed i"
      using acknowledgement_follows j False by (auto simp: list_all_iff)
    ultimately show ?thesis using False find_entry(2) [OF i] find_entry(1) [OF i] find_entry(1) [of j]
      by (simp add: Let_def response_for_def message_name_def is_response_def message_is_agent_directed_def)
  qed
qed

section \<open>A field map is read back\<close>

definition write_fields :: "field_entry list \<Rightarrow> field_entry list" where
  "write_fields ws = fold (\<lambda>(key, type, payload) es. store_field es key type payload) ws []"

lemma store_field_keys: "set (map fst (store_field es key type payload)) = insert key (set (map fst es))"
  by (induction es) auto

lemma store_field_distinct: "distinct (map fst es) \<Longrightarrow> distinct (map fst (store_field es key type payload))"
proof (induction es)
  case (Cons e es)
  then show ?case using store_field_keys [of es key type payload] by auto
qed simp

lemma store_field_map: "distinct (map fst es) \<Longrightarrow> map_of (store_field es key type payload) = (map_of es)(key \<mapsto> (type, payload))"
  by (induction es) (auto simp: fun_eq_iff)

lemma write_fields_append:
  "distinct (map fst (write_fields ws)) \<and> map_of (write_fields ws) = map_of (rev ws)"
proof (induction ws rule: rev_induct)
  case (snoc w ws)
  obtain key type payload where w: "w = (key, type, payload)" by (cases w)
  have "write_fields (ws @ [w]) = store_field (write_fields ws) key type payload" by (simp add: write_fields_def w)
  then show ?case using snoc by (simp add: w store_field_distinct store_field_map)
qed (simp add: write_fields_def)

lemma sort_fields: "distinct (map fst es) \<Longrightarrow> om_sorted (sort_key fst es) \<and> map_of (sort_key fst es) = map_of es"
proof -
  assume d: "distinct (map fst es)"
  have keys: "distinct (map fst (sort_key fst es))"
    using d by (metis distinct_map distinct_sort set_sort)
  then have "map_of (sort_key fst es) = map_of es"
    using d by (intro map_of_eqI) (force simp: map_of_eq_Some_iff)+
  with keys show ?thesis by (simp add: om_sorted_def strict_sorted_iff)
qed

lemma write_fields_sorted:
  "om_sorted (sort_key fst (write_fields ws))" "om_find (sort_key fst (write_fields ws)) = map_of (rev ws)"
  using sort_fields [of "write_fields ws"] write_fields_append [of ws] by (simp_all add: om_find_def fun_eq_iff)

definition field_fits :: "decoder \<Rightarrow> field_entry \<Rightarrow> bool" where
  "field_fits d e \<longleftrightarrow> raw_fits d (snd (snd e))"

lemma field_type_position: "\<not> field_type_value t < field_type_value FT_U64" "\<not> field_type_value t > field_type_value FT_ListNested"
  "field_types ! (unat (field_type_value t) - 1) = t"
  by (cases t; simp add: field_types_def)+

interpretation field_codec: byte_codec enc_field dec_field field_fits
proof
  fix d e assume f: "field_fits d e" and s: "starts d (enc_field e)"
  obtain key type payload where e: "e = (key, type, payload)" by (cases e)
  have s1: "starts d (enc_u16 key)" "starts (skip 2 d) (enc_u8 (field_type_value type))" "starts (skip 3 d) (enc_raw payload)"
    using s starts_append [of "skip 2 d" "enc_u8 (field_type_value type)" "enc_raw payload"]
    by (simp_all add: e enc_field_def starts_append [of d] enc_u8_def)
  have "dec_u16 d = Inr (key, skip 2 d)" using u16_codec.decodes [OF _ s1(1)] by simp
  moreover have "dec_u8 (skip 2 d) = Inr (field_type_value type, skip 3 d)"
    using u8_codec.decodes [OF _ s1(2)] by (simp add: enc_u8_def eval_nat_numeral)
  moreover have "raw_field (skip 3 d) = Inr (payload, skip (length (enc_raw payload)) (skip 3 d))"
    using raw_codec.decodes [OF _ s1(3)] f by (simp add: e field_fits_def raw_codec.fits_skip)
  ultimately show "dec_field d = Inr (e, skip (length (enc_field e)) d)"
    using field_type_position [of type]
    by (simp add: e dec_field_def enc_field_def enc_u8_def del: field_type_value.simps)
qed (auto simp: field_fits_def raw_codec.fits_skip enc_field_def enc_u8_def)

lemma read_fields_items:
  assumes "dec_items dec_field n d = Inr (es, d')" and "distinct (map fst es)" and "\<forall>e \<in> set es. om_find fm (fst e) = None"
  shows "read_fields n d fm = Inr (fold (\<lambda>(key, entry). om_put key entry) es fm, d')"
  using assms
proof (induction n arbitrary: d es fm)
  case (Suc n)
  obtain e d1 es1 where f: "dec_field d = Inr (e, d1)" "dec_items dec_field n d1 = Inr (es1, d')" "es = e # es1"
    using Suc.prems(1) by (auto split: sum.splits)
  obtain key entry where e: "e = (key, entry)" by (cases e)
  have "read_fields n d1 (om_put key entry fm) = Inr (fold (\<lambda>(key, entry). om_put key entry) es1 (om_put key entry fm), d')"
    using Suc.prems(2,3) by (intro Suc.IH [OF f(2)]) (auto simp: f(3) e)
  then show ?case using Suc.prems(3) by (simp add: f e om_contains_def)
qed simp

lemma put_fields_find: "om_find (fold (\<lambda>(key, entry). om_put key entry) es fm) = om_find fm ++ map_of (rev es)"
  by (induction es arbitrary: fm) (auto simp: fun_eq_iff map_add_def split: option.split)

lemma put_fields_sorted: "om_sorted fm \<Longrightarrow> om_sorted (fold (\<lambda>(key, entry). om_put key entry) es fm)"
  by (induction es arbitrary: fm) auto

lemma reader_create_list:
  assumes "decode_list dec_field 1024 (decoder_of bs lim) = Inr (es, d)" and "at_end d" and "om_sorted es"
  shows "reader_create bs lim = Inr es"
proof -
  obtain n d1 d2 where l: "list_header 1024 (decoder_of bs lim) = Inr (n, d1)" "dec_items dec_field n d1 = Inr (es, d2)"
      "d = depth_leave d2"
    using assms(1) by (auto simp: decode_list_def split: sum.splits)
  have distinct: "distinct (map fst es)" using assms(3) by (simp add: om_sorted_def strict_sorted_iff)
  let ?fm = "fold (\<lambda>(key, entry). om_put key entry) es om_empty"
  have "?fm = es"
  proof (rule om_extensional)
    show "om_sorted ?fm" by (rule put_fields_sorted) (simp add: om_sorted_def om_empty_def)
    have "map_of (rev es) = map_of es" by (rule map_of_eqI) (use distinct in \<open>auto simp: map_of_eq_Some_iff rev_map [symmetric]\<close>)
    then show "om_find ?fm = om_find es" by (simp add: put_fields_find fun_eq_iff map_add_def om_find_def om_empty_def split: option.split)
  qed (rule assms(3))
  moreover have "read_fields n d1 om_empty = Inr (?fm, d2)"
    by (rule read_fields_items [OF l(2) distinct]) simp
  ultimately show ?thesis using l assms(2) by (simp add: reader_create_def require_end_def)
qed

lemma reader_create_written:
  assumes "distinct (map fst es)" and "length es \<le> 1024" and "list_all (\<lambda>(key, type, payload). length payload \<le> 1024 * 1024) es"
  shows "reader_create (writer_take es) default_limits = Inr (sort_key fst es)"
proof -
  let ?d = "decoder_of (writer_take es) default_limits"
  have "list_fits field_fits 1024 ?d (sort_key fst es)"
    using assms(2,3) by (auto simp: list_fits_def field_fits_def raw_fits_def decoder_of_def default_limits_def list_all_iff)
  then have "decode_list dec_field 1024 ?d = Inr (sort_key fst es, skip (length (writer_take es)) ?d)"
    using field_codec.list_codec [of 1024 ?d "sort_key fst es"] by (simp add: writer_take_def starts_decoder_of)
  then show ?thesis
    by (rule reader_create_list) (use sort_fields [OF assms(1)] in \<open>simp_all add: at_end_def decoder_of_def skip_def\<close>)
qed

text \<open>A field map is canonical and complete. Whatever is written, in whatever order and however often under one
  key, the encoding depends only on the last value under each key, and reading it back gives exactly these
  values, within the limits of 1024 fields and 1 MiB per field.\<close>

theorem field_map_roundtrip:
  assumes "length (write_fields ws) \<le> 1024" and "list_all (\<lambda>(key, type, payload). length payload \<le> 1024 * 1024) (write_fields ws)"
  shows "(\<exists>fm. reader_create (writer_take (write_fields ws)) default_limits = Inr fm \<and> om_find fm = map_of (rev ws)) \<and>
    (\<forall>vs. map_of (rev vs) = map_of (rev ws) \<longrightarrow> writer_take (write_fields vs) = writer_take (write_fields ws))"
proof
  show "\<exists>fm. reader_create (writer_take (write_fields ws)) default_limits = Inr fm \<and> om_find fm = map_of (rev ws)"
    using reader_create_written [OF conjunct1 [OF write_fields_append] assms] write_fields_sorted(2) by blast
  show "\<forall>vs. map_of (rev vs) = map_of (rev ws) \<longrightarrow> writer_take (write_fields vs) = writer_take (write_fields ws)"
    using om_extensional write_fields_sorted by (metis writer_take_def)
qed

section \<open>Accessors read what was written\<close>

lemma counted_read: "length bs < 2 ^ 32 - 4 \<Longrightarrow> counted_access (counted bs) = FA_Value bs"
proof -
  assume "length bs < 2 ^ 32 - 4"
  then have "unat (of_nat (length bs) :: u32) = length bs" "unat (of_nat (length bs) + 4 :: u32) = length bs + 4"
    by (simp_all add: unat_of_nat unat_word_ariths)
  then show ?thesis by (simp add: counted_access_def counted_def Let_def)
qed

lemma read_written:
  "om_find fm key = Some (FT_U64, enc_u64 v) \<Longrightarrow> reader_u64 fm key = FA_Value v"
  "om_find fm key = Some (FT_Bool, [if b then 1 else 0]) \<Longrightarrow> reader_boolean fm key = FA_Value b"
  "om_find fm key = Some (FT_Bytes, counted bs) \<Longrightarrow> length bs < 2 ^ 32 - 4 \<Longrightarrow> reader_bytes fm key = FA_Value bs"
  "om_find fm key = Some (FT_Str, counted (map char_byte s)) \<Longrightarrow> length s < 2 ^ 32 - 4 \<Longrightarrow> reader_str fm key = FA_Value s"
  using get_u64_at(1) [of v "[]"]
  by (simp_all add: reader_u64_def reader_boolean_def reader_bytes_def reader_str_def typed_field_def counted_read o_def)

lemma counted_items_read:
  assumes "list_all (\<lambda>i. length i < 2 ^ 32) items"
  shows "counted_items (length items) (length pre) (pre @ concat (map counted items)) =
    (items, Some (length (pre @ concat (map counted items))))"
  using assms
proof (induction items arbitrary: pre)
  case (Cons i items)
  have "unat (of_nat (length i) :: u32) = length i" using Cons.prems by (simp add: unat_of_nat)
  then show ?case using Cons.IH [of "pre @ counted i"] Cons.prems by (simp add: counted_def Let_def add.assoc)
qed simp

lemma read_nested:
  assumes "om_find fm key = Some (FT_ListNested, enc_u32 (of_nat (length items)) @ concat (map counted items))"
    and "length items < 2 ^ 32" and "list_all (\<lambda>i. length i < 2 ^ 32) items"
  shows "reader_nested_list fm key = map (\<lambda>item. reader_create item default_limits) items"
proof -
  have "unat (of_nat (length items) :: u32) = length items" using assms(2) by (simp add: unat_of_nat)
  then show ?thesis using assms(1) counted_items_read [OF assms(3), of "enc_u32 (of_nat (length items))"]
    by (simp add: reader_nested_list_def typed_field_def)
qed

section \<open>Accessors and the end of the payload\<close>

lemma unat_plus_four: "unat (n + 4 :: u32) = (if unat n < 2 ^ 32 - 4 then unat n + 4 else unat n + 4 - 2 ^ 32)"
proof -
  have "unat (n + 4) = (unat n + 4) mod 2 ^ 32" by (simp add: unat_word_ariths)
  then show ?thesis using unat_u32_less [of n] by (auto simp: mod_if)
qed

lemma counted_access_cases:
  assumes "4 \<le> length p" and "length p < 2 ^ 32 - 4"
  shows "counted_access p =
    (if unat (get_u32 p 0) \<ge> 2 ^ 32 - 4 then FA_Overrun
     else if unat (get_u32 p 0) + 4 > length p then FA_Absent
     else FA_Value (take (unat (get_u32 p 0)) (drop 4 p)))"
  using assms unat_u32_less [of "get_u32 p 0"] by (auto simp: counted_access_def Let_def unat_plus_four)

text \<open>C36: the bounds check of string and byte-string fields is passed by a length it should refuse. A field whose payload
  declares a length of \<open>2^32 - 4\<close> or more is read past its end, because the 32-bit sum of length and prefix wraps; every
  other field is either read within its payload or reported as absent. A peer chooses the payload, so an
  error message can carry such a field.\<close>

theorem wrapped_length_overruns:
  assumes "om_find fm key = Some (FT_Str, p)" and "4 \<le> length p" and "length p < 2 ^ 32 - 4"
  shows "reader_str fm key = FA_Overrun \<longleftrightarrow> unat (get_u32 p 0) \<ge> 2 ^ 32 - 4"
  using assms(1) counted_access_cases [OF assms(2,3)] by (simp add: reader_str_def typed_field_def)

end
