(* ===== verification/AV_StoreScenario.thy ===== *)
theory AV_StoreScenario
  imports AV_Durability AV_Scenario AV_Protocol
begin

text \<open>
  Concrete files, frames and field maps on which the properties of the durable store and of the control protocol are
  exercised: a state with one tenant, written to an empty directory.
\<close>

section \<open>A small state\<close>

definition wt_at :: "u64 \<Rightarrow> accounting \<Rightarrow> vstate" where
  "wt_at n a = initial_state\<lparr> st_next_sequence := n, st_epoch := gen_initial, st_policy := blank_policy,
     st_policy_generation := gen_initial, st_accounting := a,
     st_tenants := [(Ident 1, blank_tenant\<lparr> tn_id := Ident 1, tn_generation := gen_initial, tn_name := ''acme'' \<rparr>)] \<rparr>"

definition wt_state :: vstate where
  "wt_state = wt_at 7 blank_accounting"

definition wt_texts :: log_texts where
  "wt_texts = \<lparr> lt_detail = (\<lambda>_. []), lt_reason = (\<lambda>_. []) \<rparr>"

definition wt_stored :: stored_state where
  "wt_stored = stored_of wt_texts wt_state"

definition wt_changes :: stored_changes where
  "wt_changes = stored_changes_of wt_texts (empty_changes\<lparr> ch_header := True, ch_tenants := [Ident 1] \<rparr>)"

definition wt_store :: file_store where
  "wt_store = (make_file_store default_store_options)\<lparr> fs_opened := True \<rparr>"

definition wt_empty :: disk where
  "wt_empty = \<lparr> dk_snapshot = None, dk_journal = None \<rparr>"

lemmas wt_defs = wt_at_def wt_state_def wt_texts_def wt_stored_def wt_changes_def wt_store_def wt_empty_def

lemmas state_simps = stored_of_def stored_changes_of_def initial_state_def om_empty_def om_values_def om_find_def om_sorted_def

lemmas valid_simps = validate_state_def valid_header_def refuse_if_def policy_validate_def blank_policy_def blank_tenant_def
  gen_initial_def gen_valid_def

lemma wt_policy: "policy_validate blank_policy = SC_Ok"
  by code_simp

lemma wt_at_valid: "n \<noteq> 0 \<Longrightarrow> validate_state (wt_at n a) = SC_Ok"
  by (simp add: validate_state_def valid_header_def refuse_if_def wt_policy wt_defs state_simps blank_tenant_def
      gen_initial_def gen_valid_def) (simp add: blank_policy_def)

lemma wt_valid: "validate_state (ss_state wt_stored) = SC_Ok"
  by (simp add: wt_stored_def wt_state_def wt_at_valid)

lemma wt_at_well_formed: "well_formed (wt_at n a)" "well_formed (ss_state (stored_of wt_texts (wt_at n a)))"
  by (simp_all add: well_formed_def maps_sorted_def ids_match_def keyed_def wt_defs state_simps)

lemmas size_simps = encode_header_def encode_policy_def encode_accounting_def encode_tenant_def enc_id_def enc_gen_def
  enc_enum_def enc_u8_def enc_list_def enc_str_def enc_boolean_def blank_policy_def blank_tenant_def

lemmas limit_simps = snapshot_fits_def stored_state_fits_def policy_fits_def tenant_fits_def list_fits_def str_fits_def
  sorted_ids_fit_def decoder_of_def snapshot_limits_def default_limits_def kMaxStoredItems_def blank_policy_def blank_tenant_def

lemma wt_at_storable: "storable (stored_of wt_texts (wt_at n a))"
proof -
  have "length (encode_snapshot (stored_of wt_texts (wt_at n a))) < 2 ^ 32"
    by (simp add: encode_snapshot_def wt_defs state_simps size_simps)
  moreover have "snapshot_fits (stored_of wt_texts (wt_at n a))" by (simp add: wt_defs state_simps limit_simps)
  ultimately show ?thesis using wt_at_well_formed
    by (simp add: storable_def logs_beside_def logs_bounded_def wt_defs state_simps)
qed

lemma wt_storable: "storable wt_stored"
  by (simp add: wt_stored_def wt_state_def wt_at_storable)

lemma wt_header_fits: "update_fits (DU_Header (header_of (ss_state (stored_of wt_texts (wt_at n a)))))"
  by (simp add: update_fits_def header_of_def wt_defs state_simps limit_simps record_payload_def size_simps kMaxJournalRecord_def)

lemma wt_tenant_fits:
  "update_fits (DU_Tenant (blank_tenant\<lparr> tn_id := Ident 1, tn_generation := gen_initial, tn_name := ''acme'' \<rparr>))"
  by (simp add: update_fits_def limit_simps record_payload_def size_simps kMaxJournalRecord_def)

lemma wt_at_within_limits: "within_limits (stored_of wt_texts (wt_at n a))"
  using wt_at_storable [of n a] wt_header_fits [of n a] wt_tenant_fits
  by (simp add: within_limits_def all_updates_def wt_defs state_simps)

section \<open>Writing it\<close>

lemma accepts_all: "fs_opened fs \<Longrightarrow> fst (file_apply io_ok (fs, dk) ss g) = SC_Ok"
  by (simp add: file_apply_def init_journal_def append_batch_def append_file_bytes_def file_compact_def write_file_atomic_def
      io_ok_def Let_def split_beta split: option.split)

lemma wt_advances: "advances empty_store_state wt_changes wt_stored"
  by (simp add: advances_def empty_store_state_def wt_defs state_simps logs_beside_def table_advances_def append_bounded_def
      empty_changes_def)

lemma wt_recordable: "recordable wt_stored wt_changes"
  using wt_storable wt_header_fits [of 7 blank_accounting] wt_tenant_fits
  by (simp add: recordable_def updates_of_def table_updates_def wt_defs state_simps empty_changes_def)

lemma wt_holds_empty: "file_holds (wt_store, wt_empty) empty_store_state"
  by (simp add: file_holds_def wt_store_def wt_empty_def make_file_store_def default_store_options_def disk_holds_def
      snapshot_holds_def journal_holds_def logs_bounded_def empty_store_state_def)

lemma wt_written: "fst (write_all file_apply (wt_store, wt_empty) [(io_ok, wt_stored, wt_changes)]) = SC_Ok"
  using accepts_all [of wt_store wt_empty wt_stored wt_changes] by (simp add: split_beta wt_store_def)

lemma wt_linked: "linked empty_store_state [(io :: io_answers, wt_stored, wt_changes)]"
  using wt_advances wt_recordable by simp

theorem snapshot_roundtrip_witness:
  "decode_snapshot (encode_snapshot wt_stored) = Inr wt_stored"
  using snapshot_roundtrip [of wt_stored] wt_storable by (simp add: storable_def)



section \<open>Losing it\<close>

definition wt_started :: "file_store \<times> disk" where
  "wt_started = (wt_store\<lparr> fs_journal_initialized := True \<rparr>, wt_empty\<lparr> dk_journal := Some journal_header_bytes \<rparr>)"

lemma wt_holds_started: "file_holds wt_started empty_store_state"
proof -
  have "disk_holds (snd wt_started) empty_store_state"
    unfolding disk_holds_def by (rule exI [of _ empty_store_state], rule exI [of _ "[]"])
      (simp add: wt_started_def wt_empty_def snapshot_holds_def journal_holds_def batch_def)
  then show ?thesis
    by (simp add: file_holds_def wt_started_def wt_store_def make_file_store_def default_store_options_def logs_bounded_def
        empty_store_state_def)
qed

theorem torn_append_recovers_prefix_witness:
  "fst (file_apply (io_ok\<lparr> io_append := Append_Stopped 5 \<rparr>) wt_started wt_stored wt_changes) = SC_IoFailure"
proof -
  obtain fs dk where st: "wt_started = (fs, dk)" "fs_journal_initialized fs" by (simp add: wt_started_def)
  obtain status fs' dk' where out:
    "file_apply (io_ok\<lparr> io_append := Append_Stopped 5 \<rparr>) (fs, dk) wt_stored wt_changes = (status, fs', dk')"
    by (cases "file_apply (io_ok\<lparr> io_append := Append_Stopped 5 \<rparr>) (fs, dk) wt_stored wt_changes") auto
  have "status = SC_IoFailure"
    using torn_append_recovers_prefix [OF wt_holds_started [unfolded st(1)] st(2) wt_advances wt_recordable _ out] by simp
  then show ?thesis by (simp add: st(1) out)
qed

definition wt_kept :: "file_store \<times> disk" where
  "wt_kept = (wt_store, \<lparr> dk_snapshot = Some (encode_snapshot_file wt_stored), dk_journal = None \<rparr>)"

lemma wt_holds_kept: "file_holds wt_kept wt_stored"
proof -
  have "disk_holds (snd wt_kept) wt_stored"
    unfolding disk_holds_def by (rule exI [of _ wt_stored], rule exI [of _ "[]"])
      (simp add: wt_kept_def snapshot_holds_def journal_holds_def snapshot_file_roundtrip wt_storable)
  then show ?thesis
    using wt_storable by (simp add: file_holds_def wt_kept_def wt_store_def make_file_store_def default_store_options_def storable_def)
qed

theorem interrupted_compaction_keeps_state_witness:
  "\<exists>ss'. fst (file_load io_ok (snd (file_compact (io_ok\<lparr> io_truncate := False \<rparr>) wt_kept wt_stored))) = checked_state ss' \<and>
     ss_state ss' = ss_state wt_stored"
proof -
  obtain fs dk where st: "wt_kept = (fs, dk)" by (cases wt_kept)
  obtain status fs' dk' where out:
    "file_compact (io_ok\<lparr> io_truncate := False \<rparr>) (fs, dk) wt_stored = (status, fs', dk')"
    by (cases "file_compact (io_ok\<lparr> io_truncate := False \<rparr>) (fs, dk) wt_stored") auto
  have "io_snapshot (io_ok\<lparr> io_truncate := False \<rparr>)" "\<not> io_truncate (io_ok\<lparr> io_truncate := False \<rparr>)"
    by (simp_all add: io_ok_def)
  from interrupted_compaction_keeps_state [OF wt_holds_kept [unfolded st] wt_storable this out] show ?thesis
    unfolding st out snd_conv by blast
qed

theorem damaged_snapshot_refused_witness:
  "decode_snapshot_file ((encode_snapshot_file wt_stored)[0 := 0]) \<in>
    Inl ` {SC_CorruptState, SC_TruncatedState, SC_IntegrityFailure}"
proof (rule damaged_snapshot_refused)
  show "length (encode_snapshot wt_stored) < 2 ^ 32" using wt_storable by (simp add: storable_def)
  show "0 < length (encode_snapshot_file wt_stored)" by (simp add: encode_snapshot_file_def Let_def)
  show "0 \<noteq> encode_snapshot_file wt_stored ! 0"
    by (simp add: encode_snapshot_file_def Let_def nth_append enc_u32_def le_bytes_nth kSnapshotMagic_def)
qed

section \<open>The runtime on these files\<close>

definition wt_files :: durable_store where
  "wt_files = \<lparr> ds_open = SC_Ok, ds_present = True, ds_load = Inr wt_state,
     ds_apply = (\<lambda>s c. fst (file_apply io_ok wt_kept (stored_of wt_texts s) (stored_changes_of wt_texts c))),
     ds_compact = (\<lambda>s. fst (file_compact io_ok wt_kept (stored_of wt_texts s))), ds_close = SC_Ok \<rparr>"

definition wt_env :: env where
  "wt_env = sc_env\<lparr> env_store := Some wt_files \<rparr>"

lemma wt_accepts: "store_accepts wt_env"
  using accepts_all by (simp add: store_accepts_def wt_env_def wt_files_def wt_kept_def wt_store_def)

lemma wt_registered:
  "\<exists>im'. perform wt_env (Op_RegisterAgent ''agent'' [] 1 no_id) (sc_impl wt_state) = (SC_Ok, im') \<and>
     im_state im' = wt_at 9 (blank_accounting\<lparr> ac_agent_boots := 1 \<rparr>) \<and> \<not> im_store_failed im' \<and> opt_persist (im_options im')"
proof -
  have "store_answer wt_env im = SC_Ok" for im
    using wt_accepts by (simp add: store_answer_def store_accepts_def split: option.splits)
  then show ?thesis
    by (simp add: register_agent_def report_def agent_identity_def agent_connected_def no_id_def id_valid_def next_id_def Let_def
        commit_def begin_op_def upd_accounting_def upd_state_def touch_header_def commit_logs_def append_bounded_def
        sc_impl_def sc_options_def wt_defs initial_state_def om_empty_def om_find_def empty_changes_def blank_accounting_def)
qed


definition wt_narrow :: virtualization_policy where
  "wt_narrow = default_policy\<lparr> pol_max_virtual_accelerators := 1 \<rparr>"

lemma wt_narrowed: "\<exists>p. fst (set_policy sc_env sc_auth wt_narrow (sc_impl sc_running)) = Inr p"
proof -
  have g: "set_policy_guard sc_auth wt_narrow (begin_op (sc_impl sc_running)) = SC_Ok" by code_simp
  have "store_accepts sc_env" by (simp add: store_accepts_def sc_env_def)
  then show ?thesis
    by (simp add: set_policy_def Let_def split_beta g accept_result store_accepts_commit)
qed

theorem lowered_limit_blocks_restart_witness:
  "validate_state (im_state (snd (set_policy sc_env sc_auth wt_narrow (sc_impl sc_running)))) = SC_CorruptState"
proof -
  let ?s = "im_state (snd (set_policy sc_env sc_auth wt_narrow (sc_impl sc_running)))"
  obtain p where p: "fst (set_policy sc_env sc_auth wt_narrow (sc_impl sc_running)) = Inr p" using wt_narrowed by blast
  have "unat (pol_max_virtual_accelerators wt_narrow) < length (st_virtuals (im_state (sc_impl sc_running)))"
    by (simp add: wt_narrow_def scenario_defs)
  from lowered_limit_blocks_restart [OF sc_running_well_formed p this, of ?s "wt_stored\<lparr> ss_state := ?s \<rparr>"] show ?thesis by simp
qed

section \<open>Frames and fields\<close>

definition wt_frame :: frame where
  "wt_frame = (blank_header, [1, 2, 3])"

theorem stream_reassembles_witness:
  "\<exists>st'. feed_all (make_stream kDefaultMaxFramePayload) (map (\<lambda>b. [b]) (wire [wt_frame, wt_frame])) [] =
     (SC_Ok, st', [sealed wt_frame, sealed wt_frame]) \<and> unread st' = []"
proof -
  have "concat (map (\<lambda>b. [b]) (wire [wt_frame, wt_frame])) = wire [wt_frame, wt_frame]" by simp
  moreover have "list_all (\<lambda>c. length c \<le> 1) (map (\<lambda>b. [b]) (wire [wt_frame, wt_frame]))" by (simp add: list_all_iff)
  moreover have "list_all (\<lambda>f. sendable kDefaultMaxFramePayload f \<and> length (snd f) + 1 \<le> unat kDefaultMaxFramePayload + 1)
      [wt_frame, wt_frame]"
    by (simp add: sendable_def wt_frame_def blank_header_def kDefaultMaxFramePayload_def)
  ultimately show ?thesis
    using stream_reassembles [of "map (\<lambda>b. [b]) (wire [wt_frame, wt_frame])" "[wt_frame, wt_frame]" 1 kDefaultMaxFramePayload]
    by simp
qed

definition wt_fields :: "field_entry list" where
  "wt_fields = [(2, FT_U64, enc_u64 5), (1, FT_U64, enc_u64 6), (2, FT_U64, enc_u64 7)]"

theorem field_map_roundtrip_witness:
  "\<exists>fm. reader_create (writer_take (write_fields wt_fields)) default_limits = Inr fm \<and>
     om_find fm = map_of (rev wt_fields)"
proof -
  have "length (write_fields wt_fields) \<le> 1024"
      "list_all (\<lambda>(key, type, payload). length payload \<le> 1024 * 1024) (write_fields wt_fields)"
    by (simp_all add: write_fields_def wt_fields_def)
  from field_map_roundtrip [OF this] show ?thesis by blast
qed

theorem wrapped_length_overruns_witness:
  "reader_str [(74, FT_Str, enc_u32 0xFFFFFFFF)] 74 = FA_Overrun"
  using wrapped_length_overruns [of "[(74, FT_Str, enc_u32 0xFFFFFFFF)]" 74 "enc_u32 0xFFFFFFFF"]
  by (simp add: om_find_def)

end
