(* ===== verification/AV_Channel.thy ===== *)
theory AV_Channel
  imports AV_Protocol
begin

text \<open>
  Frames over a connection: \<open>FrameChannel\<close> of \<open>src/socket.cpp\<close>. The socket below it is the operating system's: what its reads
  return is an argument, the list of their results in order (bytes, none when the peer has closed, or an error), and so is
  whether a write succeeds. A receive that needs more reads than the list has waits, which is the value \<open>None\<close>.

  Whatever frames are sent and however the network cuts their bytes, receiving as many frames yields exactly them, in order. A
  channel that is moved keeps the frames it has not handed out and loses the bytes of the frame it is in.
\<close>

section \<open>The channel\<close>

type_synonym reads = "bytes result list"

record channel =
  ch_stream :: frame_stream
  ch_pending :: "frame list"
  ch_open :: bool
  ch_frames_sent :: nat
  ch_frames_received :: nat

definition make_channel :: channel where
  "make_channel = \<lparr> ch_stream = make_stream kDefaultMaxFramePayload, ch_pending = [], ch_open = True, ch_frames_sent = 0,
    ch_frames_received = 0 \<rparr>"

text \<open>The move constructor: the stream starts anew with the same limit.\<close>

definition move_channel :: "channel \<Rightarrow> channel" where
  "move_channel ch = ch\<lparr> ch_stream := make_stream (sm_max_payload (ch_stream ch)) \<rparr>"

subsection \<open>Sending\<close>

definition outgoing :: "u16 \<Rightarrow> u64 \<Rightarrow> bytes \<Rightarrow> u32 \<Rightarrow> frame" where
  "outgoing type request payload flags = (blank_header\<lparr> fh_type := type, fh_flags := flags, fh_request := request,
     fh_payload_length := of_nat (length payload), fh_payload_crc := crc32c payload \<rparr>, payload)"

text \<open>The status, the channel and the bytes handed to the socket; \<open>written\<close> is what \<open>send_all\<close> reports.\<close>

definition channel_send :: "status_code \<Rightarrow> u16 \<Rightarrow> u64 \<Rightarrow> bytes \<Rightarrow> u32 \<Rightarrow> channel \<Rightarrow> status_code \<times> channel \<times> bytes" where
  "channel_send written type request payload flags ch =
    (if \<not> ch_open ch then (SC_ConnectionLost, ch, [])
     else let bs = encode_frame (fst (outgoing type request payload flags)) payload in
       if written \<noteq> SC_Ok then (written, ch\<lparr> ch_open := False \<rparr>, bs)
       else (SC_Ok, ch\<lparr> ch_frames_sent := ch_frames_sent ch + 1 \<rparr>, bs))"

subsection \<open>Receiving\<close>

primrec receive_loop :: "reads \<Rightarrow> channel \<Rightarrow> (frame result \<times> channel \<times> reads) option" where
  "receive_loop [] ch = None"
| "receive_loop (r # rs) ch =
    (case r of
       Inl c \<Rightarrow> Some (Inl SC_ConnectionLost, ch\<lparr> ch_open := False \<rparr>, rs)
     | Inr [] \<Rightarrow> Some (Inl SC_ConnectionLost, ch\<lparr> ch_open := False \<rparr>, rs)
     | Inr chunk \<Rightarrow>
       (case feed (ch_stream ch) chunk [] of (fed, st, frames) \<Rightarrow>
        if fed \<noteq> SC_Ok then Some (Inl fed, ch\<lparr> ch_stream := st, ch_open := False \<rparr>, rs)
        else case frames of
          [] \<Rightarrow> receive_loop rs (ch\<lparr> ch_stream := st \<rparr>)
        | f # fs \<Rightarrow> Some (Inr f, ch\<lparr> ch_stream := st, ch_pending := ch_pending ch @ fs,
            ch_frames_received := ch_frames_received ch + 1 \<rparr>, rs)))"

definition receive :: "reads \<Rightarrow> channel \<Rightarrow> (frame result \<times> channel \<times> reads) option" where
  "receive rs ch =
    (case ch_pending ch of
       f # fs \<Rightarrow> Some (Inr f, ch\<lparr> ch_pending := fs, ch_frames_received := ch_frames_received ch + 1 \<rparr>, rs)
     | [] \<Rightarrow> if \<not> ch_open ch then Some (Inl SC_ConnectionLost, ch, rs) else receive_loop rs ch)"

definition close_channel :: "channel \<Rightarrow> channel" where
  "close_channel ch = ch\<lparr> ch_open := False \<rparr>"

text \<open>As many receives as \<open>n\<close>, if none fails.\<close>

fun receive_many :: "nat \<Rightarrow> reads \<Rightarrow> channel \<Rightarrow> (frame list \<times> channel \<times> reads) option" where
  "receive_many 0 rs ch = Some ([], ch, rs)"
| "receive_many (Suc n) rs ch =
    (case receive rs ch of
       Some (Inr f, ch', rs') \<Rightarrow> map_option (\<lambda>(fs, ch'', rs''). (f # fs, ch'', rs'')) (receive_many n rs' ch')
     | _ \<Rightarrow> None)"

section \<open>Every frame arrives\<close>

text \<open>The channel in the middle of a stream: \<open>fs\<close> is what is still to be handed out, \<open>cs\<close> what is still to be read.\<close>

definition underway :: "u32 \<Rightarrow> nat \<Rightarrow> frame list \<Rightarrow> bytes list \<Rightarrow> channel \<Rightarrow> bool" where
  "underway m n fs cs ch \<longleftrightarrow> (let st = ch_stream ch in
    sm_max_payload st = m \<and> unread st @ concat cs = wire fs \<and> incomplete (unread st) fs \<and> sm_consumed st = 0 \<and> ch_open ch \<and>
    list_all (\<lambda>f. sendable m f \<and> length (snd f) + n \<le> unat m + 1) fs \<and> list_all (\<lambda>c. c \<noteq> [] \<and> length c \<le> n) cs)"

lemma wire_Nil [simp]: "wire fs = [] \<longleftrightarrow> fs = []"
proof (cases fs)
  case (Cons f gs)
  then have "0 < length (wire fs)" by (simp add: wire_def length_frame_bytes kFrameHeaderSize_def)
  then show ?thesis using Cons by auto
qed (simp add: wire_def)

lemma underway_feed:
  assumes "underway m n fs (c # cs) ch"
  shows "\<exists>got left st. fs = got @ left \<and> feed (ch_stream ch) c [] = (SC_Ok, st, map sealed got) \<and>
    underway m n left cs (ch\<lparr> ch_stream := st \<rparr>)"
proof -
  let ?st = "ch_stream ch" and ?st' = "(ch_stream ch)\<lparr> sm_buffer := sm_buffer (ch_stream ch) @ c \<rparr>"
  note u = assms [unfolded underway_def Let_def]
  have sends: "list_all (sendable (sm_max_payload ?st)) fs" using u by (simp add: list_all_iff)
  have "unread ?st' = unread ?st @ c" using u by (simp add: unread_def)
  then obtain got left st where p: "fs = got @ left" "feed_loop ?st' [] = (SC_Ok, st, map sealed got)"
      "sm_max_payload st = sm_max_payload ?st" "sm_consumed st = 0" "unread st @ concat cs = wire left" "incomplete (unread st) left"
    using feed_loop_prefix [of ?st' "concat cs" fs "[]"] u sends by auto
  have "feed ?st c [] = feed_loop ?st' []" using feed_fits [of ?st c cs fs n] u by (simp add: feed_def)
  then show ?thesis using p u by (auto simp: underway_def Let_def)
qed

lemma receive_loop_underway:
  "underway m n (f # fs) cs ch \<Longrightarrow> ch_pending ch = [] \<Longrightarrow>
   \<exists>got left cs' ch'. fs = got @ left \<and> receive_loop (map Inr cs @ rest) ch = Some (Inr (sealed f), ch', map Inr cs' @ rest) \<and>
     ch_pending ch' = map sealed got \<and> underway m n left cs' ch'"
proof (induction cs arbitrary: ch)
  case Nil
  then have "unread (ch_stream ch) = wire (f # fs)" "incomplete (unread (ch_stream ch)) (f # fs)"
    by (auto simp only: underway_def Let_def list.map concat.simps append_Nil2)
  then have "length (wire (f # fs)) < length (frame_bytes f)" by (auto simp: incomplete_def)
  then show ?case by (simp add: wire_def)
next
  case (Cons c cs)
  obtain got left st where p: "f # fs = got @ left" "feed (ch_stream ch) c [] = (SC_Ok, st, map sealed got)"
      "underway m n left cs (ch\<lparr> ch_stream := st \<rparr>)"
    using underway_feed [OF Cons.prems(1)] by blast
  obtain x xs where c: "c = x # xs" using Cons.prems(1) by (cases c) (simp_all add: underway_def Let_def)
  show ?case
  proof (cases got)
    case Nil
    then show ?thesis using Cons.IH [of "ch\<lparr> ch_stream := st \<rparr>"] Cons.prems(2) p c by simp
  next
    case (Cons g gs)
    then show ?thesis using p c \<open>ch_pending ch = []\<close>
      by (intro exI [of _ gs] exI [of _ left] exI [of _ cs]) (auto simp: underway_def Let_def)
  qed
qed

lemma receive_underway:
  assumes "underway m n fs cs ch" and "ch_pending ch = P" and "P @ map sealed fs = g # gs"
  shows "\<exists>P' fs' cs' ch'. receive (map Inr cs @ rest) ch = Some (Inr g, ch', map Inr cs' @ rest) \<and>
    ch_pending ch' = P' \<and> underway m n fs' cs' ch' \<and> P' @ map sealed fs' = gs"
proof (cases P)
  case Nil
  then obtain f fs' where f: "fs = f # fs'" "g = sealed f" "gs = map sealed fs'" using assms(3) by auto
  have "ch_open ch" using assms(1) by (simp add: underway_def Let_def)
  then have "receive (map Inr cs @ rest) ch = receive_loop (map Inr cs @ rest) ch" using assms(2) Nil by (simp add: receive_def)
  moreover obtain got left cs' ch' where "fs' = got @ left" "ch_pending ch' = map sealed got" "underway m n left cs' ch'"
      "receive_loop (map Inr cs @ rest) ch = Some (Inr (sealed f), ch', map Inr cs' @ rest)"
    using receive_loop_underway [of m n f fs' cs ch rest] assms(1,2) Nil f(1) by blast
  ultimately show ?thesis using f by (intro exI [of _ "map sealed got"] exI [of _ left]) auto
next
  case (Cons q qs)
  then show ?thesis using assms
    by (intro exI [of _ qs] exI [of _ fs] exI [of _ cs]) (auto simp: receive_def underway_def Let_def)
qed

lemma underway_finished: "underway m n [] cs ch \<Longrightarrow> cs = []"
  by (cases cs) (auto simp: underway_def Let_def wire_def)

text \<open>Between frames: open, with nothing buffered and the default limit.\<close>

definition idle_channel :: "channel \<Rightarrow> bool" where
  "idle_channel ch \<longleftrightarrow> ch_open ch \<and> ch_pending ch = [] \<and> unread (ch_stream ch) = [] \<and> sm_consumed (ch_stream ch) = 0 \<and>
    sm_max_payload (ch_stream ch) = kDefaultMaxFramePayload"

lemma make_channel_idle: "idle_channel make_channel"
  by (simp add: idle_channel_def make_channel_def make_stream_def unread_def)

lemma receive_many_underway:
  assumes "underway kDefaultMaxFramePayload n fs cs ch" and "ch_pending ch = P" and "P @ map sealed fs = gs"
  shows "\<exists>ch'. receive_many (length gs) (map Inr cs @ rest) ch = Some (gs, ch', rest) \<and> idle_channel ch'"
  using assms
proof (induction gs arbitrary: fs cs ch P)
  case Nil
  then show ?case using underway_finished [of kDefaultMaxFramePayload n cs ch]
    by (auto simp: underway_def idle_channel_def Let_def wire_def)
next
  case (Cons g gs)
  obtain P' fs' cs' ch' where "receive (map Inr cs @ rest) ch = Some (Inr g, ch', map Inr cs' @ rest)"
      "ch_pending ch' = P'" "underway kDefaultMaxFramePayload n fs' cs' ch'" "P' @ map sealed fs' = gs"
    using receive_underway [OF Cons.prems] by blast
  then show ?case using Cons.IH [of fs' cs' ch' P'] by auto
qed

text \<open>Frames that arrive whole, and reads that a channel with the default limit never refuses.\<close>

definition arriving :: "frame list \<Rightarrow> bytes list \<Rightarrow> bool" where
  "arriving fs cs \<longleftrightarrow> concat cs = wire fs \<and> list_all (\<lambda>c. c \<noteq> [] \<and> length c \<le> 64 * 1024) cs \<and>
    list_all (\<lambda>f. sendable kDefaultMaxFramePayload f \<and> length (snd f) \<le> (1024 - 64) * 1024 + 1) fs"

lemma arriving_received:
  assumes "idle_channel ch" and "arriving fs cs"
  shows "\<exists>ch'. receive_many (length fs) (map Inr cs @ rest) ch = Some (map sealed fs, ch', rest) \<and> idle_channel ch'"
proof -
  have "underway kDefaultMaxFramePayload (64 * 1024) fs cs ch"
    using assms by (auto simp: underway_def idle_channel_def arriving_def incomplete_def Let_def list_all_iff kDefaultMaxFramePayload_def)
  then show ?thesis using receive_many_underway [of "64 * 1024" fs cs ch "[]" "map sealed fs" rest] assms(1)
    by (simp add: idle_channel_def)
qed


lemma one_arrives:
  assumes "idle_channel ch" and "arriving [f] cs"
  shows "\<exists>ch'. receive (map Inr cs @ rest) ch = Some (Inr (sealed f), ch', rest) \<and> idle_channel ch'"
  using arriving_received [OF assms, of rest]
  by (auto split: option.splits sum.splits)

end
