(* ===== verification/AV_Messages.thy ===== *)
theory AV_Messages
  imports AV_Protocol
begin

text \<open>
  The numbers of the messages and field keys that the programs use (\<open>include/av/protocol.hpp\<close>, \<open>MessageType\<close> and
  \<open>FieldKey\<close>).
\<close>

section \<open>Message types\<close>

definition MT_Hello :: u16 where "MT_Hello = 1"
definition MT_HelloAck :: u16 where "MT_HelloAck = 2"
definition MT_Goodbye :: u16 where "MT_Goodbye = 3"
definition MT_RegisterPhysical :: u16 where "MT_RegisterPhysical = 10"
definition MT_RefreshPhysical :: u16 where "MT_RefreshPhysical = 12"
definition MT_ListPhysical :: u16 where "MT_ListPhysical = 14"
definition MT_PhysicalLost :: u16 where "MT_PhysicalLost = 18"
definition MT_CreateTenant :: u16 where "MT_CreateTenant = 20"
definition MT_ListTenants :: u16 where "MT_ListTenants = 22"
definition MT_FenceTenant :: u16 where "MT_FenceTenant = 24"
definition MT_TransferOwnership :: u16 where "MT_TransferOwnership = 26"
definition MT_CreateVirtual :: u16 where "MT_CreateVirtual = 30"
definition MT_UpdateContract :: u16 where "MT_UpdateContract = 32"
definition MT_AssignBacking :: u16 where "MT_AssignBacking = 34"
definition MT_ReplaceBacking :: u16 where "MT_ReplaceBacking = 36"
definition MT_RetireVirtual :: u16 where "MT_RetireVirtual = 38"
definition MT_FenceVirtual :: u16 where "MT_FenceVirtual = 40"
definition MT_ActivateVirtual :: u16 where "MT_ActivateVirtual = 42"
definition MT_SuspendVirtual :: u16 where "MT_SuspendVirtual = 44"
definition MT_ResumeVirtual :: u16 where "MT_ResumeVirtual = 46"
definition MT_DrainVirtual :: u16 where "MT_DrainVirtual = 48"
definition MT_Attach :: u16 where "MT_Attach = 50"
definition MT_Detach :: u16 where "MT_Detach = 52"
definition MT_RenewLease :: u16 where "MT_RenewLease = 54"
definition MT_Revoke :: u16 where "MT_Revoke = 56"
definition MT_Query :: u16 where "MT_Query = 60"
definition MT_ListVirtual :: u16 where "MT_ListVirtual = 62"
definition MT_ListBackings :: u16 where "MT_ListBackings = 64"
definition MT_CapabilityShow :: u16 where "MT_CapabilityShow = 66"
definition MT_ContractShow :: u16 where "MT_ContractShow = 68"
definition MT_IsolationExplain :: u16 where "MT_IsolationExplain = 70"
definition MT_MigrationExplain :: u16 where "MT_MigrationExplain = 72"
definition MT_ExplainDecisions :: u16 where "MT_ExplainDecisions = 74"
definition MT_SetPolicy :: u16 where "MT_SetPolicy = 76"
definition MT_GetPolicy :: u16 where "MT_GetPolicy = 78"
definition MT_MigrationPlan :: u16 where "MT_MigrationPlan = 80"
definition MT_MigrationPrepare :: u16 where "MT_MigrationPrepare = 82"
definition MT_MigrationCommit :: u16 where "MT_MigrationCommit = 84"
definition MT_MigrationComplete :: u16 where "MT_MigrationComplete = 86"
definition MT_MigrationAbort :: u16 where "MT_MigrationAbort = 88"
definition MT_Audit :: u16 where "MT_Audit = 90"
definition MT_Snapshot :: u16 where "MT_Snapshot = 92"
definition MT_Accounting :: u16 where "MT_Accounting = 94"
definition MT_Shutdown :: u16 where "MT_Shutdown = 96"
definition MT_AgentExecute :: u16 where "MT_AgentExecute = 110"
definition MT_Heartbeat :: u16 where "MT_Heartbeat = 114"
definition MT_Execute :: u16 where "MT_Execute = 120"
definition MT_ResolveRecovery :: u16 where "MT_ResolveRecovery = 122"

lemmas message_types = MT_Error_def MT_Hello_def MT_HelloAck_def MT_Goodbye_def MT_RegisterPhysical_def MT_RefreshPhysical_def MT_ListPhysical_def
  MT_PhysicalLost_def MT_CreateTenant_def MT_ListTenants_def MT_FenceTenant_def MT_TransferOwnership_def
  MT_CreateVirtual_def MT_UpdateContract_def MT_AssignBacking_def MT_ReplaceBacking_def MT_RetireVirtual_def
  MT_FenceVirtual_def MT_ActivateVirtual_def MT_SuspendVirtual_def MT_ResumeVirtual_def MT_DrainVirtual_def
  MT_Attach_def MT_Detach_def MT_RenewLease_def MT_Revoke_def MT_Query_def MT_ListVirtual_def MT_ListBackings_def
  MT_CapabilityShow_def MT_ContractShow_def MT_IsolationExplain_def MT_MigrationExplain_def
  MT_ExplainDecisions_def MT_SetPolicy_def MT_GetPolicy_def MT_MigrationPlan_def MT_MigrationPrepare_def
  MT_MigrationCommit_def MT_MigrationComplete_def MT_MigrationAbort_def MT_Audit_def MT_Snapshot_def
  MT_Accounting_def MT_Shutdown_def MT_AgentExecute_def MT_Heartbeat_def MT_Execute_def MT_ResolveRecovery_def

section \<open>Field keys\<close>

definition kFieldRole :: u16 where "kFieldRole = 3"
definition kFieldAgentName :: u16 where "kFieldAgentName = 4"
definition kFieldAgentId :: u16 where "kFieldAgentId = 5"
definition kFieldBootId :: u16 where "kFieldBootId = 6"
definition kFieldEpoch :: u16 where "kFieldEpoch = 7"
definition kFieldRequest :: u16 where "kFieldRequest = 8"
definition kFieldProtocolVersion :: u16 where "kFieldProtocolVersion = 9"
definition kFieldServerName :: u16 where "kFieldServerName = 10"
definition kFieldConnectionId :: u16 where "kFieldConnectionId = 11"
definition kFieldShutdown :: u16 where "kFieldShutdown = 13"
definition kFieldVirtualId :: u16 where "kFieldVirtualId = 20"
definition kFieldVirtualGeneration :: u16 where "kFieldVirtualGeneration = 21"
definition kFieldVirtualName :: u16 where "kFieldVirtualName = 22"
definition kFieldStateGeneration :: u16 where "kFieldStateGeneration = 23"
definition kFieldState :: u16 where "kFieldState = 24"
definition kFieldTenantId :: u16 where "kFieldTenantId = 26"
definition kFieldTenantGeneration :: u16 where "kFieldTenantGeneration = 27"
definition kFieldTenantName :: u16 where "kFieldTenantName = 28"
definition kFieldExternalSubject :: u16 where "kFieldExternalSubject = 29"
definition kFieldBackingId :: u16 where "kFieldBackingId = 30"
definition kFieldBackingGeneration :: u16 where "kFieldBackingGeneration = 31"
definition kFieldPhysicalId :: u16 where "kFieldPhysicalId = 32"
definition kFieldPhysicalGeneration :: u16 where "kFieldPhysicalGeneration = 33"
definition kFieldLeaseId :: u16 where "kFieldLeaseId = 34"
definition kFieldLeaseGeneration :: u16 where "kFieldLeaseGeneration = 35"
definition kFieldPolicyGeneration :: u16 where "kFieldPolicyGeneration = 36"
definition kFieldMigrationId :: u16 where "kFieldMigrationId = 37"
definition kFieldMigrationGeneration :: u16 where "kFieldMigrationGeneration = 38"
definition kFieldReason :: u16 where "kFieldReason = 39"
definition kFieldNewOwnerId :: u16 where "kFieldNewOwnerId = 40"
definition kFieldNewOwnerGeneration :: u16 where "kFieldNewOwnerGeneration = 41"
definition kFieldContractBlob :: u16 where "kFieldContractBlob = 50"
definition kFieldPolicyBlob :: u16 where "kFieldPolicyBlob = 51"
definition kFieldProjectionBlob :: u16 where "kFieldProjectionBlob = 52"
definition kFieldIsolationBlob :: u16 where "kFieldIsolationBlob = 53"
definition kFieldViewBlob :: u16 where "kFieldViewBlob = 54"
definition kFieldBackingBlob :: u16 where "kFieldBackingBlob = 55"
definition kFieldPhysicalBlob :: u16 where "kFieldPhysicalBlob = 56"
definition kFieldTenantBlob :: u16 where "kFieldTenantBlob = 57"
definition kFieldLeaseBlob :: u16 where "kFieldLeaseBlob = 58"
definition kFieldMigrationBlob :: u16 where "kFieldMigrationBlob = 59"
definition kFieldVirtualBlob :: u16 where "kFieldVirtualBlob = 60"
definition kFieldDecisionBlob :: u16 where "kFieldDecisionBlob = 61"
definition kFieldCount :: u16 where "kFieldCount = 70"
definition kFieldLimit :: u16 where "kFieldLimit = 71"
definition kFieldBlobs :: u16 where "kFieldBlobs = 72"
definition kFieldText :: u16 where "kFieldText = 73"
definition kFieldClean :: u16 where "kFieldClean = 75"
definition kFieldDigest :: u16 where "kFieldDigest = 78"
definition kFieldAccountingBlob :: u16 where "kFieldAccountingBlob = 79"
definition kFieldOp :: u16 where "kFieldOp = 90"
definition kFieldHandle :: u16 where "kFieldHandle = 91"
definition kFieldBytes :: u16 where "kFieldBytes = 92"
definition kFieldData :: u16 where "kFieldData = 93"
definition kFieldDriverVersion :: u16 where "kFieldDriverVersion = 95"
definition kFieldDeviceMemoryTotal :: u16 where "kFieldDeviceMemoryTotal = 96"
definition kFieldDeviceMemoryFree :: u16 where "kFieldDeviceMemoryFree = 97"
definition kFieldDescriptorBlob :: u16 where "kFieldDescriptorBlob = 99"
definition kFieldStableKey :: u16 where "kFieldStableKey = 100"
definition kFieldMigrationClass :: u16 where "kFieldMigrationClass = 113"
definition kFieldBackingClass :: u16 where "kFieldBackingClass = 115"
definition kFieldMultiplexing :: u16 where "kFieldMultiplexing = 116"
definition kFieldIsolationClass :: u16 where "kFieldIsolationClass = 117"
definition kFieldProvenance :: u16 where "kFieldProvenance = 118"
definition kFieldMechanism :: u16 where "kFieldMechanism = 119"
definition kFieldLabel :: u16 where "kFieldLabel = 120"
definition kFieldViolationCount :: u16 where "kFieldViolationCount = 121"
definition kFieldExternallyManaged :: u16 where "kFieldExternallyManaged = 122"
definition kFieldHandles :: u16 where "kFieldHandles = 124"
definition kFieldVendor :: u16 where "kFieldVendor = 130"
definition kFieldModel :: u16 where "kFieldModel = 131"
definition kFieldArchitecture :: u16 where "kFieldArchitecture = 132"
definition kFieldCapacityBytes :: u16 where "kFieldCapacityBytes = 133"
definition kFieldComputeUnits :: u16 where "kFieldComputeUnits = 134"
definition kFieldCcMajor :: u16 where "kFieldCcMajor = 135"
definition kFieldCcMinor :: u16 where "kFieldCcMinor = 136"
definition kFieldHardwarePartitionCapable :: u16 where "kFieldHardwarePartitionCapable = 137"
definition kFieldVirtualFunctionCapable :: u16 where "kFieldVirtualFunctionCapable = 138"
definition kFieldMigCapable :: u16 where "kFieldMigCapable = 139"
definition kFieldExclusive :: u16 where "kFieldExclusive = 140"
definition kFieldExternalPartitionRef :: u16 where "kFieldExternalPartitionRef = 141"
definition kFieldCapabilitiesBlob :: u16 where "kFieldCapabilitiesBlob = 142"
definition kFieldBackings :: u16 where "kFieldBackings = 143"

lemmas field_keys = kFieldStatus_def kFieldDetail_def kFieldRole_def kFieldAgentName_def kFieldAgentId_def kFieldBootId_def kFieldEpoch_def kFieldRequest_def
  kFieldProtocolVersion_def kFieldServerName_def kFieldConnectionId_def kFieldShutdown_def kFieldVirtualId_def
  kFieldVirtualGeneration_def kFieldVirtualName_def kFieldStateGeneration_def kFieldState_def kFieldTenantId_def
  kFieldTenantGeneration_def kFieldTenantName_def kFieldExternalSubject_def kFieldBackingId_def
  kFieldBackingGeneration_def kFieldPhysicalId_def kFieldPhysicalGeneration_def kFieldLeaseId_def
  kFieldLeaseGeneration_def kFieldPolicyGeneration_def kFieldMigrationId_def kFieldMigrationGeneration_def
  kFieldReason_def kFieldNewOwnerId_def kFieldNewOwnerGeneration_def kFieldContractBlob_def kFieldPolicyBlob_def
  kFieldProjectionBlob_def kFieldIsolationBlob_def kFieldViewBlob_def kFieldBackingBlob_def kFieldPhysicalBlob_def
  kFieldTenantBlob_def kFieldLeaseBlob_def kFieldMigrationBlob_def kFieldVirtualBlob_def kFieldDecisionBlob_def
  kFieldCount_def kFieldLimit_def kFieldBlobs_def kFieldText_def kFieldClean_def kFieldDigest_def
  kFieldAccountingBlob_def kFieldOp_def kFieldHandle_def kFieldBytes_def kFieldData_def kFieldDriverVersion_def
  kFieldDeviceMemoryTotal_def kFieldDeviceMemoryFree_def kFieldDescriptorBlob_def kFieldStableKey_def
  kFieldMigrationClass_def kFieldBackingClass_def kFieldMultiplexing_def kFieldIsolationClass_def
  kFieldProvenance_def kFieldMechanism_def kFieldLabel_def kFieldViolationCount_def kFieldExternallyManaged_def
  kFieldHandles_def kFieldVendor_def kFieldModel_def kFieldArchitecture_def kFieldCapacityBytes_def
  kFieldComputeUnits_def kFieldCcMajor_def kFieldCcMinor_def kFieldHardwarePartitionCapable_def
  kFieldVirtualFunctionCapable_def kFieldMigCapable_def kFieldExclusive_def kFieldExternalPartitionRef_def
  kFieldCapabilitiesBlob_def kFieldBackings_def

end
