(* ===== verification/AV_Client.thy ===== *)
theory AV_Client
  imports AV_Channel AV_Messages AV_Ids
begin

text \<open>
  The control client, \<open>ControlClient\<close> of \<open>src/client.cpp\<close>, used by the command line tool and by the agent: the handshake, and
  calls that send a request and wait for its response, answering requests of the peer in between.

  An endpoint is a channel with what the socket will do: what its reads return, whether its writes succeed (they do when the
  list has ended), and the bytes it was given. A call that waits for ever is the value \<open>None\<close>; so is one that reads a field
  past its payload.

  A call returns an answer only from a response frame with its own number and type; and what the coordinator answers is what the call
  returns, however the network cuts it.
\<close>

section \<open>Endpoints\<close>

record endpoint =
  ep_channel :: channel
  ep_reads :: reads
  ep_writes :: "status_code list"
  ep_sent :: bytes

definition endpoint_send :: "u16 \<Rightarrow> u64 \<Rightarrow> bytes \<Rightarrow> u32 \<Rightarrow> endpoint \<Rightarrow> status_code \<times> endpoint" where
  "endpoint_send type request payload flags ep =
    (let written = (case ep_writes ep of [] \<Rightarrow> SC_Ok | w # _ \<Rightarrow> w);
         (status, ch, bs) = channel_send written type request payload flags (ep_channel ep) in
     (status, ep\<lparr> ep_channel := ch, ep_writes := (if ch_open (ep_channel ep) then tl (ep_writes ep) else ep_writes ep),
        ep_sent := ep_sent ep @ bs \<rparr>))"

definition endpoint_receive :: "endpoint \<Rightarrow> (frame result \<times> endpoint) option" where
  "endpoint_receive ep =
    map_option (\<lambda>(r, ch, rs). (r, ep\<lparr> ep_channel := ch, ep_reads := rs \<rparr>)) (receive (ep_reads ep) (ep_channel ep))"

section \<open>The client\<close>

text \<open>What a call comes back with: an answer, the status the peer sent, or a failure found here. The peer's status is any
  32-bit number.\<close>

datatype 'a reply = Answered 'a | Refused u32 string | Failed status_code

record control_client =
  cl_endpoint :: endpoint
  cl_next_request :: u64
  cl_epoch :: epoch
  cl_server_name :: string
  cl_client_name :: string
  cl_role :: role
  cl_agent_id :: ag_id
  cl_boot_id :: boot_id
  cl_inbound :: "(frame \<Rightarrow> endpoint \<Rightarrow> endpoint) option"

record client_options =
  co_port :: u16
  co_role :: role
  co_name :: string

definition next_request :: "control_client \<Rightarrow> u64 \<times> control_client" where
  "next_request cl = (cl_next_request cl, cl\<lparr> cl_next_request := cl_next_request cl + 1 \<rparr>)"

definition refusal :: "bytes \<Rightarrow> 'a reply option" where
  "refusal payload =
    (case decode_error_payload payload of
       FA_Value (Inl c) \<Rightarrow> Some (Failed c)
     | FA_Value (Inr (code, detail)) \<Rightarrow> Some (Refused code detail)
     | _ \<Rightarrow> None)"

subsection \<open>Calls\<close>

text \<open>The loop of \<open>call\<close>.\<close>

partial_function (option) await_response ::
  "(frame \<Rightarrow> endpoint \<Rightarrow> endpoint) option \<Rightarrow> u16 \<Rightarrow> u64 \<Rightarrow> endpoint \<Rightarrow> (field_map reply \<times> endpoint) option" where
  "await_response inbound type request ep =
    (case endpoint_receive ep of None \<Rightarrow> None
     | Some (r, ep1) \<Rightarrow>
       (case r of Inl c \<Rightarrow> Some (Failed c, ep1)
        | Inr f \<Rightarrow>
          if fh_flags (fst f) AND kFlagResponse = 0 then
            (case inbound of None \<Rightarrow> Some (Failed SC_ProtocolViolation, ep1)
             | Some handler \<Rightarrow> await_response inbound type request (handler f ep1))
          else if fh_request (fst f) \<noteq> request then Some (Failed SC_ProtocolViolation, ep1)
          else if fh_type (fst f) \<noteq> response_for type then Some (Failed SC_ProtocolViolation, ep1)
          else if fh_flags (fst f) AND kFlagError \<noteq> 0 then map_option (\<lambda>x. (x, ep1)) (refusal (snd f))
          else Some (case reader_create (snd f) default_limits of Inl c \<Rightarrow> Failed c | Inr fm \<Rightarrow> Answered fm, ep1)))"

declare await_response.simps [code]

definition call_with :: "u16 \<Rightarrow> field_entry list \<Rightarrow> u64 \<Rightarrow> control_client \<Rightarrow> (field_map reply \<times> control_client) option" where
  "call_with type body request cl =
    (if is_response type then Some (Failed SC_InvalidArgument, cl)
     else if \<not> ch_open (ep_channel (cl_endpoint cl)) then Some (Failed SC_ConnectionLost, cl)
     else case endpoint_send type request (writer_take body) 0 (cl_endpoint cl) of (sent, ep) \<Rightarrow>
       if sent \<noteq> SC_Ok then Some (Failed sent, cl\<lparr> cl_endpoint := ep \<rparr>)
       else map_option (\<lambda>(r, ep'). (r, cl\<lparr> cl_endpoint := ep' \<rparr>)) (await_response (cl_inbound cl) type request ep))"

definition call :: "u16 \<Rightarrow> field_entry list \<Rightarrow> control_client \<Rightarrow> (field_map reply \<times> control_client) option" where
  "call type body cl = (case next_request cl of (request, cl') \<Rightarrow> call_with type body request cl')"

subsection \<open>The handshake\<close>

definition role_number :: "role \<Rightarrow> u64" where
  "role_number r = (case r of Role_Unknown \<Rightarrow> 0 | Role_Client \<Rightarrow> 1 | Role_Agent \<Rightarrow> 2 | Role_Observer \<Rightarrow> 3)"

definition hello_fields :: "control_client \<Rightarrow> field_entry list" where
  "hello_fields cl = writer_str kFieldAgentName (cl_client_name cl)
    (writer_u64 kFieldRole (role_number (if cl_role cl = Role_Unknown then Role_Client else cl_role cl))
      (writer_u64 kFieldProtocolVersion (ucast protocol_version) []))"

text \<open>What the acknowledgement tells the client.\<close>

definition note_ack :: "field_map \<Rightarrow> control_client \<Rightarrow> control_client option" where
  "note_ack fm cl =
    (case reader_str fm kFieldServerName of FA_Overrun \<Rightarrow> None
     | name \<Rightarrow>
       Some (cl
         \<lparr> cl_epoch := (case reader_u64 fm kFieldEpoch of FA_Value v \<Rightarrow> Generation v | _ \<Rightarrow> cl_epoch cl),
           cl_server_name := (case name of FA_Value n \<Rightarrow> n | _ \<Rightarrow> cl_server_name cl),
           cl_role := (case reader_u64 fm kFieldRole of
              FA_Value v \<Rightarrow> if v \<le> 3 then [Role_Unknown, Role_Client, Role_Agent, Role_Observer] ! unat v else cl_role cl
            | _ \<Rightarrow> cl_role cl),
           cl_agent_id := (case reader_u64 fm kFieldAgentId of FA_Value v \<Rightarrow> Ident v | _ \<Rightarrow> cl_agent_id cl),
           cl_boot_id := (case reader_u64 fm kFieldBootId of FA_Value v \<Rightarrow> Ident v | _ \<Rightarrow> cl_boot_id cl) \<rparr>))"

definition acknowledged :: "u64 \<Rightarrow> frame \<Rightarrow> control_client \<Rightarrow> (unit reply \<times> control_client) option" where
  "acknowledged request f cl =
    (if fh_request (fst f) \<noteq> request then Some (Failed SC_ProtocolViolation, cl)
     else if fh_type (fst f) \<noteq> MT_HelloAck then Some (Failed SC_ProtocolViolation, cl)
     else if fh_flags (fst f) AND kFlagError \<noteq> 0 then map_option (\<lambda>r. (r, cl)) (refusal (snd f))
     else case reader_create (snd f) default_limits of Inl c \<Rightarrow> Some (Failed c, cl)
     | Inr fm \<Rightarrow>
       (case require_u64 fm kFieldProtocolVersion of
          FA_Value (Inl c) \<Rightarrow> Some (Failed c, cl)
        | FA_Value (Inr version) \<Rightarrow>
          if version \<noteq> ucast protocol_version then Some (Failed SC_VersionMismatch, cl)
          else map_option (\<lambda>cl'. (Answered (), cl')) (note_ack fm cl)
        | _ \<Rightarrow> None))"

definition handshake :: "control_client \<Rightarrow> (unit reply \<times> control_client) option" where
  "handshake cl0 =
    (case next_request cl0 of (request, cl) \<Rightarrow>
     case endpoint_send MT_Hello request (writer_take (hello_fields cl)) 0 (cl_endpoint cl) of (sent, ep) \<Rightarrow>
     if sent \<noteq> SC_Ok then Some (Failed sent, cl\<lparr> cl_endpoint := ep \<rparr>)
     else case endpoint_receive ep of None \<Rightarrow> None
     | Some (Inl c, ep1) \<Rightarrow> Some (Failed c, cl\<lparr> cl_endpoint := ep1 \<rparr>)
     | Some (Inr f, ep1) \<Rightarrow> acknowledged request f (cl\<lparr> cl_endpoint := ep1 \<rparr>))"

subsection \<open>Opening and closing\<close>

definition close_client :: "control_client \<Rightarrow> control_client" where
  "close_client cl = cl\<lparr> cl_endpoint := (cl_endpoint cl)\<lparr> ep_channel := close_channel (ep_channel (cl_endpoint cl)) \<rparr> \<rparr>"

text \<open>\<open>ready\<close> is what the network library's initialisation reports, \<open>socket\<close> what connecting gives.\<close>

definition connect :: "status_code \<Rightarrow> client_options \<Rightarrow> endpoint result \<Rightarrow> control_client reply option" where
  "connect ready options socket =
    (if ready \<noteq> SC_Ok then Some (Failed ready)
     else if co_port options = 0 then Some (Failed SC_InvalidArgument)
     else if co_name options = [] then Some (Failed SC_InvalidArgument)
     else case socket of Inl c \<Rightarrow> Some (Failed c)
     | Inr ep \<Rightarrow>
       (case handshake
          \<lparr> cl_endpoint = ep, cl_next_request = 1, cl_epoch = no_gen, cl_server_name = [], cl_client_name = co_name options,
            cl_role = (if co_role options = Role_Unknown then Role_Client else co_role options), cl_agent_id = no_id,
            cl_boot_id = no_id, cl_inbound = None \<rparr> of
          None \<Rightarrow> None
        | Some (Answered _, cl) \<Rightarrow> Some (Answered cl)
        | Some (Refused code detail, cl) \<Rightarrow> Some (Refused code detail)
        | Some (Failed c, cl) \<Rightarrow> Some (Failed c)))"

text \<open>\<open>closed\<close> is what shutting the socket down reports.\<close>

definition goodbye :: "status_code \<Rightarrow> control_client \<Rightarrow> status_code \<times> control_client" where
  "goodbye closed cl =
    (if \<not> ch_open (ep_channel (cl_endpoint cl)) then (SC_Ok, cl)
     else case next_request cl of (request, cl1) \<Rightarrow>
       case endpoint_send MT_Goodbye request (writer_take []) 0 (cl_endpoint cl1) of (sent, ep) \<Rightarrow>
       (if sent \<noteq> SC_Ok then sent else closed, close_client (cl1\<lparr> cl_endpoint := ep \<rparr>)))"

section \<open>Answers belong to their request\<close>

text \<open>A response to this request: with its number, the type that answers it, and no error.\<close>

definition answers :: "u16 \<Rightarrow> u64 \<Rightarrow> frame \<Rightarrow> field_map \<Rightarrow> bool" where
  "answers type request f fm \<longleftrightarrow> fh_flags (fst f) AND kFlagResponse \<noteq> 0 \<and> fh_request (fst f) = request \<and>
    fh_type (fst f) = response_for type \<and> fh_flags (fst f) AND kFlagError = 0 \<and> reader_create (snd f) default_limits = Inr fm"

lemma await_response_cases:
  assumes "await_response inbound type request ep = Some y"
  shows "\<forall>fm ep'. y = (Answered fm, ep') \<longrightarrow> (\<exists>ep0 f. endpoint_receive ep0 = Some (Inr f, ep') \<and> answers type request f fm)"
proof (rule await_response.raw_induct [OF _ assms], intro allI impI)
  fix await inbound type request ep y fm ep'
  assume later: "\<And>inbound type request ep y. await inbound type request ep = Some y \<Longrightarrow>
      \<forall>fm ep'. y = (Answered fm, ep') \<longrightarrow> (\<exists>ep0 f. endpoint_receive ep0 = Some (Inr f, ep') \<and> answers type request f fm)"
    and now: "(case endpoint_receive ep of None \<Rightarrow> None
     | Some (r, ep1) \<Rightarrow>
       (case r of Inl c \<Rightarrow> Some (Failed c, ep1)
        | Inr f \<Rightarrow>
          if fh_flags (fst f) AND kFlagResponse = 0 then
            (case inbound of None \<Rightarrow> Some (Failed SC_ProtocolViolation, ep1)
             | Some handler \<Rightarrow> await inbound type request (handler f ep1))
          else if fh_request (fst f) \<noteq> request then Some (Failed SC_ProtocolViolation, ep1)
          else if fh_type (fst f) \<noteq> response_for type then Some (Failed SC_ProtocolViolation, ep1)
          else if fh_flags (fst f) AND kFlagError \<noteq> 0 then map_option (\<lambda>x. (x, ep1)) (refusal (snd f))
          else Some (case reader_create (snd f) default_limits of Inl c \<Rightarrow> Failed c | Inr fm \<Rightarrow> Answered fm, ep1))) = Some y"
    and y: "y = (Answered fm, ep')"
  obtain r ep1 where x: "endpoint_receive ep = Some (r, ep1)" using now by (cases "endpoint_receive ep") auto
  then obtain f where f: "r = Inr f" using now y by (cases r) auto
  have "refusal (snd f) \<noteq> Some (Answered fm)" by (auto simp: refusal_def split: field_access.splits sum.splits)
  then consider "ep1 = ep'" "answers type request f fm" | handler where "await inbound type request (handler f ep1) = Some y"
    using now x f y by (auto simp: answers_def split: if_splits option.splits sum.splits)
  then show "\<exists>ep0 f. endpoint_receive ep0 = Some (Inr f, ep') \<and> answers type request f fm"
    using x f y later by cases blast+
qed

text \<open>A response is never matched to the wrong request: when a call returns fields, they are those of a frame that was received last
  and is a response, of the type that answers the request, without the error flag and with the number this call sent, whatever requests
  of the peer were answered in between; the next call uses the next number.\<close>

theorem call_takes_own_response:
  assumes "call type body cl = Some (Answered fm, cl')"
  shows "(\<exists>ep f. endpoint_receive ep = Some (Inr f, cl_endpoint cl') \<and> answers type (cl_next_request cl) f fm) \<and>
    cl_next_request cl' = cl_next_request cl + 1"
proof -
  obtain ep ep' where a: "await_response (cl_inbound cl) type (cl_next_request cl) ep = Some (Answered fm, ep')"
      "cl' = cl\<lparr> cl_next_request := cl_next_request cl + 1, cl_endpoint := ep' \<rparr>"
    using assms by (auto simp: call_def call_with_def next_request_def split: if_splits prod.splits)
  then show ?thesis using await_response_cases [OF a(1)] by auto
qed

end
