(* ===== verification/AV_Wire.thy ===== *)
theory AV_Wire
  imports AV_StateCodec AV_Views AV_Messages
begin

text \<open>
  What the coordinator puts into a response (\<open>src/runtime.cpp\<close>, \<open>encode_view\<close> to \<open>decode_plan_blob\<close>): views, isolation and
  migration explanations, and single records as blobs, with the decoders that a client uses. A blob is decoded with the
  default limits and has to end where the value ends.

  Proved: every blob decodes to the value it was made of, and trailing bytes are refused.
\<close>

section \<open>Blobs\<close>

definition blob_of :: "'a \<Rightarrow> ('a \<Rightarrow> bytes) \<Rightarrow> bytes" where
  "blob_of v enc = enc v"

definition value_of :: "bytes \<Rightarrow> 'a dec \<Rightarrow> 'a result" where
  "value_of bs p =
    (case p (decoder_of bs default_limits) of Inl e \<Rightarrow> Inl e
     | Inr (v, d) \<Rightarrow> if require_end d \<noteq> SC_Ok then Inl (require_end d) else Inr v)"

abbreviation blob_limits :: decoder where
  "blob_limits \<equiv> decoder_of [] default_limits"

context record_codec
begin

lemma value_of_blob:
  assumes "fits blob_limits v"
  shows "value_of (enc v @ extra) dec = (if extra = [] then Inr v else Inl SC_ProtocolViolation)"
proof -
  let ?d = "decoder_of (enc v @ extra) default_limits"
  have "fits ?d v" using assms fits_move [where d = blob_limits and bs = "enc v @ extra" and n = 0 and v = v] by (simp add: decoder_of_def)
  moreover have "starts ?d (enc v)" by (simp add: starts_def decoder_of_def)
  ultimately have "dec ?d = Inr (v, skip (length (enc v)) ?d)" by (rule decodes)
  then show ?thesis by (simp add: value_of_def require_end_def at_end_def decoder_of_def)
qed

lemma value_of_whole: "fits blob_limits v \<Longrightarrow> value_of (enc v) dec = Inr v"
  using value_of_blob [of v "[]"] by simp

end

section \<open>Enumerations\<close>

text \<open>In an inspection response an out-of-domain value is a protocol violation.\<close>

interpretation lifecycle_shown: enum_codec SC_ProtocolViolation lifecycle_value lifecycle_table
  by unfold_locales

interpretation multiplexing_shown: enum_codec SC_ProtocolViolation multiplexing_value multiplexing_table
  by unfold_locales

interpretation isolation_class_shown: enum_codec SC_ProtocolViolation isolation_class_value isolation_class_table
  by unfold_locales

interpretation transparency_shown: enum_codec SC_ProtocolViolation transparency_value transparency_table
  by unfold_locales

interpretation backing_class_shown: enum_codec SC_ProtocolViolation backing_class_value backing_class_table
  by unfold_locales

interpretation provenance_shown: enum_codec SC_ProtocolViolation provenance_value provenance_table
  by unfold_locales

interpretation migration_class_shown: enum_codec SC_ProtocolViolation migration_class_value migration_class_table
  by unfold_locales

interpretation isolation_dimension_shown: enum_codec SC_ProtocolViolation isolation_dimension_value isolation_dimension_table
  by unfold_locales

interpretation isolation_state_shown: enum_codec SC_ProtocolViolation isolation_state_value isolation_state_table
  by unfold_locales

interpretation migration_state_shown: enum_codec SC_ProtocolViolation migration_state_value migration_state_table
  by unfold_locales

lemmas [field_reads] =
  lifecycle_shown.reads_value
  multiplexing_shown.reads_value
  isolation_class_shown.reads_value
  transparency_shown.reads_value
  backing_class_shown.reads_value
  provenance_shown.reads_value
  migration_class_shown.reads_value
  isolation_dimension_shown.reads_value
  isolation_state_shown.reads_value
  migration_state_shown.reads_value

section \<open>Views\<close>

definition encode_view :: "virtual_view \<Rightarrow> bytes" where
  "encode_view r =
    enc_id (vv_id r) @ enc_gen (vv_generation r) @ enc_str (vv_name r) @ enc_enum lifecycle_value (vv_state r) @
    enc_gen (vv_state_generation r) @ enc_str (vv_state_reason r) @ enc_id (vv_owner r) @
    enc_gen (vv_owner_generation r) @ enc_boolean (vv_owner_is_caller r) @ encode_contract (vv_contract r) @
    encode_projection (vv_projection r) @ enc_enum multiplexing_value (vv_multiplexing r) @
    enc_enum isolation_class_value (vv_isolation_class r) @ enc_enum transparency_value (vv_transparency r) @
    enc_boolean (vv_backing_disclosed r) @ enc_enum backing_class_value (vv_backing_class r) @
    enc_enum provenance_value (vv_backing_provenance r) @ enc_str (vv_backing_mechanism r) @
    enc_id (vv_backing r) @ enc_gen (vv_backing_generation r) @ enc_id (vv_physical r) @
    enc_gen (vv_physical_generation r) @ enc_str (vv_physical_stable_key r) @ enc_str (vv_physical_model r) @
    enc_u32 (vv_active_attachments r) @ enc_boolean (vv_attached_to_caller r) @ enc_id (vv_caller_lease r) @
    enc_gen (vv_caller_lease_generation r) @ enc_enum migration_class_value (vv_migration_class r) @
    enc_boolean (vv_migration_supported r) @ enc_boolean (vv_has_active_migration r) @
    enc_u64 (vv_allocated_bytes r) @ enc_u64 (vv_created_at r) @ enc_u64 (vv_updated_at r)"

definition view_fields :: "virtual_view dec" where
  "view_fields =
    dec_bind dec_id (\<lambda>id'. dec_bind dec_gen (\<lambda>generation'. dec_bind dec_str (\<lambda>label.
    dec_bind (dec_enum SC_ProtocolViolation lifecycle_table) (\<lambda>state.
    dec_bind dec_gen (\<lambda>state_generation. dec_bind dec_str (\<lambda>state_reason.
    dec_bind dec_id (\<lambda>owner. dec_bind dec_gen (\<lambda>owner_generation.
    dec_bind dec_boolean (\<lambda>owner_is_caller. dec_bind decode_contract (\<lambda>contract.
    dec_bind decode_projection (\<lambda>projection.
    dec_bind (dec_enum SC_ProtocolViolation multiplexing_table) (\<lambda>multiplexing.
    dec_bind (dec_enum SC_ProtocolViolation isolation_class_table) (\<lambda>isolation_class.
    dec_bind (dec_enum SC_ProtocolViolation transparency_table) (\<lambda>transparency.
    dec_bind dec_boolean (\<lambda>backing_disclosed.
    dec_bind (dec_enum SC_ProtocolViolation backing_class_table) (\<lambda>backing_class.
    dec_bind (dec_enum SC_ProtocolViolation provenance_table) (\<lambda>backing_provenance.
    dec_bind dec_str (\<lambda>backing_mechanism. dec_bind dec_id (\<lambda>backing.
    dec_bind dec_gen (\<lambda>backing_generation. dec_bind dec_id (\<lambda>physical.
    dec_bind dec_gen (\<lambda>physical_generation. dec_bind dec_str (\<lambda>physical_stable_key.
    dec_bind dec_str (\<lambda>physical_model. dec_bind dec_u32 (\<lambda>active_attachments.
    dec_bind dec_boolean (\<lambda>attached_to_caller. dec_bind dec_id (\<lambda>caller_lease.
    dec_bind dec_gen (\<lambda>caller_lease_generation.
    dec_bind (dec_enum SC_ProtocolViolation migration_class_table) (\<lambda>migration_class.
    dec_bind dec_boolean (\<lambda>migration_supported. dec_bind dec_boolean (\<lambda>has_active_migration.
    dec_bind dec_u64 (\<lambda>allocated_bytes. dec_bind dec_u64 (\<lambda>created_at.
    dec_bind dec_u64 (\<lambda>updated_at.
    dec_return
      \<lparr> vv_id = id', vv_generation = generation', vv_name = label, vv_state = state,
        vv_state_generation = state_generation, vv_state_reason = state_reason, vv_owner = owner,
        vv_owner_generation = owner_generation, vv_owner_is_caller = owner_is_caller, vv_contract = contract,
        vv_projection = projection, vv_multiplexing = multiplexing, vv_isolation_class = isolation_class,
        vv_transparency = transparency, vv_backing_disclosed = backing_disclosed,
        vv_backing_class = backing_class, vv_backing_provenance = backing_provenance,
        vv_backing_mechanism = backing_mechanism, vv_backing = backing,
        vv_backing_generation = backing_generation, vv_physical = physical,
        vv_physical_generation = physical_generation, vv_physical_stable_key = physical_stable_key,
        vv_physical_model = physical_model, vv_active_attachments = active_attachments,
        vv_attached_to_caller = attached_to_caller, vv_caller_lease = caller_lease,
        vv_caller_lease_generation = caller_lease_generation, vv_migration_class = migration_class,
        vv_migration_supported = migration_supported, vv_has_active_migration = has_active_migration,
        vv_allocated_bytes = allocated_bytes, vv_created_at = created_at, vv_updated_at = updated_at \<rparr>))))))))))))))))))))))))))))))))))"

definition view_fits :: "decoder \<Rightarrow> virtual_view \<Rightarrow> bool" where
  "view_fits d r \<longleftrightarrow>
    str_fits d (vv_name r) \<and> str_fits d (vv_state_reason r) \<and> contract_fits d (vv_contract r) \<and>
    projection_fits d (vv_projection r) \<and> str_fits d (vv_backing_mechanism r) \<and>
    str_fits d (vv_physical_stable_key r) \<and> str_fits d (vv_physical_model r)"

interpretation view_codec: record_codec encode_view view_fields view_fits
proof (rule record_codec_of_reads)
  fix d and r :: virtual_view
  assume f: "view_fits d r"
  show "reads view_fields d (encode_view r) r"
    unfolding view_fields_def encode_view_def
    by ((rule reads_bind, (rule field_reads; simp add: f [unfolded view_fits_def]))+, rule reads_last,
        (rule field_reads; simp add: f [unfolded view_fits_def]), rule reads_return, simp)
qed (simp_all add: view_fits_def encode_view_def)

lemmas [field_reads] = view_codec.reads_value
lemmas [simp] = view_codec.fits_skip view_codec.fits_move

definition decode_view :: "bytes \<Rightarrow> virtual_view result" where
  "decode_view bs = value_of bs view_fields"

section \<open>Isolation explanations\<close>

definition encode_explained_claim :: "isolation_claim \<Rightarrow> bytes" where
  "encode_explained_claim r =
    enc_enum isolation_dimension_value (ic_dimension r) @ enc_enum isolation_state_value (ic_state r) @
    enc_id (ic_evidence r) @ enc_gen (ic_evidence_gen r) @ enc_str (ic_mechanism r) @ enc_str (ic_rationale r)"

definition decode_explained_claim :: "isolation_claim dec" where
  "decode_explained_claim =
    dec_bind (dec_enum SC_ProtocolViolation isolation_dimension_table) (\<lambda>dimension.
    dec_bind (dec_enum SC_ProtocolViolation isolation_state_table) (\<lambda>state.
    dec_bind dec_id (\<lambda>evidence. dec_bind dec_gen (\<lambda>evidence_gen.
    dec_bind dec_str (\<lambda>mechanism. dec_bind dec_str (\<lambda>rationale.
    dec_return
      \<lparr> ic_dimension = dimension, ic_state = state, ic_evidence = evidence, ic_evidence_gen = evidence_gen,
        ic_mechanism = mechanism, ic_rationale = rationale \<rparr>))))))"

definition explained_claim_fits :: "decoder \<Rightarrow> isolation_claim \<Rightarrow> bool" where
  "explained_claim_fits d r \<longleftrightarrow>
    str_fits d (ic_mechanism r) \<and> str_fits d (ic_rationale r)"

interpretation explained_claim_codec: record_codec encode_explained_claim decode_explained_claim explained_claim_fits
proof (rule record_codec_of_reads)
  fix d and r :: isolation_claim
  assume f: "explained_claim_fits d r"
  show "reads decode_explained_claim d (encode_explained_claim r) r"
    unfolding decode_explained_claim_def encode_explained_claim_def
    by ((rule reads_bind, (rule field_reads; simp add: f [unfolded explained_claim_fits_def]))+, rule reads_last,
        (rule field_reads; simp add: f [unfolded explained_claim_fits_def]), rule reads_return, simp)
qed (simp_all add: explained_claim_fits_def encode_explained_claim_def)

lemmas [field_reads] = explained_claim_codec.reads_value
lemmas [field_reads] = explained_claim_codec.reads_list
lemmas [simp] = explained_claim_codec.fits_skip explained_claim_codec.fits_move explained_claim_codec.list_fits_skip explained_claim_codec.list_fits_move

definition encode_explained_requirement :: "isolation_requirement \<Rightarrow> bytes" where
  "encode_explained_requirement r =
    enc_enum isolation_dimension_value (ir_dimension r) @ enc_enum isolation_state_value (ir_minimum r)"

definition decode_explained_requirement :: "isolation_requirement dec" where
  "decode_explained_requirement =
    dec_bind (dec_enum SC_ProtocolViolation isolation_dimension_table) (\<lambda>dimension.
    dec_bind (dec_enum SC_ProtocolViolation isolation_state_table) (\<lambda>minimum.
    dec_return
      \<lparr> ir_dimension = dimension, ir_minimum = minimum \<rparr>))"

definition explained_requirement_fits :: "decoder \<Rightarrow> isolation_requirement \<Rightarrow> bool" where
  "explained_requirement_fits d r = True"

interpretation explained_requirement_codec: record_codec encode_explained_requirement decode_explained_requirement explained_requirement_fits
proof (rule record_codec_of_reads)
  fix d and r :: isolation_requirement
  assume f: "explained_requirement_fits d r"
  show "reads decode_explained_requirement d (encode_explained_requirement r) r"
    unfolding decode_explained_requirement_def encode_explained_requirement_def
    by ((rule reads_bind, (rule field_reads; simp add: f [unfolded explained_requirement_fits_def]))+, rule reads_last,
        (rule field_reads; simp add: f [unfolded explained_requirement_fits_def]), rule reads_return, simp)
qed (simp_all add: explained_requirement_fits_def encode_explained_requirement_def)

lemmas [field_reads] = explained_requirement_codec.reads_value
lemmas [field_reads] = explained_requirement_codec.reads_list
lemmas [simp] = explained_requirement_codec.fits_skip explained_requirement_codec.fits_move explained_requirement_codec.list_fits_skip explained_requirement_codec.list_fits_move

definition encode_isolation_explanation :: "isolation_explanation \<Rightarrow> bytes" where
  "encode_isolation_explanation r =
    enc_id (ix_id r) @ enc_gen (ix_generation r) @ enc_enum isolation_class_value (ix_isolation_class r) @
    enc_enum provenance_value (ix_provenance r) @ enc_str (ix_mechanism r) @
    enc_enum multiplexing_value (ix_multiplexing r) @ enc_boolean (ix_satisfies_policy r) @
    enc_list encode_explained_claim (ix_claims r) @ enc_list encode_explained_claim (ix_isolated r) @
    enc_list encode_explained_claim (ix_partial r) @ enc_list encode_explained_claim (ix_shared r) @
    enc_list encode_explained_claim (ix_unknown r) @ enc_list encode_explained_claim (ix_unsupported r) @
    enc_list encode_explained_requirement (ix_unmet_requirements r)"

definition explanation_fields :: "isolation_explanation dec" where
  "explanation_fields =
    dec_bind dec_id (\<lambda>id'. dec_bind dec_gen (\<lambda>generation'.
    dec_bind (dec_enum SC_ProtocolViolation isolation_class_table) (\<lambda>isolation_class.
    dec_bind (dec_enum SC_ProtocolViolation provenance_table) (\<lambda>provenance.
    dec_bind dec_str (\<lambda>mechanism.
    dec_bind (dec_enum SC_ProtocolViolation multiplexing_table) (\<lambda>multiplexing.
    dec_bind dec_boolean (\<lambda>satisfies_policy.
    dec_bind (decode_list decode_explained_claim 64) (\<lambda>claims.
    dec_bind (decode_list decode_explained_claim 64) (\<lambda>isolated.
    dec_bind (decode_list decode_explained_claim 64) (\<lambda>partial.
    dec_bind (decode_list decode_explained_claim 64) (\<lambda>shared.
    dec_bind (decode_list decode_explained_claim 64) (\<lambda>unknown.
    dec_bind (decode_list decode_explained_claim 64) (\<lambda>unsupported.
    dec_bind (decode_list decode_explained_requirement 64) (\<lambda>unmet_requirements.
    dec_return
      \<lparr> ix_id = id', ix_generation = generation', ix_isolation_class = isolation_class,
        ix_provenance = provenance, ix_mechanism = mechanism, ix_multiplexing = multiplexing,
        ix_claims = claims, ix_isolated = isolated, ix_partial = partial, ix_shared = shared,
        ix_unknown = unknown, ix_unsupported = unsupported, ix_unmet_requirements = unmet_requirements,
        ix_satisfies_policy = satisfies_policy \<rparr>))))))))))))))"

definition explanation_fits :: "decoder \<Rightarrow> isolation_explanation \<Rightarrow> bool" where
  "explanation_fits d r \<longleftrightarrow>
    str_fits d (ix_mechanism r) \<and> list_fits explained_claim_fits 64 d (ix_claims r) \<and>
    list_fits explained_claim_fits 64 d (ix_isolated r) \<and>
    list_fits explained_claim_fits 64 d (ix_partial r) \<and>
    list_fits explained_claim_fits 64 d (ix_shared r) \<and>
    list_fits explained_claim_fits 64 d (ix_unknown r) \<and>
    list_fits explained_claim_fits 64 d (ix_unsupported r) \<and>
    list_fits explained_requirement_fits 64 d (ix_unmet_requirements r)"

interpretation explanation_codec: record_codec encode_isolation_explanation explanation_fields explanation_fits
proof (rule record_codec_of_reads)
  fix d and r :: isolation_explanation
  assume f: "explanation_fits d r"
  show "reads explanation_fields d (encode_isolation_explanation r) r"
    unfolding explanation_fields_def encode_isolation_explanation_def
    by ((rule reads_bind, (rule field_reads; simp add: f [unfolded explanation_fits_def]))+, rule reads_last,
        (rule field_reads; simp add: f [unfolded explanation_fits_def]), rule reads_return, simp)
qed (simp_all add: explanation_fits_def encode_isolation_explanation_def)

lemmas [field_reads] = explanation_codec.reads_value
lemmas [simp] = explanation_codec.fits_skip explanation_codec.fits_move

definition decode_isolation_explanation :: "bytes \<Rightarrow> isolation_explanation result" where
  "decode_isolation_explanation bs = value_of bs explanation_fields"

section \<open>Migration explanations\<close>

definition encode_migration_explanation :: "migration_explanation \<Rightarrow> bytes" where
  "encode_migration_explanation r =
    enc_id (mx_id r) @ enc_boolean (mx_supported r) @ enc_enum migration_class_value (mx_klass r) @
    enc_str (mx_reason r) @ enc_boolean (mx_state_transfer_required r) @
    enc_boolean (mx_live_state_movement r) @ enc_boolean (mx_has_active_migration r) @
    enc_enum migration_state_value (mx_state r)"

definition migration_explanation_fields :: "migration_explanation dec" where
  "migration_explanation_fields =
    dec_bind dec_id (\<lambda>id'. dec_bind dec_boolean (\<lambda>supported.
    dec_bind (dec_enum SC_ProtocolViolation migration_class_table) (\<lambda>klass.
    dec_bind dec_str (\<lambda>reason. dec_bind dec_boolean (\<lambda>state_transfer_required.
    dec_bind dec_boolean (\<lambda>live_state_movement. dec_bind dec_boolean (\<lambda>has_active_migration.
    dec_bind (dec_enum SC_ProtocolViolation migration_state_table) (\<lambda>state.
    dec_return
      \<lparr> mx_id = id', mx_supported = supported, mx_klass = klass, mx_reason = reason,
        mx_state_transfer_required = state_transfer_required, mx_live_state_movement = live_state_movement,
        mx_has_active_migration = has_active_migration, mx_state = state \<rparr>))))))))"

definition migration_explanation_fits :: "decoder \<Rightarrow> migration_explanation \<Rightarrow> bool" where
  "migration_explanation_fits d r \<longleftrightarrow>
    str_fits d (mx_reason r)"

interpretation migration_explanation_codec: record_codec encode_migration_explanation migration_explanation_fields migration_explanation_fits
proof (rule record_codec_of_reads)
  fix d and r :: migration_explanation
  assume f: "migration_explanation_fits d r"
  show "reads migration_explanation_fields d (encode_migration_explanation r) r"
    unfolding migration_explanation_fields_def encode_migration_explanation_def
    by ((rule reads_bind, (rule field_reads; simp add: f [unfolded migration_explanation_fits_def]))+, rule reads_last,
        (rule field_reads; simp add: f [unfolded migration_explanation_fits_def]), rule reads_return, simp)
qed (simp_all add: migration_explanation_fits_def encode_migration_explanation_def)

lemmas [field_reads] = migration_explanation_codec.reads_value
lemmas [simp] = migration_explanation_codec.fits_skip migration_explanation_codec.fits_move

definition decode_migration_explanation :: "bytes \<Rightarrow> migration_explanation result" where
  "decode_migration_explanation bs = value_of bs migration_explanation_fields"

section \<open>Single records\<close>

definition encode_audit_entry :: "stored_audit \<Rightarrow> bytes" where
  "encode_audit_entry r = blob_of r encode_audit"

definition decode_audit_entry :: "bytes \<Rightarrow> stored_audit result" where
  "decode_audit_entry bs = value_of bs decode_audit"

definition encode_decision_record :: "stored_decision \<Rightarrow> bytes" where
  "encode_decision_record r = blob_of r encode_decision"

definition decode_decision_record :: "bytes \<Rightarrow> stored_decision result" where
  "decode_decision_record bs = value_of bs decode_decision"

definition encode_backing_record :: "backing_record \<Rightarrow> bytes" where
  "encode_backing_record r = blob_of r encode_backing"

definition decode_backing_record :: "bytes \<Rightarrow> backing_record result" where
  "decode_backing_record bs = value_of bs decode_backing"

definition encode_physical_record :: "physical_record \<Rightarrow> bytes" where
  "encode_physical_record r = blob_of r encode_physical"

definition decode_physical_record :: "bytes \<Rightarrow> physical_record result" where
  "decode_physical_record bs = value_of bs decode_physical"

definition encode_tenant_record :: "tenant_record \<Rightarrow> bytes" where
  "encode_tenant_record r = blob_of r encode_tenant"

definition decode_tenant_record :: "bytes \<Rightarrow> tenant_record result" where
  "decode_tenant_record bs = value_of bs decode_tenant"

definition encode_lease_record :: "lease_record \<Rightarrow> bytes" where
  "encode_lease_record r = blob_of r encode_lease"

definition decode_lease_record :: "bytes \<Rightarrow> lease_record result" where
  "decode_lease_record bs = value_of bs decode_lease"

definition encode_migration_record :: "migration_record \<Rightarrow> bytes" where
  "encode_migration_record r = blob_of r encode_migration"

definition decode_migration_record :: "bytes \<Rightarrow> migration_record result" where
  "decode_migration_record bs = value_of bs decode_migration"

definition encode_virtual_record :: "virtual_record \<Rightarrow> bytes" where
  "encode_virtual_record r = blob_of r encode_virtual"

definition decode_virtual_record :: "bytes \<Rightarrow> virtual_record result" where
  "decode_virtual_record bs = value_of bs decode_virtual"

definition encode_policy_blob :: "virtualization_policy \<Rightarrow> bytes" where
  "encode_policy_blob r = blob_of r encode_policy"

definition decode_policy_blob :: "bytes \<Rightarrow> virtualization_policy result" where
  "decode_policy_blob bs = value_of bs decode_policy"

definition encode_plan_blob :: "migration_plan \<Rightarrow> bytes" where
  "encode_plan_blob r = blob_of r encode_migration_plan"

definition decode_plan_blob :: "bytes \<Rightarrow> migration_plan result" where
  "decode_plan_blob bs = value_of bs decode_migration_plan"

text \<open>The counters are listed once, for the header record and for the response alike.\<close>

definition encode_accounting_blob :: "accounting \<Rightarrow> bytes" where
  "encode_accounting_blob a = encode_accounting a"

definition decode_accounting_blob :: "bytes \<Rightarrow> accounting result" where
  "decode_accounting_blob bs = value_of bs decode_accounting"

end
