(* ===== verification/AV_Descriptor.thy ===== *)
theory AV_Descriptor
  imports AV_Wire
begin

text \<open>
  Device descriptors on the wire (\<open>apps/proto_util.hpp\<close>, \<open>encode_backing_descriptor\<close> to \<open>decode_physical_descriptor\<close>): what an
  agent sends when it registers a device, a field map with one nested field map per backing.

  Reading a field past its payload is undefined in the source; a handler that does so has the value \<open>None\<close> here.

  Proved: a descriptor decodes to itself, every backing with its isolation claims and capabilities.
\<close>

section \<open>Handling fields\<close>

text \<open>\<open>auto x = reader.require_...(key); if (!x.ok()) return x.status();\<close>\<close>

definition attempt :: "'a result field_access \<Rightarrow> ('a \<Rightarrow> 'b result option) \<Rightarrow> 'b result option" where
  "attempt a f =
    (case a of FA_Overrun \<Rightarrow> None | FA_Absent \<Rightarrow> Some (Inl SC_ProtocolViolation)
     | FA_Value (Inl e) \<Rightarrow> Some (Inl e) | FA_Value (Inr v) \<Rightarrow> f v)"

text \<open>\<open>if (auto value = reader....(key); value.has_value()) x = *value;\<close> with the value \<open>x\<close> has before.\<close>

definition given :: "'a \<Rightarrow> 'a field_access \<Rightarrow> ('a \<Rightarrow> 'b option) \<Rightarrow> 'b option" where
  "given x a f = (case a of FA_Overrun \<Rightarrow> None | FA_Absent \<Rightarrow> f x | FA_Value v \<Rightarrow> f v)"

text \<open>\<open>if (*v > static_cast<std::uint64_t>(E::Last)) return Status(ProtocolViolation);\<close>\<close>

definition in_domain :: "'e list \<Rightarrow> u64 \<Rightarrow> ('e \<Rightarrow> 'b result option) \<Rightarrow> 'b result option" where
  "in_domain table v f = (if unat v > length table - 1 then Some (Inl SC_ProtocolViolation) else f (table ! unat v))"

definition whole_blob :: "'a dec \<Rightarrow> bytes \<Rightarrow> 'a result" where
  "whole_blob p bs =
    (case p (decoder_of bs default_limits) of Inl e \<Rightarrow> Inl e
     | Inr (v, d) \<Rightarrow> if at_end d then Inr v else Inl SC_ProtocolViolation)"

definition blob_value :: "'a dec \<Rightarrow> bytes \<Rightarrow> ('a \<Rightarrow> 'b result option) \<Rightarrow> 'b result option" where
  "blob_value p bs f = (case whole_blob p bs of Inl e \<Rightarrow> Some (Inl e) | Inr v \<Rightarrow> f v)"

section \<open>Encoding\<close>

definition encode_projection_blob :: "capability_projection \<Rightarrow> bytes" where
  "encode_projection_blob p = encode_projection p"

definition decode_projection_blob :: "bytes \<Rightarrow> capability_projection result" where
  "decode_projection_blob bs = whole_blob decode_projection bs"

definition encode_capabilities_blob :: "capability_surface \<Rightarrow> bytes" where
  "encode_capabilities_blob surface = encode_capability_surface surface"

definition encode_isolation_blob :: "isolation_profile \<Rightarrow> bytes" where
  "encode_isolation_blob profile = encode_isolation_profile profile"

definition write_steps :: "(field_entry list \<Rightarrow> field_entry list) list \<Rightarrow> field_entry list" where
  "write_steps ws = fold (\<lambda>w es. w es) ws []"

definition encode_backing_descriptor :: "backing_descriptor \<Rightarrow> bytes" where
  "encode_backing_descriptor b = writer_take (write_steps
    [writer_str kFieldLabel (bd_label b),
     writer_u64 kFieldBackingClass (of_nat (backing_class_value (bd_klass b))),
     writer_u64 kFieldMultiplexing (of_nat (multiplexing_value (bd_multiplexing b))),
     writer_u64 kFieldIsolationClass (of_nat (isolation_class_value (bd_isolation_class b))),
     writer_u64 kFieldCapacityBytes (bd_capacity_bytes b),
     writer_u64 kFieldComputeUnits (ucast (bd_compute_units b)),
     writer_str kFieldMechanism (bd_mechanism b),
     writer_boolean kFieldExclusive (bd_exclusive b),
     writer_boolean kFieldExternallyManaged (bd_externally_lifecycle_managed b),
     writer_str kFieldExternalPartitionRef (bd_external_partition_ref b),
     writer_bytes kFieldIsolationBlob (encode_isolation_blob (fold profile_set (bd_isolation b) [])),
     writer_bytes kFieldCapabilitiesBlob (encode_capabilities_blob (bd_capabilities b))])"

definition encode_physical_descriptor :: "device_descriptor \<Rightarrow> bytes" where
  "encode_physical_descriptor d = writer_take (write_steps
    [writer_str kFieldStableKey (dd_stable_key d),
     writer_str kFieldVendor (dd_vendor d),
     writer_str kFieldModel (dd_model d),
     writer_str kFieldDriverVersion (dd_driver_version d),
     writer_str kFieldArchitecture (dd_architecture d),
     writer_u64 kFieldProvenance (of_nat (provenance_value (dd_provenance d))),
     writer_u64 kFieldDeviceMemoryTotal (dd_memory_total_bytes d),
     writer_u64 kFieldComputeUnits (ucast (dd_compute_units d)),
     writer_u64 kFieldCcMajor (ucast (dd_compute_capability_major d)),
     writer_u64 kFieldCcMinor (ucast (dd_compute_capability_minor d)),
     writer_str kFieldMechanism (dd_mechanism d),
     writer_boolean kFieldHardwarePartitionCapable (dd_hardware_partition_capable d),
     writer_boolean kFieldVirtualFunctionCapable (dd_virtual_function_capable d),
     writer_boolean kFieldMigCapable (dd_mig_capable d),
     writer_nested_list kFieldBackings (map encode_backing_descriptor (dd_backings d))])"

section \<open>Decoding\<close>

definition decode_backing_descriptor :: "field_map \<Rightarrow> backing_descriptor result option" where
  "decode_backing_descriptor fm =
    attempt (require_str fm kFieldLabel) (\<lambda>label.
    attempt (require_u64 fm kFieldBackingClass) (\<lambda>klass_raw. in_domain backing_class_table klass_raw (\<lambda>klass.
    attempt (require_u64 fm kFieldMultiplexing) (\<lambda>mode_raw. in_domain multiplexing_table mode_raw (\<lambda>mode.
    attempt (require_u64 fm kFieldIsolationClass) (\<lambda>isolation_raw. in_domain isolation_class_table isolation_raw (\<lambda>isolation.
    given 0 (reader_u64 fm kFieldCapacityBytes) (\<lambda>capacity.
    given 0 (map_access ucast (reader_u64 fm kFieldComputeUnits)) (\<lambda>units.
    given [] (reader_str fm kFieldMechanism) (\<lambda>mechanism.
    given True (reader_boolean fm kFieldExclusive) (\<lambda>exclusive.
    given False (reader_boolean fm kFieldExternallyManaged) (\<lambda>managed.
    given [] (reader_str fm kFieldExternalPartitionRef) (\<lambda>partition_ref.
    attempt (require_field (reader_bytes fm kFieldIsolationBlob)) (\<lambda>isolation_blob.
    blob_value decode_isolation_profile isolation_blob (\<lambda>profile.
    let finish = (\<lambda>surface. Some (Inr
      \<lparr> bd_label = label, bd_klass = klass, bd_multiplexing = mode, bd_isolation_class = isolation,
        bd_capacity_bytes = capacity, bd_compute_units = units, bd_mechanism = mechanism, bd_isolation = profile,
        bd_capabilities = surface, bd_exclusive = exclusive, bd_externally_lifecycle_managed = managed,
        bd_external_partition_ref = partition_ref \<rparr>)) in
    case reader_bytes fm kFieldCapabilitiesBlob of FA_Overrun \<Rightarrow> None | FA_Absent \<Rightarrow> finish []
    | FA_Value capabilities_blob \<Rightarrow> blob_value decode_capability_surface capabilities_blob finish)))))))))))))))"

fun decode_backings :: "field_map result list \<Rightarrow> backing_descriptor list result option" where
  "decode_backings [] = Some (Inr [])"
| "decode_backings (Inl e # rest) = Some (Inl e)"
| "decode_backings (Inr fm # rest) =
    (case decode_backing_descriptor fm of None \<Rightarrow> None | Some (Inl e) \<Rightarrow> Some (Inl e)
     | Some (Inr b) \<Rightarrow>
       (case decode_backings rest of None \<Rightarrow> None | Some (Inl e) \<Rightarrow> Some (Inl e) | Some (Inr bs) \<Rightarrow> Some (Inr (b # bs))))"

definition decode_physical_descriptor :: "field_map \<Rightarrow> device_descriptor result option" where
  "decode_physical_descriptor fm =
    attempt (require_str fm kFieldStableKey) (\<lambda>stable_key.
    given [] (reader_str fm kFieldVendor) (\<lambda>vendor.
    given [] (reader_str fm kFieldModel) (\<lambda>model.
    given [] (reader_str fm kFieldDriverVersion) (\<lambda>driver_version.
    given [] (reader_str fm kFieldArchitecture) (\<lambda>architecture.
    attempt (require_u64 fm kFieldProvenance) (\<lambda>raw. in_domain provenance_table raw (\<lambda>provenance.
    given 0 (reader_u64 fm kFieldDeviceMemoryTotal) (\<lambda>memory.
    given 0 (map_access ucast (reader_u64 fm kFieldComputeUnits)) (\<lambda>units.
    given 0 (map_access ucast (reader_u64 fm kFieldCcMajor)) (\<lambda>major.
    given 0 (map_access ucast (reader_u64 fm kFieldCcMinor)) (\<lambda>minor.
    given [] (reader_str fm kFieldMechanism) (\<lambda>mechanism.
    given False (reader_boolean fm kFieldHardwarePartitionCapable) (\<lambda>partition_capable.
    given False (reader_boolean fm kFieldVirtualFunctionCapable) (\<lambda>function_capable.
    given False (reader_boolean fm kFieldMigCapable) (\<lambda>mig.
    let nested = reader_nested_list fm kFieldBackings in
    if length nested > 64 then Some (Inl SC_LimitExceeded)
    else case decode_backings nested of None \<Rightarrow> None | Some (Inl e) \<Rightarrow> Some (Inl e)
      | Some (Inr backings) \<Rightarrow> Some (Inr
        \<lparr> dd_stable_key = stable_key, dd_vendor = vendor, dd_model = model, dd_driver_version = driver_version,
          dd_architecture = architecture, dd_provenance = provenance, dd_memory_total_bytes = memory,
          dd_compute_units = units, dd_compute_capability_major = major, dd_compute_capability_minor = minor,
          dd_mechanism = mechanism, dd_hardware_partition_capable = partition_capable,
          dd_virtual_function_capable = function_capable, dd_mig_capable = mig, dd_backings = backings \<rparr>))))))))))))))))"

section \<open>A descriptor is read back\<close>

context record_codec
begin

lemma whole_blob_value: "fits blob_limits v \<Longrightarrow> whole_blob dec (enc v) = Inr v"
proof -
  let ?d = "decoder_of (enc v) default_limits"
  assume "fits blob_limits v"
  then have "fits ?d v" using fits_move [where d = blob_limits and bs = "enc v" and n = 0 and v = v] by (simp add: decoder_of_def)
  moreover have "starts ?d (enc v)" by (simp add: starts_def decoder_of_def)
  ultimately have "dec ?d = Inr (v, skip (length (enc v)) ?d)" by (rule decodes)
  then show ?thesis by (simp add: whole_blob_def at_end_def decoder_of_def)
qed

end

context enum_codec
begin

lemma in_domain_value: "in_domain table (of_nat (val v)) f = f v"
proof -
  have "unat (of_nat (val v) :: u64) = val v" using position(1) [of v] one_byte by (simp add: unat_of_nat)
  moreover have "\<not> val v > length table - 1" using position(1) [of v] by linarith
  ultimately show ?thesis by (simp add: in_domain_def position)
qed

end

lemmas domain_values = backing_class_shown.in_domain_value multiplexing_shown.in_domain_value
  isolation_class_shown.in_domain_value provenance_shown.in_domain_value

lemma attempt_value [simp]: "attempt (require_field (FA_Value v)) f = f v"
  by (simp add: attempt_def require_field_def)

lemma given_value [simp]: "given x (FA_Value v) f = f v"
  by (simp add: given_def)

lemma ucast_back [simp]: "(ucast (ucast w :: u64) :: u32) = w"
  by (rule bit_word_eqI) (simp add: bit_ucast_iff)

definition text_fits :: "string \<Rightarrow> bool" where
  "text_fits s \<longleftrightarrow> length s + 4 \<le> 1024 * 1024"

definition backing_describable :: "backing_descriptor \<Rightarrow> bool" where
  "backing_describable b \<longleftrightarrow> text_fits (bd_label b) \<and> text_fits (bd_mechanism b) \<and> text_fits (bd_external_partition_ref b) \<and>
    isolation_profile_fits blob_limits (bd_isolation b) \<and> capability_surface_fits blob_limits (bd_capabilities b) \<and>
    length (encode_isolation_profile (bd_isolation b)) + 4 \<le> 1024 * 1024 \<and>
    length (encode_capability_surface (bd_capabilities b)) + 4 \<le> 1024 * 1024"

definition backing_fields :: "backing_descriptor \<Rightarrow> field_entry list" where
  "backing_fields b =
    [(kFieldLabel, FT_Str, counted (map char_byte (bd_label b))),
     (kFieldBackingClass, FT_U64, enc_u64 (of_nat (backing_class_value (bd_klass b)))),
     (kFieldMultiplexing, FT_U64, enc_u64 (of_nat (multiplexing_value (bd_multiplexing b)))),
     (kFieldIsolationClass, FT_U64, enc_u64 (of_nat (isolation_class_value (bd_isolation_class b)))),
     (kFieldCapacityBytes, FT_U64, enc_u64 (bd_capacity_bytes b)),
     (kFieldComputeUnits, FT_U64, enc_u64 (ucast (bd_compute_units b))),
     (kFieldMechanism, FT_Str, counted (map char_byte (bd_mechanism b))),
     (kFieldExclusive, FT_Bool, [if bd_exclusive b then 1 else 0]),
     (kFieldExternallyManaged, FT_Bool, [if bd_externally_lifecycle_managed b then 1 else 0]),
     (kFieldExternalPartitionRef, FT_Str, counted (map char_byte (bd_external_partition_ref b))),
     (kFieldIsolationBlob, FT_Bytes, counted (encode_isolation_profile (bd_isolation b))),
     (kFieldCapabilitiesBlob, FT_Bytes, counted (encode_capability_surface (bd_capabilities b)))]"

lemma backing_fields_encode:
  assumes "backing_describable b"
  shows "encode_backing_descriptor b = writer_take (backing_fields b)"
proof -
  have "fold profile_set (bd_isolation b) [] = bd_isolation b"
    using assms profile_rebuild_append [of "[]" "bd_isolation b"] by (simp add: backing_describable_def isolation_profile_fits_def)
  then show ?thesis
    by (simp add: encode_backing_descriptor_def backing_fields_def write_steps_def writer_str_def writer_u64_def
        writer_boolean_def writer_bytes_def encode_isolation_blob_def encode_capabilities_blob_def field_keys)
qed

lemma backing_reads:
  assumes "backing_describable b"
  shows "reader_create (encode_backing_descriptor b) default_limits = Inr (sort_key fst (backing_fields b))"
    "decode_backing_descriptor (sort_key fst (backing_fields b)) = Some (Inr b)"
proof -
  define fm where "fm = sort_key fst (backing_fields b)"
  have keys: "distinct (map fst (backing_fields b))" by (simp add: backing_fields_def field_keys)
  have len: "list_all (\<lambda>(key, type, payload). length payload \<le> 1024 * 1024) (backing_fields b)"
    using assms by (simp add: backing_fields_def backing_describable_def text_fits_def counted_def)
  show "reader_create (encode_backing_descriptor b) default_limits = Inr (sort_key fst (backing_fields b))"
    unfolding backing_fields_encode [OF assms] by (rule reader_create_written [OF keys _ len]) (simp add: backing_fields_def)
  have find: "om_find fm key = map_of (backing_fields b) key" for key using sort_fields [OF keys] by (simp add: om_find_def fm_def)
  have "reader_str fm kFieldLabel = FA_Value (bd_label b)" "reader_str fm kFieldMechanism = FA_Value (bd_mechanism b)"
      "reader_str fm kFieldExternalPartitionRef = FA_Value (bd_external_partition_ref b)"
      "reader_bytes fm kFieldIsolationBlob = FA_Value (encode_isolation_profile (bd_isolation b))"
      "reader_bytes fm kFieldCapabilitiesBlob = FA_Value (encode_capability_surface (bd_capabilities b))"
    using assms by (auto intro!: read_written simp: find backing_fields_def field_keys backing_describable_def text_fits_def)
  moreover have "reader_u64 fm kFieldBackingClass = FA_Value (of_nat (backing_class_value (bd_klass b)))"
      "reader_u64 fm kFieldMultiplexing = FA_Value (of_nat (multiplexing_value (bd_multiplexing b)))"
      "reader_u64 fm kFieldIsolationClass = FA_Value (of_nat (isolation_class_value (bd_isolation_class b)))"
      "reader_u64 fm kFieldCapacityBytes = FA_Value (bd_capacity_bytes b)"
      "reader_u64 fm kFieldComputeUnits = FA_Value (ucast (bd_compute_units b))"
      "reader_boolean fm kFieldExclusive = FA_Value (bd_exclusive b)"
      "reader_boolean fm kFieldExternallyManaged = FA_Value (bd_externally_lifecycle_managed b)"
    by (auto intro!: read_written simp: find backing_fields_def field_keys)
  moreover have "whole_blob decode_isolation_profile (encode_isolation_profile (bd_isolation b)) = Inr (bd_isolation b)"
      "whole_blob decode_capability_surface (encode_capability_surface (bd_capabilities b)) = Inr (bd_capabilities b)"
    using assms by (simp_all add: isolation_profile_codec.whole_blob_value capability_surface_codec.whole_blob_value backing_describable_def)
  ultimately show "decode_backing_descriptor (sort_key fst (backing_fields b)) = Some (Inr b)"
    unfolding fm_def [symmetric] by (simp add: decode_backing_descriptor_def require_str_def require_u64_def domain_values blob_value_def)
qed

definition describable :: "device_descriptor \<Rightarrow> bool" where
  "describable d \<longleftrightarrow> list_all text_fits [dd_stable_key d, dd_vendor d, dd_model d, dd_driver_version d, dd_architecture d, dd_mechanism d] \<and>
    list_all backing_describable (dd_backings d) \<and> length (dd_backings d) \<le> 64 \<and>
    sum_list (map (\<lambda>b. length (encode_backing_descriptor b) + 4) (dd_backings d)) + 4 \<le> 1024 * 1024"

definition device_fields :: "device_descriptor \<Rightarrow> field_entry list" where
  "device_fields d =
    [(kFieldStableKey, FT_Str, counted (map char_byte (dd_stable_key d))),
     (kFieldVendor, FT_Str, counted (map char_byte (dd_vendor d))),
     (kFieldModel, FT_Str, counted (map char_byte (dd_model d))),
     (kFieldDriverVersion, FT_Str, counted (map char_byte (dd_driver_version d))),
     (kFieldArchitecture, FT_Str, counted (map char_byte (dd_architecture d))),
     (kFieldProvenance, FT_U64, enc_u64 (of_nat (provenance_value (dd_provenance d)))),
     (kFieldDeviceMemoryTotal, FT_U64, enc_u64 (dd_memory_total_bytes d)),
     (kFieldComputeUnits, FT_U64, enc_u64 (ucast (dd_compute_units d))),
     (kFieldCcMajor, FT_U64, enc_u64 (ucast (dd_compute_capability_major d))),
     (kFieldCcMinor, FT_U64, enc_u64 (ucast (dd_compute_capability_minor d))),
     (kFieldMechanism, FT_Str, counted (map char_byte (dd_mechanism d))),
     (kFieldHardwarePartitionCapable, FT_Bool, [if dd_hardware_partition_capable d then 1 else 0]),
     (kFieldVirtualFunctionCapable, FT_Bool, [if dd_virtual_function_capable d then 1 else 0]),
     (kFieldMigCapable, FT_Bool, [if dd_mig_capable d then 1 else 0]),
     (kFieldBackings, FT_ListNested, enc_u32 (of_nat (length (map encode_backing_descriptor (dd_backings d)))) @
        concat (map counted (map encode_backing_descriptor (dd_backings d))))]"

lemma device_fields_encode: "encode_physical_descriptor d = writer_take (device_fields d)"
  by (simp add: encode_physical_descriptor_def device_fields_def write_steps_def writer_str_def writer_u64_def
      writer_boolean_def writer_nested_list_def field_keys)

lemma nested_length: "length (concat (map counted (map enc bs))) = sum_list (map (\<lambda>b. length (enc b) + 4) bs)"
  by (induction bs) (simp_all add: counted_def)

lemma decode_backings_all:
  "list_all backing_describable bs \<Longrightarrow>
   decode_backings (map (\<lambda>item. reader_create item default_limits) (map encode_backing_descriptor bs)) = Some (Inr bs)"
  by (induction bs) (simp_all add: backing_reads)

lemma describable_nested:
  assumes "describable d" and "b \<in> set (dd_backings d)"
  shows "length (encode_backing_descriptor b) < 2 ^ 32"
proof -
  have "length (encode_backing_descriptor b) + 4 \<le> sum_list (map (\<lambda>b. length (encode_backing_descriptor b) + 4) (dd_backings d))"
    using assms(2) by (intro member_le_sum_list) auto
  then show ?thesis using assms(1) by (simp add: describable_def)
qed

lemma device_reads:
  assumes "describable d"
  shows "reader_create (encode_physical_descriptor d) default_limits = Inr (sort_key fst (device_fields d))"
    "decode_physical_descriptor (sort_key fst (device_fields d)) = Some (Inr d)"
proof -
  define fm where "fm = sort_key fst (device_fields d)"
  have keys: "distinct (map fst (device_fields d))" by (simp add: device_fields_def field_keys)
  have len: "list_all (\<lambda>(key, type, payload). length payload \<le> 1024 * 1024) (device_fields d)"
    using assms nested_length [of encode_backing_descriptor "dd_backings d"]
    by (simp add: device_fields_def describable_def text_fits_def counted_def)
  show "reader_create (encode_physical_descriptor d) default_limits = Inr (sort_key fst (device_fields d))"
    unfolding device_fields_encode by (rule reader_create_written [OF keys _ len]) (simp add: device_fields_def)
  have find: "om_find fm key = map_of (device_fields d) key" for key using sort_fields [OF keys] by (simp add: om_find_def fm_def)
  have "reader_str fm kFieldStableKey = FA_Value (dd_stable_key d)" "reader_str fm kFieldVendor = FA_Value (dd_vendor d)"
      "reader_str fm kFieldModel = FA_Value (dd_model d)" "reader_str fm kFieldDriverVersion = FA_Value (dd_driver_version d)"
      "reader_str fm kFieldArchitecture = FA_Value (dd_architecture d)" "reader_str fm kFieldMechanism = FA_Value (dd_mechanism d)"
    using assms by (auto intro!: read_written simp: find device_fields_def field_keys describable_def text_fits_def)
  moreover have "reader_u64 fm kFieldProvenance = FA_Value (of_nat (provenance_value (dd_provenance d)))"
      "reader_u64 fm kFieldDeviceMemoryTotal = FA_Value (dd_memory_total_bytes d)"
      "reader_u64 fm kFieldComputeUnits = FA_Value (ucast (dd_compute_units d))"
      "reader_u64 fm kFieldCcMajor = FA_Value (ucast (dd_compute_capability_major d))"
      "reader_u64 fm kFieldCcMinor = FA_Value (ucast (dd_compute_capability_minor d))"
      "reader_boolean fm kFieldHardwarePartitionCapable = FA_Value (dd_hardware_partition_capable d)"
      "reader_boolean fm kFieldVirtualFunctionCapable = FA_Value (dd_virtual_function_capable d)"
      "reader_boolean fm kFieldMigCapable = FA_Value (dd_mig_capable d)"
    by (auto intro!: read_written simp: find device_fields_def field_keys)
  moreover have "reader_nested_list fm kFieldBackings =
      map (\<lambda>item. reader_create item default_limits) (map encode_backing_descriptor (dd_backings d))"
    using assms describable_nested [OF assms]
    by (intro read_nested) (simp add: find device_fields_def field_keys, simp add: describable_def, simp add: list_all_iff)
  moreover have "decode_backings (map (\<lambda>item. reader_create item default_limits) (map encode_backing_descriptor (dd_backings d))) =
      Some (Inr (dd_backings d))" "length (dd_backings d) \<le> 64"
    using assms decode_backings_all by (simp_all add: describable_def)
  ultimately show "decode_physical_descriptor (sort_key fst (device_fields d)) = Some (Inr d)"
    unfolding fm_def [symmetric]
    by (simp add: decode_physical_descriptor_def require_str_def require_u64_def domain_values Let_def)
qed

text \<open>C24: what an agent registers is what it found. A device descriptor that the sender encodes is decoded by the coordinator
  to the same descriptor, every backing with its claims and capabilities, and nothing in it is read out of bounds;
  texts, blobs and the nested list have to fit the fields, and the claims to be listed by dimension.\<close>

theorem descriptor_roundtrip:
  assumes "describable d"
  shows "\<exists>fm. reader_create (encode_physical_descriptor d) default_limits = Inr fm \<and> decode_physical_descriptor fm = Some (Inr d)"
  using device_reads [OF assms] by blast

end
