(* ===== verification/AV_Coordinator.thy ===== *)
theory AV_Coordinator
  imports AV_Descriptor AV_Durability AV_Scope AV_Audit
begin

text \<open>
  The coordinator's request handling (\<open>apps/coordinator_main.cpp\<close>, with \<open>read_authority\<close> and \<open>Response\<close> of
  \<open>apps/proto_util.hpp\<close>): the handshake, the requests of clients and agents, and execution through an agent.

  A handler reads fields of the request, calls the runtime and builds a response. Its value is \<open>None\<close> if it reads a field
  past its payload. The text of an error is left out of the response and is an argument where the response is encoded.
  The renderings of reports and of the state as text, and the figures of the store, are the record \<open>renderings\<close>.

  Connections are served by threads; every call of the runtime is atomic. A handler other than execution makes one
  call that changes the state, so handlers are modelled as steps; the two calls of an execution may have other steps
  between them, which is why they take separate environments and are stated as separate operations.

  The properties are in \<open>AV_Service\<close>.
\<close>

section \<open>Requests and responses\<close>

definition read_option :: "u64 field_access \<Rightarrow> (u64 \<Rightarrow> 'a) \<Rightarrow> 'a option" where
  "read_option a mk = (case a of FA_Value v \<Rightarrow> Some (mk v) | _ \<Rightarrow> None)"

definition read_authority :: "field_map \<Rightarrow> authority" where
  "read_authority fm = blank_authority
    \<lparr> auth_epoch := read_option (reader_u64 fm kFieldEpoch) Generation,
      auth_tenant := read_option (reader_u64 fm kFieldTenantId) Ident,
      auth_tenant_generation := read_option (reader_u64 fm kFieldTenantGeneration) Generation,
      auth_virtual_id := read_option (reader_u64 fm kFieldVirtualId) Ident,
      auth_virtual_generation := read_option (reader_u64 fm kFieldVirtualGeneration) Generation,
      auth_backing := read_option (reader_u64 fm kFieldBackingId) Ident,
      auth_backing_generation := read_option (reader_u64 fm kFieldBackingGeneration) Generation,
      auth_physical := read_option (reader_u64 fm kFieldPhysicalId) Ident,
      auth_physical_generation := read_option (reader_u64 fm kFieldPhysicalGeneration) Generation,
      auth_lease := read_option (reader_u64 fm kFieldLeaseId) Ident,
      auth_lease_generation := read_option (reader_u64 fm kFieldLeaseGeneration) Generation,
      auth_policy_generation := read_option (reader_u64 fm kFieldPolicyGeneration) Generation,
      auth_migration := read_option (reader_u64 fm kFieldMigrationId) Ident,
      auth_migration_generation := read_option (reader_u64 fm kFieldMigrationGeneration) Generation,
      auth_request := read_option (reader_u64 fm kFieldRequest) Ident \<rparr>"

text \<open>A failure with its code, an answer, or what an agent answered, passed on.\<close>

datatype response = Failure status_code | Fields "field_entry list" | Relayed u32 bytes

definition response_flags :: "response \<Rightarrow> u32" where
  "response_flags r = (case r of Failure _ \<Rightarrow> kFlagError | Fields _ \<Rightarrow> 0 | Relayed flags _ \<Rightarrow> flags)"

definition response_payload :: "string \<Rightarrow> response \<Rightarrow> bytes" where
  "response_payload detail r =
    (case r of Failure c \<Rightarrow> encode_error_payload c detail | Fields es \<Rightarrow> writer_take es | Relayed _ payload \<Rightarrow> payload)"

definition epoch_value :: "impl \<Rightarrow> u64" where
  "epoch_value im = gen_value (st_epoch (im_state im))"

definition ok_epoch :: "impl \<Rightarrow> field_entry list \<Rightarrow> response" where
  "ok_epoch im es = Fields (writer_u64 kFieldEpoch (epoch_value im) es)"

definition wrap_blob :: "u16 \<Rightarrow> bytes \<Rightarrow> bytes" where
  "wrap_blob key blob = writer_take (writer_bytes key blob [])"

definition blobs_response :: "bytes list \<Rightarrow> response" where
  "blobs_response items = Fields (writer_nested_list kFieldBlobs items [])"

type_synonym handled = "(response \<times> impl) result option"

text \<open>\<open>if (!x.ok()) return Response::failure(x.status());\<close> after a call of the runtime, then the answer with the epoch.\<close>

definition answer :: "'a result \<times> impl \<Rightarrow> ('a \<Rightarrow> field_entry list) \<Rightarrow> handled" where
  "answer out fields_of =
    (case out of (Inl c, im) \<Rightarrow> Some (Inr (Failure c, im))
     | (Inr v, im) \<Rightarrow> Some (Inr (ok_epoch im (fields_of v), im)))"

text \<open>Questions leave the state alone.\<close>

definition tell :: "impl \<Rightarrow> 'a result \<Rightarrow> ('a \<Rightarrow> field_entry list) \<Rightarrow> handled" where
  "tell im r fields_of = answer (r, im) fields_of"

section \<open>Requests of a client\<close>

record renderings =
  rn_texts :: log_texts
  rn_audit :: "audit_report \<Rightarrow> string"
  rn_snapshot :: "vstate \<Rightarrow> string"
  rn_accounting :: "accounting \<Rightarrow> string"
  rn_store :: string
  rn_bytes :: u64
  rn_writes :: u64

definition client_authority :: "field_map \<Rightarrow> rq_id \<Rightarrow> u64 \<Rightarrow> impl \<Rightarrow> authority" where
  "client_authority fm request session im =
    (let auth = read_authority fm in auth
     \<lparr> auth_epoch := (case auth_epoch auth of None \<Rightarrow> Some (st_epoch (im_state im)) | Some g \<Rightarrow> Some g),
       auth_request := Some request, auth_session := Some session \<rparr>)"

definition txt_fenced_by_operator :: string where "txt_fenced_by_operator = ''fenced by operator''"
definition txt_operator_request :: string where "txt_operator_request = ''operator request''"
definition txt_revoked_by_operator :: string where "txt_revoked_by_operator = ''revoked by operator''"

subsection \<open>Tenants\<close>

definition handle_create_tenant :: "env \<Rightarrow> field_map \<Rightarrow> authority \<Rightarrow> impl \<Rightarrow> handled" where
  "handle_create_tenant e fm auth im =
    given [] (reader_str fm kFieldTenantName) (\<lambda>name.
    given [] (reader_str fm kFieldExternalSubject) (\<lambda>subject.
    answer (create_tenant e auth name subject im) (\<lambda>t. write_steps
      [writer_bytes kFieldTenantBlob (encode_tenant_record t), writer_u64 kFieldTenantId (id_value (tn_id t)),
       writer_u64 kFieldTenantGeneration (gen_value (tn_generation t))])))"

definition handle_list_tenants :: "impl \<Rightarrow> handled" where
  "handle_list_tenants im =
    Some (Inr (blobs_response (map (\<lambda>t. wrap_blob kFieldTenantBlob (encode_tenant_record t)) (list_tenants im)), im))"

definition handle_fence_tenant :: "env \<Rightarrow> field_map \<Rightarrow> authority \<Rightarrow> impl \<Rightarrow> handled" where
  "handle_fence_tenant e fm auth im =
    attempt (require_u64 fm kFieldTenantId) (\<lambda>i.
    attempt (require_u64 fm kFieldTenantGeneration) (\<lambda>g.
    given txt_fenced_by_operator (reader_str fm kFieldReason) (\<lambda>reason.
    answer (fence_tenant e auth (Ident i) (Generation g) reason im) (\<lambda>_. []))))"

definition handle_transfer_ownership :: "env \<Rightarrow> field_map \<Rightarrow> authority \<Rightarrow> impl \<Rightarrow> handled" where
  "handle_transfer_ownership e fm auth im =
    attempt (require_u64 fm kFieldNewOwnerId) (\<lambda>i.
    attempt (require_u64 fm kFieldNewOwnerGeneration) (\<lambda>g.
    answer (transfer_ownership e auth (Ident i) (Generation g) im)
      (\<lambda>t. write_steps [writer_bytes kFieldTenantBlob (encode_tenant_record t)])))"

subsection \<open>Virtual accelerators\<close>

definition handle_create_virtual :: "env \<Rightarrow> field_map \<Rightarrow> authority \<Rightarrow> impl \<Rightarrow> handled" where
  "handle_create_virtual e fm auth im =
    given [] (reader_str fm kFieldVirtualName) (\<lambda>name.
    attempt (require_u64 fm kFieldTenantId) (\<lambda>owner.
    attempt (require_u64 fm kFieldTenantGeneration) (\<lambda>g.
    attempt (require_bytes fm kFieldContractBlob) (\<lambda>blob.
    case decode_contract_blob blob of Inl c \<Rightarrow> Some (Inl c)
    | Inr contract \<Rightarrow>
      answer (create_virtual e auth name (Ident owner) (Generation g) contract im) (\<lambda>r. write_steps
        [writer_bytes kFieldVirtualBlob (encode_virtual_record r), writer_u64 kFieldVirtualId (id_value (va_id r)),
         writer_u64 kFieldVirtualGeneration (gen_value (va_generation r))])))))"

definition handle_update_contract :: "env \<Rightarrow> field_map \<Rightarrow> authority \<Rightarrow> impl \<Rightarrow> handled" where
  "handle_update_contract e fm auth im =
    attempt (require_bytes fm kFieldContractBlob) (\<lambda>blob.
    case decode_contract_blob blob of Inl c \<Rightarrow> Some (Inl c)
    | Inr contract \<Rightarrow> answer (update_contract e auth contract im)
        (\<lambda>r. write_steps [writer_bytes kFieldVirtualBlob (encode_virtual_record r)]))"

definition handle_assign :: "bool \<Rightarrow> env \<Rightarrow> field_map \<Rightarrow> authority \<Rightarrow> impl \<Rightarrow> handled" where
  "handle_assign replacing e fm auth im =
    attempt (require_u64 fm kFieldBackingId) (\<lambda>b.
    given txt_operator_request (reader_str fm kFieldReason) (\<lambda>reason.
    answer ((if replacing then replace_backing else assign_backing) e auth (Ident b) reason im) (\<lambda>a. write_steps
      [writer_u64 kFieldBackingId (id_value (as_backing a)),
       writer_u64 kFieldBackingGeneration (gen_value (as_backing_generation a)),
       writer_u64 kFieldVirtualGeneration (gen_value (as_virtual_generation a))])))"

text \<open>The seven requests that move the lifecycle share their answer; each takes the runtime call it makes.\<close>

definition handle_lifecycle :: "(string \<Rightarrow> impl \<Rightarrow> virtual_record result \<times> impl) \<Rightarrow> field_map \<Rightarrow> impl \<Rightarrow> handled" where
  "handle_lifecycle call fm im =
    given txt_operator_request (reader_str fm kFieldReason) (\<lambda>reason.
    answer (call reason im) (\<lambda>r. write_steps
      [writer_bytes kFieldVirtualBlob (encode_virtual_record r),
       writer_u64 kFieldVirtualGeneration (gen_value (va_generation r)),
       writer_u64 kFieldStateGeneration (gen_value (va_state_generation r)),
       writer_u64 kFieldState (of_nat (lifecycle_value (va_state r)))]))"

subsection \<open>Leases\<close>

definition handle_attach :: "env \<Rightarrow> authority \<Rightarrow> impl \<Rightarrow> handled" where
  "handle_attach e auth im = answer (attach e auth im) (\<lambda>l. write_steps
    [writer_bytes kFieldLeaseBlob (encode_lease_record l), writer_u64 kFieldLeaseId (id_value (ls_id l)),
     writer_u64 kFieldLeaseGeneration (gen_value (ls_generation l)),
     writer_u64 kFieldVirtualGeneration (gen_value (ls_virtual_generation l)),
     writer_u64 kFieldBackingGeneration (gen_value (ls_backing_generation l))])"

definition handle_renew :: "env \<Rightarrow> authority \<Rightarrow> impl \<Rightarrow> handled" where
  "handle_renew e auth im = answer (renew_lease e auth im) (\<lambda>l. write_steps
    [writer_bytes kFieldLeaseBlob (encode_lease_record l), writer_u64 kFieldLeaseGeneration (gen_value (ls_generation l))])"

definition handle_detach :: "env \<Rightarrow> authority \<Rightarrow> impl \<Rightarrow> handled" where
  "handle_detach e auth im = answer (detach e auth im) (\<lambda>_. [])"

definition handle_revoke :: "env \<Rightarrow> field_map \<Rightarrow> authority \<Rightarrow> impl \<Rightarrow> handled" where
  "handle_revoke e fm auth im =
    given txt_revoked_by_operator (reader_str fm kFieldReason) (\<lambda>reason. answer (revoke_lease e auth reason im) (\<lambda>_. []))"

subsection \<open>Policy and migration\<close>

definition handle_set_policy :: "env \<Rightarrow> field_map \<Rightarrow> authority \<Rightarrow> impl \<Rightarrow> handled" where
  "handle_set_policy e fm auth im =
    attempt (require_bytes fm kFieldPolicyBlob) (\<lambda>blob.
    case decode_policy_blob blob of Inl c \<Rightarrow> Some (Inl c)
    | Inr policy \<Rightarrow> answer (set_policy e auth policy im) (\<lambda>p. write_steps
        [writer_bytes kFieldPolicyBlob (encode_policy_blob p),
         writer_u64 kFieldPolicyGeneration (gen_value (pol_generation p))]))"

definition handle_get_policy :: "impl \<Rightarrow> handled" where
  "handle_get_policy im = tell im (Inr (st_policy (im_state im))) (\<lambda>p. write_steps
    [writer_bytes kFieldPolicyBlob (encode_policy_blob p),
     writer_u64 kFieldPolicyGeneration (gen_value (st_policy_generation (im_state im)))])"

definition handle_plan :: "env \<Rightarrow> field_map \<Rightarrow> authority \<Rightarrow> impl \<Rightarrow> handled" where
  "handle_plan e fm auth im =
    attempt (require_u64 fm kFieldBackingId) (\<lambda>b.
    attempt (require_u64 fm kFieldMigrationClass) (\<lambda>raw. in_domain migration_class_table raw (\<lambda>klass.
    answer (plan_migration e auth (Ident b) klass im) (\<lambda>m. write_steps
      [writer_bytes kFieldMigrationBlob (encode_migration_record m), writer_u64 kFieldMigrationId (id_value (mp_id (mg_plan m))),
       writer_u64 kFieldMigrationGeneration (gen_value (mp_generation (mg_plan m)))]))))"

definition handle_migration :: "(string \<Rightarrow> impl \<Rightarrow> migration_record result \<times> impl) \<Rightarrow> field_map \<Rightarrow> impl \<Rightarrow> handled" where
  "handle_migration call fm im =
    given txt_operator_request (reader_str fm kFieldReason) (\<lambda>reason.
    answer (call reason im) (\<lambda>m. write_steps
      [writer_bytes kFieldMigrationBlob (encode_migration_record m), writer_u64 kFieldMigrationId (id_value (mp_id (mg_plan m))),
       writer_u64 kFieldMigrationGeneration (gen_value (mp_generation (mg_plan m))),
       writer_u64 kFieldState (of_nat (migration_state_value (mg_state m)))]))"

subsection \<open>Questions\<close>

definition handle_about :: "field_map \<Rightarrow> impl \<Rightarrow> (va_id \<Rightarrow> 'a result) \<Rightarrow> (u64 \<Rightarrow> 'a \<Rightarrow> field_entry list) \<Rightarrow> handled" where
  "handle_about fm im ask fields_of =
    attempt (require_u64 fm kFieldVirtualId) (\<lambda>i. tell im (ask (Ident i)) (fields_of i))"

definition handle_query :: "field_map \<Rightarrow> authority \<Rightarrow> impl \<Rightarrow> handled" where
  "handle_query fm auth im = handle_about fm im (\<lambda>i. query_virtual auth i im)
    (\<lambda>_ v. write_steps [writer_bytes kFieldViewBlob (encode_view v)])"

definition handle_list_virtual :: "authority \<Rightarrow> impl \<Rightarrow> handled" where
  "handle_list_virtual auth im =
    Some (Inr (blobs_response (map (\<lambda>v. wrap_blob kFieldViewBlob (encode_view v)) (list_virtual auth im)), im))"

definition handle_list_backings :: "impl \<Rightarrow> handled" where
  "handle_list_backings im =
    Some (Inr (blobs_response (map (\<lambda>b. wrap_blob kFieldBackingBlob (encode_backing_record b)) (list_backings im)), im))"

definition handle_list_physical :: "impl \<Rightarrow> handled" where
  "handle_list_physical im =
    Some (Inr (blobs_response (map (\<lambda>p. wrap_blob kFieldPhysicalBlob (encode_physical_record p)) (list_physical im)), im))"

definition handle_capability_show :: "field_map \<Rightarrow> impl \<Rightarrow> handled" where
  "handle_capability_show fm im = handle_about fm im (\<lambda>i. get_projection i im)
    (\<lambda>i p. write_steps [writer_bytes kFieldProjectionBlob (encode_projection_blob p), writer_u64 kFieldVirtualId i])"

definition handle_contract_show :: "field_map \<Rightarrow> impl \<Rightarrow> handled" where
  "handle_contract_show fm im = handle_about fm im (\<lambda>i. get_contract i im)
    (\<lambda>_ c. write_steps [writer_bytes kFieldContractBlob (encode_contract_blob c)])"

definition handle_isolation_explain :: "field_map \<Rightarrow> impl \<Rightarrow> handled" where
  "handle_isolation_explain fm im = handle_about fm im (\<lambda>i. explain_isolation i im)
    (\<lambda>_ x. write_steps [writer_bytes kFieldIsolationBlob (encode_isolation_explanation x)])"

definition handle_migration_explain :: "field_map \<Rightarrow> impl \<Rightarrow> handled" where
  "handle_migration_explain fm im = handle_about fm im (\<lambda>i. explain_migration i im)
    (\<lambda>_ x. write_steps [writer_bytes kFieldMigrationBlob (encode_migration_explanation x)])"

definition handle_explain_decisions :: "renderings \<Rightarrow> field_map \<Rightarrow> impl \<Rightarrow> handled" where
  "handle_explain_decisions rn fm im =
    attempt (require_u64 fm kFieldVirtualId) (\<lambda>i.
    given 16 (reader_u64 fm kFieldLimit) (\<lambda>limit.
    Some (Inr (blobs_response (map (\<lambda>d. wrap_blob kFieldDecisionBlob
      (encode_decision_record (stored_decision_of (rn_texts rn) d))) (explain_decisions (Ident i) (unat limit) im)), im))))"

definition handle_audit :: "renderings \<Rightarrow> impl \<Rightarrow> handled" where
  "handle_audit rn im =
    (let r = run_invariant_audit (\<lambda>s. state_fingerprint (stored_of (rn_texts rn) s)) (im_state im) in
     tell im (Inr r) (\<lambda>r. write_steps
       [writer_str kFieldText (rn_audit rn r), writer_boolean kFieldClean (audit_clean r),
        writer_u64 kFieldViolationCount (of_nat (length (ar_violations r))),
        writer_u64 kFieldDigest (ar_state_fingerprint r)]))"

definition handle_snapshot :: "renderings \<Rightarrow> impl \<Rightarrow> handled" where
  "handle_snapshot rn im = tell im (Inr ()) (\<lambda>_. write_steps
    [writer_str kFieldText (rn_snapshot rn (im_state im)),
     writer_u64 kFieldDigest (state_fingerprint (stored_of (rn_texts rn) (im_state im))),
     writer_str kFieldDetail (rn_store rn), writer_u64 kFieldBytes (rn_bytes rn), writer_u64 kFieldCount (rn_writes rn)])"

definition handle_accounting :: "renderings \<Rightarrow> impl \<Rightarrow> handled" where
  "handle_accounting rn im = tell im (Inr ()) (\<lambda>_. write_steps
    [writer_bytes kFieldAccountingBlob (encode_accounting_blob (accounting_of im)),
     writer_str kFieldText (rn_accounting rn (accounting_of im))])"

section \<open>The server\<close>

record agent_link =
  al_boot :: boot_id
  al_name :: string
  al_alive :: bool
  al_devices :: "(pd_id, string) omap"

record server =
  sv_impl :: impl
  sv_agents :: "(ag_id, agent_link) omap"
  sv_next_session :: u64
  sv_shutdown_requested :: bool
  sv_name :: string

definition owns :: "agent_link \<Rightarrow> pd_id \<Rightarrow> bool" where
  "owns link device = om_contains (al_devices link) device"

definition stable_key_for :: "agent_link \<Rightarrow> pd_id \<Rightarrow> string" where
  "stable_key_for link device = (case om_find (al_devices link) device of None \<Rightarrow> [] | Some key \<Rightarrow> key)"

definition note_device :: "pd_id \<Rightarrow> string \<Rightarrow> agent_link \<Rightarrow> agent_link" where
  "note_device device key link = link\<lparr> al_devices := om_put device key (al_devices link) \<rparr>"

definition find_agent_for :: "server \<Rightarrow> pd_id \<Rightarrow> agent_link option" where
  "find_agent_for sv device = List.find (\<lambda>link. owns link device) (om_values (sv_agents sv))"

subsection \<open>Execution through an agent\<close>

datatype execution_op = XO_Unknown | XO_Allocate | XO_Free | XO_Upload | XO_Download | XO_KernelVectorAdd | XO_Synchronize | XO_DeviceInfo

definition execution_ops :: "execution_op list" where
  "execution_ops = [XO_Unknown, XO_Allocate, XO_Free, XO_Upload, XO_Download, XO_KernelVectorAdd, XO_Synchronize, XO_DeviceInfo]"

primrec execution_op_value :: "execution_op \<Rightarrow> nat" where
  "execution_op_value XO_Unknown = 0"
| "execution_op_value XO_Allocate = 1"
| "execution_op_value XO_Free = 2"
| "execution_op_value XO_Upload = 3"
| "execution_op_value XO_Download = 4"
| "execution_op_value XO_KernelVectorAdd = 5"
| "execution_op_value XO_Synchronize = 6"
| "execution_op_value XO_DeviceInfo = 7"

text \<open>What comes back over the agent's link: flags and payload of the response. The agent is another process.\<close>

type_synonym agent_answer = "field_entry list \<Rightarrow> u32 \<times> bytes"

text \<open>The fields of the request that execution reads.\<close>

record execution_fields =
  xf_op :: execution_op
  xf_target :: va_id
  xf_bytes :: u64
  xf_handle :: u64
  xf_count :: u64
  xf_handles :: "u64 list"
  xf_data :: bytes

text \<open>The response, the state, and the requests that were sent to the agent.\<close>

type_synonym executed = "response \<times> impl \<times> field_entry list list"

definition agent_request :: "execution_fields \<Rightarrow> agent_link \<Rightarrow> pd_id \<Rightarrow> field_entry list" where
  "agent_request x link device = write_steps
    ([writer_u64 kFieldOp (of_nat (execution_op_value (xf_op x))), writer_str kFieldStableKey (stable_key_for link device),
      writer_u64 kFieldPhysicalId (id_value device), writer_u64 kFieldBytes (xf_bytes x), writer_u64 kFieldHandle (xf_handle x),
      writer_u64 kFieldCount (xf_count x), writer_list_u64 kFieldHandles (xf_handles x)] @
     (if xf_data x = [] then [] else [writer_bytes kFieldData (xf_data x)]))"

text \<open>The reservation is given back when the agent does not perform the allocation; the outcome is ignored.\<close>

definition give_back :: "bool \<Rightarrow> env \<Rightarrow> authority \<Rightarrow> u64 \<Rightarrow> impl \<Rightarrow> impl" where
  "give_back reserved e auth n im = (if reserved then snd (release_allocation e auth n im) else im)"

definition copy_u64 :: "u16 \<Rightarrow> field_map \<Rightarrow> field_entry list \<Rightarrow> field_entry list" where
  "copy_u64 key fm = (case reader_u64 fm key of FA_Value v \<Rightarrow> writer_u64 key v | _ \<Rightarrow> (\<lambda>es. es))"

definition execution_response :: "field_map \<Rightarrow> impl \<Rightarrow> response option" where
  "execution_response agent_fields im =
    (case (reader_str agent_fields kFieldDetail, reader_bytes agent_fields kFieldData) of
       (FA_Overrun, _) \<Rightarrow> None
     | (_, FA_Overrun) \<Rightarrow> None
     | (detail, data) \<Rightarrow> Some (ok_epoch im (write_steps
         [writer_u64 kFieldStatus (ucast (code_value SC_Ok)), copy_u64 kFieldHandle agent_fields, copy_u64 kFieldBytes agent_fields,
          copy_u64 kFieldDeviceMemoryTotal agent_fields, copy_u64 kFieldDeviceMemoryFree agent_fields,
          (case detail of FA_Value t \<Rightarrow> writer_str kFieldDetail t | _ \<Rightarrow> (\<lambda>es. es)),
          (case data of FA_Value d \<Rightarrow> writer_bytes kFieldData d | _ \<Rightarrow> (\<lambda>es. es))])))"

text \<open>After the agent has performed the operation.\<close>

definition execution_accounting :: "env \<Rightarrow> execution_fields \<Rightarrow> authority \<Rightarrow> field_map \<Rightarrow> impl \<Rightarrow> status_code \<times> impl" where
  "execution_accounting e x auth agent_fields im =
    (if xf_op x = XO_KernelVectorAdd then report (account_kernel e auth (ucast (xf_count x)) im)
     else if xf_op x = XO_Free then
       let released = (case reader_u64 agent_fields kFieldBytes of FA_Value v \<Rightarrow> v | _ \<Rightarrow> 0) in
       (SC_Ok, if released > 0 then snd (release_allocation e auth released im) else im)
     else (SC_Ok, im))"

definition execution_outcome ::
  "env \<Rightarrow> agent_answer \<Rightarrow> execution_fields \<Rightarrow> authority \<Rightarrow> bool \<Rightarrow> agent_link \<Rightarrow> pd_id \<Rightarrow> impl \<Rightarrow> executed option" where
  "execution_outcome e agent x auth reserved link device im =
    (let sent = agent_request x link device; (flags, payload) = agent sent in
     if flags AND kFlagError \<noteq> 0
     then Some (Relayed flags payload, give_back reserved e auth (xf_bytes x) im, [sent])
     else case reader_create payload default_limits of
       Inl c \<Rightarrow> Some (Failure c, give_back reserved e auth (xf_bytes x) im, [sent])
     | Inr agent_fields \<Rightarrow>
       (case execution_accounting e x auth agent_fields im of (status, im1) \<Rightarrow>
        if status \<noteq> SC_Ok then Some (Failure status, im1, [sent])
        else case execution_response agent_fields im1 of None \<Rightarrow> None | Some r \<Rightarrow> Some (r, im1, [sent])))"

definition execution_authority :: "field_map \<Rightarrow> rq_id \<Rightarrow> u64 \<Rightarrow> authority" where
  "execution_authority fm request session = (read_authority fm)\<lparr> auth_request := Some request, auth_session := Some session \<rparr>"

definition execution_dispatch ::
  "env \<Rightarrow> env \<Rightarrow> agent_answer \<Rightarrow> execution_fields \<Rightarrow> authority \<Rightarrow> pd_id \<Rightarrow> server \<Rightarrow> executed option" where
  "execution_dispatch e e' agent x auth device sv =
    (let (reservation, im1) = (if xf_op x = XO_Allocate then report (reserve_allocation e auth (xf_bytes x) (sv_impl sv))
       else (SC_Ok, sv_impl sv)); reserved = (xf_op x = XO_Allocate) in
     if reservation \<noteq> SC_Ok then Some (Failure reservation, im1, [])
     else case find_agent_for sv device of
       None \<Rightarrow> Some (Failure SC_BackingUnavailable, give_back reserved e' auth (xf_bytes x) im1, [])
     | Some link \<Rightarrow>
       if \<not> al_alive link then Some (Failure SC_BackingUnavailable, give_back reserved e' auth (xf_bytes x) im1, [])
       else execution_outcome e' agent x auth reserved link device im1)"

definition execute_request ::
  "env \<Rightarrow> env \<Rightarrow> agent_answer \<Rightarrow> field_map \<Rightarrow> rq_id \<Rightarrow> u64 \<Rightarrow> server \<Rightarrow> executed result option" where
  "execute_request e e' agent fm request session sv =
    attempt (require_u64 fm kFieldOp) (\<lambda>raw. in_domain execution_ops raw (\<lambda>op.
    attempt (require_u64 fm kFieldVirtualId) (\<lambda>target.
    case raw_virtual (Ident target) (sv_impl sv) of Inl c \<Rightarrow> Some (Inl c)
    | Inr r \<Rightarrow>
      if \<not> id_valid (va_physical r) then Some (Inl SC_BackingUnavailable)
      else
        given 0 (reader_u64 fm kFieldBytes) (\<lambda>n.
        given 0 (reader_u64 fm kFieldHandle) (\<lambda>handle.
        given 0 (reader_u64 fm kFieldCount) (\<lambda>count.
        given [] (reader_list_u64 fm kFieldHandles) (\<lambda>handles.
        given [] (reader_bytes fm kFieldData) (\<lambda>data.
        let auth = execution_authority fm request session;
            x = \<lparr> xf_op = op, xf_target = Ident target, xf_bytes = n, xf_handle = handle, xf_count = count,
              xf_handles = handles, xf_data = data \<rparr> in
        if auth_epoch auth = None then Some (Inl SC_InvalidArgument)
        else map_option Inr (execution_dispatch e e' agent x auth (va_physical r) sv))))))))) "

section \<open>Dispatch\<close>

text \<open>The state a handler leaves becomes that of the server; a failure to read the request becomes a response.\<close>

definition on_server :: "server \<Rightarrow> handled \<Rightarrow> (response \<times> server) result option" where
  "on_server sv h = map_option (map_sum id (\<lambda>(r, im). (r, sv\<lparr> sv_impl := im \<rparr>))) h"

definition settle :: "server \<Rightarrow> (response \<times> server) result option \<Rightarrow> (response \<times> server) option" where
  "settle sv h = map_option (case_sum (\<lambda>c. (Failure c, sv)) id) h"

text \<open>The whole switch over the message type, execution and shutdown apart.\<close>

definition client_call :: "renderings \<Rightarrow> env \<Rightarrow> field_map \<Rightarrow> u16 \<Rightarrow> authority \<Rightarrow> impl \<Rightarrow> handled" where
  "client_call rn e fm type auth im =
    (if type = MT_CreateTenant then handle_create_tenant e fm auth im
     else if type = MT_ListTenants then handle_list_tenants im
     else if type = MT_FenceTenant then handle_fence_tenant e fm auth im
     else if type = MT_TransferOwnership then handle_transfer_ownership e fm auth im
     else if type = MT_CreateVirtual then handle_create_virtual e fm auth im
     else if type = MT_UpdateContract then handle_update_contract e fm auth im
     else if type = MT_AssignBacking then handle_assign False e fm auth im
     else if type = MT_ReplaceBacking then handle_assign True e fm auth im
     else if type = MT_ActivateVirtual then handle_lifecycle (\<lambda>_. activate e auth) fm im
     else if type = MT_SuspendVirtual then handle_lifecycle (suspend e auth) fm im
     else if type = MT_ResumeVirtual then handle_lifecycle (resume e auth) fm im
     else if type = MT_DrainVirtual then handle_lifecycle (drain e auth) fm im
     else if type = MT_ResolveRecovery then handle_lifecycle (resolve_recovery e auth) fm im
     else if type = MT_FenceVirtual then handle_lifecycle (fence_virtual e auth) fm im
     else if type = MT_RetireVirtual then handle_lifecycle (retire_virtual e auth) fm im
     else if type = MT_Attach then handle_attach e auth im
     else if type = MT_RenewLease then handle_renew e auth im
     else if type = MT_Detach then handle_detach e auth im
     else if type = MT_Revoke then handle_revoke e fm auth im
     else if type = MT_Query then handle_query fm auth im
     else if type = MT_ListVirtual then handle_list_virtual auth im
     else if type = MT_ListBackings then handle_list_backings im
     else if type = MT_ListPhysical then handle_list_physical im
     else if type = MT_CapabilityShow then handle_capability_show fm im
     else if type = MT_ContractShow then handle_contract_show fm im
     else if type = MT_IsolationExplain then handle_isolation_explain fm im
     else if type = MT_MigrationExplain then handle_migration_explain fm im
     else if type = MT_ExplainDecisions then handle_explain_decisions rn fm im
     else if type = MT_SetPolicy then handle_set_policy e fm auth im
     else if type = MT_GetPolicy then handle_get_policy im
     else if type = MT_MigrationPlan then handle_plan e fm auth im
     else if type = MT_MigrationPrepare then handle_migration (\<lambda>_. prepare_migration e auth) fm im
     else if type = MT_MigrationCommit then handle_migration (\<lambda>_. commit_migration e auth) fm im
     else if type = MT_MigrationComplete then handle_migration (\<lambda>_. complete_migration e auth) fm im
     else if type = MT_MigrationAbort then handle_migration (abort_migration e auth) fm im
     else if type = MT_Audit then handle_audit rn im
     else if type = MT_Snapshot then handle_snapshot rn im
     else if type = MT_Accounting then handle_accounting rn im
     else Some (Inl SC_UnsupportedMessage))"

definition handle_client_request ::
  "renderings \<Rightarrow> env \<Rightarrow> env \<Rightarrow> agent_answer \<Rightarrow> field_map \<Rightarrow> u16 \<Rightarrow> rq_id \<Rightarrow> u64 \<Rightarrow> server \<Rightarrow> (response \<times> server) option" where
  "handle_client_request rn e e' agent fm type request session sv =
    (if type = MT_Execute then
       settle sv (on_server sv (map_option (map_sum id (\<lambda>(r, im, sent). (r, im))) (execute_request e e' agent fm request session sv)))
     else if type = MT_Shutdown then
       Some (ok_epoch (sv_impl sv) (write_steps [writer_boolean kFieldShutdown True]), sv\<lparr> sv_shutdown_requested := True \<rparr>)
     else settle sv (on_server sv (client_call rn e fm type (client_authority fm request session (sv_impl sv)) (sv_impl sv))))"

section \<open>Requests of an agent\<close>

definition txt_device_absent :: string where "txt_device_absent = ''physical device is no longer present''"

definition handle_register_physical :: "env \<Rightarrow> field_map \<Rightarrow> rq_id \<Rightarrow> u64 \<Rightarrow> server \<Rightarrow> (response \<times> server) result option" where
  "handle_register_physical e fm request session sv =
    attempt (require_bytes fm kFieldDescriptorBlob) (\<lambda>blob.
    case reader_create blob default_limits of Inl c \<Rightarrow> Some (Inl c)
    | Inr dfm \<Rightarrow> (case decode_physical_descriptor dfm of None \<Rightarrow> None | Some (Inl c) \<Rightarrow> Some (Inl c)
    | Some (Inr d) \<Rightarrow>
      attempt (require_u64 fm kFieldAgentId) (\<lambda>i.
      attempt (require_u64 fm kFieldBootId) (\<lambda>boot.
      let auth = (current_authority (sv_impl sv))\<lparr> auth_request := Some request, auth_session := Some session \<rparr> in
      case do_register_physical e auth (Ident i) (Ident boot) d (sv_impl sv) of
        (Inl c, im) \<Rightarrow> Some (Inr (Failure c, sv\<lparr> sv_impl := im \<rparr>))
      | (Inr p, im) \<Rightarrow> Some (Inr
          (ok_epoch im (write_steps
             [writer_bytes kFieldPhysicalBlob (encode_physical_record p), writer_u64 kFieldPhysicalId (id_value (pd_id p)),
              writer_u64 kFieldPhysicalGeneration (gen_value (pd_generation p)), writer_str kFieldStableKey (pd_stable_key p)]),
           sv\<lparr> sv_impl := im,
              sv_agents := om_upd (Ident i) (note_device (pd_id p) (dd_stable_key d)) (sv_agents sv) \<rparr>))))))"

definition agent_call :: "env \<Rightarrow> field_map \<Rightarrow> u16 \<Rightarrow> rq_id \<Rightarrow> u64 \<Rightarrow> server \<Rightarrow> (response \<times> server) result option" where
  "agent_call e fm type request session sv =
    (if type = MT_RegisterPhysical \<or> type = MT_RefreshPhysical then handle_register_physical e fm request session sv
     else if type = MT_PhysicalLost then
       attempt (require_u64 fm kFieldPhysicalId) (\<lambda>i.
       attempt (require_u64 fm kFieldPhysicalGeneration) (\<lambda>g.
       given txt_device_absent (reader_str fm kFieldReason) (\<lambda>reason.
       on_server sv (answer (physical_lost e (Ident i) (Generation g) reason (sv_impl sv)) (\<lambda>_. [])))))
     else if type = MT_Heartbeat then
       attempt (require_u64 fm kFieldAgentId) (\<lambda>i.
       attempt (require_u64 fm kFieldBootId) (\<lambda>boot.
       on_server sv (answer (agent_heartbeat e (Ident i) (Ident boot) (sv_impl sv)) (\<lambda>_. []))))
     else Some (Inl SC_UnsupportedMessage))"

definition handle_agent_request :: "env \<Rightarrow> field_map \<Rightarrow> u16 \<Rightarrow> rq_id \<Rightarrow> u64 \<Rightarrow> server \<Rightarrow> (response \<times> server) option" where
  "handle_agent_request e fm type request session sv = settle sv (agent_call e fm type request session sv)"

section \<open>Connections\<close>

text \<open>How a connection opens: closed without a word, refused with an error, or accepted with an acknowledgement. \<open>sent\<close> says
  whether the acknowledgement could be sent.\<close>

datatype greeting = HS_Closed | HS_Refused status_code | HS_Agent ag_id "field_entry list" | HS_Client u64 "field_entry list"

definition txt_client_name :: string where "txt_client_name = ''av-client''"

definition role_value :: "role \<Rightarrow> nat" where
  "role_value r = (case r of Role_Unknown \<Rightarrow> 0 | Role_Client \<Rightarrow> 1 | Role_Agent \<Rightarrow> 2 | Role_Observer \<Rightarrow> 3)"

definition greet_agent :: "env \<Rightarrow> string \<Rightarrow> string \<Rightarrow> bool \<Rightarrow> server \<Rightarrow> greeting \<times> server" where
  "greet_agent e name peer sent sv =
    (case register_agent e name peer 0 no_id (sv_impl sv) of
       (Inl c, im) \<Rightarrow> (HS_Refused c, sv\<lparr> sv_impl := im \<rparr>)
     | (Inr session, im) \<Rightarrow>
       if \<not> sent then (HS_Closed, sv\<lparr> sv_impl := im, sv_agents := om_del (ag_id session) (sv_agents sv) \<rparr>)
       else
         (HS_Agent (ag_id session) (write_steps
            [writer_u64 kFieldProtocolVersion (ucast protocol_version), writer_u64 kFieldRole (of_nat (role_value Role_Agent)),
             writer_u64 kFieldAgentId (id_value (ag_id session)), writer_u64 kFieldBootId (id_value (ag_boot session)),
             writer_u64 kFieldEpoch (epoch_value im), writer_u64 kFieldConnectionId (ag_connection_id session)]),
          sv\<lparr> sv_impl := im, sv_agents := om_put (ag_id session)
            \<lparr> al_boot = ag_boot session, al_name = name, al_alive = True, al_devices = om_empty \<rparr> (sv_agents sv) \<rparr>))"

definition greet_client :: "u64 \<Rightarrow> bool \<Rightarrow> server \<Rightarrow> greeting \<times> server" where
  "greet_client role sent sv =
    (let session = sv_next_session sv; sv1 = sv\<lparr> sv_next_session := session + 1 \<rparr> in
     if \<not> sent then (HS_Closed, sv1)
     else (HS_Client session (write_steps
        [writer_u64 kFieldProtocolVersion (ucast protocol_version), writer_u64 kFieldRole role,
         writer_u64 kFieldEpoch (epoch_value (sv_impl sv)), writer_u64 kFieldConnectionId session,
         writer_str kFieldServerName (sv_name sv)]), sv1))"

definition serve_hello :: "env \<Rightarrow> string \<Rightarrow> bool \<Rightarrow> frame \<Rightarrow> server \<Rightarrow> (greeting \<times> server) option" where
  "serve_hello e peer sent hello sv =
    (if fh_type (fst hello) \<noteq> MT_Hello then Some (HS_Refused SC_ProtocolViolation, sv)
     else case reader_create (snd hello) default_limits of Inl c \<Rightarrow> Some (HS_Closed, sv)
     | Inr fm \<Rightarrow>
       given 0 (reader_u64 fm kFieldRole) (\<lambda>role.
       if unat role > role_value Role_Observer then Some (HS_Refused SC_ProtocolViolation, sv)
       else given 0 (reader_u64 fm kFieldProtocolVersion) (\<lambda>version.
       if version \<noteq> ucast protocol_version then Some (HS_Refused SC_VersionMismatch, sv)
       else given txt_client_name (reader_str fm kFieldAgentName) (\<lambda>name.
       Some (if unat role = role_value Role_Agent then greet_agent e name peer sent sv else greet_client role sent sv)))))"

text \<open>One turn of the loop of a client connection, and the frame that answers.\<close>

definition serve_client_frame ::
  "renderings \<Rightarrow> env \<Rightarrow> env \<Rightarrow> agent_answer \<Rightarrow> u64 \<Rightarrow> frame \<Rightarrow> server \<Rightarrow> (response \<times> server) option" where
  "serve_client_frame rn e e' agent session f sv =
    (case reader_create (snd f) default_limits of Inl c \<Rightarrow> Some (Failure c, sv)
     | Inr fm \<Rightarrow> handle_client_request rn e e' agent fm (fh_type (fst f)) (Ident (fh_request (fst f))) session sv)"

definition response_frame :: "string \<Rightarrow> frame_header \<Rightarrow> response \<Rightarrow> frame" where
  "response_frame detail h r = sealed
    (blank_header\<lparr> fh_type := response_for (fh_type h), fh_request := fh_request h, fh_flags := response_flags r OR kFlagResponse \<rparr>,
     response_payload detail r)"

text \<open>One turn of the loop of an agent connection. A response to a request of the coordinator is delivered to whoever
  waits for it, without an answer.\<close>

definition serve_agent_frame :: "env \<Rightarrow> ag_id \<Rightarrow> frame \<Rightarrow> server \<Rightarrow> (response option \<times> server) option" where
  "serve_agent_frame e i f sv =
    (if fh_flags (fst f) AND kFlagResponse \<noteq> 0 then Some (None, sv)
     else case reader_create (snd f) default_limits of Inl c \<Rightarrow> Some (Some (Failure c), sv)
     | Inr fm \<Rightarrow> map_option (\<lambda>(r, sv'). (Some r, sv'))
         (handle_agent_request e fm (fh_type (fst f)) (Ident (fh_request (fst f))) (id_value i) sv))"

definition agent_gone :: "ag_id \<Rightarrow> boot_id \<Rightarrow> server \<Rightarrow> server" where
  "agent_gone i boot sv = sv
    \<lparr> sv_agents := om_del i (sv_agents sv), sv_impl := snd (agent_disconnected i boot (sv_impl sv)) \<rparr>"

end
