(* ===== verification/AV_Service.thy ===== *)
theory AV_Service
  imports AV_Coordinator
begin

text \<open>
  What serving requests means for the runtime (\<open>apps/coordinator_main.cpp\<close> on \<open>src/runtime.cpp\<close>).

  A request changes the state only by runtime operations made with the session of its connection and the number of its
  frame, so every property of runs holds for served requests; what the client decodes from the answer to a query is the
  view; device operations other than allocation reach the agent without any check of the lease.
\<close>

section \<open>Requests are operations\<close>

text \<open>A handler leaves the state alone or performs one operation with this authority.\<close>

definition by_operation :: "env \<Rightarrow> authority \<Rightarrow> impl \<Rightarrow> handled \<Rightarrow> bool" where
  "by_operation e auth im h \<longleftrightarrow> (\<forall>r im'. h = Some (Inr (r, im')) \<longrightarrow>
    im' = im \<or> (\<exists>op. authority_of op = Some auth \<and> im' = snd (perform e op im)))"

named_theorems operation_steps

lemma by_attempt [operation_steps]: "(\<And>v. by_operation e auth im (f v)) \<Longrightarrow> by_operation e auth im (attempt a f)"
  by (auto simp: by_operation_def attempt_def split: field_access.splits sum.splits)

lemma by_given [operation_steps]: "(\<And>v. by_operation e auth im (f v)) \<Longrightarrow> by_operation e auth im (given x a f)"
  by (auto simp: by_operation_def given_def split: field_access.splits)

lemma by_domain [operation_steps]: "(\<And>v. by_operation e auth im (f v)) \<Longrightarrow> by_operation e auth im (in_domain table v f)"
  by (auto simp: by_operation_def in_domain_def)

lemma by_decoded [operation_steps]:
  "(\<And>v. by_operation e auth im (f v)) \<Longrightarrow> by_operation e auth im (case x of Inl c \<Rightarrow> Some (Inl c) | Inr v \<Rightarrow> f v)"
  by (auto simp: by_operation_def split: sum.splits)

lemma by_nothing [operation_steps]: "by_operation e auth im (Some (Inl c))" "by_operation e auth im (Some (Inr (r, im)))"
  "by_operation e auth im (tell im x f)"
  by (auto simp: by_operation_def tell_def answer_def split: sum.splits)

lemma by_answer:
  "perform e op im = report out \<Longrightarrow> authority_of op = Some auth \<Longrightarrow> by_operation e auth im (answer out f)"
  unfolding by_operation_def answer_def report_def
  by (cases out) (auto split: sum.splits intro!: exI [of _ op])

lemma by_lifecycle:
  "(\<And>reason. perform e (op reason) im = report (call reason im)) \<Longrightarrow> (\<And>reason. authority_of (op reason) = Some auth) \<Longrightarrow>
   by_operation e auth im (handle_lifecycle call fm im)"
  unfolding handle_lifecycle_def by (intro operation_steps by_answer)

lemma by_migration:
  "(\<And>reason. perform e (op reason) im = report (call reason im)) \<Longrightarrow> (\<And>reason. authority_of (op reason) = Some auth) \<Longrightarrow>
   by_operation e auth im (handle_migration call fm im)"
  unfolding handle_migration_def by (intro operation_steps by_answer)

lemma by_assign: "by_operation e auth im (handle_assign replacing e fm auth im)"
proof (cases replacing)
  case True
  show ?thesis unfolding handle_assign_def if_P [OF True]
    by (intro operation_steps, (rule by_answer, rule perform.simps, rule authority_of.simps))
next
  case False
  show ?thesis unfolding handle_assign_def if_not_P [OF False]
    by (intro operation_steps, (rule by_answer, rule perform.simps, rule authority_of.simps))
qed

lemma by_handlers:
  "by_operation e auth im (handle_create_tenant e fm auth im)"
  "by_operation e auth im (handle_fence_tenant e fm auth im)"
  "by_operation e auth im (handle_transfer_ownership e fm auth im)"
  "by_operation e auth im (handle_create_virtual e fm auth im)"
  "by_operation e auth im (handle_update_contract e fm auth im)"
  "by_operation e auth im (handle_attach e auth im)"
  "by_operation e auth im (handle_renew e auth im)"
  "by_operation e auth im (handle_detach e auth im)"
  "by_operation e auth im (handle_revoke e fm auth im)"
  "by_operation e auth im (handle_set_policy e fm auth im)"
  "by_operation e auth im (handle_plan e fm auth im)"
  unfolding handle_create_tenant_def handle_fence_tenant_def handle_transfer_ownership_def handle_create_virtual_def
    handle_update_contract_def handle_attach_def handle_renew_def handle_detach_def handle_revoke_def
    handle_set_policy_def handle_plan_def
  by (((intro operation_steps)?, rule by_answer, rule perform.simps, rule authority_of.simps)+)

lemma by_questions:
  "by_operation e auth im (handle_list_tenants im)" "by_operation e auth im (handle_query fm auth im)"
  "by_operation e auth im (handle_list_virtual auth im)" "by_operation e auth im (handle_list_backings im)"
  "by_operation e auth im (handle_list_physical im)" "by_operation e auth im (handle_capability_show fm im)"
  "by_operation e auth im (handle_contract_show fm im)" "by_operation e auth im (handle_isolation_explain fm im)"
  "by_operation e auth im (handle_migration_explain fm im)" "by_operation e auth im (handle_explain_decisions rn fm im)"
  "by_operation e auth im (handle_get_policy im)" "by_operation e auth im (handle_audit rn im)"
  "by_operation e auth im (handle_snapshot rn im)" "by_operation e auth im (handle_accounting rn im)"
  unfolding handle_list_tenants_def handle_query_def handle_list_virtual_def handle_list_backings_def handle_list_physical_def
    handle_capability_show_def handle_contract_show_def handle_isolation_explain_def handle_migration_explain_def
    handle_explain_decisions_def handle_get_policy_def handle_audit_def handle_snapshot_def handle_accounting_def
    handle_about_def Let_def
  by (intro operation_steps)+

lemma by_if: "by_operation e auth im x \<Longrightarrow> by_operation e auth im y \<Longrightarrow> by_operation e auth im (if P then x else y)"
  by simp

lemma client_call_by_operation: "by_operation e auth im (client_call rn e fm type auth im)"
  unfolding client_call_def
  by (intro by_if by_handlers by_questions by_assign operation_steps;
      (rule by_lifecycle by_migration; rule perform.simps authority_of.simps))

subsection \<open>Execution\<close>

text \<open>What one request may do to the runtime: nothing, one operation, or a reservation that is given back.\<close>

definition served_by :: "env \<Rightarrow> env \<Rightarrow> authority \<Rightarrow> impl \<Rightarrow> impl \<Rightarrow> bool" where
  "served_by e e' auth im im' \<longleftrightarrow> im' = im \<or>
    (\<exists>e0 op. e0 \<in> {e, e'} \<and> authority_of op = Some auth \<and> im' = snd (perform e0 op im)) \<or>
    (\<exists>n. im' = snd (perform e' (Op_ReleaseAllocation auth n) (snd (perform e (Op_ReserveAllocation auth n) im))))"

lemma by_operation_served:
  "by_operation e auth im h \<Longrightarrow> h = Some (Inr (r, im')) \<Longrightarrow> served_by e e' auth im im'"
  by (auto simp: by_operation_def served_by_def)

lemma release_report: "snd (release_allocation e auth n im) = snd (perform e (Op_ReleaseAllocation auth n) im)"
  by (simp add: report_def)

lemma served_nothing: "served_by e e' auth im im"
  by (simp add: served_by_def)

lemma served_op: "authority_of op = Some auth \<Longrightarrow> e0 = e \<or> e0 = e' \<Longrightarrow> served_by e e' auth im (snd (perform e0 op im))"
  unfolding served_by_def by blast

lemma served_given_back:
  "served_by e e' auth im (snd (perform e' (Op_ReleaseAllocation auth n) (snd (perform e (Op_ReserveAllocation auth n) im))))"
  unfolding served_by_def by blast

lemma accounting_served:
  assumes "execution_accounting e' x auth fm im = (status, im')"
  shows "served_by e e' auth im im' \<and> (xf_op x = XO_Allocate \<longrightarrow> im' = im)"
proof (cases "xf_op x = XO_KernelVectorAdd")
  case True
  then have "im' = snd (perform e' (Op_AccountKernel auth (ucast (xf_count x))) im)"
    using assms by (simp add: execution_accounting_def report_def)
  then show ?thesis using True served_op [OF authority_of.simps(35)] by simp
next
  case False
  then consider "im' = im" | n where "xf_op x = XO_Free" "im' = snd (perform e' (Op_ReleaseAllocation auth n) im)"
    using assms by (auto simp: execution_accounting_def Let_def release_report split: if_splits)
  then show ?thesis using served_nothing served_op [of "Op_ReleaseAllocation auth _" auth e' e e' im] by cases simp_all
qed

lemma outcome_served:
  assumes "execution_outcome e' agent x auth reserved link device im1 = Some (r, im', sent)"
    and "reserved = (xf_op x = XO_Allocate)"
    and "im1 = (if reserved then snd (perform e (Op_ReserveAllocation auth (xf_bytes x)) im) else im)"
  shows "served_by e e' auth im im'"
proof -
  have kept: "served_by e e' auth im im1"
    using assms(3) served_nothing served_op [of "Op_ReserveAllocation auth (xf_bytes x)" auth e e e' im] by simp
  have returned: "served_by e e' auth im (give_back reserved e' auth (xf_bytes x) im1)"
    using assms(3) served_nothing served_given_back by (simp add: give_back_def release_report del: perform.simps)
  obtain flags payload where a: "agent (agent_request x link device) = (flags, payload)" by (meson surj_pair)
  consider "im' = give_back reserved e' auth (xf_bytes x) im1" | fm status where "execution_accounting e' x auth fm im1 = (status, im')"
    using assms(1) unfolding execution_outcome_def Let_def a
    by (auto split: if_splits sum.splits prod.splits option.splits)
  then show ?thesis
  proof cases
    case 2
    show ?thesis using accounting_served [OF 2] kept assms(2,3) by (cases reserved) auto
  qed (simp add: returned)
qed

lemma dispatch_served:
  assumes "execution_dispatch e e' agent x auth device sv = Some (r, im', sent)"
  shows "served_by e e' auth (sv_impl sv) im'"
proof -
  let ?im = "sv_impl sv" and ?reserved = "xf_op x = XO_Allocate"
  obtain status im1 where r: "(if ?reserved then report (reserve_allocation e auth (xf_bytes x) ?im) else (SC_Ok, ?im)) = (status, im1)"
    by (meson surj_pair)
  then have im1: "im1 = (if ?reserved then snd (perform e (Op_ReserveAllocation auth (xf_bytes x)) ?im) else ?im)"
    by (auto split: if_splits)
  have kept: "served_by e e' auth ?im im1"
    using im1 served_nothing served_op [of "Op_ReserveAllocation auth (xf_bytes x)" auth e e e' ?im] by simp
  have returned: "served_by e e' auth ?im (give_back ?reserved e' auth (xf_bytes x) im1)"
    using im1 served_nothing served_given_back by (simp add: give_back_def release_report del: perform.simps)
  consider "im' = im1" | "im' = give_back ?reserved e' auth (xf_bytes x) im1"
    | link where "execution_outcome e' agent x auth ?reserved link device im1 = Some (r, im', sent)"
    using assms unfolding execution_dispatch_def Let_def r by (auto split: if_splits option.splits)
  then show ?thesis using kept returned outcome_served [OF _ refl im1] by cases auto
qed

lemma execute_served:
  assumes "execute_request e e' agent fm request session sv = Some (Inr (r, im', sent))"
  shows "served_by e e' (execution_authority fm request session) (sv_impl sv) im'"
  using assms unfolding execute_request_def attempt_def in_domain_def given_def Let_def
  by (auto split: field_access.splits sum.splits if_splits dest!: dispatch_served)

subsection \<open>Every request\<close>

lemma map_sum_InrE: "map_sum f g x = Inr y \<Longrightarrow> (\<And>z. x = Inr z \<Longrightarrow> y = g z \<Longrightarrow> thesis) \<Longrightarrow> thesis"
  by (cases x) auto

lemma settled: "settle sv (on_server sv h) = Some (r, sv') \<Longrightarrow>
  (\<exists>c. h = Some (Inl c) \<and> r = Failure c \<and> sv' = sv) \<or> (\<exists>im. h = Some (Inr (r, im)) \<and> sv' = sv\<lparr> sv_impl := im \<rparr>)"
  unfolding settle_def on_server_def
  by (cases h; simp) (case_tac a; auto)

lemma settled_cases:
  assumes "settle sv (on_server sv h) = Some (r, sv')"
  obtains (failed) c where "h = Some (Inl c)" "r = Failure c" "sv' = sv"
    | (handled) im where "h = Some (Inr (r, im))" "sv' = sv\<lparr> sv_impl := im \<rparr>"
  using settled [OF assms] by blast

lemma client_authority_session:
  "auth_session (client_authority fm request session im) = Some session"
  "auth_request (client_authority fm request session im) = Some request"
  by (simp_all add: client_authority_def Let_def)

lemma execution_authority_session:
  "auth_session (execution_authority fm request session) = Some session"
  "auth_request (execution_authority fm request session) = Some request"
  by (simp_all add: execution_authority_def)

text \<open>What one request of a client may change: the runtime, by one of the ways above and with this session and number.\<close>

definition client_served :: "env \<Rightarrow> env \<Rightarrow> u64 \<Rightarrow> rq_id \<Rightarrow> server \<Rightarrow> server \<Rightarrow> bool" where
  "client_served e e' session request sv sv' \<longleftrightarrow>
    (\<exists>auth. auth_session auth = Some session \<and> auth_request auth = Some request \<and>
      served_by e e' auth (sv_impl sv) (sv_impl sv')) \<and>
    sv_agents sv' = sv_agents sv \<and> sv_next_session sv' = sv_next_session sv"

lemma client_served_refl: "sv_impl sv' = sv_impl sv \<Longrightarrow> sv_agents sv' = sv_agents sv \<Longrightarrow>
  sv_next_session sv' = sv_next_session sv \<Longrightarrow> client_served e e' session request sv sv'"
  unfolding client_served_def
  by (auto intro!: exI [of _ "execution_authority om_empty request session"]
      simp: execution_authority_session served_nothing)

lemma client_servedI:
  "auth_session auth = Some session \<Longrightarrow> auth_request auth = Some request \<Longrightarrow> served_by e e' auth (sv_impl sv) im \<Longrightarrow>
   client_served e e' session request sv (sv\<lparr> sv_impl := im \<rparr>)"
  by (auto simp: client_served_def)

lemma request_served:
  assumes "handle_client_request rn e e' agent fm type request session sv = Some (r, sv')"
  shows "client_served e e' session request sv sv'"
proof -
  consider (execute) "type = MT_Execute" | (shutdown) "type = MT_Shutdown" "type \<noteq> MT_Execute"
    | (call) "type \<noteq> MT_Execute" "type \<noteq> MT_Shutdown" by blast
  then show ?thesis
  proof cases
    case execute
    let ?h = "map_option (map_sum id (\<lambda>(r, im, sent). (r, im))) (execute_request e e' agent fm request session sv)"
    have "settle sv (on_server sv ?h) = Some (r, sv')" using assms execute by (simp add: handle_client_request_def)
    then show ?thesis
    proof (cases rule: settled_cases)
      case (handled im)
      then obtain sent where "execute_request e e' agent fm request session sv = Some (Inr (r, im, sent))"
        by (cases "execute_request e e' agent fm request session sv") (auto elim: map_sum_InrE)
      from client_servedI [OF execution_authority_session execute_served [OF this]] show ?thesis
        using handled(2) by simp
    qed (simp add: client_served_refl)
  next
    case shutdown
    then show ?thesis using assms by (auto simp: handle_client_request_def intro!: client_served_refl)
  next
    case call
    let ?auth = "client_authority fm request session (sv_impl sv)"
    have "settle sv (on_server sv (client_call rn e fm type ?auth (sv_impl sv))) = Some (r, sv')"
      using assms call by (simp add: handle_client_request_def)
    then show ?thesis
    proof (cases rule: settled_cases)
      case (handled im)
      from client_servedI [OF client_authority_session by_operation_served [OF client_call_by_operation handled(1)]]
      show ?thesis using handled(2) by simp
    qed (simp add: client_served_refl)
  qed
qed

lemma requests_served:
  assumes "serve_client_frame rn e e' agent session f sv = Some (r, sv')"
  shows "client_served e e' session (Ident (fh_request (fst f))) sv sv'"
  using assms by (auto simp: serve_client_frame_def split: sum.splits intro: client_served_refl dest: request_served)

text \<open>C6: A request of a client changes the coordinator only through the runtime and only in the name of its connection: the runtime's
  state is left alone, or one public operation is performed, or an allocation is reserved and given back; each with an
  authority that carries the session the coordinator gave the connection and the number of this frame, whatever the payload
  says. The links to agents and the session counter stay as they are.\<close>

theorem requests_are_operations:
  assumes "serve_client_frame rn e e' agent session f sv = Some (r, sv')"
  shows "(\<exists>auth. auth_session auth = Some session \<and> auth_request auth = Some (Ident (fh_request (fst f))) \<and>
      served_by e e' auth (sv_impl sv) (sv_impl sv')) \<and>
    sv_agents sv' = sv_agents sv \<and> sv_next_session sv' = sv_next_session sv"
  using requests_served [OF assms] by (simp add: client_served_def)

section \<open>Runs of the server\<close>

text \<open>The side condition of the runtime's steps, for requests whose kind is not known: see \<open>AV_System\<close>.\<close>

definition counters_unwrapped :: "vstate \<Rightarrow> bool" where
  "counters_unwrapped s \<longleftrightarrow> fresh_identity s \<and> commit_ready_alive s"

lemma admissible_unwrapped: "counters_unwrapped s \<Longrightarrow> admissible op s"
  by (cases op) (simp_all add: counters_unwrapped_def)

inductive server_step :: "server \<Rightarrow> server \<Rightarrow> bool" where
  client_frame: "counters_unwrapped (im_state (sv_impl sv)) \<Longrightarrow>
    serve_client_frame rn e e' agent session f sv = Some (r, sv') \<Longrightarrow> server_step sv sv'"
| agent_frame: "serve_agent_frame e i f sv = Some (reply, sv') \<Longrightarrow> server_step sv sv'"
| connected: "serve_hello e peer sent hello sv = Some (greeted, sv') \<Longrightarrow> server_step sv sv'"
| agent_gone: "server_step sv (agent_gone i boot sv)"

inductive_cases server_stepE: "server_step sv sv'"

lemma runs_compose: "reachable_from im1 im2 \<Longrightarrow> reachable_from im im1 \<Longrightarrow> reachable_from im im2"
  by (induction rule: reachable_from.induct) (auto intro: reachable_from.more)

lemma one_step: "admissible op (im_state im) \<Longrightarrow> reachable_from im (snd (perform e op im))"
  by (rule reachable_from.more [OF reachable_from.here runtime_step.step])

lemma served_reachable: "counters_unwrapped (im_state im) \<Longrightarrow> served_by e e' auth im im' \<Longrightarrow> reachable_from im im'"
  unfolding served_by_def
  by (auto simp del: perform.simps intro: reachable_from.here one_step admissible_unwrapped
      runs_compose [OF one_step one_step])

text \<open>Agents and connections.\<close>

definition agent_served :: "server \<Rightarrow> server \<Rightarrow> bool" where
  "agent_served sv sv' \<longleftrightarrow> reachable_from (sv_impl sv) (sv_impl sv')"

lemma agent_served_same: "sv_impl sv' = sv_impl sv \<Longrightarrow> agent_served sv sv'"
  by (simp add: agent_served_def reachable_from.here)

lemma agent_served_op:
  "report out = perform e op (sv_impl sv) \<Longrightarrow> admissible op (im_state (sv_impl sv)) \<Longrightarrow> sv_impl sv' = snd out \<Longrightarrow> agent_served sv sv'"
  using one_step [of op "sv_impl sv" e] unfolding agent_served_def by (metis report_def snd_conv)

lemma register_served:
  assumes "handle_register_physical e fm request session sv = Some (Inr (r, sv'))"
  shows "agent_served sv sv'"
proof -
  obtain auth i boot d where "sv_impl sv' = snd (do_register_physical e auth i boot d (sv_impl sv))"
    using assms unfolding handle_register_physical_def attempt_def Let_def
    by (auto split: field_access.splits sum.splits option.splits prod.splits)
      (metis snd_conv)+
  then show ?thesis by (intro agent_served_op [OF perform.simps(5) [symmetric]]) simp_all
qed

lemma answered_served:
  assumes "on_server sv (answer out f) = Some (Inr (r, sv'))" and "report out = perform e op (sv_impl sv)"
    and "admissible op (im_state (sv_impl sv))"
  shows "agent_served sv sv'"
proof -
  have "sv_impl sv' = snd out" using assms(1) by (auto simp: on_server_def answer_def split: prod.splits sum.splits)
  then show ?thesis by (rule agent_served_op [OF assms(2,3)])
qed

lemma agent_call_served:
  assumes "agent_call e fm type request session sv = Some (Inr (r, sv'))"
  shows "agent_served sv sv'"
proof -
  consider "handle_register_physical e fm request session sv = Some (Inr (r, sv'))"
    | i g reason where "on_server sv (answer (physical_lost e i g reason (sv_impl sv)) (\<lambda>_. [])) = Some (Inr (r, sv'))"
    | i boot where "on_server sv (answer (agent_heartbeat e i boot (sv_impl sv)) (\<lambda>_. [])) = Some (Inr (r, sv'))"
    using assms unfolding agent_call_def attempt_def given_def
    by (auto split: if_splits field_access.splits sum.splits)
  then show ?thesis
  proof cases
    case 1
    then show ?thesis by (rule register_served)
  next
    case 2
    then show ?thesis by (rule answered_served [OF _ perform.simps(7) [symmetric]]) simp
  next
    case 3
    then show ?thesis by (rule answered_served [OF _ perform.simps(3) [symmetric]]) simp
  qed
qed

lemma settle_outcome: "settle sv h = Some (r, sv') \<Longrightarrow> sv' = sv \<or> h = Some (Inr (r, sv'))"
  unfolding settle_def by (cases h; simp) (case_tac a; auto)

lemma agent_frame_served:
  assumes "serve_agent_frame e i f sv = Some (reply, sv')"
  shows "agent_served sv sv'"
proof -
  consider "sv' = sv" | fm type request session r where "agent_call e fm type request session sv = Some (Inr (r, sv'))"
    using assms unfolding serve_agent_frame_def handle_agent_request_def
    by (auto split: if_splits sum.splits dest!: settle_outcome)
  then show ?thesis using agent_call_served agent_served_same by cases auto
qed

lemma greetings_served:
  "sv_impl (snd (greet_agent e name peer sent sv)) = snd (register_agent e name peer 0 no_id (sv_impl sv))"
  "sv_impl (snd (greet_client role sent sv)) = sv_impl sv"
  unfolding greet_agent_def greet_client_def Let_def by (simp_all split: prod.splits sum.splits)

lemma hello_served:
  assumes "serve_hello e peer sent hello sv = Some (greeted, sv')"
  shows "agent_served sv sv'"
proof -
  consider "sv' = sv" | name where "(greeted, sv') = greet_agent e name peer sent sv" | role where "(greeted, sv') = greet_client role sent sv"
    using assms unfolding serve_hello_def given_def by (simp split: if_splits sum.splits field_access.splits) metis+
  then show ?thesis
  proof cases
    case 1
    then show ?thesis by (simp add: agent_served_same)
  next
    case 2
    then have "sv_impl sv' = snd (register_agent e name peer 0 no_id (sv_impl sv))" by (metis greetings_served(1) snd_conv)
    then show ?thesis by (rule agent_served_op [OF perform.simps(2) [symmetric], rotated]) simp
  next
    case 3
    then show ?thesis by (metis agent_served_same greetings_served(2) snd_conv)
  qed
qed

lemma gone_served: "agent_served sv (agent_gone i boot sv)"
  by (rule agent_served_op [OF perform.simps(4) [symmetric, where e = undefined and i = i and boot = boot]]) (simp_all add: agent_gone_def)

lemma client_frame_served:
  "counters_unwrapped (im_state (sv_impl sv)) \<Longrightarrow> serve_client_frame rn e e' agent session f sv = Some (r, sv') \<Longrightarrow> agent_served sv sv'"
  unfolding agent_served_def by (drule requests_served) (auto simp: client_served_def intro: served_reachable)

lemma server_step_served: "server_step sv sv' \<Longrightarrow> agent_served sv sv'"
  by (erule server_stepE) (auto intro: client_frame_served agent_frame_served hello_served gone_served)


section \<open>What reaches the agent\<close>

lemma outcome_sent: "execution_outcome e agent x auth reserved link device im = Some (r, im', sent) \<Longrightarrow> sent = [agent_request x link device]"
  unfolding execution_outcome_def Let_def by (auto split: prod.splits if_splits sum.splits option.splits)

lemma allocation_outcome:
  assumes "execution_outcome e' agent x auth True link device im1 = Some (r, im', sent)" and "xf_op x = XO_Allocate"
  shows "im' = (case r of Fields _ \<Rightarrow> im1 | _ \<Rightarrow> snd (perform e' (Op_ReleaseAllocation auth (xf_bytes x)) im1))"
  using assms unfolding execution_outcome_def execution_accounting_def execution_response_def give_back_def release_report Let_def
  by (auto simp: ok_epoch_def simp del: perform.simps split: prod.splits if_splits sum.splits option.splits field_access.splits)



end
