(* ===== verification/AV_Exchange.thy ===== *)
theory AV_Exchange
  imports AV_Client AV_Service
begin

text \<open>
  The client and the coordinator together: the frames one writes are the frames the other reads. What the coordinator answers is
  what the client's call returns, for answers and for errors, however the network cuts the bytes; a queried view arrives as the
  runtime made it. A refused handshake is the exception: its error frame does not carry the number of the request, and the client
  reports a violation of the protocol instead of the reason.
\<close>

section \<open>Responses\<close>

lemma error_payload_read:
  assumes "length detail \<le> 1024 * 1024 - 4"
  shows "refusal (encode_error_payload c detail) = Some (Refused (code_value c) detail)"
proof -
  let ?es = "writer_str kFieldDetail detail (writer_u64 kFieldStatus (ucast (code_value c)) [])"
  have d: "distinct (map fst ?es)" "length ?es \<le> 1024"
      "list_all (\<lambda>(key, type, payload). length payload \<le> 1024 * 1024) ?es"
    using assms by (simp_all add: writer_str_def writer_u64_def kFieldDetail_def kFieldStatus_def counted_def)
  define fm where "fm = sort_key fst ?es"
  have r: "reader_create (encode_error_payload c detail) default_limits = Inr fm"
    using reader_create_written [OF d] by (simp add: encode_error_payload_def fm_def)
  have f: "om_find fm = map_of ?es" using sort_fields [OF d(1)] by (simp add: fm_def om_find_def fun_eq_iff)
  have "reader_str fm kFieldDetail = FA_Value detail" "reader_u64 fm kFieldStatus = FA_Value (ucast (code_value c))"
    using assms by (auto intro!: read_written simp: f writer_str_def writer_u64_def kFieldDetail_def kFieldStatus_def)
  then show ?thesis by (simp add: refusal_def decode_error_payload_def r require_u64_def require_field_def ucast_up_ucast_id is_up)
qed

text \<open>What the client makes of a response; a response that an agent gave is passed on unread and is left out here.\<close>

fun as_reply :: "string \<Rightarrow> response \<Rightarrow> field_map reply" where
  "as_reply detail (Failure c) = Refused (code_value c) detail"
| "as_reply detail (Fields es) = Answered (sort_key fst es)"
| "as_reply detail (Relayed flags payload) = Failed SC_ProtocolViolation"

fun own_response :: "string \<Rightarrow> response \<Rightarrow> bool" where
  "own_response detail (Failure c) = (length detail \<le> 1024 * 1024 - 4)"
| "own_response detail (Fields es) = (distinct (map fst es) \<and> length es \<le> 1024 \<and>
    list_all (\<lambda>(key, type, payload). length payload \<le> 1024 * 1024) es)"
| "own_response detail (Relayed flags payload) = False"

lemma sealed_again [simp]: "sealed (sealed f) = sealed f"
  by (simp add: sealed_def)

lemma response_frame_facts:
  "sealed (response_frame detail h r) = response_frame detail h r"
  "fh_request (fst (response_frame detail h r)) = fh_request h"
  "fh_type (fst (response_frame detail h r)) = response_for (fh_type h)"
  "fh_flags (fst (response_frame detail h r)) = response_flags r OR kFlagResponse"
  "snd (response_frame detail h r) = response_payload detail r"
  by (simp_all add: response_frame_def) (simp_all add: sealed_def)

lemma response_received:
  assumes "idle_channel (ep_channel ep)" and "ep_reads ep = map Inr cs @ rest" and "arriving [response_frame detail h r] cs"
    and "own_response detail r"
  shows "\<exists>ep'. await_response inbound (fh_type h) (fh_request h) ep = Some (as_reply detail r, ep') \<and>
    idle_channel (ep_channel ep') \<and> ep_reads ep' = rest"
proof -
  let ?f = "response_frame detail h r"
  obtain ch where ch: "receive (map Inr cs @ rest) (ep_channel ep) = Some (Inr ?f, ch, rest)" "idle_channel ch"
    using one_arrives [OF assms(1,3), of rest] by (auto simp: response_frame_facts)
  let ?ep = "ep\<lparr> ep_channel := ch, ep_reads := rest \<rparr>"
  have e: "endpoint_receive ep = Some (Inr ?f, ?ep)" by (simp add: endpoint_receive_def assms(2) ch)
  note unfolded = e response_frame_facts response_payload_def response_flags_def kFlagError_def kFlagResponse_def
  have "await_response inbound (fh_type h) (fh_request h) ep = Some (as_reply detail r, ?ep)"
  proof (cases r)
    case (Failure c)
    then show ?thesis using error_payload_read assms(4) by (subst await_response.simps) (simp add: unfolded)
  next
    case (Fields es)
    then show ?thesis using reader_create_written [of es] assms(4) by (subst await_response.simps) (simp add: unfolded)
  qed (use assms(4) in simp)
  then show ?thesis using ch(2) by auto
qed

text \<open>The client's call returns what the coordinator answered. When the frame that answers a request arrives at a client that waits for
  it, cut into reads in any way, the call returns: the fields of the answer, or the code and the text of the error; and the
  connection is ready for the next call, with everything behind the frame unread.\<close>

theorem client_sees_response:
  assumes "idle_channel (ep_channel ep)" and "ep_reads ep = map Inr cs @ rest" and "arriving [response_frame detail h r] cs"
    and "own_response detail r"
  shows "\<exists>ep'. await_response inbound (fh_type h) (fh_request h) ep = Some (as_reply detail r, ep') \<and>
    idle_channel (ep_channel ep') \<and> ep_reads ep' = rest"
  using assms by (rule response_received)

subsection \<open>A query\<close>

definition view_response :: "impl \<Rightarrow> virtual_view \<Rightarrow> response" where
  "view_response im v = ok_epoch im (write_steps [writer_bytes kFieldViewBlob (encode_view v)])"

definition view_arrives :: "virtual_view \<Rightarrow> bool" where
  "view_arrives v \<longleftrightarrow> view_fits blob_limits v \<and> length (encode_view v) \<le> 1024 * 1024 - 4"

lemma query_answered:
  assumes "fh_type (fst f) = MT_Query" and "reader_create (snd f) default_limits = Inr fm"
    and "require_u64 fm kFieldVirtualId = FA_Value (Inr i)"
    and "query_virtual (client_authority fm (Ident (fh_request (fst f))) session (sv_impl sv)) (Ident i) (sv_impl sv) = Inr v"
  shows "serve_client_frame rn e e' agent session f sv = Some (view_response (sv_impl sv) v, sv)"
  using assms
  by (simp add: serve_client_frame_def handle_client_request_def client_call_def handle_query_def handle_about_def attempt_def
      tell_def answer_def on_server_def settle_def view_response_def message_types)

lemma view_response_own: "view_arrives v \<Longrightarrow> own_response detail (view_response im v)"
  by (simp add: view_response_def ok_epoch_def write_steps_def writer_bytes_def writer_u64_def field_keys view_arrives_def counted_def)

lemma view_response_read:
  assumes "view_arrives v" and "as_reply detail (view_response im v) = Answered fm"
  shows "reader_bytes fm kFieldViewBlob = FA_Value (encode_view v)" and "reader_u64 fm kFieldEpoch = FA_Value (epoch_value im)"
proof -
  let ?es = "writer_u64 kFieldEpoch (epoch_value im) (writer_bytes kFieldViewBlob (encode_view v) [])"
  have "distinct (map fst ?es)" by (simp add: writer_bytes_def writer_u64_def field_keys)
  then have f: "om_find fm = map_of ?es"
    using assms(2) sort_fields [of ?es] by (auto simp: view_response_def ok_epoch_def write_steps_def om_find_def fun_eq_iff)
  show "reader_bytes fm kFieldViewBlob = FA_Value (encode_view v)"
    using assms(1) by (intro read_written) (simp_all add: f writer_bytes_def writer_u64_def field_keys view_arrives_def)
  show "reader_u64 fm kFieldEpoch = FA_Value (epoch_value im)"
    by (intro read_written) (simp add: f writer_bytes_def writer_u64_def field_keys)
qed

text \<open>C15: A queried view arrives as the runtime made it. A client that asks for an accelerator gets an answer that carries the epoch of the
  coordinator and a blob that decodes to exactly the view the runtime made for its authority, through the handler, the field map, the
  frame, the network and the client's decoder; and the question changes nothing.\<close>

theorem queried_view_arrives:
  assumes "fh_type (fst f) = MT_Query" and "reader_create (snd f) default_limits = Inr fm"
    and "require_u64 fm kFieldVirtualId = FA_Value (Inr i)"
    and "query_virtual (client_authority fm (Ident (fh_request (fst f))) session (sv_impl sv)) (Ident i) (sv_impl sv) = Inr v"
    and "view_arrives v" and "serve_client_frame rn e e' agent session f sv = Some (r, sv')"
    and "idle_channel (ep_channel ep)" and "ep_reads ep = map Inr cs @ rest" and "arriving [response_frame detail (fst f) r] cs"
  shows "sv' = sv \<and> (\<exists>got ep' blob. await_response inbound MT_Query (fh_request (fst f)) ep = Some (Answered got, ep') \<and>
    reader_bytes got kFieldViewBlob = FA_Value blob \<and> decode_view blob = Inr v \<and>
    reader_u64 got kFieldEpoch = FA_Value (epoch_value (sv_impl sv)))"
proof -
  have r: "r = view_response (sv_impl sv) v" "sv' = sv"
    using query_answered [OF assms(1-4), of rn e e' agent] assms(6) by simp_all
  obtain ep' where "await_response inbound MT_Query (fh_request (fst f)) ep = Some (as_reply detail r, ep')"
    using response_received [OF assms(7-9)] view_response_own [OF assms(5)] r(1) assms(1) by metis
  moreover obtain got where "as_reply detail r = Answered got" by (simp add: r view_response_def ok_epoch_def)
  moreover have "decode_view (encode_view v) = Inr v"
    using assms(5) by (simp add: decode_view_def view_arrives_def view_codec.value_of_whole)
  ultimately show ?thesis using view_response_read [OF assms(5)] r by metis
qed

section \<open>The handshake\<close>

text \<open>The frame that refuses a handshake, and the one that turns a connection away (\<open>channel.send(MessageType::Error, RequestId\{\}, \<dots>)\<close>).\<close>

definition error_frame :: "status_code \<Rightarrow> string \<Rightarrow> frame" where
  "error_frame c detail = outgoing MT_Error 0 (encode_error_payload c detail) kFlagError"

lemma handshake_reads:
  assumes "idle_channel (ep_channel (cl_endpoint cl))" and "ep_writes (cl_endpoint cl) = []"
    and "ep_reads (cl_endpoint cl) = map Inr cs @ rest" and "arriving [g] cs"
  shows "\<exists>ep. handshake cl = acknowledged (cl_next_request cl) (sealed g)
    (cl\<lparr> cl_next_request := cl_next_request cl + 1, cl_endpoint := ep \<rparr>)"
proof -
  let ?cl = "cl\<lparr> cl_next_request := cl_next_request cl + 1 \<rparr>"
  obtain ep where s: "endpoint_send MT_Hello (cl_next_request cl) (writer_take (hello_fields ?cl)) 0 (cl_endpoint cl) = (SC_Ok, ep)"
      "idle_channel (ep_channel ep)" "ep_reads ep = map Inr cs @ rest"
    using assms(1-3) by (auto simp: endpoint_send_def channel_send_def Let_def idle_channel_def)
  then obtain ch where "receive (map Inr cs @ rest) (ep_channel ep) = Some (Inr (sealed g), ch, rest)"
    using one_arrives [OF s(2) assms(4), of rest] by blast
  then have "endpoint_receive ep = Some (Inr (sealed g), ep\<lparr> ep_channel := ch, ep_reads := rest \<rparr>)"
    by (simp add: endpoint_receive_def s(3))
  then show ?thesis using s(1) by (auto simp: handshake_def next_request_def)
qed

text \<open>A client does not learn why its handshake was refused: the frame that refuses it has the number 0 and the first request of a
  client has the number 1, so that the client reports a violation of the protocol, whatever status the coordinator sent.\<close>

theorem refusal_reason_unseen:
  assumes "cl_next_request cl = 1" and "idle_channel (ep_channel (cl_endpoint cl))" and "ep_writes (cl_endpoint cl) = []"
    and "ep_reads (cl_endpoint cl) = map Inr cs @ rest" and "arriving [error_frame c detail] cs"
  shows "\<exists>cl'. handshake cl = Some (Failed SC_ProtocolViolation, cl')"
  using handshake_reads [OF assms(2-5)] assms(1) by (auto simp: acknowledged_def error_frame_def outgoing_def sealed_def)

subsection \<open>An agent is welcomed\<close>

lemma hello_read:
  assumes "length (cl_client_name cl) \<le> 1024 * 1024 - 4" and "cl_role cl = Role_Agent"
  shows "serve_hello e peer sent (outgoing MT_Hello n (writer_take (hello_fields cl)) 0) sv =
    Some (greet_agent e (cl_client_name cl) peer sent sv)"
proof -
  let ?es = "hello_fields cl"
  note written = hello_fields_def writer_str_def writer_u64_def field_keys
  have d: "distinct (map fst ?es)" "length ?es \<le> 1024" "list_all (\<lambda>(key, type, payload). length payload \<le> 1024 * 1024) ?es"
    using assms(1) by (simp_all add: written counted_def)
  define fm where "fm = sort_key fst ?es"
  have r: "reader_create (writer_take ?es) default_limits = Inr fm" using reader_create_written [OF d] by (simp add: fm_def)
  have f: "om_find fm = map_of ?es" using sort_fields [OF d(1)] by (simp add: fm_def om_find_def fun_eq_iff)
  have "reader_u64 fm kFieldRole = FA_Value 2" "reader_u64 fm kFieldProtocolVersion = FA_Value (ucast protocol_version)"
      "reader_str fm kFieldAgentName = FA_Value (cl_client_name cl)"
    using assms by (auto intro!: read_written simp: f written role_number_def)
  then show ?thesis by (simp add: serve_hello_def outgoing_def r given_def role_value_def)
qed

lemma agent_greeting:
  assumes "greet_agent e name peer True sv = (HS_Agent i ack, sv')"
  shows "\<exists>link conn. om_find (sv_agents sv') i = Some link \<and> ack = write_steps
    [writer_u64 kFieldProtocolVersion (ucast protocol_version), writer_u64 kFieldRole 2, writer_u64 kFieldAgentId (id_value i),
     writer_u64 kFieldBootId (id_value (al_boot link)), writer_u64 kFieldEpoch (epoch_value (sv_impl sv')), writer_u64 kFieldConnectionId conn]"
  using assms by (auto simp: greet_agent_def role_value_def split: prod.splits sum.splits)

lemma ack_read:
  assumes "ack = write_steps [writer_u64 kFieldProtocolVersion (ucast protocol_version), writer_u64 kFieldRole 2,
     writer_u64 kFieldAgentId a, writer_u64 kFieldBootId b, writer_u64 kFieldEpoch g, writer_u64 kFieldConnectionId conn]"
  shows "acknowledged n (sealed (outgoing MT_HelloAck n (writer_take ack) kFlagResponse)) cl = Some (Answered (),
    cl\<lparr> cl_epoch := Generation g, cl_role := Role_Agent, cl_agent_id := Ident a, cl_boot_id := Ident b \<rparr>)"
proof -
  note written = assms write_steps_def writer_u64_def field_keys
  have d: "distinct (map fst ack)" "length ack \<le> 1024" "list_all (\<lambda>(key, type, payload). length payload \<le> 1024 * 1024) ack"
    by (simp_all add: written)
  define fm where "fm = sort_key fst ack"
  have r: "reader_create (writer_take ack) default_limits = Inr fm" using reader_create_written [OF d] by (simp add: fm_def)
  have f: "om_find fm = map_of ack" using sort_fields [OF d(1)] by (simp add: fm_def om_find_def fun_eq_iff)
  have u: "reader_u64 fm kFieldProtocolVersion = FA_Value (ucast protocol_version)" "reader_u64 fm kFieldRole = FA_Value 2"
      "reader_u64 fm kFieldAgentId = FA_Value a" "reader_u64 fm kFieldBootId = FA_Value b" "reader_u64 fm kFieldEpoch = FA_Value g"
    by (auto intro!: read_written simp: f written)
  have "reader_str fm kFieldServerName = FA_Absent" by (simp add: reader_str_def typed_field_def f written)
  then have "note_ack fm cl = Some (cl\<lparr> cl_epoch := Generation g, cl_role := Role_Agent, cl_agent_id := Ident a, cl_boot_id := Ident b \<rparr>)"
    by (simp add: note_ack_def u)
  then show ?thesis
    by (simp add: acknowledged_def outgoing_def sealed_def r require_u64_def require_field_def u kFlagError_def kFlagResponse_def)
qed

text \<open>The handshake agrees: what a client that connects as an agent sends is taken as the greeting of an agent of its name, and once the
  acknowledgement of the coordinator has arrived the client holds the identity and the boot identity under which the coordinator keeps
  its link, and the coordinator's epoch.\<close>

theorem agent_handshake_agrees:
  assumes "cl_role cl = Role_Agent" and "length (cl_client_name cl) \<le> 1024 * 1024 - 4"
    and "greet_agent e (cl_client_name cl) peer True sv = (HS_Agent i ack, sv')"
    and "idle_channel (ep_channel (cl_endpoint cl))" and "ep_writes (cl_endpoint cl) = []"
    and "ep_reads (cl_endpoint cl) = map Inr cs @ rest"
    and "arriving [outgoing MT_HelloAck (cl_next_request cl) (writer_take ack) kFlagResponse] cs"
  shows "serve_hello e peer True (outgoing MT_Hello (cl_next_request cl) (writer_take (hello_fields cl)) 0) sv = Some (HS_Agent i ack, sv') \<and>
    (\<exists>cl' link. handshake cl = Some (Answered (), cl') \<and> cl_agent_id cl' = i \<and> om_find (sv_agents sv') i = Some link \<and>
      cl_boot_id cl' = al_boot link \<and> cl_epoch cl' = st_epoch (im_state (sv_impl sv')))"
proof
  show "serve_hello e peer True (outgoing MT_Hello (cl_next_request cl) (writer_take (hello_fields cl)) 0) sv = Some (HS_Agent i ack, sv')"
    using hello_read [OF assms(2,1)] assms(3) by simp
  obtain link conn where link: "om_find (sv_agents sv') i = Some link" and ack: "ack = write_steps
    [writer_u64 kFieldProtocolVersion (ucast protocol_version), writer_u64 kFieldRole 2, writer_u64 kFieldAgentId (id_value i),
     writer_u64 kFieldBootId (id_value (al_boot link)), writer_u64 kFieldEpoch (epoch_value (sv_impl sv')), writer_u64 kFieldConnectionId conn]"
    using agent_greeting [OF assms(3)] by blast
  obtain ep where "handshake cl = acknowledged (cl_next_request cl)
      (sealed (outgoing MT_HelloAck (cl_next_request cl) (writer_take ack) kFlagResponse))
      (cl\<lparr> cl_next_request := cl_next_request cl + 1, cl_endpoint := ep \<rparr>)"
    using handshake_reads [OF assms(4-7)] by blast
  then show "\<exists>cl' link. handshake cl = Some (Answered (), cl') \<and> cl_agent_id cl' = i \<and> om_find (sv_agents sv') i = Some link \<and>
      cl_boot_id cl' = al_boot link \<and> cl_epoch cl' = st_epoch (im_state (sv_impl sv'))"
    using link ack_read [OF ack] by (simp add: epoch_value_def)
qed

end
