(* ===== verification/AV_Agent.thy ===== *)
theory AV_Agent
  imports AV_Exchange
begin

text \<open>
  The agent (\<open>apps/agent_main.cpp\<close>) behind the interface of backends (\<open>include/av/backend.hpp\<close>, \<open>src/backend.cpp\<close>): what it
  discovers and registers, and how it answers the coordinator. A backend is the record of its methods; what the vendor's adapter
  does is whatever these functions return, and the synthetic ones are in \<open>AV_Synthetic\<close>.

  The execution request that the backend gets is the one the client asked the coordinator for.
\<close>

section \<open>Backends\<close>

definition kOperationNames :: "(execution_op \<times> string) list" where
  "kOperationNames = [(XO_Unknown, ''unknown''), (XO_Allocate, ''allocate''), (XO_Free, ''free''), (XO_Upload, ''upload''),
    (XO_Download, ''download''), (XO_KernelVectorAdd, ''vector-add''), (XO_Synchronize, ''sync''), (XO_DeviceInfo, ''info'')]"

interpretation execution_op_text: name_table kOperationNames
proof
  show "v \<in> fst ` set kOperationNames" for v by (cases v) (simp_all add: kOperationNames_def)
qed (simp_all add: kOperationNames_def)

definition execution_op_name :: "execution_op \<Rightarrow> string" where
  "execution_op_name = table_name kOperationNames ''unknown''"

definition parse_execution_op :: "string \<Rightarrow> execution_op option" where
  "parse_execution_op = table_parse kOperationNames"

record execution_request =
  er_op :: execution_op
  er_stable_key :: string
  er_physical :: pd_id
  er_physical_generation :: pd_gen
  er_backing :: bk_id
  er_backing_generation :: bk_gen
  er_virtual_id :: va_id
  er_virtual_generation :: va_gen
  er_handle :: u64
  er_handles :: "u64 list"
  er_bytes :: u64
  er_count :: u32
  er_data :: bytes

definition blank_request :: execution_request where
  "blank_request = \<lparr> er_op = XO_Unknown, er_stable_key = [], er_physical = no_id, er_physical_generation = no_gen, er_backing = no_id,
    er_backing_generation = no_gen, er_virtual_id = no_id, er_virtual_generation = no_gen, er_handle = 0, er_handles = [],
    er_bytes = 0, er_count = 0, er_data = [] \<rparr>"

record execution_result =
  xr_status :: status_code
  xr_detail :: string
  xr_handle :: u64
  xr_bytes :: u64
  xr_data :: bytes
  xr_device_name :: string
  xr_driver_version :: string
  xr_total_memory :: u64
  xr_free_memory :: u64

definition blank_result :: execution_result where
  "blank_result = \<lparr> xr_status = SC_Ok, xr_detail = [], xr_handle = 0, xr_bytes = 0, xr_data = [], xr_device_name = [],
    xr_driver_version = [], xr_total_memory = 0, xr_free_memory = 0 \<rparr>"

record backend_adapter =
  ba_name :: string
  ba_provenance :: provenance
  ba_supported_backing_classes :: "backing_class list"
  ba_discover :: "device_descriptor list result"
  ba_probe :: "string \<Rightarrow> device_descriptor result"
  ba_execute :: "execution_request \<Rightarrow> execution_result result"

section \<open>Discovery\<close>

text \<open>The comma-separated list of the command line: blanks are dropped, empty names too.\<close>

fun split_chars :: "string \<Rightarrow> string \<Rightarrow> string list" where
  "split_chars current [] = (if current \<noteq> [] then [current] else [])"
| "split_chars current (c # cs) =
    (if c = CHR '','' then (if current \<noteq> [] then [current] else []) @ split_chars [] cs
     else if c \<noteq> CHR '' '' then split_chars (current @ [c]) cs
     else split_chars current cs)"

definition split_list :: "string \<Rightarrow> string list" where
  "split_list text = split_chars [] text"

text \<open>A backend whose discovery fails is skipped. The last backend that reports a key answers for it.\<close>

definition discoveries :: "backend_adapter list \<Rightarrow> (backend_adapter \<times> device_descriptor) list" where
  "discoveries adapters = concat (map (\<lambda>a. case ba_discover a of Inl c \<Rightarrow> [] | Inr ds \<Rightarrow> map (Pair a) ds) adapters)"

definition by_key :: "backend_adapter list \<Rightarrow> string \<Rightarrow> backend_adapter option" where
  "by_key adapters key = map_of (rev (map (\<lambda>(a, d). (dd_stable_key d, a)) (discoveries adapters))) key"

definition register_fields :: "ag_id \<Rightarrow> boot_id \<Rightarrow> device_descriptor \<Rightarrow> field_entry list" where
  "register_fields agent boot d = write_steps
    [writer_u64 kFieldAgentId (id_value agent), writer_u64 kFieldBootId (id_value boot),
     writer_bytes kFieldDescriptorBlob (encode_physical_descriptor d)]"

section \<open>Requests of the coordinator\<close>

definition result_response :: "execution_result result \<Rightarrow> response" where
  "result_response outcome =
    (case outcome of Inl c \<Rightarrow> Failure c
     | Inr x \<Rightarrow>
       if xr_status x \<noteq> SC_Ok then Failure (xr_status x)
       else Fields (write_steps
         ([writer_u64 kFieldStatus (ucast (code_value (xr_status x))), writer_u64 kFieldHandle (xr_handle x),
           writer_u64 kFieldBytes (xr_bytes x)] @
          (if xr_total_memory x \<noteq> 0 then [writer_u64 kFieldDeviceMemoryTotal (xr_total_memory x)] else []) @
          (if xr_free_memory x \<noteq> 0 then [writer_u64 kFieldDeviceMemoryFree (xr_free_memory x)] else []) @
          (if xr_detail x \<noteq> [] then [writer_str kFieldDetail (xr_detail x)] else []) @
          (if xr_data x \<noteq> [] then [writer_bytes kFieldData (xr_data x)] else []))))"

definition execute_on_backend :: "(execution_request \<Rightarrow> execution_result result) \<Rightarrow> field_map \<Rightarrow> response result option" where
  "execute_on_backend execute fm =
    attempt (require_u64 fm kFieldOp) (\<lambda>raw. in_domain execution_ops raw (\<lambda>op.
    given [] (reader_str fm kFieldStableKey) (\<lambda>key.
    given 0 (reader_u64 fm kFieldPhysicalId) (\<lambda>physical.
    given 0 (reader_u64 fm kFieldBytes) (\<lambda>n.
    given 0 (reader_u64 fm kFieldHandle) (\<lambda>handle.
    given 0 (reader_u64 fm kFieldCount) (\<lambda>count.
    given [] (reader_list_u64 fm kFieldHandles) (\<lambda>handles.
    given [] (reader_bytes fm kFieldData) (\<lambda>data.
    Some (Inr (result_response (execute (blank_request
      \<lparr> er_op := op, er_stable_key := key, er_physical := Ident physical, er_handle := handle, er_handles := handles,
        er_bytes := n, er_count := ucast count, er_data := data \<rparr>)))))))))))))"

text \<open>A failure to read the request becomes the response; \<open>epoch\<close> is the one the client of the agent holds.\<close>

definition settled_response :: "response result option \<Rightarrow> response option" where
  "settled_response r = map_option (case_sum Failure id) r"

definition handle_inbound :: "backend_adapter list \<Rightarrow> epoch \<Rightarrow> frame \<Rightarrow> response option" where
  "handle_inbound adapters epoch f =
    (if fh_type (fst f) = MT_AgentExecute then
       (case reader_create (snd f) default_limits of Inl c \<Rightarrow> Some (Failure c)
        | Inr fm \<Rightarrow>
          given [] (reader_str fm kFieldStableKey) (\<lambda>key.
          case by_key adapters key of None \<Rightarrow> Some (Failure SC_BackingUnavailable)
          | Some a \<Rightarrow> settled_response (execute_on_backend (ba_execute a) fm)))
     else if fh_type (fst f) = MT_Heartbeat then Some (Fields (writer_u64 kFieldEpoch (gen_value epoch) []))
     else Some (Failure SC_UnsupportedMessage))"

text \<open>One turn of the agent's loop once its devices are registered: a stray response is ignored, two messages end it.\<close>

datatype agent_turn = Ignored | Answer response | Leave "response option"

definition agent_serves :: "backend_adapter list \<Rightarrow> epoch \<Rightarrow> frame \<Rightarrow> agent_turn option" where
  "agent_serves adapters epoch f =
    (if fh_flags (fst f) AND kFlagResponse \<noteq> 0 then Some Ignored
     else if fh_type (fst f) = MT_Goodbye then Some (Leave None)
     else if fh_type (fst f) = MT_Shutdown then Some (Leave (Some (Fields [])))
     else map_option Answer (handle_inbound adapters epoch f))"

section \<open>The request arrives\<close>

lemma get_listed_u64: "i < length vs \<Longrightarrow> get_u64 (concat (map enc_u64 vs)) (i * 8) = vs ! i"
proof (induction vs arbitrary: i)
  case (Cons v vs)
  then show ?case by (cases i) simp_all
qed simp

lemma length_listed_u64: "length (concat (map enc_u64 vs)) = length vs * 8"
  by (induction vs) simp_all

lemma read_list_u64:
  assumes "om_find fm key = Some (FT_ListU64, enc_u32 (of_nat (length vs)) @ concat (map enc_u64 vs))" and "length vs < 2 ^ 32"
  shows "reader_list_u64 fm key = FA_Value vs"
proof -
  have n: "unat (of_nat (length vs) :: u32) = length vs" using assms(2) by (simp add: unat_of_nat)
  have "map (\<lambda>i. get_u64 (enc_u32 (of_nat (length vs)) @ concat (map enc_u64 vs)) (4 + i * 8)) [0..<length vs] = vs"
    by (rule nth_equalityI) (simp_all add: get_listed_u64)
  then show ?thesis using assms(1) n by (simp add: reader_list_u64_def typed_field_def Let_def length_listed_u64)
qed

text \<open>The request as the backend should see it.\<close>

definition backend_request :: "execution_fields \<Rightarrow> agent_link \<Rightarrow> pd_id \<Rightarrow> execution_request" where
  "backend_request x link device = blank_request
    \<lparr> er_op := xf_op x, er_stable_key := stable_key_for link device, er_physical := device, er_handle := xf_handle x,
      er_handles := xf_handles x, er_bytes := xf_bytes x, er_count := ucast (xf_count x), er_data := xf_data x \<rparr>"

definition request_fits :: "execution_fields \<Rightarrow> agent_link \<Rightarrow> pd_id \<Rightarrow> bool" where
  "request_fits x link device \<longleftrightarrow> text_fits (stable_key_for link device) \<and> length (xf_handles x) * 8 + 4 \<le> 1024 * 1024 \<and>
    length (xf_data x) + 4 \<le> 1024 * 1024"

lemma request_op: "in_domain execution_ops (of_nat (execution_op_value op)) f = f op"
  by (cases op) (simp_all add: in_domain_def execution_ops_def)

lemma request_read:
  assumes "request_fits x link device"
  shows "\<exists>fm. reader_create (writer_take (agent_request x link device)) default_limits = Inr fm \<and>
    reader_str fm kFieldStableKey = FA_Value (stable_key_for link device) \<and>
    (\<forall>execute. execute_on_backend execute fm = Some (Inr (result_response (execute (backend_request x link device)))))"
proof -
  let ?es = "agent_request x link device"
  note written = agent_request_def write_steps_def writer_str_def writer_u64_def writer_list_u64_def writer_bytes_def field_keys
  have d: "distinct (map fst ?es)" "length ?es \<le> 1024" "list_all (\<lambda>(key, type, payload). length payload \<le> 1024 * 1024) ?es"
    using assms by (simp_all add: written counted_def request_fits_def text_fits_def length_listed_u64)
  define fm where "fm = sort_key fst ?es"
  have r: "reader_create (writer_take ?es) default_limits = Inr fm" using reader_create_written [OF d] by (simp add: fm_def)
  have f: "om_find fm = map_of ?es" using sort_fields [OF d(1)] by (simp add: fm_def om_find_def fun_eq_iff)
  have u: "reader_u64 fm kFieldOp = FA_Value (of_nat (execution_op_value (xf_op x)))" "reader_u64 fm kFieldPhysicalId = FA_Value (id_value device)"
      "reader_u64 fm kFieldBytes = FA_Value (xf_bytes x)" "reader_u64 fm kFieldHandle = FA_Value (xf_handle x)"
      "reader_u64 fm kFieldCount = FA_Value (xf_count x)"
    by (auto intro!: read_written simp: f written)
  have key: "reader_str fm kFieldStableKey = FA_Value (stable_key_for link device)"
    using assms by (intro read_written) (simp_all add: f written request_fits_def text_fits_def)
  have handles: "reader_list_u64 fm kFieldHandles = FA_Value (xf_handles x)"
    using assms by (intro read_list_u64) (simp_all add: f written request_fits_def)
  have data: "given [] (reader_bytes fm kFieldData) g = g (xf_data x)" for g
  proof (cases "xf_data x = []")
    case True
    then have "reader_bytes fm kFieldData = FA_Absent" by (simp add: reader_bytes_def typed_field_def f written)
    then show ?thesis by (simp add: given_def True)
  next
    case False
    then have "reader_bytes fm kFieldData = FA_Value (xf_data x)"
      using assms by (intro read_written) (simp_all add: f written request_fits_def)
    then show ?thesis by simp
  qed
  have "execute_on_backend execute fm = Some (Inr (result_response (execute (backend_request x link device))))" for execute
    by (simp add: execute_on_backend_def require_u64_def u key handles data request_op backend_request_def)
  with r key show ?thesis by blast
qed

text \<open>C27: the agent runs what the coordinator asked for: the frame the coordinator sends for an execution is answered with what the backend that
  registered the device does for exactly this request: its operation, device, sizes, handles and data, and the count cut to 32 bits; without
  such a backend it is refused.\<close>

theorem agent_runs_request:
  assumes "request_fits x link device"
  shows "handle_inbound adapters epoch (outgoing MT_AgentExecute n (writer_take (agent_request x link device)) kFlagAgentDirected) =
    Some (case by_key adapters (stable_key_for link device) of None \<Rightarrow> Failure SC_BackingUnavailable
      | Some a \<Rightarrow> result_response (ba_execute a (backend_request x link device)))"
proof -
  obtain fm where "reader_create (writer_take (agent_request x link device)) default_limits = Inr fm"
      "reader_str fm kFieldStableKey = FA_Value (stable_key_for link device)"
      "\<And>execute. execute_on_backend execute fm = Some (Inr (result_response (execute (backend_request x link device))))"
    using request_read [OF assms] by blast
  then show ?thesis by (simp add: handle_inbound_def outgoing_def settled_response_def split: option.split)
qed

end
