(* ===== verification/AV_Synthetic.thy ===== *)
theory AV_Synthetic
  imports AV_Agent
begin

text \<open>
  The synthetic backends (\<open>src/synthetic.cpp\<close>): six kinds of device that model mechanisms the host does not have, with the claims each makes
  about isolation. They never execute anything.

  For every setting in the domain of the options, the coordinator accepts their descriptors; none of them is ever taken for real
  hardware; the device of a mechanism that is not available cannot back an accelerator, nor can any other where the policy does not allow
  synthetic ones; and a device whose isolation is unknown meets no requirement.
\<close>

section \<open>Claims and capabilities\<close>

definition capability :: "capability_key \<Rightarrow> capability_verdict \<Rightarrow> u64 \<Rightarrow> string \<Rightarrow> string \<Rightarrow> capability_entry" where
  "capability key verdict v text origin =
    \<lparr> ce_key = key, ce_verdict = verdict, ce_value = v, ce_text = text, ce_provenance = origin \<rparr>"

definition claim :: "isolation_dimension \<Rightarrow> isolation_state \<Rightarrow> string \<Rightarrow> string \<Rightarrow> isolation_claim" where
  "claim dimension state mechanism rationale =
    \<lparr> ic_dimension = dimension, ic_state = state, ic_evidence = no_id, ic_evidence_gen = no_gen, ic_mechanism = mechanism,
      ic_rationale = rationale \<rparr>"

definition partition_isolation :: "string \<Rightarrow> isolation_claim list" where
  "partition_isolation name =
    [claim ID_Memory IS_Isolated name
       ''synthetic model: each partition owns a disjoint memory region'',
     claim ID_ExecutionContext IS_Isolated name
       ''synthetic model: each partition owns a disjoint execution engine set'',
     claim ID_AddressSpace IS_Isolated name
       ''synthetic model: partitions do not share an address space'',
     claim ID_Fault IS_Partial name
       ''synthetic model: partition faults are modelled as contained, host-level faults are not'',
     claim ID_Reset IS_Partial name
       ''synthetic model: partition reset is modelled as independent, device reset is not'',
     claim ID_Performance IS_Partial name
       ''synthetic model: partitions contend for shared memory bandwidth'',
     claim ID_Telemetry IS_Unknown name
       ''synthetic model does not model telemetry attribution'',
     claim ID_AdminControl IS_Partial name
       ''synthetic model: administration is modelled per partition'',
     claim ID_PeerVisibility IS_Isolated name
       ''synthetic model: partitions cannot see each other'',
     claim ID_Dma IS_Unknown name
       ''synthetic model does not model DMA translation'',
     claim ID_TenantState IS_Isolated name
       ''governance state is separate per virtual accelerator'']"

definition virtual_function_isolation :: "string \<Rightarrow> isolation_claim list" where
  "virtual_function_isolation name =
    [claim ID_Memory IS_Isolated name
       ''synthetic model: each virtual function owns its own memory aperture'',
     claim ID_ExecutionContext IS_Isolated name
       ''synthetic model: each virtual function owns an execution context'',
     claim ID_AddressSpace IS_Isolated name
       ''synthetic model'',
     claim ID_Fault IS_Unknown name
       ''real virtual functions do not automatically contain faults; the synthetic model refuses to claim it'',
     claim ID_Reset IS_Unknown name
       ''synthetic model refuses to claim reset isolation'',
     claim ID_Performance IS_Partial name
       ''synthetic model'',
     claim ID_Telemetry IS_Unknown name
       ''synthetic model'',
     claim ID_AdminControl IS_Partial name
       ''synthetic model'',
     claim ID_PeerVisibility IS_Isolated name
       ''synthetic model'',
     claim ID_Dma IS_Unknown name
       ''real SR-IOV DMA isolation depends on the IOMMU configuration, which the synthetic model does not prove'',
     claim ID_TenantState IS_Isolated name
       ''governance state is separate'']"

definition remote_isolation :: "string \<Rightarrow> isolation_claim list" where
  "remote_isolation name = map (\<lambda>dimension. claim dimension IS_Unknown name
    ''synthetic remote backing models a network boundary whose properties are unknown'') all_isolation_dimensions"

definition migratable_isolation :: "string \<Rightarrow> isolation_claim list" where
  "migratable_isolation name =
    [claim ID_Memory IS_Shared name
       ''synthetic migratable backing deliberately models a shared memory pool so migration can be exercised'',
     claim ID_ExecutionContext IS_Shared name
       ''synthetic model'',
     claim ID_AddressSpace IS_Shared name
       ''synthetic model'',
     claim ID_Fault IS_Shared name
       ''synthetic model'',
     claim ID_Reset IS_Shared name
       ''synthetic model'',
     claim ID_Performance IS_Shared name
       ''synthetic model'',
     claim ID_Telemetry IS_Unknown name
       ''synthetic model'',
     claim ID_AdminControl IS_Partial name
       ''synthetic model'',
     claim ID_PeerVisibility IS_Shared name
       ''synthetic model'',
     claim ID_Dma IS_Unknown name
       ''synthetic model'',
     claim ID_TenantState IS_Isolated name
       ''governance state is separate'']"

definition unproven_isolation :: "isolation_claim list" where
  "unproven_isolation = map (\<lambda>dimension. claim dimension IS_Unknown ''synthetic-unproven''
    ''the mechanism reports UNKNOWN for every dimension and must never be upgraded'') all_isolation_dimensions"

definition base_capabilities :: "u64 \<Rightarrow> u32 \<Rightarrow> string \<Rightarrow> capability_surface" where
  "base_capabilities memory_bytes compute_units tag = fold surface_set
    [capability CK_MemoryTotalBytes CV_Supported memory_bytes [] tag,
     capability CK_SmCount CV_Supported (ucast compute_units) [] tag,
     capability CK_PrecisionFp32 CV_Supported 0 [] tag,
     capability CK_PrecisionFp16 CV_Supported 0 [] tag,
     capability CK_PrecisionFp64 CV_Unsupported 0 [] tag,
     capability CK_ResetBehavior CV_Unknown 0 [] tag,
     capability CK_PeerAccess CV_Unsupported 0 [] tag] []"

section \<open>Devices\<close>

definition make_backing ::
  "string \<Rightarrow> backing_class \<Rightarrow> multiplexing \<Rightarrow> isolation_class \<Rightarrow> u64 \<Rightarrow> u32 \<Rightarrow> isolation_claim list \<Rightarrow> string \<Rightarrow> bool \<Rightarrow> backing_descriptor" where
  "make_backing label klass mode isolation_class capacity units isolation mechanism exclusive =
    \<lparr> bd_label = label, bd_klass = klass, bd_multiplexing = mode, bd_isolation_class = isolation_class, bd_capacity_bytes = capacity,
      bd_compute_units = units, bd_mechanism = mechanism, bd_isolation = isolation,
      bd_capabilities = base_capabilities capacity units ''synthetic-evidence'', bd_exclusive = exclusive,
      bd_externally_lifecycle_managed = (klass = BC_SyntheticHardwarePartition),
      bd_external_partition_ref =
        (if klass = BC_SyntheticHardwarePartition then ''accelerator-partition-fabric/'' @ label else []) \<rparr>"

definition make_device :: "string \<Rightarrow> string \<Rightarrow> u64 \<Rightarrow> u32 \<Rightarrow> string \<Rightarrow> backing_descriptor list \<Rightarrow> device_descriptor" where
  "make_device key model memory units mechanism backings =
    \<lparr> dd_stable_key = key, dd_vendor = ''synthetic'', dd_model = model, dd_driver_version = ''synthetic-1.0'',
      dd_architecture = ''synthetic'', dd_provenance = PV_Synthetic, dd_memory_total_bytes = memory, dd_compute_units = units,
      dd_compute_capability_major = 0, dd_compute_capability_minor = 0, dd_mechanism = mechanism,
      dd_hardware_partition_capable = False, dd_virtual_function_capable = False, dd_mig_capable = False, dd_backings = backings \<rparr>"

definition execution_refusal :: "string \<Rightarrow> execution_op \<Rightarrow> string" where
  "execution_refusal name op = ''synthetic backend '' @ name @
    '' does not execute work; it proves generic virtualization semantics only ('' @ execution_op_name op @ '')''"

definition synthetic_adapter :: "string \<Rightarrow> device_descriptor \<Rightarrow> backend_adapter" where
  "synthetic_adapter name d =
    \<lparr> ba_name = name, ba_provenance = PV_Synthetic, ba_supported_backing_classes = map bd_klass (dd_backings d),
      ba_discover = Inr [d], ba_probe = (\<lambda>key. if key \<noteq> dd_stable_key d then Inl SC_NotFound else Inr d),
      ba_execute = (\<lambda>request. Inr (blank_result
        \<lparr> xr_status := SC_Unsupported, xr_detail := execution_refusal name (er_op request) \<rparr>)) \<rparr>"

section \<open>The backends\<close>

record synthetic_options =
  so_partition_count :: u32
  so_memory_bytes :: u64

definition default_synthetic :: synthetic_options where
  "default_synthetic = \<lparr> so_partition_count = 4, so_memory_bytes = 16 * 1024 * 1024 * 1024 \<rparr>"

definition synthetic_units :: u32 where "synthetic_units = 128"

definition partition_device :: "synthetic_options \<Rightarrow> device_descriptor" where
  "partition_device o1 = (make_device ''synthetic:pci:partition-device-0'' ''Synthetic Partitioned Accelerator'' (so_memory_bytes o1)
    synthetic_units ''synthetic-partition-mechanism''
    (map (\<lambda>index. make_backing (''partition-'' @ dec_string index) BC_SyntheticHardwarePartition MX_HardwarePartitioned IC_Synthetic
        (so_memory_bytes o1 div ucast (so_partition_count o1)) (synthetic_units div so_partition_count o1)
        (partition_isolation ''synthetic-hardware-partition'') ''synthetic-partition-mechanism'' True)
      [0..<unat (so_partition_count o1)]))\<lparr> dd_hardware_partition_capable := True \<rparr>"

definition virtual_function_device :: "synthetic_options \<Rightarrow> device_descriptor" where
  "virtual_function_device o1 = (make_device ''synthetic:pci:vf-device-0'' ''Synthetic Virtual Function Accelerator'' (so_memory_bytes o1)
    synthetic_units ''synthetic-vf-mechanism''
    (map (\<lambda>index. make_backing (''vf-'' @ dec_string index) BC_SyntheticVendorVirtualFunction MX_VirtualFunction IC_Synthetic
        (so_memory_bytes o1 div 2) (synthetic_units div 2) (virtual_function_isolation ''synthetic-vf'') ''synthetic-vf-mechanism'' True)
      [0..<2]))\<lparr> dd_virtual_function_capable := True \<rparr>"

definition remote_device :: "synthetic_options \<Rightarrow> device_descriptor" where
  "remote_device o1 = make_device ''synthetic:remote:node-0'' ''Synthetic Remote Accelerator'' (so_memory_bytes o1) synthetic_units
    ''synthetic-remote-mechanism''
    [make_backing ''remote-0'' BC_SyntheticRemote MX_Synthetic IC_Unknown (so_memory_bytes o1) synthetic_units
       (remote_isolation ''synthetic-remote'') ''synthetic-remote-mechanism'' False]"

definition migratable_device :: "string \<Rightarrow> synthetic_options \<Rightarrow> device_descriptor" where
  "migratable_device key o1 = make_device key ''Synthetic Migratable Accelerator'' (so_memory_bytes o1) synthetic_units
    ''synthetic-migratable-mechanism''
    [make_backing ''migratable'' BC_SyntheticMigratable MX_Synthetic IC_Synthetic (so_memory_bytes o1) synthetic_units
       (migratable_isolation ''synthetic-migratable'') ''synthetic-migratable-mechanism'' False]"

definition unproven_device :: "synthetic_options \<Rightarrow> device_descriptor" where
  "unproven_device o1 = make_device ''synthetic:pci:unproven-device-0'' ''Synthetic Unproven-Isolation Accelerator'' (so_memory_bytes o1)
    synthetic_units ''synthetic-unproven-mechanism''
    [make_backing ''unproven'' BC_SyntheticMigratable MX_CooperativeShared IC_Unknown (so_memory_bytes o1) synthetic_units
       unproven_isolation ''synthetic-unproven-mechanism'' False]"

definition unsupported_device :: "synthetic_options \<Rightarrow> device_descriptor" where
  "unsupported_device o1 = (make_device ''synthetic:pci:unsupported-device-0'' ''Unavailable Hardware Partition Mechanism'' (so_memory_bytes o1)
    synthetic_units ''unavailable-hardware-partition''
    [make_backing ''mig-like'' BC_HardwarePartition MX_HardwarePartitioned IC_HardwarePartition (so_memory_bytes o1) synthetic_units
       (partition_isolation ''unavailable-hardware-partition'') ''unavailable-hardware-partition'' True])
    \<lparr> dd_provenance := PV_Unsupported, dd_hardware_partition_capable := False, dd_mig_capable := False \<rparr>"

definition synthetic_adapter_names :: "string list" where
  "synthetic_adapter_names = [''synthetic-hardware-partition'', ''synthetic-vendor-virtual-function'', ''synthetic-remote'',
    ''synthetic-migratable'', ''synthetic-unproven-isolation'', ''synthetic-unsupported'']"

definition make_synthetic_backends :: "synthetic_options \<Rightarrow> backend_adapter list" where
  "make_synthetic_backends o1 =
    (if so_partition_count o1 = 0 \<or> so_partition_count o1 > 64 then []
     else if so_memory_bytes o1 = 0 then []
     else
       [synthetic_adapter ''synthetic-hardware-partition'' (partition_device o1),
        synthetic_adapter ''synthetic-vendor-virtual-function'' (virtual_function_device o1),
        synthetic_adapter ''synthetic-remote'' (remote_device o1),
        synthetic_adapter ''synthetic-migratable'' (migratable_device ''synthetic:fab:slot-0'' o1),
        synthetic_adapter ''synthetic-migratable-2'' (migratable_device ''synthetic:fab:slot-1'' o1),
        synthetic_adapter ''synthetic-unproven-isolation'' (unproven_device o1),
        synthetic_adapter ''synthetic-unsupported'' (unsupported_device o1)])"

section \<open>The devices are accepted\<close>

definition synthetic_devices :: "synthetic_options \<Rightarrow> device_descriptor list" where
  "synthetic_devices o1 = map snd (discoveries (make_synthetic_backends o1))"

lemmas synthetic_defs = partition_device_def virtual_function_device_def remote_device_def migratable_device_def unproven_device_def
  unsupported_device_def make_device_def

lemma synthetic_devices_list:
  "synthetic_devices o1 = (if so_partition_count o1 = 0 \<or> so_partition_count o1 > 64 \<or> so_memory_bytes o1 = 0 then []
    else [partition_device o1, virtual_function_device o1, remote_device o1, migratable_device ''synthetic:fab:slot-0'' o1,
      migratable_device ''synthetic:fab:slot-1'' o1, unproven_device o1, unsupported_device o1])"
  by (simp add: synthetic_devices_def make_synthetic_backends_def discoveries_def synthetic_adapter_def)

lemma synthetic_keys:
  "distinct (map dd_stable_key (synthetic_devices o1))"
  "d \<in> set (synthetic_devices o1) \<Longrightarrow> validate_stable_key (dd_stable_key d) = SC_Ok"
  by (auto simp: synthetic_devices_list synthetic_defs validate_stable_key_def dec_digit_def split: if_splits)

lemma claims_made: "partition_isolation name \<noteq> []" "virtual_function_isolation name \<noteq> []" "migratable_isolation name \<noteq> []"
  "remote_isolation name \<noteq> []" "unproven_isolation \<noteq> []"
  by (simp_all add: partition_isolation_def virtual_function_isolation_def migratable_isolation_def remote_isolation_def
      unproven_isolation_def all_isolation_dimensions_def isolation_dimension_names_def)

lemma synthetic_backings_checked:
  "d \<in> set (synthetic_devices o1) \<Longrightarrow> b \<in> set (dd_backings d) \<Longrightarrow> check_descriptor (dd_provenance d) b = SC_Ok"
  by (auto simp: synthetic_devices_list synthetic_defs make_backing_def check_descriptor_def provenance_consistent_def
      class_native_provenance_def claims_made split: if_splits)

lemma unat_widened: "unat (ucast (k :: u32) :: u64) = unat k"
proof -
  have "unat k < 2 ^ 64" using unsigned_less [of k, where ?'a = nat] by simp
  then show ?thesis by (simp add: unsigned_ucast_eq take_bit_nat_eq_self)
qed

text \<open>What the backings of a device offer together.\<close>

definition offered :: "(backing_descriptor \<Rightarrow> nat) \<Rightarrow> device_descriptor \<Rightarrow> nat" where
  "offered f d = sum_list (map f (dd_backings d))"

lemma synthetic_capacity:
  assumes "d \<in> set (synthetic_devices o1)"
  shows "offered (\<lambda>b. unat (bd_capacity_bytes b)) d \<le> unat (dd_memory_total_bytes d) \<and>
    offered (\<lambda>b. unat (bd_compute_units b)) d \<le> unat (dd_compute_units d) \<and> length (dd_backings d) \<le> 64"
proof -
  have n: "unat (so_partition_count o1) \<le> 64" if "\<not> 64 < so_partition_count o1"
    using that by (simp add: word_less_nat_alt)
  show ?thesis using assms
    by (auto simp: synthetic_devices_list synthetic_defs make_backing_def offered_def unat_widened unat_div map_replicate_const
        sum_list_replicate synthetic_units_def n o_def split: if_splits)
qed

text \<open>C29: the coordinator accepts every synthetic device, for every setting of the options: the stable keys are valid and distinct, so that
  each names one device of one backend; every backing passes the checks of registration; and no device offers more memory, more compute
  units or more backings than it has room for.\<close>

theorem synthetic_devices_accepted:
  "distinct (map dd_stable_key (synthetic_devices o1)) \<and>
   list_all (\<lambda>d. validate_stable_key (dd_stable_key d) = SC_Ok \<and> dd_provenance d \<noteq> PV_Unknown \<and>
     list_all (\<lambda>b. check_descriptor (dd_provenance d) b = SC_Ok) (dd_backings d) \<and> length (dd_backings d) \<le> 64 \<and>
     offered (\<lambda>b. unat (bd_capacity_bytes b)) d \<le> unat (dd_memory_total_bytes d) \<and>
     offered (\<lambda>b. unat (bd_compute_units b)) d \<le> unat (dd_compute_units d)) (synthetic_devices o1)"
proof -
  have "dd_provenance d \<noteq> PV_Unknown" if "d \<in> set (synthetic_devices o1)" for d
    using that by (auto simp: synthetic_devices_list synthetic_defs split: if_splits)
  then show ?thesis using synthetic_keys synthetic_backings_checked synthetic_capacity by (auto simp: list_all_iff)
qed

section \<open>What they may be used for\<close>

lemma synthetic_provenance:
  "d \<in> set (synthetic_devices o1) \<Longrightarrow> dd_provenance d = PV_Synthetic \<or> dd_provenance d = PV_Unsupported"
  by (auto simp: synthetic_devices_list synthetic_defs split: if_splits)

lemma described_backing [simp]:
  "bk_provenance (describe_backing e declared p src b) = declared"
  "bk_isolation (describe_backing e declared p src b) = fold profile_set (bd_isolation src) []"
  by (simp_all add: describe_backing_def)

text \<open>Synthetic hardware is never taken for real. The backing record the coordinator makes of a synthetic device carries a provenance other
  than real; and the backing of the mechanism that is not available, and any of them where the policy does not allow synthetic ones,
  is refused for every accelerator.\<close>

theorem synthetic_never_real:
  assumes "d \<in> set (synthetic_devices o1)" and "b \<in> set (dd_backings d)"
  shows "bk_provenance (describe_backing e (dd_provenance d) p b r) \<noteq> PV_Real \<and>
    (dd_provenance d = PV_Unsupported \<or> \<not> pol_synthetic_backing_allowed policy \<longrightarrow>
     validate_backing_for (describe_backing e (dd_provenance d) p b r) physical v policy s \<noteq> SC_Ok)"
  using synthetic_provenance [OF assms(1)] unfolding validate_backing_for_def first_error_ok by auto

lemma unproven_state: "state_of (fold profile_set unproven_isolation []) dimension = IS_Unknown"
proof -
  let ?f = "\<lambda>dimension. claim dimension IS_Unknown ''synthetic-unproven''
    ''the mechanism reports UNKNOWN for every dimension and must never be upgraded''"
  have "fold profile_set unproven_isolation [] = fold (\<lambda>d. profile_set (?f d)) all_isolation_dimensions []"
    by (simp add: unproven_isolation_def fold_map o_def)
  moreover have "state_of (fold (\<lambda>d. profile_set (?f d)) all_isolation_dimensions []) dimension = ic_state (?f dimension)"
    by (subst state_of_fold_set) (simp_all add: all_dimensions claim_def)
  ultimately show ?thesis by (simp add: claim_def)
qed

text \<open>Isolation that is unknown satisfies nothing: an accelerator whose contract (normalised) or policy asks for any state of any dimension
  other than unknown is refused the device that reports unknown isolation.\<close>

theorem unproven_isolation_refused:
  assumes "b \<in> set (dd_backings (unproven_device o1))" and "q \<in> set (merged_requirements (va_contract v) policy)" and "ir_minimum q \<noteq> IS_Unknown"
  shows "validate_backing_for (describe_backing e PV_Synthetic p b r) physical v policy s \<noteq> SC_Ok"
proof -
  have "bd_isolation b = unproven_isolation" using assms(1) by (simp add: synthetic_defs make_backing_def)
  then have "check_requirement (bk_isolation (describe_backing e PV_Synthetic p b r)) q = SC_IsolationUnknownMandatory"
    using assms(3) by (simp add: check_requirement_def unproven_state)
  then show ?thesis using assms(2) unfolding validate_backing_for_def first_error_ok by force
qed

section \<open>Execution on synthetic devices\<close>

text \<open>An agent as the coordinator sees it: the flags and the payload of the frame that answers. A request it cannot read without leaving its
  payload has no answer; the coordinator never sends one.\<close>

definition answer_of :: "backend_adapter list \<Rightarrow> epoch \<Rightarrow> u64 \<Rightarrow> string \<Rightarrow> agent_answer" where
  "answer_of adapters epoch n detail es =
    (case handle_inbound adapters epoch (outgoing MT_AgentExecute n (writer_take es) kFlagAgentDirected) of
       Some r \<Rightarrow> (response_flags r OR kFlagResponse, response_payload detail r)
     | None \<Rightarrow> (0, []))"

lemma synthetic_executes_nothing:
  "by_key (make_synthetic_backends o1) key = Some a \<Longrightarrow> result_response (ba_execute a request) = Failure SC_Unsupported"
  by (auto simp: by_key_def discoveries_def make_synthetic_backends_def synthetic_adapter_def result_response_def blank_result_def
      dest!: map_of_SomeD split: if_splits)

lemma synthetic_answer:
  assumes "request_fits x link device"
  shows "fst (answer_of (make_synthetic_backends o1) epoch n detail (agent_request x link device)) AND kFlagError \<noteq> 0"
proof -
  have "\<exists>c. handle_inbound (make_synthetic_backends o1) epoch
      (outgoing MT_AgentExecute n (writer_take (agent_request x link device)) kFlagAgentDirected) = Some (Failure c)"
    using request_read [OF assms] synthetic_executes_nothing
    by (auto simp: handle_inbound_def outgoing_def settled_response_def split: option.split)
  then show ?thesis by (auto simp: answer_of_def response_flags_def kFlagError_def kFlagResponse_def)
qed

text \<open>Nothing runs on a synthetic device, and nothing stays reserved on it: whatever the operation, the coordinator passes on the agent's
  refusal, and for an allocation the reservation has been given back.\<close>

theorem synthetic_execution_refused:
  assumes "execution_dispatch e e' (answer_of (make_synthetic_backends o1) epoch n detail) x auth device sv = Some (r, im', sent)"
    and "find_agent_for sv device = Some link" and "request_fits x link device" and "sent \<noteq> []"
  shows "response_flags r AND kFlagError \<noteq> 0 \<and> im' = (if xf_op x = XO_Allocate
    then snd (perform e' (Op_ReleaseAllocation auth (xf_bytes x)) (snd (perform e (Op_ReserveAllocation auth (xf_bytes x)) (sv_impl sv))))
    else sv_impl sv)"
proof -
  let ?agent = "answer_of (make_synthetic_backends o1) epoch n detail"
  obtain flags payload where a: "?agent (agent_request x link device) = (flags, payload)" by (meson surj_pair)
  then have f: "flags AND kFlagError \<noteq> 0" using synthetic_answer [OF assms(3), of o1 epoch n detail] by simp
  have outcome: "execution_outcome e' ?agent x auth reserved link device im1 =
      Some (Relayed flags payload, give_back reserved e' auth (xf_bytes x) im1, [agent_request x link device])" for reserved im1
    by (simp add: execution_outcome_def a f)
  obtain status im1 where p: "report (reserve_allocation e auth (xf_bytes x) (sv_impl sv)) = (status, im1)" by (meson surj_pair)
  show ?thesis using assms(1,2,4) f unfolding execution_dispatch_def Let_def
    by (auto simp: p outcome response_flags_def give_back_def release_report split: if_splits)
qed

end
