(* ===== verification/AV_Text.thy ===== *)
theory AV_Text
  imports AV_Wire AV_Audit
begin

text \<open>
  The texts that records and reports are rendered as: the canonical forms behind fingerprints (\<open>contract.cpp\<close>, \<open>policy.cpp\<close>,
  \<open>audit.cpp\<close>, \<open>migration.cpp\<close>, \<open>runtime.cpp\<close>), the counters (\<open>accounting.cpp\<close>), the report of the audit (\<open>invariant.cpp\<close>), the
  snapshot (\<open>model.cpp\<close>) and the client's view (\<open>client.cpp\<close>), and the descriptions of the multiplexing modes (\<open>taxonomy.cpp\<close>).

  A text of lines determines its lines. So the canonical text of a contract determines everything the contract grants, and the text of
  the counters every counter.
\<close>

section \<open>Lines\<close>

definition line_break :: char where "line_break = CHR 0x0A"

definition text_line :: "string \<Rightarrow> string \<Rightarrow> string" where
  "text_line key v = key @ ''='' @ v"

definition text_of :: "string list \<Rightarrow> string" where
  "text_of ls = concat (map (\<lambda>l. l @ [line_break]) ls)"

definition key_lines :: "(string \<times> string) list \<Rightarrow> string list" where
  "key_lines kvs = map (\<lambda>(key, v). text_line key v) kvs"

definition decimal :: "'a::len word \<Rightarrow> string" where
  "decimal w = dec_string (unat w)"

definition int_string :: "int \<Rightarrow> string" where
  "int_string i = (if i < 0 then ''-'' @ dec_string (nat (- i)) else dec_string (nat i))"

definition truth :: "bool \<Rightarrow> string" where
  "truth b = (if b then ''true'' else ''false'')"

definition id_str :: "string \<Rightarrow> 't ident \<Rightarrow> string" where
  "id_str prefix i = render_strong_id prefix (id_value i)"

section \<open>Counters, contracts, policies\<close>

definition accounting_lines :: "accounting \<Rightarrow> string list" where
  "accounting_lines c = key_lines
    [(''coordinator_boots'', decimal (ac_coordinator_boots c)), (''agent_boots'', decimal (ac_agent_boots c)),
     (''physical_registered'', decimal (ac_physical_registered c)), (''physical_lost'', decimal (ac_physical_lost c)),
     (''virtual_created'', decimal (ac_virtual_created c)), (''virtual_retired'', decimal (ac_virtual_retired c)),
     (''virtual_active'', decimal (ac_virtual_active c)), (''leases_issued'', decimal (ac_leases_issued c)),
     (''leases_renewed'', decimal (ac_leases_renewed c)), (''leases_revoked'', decimal (ac_leases_revoked c)),
     (''leases_fenced'', decimal (ac_leases_fenced c)), (''attachments_active'', decimal (ac_attachments_active c)),
     (''peak_attachments_active'', decimal (ac_peak_attachments_active c)), (''detaches'', decimal (ac_detaches c)),
     (''backing_assignments'', decimal (ac_backing_assignments c)), (''backing_replacements'', decimal (ac_backing_replacements c)),
     (''backing_revocations'', decimal (ac_backing_revocations c)), (''migrations_planned'', decimal (ac_migrations_planned c)),
     (''migrations_prepared'', decimal (ac_migrations_prepared c)), (''migrations_committed'', decimal (ac_migrations_committed c)),
     (''migrations_aborted'', decimal (ac_migrations_aborted c)), (''stale_authority_refusals'', decimal (ac_stale_authority_refusals c)),
     (''authority_refusals'', decimal (ac_authority_refusals c)), (''lifecycle_refusals'', decimal (ac_lifecycle_refusals c)),
     (''contract_violation_refusals'', decimal (ac_contract_violation_refusals c)), (''isolation_refusals'', decimal (ac_isolation_refusals c)),
     (''capability_refusals'', decimal (ac_capability_refusals c)), (''oversubscription_denials'', decimal (ac_oversubscription_denials c)),
     (''protocol_violations'', decimal (ac_protocol_violations c)), (''duplicate_request_refusals'', decimal (ac_duplicate_request_refusals c)),
     (''policy_updates'', decimal (ac_policy_updates c)), (''evidence_records'', decimal (ac_evidence_records c)),
     (''allocation_operations'', decimal (ac_allocation_operations c)), (''kernel_operations'', decimal (ac_kernel_operations c)),
     (''bytes_allocated_current'', decimal (ac_bytes_allocated_current c)), (''bytes_allocated_peak'', decimal (ac_bytes_allocated_peak c)),
     (''persistence_writes'', decimal (ac_persistence_writes c)), (''persistence_bytes'', decimal (ac_persistence_bytes c)),
     (''persistence_compactions'', decimal (ac_persistence_compactions c))]"

definition accounting_canonical :: "accounting \<Rightarrow> string" where
  "accounting_canonical c = text_of (accounting_lines c)"

definition requirement_text :: "isolation_requirement \<Rightarrow> string" where
  "requirement_text r = isolation_dimension_name (ir_dimension r) @ ''>='' @ isolation_state_name (ir_minimum r)"

definition contract_lines :: "resource_contract \<Rightarrow> string list" where
  "contract_lines c = key_lines
    [(''memory_ceiling_bytes'', decimal (rc_memory_ceiling_bytes c)), (''compute_share_milli'', decimal (rc_compute_share_milli c)),
     (''max_streams'', decimal (rc_max_streams c)), (''max_concurrency'', decimal (rc_max_concurrency c)),
     (''bandwidth_allowance'', decimal (rc_bandwidth_allowance c)), (''exclusivity_required'', truth (rc_exclusivity_required c)),
     (''minimum_backing_rank'', decimal (rc_minimum_backing_rank c)), (''migration_allowed'', truth (rc_migration_allowed c)),
     (''oversubscription_allowed'', truth (rc_oversubscription_allowed c)), (''burst_allowed'', truth (rc_burst_allowed c))] @
    map (\<lambda>k. text_line ''allowed_backing_class'' (backing_class_name k)) (rc_allowed_backing_classes c) @
    map (\<lambda>m. text_line ''allowed_multiplexing'' (multiplexing_name m)) (rc_allowed_multiplexing_modes c) @
    map (\<lambda>r. text_line ''required_isolation'' (requirement_text r)) (rc_required_isolation c) @
    map (\<lambda>k. text_line ''allowed_migration_class'' (migration_class_name k)) (rc_allowed_migration_classes c)"

definition contract_canonical :: "resource_contract \<Rightarrow> string" where
  "contract_canonical c = text_of (contract_lines c)"

definition contract_fingerprint :: "resource_contract \<Rightarrow> u64" where
  "contract_fingerprint c = fnv1a64 (text_bytes (contract_canonical c))"

definition policy_canonical :: "virtualization_policy \<Rightarrow> string" where
  "policy_canonical p = text_of (key_lines
    [(''tenant_sharing'', tenant_sharing_name (pol_tenant_sharing p)),
     (''oversubscription_allowed'', truth (pol_oversubscription_allowed p)), (''transparency'', transparency_name (pol_transparency p)),
     (''migration_allowed'', truth (pol_migration_allowed p)),
     (''max_attachments_per_virtual'', decimal (pol_max_attachments_per_virtual p)),
     (''max_lease_duration_micros'', decimal (pol_max_lease_duration_micros p)),
     (''max_memory_ceiling_bytes'', decimal (pol_max_memory_ceiling_bytes p)),
     (''max_compute_share_milli'', decimal (pol_max_compute_share_milli p)),
     (''synthetic_backing_allowed'', truth (pol_synthetic_backing_allowed p)), (''recovery'', recovery_behavior_name (pol_recovery p)),
     (''evidence_max_age_micros'', decimal (pol_evidence_max_age_micros p)),
     (''max_virtual_accelerators'', decimal (pol_max_virtual_accelerators p)), (''max_tenants'', decimal (pol_max_tenants p)),
     (''max_leases'', decimal (pol_max_leases p)), (''max_assignments'', decimal (pol_max_assignments p)),
     (''max_migrations'', decimal (pol_max_migrations p)), (''max_evidence_records'', decimal (pol_max_evidence_records p))] @
    map (\<lambda>k. text_line ''allowed_backing_class'' (backing_class_name k)) (pol_allowed_backing_classes p) @
    map (\<lambda>k. text_line ''allowed_migration_class'' (migration_class_name k)) (pol_allowed_migration_classes p) @
    map (\<lambda>r. text_line ''required_isolation'' (requirement_text r)) (pol_required_isolation p) @
    map (\<lambda>k. text_line ''forbidden_capability'' (capability_key_name k)) (pol_forbidden_capabilities p))"

definition policy_fingerprint :: "virtualization_policy \<Rightarrow> u64" where
  "policy_fingerprint p = fnv1a64 (text_bytes (policy_canonical p))"

section \<open>Multiplexing modes\<close>

record multiplexing_semantics =
  ms_mode :: multiplexing
  ms_concurrent_use :: string
  ms_memory_ownership :: string
  ms_compute_sharing :: string
  ms_scheduling_dependency :: string
  ms_isolation_guarantee :: string
  ms_failure_coupling :: string
  ms_performance_predictability :: string
  ms_reset_coupling :: string
  ms_migration_implication :: string

definition kSemantics :: "multiplexing_semantics list" where
  "kSemantics =
    [\<lparr> ms_mode = MX_None,
       ms_concurrent_use =
         ''not usable; no backing assigned'',
       ms_memory_ownership =
         ''no device memory is owned'',
       ms_compute_sharing =
         ''no compute capacity is provided'',
       ms_scheduling_dependency =
         ''no scheduling relationship exists'',
       ms_isolation_guarantee =
         ''no isolation is provided because nothing is backed'',
       ms_failure_coupling =
         ''not applicable'',
       ms_performance_predictability =
         ''not applicable'',
       ms_reset_coupling =
         ''not applicable'',
       ms_migration_implication =
         ''the virtual accelerator must be provisioned and assigned a backing first'' \<rparr>,
     \<lparr> ms_mode = MX_Dedicated,
       ms_concurrent_use =
         ''one virtual accelerator holds the whole physical device; concurrent use by another virtual accelerator is refused, not merely discouraged'',
       ms_memory_ownership =
         ''the virtual accelerator owns the device memory the runtime grants it; no other virtual accelerator is assigned the device'',
       ms_compute_sharing =
         ''the full compute capacity of the device is available to the single holder'',
       ms_scheduling_dependency =
         ''no scheduler mediates sharing because there is no sharing'',
       ms_isolation_guarantee =
         ''device-level exclusivity. This is physical exclusivity for the assignment, not a hardware partitioning guarantee'',
       ms_failure_coupling =
         ''a device fault affects only the single holder, which is the whole blast radius by construction'',
       ms_performance_predictability =
         ''predictable within device-level variance; no neighbour interference from this runtime'',
       ms_reset_coupling =
         ''a reset affects the only holder'',
       ms_migration_implication =
         ''rebinding to a different device preserves virtual identity; execution state does not move unless a state-moving migration class is used'' \<rparr>,
     \<lparr> ms_mode = MX_HardwarePartitioned,
       ms_concurrent_use =
         ''each virtual accelerator holds a distinct physical partition; concurrency is bounded by the partition count'',
       ms_memory_ownership =
         ''memory is owned per hardware partition as configured by the partition owner'',
       ms_compute_sharing =
         ''compute units are owned per partition'',
       ms_scheduling_dependency =
         ''the partition mechanism schedules; this runtime does not'',
       ms_isolation_guarantee =
         ''isolation is whatever the partition mechanism proves; this runtime records the claim and its evidence and never strengthens it'',
       ms_failure_coupling =
         ''faults may or may not be contained by the partition; the recorded isolation evidence states what is known'',
       ms_performance_predictability =
         ''depends on the partition mechanism and on neighbour activity inside other partitions'',
       ms_reset_coupling =
         ''reset isolation depends on the partition mechanism and is recorded per dimension'',
       ms_migration_implication =
         ''the virtual accelerator may be rebound to a different existing partition; creating partitions is outside this runtime'' \<rparr>,
     \<lparr> ms_mode = MX_VirtualFunction,
       ms_concurrent_use =
         ''each virtual accelerator holds a distinct virtual function presented by the platform'',
       ms_memory_ownership =
         ''memory is owned by the virtual function's own device context'',
       ms_compute_sharing =
         ''compute capacity is owned according to the platform's virtual function configuration'',
       ms_scheduling_dependency =
         ''the platform and its driver schedule virtual functions'',
       ms_isolation_guarantee =
         ''isolation is what the virtual function implementation proves, which this runtime never assumes from the mere existence of a virtual function'',
       ms_failure_coupling =
         ''fault containment depends on the platform implementation and is recorded as unknown unless proven'',
       ms_performance_predictability =
         ''depends on platform scheduling of virtual functions'',
       ms_reset_coupling =
         ''reset isolation depends on the platform implementation'',
       ms_migration_implication =
         ''the virtual accelerator may be rebound to a different existing virtual function'' \<rparr>,
     \<lparr> ms_mode = MX_ProcessIsolated,
       ms_concurrent_use =
         ''multiple virtual accelerators use the device from separate OS processes'',
       ms_memory_ownership =
         ''each process owns the device memory it allocates; the device has one shared physical memory pool'',
       ms_compute_sharing =
         ''compute capacity is shared by the device scheduler, not divided by this runtime'',
       ms_scheduling_dependency =
         ''the operating system and the device driver schedule the processes'',
       ms_isolation_guarantee =
         ''address space and execution context separation come from the OS process boundary; memory, fault, reset and performance isolation do NOT follow from it'',
       ms_failure_coupling =
         ''a device fault is not contained by the process boundary'',
       ms_performance_predictability =
         ''low: other processes on the same device affect throughput'',
       ms_reset_coupling =
         ''a device reset affects every process using the device'',
       ms_migration_implication =
         ''rebinding preserves virtual identity; process restart is implied'' \<rparr>,
     \<lparr> ms_mode = MX_ContextIsolated,
       ms_concurrent_use =
         ''multiple virtual accelerators use distinct vendor execution contexts that may live in one process'',
       ms_memory_ownership =
         ''device memory is allocated per context but drawn from one physical pool'',
       ms_compute_sharing =
         ''the vendor runtime schedules contexts on the device'',
       ms_scheduling_dependency =
         ''the vendor runtime's context scheduler'',
       ms_isolation_guarantee =
         ''context separation is a vendor-level scheduling boundary, not a hardware isolation guarantee. Memory is not hardware-partitioned'',
       ms_failure_coupling =
         ''a device fault affects all contexts on the device'',
       ms_performance_predictability =
         ''low: contexts contend for the same execution resources'',
       ms_reset_coupling =
         ''a device reset destroys every context'',
       ms_migration_implication =
         ''rebinding preserves virtual identity; contexts must be recreated'' \<rparr>,
     \<lparr> ms_mode = MX_TimeSliced,
       ms_concurrent_use =
         ''multiple virtual accelerators are serialized over time on one shared device context'',
       ms_memory_ownership =
         ''one shared physical memory pool; per-virtual budgets are enforced by this runtime's accounting, not by hardware'',
       ms_compute_sharing =
         ''compute capacity is time-shared and therefore variable'',
       ms_scheduling_dependency =
         ''a software scheduler inside the device runtime'',
       ms_isolation_guarantee =
         ''logical and governance isolation only: separate virtual objects, separate authority, separate accounting. No hardware memory, fault, reset, performance or DMA isolation'',
       ms_failure_coupling =
         ''a fault in one workload can affect every workload sharing the device context'',
       ms_performance_predictability =
         ''low: performance depends on neighbour activity and is not bounded'',
       ms_reset_coupling =
         ''a device reset affects every virtual accelerator sharing the device'',
       ms_migration_implication =
         ''rebinding preserves virtual identity; in-flight work is lost unless the migration class moves state'' \<rparr>,
     \<lparr> ms_mode = MX_CooperativeShared,
       ms_concurrent_use =
         ''workloads share a device context by convention and are expected to cooperate'',
       ms_memory_ownership =
         ''one shared physical memory pool with no enforced ownership boundary'',
       ms_compute_sharing =
         ''compute capacity is shared without arbitration by this runtime'',
       ms_scheduling_dependency =
         ''the participating workloads and whatever external scheduler they use'',
       ms_isolation_guarantee =
         ''no isolation is claimed. Cooperation is a convention, not a boundary'',
       ms_failure_coupling =
         ''a fault in one workload can affect the others'',
       ms_performance_predictability =
         ''not predictable; neighbours are not isolated'',
       ms_reset_coupling =
         ''a reset affects every participant'',
       ms_migration_implication =
         ''rebinding preserves virtual identity; cooperation must be re-established'' \<rparr>,
     \<lparr> ms_mode = MX_Synthetic,
       ms_concurrent_use =
         ''semantics are defined by the synthetic model, not by hardware'',
       ms_memory_ownership =
         ''synthetic memory accounting only'',
       ms_compute_sharing =
         ''synthetic compute accounting only'',
       ms_scheduling_dependency =
         ''the synthetic backend's deterministic model'',
       ms_isolation_guarantee =
         ''whatever the synthetic backend is constructed to model. It is always labelled SYNTHETIC and never used as evidence of hardware behaviour'',
       ms_failure_coupling =
         ''not applicable to hardware'',
       ms_performance_predictability =
         ''not applicable to hardware'',
       ms_reset_coupling =
         ''not applicable to hardware'',
       ms_migration_implication =
         ''used to exercise generic identity, authority, lifecycle and migration semantics'' \<rparr>]"

definition multiplexing_semantics_of :: "multiplexing \<Rightarrow> multiplexing_semantics" where
  "multiplexing_semantics_of mode = (case find (\<lambda>e. ms_mode e = mode) kSemantics of Some e \<Rightarrow> e | None \<Rightarrow> kSemantics ! 0)"

section \<open>Log entries and migrations\<close>

text \<open>The reason of a decision and the detail of an entry are not in the model's logs: they are arguments.\<close>

definition decision_canonical :: "string \<Rightarrow> decision \<Rightarrow> string" where
  "decision_canonical reason d = text_of (key_lines
    [(''operation'', dc_operation d), (''outcome'', code_name (dc_outcome d)), (''reason'', reason), (''epoch'', gen_str (dc_epoch d)),
     (''virtual'', va_str (dc_virtual_id d)), (''virtual_generation'', gen_str (dc_virtual_generation d)),
     (''tenant'', tn_str (dc_tenant d)), (''tenant_generation'', gen_str (dc_tenant_generation d)),
     (''backing'', bk_str (dc_backing d)), (''backing_generation'', gen_str (dc_backing_generation d)),
     (''physical'', pd_str (dc_physical d)), (''physical_generation'', gen_str (dc_physical_generation d)),
     (''lease'', id_str ''ls'' (dc_lease d)), (''lease_generation'', gen_str (dc_lease_generation d)),
     (''policy_generation'', gen_str (dc_policy_generation d)), (''migration'', mg_str (dc_migration d)),
     (''migration_generation'', gen_str (dc_migration_generation d))])"

definition decision_fingerprint :: "string \<Rightarrow> decision \<Rightarrow> u64" where
  "decision_fingerprint reason d = fnv1a64 (text_bytes (decision_canonical reason d))"

definition audit_entry_canonical :: "string \<Rightarrow> audit_entry \<Rightarrow> string" where
  "audit_entry_canonical detail e = text_of (key_lines
    [(''kind'', audit_kind_name (au_kind e)), (''operation'', au_operation e), (''outcome'', code_name (au_outcome e)),
     (''detail'', detail), (''id'', id_str ''dec'' (au_id e)), (''at'', int_string (sint (au_at e))), (''epoch'', gen_str (au_epoch e)),
     (''virtual'', va_str (au_virtual_id e)), (''virtual_generation'', gen_str (au_virtual_generation e)),
     (''tenant'', tn_str (au_tenant e)), (''tenant_generation'', gen_str (au_tenant_generation e)),
     (''backing'', bk_str (au_backing e)), (''backing_generation'', gen_str (au_backing_generation e)),
     (''migration'', mg_str (au_migration e)), (''migration_generation'', gen_str (au_migration_generation e))])"

definition migration_canonical :: "migration_record \<Rightarrow> string" where
  "migration_canonical m = (let p = mg_plan m in text_of (key_lines
    [(''migration'', mg_str (mp_id p)), (''generation'', gen_str (mp_generation p)), (''virtual'', va_str (mp_virtual_id p)),
     (''virtual_generation'', gen_str (mp_virtual_generation p)), (''state'', migration_state_name (mg_state m)),
     (''class'', migration_class_name (mp_klass p)), (''source_backing'', bk_str (mp_source_backing p)),
     (''source_backing_generation'', gen_str (mp_source_backing_generation p)),
     (''destination_backing'', bk_str (mp_destination_backing p)),
     (''destination_backing_generation'', gen_str (mp_destination_backing_generation p)),
     (''source_physical'', pd_str (mp_source_physical p)), (''source_physical_generation'', gen_str (mp_source_physical_generation p)),
     (''destination_physical'', pd_str (mp_destination_physical p)),
     (''destination_physical_generation'', gen_str (mp_destination_physical_generation p)), (''tenant'', tn_str (mp_tenant p)),
     (''tenant_generation'', gen_str (mp_tenant_generation p)), (''contract_generation'', gen_str (mp_contract_generation p)),
     (''projection_generation'', gen_str (mp_projection_generation p)), (''policy_generation'', gen_str (mp_policy_generation p)),
     (''epoch'', gen_str (mp_epoch p)), (''state_transfer_required'', truth (mp_state_transfer_required p)),
     (''live_state_movement'', truth (mp_live_state_movement p)), (''source_authoritative'', truth (mg_source_authoritative m)),
     (''destination_authoritative'', truth (mg_destination_authoritative m)),
     (''state_transfer_performed'', truth (mg_state_transfer_performed m)), (''rationale'', mp_rationale p)]))"

section \<open>Authorities, views, explanations\<close>

definition optional_line :: "string \<Rightarrow> ('a \<Rightarrow> string) \<Rightarrow> 'a option \<Rightarrow> string list" where
  "optional_line key render v = (case v of None \<Rightarrow> [] | Some x \<Rightarrow> [text_line key (render x)])"

definition authority_canonical :: "authority \<Rightarrow> string" where
  "authority_canonical a = text_of
    (optional_line ''epoch'' gen_str (auth_epoch a) @ optional_line ''tenant'' tn_str (auth_tenant a) @
     optional_line ''tenant_generation'' gen_str (auth_tenant_generation a) @ optional_line ''virtual'' va_str (auth_virtual_id a) @
     optional_line ''virtual_generation'' gen_str (auth_virtual_generation a) @ optional_line ''backing'' bk_str (auth_backing a) @
     optional_line ''backing_generation'' gen_str (auth_backing_generation a) @ optional_line ''physical'' pd_str (auth_physical a) @
     optional_line ''physical_generation'' gen_str (auth_physical_generation a) @ optional_line ''lease'' (id_str ''ls'') (auth_lease a) @
     optional_line ''lease_generation'' gen_str (auth_lease_generation a) @
     optional_line ''policy_generation'' gen_str (auth_policy_generation a) @ optional_line ''migration'' mg_str (auth_migration a) @
     optional_line ''migration_generation'' gen_str (auth_migration_generation a) @
     optional_line ''request'' (id_str ''rq'') (auth_request a) @ optional_line ''session'' decimal (auth_session a))"

definition view_canonical :: "virtual_view \<Rightarrow> string" where
  "view_canonical v = text_of (key_lines
    ([(''virtual'', va_str (vv_id v)), (''name'', vv_name v), (''generation'', gen_str (vv_generation v)),
     (''lifecycle'', lifecycle_name (vv_state v)), (''state_generation'', gen_str (vv_state_generation v)),
     (''state_reason'', vv_state_reason v), (''owner'', tn_str (vv_owner v)), (''owner_generation'', gen_str (vv_owner_generation v)),
     (''owner_is_caller'', truth (vv_owner_is_caller v)), (''multiplexing'', multiplexing_name (vv_multiplexing v)),
     (''isolation_class'', isolation_class_name (vv_isolation_class v)), (''transparency'', transparency_name (vv_transparency v)),
     (''backing_disclosed'', truth (vv_backing_disclosed v)), (''backing_class'', backing_class_name (vv_backing_class v)),
     (''backing_provenance'', provenance_name (vv_backing_provenance v)), (''backing_mechanism'', vv_backing_mechanism v),
     (''backing_generation'', gen_str (vv_backing_generation v)), (''physical_generation'', gen_str (vv_physical_generation v)),
     (''physical_model'', vv_physical_model v), (''active_attachments'', decimal (vv_active_attachments v)),
     (''attached_to_caller'', truth (vv_attached_to_caller v)), (''caller_lease'', id_str ''ls'' (vv_caller_lease v)),
     (''caller_lease_generation'', gen_str (vv_caller_lease_generation v)),
     (''migration_class'', migration_class_name (vv_migration_class v)), (''migration_supported'', truth (vv_migration_supported v)),
     (''has_active_migration'', truth (vv_has_active_migration v)), (''allocated_bytes'', decimal (vv_allocated_bytes v)),
     (''contract_generation'', gen_str (rc_generation (vv_contract v))),
     (''contract_memory_ceiling_bytes'', decimal (rc_memory_ceiling_bytes (vv_contract v))),
     (''projection_generation'', gen_str (cp_generation (vv_projection v))),
     (''projection_fingerprint'', decimal (cp_fingerprint (vv_projection v))), (''created_at'', decimal (vv_created_at v)),
     (''updated_at'', decimal (vv_updated_at v))] @
     (if vv_backing_disclosed v \<and> id_valid (vv_backing v) then [(''backing'', bk_str (vv_backing v))] else []) @
     (if vv_backing_disclosed v \<and> id_valid (vv_physical v) then [(''physical'', pd_str (vv_physical v))] else [])))"

text \<open>What the command line tool prints of a view. The two identities of the placement are left out where they are not disclosed; the stable key and
  the model are printed whenever they are there.\<close>

definition shown_line :: "string \<times> string \<Rightarrow> string" where
  "shown_line kv = ''  '' @ fst kv @ '': '' @ snd kv"

definition render_virtual_view :: "virtual_view \<Rightarrow> string" where
  "render_virtual_view v = text_of ((''virtual '' @ va_str (vv_id v)) # map shown_line
    ([(''name'', vv_name v), (''generation'', gen_str (vv_generation v)), (''lifecycle'', lifecycle_name (vv_state v)),
     (''state_generation'', gen_str (vv_state_generation v)), (''state_reason'', vv_state_reason v), (''owner'', tn_str (vv_owner v)),
     (''owner_generation'', gen_str (vv_owner_generation v)), (''multiplexing'', multiplexing_name (vv_multiplexing v)),
     (''isolation_class'', isolation_class_name (vv_isolation_class v)), (''attachments'', decimal (vv_active_attachments v)),
     (''allocated_bytes'', decimal (vv_allocated_bytes v)), (''transparency'', transparency_name (vv_transparency v)),
     (''backing_disclosed'', truth (vv_backing_disclosed v)), (''backing_class'', backing_class_name (vv_backing_class v)),
     (''backing_provenance'', provenance_name (vv_backing_provenance v)), (''backing_mechanism'', vv_backing_mechanism v),
     (''backing_generation'', gen_str (vv_backing_generation v))] @
     (if vv_backing_disclosed v \<and> id_valid (vv_backing v) then [(''backing'', bk_str (vv_backing v))] else []) @
     [(''physical_generation'', gen_str (vv_physical_generation v))] @
     (if vv_backing_disclosed v \<and> id_valid (vv_physical v) then [(''physical'', pd_str (vv_physical v))] else []) @
     (if vv_physical_stable_key v \<noteq> [] then [(''physical_stable_key'', vv_physical_stable_key v)] else []) @
     (if vv_physical_model v \<noteq> [] then [(''physical_model'', vv_physical_model v)] else []) @
     [(''migration_class'', migration_class_name (vv_migration_class v)), (''migration_supported'', truth (vv_migration_supported v)),
     (''has_active_migration'', truth (vv_has_active_migration v)), (''contract_generation'', gen_str (rc_generation (vv_contract v))),
     (''contract_memory_ceiling_bytes'', decimal (rc_memory_ceiling_bytes (vv_contract v))),
     (''contract_compute_share_milli'', decimal (rc_compute_share_milli (vv_contract v))),
     (''projection_generation'', gen_str (cp_generation (vv_projection v))),
     (''projection_fingerprint'', decimal (cp_fingerprint (vv_projection v)))]))"

definition claim_lines :: "string \<Rightarrow> isolation_claim list \<Rightarrow> string list" where
  "claim_lines label claims = map (\<lambda>c. label @ '' '' @ isolation_dimension_name (ic_dimension c) @ '' '' @
    isolation_state_name (ic_state c) @ '' '' @ ic_mechanism c @ '' '' @ ic_rationale c) claims"

definition isolation_explanation_canonical :: "isolation_explanation \<Rightarrow> string" where
  "isolation_explanation_canonical x = text_of (key_lines
    [(''virtual'', va_str (ix_id x)), (''generation'', gen_str (ix_generation x)),
     (''isolation_class'', isolation_class_name (ix_isolation_class x)), (''provenance'', provenance_name (ix_provenance x)),
     (''mechanism'', ix_mechanism x), (''multiplexing'', multiplexing_name (ix_multiplexing x)),
     (''satisfies_policy'', truth (ix_satisfies_policy x))] @
    claim_lines ''claim'' (ix_claims x) @ claim_lines ''isolated'' (ix_isolated x) @ claim_lines ''partial'' (ix_partial x) @
    claim_lines ''shared'' (ix_shared x) @ claim_lines ''unknown'' (ix_unknown x) @ claim_lines ''unsupported'' (ix_unsupported x) @
    map (\<lambda>r. ''unmet '' @ isolation_dimension_name (ir_dimension r) @ '' '' @ isolation_state_name (ir_minimum r)) (ix_unmet_requirements x))"

definition migration_explanation_canonical :: "migration_explanation \<Rightarrow> string" where
  "migration_explanation_canonical x = text_of (key_lines
    [(''virtual'', va_str (mx_id x)), (''supported'', truth (mx_supported x)), (''class'', migration_class_name (mx_klass x)),
     (''state_transfer_required'', truth (mx_state_transfer_required x)), (''live_state_movement'', truth (mx_live_state_movement x)),
     (''has_active_migration'', truth (mx_has_active_migration x)), (''migration_state'', migration_state_name (mx_state x)),
     (''reason'', mx_reason x)])"

text \<open>A violation is printed with its code and a detail, which the model of the audit does not have: \<open>detail\<close> is both.\<close>

definition audit_report_canonical :: "(invariant_violation \<Rightarrow> string) \<Rightarrow> audit_report \<Rightarrow> string" where
  "audit_report_canonical detail r = text_of (key_lines
    ([(''virtuals_checked'', dec_string (ar_virtuals_checked r)), (''tenants_checked'', dec_string (ar_tenants_checked r)),
     (''backings_checked'', dec_string (ar_backings_checked r)), (''leases_checked'', dec_string (ar_leases_checked r)),
     (''assignments_checked'', dec_string (ar_assignments_checked r)), (''migrations_checked'', dec_string (ar_migrations_checked r)),
     (''physical_checked'', dec_string (ar_physical_checked r)), (''state_fingerprint'', decimal (ar_state_fingerprint r)),
     (''epoch'', decimal (ar_epoch r)), (''violation_count'', dec_string (length (ar_violations r)))] @
     map (\<lambda>v. (''violation'', detail v)) (ar_violations r)))"

section \<open>The snapshot\<close>

definition physical_lines :: "pd_id \<times> physical_record \<Rightarrow> string list" where
  "physical_lines e = (case e of (i, r) \<Rightarrow> key_lines
    [(''  physical'', pd_str i), (''    stable_key'', pd_stable_key r), (''    generation'', gen_str (pd_generation r)),
     (''    provenance'', provenance_name (pd_provenance r)), (''    model'', pd_model r),
     (''    memory_total_bytes'', decimal (pd_memory_total_bytes r)), (''    present'', truth (pd_present r)),
     (''    agent'', id_str ''ag'' (pd_agent r)), (''    boot'', id_str ''boot'' (pd_boot r))])"

definition backing_lines :: "bk_id \<times> backing_record \<Rightarrow> string list" where
  "backing_lines e = (case e of (i, r) \<Rightarrow> key_lines
    [(''  backing'', bk_str i), (''    generation'', gen_str (bk_generation r)), (''    class'', backing_class_name (bk_klass r)),
     (''    provenance'', provenance_name (bk_provenance r)), (''    multiplexing'', multiplexing_name (bk_multiplexing r)),
     (''    isolation_class'', isolation_class_name (bk_isolation_class r)), (''    physical'', pd_str (bk_physical r)),
     (''    physical_generation'', gen_str (bk_physical_generation r)), (''    available'', truth (bk_available r)),
     (''    assigned_to'', va_str (bk_assigned_to r)), (''    isolation_fingerprint'', decimal (profile_fingerprint (bk_isolation r)))])"

definition tenant_lines :: "tn_id \<times> tenant_record \<Rightarrow> string list" where
  "tenant_lines e = (case e of (i, r) \<Rightarrow> key_lines
    [(''  tenant'', tn_str i), (''    name'', tn_name r), (''    generation'', gen_str (tn_generation r)),
     (''    fenced'', truth (tn_fenced r)), (''    active_attachments'', decimal (tn_active_attachments r))])"

definition virtual_lines :: "va_id \<times> virtual_record \<Rightarrow> string list" where
  "virtual_lines e = (case e of (i, r) \<Rightarrow> key_lines
    [(''  virtual'', va_str i), (''    name'', va_name r), (''    generation'', gen_str (va_generation r)),
     (''    state'', lifecycle_name (va_state r)), (''    state_generation'', gen_str (va_state_generation r)),
     (''    owner'', tn_str (va_owner r)), (''    owner_generation'', gen_str (va_owner_generation r)),
     (''    backing'', bk_str (va_backing r)), (''    backing_generation'', gen_str (va_backing_generation r)),
     (''    backing_class'', backing_class_name (va_backing_class r)), (''    physical'', pd_str (va_physical r)),
     (''    physical_generation'', gen_str (va_physical_generation r)), (''    multiplexing'', multiplexing_name (va_multiplexing r)),
     (''    isolation_class'', isolation_class_name (va_isolation_class r)),
     (''    policy_generation'', gen_str (va_policy_generation r)), (''    contract_generation'', gen_str (rc_generation (va_contract r))),
     (''    contract_fingerprint'', decimal (contract_fingerprint (va_contract r))),
     (''    projection_generation'', gen_str (cp_generation (va_projection r))),
     (''    projection_fingerprint'', decimal (cp_fingerprint (va_projection r))), (''    migration'', mg_str (va_migration r)),
     (''    migration_generation'', gen_str (va_migration_generation r)),
     (''    active_attachments'', decimal (va_active_attachments r)), (''    allocated_bytes'', decimal (va_allocated_bytes r)),
     (''    history_entries'', dec_string (length (va_backing_history r)))])"

definition lease_lines :: "ls_id \<times> lease_record \<Rightarrow> string list" where
  "lease_lines e = (case e of (i, r) \<Rightarrow> key_lines
    [(''  lease'', id_str ''ls'' i), (''    generation'', gen_str (ls_generation r)), (''    state'', lease_state_name (ls_state r)),
     (''    virtual'', va_str (ls_virtual_id r)), (''    virtual_generation'', gen_str (ls_virtual_generation r)),
     (''    tenant'', tn_str (ls_tenant r)), (''    tenant_generation'', gen_str (ls_tenant_generation r)),
     (''    backing_generation'', gen_str (ls_backing_generation r))])"

definition assignment_lines :: "as_id \<times> backing_assignment \<Rightarrow> string list" where
  "assignment_lines e = (case e of (i, r) \<Rightarrow> key_lines
    [(''  assignment'', id_str ''as'' i), (''    virtual'', va_str (as_virtual_id r)), (''    backing'', bk_str (as_backing r)),
     (''    backing_generation'', gen_str (as_backing_generation r)), (''    state'', assignment_state_name (as_state r)),
     (''    authoritative'', truth (as_authoritative r))])"

definition migration_lines :: "mg_id \<times> migration_record \<Rightarrow> string list" where
  "migration_lines e = (case e of (i, r) \<Rightarrow> key_lines
    [(''  migration'', mg_str i), (''    state'', migration_state_name (mg_state r)),
     (''    class'', migration_class_name (mp_klass (mg_plan r))), (''    virtual'', va_str (mp_virtual_id (mg_plan r))),
     (''    source_backing'', bk_str (mp_source_backing (mg_plan r))),
     (''    destination_backing'', bk_str (mp_destination_backing (mg_plan r))),
     (''    source_authoritative'', truth (mg_source_authoritative r)),
     (''    destination_authoritative'', truth (mg_destination_authoritative r))])"

definition section_lines :: "string \<Rightarrow> ('a \<Rightarrow> string list) \<Rightarrow> 'a list \<Rightarrow> string list" where
  "section_lines title render xs = text_line title (dec_string (length xs)) # concat (map render xs)"

definition render_snapshot :: "vstate \<Rightarrow> string" where
  "render_snapshot s = text_of
    (''accelerator-virtualization snapshot'' #
     key_lines
       [(''schema'', decimal (st_schema s)), (''next_sequence'', decimal (st_next_sequence s)),
        (''coordinator_epoch'', gen_str (st_epoch s)), (''policy_id'', id_str ''pol'' (pol_id (st_policy s))),
        (''policy_generation'', gen_str (st_policy_generation s)), (''policy_fingerprint'', decimal (policy_fingerprint (st_policy s)))] @
     section_lines ''physical_devices'' physical_lines (st_physical s) @ section_lines ''backings'' backing_lines (st_backings s) @
     section_lines ''tenants'' tenant_lines (st_tenants s) @ section_lines ''virtual_accelerators'' virtual_lines (st_virtuals s) @
     section_lines ''leases'' lease_lines (st_leases s) @ section_lines ''assignments'' assignment_lines (st_assignments s) @
     section_lines ''migrations'' migration_lines (st_migrations s) @
     [text_line ''evidence'' (dec_string (length (st_evidence s)))] @ accounting_lines (st_accounting s) @
     section_lines ''audit_entries'' (\<lambda>e. [''  audit '' @ id_str ''dec'' (au_id e) @ '' '' @ audit_kind_name (au_kind e) @ '' '' @
       au_operation e @ '' '' @ code_name (au_outcome e)]) (st_audit s) @
     section_lines ''decisions'' (\<lambda>d. [''  decision '' @ id_str ''dec'' (dc_id d) @ '' '' @ dc_operation d @ '' '' @
       code_name (dc_outcome d)]) (st_decisions s) @
     section_lines ''requests'' (\<lambda>r. [''  request '' @ id_str ''rq'' (ro_request r) @ '' '' @ decimal (ro_session r) @ '' '' @
       ro_operation r @ '' '' @ code_name (ro_outcome r)]) (st_requests s))"

section \<open>Texts determine what they render\<close>

lemma split_at:
  "l @ b # r = l' @ b # r' \<Longrightarrow> b \<notin> set l \<Longrightarrow> b \<notin> set l' \<Longrightarrow> l = l' \<and> r = r'"
proof (induction l arbitrary: l')
  case Nil
  then show ?case by (cases l') auto
next
  case (Cons a l)
  then show ?case by (cases l') auto
qed

lemma text_of_inject:
  assumes "list_all (\<lambda>l. line_break \<notin> set l) ls" and "list_all (\<lambda>l. line_break \<notin> set l) ls'" and "text_of ls = text_of ls'"
  shows "ls = ls'"
  using assms
proof (induction ls arbitrary: ls')
  case Nil
  then show ?case by (cases ls') (auto simp: text_of_def)
next
  case (Cons l ls)
  then obtain l' rest where s: "ls' = l' # rest" by (cases ls') (auto simp: text_of_def)
  with Cons.prems have "l = l' \<and> text_of ls = text_of rest"
    by (intro split_at [of _ line_break]) (auto simp: text_of_def)
  with Cons s show ?case by auto
qed

lemma dec_string_plain: "line_break \<notin> set (dec_string n)"
proof (induction n rule: dec_string.induct)
  case (1 n)
  have "line_break \<noteq> char_of (48 + k)" if "k < 10" for k :: nat
  proof
    assume "line_break = char_of (48 + k)"
    then have "(of_char (char_of (48 + k)) :: nat) = of_char line_break" by simp
    with that show False by (simp add: line_break_def)
  qed
  with 1 show ?case by (subst dec_string.simps) auto
qed

lemma dec_string_inject: "dec_string m = dec_string n \<longleftrightarrow> m = n"
  by (metis dec_run_string fst_conv)

lemma decimal_inject [simp]: "decimal v = decimal w \<longleftrightarrow> v = w"
  by (simp add: decimal_def dec_string_inject word_unat_eq_iff)

lemma truth_inject [simp]: "truth a = truth b \<longleftrightarrow> a = b"
  by (cases a; cases b) (simp_all add: truth_def)

lemma text_line_inject [simp]: "text_line key v = text_line key w \<longleftrightarrow> v = w"
  by (simp add: text_line_def)

lemma plain_decimal [simp]: "line_break \<notin> set (decimal w)"
  by (simp add: decimal_def dec_string_plain)

lemma plain_truth [simp]: "line_break \<notin> set (truth b)"
  by (simp add: truth_def line_break_def)

text \<open>The counters as text are the counters.\<close>

theorem accounting_text_determines: "accounting_canonical c = accounting_canonical c' \<longleftrightarrow> c = c'"
proof
  assume a: "accounting_canonical c = accounting_canonical c'"
  have "list_all (\<lambda>l. line_break \<notin> set l) (accounting_lines x)" for x
    by (simp add: accounting_lines_def key_lines_def text_line_def) (simp add: line_break_def)
  from text_of_inject [OF this this] a have "accounting_lines c = accounting_lines c'" by (simp add: accounting_canonical_def)
  then show "c = c'" by (simp add: accounting_lines_def key_lines_def)
qed simp

text \<open>The lines of a contract, by their keys.\<close>

definition key_of :: "string \<Rightarrow> string" where
  "key_of l = takeWhile (\<lambda>c. c \<noteq> CHR ''='') l"

lemma key_of_line: "CHR ''='' \<notin> set key \<Longrightarrow> key_of (text_line key v) = key"
  by (simp add: key_of_def text_line_def takeWhile_append)

lemma keyed_lines: "CHR ''='' \<notin> set key \<Longrightarrow>
  filter (\<lambda>l. key_of l = key') (map (\<lambda>x. text_line key (f x)) xs) = (if key = key' then map (\<lambda>x. text_line key (f x)) xs else [])"
  by (simp add: filter_map o_def key_of_line)

lemmas names_evaluated = table_name_def backing_class_name_def kBackingClassNames_def multiplexing_name_def kMultiplexingNames_def
  migration_class_name_def kMigrationClassNames_def isolation_dimension_name_def isolation_dimension_names_def isolation_state_name_def
  isolation_state_names_def line_break_def

lemma plain_backing_class [simp]: "line_break \<notin> set (backing_class_name k)"
  by (cases k; simp add: names_evaluated)

lemma plain_multiplexing [simp]: "line_break \<notin> set (multiplexing_name k)"
  by (cases k; simp add: names_evaluated)

lemma plain_migration_class [simp]: "line_break \<notin> set (migration_class_name k)"
  by (cases k; simp add: names_evaluated)

lemma plain_dimension: "line_break \<notin> set (isolation_dimension_name k)" "CHR ''>'' \<notin> set (isolation_dimension_name k)"
  by (cases k; simp add: names_evaluated)+

lemma plain_requirement [simp]: "line_break \<notin> set (requirement_text r)"
proof -
  have "line_break \<notin> set (isolation_state_name k)" for k by (cases k; simp add: names_evaluated)
  then show ?thesis by (simp add: requirement_text_def plain_dimension) (simp add: line_break_def)
qed

lemma plain_line [simp]: "line_break \<in> set (text_line key v) \<longleftrightarrow> line_break \<in> set key \<or> line_break \<in> set v"
  by (simp add: text_line_def line_break_def)

lemma requirement_text_inject [simp]: "requirement_text q = requirement_text r \<longleftrightarrow> q = r"
proof
  assume "requirement_text q = requirement_text r"
  then have "isolation_dimension_name (ir_dimension q) @ CHR ''>'' # CHR ''='' # isolation_state_name (ir_minimum q) =
      isolation_dimension_name (ir_dimension r) @ CHR ''>'' # CHR ''='' # isolation_state_name (ir_minimum r)"
    by (simp add: requirement_text_def)
  from split_at [OF this plain_dimension(2) plain_dimension(2)] have "ir_dimension q = ir_dimension r \<and> ir_minimum q = ir_minimum r"
    by (simp add: isolation_dimension_name_def isolation_state_name_def isolation_dimension_text.name_inj isolation_state_text.name_inj)
  then show "q = r" by simp
qed simp

lemma mapped_names: "inj backing_class_name" "inj multiplexing_name" "inj migration_class_name" "inj requirement_text"
  by (simp_all add: inj_def backing_class_name_def multiplexing_name_def migration_class_name_def backing_class_text.name_inj
      multiplexing_text.name_inj migration_class_text.name_inj)

lemma lines_inject: "inj f \<Longrightarrow> map (\<lambda>x. text_line key (f x)) xs = map (\<lambda>x. text_line key (f x)) ys \<longleftrightarrow> xs = ys"
  by (rule inj_map_eq_map) (simp add: inj_def)

text \<open>The canonical text of a contract determines the contract but for its identity and generation: contracts with equal texts grant the same.\<close>

theorem contract_text_determines:
  assumes "contract_canonical c = contract_canonical c'"
  shows "c' = c\<lparr> rc_id := rc_id c', rc_generation := rc_generation c' \<rparr>"
proof -
  have "list_all (\<lambda>l. line_break \<notin> set l) (contract_lines x)" for x
    by (simp add: contract_lines_def key_lines_def list.pred_map o_def) (simp add: line_break_def list.pred_True)
  from text_of_inject [OF this this] assms have l: "contract_lines c = contract_lines c'" by (simp add: contract_canonical_def)
  have f: "filter (\<lambda>l. key_of l = key) (contract_lines c) = filter (\<lambda>l. key_of l = key) (contract_lines c')" for key by (simp add: l)
  note keyed = contract_lines_def key_lines_def keyed_lines key_of_line
  have "rc_allowed_backing_classes c = rc_allowed_backing_classes c'" "rc_allowed_multiplexing_modes c = rc_allowed_multiplexing_modes c'"
      "rc_required_isolation c = rc_required_isolation c'" "rc_allowed_migration_classes c = rc_allowed_migration_classes c'"
    using f [of "''allowed_backing_class''"] f [of "''allowed_multiplexing''"] f [of "''required_isolation''"]
      f [of "''allowed_migration_class''"]
    by (simp_all add: keyed lines_inject mapped_names)
  then show ?thesis using l by (cases c; cases c'; simp add: contract_lines_def key_lines_def)
qed

end
