(* ===== verification/AV_Cli.thy ===== *)
theory AV_Cli
  imports AV_Agent
begin

text \<open>
  The command line tool (\<open>apps/cli_main.cpp\<close>): how its words become options, the request each command sends, and the exit code that
  follows from the answer. What it prints is left out.

  The authority the coordinator reads from an operator's request is the one the options name; the epoch is not in the request. The verdict of
  \<open>cuda proof\<close> does not depend on what the device computed.
\<close>

section \<open>Words\<close>

definition is_blank :: "char \<Rightarrow> bool" where
  "is_blank c \<longleftrightarrow> c = CHR '' '' \<or> (of_char c :: nat) \<in> {9..13}"

text \<open>\<open>std::strtoull\<close> in base 10: leading blanks, a sign, the longest run of digits; too large a number gives the largest one.\<close>

definition digits_value :: "bool \<Rightarrow> string \<Rightarrow> u64" where
  "digits_value negative text =
    (let n = fst (dec_run 0 text) in
     if n \<ge> 2 ^ 64 then - 1 else if negative then - of_nat n else of_nat n)"

definition strtoull :: "string \<Rightarrow> u64" where
  "strtoull text =
    (case dropWhile is_blank text of
       c # cs \<Rightarrow> if c = CHR ''-'' then digits_value True cs else if c = CHR ''+'' then digits_value False cs else digits_value False (c # cs)
     | [] \<Rightarrow> 0)"

record command =
  cm_name :: string
  cm_positional :: "string list"
  cm_flags :: "(string \<times> string) list"

definition has :: "command \<Rightarrow> string \<Rightarrow> bool" where
  "has c key \<longleftrightarrow> map_of (cm_flags c) key \<noteq> None"

definition get :: "command \<Rightarrow> string \<Rightarrow> string \<Rightarrow> string" where
  "get c key fallback = (case map_of (cm_flags c) key of None \<Rightarrow> fallback | Some v \<Rightarrow> v)"

definition number :: "command \<Rightarrow> string \<Rightarrow> u64 \<Rightarrow> u64" where
  "number c key fallback = (case map_of (cm_flags c) key of None \<Rightarrow> fallback | Some v \<Rightarrow> strtoull v)"

text \<open>An option takes the next word as its value unless that is an option too. A later option replaces an earlier one.\<close>

definition is_option :: "string \<Rightarrow> bool" where
  "is_option w \<longleftrightarrow> length w > 2 \<and> take 2 w = ''--''"

definition set_flag :: "string \<Rightarrow> string \<Rightarrow> command \<Rightarrow> command" where
  "set_flag w v c = c\<lparr> cm_flags := (drop 2 w, v) # cm_flags c \<rparr>"

fun parse_words :: "string list \<Rightarrow> command \<Rightarrow> command" where
  "parse_words [] c = c"
| "parse_words [w] c =
    (if is_option w then set_flag w ''true'' c else c\<lparr> cm_positional := cm_positional c @ [w] \<rparr>)"
| "parse_words (w # v # ws) c =
    (if is_option w then
       (if \<not> is_option v then parse_words ws (set_flag w v c) else parse_words (v # ws) (set_flag w ''true'' c))
     else parse_words (v # ws) (c\<lparr> cm_positional := cm_positional c @ [w] \<rparr>))"

definition command_of :: "string list \<Rightarrow> command" where
  "command_of words = parse_words (tl words) \<lparr> cm_name = hd words, cm_positional = [], cm_flags = [] \<rparr>"

text \<open>The options of the connection are taken out wherever they stand; the port is what follows the last colon.\<close>

definition port_of :: "string \<Rightarrow> u16 option" where
  "port_of endpoint =
    (if CHR '':'' \<in> set endpoint then Some (ucast (strtoull (rev (takeWhile (\<lambda>c. c \<noteq> CHR '':'') (rev endpoint))))) else None)"

fun scan_words :: "string list \<Rightarrow> client_options \<Rightarrow> (client_options \<times> string list) option" where
  "scan_words [] options = Some (options, [])"
| "scan_words [w] options = Some (options, [w])"
| "scan_words (w # v # ws) options =
    (if w = ''--coordinator'' then
       (case port_of v of None \<Rightarrow> None | Some port \<Rightarrow> scan_words ws (options\<lparr> co_port := port \<rparr>))
     else if w = ''--client-name'' then scan_words ws (options\<lparr> co_name := v \<rparr>)
     else map_option (map_prod id (Cons w)) (scan_words (v # ws) options))"

section \<open>What the options say\<close>

definition typed_flag :: "command \<Rightarrow> string \<Rightarrow> string \<Rightarrow> u64 option" where
  "typed_flag c key prefix = (if has c key then parse_strong_id prefix (get c key []) else None)"

definition number_flag :: "command \<Rightarrow> string \<Rightarrow> u64 option" where
  "number_flag c key = (if has c key then Some (number c key 0) else None)"

definition authority_from :: "command \<Rightarrow> epoch \<Rightarrow> authority" where
  "authority_from c ep = blank_authority
    \<lparr> auth_epoch := Some (Generation (number c ''epoch'' (gen_value ep))),
      auth_policy_generation := (let g = number c ''policy-generation'' 0 in if g = 0 then None else Some (Generation g)),
      auth_tenant := map_option Ident (typed_flag c ''tenant'' ''tn''),
      auth_tenant_generation := map_option Generation (number_flag c ''tenant-generation''),
      auth_virtual_id := map_option Ident (typed_flag c ''virtual'' ''va''),
      auth_virtual_generation := map_option Generation (number_flag c ''virtual-generation''),
      auth_lease := map_option Ident (typed_flag c ''lease'' ''ls''),
      auth_lease_generation := map_option Generation (number_flag c ''lease-generation''),
      auth_migration := map_option Ident (typed_flag c ''migration'' ''mg''),
      auth_migration_generation := map_option Generation (number_flag c ''migration-generation'') \<rparr>"

definition contract_from :: "command \<Rightarrow> resource_contract" where
  "contract_from c = contract_normalize (empty_contract
    \<lparr> rc_memory_ceiling_bytes := number c ''memory-bytes'' 0, rc_compute_share_milli := ucast (number c ''compute-share-milli'' 0),
      rc_max_streams := ucast (number c ''max-streams'' 0), rc_max_concurrency := ucast (number c ''max-concurrency'' 0),
      rc_exclusivity_required := has c ''exclusive'', rc_migration_allowed := \<not> has c ''no-migration'',
      rc_allowed_migration_classes := (if has c ''no-migration'' then [] else [MC_RebindOnly, MC_DrainAndRestart]),
      rc_oversubscription_allowed := has c ''allow-oversubscription'' \<rparr>)"

section \<open>The requests\<close>

text \<open>A command ends with an exit code, or sends a request and goes on with the fields of the answer, or without them when the call fails.
  Going on is undefined (\<open>None\<close>) where a field would be read past its payload.\<close>

datatype cli = Exit nat | Ask u16 "field_entry list" "field_map option \<Rightarrow> cli option"

definition answered :: "(field_map \<Rightarrow> cli option) \<Rightarrow> field_map option \<Rightarrow> cli option" where
  "answered k r = (case r of None \<Rightarrow> Some (Exit 1) | Some fm \<Rightarrow> k fm)"

definition ends :: "field_map option \<Rightarrow> cli option" where
  "ends = answered (\<lambda>fm. Some (Exit 0))"

definition reads_blob :: "u16 \<Rightarrow> (bytes \<Rightarrow> 'a result) \<Rightarrow> ('a \<Rightarrow> cli) \<Rightarrow> field_map \<Rightarrow> cli option" where
  "reads_blob key decode k fm =
    (case reader_bytes fm key of FA_Overrun \<Rightarrow> None | FA_Absent \<Rightarrow> Some (Exit 1)
     | FA_Value blob \<Rightarrow> (case decode blob of Inl c \<Rightarrow> Some (Exit 1) | Inr v \<Rightarrow> Some (k v)))"

definition shows_blob :: "u16 \<Rightarrow> (bytes \<Rightarrow> 'a result) \<Rightarrow> field_map option \<Rightarrow> cli option" where
  "shows_blob key decode = answered (reads_blob key decode (\<lambda>_. Exit 0))"

text \<open>A listing ends at the first entry that cannot be decoded; some skip an entry without the blob.\<close>

fun list_entries :: "bool \<Rightarrow> u16 \<Rightarrow> (bytes \<Rightarrow> 'a result) \<Rightarrow> field_map result list \<Rightarrow> cli option" where
  "list_entries lenient key decode [] = Some (Exit 0)"
| "list_entries lenient key decode (Inl c # entries) = Some (Exit 1)"
| "list_entries lenient key decode (Inr fm # entries) =
    (case reader_bytes fm key of FA_Overrun \<Rightarrow> None
     | FA_Absent \<Rightarrow> if lenient then list_entries lenient key decode entries else Some (Exit 1)
     | FA_Value blob \<Rightarrow> (case decode blob of Inl c \<Rightarrow> Some (Exit 1) | Inr _ \<Rightarrow> list_entries lenient key decode entries))"

definition shows_list :: "bool \<Rightarrow> u16 \<Rightarrow> (bytes \<Rightarrow> 'a result) \<Rightarrow> field_map option \<Rightarrow> cli option" where
  "shows_list lenient key decode = answered (\<lambda>fm. list_entries lenient key decode (reader_nested_list fm kFieldBlobs))"

definition id_or_zero :: "'t ident option \<Rightarrow> u64" where
  "id_or_zero i = (case i of None \<Rightarrow> 0 | Some v \<Rightarrow> id_value v)"

definition gen_or_zero :: "'t generation option \<Rightarrow> u64" where
  "gen_or_zero g = (case g of None \<Rightarrow> 0 | Some v \<Rightarrow> gen_value v)"

definition owner_fields :: "authority \<Rightarrow> (field_entry list \<Rightarrow> field_entry list) list" where
  "owner_fields a =
    [writer_u64 kFieldVirtualId (id_or_zero (auth_virtual_id a)),
     writer_u64 kFieldVirtualGeneration (gen_or_zero (auth_virtual_generation a)),
     writer_u64 kFieldTenantId (id_or_zero (auth_tenant a)),
     writer_u64 kFieldTenantGeneration (gen_or_zero (auth_tenant_generation a))]"

definition about :: "command \<Rightarrow> field_entry list" where
  "about c = write_steps [writer_u64 kFieldVirtualId (number c ''virtual'' 0)]"

subsection \<open>Policy and tenants\<close>

definition cmd_policy_show :: cli where
  "cmd_policy_show = Ask MT_GetPolicy [] (shows_blob kFieldPolicyBlob decode_policy_blob)"

definition changed_policy :: "command \<Rightarrow> virtualization_policy \<Rightarrow> virtualization_policy option" where
  "changed_policy c p =
    (let p1 = (\<lambda>p. if has c ''synthetic'' then p\<lparr> pol_synthetic_backing_allowed := get c ''synthetic'' [] \<noteq> ''off'' \<rparr> else p);
         p2 = (\<lambda>p. if has c ''evidence-max-age-us'' then p\<lparr> pol_evidence_max_age_micros := number c ''evidence-max-age-us'' 0 \<rparr> else p) in
     if has c ''transparency'' then
       (case parse_transparency (get c ''transparency'' []) of None \<Rightarrow> None
        | Some mode \<Rightarrow> Some (policy_normalize (p2 (p1 (p\<lparr> pol_transparency := mode \<rparr>)))))
     else Some (policy_normalize (p2 (p1 p))))"

definition cmd_policy_set :: "command \<Rightarrow> cli" where
  "cmd_policy_set c = Ask MT_GetPolicy [] (answered (reads_blob kFieldPolicyBlob decode_policy_blob (\<lambda>p.
    case changed_policy c p of None \<Rightarrow> Exit 2
    | Some policy \<Rightarrow> Ask MT_SetPolicy (write_steps [writer_bytes kFieldPolicyBlob (encode_policy_blob policy)]) ends)))"

definition cmd_tenant_create :: "command \<Rightarrow> cli" where
  "cmd_tenant_create c = Ask MT_CreateTenant (write_steps
    [writer_str kFieldTenantName (get c ''name'' []), writer_str kFieldExternalSubject (get c ''subject'' [])]) ends"

definition cmd_tenant_list :: cli where
  "cmd_tenant_list = Ask MT_ListTenants [] (shows_list True kFieldTenantBlob decode_tenant_record)"

definition cmd_tenant_fence :: "command \<Rightarrow> epoch \<Rightarrow> cli" where
  "cmd_tenant_fence c ep = (let a = authority_from c ep in Ask MT_FenceTenant (write_steps
    [writer_u64 kFieldTenantId (id_or_zero (auth_tenant a)),
     writer_u64 kFieldTenantGeneration (gen_or_zero (auth_tenant_generation a)),
     writer_str kFieldReason (get c ''reason'' txt_fenced_by_operator)]) ends)"

subsection \<open>Virtual accelerators\<close>

definition cmd_virtual_create :: "command \<Rightarrow> cli" where
  "cmd_virtual_create c = Ask MT_CreateVirtual (write_steps
    [writer_str kFieldVirtualName (get c ''name'' []), writer_u64 kFieldTenantId (number c ''tenant-id'' 0),
     writer_u64 kFieldTenantGeneration (number c ''tenant-generation'' 0),
     writer_bytes kFieldContractBlob (encode_contract_blob (contract_from c))]) ends"

definition cmd_virtual_list :: "command \<Rightarrow> cli" where
  "cmd_virtual_list c = Ask MT_ListVirtual
    (if has c ''all'' then [] else write_steps [writer_u64 kFieldTenantId (number c ''tenant-id'' 0)])
    (shows_list False kFieldViewBlob decode_view)"

definition cmd_virtual_show :: "command \<Rightarrow> cli" where
  "cmd_virtual_show c = Ask MT_Query (write_steps
    [writer_u64 kFieldVirtualId (number c ''virtual'' 0), writer_u64 kFieldLeaseId (number c ''lease'' 0)])
    (shows_blob kFieldViewBlob decode_view)"

definition cmd_virtual_command :: "command \<Rightarrow> epoch \<Rightarrow> u16 \<Rightarrow> cli" where
  "cmd_virtual_command c ep type = Ask type (write_steps
    (owner_fields (authority_from c ep) @ [writer_str kFieldReason (get c ''reason'' txt_operator_request)])) ends"

definition cmd_contract_show :: "command \<Rightarrow> cli" where
  "cmd_contract_show c = Ask MT_ContractShow (about c) (shows_blob kFieldContractBlob decode_contract_blob)"

definition cmd_contract_update :: "command \<Rightarrow> cli" where
  "cmd_contract_update c = Ask MT_UpdateContract (write_steps
    [writer_u64 kFieldVirtualId (number c ''virtual'' 0), writer_u64 kFieldVirtualGeneration (number c ''virtual-generation'' 0),
     writer_u64 kFieldTenantId (number c ''tenant-id'' 0), writer_u64 kFieldTenantGeneration (number c ''tenant-generation'' 0),
     writer_bytes kFieldContractBlob (encode_contract_blob ((contract_from c)
       \<lparr> rc_id := Ident (number c ''contract-id'' 0), rc_generation := Generation (number c ''contract-generation'' 0) \<rparr>))]) ends"

definition cmd_capability_show :: "command \<Rightarrow> cli" where
  "cmd_capability_show c = Ask MT_CapabilityShow (about c) (shows_blob kFieldProjectionBlob decode_projection_blob)"

subsection \<open>Backings and leases\<close>

definition cmd_backing_list :: cli where
  "cmd_backing_list = Ask MT_ListBackings [] (shows_list False kFieldBackingBlob decode_backing_record)"

definition cmd_physical_list :: cli where
  "cmd_physical_list = Ask MT_ListPhysical [] (shows_list False kFieldPhysicalBlob decode_physical_record)"

definition cmd_backing_assign :: "command \<Rightarrow> epoch \<Rightarrow> bool \<Rightarrow> cli" where
  "cmd_backing_assign c ep replacing =
    (case parse_strong_id ''bk'' (get c ''backing'' []) of None \<Rightarrow> Exit 2
     | Some backing \<Rightarrow> Ask (if replacing then MT_ReplaceBacking else MT_AssignBacking) (write_steps
         (owner_fields (authority_from c ep) @
          [writer_u64 kFieldBackingId backing, writer_str kFieldReason (get c ''reason'' txt_operator_request)])) ends)"

definition cmd_attach :: "command \<Rightarrow> epoch \<Rightarrow> cli" where
  "cmd_attach c ep = Ask MT_Attach (write_steps (owner_fields (authority_from c ep))) ends"

definition lease_fields :: "authority \<Rightarrow> (field_entry list \<Rightarrow> field_entry list) list" where
  "lease_fields a = [writer_u64 kFieldLeaseId (id_or_zero (auth_lease a)), writer_u64 kFieldLeaseGeneration (gen_or_zero (auth_lease_generation a))]"

definition cmd_lease_command :: "command \<Rightarrow> epoch \<Rightarrow> u16 \<Rightarrow> cli" where
  "cmd_lease_command c ep type = (let a = authority_from c ep in Ask type (write_steps
    (owner_fields a @ lease_fields a @ [writer_str kFieldReason (get c ''reason'' txt_operator_request)])) ends)"

subsection \<open>Isolation and migration\<close>

definition cmd_isolation_explain :: "command \<Rightarrow> cli" where
  "cmd_isolation_explain c = Ask MT_IsolationExplain (about c) (shows_blob kFieldIsolationBlob decode_isolation_explanation)"

definition cmd_migration_explain :: "command \<Rightarrow> cli" where
  "cmd_migration_explain c = Ask MT_MigrationExplain (about c) (shows_blob kFieldMigrationBlob decode_migration_explanation)"

definition cmd_migration_plan :: "command \<Rightarrow> epoch \<Rightarrow> cli" where
  "cmd_migration_plan c ep =
    (case parse_strong_id ''bk'' (get c ''backing'' []) of None \<Rightarrow> Exit 2
     | Some backing \<Rightarrow>
       (case parse_migration_class (get c ''class'' ''REBIND_ONLY'') of None \<Rightarrow> Exit 2
        | Some klass \<Rightarrow> Ask MT_MigrationPlan (write_steps (owner_fields (authority_from c ep) @
            [writer_u64 kFieldBackingId backing, writer_u64 kFieldMigrationClass (of_nat (migration_class_value klass))])) ends))"

definition cmd_migration_phase :: "command \<Rightarrow> epoch \<Rightarrow> u16 \<Rightarrow> cli" where
  "cmd_migration_phase c ep type = (let a = authority_from c ep in Ask type (write_steps
    (owner_fields a @
     [writer_u64 kFieldMigrationId (id_or_zero (auth_migration a)),
      writer_u64 kFieldMigrationGeneration (gen_or_zero (auth_migration_generation a)),
      writer_str kFieldReason (get c ''reason'' txt_operator_request)])) ends)"

subsection \<open>Reports and execution\<close>

definition cmd_audit :: cli where
  "cmd_audit = Ask MT_Audit [] (answered (\<lambda>fm.
    given [] (reader_str fm kFieldText) (\<lambda>text. given False (reader_boolean fm kFieldClean) (\<lambda>clean. Some (Exit (if clean then 0 else 1))))))"

definition cmd_text :: "u16 \<Rightarrow> cli" where
  "cmd_text type = Ask type [] (answered (\<lambda>fm. given [] (reader_str fm kFieldText) (\<lambda>text. Some (Exit 0))))"

definition cmd_decisions :: "command \<Rightarrow> cli" where
  "cmd_decisions c = Ask MT_ExplainDecisions (write_steps
    [writer_u64 kFieldVirtualId (number c ''virtual'' 0), writer_u64 kFieldLimit (number c ''limit'' 16)])
    (shows_list True kFieldDecisionBlob decode_decision_record)"

fun comma_parts :: "string \<Rightarrow> string \<Rightarrow> string list" where
  "comma_parts current [] = (if current \<noteq> [] then [current] else [])"
| "comma_parts current (c # cs) =
    (if c = CHR '','' then (if current \<noteq> [] then [current] else []) @ comma_parts [] cs else comma_parts (current @ [c]) cs)"

definition cmd_execute :: "command \<Rightarrow> epoch \<Rightarrow> cli" where
  "cmd_execute c ep =
    (case parse_execution_op (get c ''op'' ''info'') of None \<Rightarrow> Exit 2
     | Some op \<Rightarrow> let a = authority_from c ep in Ask MT_Execute (write_steps
         ([writer_u64 kFieldOp (of_nat (execution_op_value op)), writer_u64 kFieldEpoch (gen_or_zero (auth_epoch a))] @
          owner_fields a @ lease_fields a @
          [writer_u64 kFieldBytes (number c ''bytes'' 0), writer_u64 kFieldHandle (number c ''handle'' 0),
           writer_u64 kFieldCount (number c ''count'' 0)] @
          (if has c ''handles'' then [writer_list_u64 kFieldHandles (map strtoull (comma_parts [] (get c ''handles'' [])))] else [])))
       (answered (\<lambda>fm. given [] (reader_str fm kFieldDetail) (\<lambda>detail. Some (Exit 0)))))"

subsection \<open>The proof on a device\<close>

text \<open>The values of the arrays are natural numbers as IEEE single precision numbers: \<open>float_round\<close> is the conversion, which rounds to 24
  significant bits, ties to even, and so is the sum of two of them; \<open>float_bytes\<close> is how such a number lies in memory.\<close>

fun leading_bit :: "nat \<Rightarrow> nat" where
  "leading_bit n = (if n < 2 then 0 else Suc (leading_bit (n div 2)))"

declare leading_bit.simps [simp del]

definition float_round :: "nat \<Rightarrow> nat" where
  "float_round n =
    (let s = 2 ^ (leading_bit n - 23); q = n div s; r = n mod s in
     s * (if 2 * r > s \<or> (2 * r = s \<and> odd q) then q + 1 else q))"

definition float_bytes :: "nat \<Rightarrow> bytes" where
  "float_bytes n =
    (if n = 0 then enc_u32 0
     else let e = leading_bit n in enc_u32 (of_nat ((127 + e) * 2 ^ 23 + (n * 2 ^ 23 div 2 ^ e - 2 ^ 23))))"

definition host_pattern :: "(nat \<Rightarrow> nat) \<Rightarrow> nat \<Rightarrow> bytes" where
  "host_pattern f n = concat (map (\<lambda>i. float_bytes (float_round (f i))) [0..<n])"

text \<open>The numbers compared are zeros and positive normal numbers, for which equality is that of the four bytes.\<close>

definition mismatches :: "bytes \<Rightarrow> nat \<Rightarrow> nat" where
  "mismatches host n =
    length (filter (\<lambda>i. take 4 (drop (4 * i) host) \<noteq> float_bytes (float_round (float_round i + float_round (2 * i)))) [0..<n])"

definition proof_fields :: "authority \<Rightarrow> u32 \<Rightarrow> execution_op \<Rightarrow> u64 \<Rightarrow> u64 \<Rightarrow> u64 list \<Rightarrow> bytes \<Rightarrow> field_entry list" where
  "proof_fields a count op handle amount handles data = write_steps
    ([writer_u64 kFieldOp (of_nat (execution_op_value op)), writer_u64 kFieldEpoch (gen_or_zero (auth_epoch a))] @
     owner_fields a @ lease_fields a @
     [writer_u64 kFieldBytes amount, writer_u64 kFieldHandle handle, writer_u64 kFieldCount (ucast count), writer_list_u64 kFieldHandles handles] @
     (if data \<noteq> [] then [writer_bytes kFieldData data] else []))"

definition then_ask :: "field_entry list \<Rightarrow> cli \<Rightarrow> cli" where
  "then_ask es next = Ask MT_Execute es (answered (\<lambda>_. Some next))"

definition proof_allocate :: "field_entry list \<Rightarrow> (u64 \<Rightarrow> cli) \<Rightarrow> cli" where
  "proof_allocate es k = Ask MT_Execute es (answered (\<lambda>fm. given 0 (reader_u64 fm kFieldHandle) (\<lambda>handle. Some (k handle))))"

text \<open>The download carries \<open>host_c\<close>, whose size tells the agent how much to copy; the data of the answer is not read.\<close>

definition cmd_cuda_proof :: "command \<Rightarrow> epoch \<Rightarrow> cli" where
  "cmd_cuda_proof c ep =
    (let count = ucast (number c ''count'' 4096) :: u32; n = unat count; amount = 4 * ucast count;
         call = proof_fields (authority_from c ep) count; host_c = replicate (4 * n) 0 in
     if count = 0 \<or> count > push_bit 26 1 then Exit 2
     else then_ask (call XO_DeviceInfo 0 0 [] [])
       (proof_allocate (call XO_Allocate 0 amount [] []) (\<lambda>a.
        proof_allocate (call XO_Allocate 0 amount [] []) (\<lambda>b.
        proof_allocate (call XO_Allocate 0 amount [] []) (\<lambda>c.
        then_ask (call XO_Upload a 0 [] (host_pattern (\<lambda>i. i) n))
        (then_ask (call XO_Upload b 0 [] (host_pattern (\<lambda>i. 2 * i) n))
        (then_ask (call XO_KernelVectorAdd 0 0 [a, b, c] [])
        (then_ask (call XO_Download c 0 [] host_c)
        (then_ask (call XO_Free a amount [] [])
        (then_ask (call XO_Free b amount [] [])
        (then_ask (call XO_Free c amount [] [])
        (Ask MT_Execute (call XO_DeviceInfo 0 0 [] [])
          (\<lambda>_. Some (Exit (if mismatches host_c n = 0 then 0 else 1)))))))))))))))"

section \<open>The program\<close>

definition lifecycle_nouns :: "(string \<times> u16) list" where
  "lifecycle_nouns = [(''activate'', MT_ActivateVirtual), (''drain'', MT_DrainVirtual), (''suspend'', MT_SuspendVirtual),
    (''resume'', MT_ResumeVirtual), (''fence'', MT_FenceVirtual), (''retire'', MT_RetireVirtual), (''resolve-recovery'', MT_ResolveRecovery)]"

definition migration_nouns :: "(string \<times> u16) list" where
  "migration_nouns = [(''prepare'', MT_MigrationPrepare), (''commit'', MT_MigrationCommit), (''complete'', MT_MigrationComplete),
    (''abort'', MT_MigrationAbort)]"

definition lease_verbs :: "(string \<times> u16) list" where
  "lease_verbs = [(''detach'', MT_Detach), (''revoke'', MT_Revoke), (''renew'', MT_RenewLease)]"

definition virtual_command :: "string \<Rightarrow> command \<Rightarrow> epoch \<Rightarrow> cli" where
  "virtual_command noun c ep =
    (if noun = ''create'' then cmd_virtual_create c
     else if noun = ''list'' then cmd_virtual_list c
     else if noun = ''show'' then cmd_virtual_show c
     else case map_of lifecycle_nouns noun of Some type \<Rightarrow> cmd_virtual_command c ep type | None \<Rightarrow> Exit 2)"

definition migration_command :: "string \<Rightarrow> command \<Rightarrow> epoch \<Rightarrow> cli" where
  "migration_command noun c ep =
    (if noun = ''explain'' then cmd_migration_explain c
     else if noun = ''plan'' then cmd_migration_plan c ep
     else case map_of migration_nouns noun of Some type \<Rightarrow> cmd_migration_phase c ep type | None \<Rightarrow> Exit 2)"

definition dispatch :: "string list \<Rightarrow> epoch \<Rightarrow> cli" where
  "dispatch words ep =
    (let c = command_of words; verb = hd words; noun = (if length words > 1 then words ! 1 else []) in
     if verb = ''policy'' then (if noun = ''show'' then cmd_policy_show else cmd_policy_set c)
     else if verb = ''tenant'' \<and> noun = ''create'' then cmd_tenant_create c
     else if verb = ''tenant'' \<and> noun = ''list'' then cmd_tenant_list
     else if verb = ''tenant'' \<and> noun = ''fence'' then cmd_tenant_fence c ep
     else if verb = ''virtual'' then virtual_command noun c ep
     else if verb = ''contract'' \<and> noun = ''show'' then cmd_contract_show c
     else if verb = ''contract'' \<and> noun = ''update'' then cmd_contract_update c
     else if verb = ''capability'' \<and> noun = ''show'' then cmd_capability_show c
     else if verb = ''backing'' \<and> noun = ''list'' then cmd_backing_list
     else if verb = ''backing'' \<and> noun = ''assign'' then cmd_backing_assign c ep False
     else if verb = ''backing'' \<and> noun = ''replace'' then cmd_backing_assign c ep True
     else if verb = ''physical'' \<and> noun = ''list'' then cmd_physical_list
     else if verb = ''attach'' then cmd_attach c ep
     else if verb \<in> fst ` set lease_verbs then cmd_lease_command c ep (the (map_of lease_verbs verb))
     else if verb = ''isolation'' \<and> noun = ''explain'' then cmd_isolation_explain c
     else if verb = ''migration'' then migration_command noun c ep
     else if verb = ''execute'' then cmd_execute c ep
     else if verb = ''cuda'' \<and> noun = ''proof'' then cmd_cuda_proof c ep
     else if verb = ''decisions'' then cmd_decisions c
     else if verb = ''audit'' then cmd_audit
     else if verb = ''snapshot'' then cmd_text MT_Snapshot
     else if verb = ''accounting'' then cmd_text MT_Accounting
     else if verb = ''shutdown'' then Ask MT_Shutdown [] ends
     else Exit 2)"

primrec run_cli :: "cli \<Rightarrow> control_client \<Rightarrow> nat option" where
  "run_cli (Exit n) cl = Some n"
| "run_cli (Ask type es k) cl =
    (case call type es cl of None \<Rightarrow> None
     | Some (r, cl') \<Rightarrow>
       (case (map_option run_cli \<circ> k) (case r of Answered fm \<Rightarrow> Some fm | _ \<Rightarrow> None) of None \<Rightarrow> None | Some next \<Rightarrow> next cl'))"

definition cli_main :: "status_code \<Rightarrow> endpoint result \<Rightarrow> string list \<Rightarrow> nat option" where
  "cli_main ready socket args =
    (if args = [] then Some 2
     else case scan_words args \<lparr> co_port = 0, co_role = Role_Client, co_name = ''av-cli'' \<rparr> of None \<Rightarrow> Some 2
     | Some (options, words) \<Rightarrow>
       if words = [] then Some 2
       else if hd words = ''version'' \<or> hd words \<in> {''--help'', ''-h'', ''help''} then Some 0
       else if co_port options = 0 then Some 2
       else case connect ready options socket of None \<Rightarrow> None
       | Some (Answered cl) \<Rightarrow> run_cli (dispatch words (cl_epoch cl)) cl
       | Some _ \<Rightarrow> Some 1)"

section \<open>The request as the coordinator reads it\<close>

definition lease_request :: "command \<Rightarrow> epoch \<Rightarrow> field_entry list" where
  "lease_request c ep = (let a = authority_from c ep in write_steps
    (owner_fields a @ lease_fields a @ [writer_str kFieldReason (get c ''reason'' txt_operator_request)]))"

lemma lease_request_read:
  assumes "text_fits (get c ''reason'' txt_operator_request)"
  shows "\<exists>fm. reader_create (writer_take (lease_request c ep)) default_limits = Inr fm \<and>
    read_authority fm = blank_authority
      \<lparr> auth_tenant := Some (Ident (option_or 0 (typed_flag c ''tenant'' ''tn''))),
        auth_tenant_generation := Some (Generation (number c ''tenant-generation'' 0)),
        auth_virtual_id := Some (Ident (option_or 0 (typed_flag c ''virtual'' ''va''))),
        auth_virtual_generation := Some (Generation (number c ''virtual-generation'' 0)),
        auth_lease := Some (Ident (option_or 0 (typed_flag c ''lease'' ''ls''))),
        auth_lease_generation := Some (Generation (number c ''lease-generation'' 0)) \<rparr>"
proof -
  let ?es = "lease_request c ep"
  note written = lease_request_def Let_def write_steps_def owner_fields_def lease_fields_def writer_str_def writer_u64_def field_keys
  have d: "distinct (map fst ?es)" "length ?es \<le> 1024" "list_all (\<lambda>(key, type, payload). length payload \<le> 1024 * 1024) ?es"
    using assms by (simp_all add: written counted_def text_fits_def)
  define fm where "fm = sort_key fst ?es"
  have r: "reader_create (writer_take ?es) default_limits = Inr fm" using reader_create_written [OF d] by (simp add: fm_def)
  have f: "om_find fm = map_of ?es" using sort_fields [OF d(1)] by (simp add: fm_def om_find_def fun_eq_iff)
  have "get_u64 (enc_u64 v) 0 = v" for v using get_u64_at(1) [of v "[]"] by simp
  then have "read_authority fm = blank_authority
      \<lparr> auth_tenant := Some (Ident (option_or 0 (typed_flag c ''tenant'' ''tn''))),
        auth_tenant_generation := Some (Generation (number c ''tenant-generation'' 0)),
        auth_virtual_id := Some (Ident (option_or 0 (typed_flag c ''virtual'' ''va''))),
        auth_virtual_generation := Some (Generation (number c ''virtual-generation'' 0)),
        auth_lease := Some (Ident (option_or 0 (typed_flag c ''lease'' ''ls''))),
        auth_lease_generation := Some (Generation (number c ''lease-generation'' 0)) \<rparr>"
    by (simp add: read_authority_def read_option_def reader_u64_def typed_field_def f written authority_from_def id_or_zero_def gen_or_zero_def
        number_flag_def number_def has_def option_or_def blank_authority_def split: option.split)
  with r show ?thesis by blast
qed

text \<open>C25: the coordinator acts on what the operator wrote. For a lease that is detached, revoked or renewed, the authority it reads names the tenant,
  the accelerator, the lease and the generations of the options, with 0 for what is missing or is not an identity of its kind; the
  request is not refused for its epoch, whatever \<open>--epoch\<close> says, because the epoch of the coordinator is put in its place.\<close>

theorem operator_authority_arrives:
  assumes "hd words \<in> {''detach'', ''revoke'', ''renew''}" and "text_fits (get (command_of words) ''reason'' txt_operator_request)"
  shows "\<exists>type es k fm. dispatch words ep = Ask type es k \<and> reader_create (writer_take es) default_limits = Inr fm \<and>
    client_authority fm request session im = (let c = command_of words in blank_authority
      \<lparr> auth_epoch := Some (st_epoch (im_state im)),
        auth_tenant := Some (Ident (option_or 0 (typed_flag c ''tenant'' ''tn''))),
        auth_tenant_generation := Some (Generation (number c ''tenant-generation'' 0)),
        auth_virtual_id := Some (Ident (option_or 0 (typed_flag c ''virtual'' ''va''))),
        auth_virtual_generation := Some (Generation (number c ''virtual-generation'' 0)),
        auth_lease := Some (Ident (option_or 0 (typed_flag c ''lease'' ''ls''))),
        auth_lease_generation := Some (Generation (number c ''lease-generation'' 0)),
        auth_request := Some request, auth_session := Some session \<rparr>)"
proof -
  let ?c = "command_of words"
  obtain type where d: "dispatch words ep = Ask type (lease_request ?c ep) ends"
    using assms(1) by (auto simp: dispatch_def Let_def lease_verbs_def cmd_lease_command_def lease_request_def)
  obtain fm where "reader_create (writer_take (lease_request ?c ep)) default_limits = Inr fm" and a: "read_authority fm = blank_authority
      \<lparr> auth_tenant := Some (Ident (option_or 0 (typed_flag ?c ''tenant'' ''tn''))),
        auth_tenant_generation := Some (Generation (number ?c ''tenant-generation'' 0)),
        auth_virtual_id := Some (Ident (option_or 0 (typed_flag ?c ''virtual'' ''va''))),
        auth_virtual_generation := Some (Generation (number ?c ''virtual-generation'' 0)),
        auth_lease := Some (Ident (option_or 0 (typed_flag ?c ''lease'' ''ls''))),
        auth_lease_generation := Some (Generation (number ?c ''lease-generation'' 0)) \<rparr>"
    using lease_request_read [OF assms(2)] by blast
  then show ?thesis using d by (auto simp: client_authority_def a Let_def blank_authority_def)
qed

section \<open>The verdict of the proof\<close>

text \<open>What a command ends with when its requests are answered like this, an answer without fields being a failed call.\<close>

primrec answered_by :: "cli \<Rightarrow> field_map option list \<Rightarrow> nat option" where
  "answered_by (Exit n) rs = (if rs = [] then Some n else None)"
| "answered_by (Ask type es k) rs =
    (case rs of [] \<Rightarrow> None
     | r # rest \<Rightarrow> (case (map_option answered_by \<circ> k) r of None \<Rightarrow> None | Some next \<Rightarrow> next rest))"

text \<open>The program sees the device only through the answers.\<close>

lemma run_answered:
  assumes "run_cli x cl = Some n"
  shows "\<exists>rs. answered_by x rs = Some n"
  using assms
proof (induction x arbitrary: cl)
  case (Exit m)
  then have "answered_by (Exit m) [] = Some n" by simp
  then show ?case by blast
next
  case (Ask type es k)
  then obtain r next' cl' where n: "k r = Some next'" "run_cli next' cl' = Some n" by (auto split: option.splits prod.splits)
  obtain rs where "answered_by next' rs = Some n" using Ask.IH [of "Some next'" next' cl'] n by (metis option.set_intros rangeI)
  then have "answered_by (Ask type es k) (r # rs) = Some n" using n(1) by simp
  then show ?case by blast
qed

lemma given_u64: "given x (reader_u64 fm key) f = f (case reader_u64 fm key of FA_Value v \<Rightarrow> v | _ \<Rightarrow> x)"
  by (simp add: given_def reader_u64_def typed_field_def split: option.split)

lemma answered_then_ask:
  "answered_by (then_ask es next') rs = (case rs of [] \<Rightarrow> None | r # rest \<Rightarrow> answered_by (if r = None then Exit 1 else next') rest)"
  by (auto simp: then_ask_def answered_def split: list.split option.split)

lemma answered_proof_allocate:
  "answered_by (proof_allocate es k) rs = (case rs of [] \<Rightarrow> None
    | r # rest \<Rightarrow> answered_by (case r of None \<Rightarrow> Exit 1
        | Some fm \<Rightarrow> k (case reader_u64 fm kFieldHandle of FA_Value v \<Rightarrow> v | _ \<Rightarrow> 0)) rest)"
  by (auto simp: proof_allocate_def answered_def given_u64 split: list.split option.split)

lemma float_evaluated:
  "leading_bit 0 = 0" "leading_bit 1 = 0" "leading_bit 2 = 1" "leading_bit 3 = 1"
  "float_round 0 = 0" "float_round 1 = 1" "float_round 2 = 2" "float_round 3 = 3"
proof -
  show b: "leading_bit 0 = 0" "leading_bit 1 = 0" by (subst leading_bit.simps, simp)+
  show c: "leading_bit 2 = 1" "leading_bit 3 = 1" using b by (subst leading_bit.simps, simp)+
  show "float_round 0 = 0" "float_round 1 = 1" "float_round 2 = 2" "float_round 3 = 3"
    by (simp_all only: float_round_def b c) simp_all
qed

lemma float_bytes_evaluated: "float_bytes 0 = [0, 0, 0, 0]" "float_bytes 3 = [0, 0, 64, 64]"
  by (simp_all add: float_bytes_def float_evaluated enc_u32_def le_bytes_def upt_rec)

lemma four_zeros: "replicate 4 0 = [0, 0, 0, 0 :: u8]"
  by (simp add: eval_nat_numeral)

lemma host_zero_matches: "mismatches (replicate (4 * n) 0) n = 0 \<longleftrightarrow> n \<le> 1"
proof (cases "n \<le> 1")
  case True
  then consider "n = 0" | "n = 1" by linarith
  then show ?thesis
  proof cases
    case 2
    show ?thesis by (simp add: 2 mismatches_def float_evaluated float_bytes_evaluated four_zeros)
  qed (simp add: mismatches_def)
next
  case False
  have "take 4 (drop (4 * 1) (replicate (4 * n) 0)) = replicate 4 0" using False by simp
  also have "\<dots> \<noteq> float_bytes 3" unfolding four_zeros float_bytes_evaluated by simp
  also have "3 = float_round (float_round 1 + float_round (2 * 1))"
  proof -
    have "(1 :: nat) + 2 = 3" by simp
    then show ?thesis by (simp only: mult_1_right float_evaluated)
  qed
  finally show ?thesis using False by (auto simp: mismatches_def filter_empty_conv intro!: bexI [of _ 1])
qed

text \<open>C40: the verdict says nothing about the device: when every request succeeds the proof passes for one element and fails for any larger number,
  whatever the agent sends back, because the array that is compared is the one of zeros the tool itself sent. A run with more than
  one element never ends with success.\<close>

theorem cuda_proof_verdict:
  assumes "take 2 words = [''cuda'', ''proof'']" and "count = ucast (number (command_of words) ''count'' 4096)"
    and "0 < count" and "count \<le> (push_bit 26 1 :: u32)"
  shows "(length rs = 12 \<and> None \<notin> set rs \<longrightarrow> answered_by (dispatch words ep) rs = Some (if count = 1 then 0 else 1)) \<and>
    (count \<noteq> 1 \<longrightarrow> run_cli (dispatch words ep) cl \<noteq> Some 0)"
proof -
  obtain rest where w: "words = ''cuda'' # ''proof'' # rest" using assms(1) by (metis append_Cons append_Nil append_take_drop_id)
  have d: "dispatch words ep = cmd_cuda_proof (command_of words) ep" by (simp add: dispatch_def Let_def w lease_verbs_def)
  have one: "unat count \<le> 1 \<longleftrightarrow> count = 1" using assms(3) by (auto simp: word_unat_eq_iff word_less_nat_alt)
  have g: "\<not> (count = 0 \<or> push_bit 26 1 < count)" using assms(3,4) by auto
  have m: "mismatches (replicate (4 * unat count) 0) (unat count) = 0 \<longleftrightarrow> count = 1" using host_zero_matches one by simp
  note d = d [unfolded cmd_cuda_proof_def Let_def, folded assms(2), unfolded if_not_P [OF g] m]
  note steps = answered_then_ask answered_proof_allocate
  have "answered_by (dispatch words ep) rs = Some (if count = 1 then 0 else 1)" if "length rs = 12" "None \<notin> set rs" for rs
  proof -
    have s: "rs = map Some (map the rs)" using that(2) unfolding map_map by (intro map_idI [symmetric]) (metis comp_apply option.collapse)
    have "length (map the rs) = 12" using that(1) by simp
    then obtain a b c d' e f g h i j k l where "map the rs = [a, b, c, d', e, f, g, h, i, j, k, l]"
      by (auto simp: eval_nat_numeral length_Suc_conv)
    then have "rs = map Some [a, b, c, d', e, f, g, h, i, j, k, l]" using s by simp
    then show ?thesis unfolding d by (simp add: steps)
  qed
  moreover have "answered_by (dispatch words ep) rs \<noteq> Some 0" if "count \<noteq> 1" for rs
    using that unfolding d by (simp add: steps split: list.split option.split)
  ultimately show ?thesis using run_answered by blast
qed

theorem cuda_proof_verdict_witness:
  "answered_by (dispatch [''cuda'', ''proof''] gen_initial) (replicate 12 (Some [])) = Some 1"
proof -
  have n: "number (command_of [''cuda'', ''proof'']) ''count'' 4096 = 4096" by (simp add: command_of_def number_def is_option_def)
  show ?thesis
    using cuda_proof_verdict [of "[''cuda'', ''proof'']" 4096 "replicate 12 (Some [])" gen_initial undefined] unfolding n by simp
qed

section \<open>Identities on the command line\<close>

text \<open>The commands that show something read the accelerator as a decimal number, the ones that change it as a typed identity. A word that is
  a typed identity is the number 0, so that no word names an accelerator for both.\<close>

theorem typed_identity_is_no_number:
  assumes "parse_strong_id ''va'' text = Some i"
  shows "strtoull text = 0"
proof -
  obtain cs where "text = CHR ''v'' # cs" using assms by (cases "text") (auto simp: parse_strong_id_def split: if_splits)
  moreover have "dec_digit (CHR ''v'') = None" by (simp add: dec_digit_def)
  ultimately show ?thesis by (simp add: strtoull_def is_blank_def digits_value_def)
qed

end
