(* ===== verification/AV_ServiceScenario.thy ===== *)
theory AV_ServiceScenario
  imports AV_Synthetic AV_Text AV_Cli AV_Scenario "HOL-Library.Multiset"
begin

text \<open>
  The installation of \<open>AV_Scenario\<close> behind a server, with one agent that owns its device, on which the properties of requests, connections and
  agents are exercised.
\<close>

section \<open>The server\<close>

definition sx_link :: agent_link where
  "sx_link = \<lparr> al_boot = Ident 14, al_name = ''host'', al_alive = True, al_devices = [(Ident 2, ''synthetic:remote:node-0'')] \<rparr>"

definition sx_server :: server where
  "sx_server = \<lparr> sv_impl = sc_impl sc_running, sv_agents = [(Ident 13, sx_link)], sv_next_session = 3, sv_shutdown_requested = False,
    sv_name = ''coordinator'' \<rparr>"

definition sx_renderings :: renderings where
  "sx_renderings = \<lparr> rn_texts = \<lparr> lt_detail = (\<lambda>_. []), lt_reason = (\<lambda>_. []) \<rparr>, rn_audit = audit_report_canonical (\<lambda>_. []),
    rn_snapshot = render_snapshot, rn_accounting = accounting_canonical, rn_store = ''file-store'', rn_bytes = 0, rn_writes = 0 \<rparr>"

lemma sx_agent: "find_agent_for sx_server (Ident 2) = Some sx_link" "al_alive sx_link"
    "stable_key_for sx_link (Ident 2) = ''synthetic:remote:node-0''"
  by (simp_all add: find_agent_for_def sx_server_def sx_link_def owns_def stable_key_for_def om_values_def om_contains_def om_find_def)

section \<open>Requests\<close>

text \<open>Request 21 on connection 2: a lease is detached, with nothing in the request.\<close>

definition sx_detach :: frame where
  "sx_detach = outgoing MT_Detach 21 (writer_take []) 0"

lemma empty_request: "reader_create (writer_take []) default_limits = Inr []"
  using reader_create_written [of "[]"] by simp

lemma sx_detached: "\<exists>r sv. serve_client_frame sx_renderings sc_env sc_env (\<lambda>_. (0, [])) 2 sx_detach sx_server = Some (r, sv)"
proof -
  have "serve_client_frame sx_renderings sc_env sc_env (\<lambda>_. (0, [])) 2 sx_detach sx_server =
      settle sx_server (on_server sx_server (handle_detach sc_env (client_authority [] (Ident 21) 2 (sv_impl sx_server)) (sv_impl sx_server)))"
    by (simp add: serve_client_frame_def sx_detach_def outgoing_def empty_request handle_client_request_def client_call_def message_types)
  then show ?thesis by (auto simp: handle_detach_def answer_def on_server_def settle_def split: prod.split sum.split)
qed

theorem requests_are_operations_witness:
  "\<exists>r sv auth. serve_client_frame sx_renderings sc_env sc_env (\<lambda>_. (0, [])) 2 sx_detach sx_server = Some (r, sv) \<and>
    auth_session auth = Some 2 \<and> auth_request auth = Some (Ident 21) \<and> served_by sc_env sc_env auth (sc_impl sc_running) (sv_impl sv)"
proof -
  obtain r sv where s: "serve_client_frame sx_renderings sc_env sc_env (\<lambda>_. (0, [])) 2 sx_detach sx_server = Some (r, sv)"
    using sx_detached by blast
  from requests_are_operations [OF s] s show ?thesis by (auto simp: sx_detach_def outgoing_def sx_server_def)
qed

lemma sx_unwrapped: "counters_unwrapped (im_state (sv_impl sx_server))"
  by (simp add: counters_unwrapped_def fresh_identity_def commit_ready_alive_def sx_server_def scenario_defs initial_state_def
      om_find_def om_empty_def)


section \<open>Execution\<close>

definition sx_execution :: "execution_op \<Rightarrow> execution_fields" where
  "sx_execution op = \<lparr> xf_op = op, xf_target = Ident 5, xf_bytes = 60, xf_handle = 0, xf_count = 0, xf_handles = [], xf_data = [] \<rparr>"

lemma sx_fields: "xf_op (sx_execution op) = op" "xf_bytes (sx_execution op) = 60" "sv_impl sx_server = sc_impl sc_running"
  by (simp_all add: sx_execution_def sx_server_def)

lemma sx_request_fits: "request_fits (sx_execution op) sx_link (Ident 2)"
  by (simp add: request_fits_def sx_agent sx_execution_def text_fits_def)

text \<open>An agent that performs what it is asked, and says nothing about it.\<close>

lemma sx_allocated: "\<exists>r im. execution_dispatch sc_env sc_env (\<lambda>_. (0, writer_take [])) (sx_execution XO_Allocate) sc_auth (Ident 2) sx_server =
  Some (r, im, [agent_request (sx_execution XO_Allocate) sx_link (Ident 2)])"
proof -
  obtain im1 where p: "report (reserve_allocation sc_env sc_auth 60 (sc_impl sc_running)) = (SC_Ok, im1)"
    using sc_reserved by (metis perform.simps(33) prod.collapse)
  have "\<exists>r im. execution_outcome sc_env (\<lambda>_. (0, writer_take [])) (sx_execution XO_Allocate) sc_auth True sx_link (Ident 2) im1 =
      Some (r, im, [agent_request (sx_execution XO_Allocate) sx_link (Ident 2)])"
    by (simp add: sx_fields execution_outcome_def empty_request execution_accounting_def execution_response_def reader_str_def
        reader_bytes_def typed_field_def om_find_def)
  then show ?thesis by (simp add: execution_dispatch_def sx_fields sx_agent p)
qed


text \<open>A download for nobody: an authority with no tenant and no lease.\<close>

lemma sx_downloaded: "\<exists>r im sent. execution_dispatch sc_env sc_env (\<lambda>_. (kFlagError, [])) (sx_execution XO_Download) blank_authority (Ident 2)
  sx_server = Some (r, im, sent)"
  by (simp add: execution_dispatch_def sx_agent execution_outcome_def sx_execution_def kFlagError_def)


section \<open>Agents\<close>

theorem agent_runs_request_witness:
  "handle_inbound (make_synthetic_backends default_synthetic) gen_initial
     (outgoing MT_AgentExecute 1 (writer_take (agent_request (sx_execution XO_DeviceInfo) sx_link (Ident 2))) kFlagAgentDirected) =
   Some (Failure SC_Unsupported)"
proof -
  have "by_key (make_synthetic_backends default_synthetic) ''synthetic:remote:node-0'' =
      Some (synthetic_adapter ''synthetic-remote'' (remote_device default_synthetic))"
    by (simp add: by_key_def discoveries_def make_synthetic_backends_def default_synthetic_def synthetic_adapter_def synthetic_defs)
  then show ?thesis
    using agent_runs_request [OF sx_request_fits, of "make_synthetic_backends default_synthetic" gen_initial 1 XO_DeviceInfo]
    by (simp add: sx_agent synthetic_executes_nothing)
qed

lemma sx_synthetic: "remote_device default_synthetic \<in> set (synthetic_devices default_synthetic)"
    "unsupported_device default_synthetic \<in> set (synthetic_devices default_synthetic)"
  by (simp_all add: synthetic_devices_list default_synthetic_def)

theorem synthetic_never_real_witness:
  "validate_backing_for (describe_backing sc_env PV_Unsupported sc_device (hd (dd_backings (unsupported_device default_synthetic)))
     blank_backing) None sc_virtual default_policy initial_state \<noteq> SC_Ok"
proof -
  have "hd (dd_backings (unsupported_device default_synthetic)) \<in> set (dd_backings (unsupported_device default_synthetic))"
      "dd_provenance (unsupported_device default_synthetic) = PV_Unsupported"
    by (simp_all add: synthetic_defs)
  with synthetic_never_real [OF sx_synthetic(2) this(1)] show ?thesis by simp
qed

lemma sx_refused: "\<exists>r im. execution_dispatch sc_env sc_env (answer_of (make_synthetic_backends default_synthetic) gen_initial 1 [])
  (sx_execution XO_DeviceInfo) sc_auth (Ident 2) sx_server = Some (r, im, [agent_request (sx_execution XO_DeviceInfo) sx_link (Ident 2)])"
proof -
  let ?agent = "answer_of (make_synthetic_backends default_synthetic) gen_initial 1 []"
  obtain flags payload where "?agent (agent_request (sx_execution XO_DeviceInfo) sx_link (Ident 2)) = (flags, payload)" by (meson surj_pair)
  then show ?thesis using synthetic_answer [OF sx_request_fits, of default_synthetic gen_initial 1 "[]" XO_DeviceInfo]
    by (simp add: execution_dispatch_def execution_outcome_def sx_fields sx_agent)
qed

theorem synthetic_execution_refused_witness:
  "\<exists>r sent. execution_dispatch sc_env sc_env (answer_of (make_synthetic_backends default_synthetic) gen_initial 1 [])
     (sx_execution XO_DeviceInfo) sc_auth (Ident 2) sx_server = Some (r, sc_impl sc_running, sent) \<and> response_flags r AND kFlagError \<noteq> 0"
proof -
  obtain r im where x: "execution_dispatch sc_env sc_env (answer_of (make_synthetic_backends default_synthetic) gen_initial 1 [])
      (sx_execution XO_DeviceInfo) sc_auth (Ident 2) sx_server = Some (r, im, [agent_request (sx_execution XO_DeviceInfo) sx_link (Ident 2)])"
    using sx_refused by blast
  from synthetic_execution_refused [OF x sx_agent(1) sx_request_fits] x show ?thesis by (simp add: sx_fields)
qed

section \<open>Connections\<close>

text \<open>The reads of a socket to which a frame has come in one piece.\<close>

lemma arriving_whole: "sendable kDefaultMaxFramePayload f \<Longrightarrow> length (snd f) \<le> 64 * 1024 - 28 \<Longrightarrow> arriving [f] [frame_bytes f]"
  by (auto simp: arriving_def wire_def length_frame_bytes kFrameHeaderSize_def simp flip: length_greater_0_conv)

lemma outgoing_arrives:
  "length payload \<le> 64 * 1024 - 28 \<Longrightarrow> arriving [outgoing type request payload flags] [frame_bytes (outgoing type request payload flags)]"
  by (rule arriving_whole) (simp_all add: sendable_def outgoing_def blank_header_def kDefaultMaxFramePayload_def)


definition sx_endpoint :: "frame \<Rightarrow> endpoint" where
  "sx_endpoint f = \<lparr> ep_channel = make_channel, ep_reads = [Inr (frame_bytes f)], ep_writes = [], ep_sent = [] \<rparr>"

definition sx_client :: "frame \<Rightarrow> control_client" where
  "sx_client f = \<lparr> cl_endpoint = sx_endpoint f, cl_next_request = 1, cl_epoch = no_gen, cl_server_name = [], cl_client_name = ''av-cli'',
    cl_role = Role_Client, cl_agent_id = no_id, cl_boot_id = no_id, cl_inbound = None \<rparr>"

theorem refusal_reason_unseen_witness:
  "\<exists>cl. handshake (sx_client (error_frame SC_VersionMismatch [])) = Some (Failed SC_ProtocolViolation, cl)"
proof -
  let ?f = "error_frame SC_VersionMismatch []"
  have "length (encode_error_payload SC_VersionMismatch []) \<le> 64 * 1024 - 28"
    by (simp add: encode_error_payload_def writer_str_def writer_u64_def writer_take_def enc_list_def enc_field_def enc_raw_def counted_def
        field_keys enc_u8_def)
  then have "arriving [?f] [frame_bytes ?f]" unfolding error_frame_def by (rule outgoing_arrives)
  then show ?thesis using refusal_reason_unseen [of "sx_client ?f" "[frame_bytes ?f]" "[]" SC_VersionMismatch "[]"]
    by (simp add: sx_client_def sx_endpoint_def make_channel_idle)
qed

section \<open>Descriptors\<close>

definition sx_found :: device_descriptor where
  "sx_found = make_device ''synthetic:remote:node-1'' ''Remote'' 1024 16 ''remote''
    [\<lparr> bd_label = ''all'', bd_klass = BC_SyntheticRemote, bd_multiplexing = MX_Synthetic, bd_isolation_class = IC_Unknown,
       bd_capacity_bytes = 1024, bd_compute_units = 16, bd_mechanism = ''remote'', bd_isolation = [claim ID_Memory IS_Unknown ''remote'' []],
       bd_capabilities = [], bd_exclusive = False, bd_externally_lifecycle_managed = False, bd_external_partition_ref = [] \<rparr>]"

lemma taken_length: "length (writer_take es) \<le> 4 + sum_list (map (\<lambda>e. 7 + length (snd (snd e))) es)"
proof -
  have "sum_list (map (\<lambda>e. length (enc_field e)) (sort_key fst es)) = sum_list (map (\<lambda>e. length (enc_field e)) es)"
    by (simp flip: sum_mset_sum_list)
  also have "\<dots> \<le> sum_list (map (\<lambda>e. 7 + length (snd (snd e))) es)"
    by (rule sum_list_mono) (simp add: enc_field_def enc_raw_def enc_u8_def)
  finally show ?thesis by (simp add: writer_take_def enc_list_def length_concat o_def)
qed

lemmas encoded_sizes = encode_isolation_profile_def encode_isolation_claim_def encode_capability_surface_def enc_list_def enc_enum_def
  enc_id_def enc_gen_def enc_str_def enc_u8_def counted_def

lemma sx_found_describable: "describable sx_found"
proof -
  let ?b = "hd (dd_backings sx_found)"
  have b: "backing_describable ?b"
    by (simp add: backing_describable_def sx_found_def make_device_def text_fits_def isolation_profile_fits_def capability_surface_fits_def
        isolation_claim_fits_def list_fits_def str_fits_def profile_sorted_def surface_sorted_def claim_def decoder_of_def default_limits_def
        kIsolationDimensionCount_def encoded_sizes)
  have "length (encode_backing_descriptor ?b) \<le> 4096"
    unfolding backing_fields_encode [OF b]
    by (rule order_trans [OF taken_length]) (simp add: backing_fields_def sx_found_def make_device_def claim_def encoded_sizes)
  then show ?thesis using b by (simp add: describable_def sx_found_def make_device_def text_fits_def)
qed

theorem descriptor_roundtrip_witness:
  "\<exists>fm. reader_create (encode_physical_descriptor sx_found) default_limits = Inr fm \<and> decode_physical_descriptor fm = Some (Inr sx_found)"
  by (rule descriptor_roundtrip [OF sx_found_describable])

section \<open>A query\<close>

text \<open>Request 22 asks for the retired accelerator.\<close>

definition sx_query :: frame where
  "sx_query = outgoing MT_Query 22 (writer_take (writer_u64 kFieldVirtualId 11 [])) 0"

definition sx_asked :: field_map where
  "sx_asked = [(kFieldVirtualId, FT_U64, enc_u64 11)]"

lemma sx_query_read: "reader_create (snd sx_query) default_limits = Inr sx_asked" "require_u64 sx_asked kFieldVirtualId = FA_Value (Inr 11)"
proof -
  show "reader_create (snd sx_query) default_limits = Inr sx_asked"
    using reader_create_written [of "[(kFieldVirtualId, FT_U64, enc_u64 11)]"]
    by (simp add: sx_query_def outgoing_def writer_u64_def sx_asked_def)
  have "reader_u64 sx_asked kFieldVirtualId = FA_Value 11" by (intro read_written) (simp add: sx_asked_def om_find_def)
  then show "require_u64 sx_asked kFieldVirtualId = FA_Value (Inr 11)" by (simp add: require_u64_def require_field_def)
qed

definition sx_view :: virtual_view where
  "sx_view = make_view sc_running sc_retired (client_authority sx_asked (Ident 22) 2 (sc_impl sc_running))"

lemma unbound_view:
  assumes "om_find (st_backings s) (va_backing r) = None"
  shows "vv_name (make_view s r auth) = va_name r" "vv_state_reason (make_view s r auth) = va_state_reason r"
    "vv_contract (make_view s r auth) = va_contract r" "vv_projection (make_view s r auth) = va_projection r"
    "vv_backing_mechanism (make_view s r auth) = cp_mechanism (va_projection r)" "vv_physical_stable_key (make_view s r auth) = []"
    "vv_physical_model (make_view s r auth) = []"
  using assms
  by (simp_all add: make_view_def disclose_lease_def disclose_backing_def disclose_binding_def base_view_def Let_def
      split: option.split transparency.split)

lemma sx_view_parts:
  "vv_name sx_view = []" "vv_state_reason sx_view = []" "vv_contract sx_view = empty_contract" "vv_projection sx_view = empty_projection"
  "vv_backing_mechanism sx_view = []" "vv_physical_stable_key sx_view = []" "vv_physical_model sx_view = []"
proof -
  have "om_find (st_backings sc_running) (va_backing sc_retired) = None"
    by (simp add: sc_running_def sc_retired_def blank_virtual_def om_find_def no_id_def)
  then show "vv_name sx_view = []" "vv_state_reason sx_view = []" "vv_contract sx_view = empty_contract" "vv_projection sx_view = empty_projection"
    "vv_backing_mechanism sx_view = []" "vv_physical_stable_key sx_view = []" "vv_physical_model sx_view = []"
    by (simp_all add: sx_view_def unbound_view sc_retired_def blank_virtual_def empty_projection_def)
qed

lemma sx_view_length: "length (encode_view sx_view) \<le> 4096"
  by (simp add: encode_view_def sx_view_parts encode_contract_def encode_projection_def empty_contract_def empty_projection_def
      enc_boolean_def encoded_sizes)

lemma sx_view_arrives: "view_arrives sx_view"
  using sx_view_length
  by (simp add: view_arrives_def view_fits_def sx_view_parts contract_fits_def projection_fits_def capability_surface_fits_def
      surface_sorted_def empty_contract_def empty_projection_def list_fits_def str_fits_def decoder_of_def default_limits_def)

definition sx_answer :: frame where
  "sx_answer = response_frame [] (fst sx_query) (view_response (sc_impl sc_running) sx_view)"

lemma sx_answer_arrives: "arriving [sx_answer] [frame_bytes sx_answer]"
proof (rule arriving_whole)
  let ?es = "writer_u64 kFieldEpoch (epoch_value (sc_impl sc_running)) (writer_bytes kFieldViewBlob (encode_view sx_view) [])"
  have "snd sx_answer = writer_take ?es"
    by (simp add: sx_answer_def response_frame_facts response_payload_def view_response_def ok_epoch_def write_steps_def)
  then have "length (snd sx_answer) \<le> 5000"
    using taken_length [of ?es] sx_view_length by (simp add: writer_u64_def writer_bytes_def field_keys counted_def)
  then show "length (snd sx_answer) \<le> 64 * 1024 - 28" "sendable kDefaultMaxFramePayload sx_answer"
    by (simp_all add: sendable_def kDefaultMaxFramePayload_def)
      (simp_all add: sx_answer_def response_frame_def sealed_def blank_header_def)
qed

theorem queried_view_arrives_witness:
  "\<exists>got ep blob. await_response None MT_Query 22 (sx_endpoint sx_answer) = Some (Answered got, ep) \<and>
    reader_bytes got kFieldViewBlob = FA_Value blob \<and> decode_view blob = Inr sx_view"
proof -
  have f: "fh_type (fst sx_query) = MT_Query" "fh_request (fst sx_query) = 22" by (simp_all add: sx_query_def outgoing_def)
  have q: "query_virtual (client_authority sx_asked (Ident (fh_request (fst sx_query))) 2 (sv_impl sx_server)) (Ident 11) (sv_impl sx_server) =
      Inr sx_view"
    by (simp add: query_virtual_def sx_fields f sx_view_def) (simp add: scenario_defs om_find_def)
  have s: "serve_client_frame sx_renderings sc_env sc_env (\<lambda>_. (0, [])) 2 sx_query sx_server = Some (view_response (sc_impl sc_running) sx_view, sx_server)"
    using query_answered [OF f(1) sx_query_read q] by (simp add: sx_fields)
  have e: "idle_channel (ep_channel (sx_endpoint sx_answer))" "ep_reads (sx_endpoint sx_answer) = map Inr [frame_bytes sx_answer] @ []"
    by (simp_all add: sx_endpoint_def make_channel_idle)
  have a: "arriving [response_frame [] (fst sx_query) (view_response (sc_impl sc_running) sx_view)] [frame_bytes sx_answer]"
    using sx_answer_arrives by (simp add: sx_answer_def)
  from queried_view_arrives [OF f(1) sx_query_read q sx_view_arrives s e a, of None] show ?thesis unfolding f(2) by blast
qed

section \<open>The command line\<close>

definition sx_words :: "string list" where
  "sx_words = [''detach'', ''--epoch'', ''7'', ''--virtual'', render_strong_id ''va'' 5, ''--lease-generation'', ''2'']"

theorem operator_authority_arrives_witness:
  "\<exists>type es k fm. dispatch sx_words gen_initial = Ask type es k \<and> reader_create (writer_take es) default_limits = Inr fm \<and>
    auth_epoch (client_authority fm (Ident 1) 2 (sc_impl sc_running)) = Some (st_epoch sc_running) \<and>
    auth_virtual_id (client_authority fm (Ident 1) 2 (sc_impl sc_running)) = Some (Ident 5) \<and>
    auth_lease_generation (client_authority fm (Ident 1) 2 (sc_impl sc_running)) = Some (Generation 2)"
proof -
  have c: "cm_flags (command_of sx_words) = [(''lease-generation'', ''2''), (''virtual'', render_strong_id ''va'' 5), (''epoch'', ''7'')]"
    by (simp add: command_of_def sx_words_def is_option_def set_flag_def render_strong_id_def)
  have "get (command_of sx_words) ''reason'' txt_operator_request = txt_operator_request" by (simp add: get_def c)
  then have f: "text_fits (get (command_of sx_words) ''reason'' txt_operator_request)" by (simp add: text_fits_def txt_operator_request_def)
  have h: "hd sx_words \<in> {''detach'', ''revoke'', ''renew''}" by (simp add: sx_words_def)
  have "typed_flag (command_of sx_words) ''virtual'' ''va'' = Some 5"
    using id_text_roundtrip [of "''va''" 5, THEN conjunct1] unfolding typed_flag_def has_def get_def c by simp
  moreover have "number (command_of sx_words) ''lease-generation'' 0 = 2"
    by (simp add: number_def c strtoull_def digits_value_def is_blank_def dec_digit_def)
  moreover have "st_epoch (im_state (sc_impl sc_running)) = st_epoch sc_running" by (simp add: sc_impl_def)
  ultimately show ?thesis
    using operator_authority_arrives [OF h f, of gen_initial "Ident 1" 2 "sc_impl sc_running"] by (auto simp: Let_def option_or_def)
qed

end
