(* ===== verification/AV_Cuda.thy ===== *)
theory AV_Cuda
  imports AV_Synthetic AV_Text "HOL-Library.Signed_Division"
begin

text \<open>
  The CUDA adapter (\<open>src/cuda/cuda_adapter.cpp\<close>, \<open>src/cuda/vector_add.cu\<close>) over the calls of the CUDA runtime. The runtime is a record of
  functions on a state of its own, one per call the adapter makes; an error is its number, and \<open>cudaSuccess\<close> is 0. A C \<open>int\<close> is an
  integer, a device pointer its address.

  Handles are never reused and a freed one stays unknown. The descriptors pass the checks of registration and claim no isolation
  the shared context does not have. A successful \<open>Free\<close> reports no size, so that the coordinator gives nothing back.
\<close>

section \<open>The CUDA runtime\<close>

record device_prop =
  dp_name :: string
  dp_total_global_mem :: u64
  dp_multi_processor_count :: int
  dp_major :: int
  dp_minor :: int
  dp_concurrent_kernels :: int
  dp_async_engine_count :: int
  dp_unified_addressing :: int

type_synonym cuda_error = int

record 'd cuda_driver =
  cd_error_name :: "cuda_error \<Rightarrow> string option"
  cd_error_string :: "cuda_error \<Rightarrow> string option"
  cd_get_device_count :: "'d \<Rightarrow> cuda_error \<times> int"
  cd_get_device_properties :: "int \<Rightarrow> 'd \<Rightarrow> cuda_error \<times> device_prop"
  cd_get_pci_bus_id :: "int \<Rightarrow> 'd \<Rightarrow> cuda_error \<times> string"
  cd_driver_get_version :: "'d \<Rightarrow> cuda_error \<times> int"
  cd_mem_get_info :: "'d \<Rightarrow> cuda_error \<times> u64 \<times> u64"
  cd_set_device :: "int \<Rightarrow> 'd \<Rightarrow> cuda_error \<times> 'd"
  cd_device_synchronize :: "'d \<Rightarrow> cuda_error \<times> 'd"
  cd_malloc :: "u64 \<Rightarrow> 'd \<Rightarrow> cuda_error \<times> u64 \<times> 'd"
  cd_free :: "u64 \<Rightarrow> 'd \<Rightarrow> cuda_error \<times> 'd"
  cd_copy_to_device :: "u64 \<Rightarrow> bytes \<Rightarrow> 'd \<Rightarrow> cuda_error \<times> 'd"
  cd_copy_to_host :: "u64 \<Rightarrow> nat \<Rightarrow> 'd \<Rightarrow> cuda_error \<times> bytes \<times> 'd"
  cd_launch :: "int \<Rightarrow> int \<Rightarrow> u64 \<Rightarrow> u64 \<Rightarrow> u64 \<Rightarrow> int \<Rightarrow> 'd \<Rightarrow> cuda_error \<times> 'd"

definition cuda_error_text :: "'d cuda_driver \<Rightarrow> cuda_error \<Rightarrow> string" where
  "cuda_error_text drv status =
    (case cd_error_name drv status of Some name \<Rightarrow> name | None \<Rightarrow> ''cudaError'') @ '': '' @
    (case cd_error_string drv status of Some text \<Rightarrow> text | None \<Rightarrow> ''unknown CUDA error'')"

section \<open>What a device claims\<close>

definition make_claim :: "isolation_dimension \<Rightarrow> isolation_state \<Rightarrow> string \<Rightarrow> isolation_claim" where
  "make_claim dimension state rationale = claim dimension state ''cuda-runtime-shared-context'' rationale"

definition cuda_isolation :: "isolation_claim list" where
  "cuda_isolation =
    [make_claim ID_Memory IS_Shared
       ''one physical device memory pool; per-virtual budgets are enforced by runtime accounting only'',
     make_claim ID_ExecutionContext IS_Shared ''all virtual accelerators execute through one shared CUDA context'',
     make_claim ID_AddressSpace IS_Shared
       ''the device address space is shared; there is no per-tenant device address-space boundary'',
     make_claim ID_Fault IS_Shared ''an illegal access or device fault is not contained by this runtime'',
     make_claim ID_Reset IS_Shared ''a device reset affects every virtual accelerator on the physical device'',
     make_claim ID_Performance IS_Shared ''compute and bandwidth are shared and neighbours are not performance-isolated'',
     make_claim ID_Telemetry IS_Unknown ''this runtime cannot attribute device telemetry to a single virtual accelerator'',
     make_claim ID_AdminControl IS_Partial
       ''the governance plane is separate per virtual accelerator; the device administration plane is not'',
     make_claim ID_PeerVisibility IS_Shared ''peer and device visibility is not partitioned'',
     make_claim ID_Dma IS_Unknown ''DMA translation and IOMMU behaviour are outside this runtime and are not proven'',
     make_claim ID_TenantState IS_Isolated
       ''tenant governance state, leases and authority are separate per virtual accelerator'']"

definition cuda_capabilities :: "device_prop \<Rightarrow> capability_surface" where
  "cuda_capabilities p = (let tag = ''cuda-device-properties'' in fold surface_set
    [capability CK_MemoryTotalBytes CV_Supported (dp_total_global_mem p) [] tag,
     capability CK_SmCount CV_Supported (of_int (dp_multi_processor_count p)) [] tag,
     capability CK_ComputeCapabilityMajor CV_Supported (of_int (dp_major p)) [] tag,
     capability CK_ComputeCapabilityMinor CV_Supported (of_int (dp_minor p)) [] tag,
     capability CK_ArchitectureFamily CV_Supported 0 (dp_name p) tag,
     capability CK_MaxStreams CV_Unknown 0 ''the CUDA runtime does not report a fixed stream ceiling'' tag,
     capability CK_MaxConcurrentKernels CV_Supported (if dp_concurrent_kernels p \<noteq> 0 then 1 else 0) [] tag,
     capability CK_AsyncCopy CV_Supported (of_int (dp_async_engine_count p)) [] tag,
     capability CK_UnifiedMemory CV_Supported (if dp_unified_addressing p \<noteq> 0 then 1 else 0) [] tag,
     capability CK_PrecisionFp32 CV_Supported 0 [] tag,
     capability CK_PrecisionFp16 CV_Supported 0 [] tag,
     capability CK_PrecisionFp64 CV_Supported 0 [] tag,
     capability CK_PrecisionBf16 CV_Supported 0 [] tag,
     capability CK_PrecisionInt8 CV_Supported 0 [] tag,
     capability CK_PrecisionFp8 CV_Unknown 0 [] tag,
     capability CK_PeerAccess CV_Unsupported 0 ''peer access is not exposed by this runtime and is never implied'' ''virtualization-policy'',
     capability CK_ResetBehavior CV_Unknown 0 ''reset behaviour is not proven by this runtime'' tag,
     capability CK_MemoryBandwidthBytesPerSecond CV_Unknown 0 [] tag,
     capability CK_TransferCapability CV_Supported 0 ''host to device and device to host transfers'' tag] [])"

definition cuda_backing :: "string \<Rightarrow> backing_class \<Rightarrow> multiplexing \<Rightarrow> isolation_class \<Rightarrow> string \<Rightarrow> bool \<Rightarrow> device_prop \<Rightarrow> backing_descriptor" where
  "cuda_backing label klass mode isolation_class mechanism exclusive p =
    \<lparr> bd_label = label, bd_klass = klass, bd_multiplexing = mode, bd_isolation_class = isolation_class,
      bd_capacity_bytes = dp_total_global_mem p, bd_compute_units = of_int (dp_multi_processor_count p),
      bd_mechanism = mechanism, bd_isolation = cuda_isolation, bd_capabilities = cuda_capabilities p,
      bd_exclusive = exclusive, bd_externally_lifecycle_managed = False, bd_external_partition_ref = [] \<rparr>"

definition cuda_device :: "string \<Rightarrow> string \<Rightarrow> device_prop \<Rightarrow> device_descriptor" where
  "cuda_device bus_id version p =
    \<lparr> dd_stable_key = ''cuda:pci:'' @ bus_id, dd_vendor = ''NVIDIA'', dd_model = dp_name p, dd_driver_version = version,
      dd_architecture = ''sm_'' @ int_string (dp_major p) @ int_string (dp_minor p), dd_provenance = PV_Real,
      dd_memory_total_bytes = dp_total_global_mem p, dd_compute_units = of_int (dp_multi_processor_count p),
      dd_compute_capability_major = of_int (dp_major p), dd_compute_capability_minor = of_int (dp_minor p),
      dd_mechanism = ''cuda-runtime'', dd_hardware_partition_capable = False, dd_virtual_function_capable = False,
      dd_mig_capable = False, dd_backings =
        [cuda_backing ''cuda-dedicated'' BC_DedicatedPhysical MX_Dedicated IC_None ''cuda-runtime-exclusive'' True p,
         cuda_backing ''cuda-shared-context'' BC_CooperativeShared MX_CooperativeShared IC_Logical ''cuda-runtime-shared-context'' False p] \<rparr>"

section \<open>Discovery\<close>

record 'd cuda_state =
  cs_devices :: "(device_descriptor \<times> int) list"
  cs_handles :: "(u64, u64) omap"
  cs_next_handle :: u64
  cs_runtime :: 'd

definition make_cuda_backend :: "'d \<Rightarrow> 'd cuda_state" where
  "make_cuda_backend d = \<lparr> cs_devices = [], cs_handles = om_empty, cs_next_handle = 0, cs_runtime = d \<rparr>"

definition version_text :: "cuda_error \<times> int \<Rightarrow> string" where
  "version_text answered = (case answered of (status, version) \<Rightarrow>
    if status = 0 then int_string (version sdiv 1000) @ ''.'' @ int_string (version smod 1000 sdiv 10) else [])"

definition describe :: "'d cuda_driver \<Rightarrow> 'd \<Rightarrow> int \<Rightarrow> (device_descriptor \<times> int) result" where
  "describe drv d ordinal =
    (case cd_get_device_properties drv ordinal d of (queried, p) \<Rightarrow>
     if queried \<noteq> 0 then Inl SC_BackingUnavailable
     else case cd_get_pci_bus_id drv ordinal d of (bus_status, bus_id) \<Rightarrow>
       if bus_status \<noteq> 0 \<or> bus_id = [] then Inl SC_BackingUnavailable
       else Inr (cuda_device bus_id (version_text (cd_driver_get_version drv d)) p, ordinal))"

definition described :: "'d cuda_driver \<Rightarrow> 'd \<Rightarrow> nat \<Rightarrow> (device_descriptor \<times> int) list" where
  "described drv d count = concat (map (\<lambda>i. case describe drv d (int i) of Inl c \<Rightarrow> [] | Inr x \<Rightarrow> [x]) [0..<count])"

definition cuda_discover :: "'d cuda_driver \<Rightarrow> 'd cuda_state \<Rightarrow> device_descriptor list result \<times> 'd cuda_state" where
  "cuda_discover drv st =
    (case cd_get_device_count drv (cs_runtime st) of (status, count) \<Rightarrow>
     if status \<noteq> 0 then (Inl SC_BackingUnavailable, st)
     else if count \<le> 0 then (Inr [], st)
     else let devices = described drv (cs_runtime st) (nat (if count > 64 then 64 else count)); st' = st\<lparr> cs_devices := devices \<rparr> in
       if devices = [] then (Inl SC_BackingUnavailable, st') else (Inr (map fst devices), st'))"

definition cuda_probe :: "'d cuda_driver \<Rightarrow> string \<Rightarrow> 'd cuda_state \<Rightarrow> device_descriptor result \<times> 'd cuda_state" where
  "cuda_probe drv key st =
    (case cuda_discover drv st of (Inl c, st') \<Rightarrow> (Inl c, st')
     | (Inr ds, st') \<Rightarrow> (case find (\<lambda>d. dd_stable_key d = key) ds of None \<Rightarrow> Inl SC_NotFound | Some d \<Rightarrow> Inr d, st'))"

definition ordinal_of :: "string \<Rightarrow> (device_descriptor \<times> int) list \<Rightarrow> int option" where
  "ordinal_of key devices = map_option snd (find (\<lambda>x. dd_stable_key (fst x) = key) devices)"

definition cuda_locate :: "'d cuda_driver \<Rightarrow> string \<Rightarrow> 'd cuda_state \<Rightarrow> int result \<times> 'd cuda_state" where
  "cuda_locate drv key st =
    (case ordinal_of key (cs_devices st) of Some ordinal \<Rightarrow> (Inr ordinal, st)
     | None \<Rightarrow>
       (case cuda_discover drv st of (Inl c, st') \<Rightarrow> (Inl c, st')
        | (Inr ds, st') \<Rightarrow> (case ordinal_of key (cs_devices st') of None \<Rightarrow> Inl SC_StalePhysicalDevice | Some ordinal \<Rightarrow> Inr ordinal, st')))"

section \<open>Execution\<close>

type_synonym 'd cuda_step = "'d cuda_state \<Rightarrow> execution_result \<times> 'd cuda_state"

definition refused :: "status_code \<Rightarrow> string \<Rightarrow> execution_result" where
  "refused c detail = blank_result\<lparr> xr_status := c, xr_detail := detail \<rparr>"

definition call_result :: "'d cuda_driver \<Rightarrow> cuda_error \<Rightarrow> execution_result" where
  "call_result drv status = (if status = 0 then blank_result else refused SC_Internal (cuda_error_text drv status))"

definition device_info :: "'d cuda_driver \<Rightarrow> 'd cuda_step" where
  "device_info drv st = (case cd_mem_get_info drv (cs_runtime st) of (status, free_bytes, total_bytes) \<Rightarrow>
    (if status \<noteq> 0 then refused SC_Internal (''cudaMemGetInfo failed: '' @ cuda_error_text drv status)
     else blank_result\<lparr> xr_total_memory := total_bytes, xr_free_memory := free_bytes \<rparr>, st))"

definition allocate :: "'d cuda_driver \<Rightarrow> execution_request \<Rightarrow> 'd cuda_step" where
  "allocate drv request st =
    (if er_bytes request = 0 then (refused SC_InvalidArgument ''allocation size must be greater than zero'', st)
     else case cd_malloc drv (er_bytes request) (cs_runtime st) of (status, pointer, d) \<Rightarrow>
       if status \<noteq> 0 then (refused SC_ResourceExhausted (''cudaMalloc failed: '' @ cuda_error_text drv status), st\<lparr> cs_runtime := d \<rparr>)
       else let handle = cs_next_handle st + 1 in
         (blank_result\<lparr> xr_handle := handle, xr_bytes := er_bytes request \<rparr>,
          st\<lparr> cs_next_handle := handle, cs_handles := om_put handle pointer (cs_handles st), cs_runtime := d \<rparr>))"

definition unknown_handle :: execution_result where
  "unknown_handle = refused SC_NotFound ''unknown device allocation handle''"

definition release :: "'d cuda_driver \<Rightarrow> execution_request \<Rightarrow> 'd cuda_step" where
  "release drv request st =
    (case om_find (cs_handles st) (er_handle request) of None \<Rightarrow> (unknown_handle, st)
     | Some pointer \<Rightarrow>
       (case cd_free drv pointer (cs_runtime st) of (status, d) \<Rightarrow>
        (call_result drv status, st\<lparr> cs_handles := om_del (er_handle request) (cs_handles st), cs_runtime := d \<rparr>)))"

definition upload :: "'d cuda_driver \<Rightarrow> execution_request \<Rightarrow> 'd cuda_step" where
  "upload drv request st =
    (case om_find (cs_handles st) (er_handle request) of None \<Rightarrow> (unknown_handle, st)
     | Some pointer \<Rightarrow>
       if er_data request = [] then (refused SC_InvalidArgument ''no data was supplied for the transfer'', st)
       else case cd_copy_to_device drv (pointer + er_bytes request) (er_data request) (cs_runtime st) of (status, d) \<Rightarrow>
         (call_result drv status, st\<lparr> cs_runtime := d \<rparr>))"

definition download :: "'d cuda_driver \<Rightarrow> execution_request \<Rightarrow> 'd cuda_step" where
  "download drv request st =
    (case om_find (cs_handles st) (er_handle request) of None \<Rightarrow> (unknown_handle, st)
     | Some pointer \<Rightarrow>
       if er_data request = [] then (refused SC_InvalidArgument ''no transfer size was supplied'', st)
       else case cd_copy_to_host drv (pointer + er_bytes request) (length (er_data request)) (cs_runtime st) of (status, host, d) \<Rightarrow>
         (if status \<noteq> 0 then refused SC_Internal (cuda_error_text drv status) else blank_result\<lparr> xr_data := host \<rparr>,
          st\<lparr> cs_runtime := d \<rparr>))"

definition av_cuda_vector_add :: "'d cuda_driver \<Rightarrow> u64 \<Rightarrow> u64 \<Rightarrow> u64 \<Rightarrow> int \<Rightarrow> 'd \<Rightarrow> int \<times> 'd" where
  "av_cuda_vector_add drv a b out count d =
    (if count \<le> 0 then (1, d)
     else if a = 0 \<or> b = 0 \<or> out = 0 then (2, d)
     else case cd_launch drv ((count + 256 - 1) sdiv 256) 256 a b out count d of (status, d1) \<Rightarrow>
       if status \<noteq> 0 then (status, d1) else cd_device_synchronize drv d1)"

definition vector_add :: "'d cuda_driver \<Rightarrow> execution_request \<Rightarrow> 'd cuda_step" where
  "vector_add drv request st =
    (if length (er_handles request) \<noteq> 3
     then (refused SC_InvalidArgument ''the vector add kernel requires exactly three device handles'', st)
     else case map (om_find (cs_handles st)) (er_handles request) of
       [Some a, Some b, Some out] \<Rightarrow>
         if er_count request = 0 \<or> er_count request > 2 ^ 26
         then (refused SC_InvalidArgument ''kernel element count is outside the supported range'', st)
         else (case av_cuda_vector_add drv a b out (uint (er_count request)) (cs_runtime st) of (launched, d) \<Rightarrow>
           (if launched \<noteq> 0
            then refused SC_Internal (''kernel launch or synchronisation failed with CUDA status '' @ int_string launched)
            else blank_result\<lparr> xr_detail := ''vector add executed and synchronised on the physical device'' \<rparr>,
            st\<lparr> cs_runtime := d \<rparr>))
     | _ \<Rightarrow> (refused SC_NotFound ''one of the kernel operands is not a known device allocation'', st))"

definition synchronize :: "'d cuda_driver \<Rightarrow> 'd cuda_step" where
  "synchronize drv st = (case cd_device_synchronize drv (cs_runtime st) of (status, d) \<Rightarrow>
    (call_result drv status, st\<lparr> cs_runtime := d \<rparr>))"

definition on_device :: "'d cuda_driver \<Rightarrow> execution_request \<Rightarrow> 'd cuda_step" where
  "on_device drv request st =
    (case er_op request of
       XO_DeviceInfo \<Rightarrow> device_info drv st
     | XO_Allocate \<Rightarrow> allocate drv request st
     | XO_Free \<Rightarrow> release drv request st
     | XO_Upload \<Rightarrow> upload drv request st
     | XO_Download \<Rightarrow> download drv request st
     | XO_KernelVectorAdd \<Rightarrow> vector_add drv request st
     | XO_Synchronize \<Rightarrow> synchronize drv st
     | XO_Unknown \<Rightarrow> (refused SC_Unsupported ''unknown execution operation'', st))"

definition cuda_execute :: "'d cuda_driver \<Rightarrow> execution_request \<Rightarrow> 'd cuda_state \<Rightarrow> execution_result result \<times> 'd cuda_state" where
  "cuda_execute drv request st =
    (case cuda_locate drv (er_stable_key request) st of (Inl c, st1) \<Rightarrow> (Inl c, st1)
     | (Inr ordinal, st1) \<Rightarrow>
       (case cd_set_device drv ordinal (cs_runtime st1) of (selected, d) \<Rightarrow>
        if selected \<noteq> 0
        then (Inr (refused SC_BackingUnavailable (''cudaSetDevice failed: '' @ cuda_error_text drv selected)), st1\<lparr> cs_runtime := d \<rparr>)
        else map_prod Inr id (on_device drv request (st1\<lparr> cs_runtime := d \<rparr>))))"

text \<open>The adapter in a state, behind the interface of backends.\<close>

definition cuda_adapter :: "'d cuda_driver \<Rightarrow> 'd cuda_state \<Rightarrow> backend_adapter" where
  "cuda_adapter drv st =
    \<lparr> ba_name = ''cuda'', ba_provenance = PV_Real, ba_supported_backing_classes = [BC_DedicatedPhysical, BC_CooperativeShared],
      ba_discover = fst (cuda_discover drv st), ba_probe = (\<lambda>key. fst (cuda_probe drv key st)),
      ba_execute = (\<lambda>request. fst (cuda_execute drv request st)) \<rparr>"

section \<open>Handles\<close>

text \<open>What requests do to the handles, one after the other.\<close>

definition cuda_after :: "'d cuda_driver \<Rightarrow> execution_request \<Rightarrow> 'd cuda_state \<Rightarrow> 'd cuda_state" where
  "cuda_after drv request st = snd (cuda_execute drv request st)"

definition cuda_run :: "'d cuda_driver \<Rightarrow> execution_request list \<Rightarrow> 'd cuda_state \<Rightarrow> 'd cuda_state" where
  "cuda_run drv requests = fold (cuda_after drv) requests"

lemma discover_handles [simp]:
  "cs_handles (snd (cuda_discover drv st)) = cs_handles st" "cs_next_handle (snd (cuda_discover drv st)) = cs_next_handle st"
  by (simp_all add: cuda_discover_def Let_def split: prod.split)

lemma locate_handles:
  "cuda_locate drv key st = (r, st1) \<Longrightarrow> cs_handles st1 = cs_handles st \<and> cs_next_handle st1 = cs_next_handle st"
  using discover_handles [of drv st]
  by (cases "cuda_discover drv st") (auto simp: cuda_locate_def split: option.splits sum.splits)

lemmas steps = device_info_def allocate_def release_def upload_def download_def vector_add_def synchronize_def

lemma execute_cases:
  obtains (refused) "cs_handles (cuda_after drv request st) = cs_handles st" "cs_next_handle (cuda_after drv request st) = cs_next_handle st"
      "\<exists>c. result_response (fst (cuda_execute drv request st)) = Failure c"
  | (ran) st1 where "cs_handles st1 = cs_handles st" "cs_next_handle st1 = cs_next_handle st"
      "cuda_execute drv request st = map_prod Inr id (on_device drv request st1)"
proof -
  obtain r st1 where l: "cuda_locate drv (er_stable_key request) st = (r, st1)" by (meson surj_pair)
  note k = locate_handles [OF l]
  show thesis
  proof (cases r)
    case (Inl c)
    then show thesis using k l by (intro refused) (simp_all add: cuda_after_def cuda_execute_def result_response_def)
  next
    case (Inr ordinal)
    obtain selected d where s: "cd_set_device drv ordinal (cs_runtime st1) = (selected, d)" by (meson surj_pair)
    show thesis
    proof (cases "selected = 0")
      case True
      then show thesis using k l s Inr by (intro ran [of "st1\<lparr> cs_runtime := d \<rparr>"]) (simp_all add: cuda_execute_def)
    next
      case False
      then show thesis using k l s Inr
        by (intro refused) (simp_all add: cuda_after_def cuda_execute_def result_response_def refused_def)
    qed
  qed
qed

text \<open>A request leaves the handles alone, removes the one it names, or adds the next.\<close>

lemma on_device_handles:
  "cs_next_handle (snd (on_device drv request st)) = cs_next_handle st \<and>
     cs_handles (snd (on_device drv request st)) \<in> {cs_handles st, om_del (er_handle request) (cs_handles st)} \<or>
   cs_next_handle (snd (on_device drv request st)) = cs_next_handle st + 1 \<and>
     (\<exists>pointer. cs_handles (snd (on_device drv request st)) = om_put (cs_next_handle st + 1) pointer (cs_handles st))"
  by (cases "er_op request") (auto simp: on_device_def steps Let_def split: prod.split option.split list.split)

lemma after_handles:
  "cs_next_handle (cuda_after drv request st) = cs_next_handle st \<and>
     cs_handles (cuda_after drv request st) \<in> {cs_handles st, om_del (er_handle request) (cs_handles st)} \<or>
   cs_next_handle (cuda_after drv request st) = cs_next_handle st + 1 \<and>
     (\<exists>pointer. cs_handles (cuda_after drv request st) = om_put (cs_next_handle st + 1) pointer (cs_handles st))"
proof (rule execute_cases [of drv request st])
  fix st1 assume "cs_handles st1 = cs_handles st" "cs_next_handle st1 = cs_next_handle st"
    and "cuda_execute drv request st = map_prod Inr id (on_device drv request st1)"
  then show ?thesis using on_device_handles [of drv request st1] by (simp add: cuda_after_def)
qed simp

definition dead_handle :: "u64 \<Rightarrow> 'd cuda_state \<Rightarrow> bool" where
  "dead_handle h st \<longleftrightarrow> om_find (cs_handles st) h = None \<and> h \<le> cs_next_handle st"

definition handles_below :: "'d cuda_state \<Rightarrow> bool" where
  "handles_below st \<longleftrightarrow> (\<forall>h pointer. om_find (cs_handles st) h = Some pointer \<longrightarrow> h \<le> cs_next_handle st)"

lemma handle_taken: "unat (n :: u64) < 2 ^ 64 - 1 \<Longrightarrow> n < n + 1 \<and> unat (n + 1) = Suc (unat n)"
  using unat_add_lem [of n 1] by (simp add: word_less_nat_alt)

lemma after_keeps:
  assumes "unat (cs_next_handle st) < 2 ^ 64 - 1"
  shows "unat (cs_next_handle (cuda_after drv request st)) \<le> Suc (unat (cs_next_handle st)) \<and>
    (dead_handle h st \<longrightarrow> dead_handle h (cuda_after drv request st)) \<and> (handles_below st \<longrightarrow> handles_below (cuda_after drv request st))"
  using after_handles [of drv request st] handle_taken [OF assms]
  by (elim disjE conjE exE; auto simp: dead_handle_def handles_below_def
      intro: order_trans [OF _ less_imp_le] split: if_splits)

lemma run_keeps_handles:
  assumes "unat (cs_next_handle st) + length requests < 2 ^ 64"
  shows "unat (cs_next_handle (cuda_run drv requests st)) \<le> unat (cs_next_handle st) + length requests \<and>
    (dead_handle h st \<longrightarrow> dead_handle h (cuda_run drv requests st)) \<and> (handles_below st \<longrightarrow> handles_below (cuda_run drv requests st))"
  using assms
proof (induction requests arbitrary: st)
  case (Cons r rs)
  then have "unat (cs_next_handle st) < 2 ^ 64 - 1" by simp
  from after_keeps [OF this, of drv r h] Cons.prems Cons.IH [of "cuda_after drv r st"] show ?case by (auto simp: cuda_run_def)
qed (simp add: cuda_run_def)


lemma free_kills:
  assumes "er_op r = XO_Free" and "fst (cuda_execute drv r st) = Inr x" and "xr_status x = SC_Ok" and "handles_below st"
  shows "dead_handle (er_handle r) (cuda_after drv r st)"
proof (rule execute_cases [of drv r st])
  fix st1 assume "cs_handles st1 = cs_handles st" "cs_next_handle st1 = cs_next_handle st"
    and "cuda_execute drv r st = map_prod Inr id (on_device drv r st1)"
  then show ?thesis using assms
    by (auto simp: on_device_def release_def cuda_after_def dead_handle_def handles_below_def unknown_handle_def refused_def
        split: option.splits prod.splits)
qed (use assms in \<open>auto simp: result_response_def split: if_splits\<close>)

lemma dead_refused:
  assumes "dead_handle (er_handle r) st" and "er_op r \<in> {XO_Free, XO_Upload, XO_Download}"
  shows "\<exists>c. result_response (fst (cuda_execute drv r st)) = Failure c"
proof (rule execute_cases [of drv r st])
  fix st1 assume "cs_handles st1 = cs_handles st" and "cuda_execute drv r st = map_prod Inr id (on_device drv r st1)"
  then show ?thesis using assms
    by (auto simp: on_device_def release_def upload_def download_def dead_handle_def unknown_handle_def refused_def result_response_def)
qed

lemma allocated_handle:
  assumes "er_op r = XO_Allocate" and "fst (cuda_execute drv r st) = Inr y" and "xr_status y = SC_Ok"
  shows "xr_handle y = cs_next_handle st + 1"
proof (rule execute_cases [of drv r st])
  fix st1 assume "cs_next_handle st1 = cs_next_handle st" and "cuda_execute drv r st = map_prod Inr id (on_device drv r st1)"
  then show ?thesis using assms
    by (auto simp: on_device_def allocate_def refused_def Let_def split: prod.splits if_splits)
qed (use assms in \<open>auto simp: result_response_def split: if_splits\<close>)

text \<open>C26: A handle that was freed stays dead: whatever requests follow, in a run of fewer than \<open>2^64\<close> of them, another transfer through it or
  another release of it is refused, and no allocation returns it again. So a client that holds on to a handle after its release can
  never reach the memory of someone who allocated later.\<close>

theorem freed_handle_stays_dead:
  assumes "st = cuda_run drv earlier (make_cuda_backend d)" and "er_op r = XO_Free"
    and "fst (cuda_execute drv r st) = Inr x" and "xr_status x = SC_Ok" and "length earlier + length later < 2 ^ 64 - 2"
    and "st' = cuda_run drv later (cuda_after drv r st)"
  shows "(er_op r' \<in> {XO_Free, XO_Upload, XO_Download} \<and> er_handle r' = er_handle r \<longrightarrow>
      (\<exists>c. result_response (fst (cuda_execute drv r' st')) = Failure c)) \<and>
    (\<forall>y. er_op r' = XO_Allocate \<and> fst (cuda_execute drv r' st') = Inr y \<and> xr_status y = SC_Ok \<longrightarrow> xr_handle y \<noteq> er_handle r)"
proof -
  let ?h = "er_handle r"
  have s: "unat (cs_next_handle st) \<le> length earlier" "handles_below st"
    using run_keeps_handles [of "make_cuda_backend d" earlier drv] assms(1,5)
    by (simp_all add: make_cuda_backend_def handles_below_def)
  then have a: "unat (cs_next_handle (cuda_after drv r st)) \<le> Suc (length earlier)" "dead_handle ?h (cuda_after drv r st)"
    using after_keeps [of st drv r ?h] free_kills [OF assms(2-4)] assms(5) by simp_all
  then have d: "unat (cs_next_handle st') \<le> Suc (length earlier) + length later" "dead_handle ?h st'"
    using run_keeps_handles [of "cuda_after drv r st" later drv ?h] assms(5,6) by simp_all
  then have "cs_next_handle st' + 1 \<noteq> ?h"
    using handle_taken [of "cs_next_handle st'"] assms(5) by (auto simp: dead_handle_def)
  then show ?thesis using dead_refused [of r' st' drv] d(2) allocated_handle [of r' drv st'] by auto
qed

section \<open>A release gives nothing back\<close>

lemma free_answers:
  "er_op r = XO_Free \<Longrightarrow> (\<exists>c. result_response (fst (cuda_execute drv r st)) = Failure c) \<or>
    result_response (fst (cuda_execute drv r st)) = result_response (Inr blank_result)"
  by (rule execute_cases [of drv r st])
    (auto simp: on_device_def release_def unknown_handle_def refused_def call_result_def result_response_def split: option.split prod.split)

lemma cuda_inbound:
  assumes "request_fits x link device" and "xf_op x = XO_Free"
  shows "\<exists>a. handle_inbound [cuda_adapter drv st] epoch
      (outgoing MT_AgentExecute n (writer_take (agent_request x link device)) kFlagAgentDirected) = Some a \<and>
    ((\<exists>c. a = Failure c) \<or> a = result_response (Inr blank_result))"
proof -
  obtain fm where fm: "reader_create (writer_take (agent_request x link device)) default_limits = Inr fm"
      "reader_str fm kFieldStableKey = FA_Value (stable_key_for link device)"
      "\<And>execute. execute_on_backend execute fm = Some (Inr (result_response (execute (backend_request x link device))))"
    using request_read [OF assms(1)] by blast
  have "er_op (backend_request x link device) = XO_Free" by (simp add: backend_request_def assms(2))
  note free = free_answers [OF this, of drv st]
  show ?thesis
  proof (cases "by_key [cuda_adapter drv st] (stable_key_for link device)")
    case None
    then show ?thesis by (auto simp: handle_inbound_def outgoing_def fm)
  next
    case (Some a)
    then have "a = cuda_adapter drv st"
      by (auto simp: by_key_def discoveries_def dest!: map_of_SomeD split: sum.splits)
    then show ?thesis using Some free by (auto simp: handle_inbound_def outgoing_def fm settled_response_def cuda_adapter_def)
  qed
qed

lemma freed_fields:
  "\<exists>fm. reader_create (response_payload detail (result_response (Inr blank_result))) default_limits = Inr fm \<and>
    reader_u64 fm kFieldBytes = FA_Value 0 \<and> reader_str fm kFieldDetail = FA_Absent \<and> reader_bytes fm kFieldData = FA_Absent"
proof -
  obtain es where es: "result_response (Inr blank_result) = Fields es"
      "es = write_steps [writer_u64 kFieldStatus (ucast (code_value SC_Ok)), writer_u64 kFieldHandle 0, writer_u64 kFieldBytes 0]"
    by (simp add: result_response_def blank_result_def)
  note written = es(2) write_steps_def writer_u64_def field_keys
  have d: "distinct (map fst es)" "length es \<le> 1024" "list_all (\<lambda>(key, type, payload). length payload \<le> 1024 * 1024) es"
    by (simp_all add: written)
  have "reader_create (writer_take es) default_limits = Inr (sort_key fst es)" by (rule reader_create_written [OF d])
  moreover have f: "om_find (sort_key fst es) = map_of es" using sort_fields [OF d(1)] by (simp add: om_find_def fun_eq_iff)
  then have "reader_u64 (sort_key fst es) kFieldBytes = FA_Value 0" by (intro read_written) (simp add: written)
  moreover have "reader_str (sort_key fst es) kFieldDetail = FA_Absent" "reader_bytes (sort_key fst es) kFieldData = FA_Absent"
    by (simp_all add: reader_str_def reader_bytes_def typed_field_def om_find_def written)
  ultimately show ?thesis by (auto simp: es(1) response_payload_def)
qed

text \<open>C39: memory of a CUDA device that was reserved stays reserved. Whatever becomes of a release, the coordinator's runtime is left as it was: the
  agent reports a success without the size, and the coordinator gives back the size that the agent reports.\<close>

theorem cuda_free_keeps_reservation:
  assumes "execution_dispatch e e' (answer_of [cuda_adapter drv st] epoch n detail) x auth device sv = Some (r, im', sent)"
    and "xf_op x = XO_Free" and "find_agent_for sv device = Some link" and "request_fits x link device"
  shows "im' = sv_impl sv"
proof -
  obtain fm where fm: "reader_create (response_payload detail (result_response (Inr blank_result))) default_limits = Inr fm"
      "reader_u64 fm kFieldBytes = FA_Value 0" using freed_fields by blast
  show ?thesis using assms(1-3) cuda_inbound [OF assms(4,2), of drv st epoch n] fm
    unfolding execution_dispatch_def execution_outcome_def execution_accounting_def
    by (auto simp: Let_def answer_of_def give_back_def response_flags_def kFlagError_def kFlagResponse_def
        split: if_splits option.splits sum.splits prod.splits)
qed

section \<open>Transfers\<close>

text \<open>What is documented of the copies: the bytes that were copied to an address are read back from there, also after another
  \<open>cudaSetDevice\<close>.\<close>

definition copies_back :: "'d cuda_driver \<Rightarrow> bool" where
  "copies_back drv \<longleftrightarrow> (\<forall>address data d d1 ordinal s d2 host d3.
    cd_copy_to_device drv address data d = (0, d1) \<and> cd_set_device drv ordinal d1 = (s, d2) \<and>
    cd_copy_to_host drv address (length data) d2 = (0, host, d3) \<longrightarrow> host = data)"

lemma executed_device:
  assumes "fst (cuda_execute drv r st) = Inr x" and "xr_status x = SC_Ok"
  obtains ordinal st1 d where "cd_set_device drv ordinal (cs_runtime st1) = (0, d)" "cs_runtime st1 = cs_runtime st"
    "cs_handles st1 = cs_handles st" "cuda_execute drv r st = map_prod Inr id (on_device drv r (st1\<lparr> cs_runtime := d \<rparr>))"
proof -
  obtain l st1 where l: "cuda_locate drv (er_stable_key r) st = (l, st1)" by (meson surj_pair)
  have k: "cs_runtime st1 = cs_runtime st"
    using l by (auto simp: cuda_locate_def cuda_discover_def Let_def split: option.splits sum.splits prod.splits if_splits)
  from assms l obtain ordinal where o: "l = Inr ordinal" by (cases l) (auto simp: cuda_execute_def)
  obtain selected d where s: "cd_set_device drv ordinal (cs_runtime st1) = (selected, d)" by (meson surj_pair)
  with assms l o have "selected = 0" by (auto simp: cuda_execute_def refused_def split: if_splits)
  then show thesis using that [of ordinal st1 d] s k l o locate_handles [OF l] by (auto simp: cuda_execute_def)
qed

text \<open>What is uploaded through a handle is downloaded through it, at the same place and length: the requests need not agree in anything else, in
  particular not in the accelerator they are made for, and a handle is a small number that the adapter counts up.\<close>

theorem cuda_download_returns_upload:
  assumes "copies_back drv" and "er_op u = XO_Upload" and "er_op w = XO_Download" and "er_handle w = er_handle u"
    and "er_bytes w = er_bytes u" and "length (er_data w) = length (er_data u)"
    and "fst (cuda_execute drv u st) = Inr x" and "xr_status x = SC_Ok"
    and "fst (cuda_execute drv w (cuda_after drv u st)) = Inr y" and "xr_status y = SC_Ok"
  shows "xr_data y = er_data u"
proof -
  obtain o1 st1 d1 where u: "cd_set_device drv o1 (cs_runtime st1) = (0, d1)" "cs_handles st1 = cs_handles st"
      "cuda_execute drv u st = map_prod Inr id (on_device drv u (st1\<lparr> cs_runtime := d1 \<rparr>))"
    using executed_device [OF assms(7,8)] by metis
  obtain o2 st2 d2 where w: "cd_set_device drv o2 (cs_runtime st2) = (0, d2)" "cs_runtime st2 = cs_runtime (cuda_after drv u st)"
      "cs_handles st2 = cs_handles (cuda_after drv u st)"
      "cuda_execute drv w (cuda_after drv u st) = map_prod Inr id (on_device drv w (st2\<lparr> cs_runtime := d2 \<rparr>))"
    using executed_device [OF assms(9,10)] by metis
  from assms(7,8) u obtain pointer d3 where p: "om_find (cs_handles st) (er_handle u) = Some pointer"
      "cd_copy_to_device drv (pointer + er_bytes u) (er_data u) d1 = (0, d3)"
      "cs_runtime (cuda_after drv u st) = d3" "cs_handles (cuda_after drv u st) = cs_handles st"
    by (auto simp: on_device_def upload_def assms(2) unknown_handle_def refused_def call_result_def cuda_after_def
        split: option.splits prod.splits if_splits)
  from assms(9,10) w p obtain host d4 where "cd_copy_to_host drv (pointer + er_bytes u) (length (er_data u)) d2 = (0, host, d4)"
      "xr_data y = host"
    by (auto simp: on_device_def download_def assms(3-6) unknown_handle_def refused_def split: option.splits prod.splits if_splits)
  then show ?thesis using assms(1) p(2,3) w(1,2) unfolding copies_back_def by metis
qed

section \<open>The claims\<close>

lemma claimed_state:
  "state_of (fold profile_set cs p) dimension = s \<Longrightarrow>
    (\<exists>c \<in> set cs. ic_dimension c = dimension \<and> ic_state c = s) \<or> state_of p dimension = s"
proof (induction cs arbitrary: p)
  case (Cons c cs)
  then show ?case using Cons.IH [of "profile_set c p"] by (auto simp: state_of_set split: if_splits)
qed simp

lemma cuda_state_of:
  assumes "state_of (fold profile_set cuda_isolation []) dimension = IS_Isolated"
  shows "dimension = ID_TenantState"
proof -
  have "list_all (\<lambda>c. ic_state c = IS_Isolated \<longrightarrow> ic_dimension c = ID_TenantState) cuda_isolation"
    by (simp add: cuda_isolation_def make_claim_def claim_def)
  then show ?thesis using claimed_state [OF assms] by (auto simp: list_all_iff state_of_def profile_find_def)
qed

text \<open>A CUDA device is accepted and never oversold. Both backings of a device the adapter describes pass the checks of registration, and
  no accelerator whose contract or policy requires isolation in any dimension other than the state of tenants is given one of them.\<close>

theorem cuda_isolation_not_claimed:
  assumes "describe drv d ordinal = Inr (found, i)" and "b \<in> set (dd_backings found)"
    and "q \<in> set (merged_requirements (va_contract v) policy)" and "ir_minimum q = IS_Isolated" and "ir_dimension q \<noteq> ID_TenantState"
  shows "check_descriptor (dd_provenance found) b = SC_Ok \<and>
    validate_backing_for (describe_backing e (dd_provenance found) p b r) physical v policy s \<noteq> SC_Ok"
proof -
  have f: "dd_provenance found = PV_Real" "bd_isolation b = cuda_isolation" "bd_klass b \<in> {BC_DedicatedPhysical, BC_CooperativeShared}"
    using assms(1,2) by (auto simp: describe_def cuda_device_def cuda_backing_def split: prod.splits if_splits)
  have "state_of (fold profile_set cuda_isolation []) (ir_dimension q) \<noteq> IS_Isolated" using cuda_state_of assms(5) by blast
  then have "check_requirement (bk_isolation (describe_backing e PV_Real p b r)) q \<noteq> SC_Ok"
    using assms(4) by (cases "state_of (fold profile_set cuda_isolation []) (ir_dimension q)")
      (simp_all add: check_requirement_def f isolation_state_at_least_def)
  then have "validate_backing_for (describe_backing e PV_Real p b r) physical v policy s \<noteq> SC_Ok"
    using assms(3) unfolding validate_backing_for_def first_error_ok by force
  then show ?thesis using f
    by (auto simp: check_descriptor_def provenance_consistent_def class_native_provenance_def cuda_isolation_def)
qed

end
