(* ===== verification/AV_CudaScenario.thy ===== *)
theory AV_CudaScenario
  imports AV_Cuda AV_ServiceScenario
begin

text \<open>
  A CUDA runtime with one device, whose memory is the list of the copies made to it, on which the properties of the adapter are exercised.
\<close>

definition cx_properties :: device_prop where
  "cx_properties = \<lparr> dp_name = ''GPU'', dp_total_global_mem = 1024, dp_multi_processor_count = 8, dp_major = 9, dp_minor = 0,
    dp_concurrent_kernels = 1, dp_async_engine_count = 2, dp_unified_addressing = 1 \<rparr>"

definition cx_driver :: "(u64 \<times> bytes) list cuda_driver" where
  "cx_driver =
    \<lparr> cd_error_name = (\<lambda>_. None), cd_error_string = (\<lambda>_. None), cd_get_device_count = (\<lambda>_. (0, 1)),
      cd_get_device_properties = (\<lambda>_ _. (0, cx_properties)), cd_get_pci_bus_id = (\<lambda>_ _. (0, ''0'')),
      cd_driver_get_version = (\<lambda>_. (0, 12040)), cd_mem_get_info = (\<lambda>_. (0, 512, 1024)), cd_set_device = (\<lambda>_ d. (0, d)),
      cd_device_synchronize = (\<lambda>d. (0, d)), cd_malloc = (\<lambda>n d. (0, 4096, d)), cd_free = (\<lambda>_ d. (0, d)),
      cd_copy_to_device = (\<lambda>address data d. (0, (address, data) # d)),
      cd_copy_to_host = (\<lambda>address n d. case map_of d address of None \<Rightarrow> (1, [], d) | Some data \<Rightarrow> (0, take n data, d)),
      cd_launch = (\<lambda>_ _ _ _ _ _ d. (0, d)) \<rparr>"

definition cx_request :: "execution_op \<Rightarrow> bytes \<Rightarrow> execution_request" where
  "cx_request op data = blank_request\<lparr> er_op := op, er_stable_key := ''cuda:pci:0'', er_handle := 1,
    er_bytes := (if op = XO_Allocate then 16 else 4), er_data := data \<rparr>"

definition cx_allocated :: "(u64 \<times> bytes) list cuda_state" where
  "cx_allocated = cuda_after cx_driver (cx_request XO_Allocate []) (make_cuda_backend [])"

definition cx_found :: device_descriptor where
  "cx_found = cuda_device ''0'' (version_text (0, 12040)) cx_properties"

lemma cx_key: "dd_stable_key cx_found = ''cuda:pci:0''"
  by (simp add: cx_found_def cuda_device_def)

lemma cx_executes:
  "cs_devices st = [(cx_found, 0)] \<Longrightarrow> er_stable_key r = ''cuda:pci:0'' \<Longrightarrow>
    cuda_execute cx_driver r st = map_prod Inr id (on_device cx_driver r st)"
  by (simp add: cuda_execute_def cuda_locate_def ordinal_of_def cx_driver_def cx_key)

lemma cx_request [simp]: "er_op (cx_request op data) = op" "er_handle (cx_request op data) = 1" "er_data (cx_request op data) = data"
    "er_stable_key (cx_request op data) = ''cuda:pci:0''" "er_bytes (cx_request op data) = (if op = XO_Allocate then 16 else 4)"
  by (simp_all add: cx_request_def)

lemma blank_selected [simp]: "xr_status blank_result = SC_Ok" by (simp add: blank_result_def)

lemmas cx_evaluated = on_device_def cx_request_def cx_driver_def call_result_def blank_result_def om_find_def

lemma cx_one_handle:
  "cx_allocated = \<lparr> cs_devices = [(cx_found, 0)], cs_handles = [(1, 4096)], cs_next_handle = 1, cs_runtime = [] \<rparr>"
proof -
  have "cuda_discover cx_driver (make_cuda_backend []) = (Inr [cx_found], make_cuda_backend []\<lparr> cs_devices := [(cx_found, 0)] \<rparr>)"
    by (simp add: cuda_discover_def described_def describe_def cx_driver_def cx_found_def)
  then show ?thesis
    by (simp add: cx_allocated_def cuda_after_def cuda_execute_def cuda_locate_def ordinal_of_def make_cuda_backend_def cx_key om_empty_def
        allocate_def cx_evaluated)
qed

theorem freed_handle_stays_dead_witness:
  "\<exists>c. result_response (fst (cuda_execute cx_driver (cx_request XO_Download [0, 0])
    (cuda_after cx_driver (cx_request XO_Free []) cx_allocated))) = Failure c"
proof -
  have "fst (cuda_execute cx_driver (cx_request XO_Free []) cx_allocated) = Inr blank_result"
    by (subst cx_executes) (simp_all add: cx_one_handle release_def cx_evaluated)
  moreover have "cx_allocated = cuda_run cx_driver [cx_request XO_Allocate []] (make_cuda_backend [])"
    by (simp add: cx_allocated_def cuda_run_def)
  ultimately show ?thesis
    using freed_handle_stays_dead [of cx_allocated cx_driver "[cx_request XO_Allocate []]" "[]" "cx_request XO_Free []" blank_result "[]"
        "cuda_after cx_driver (cx_request XO_Free []) cx_allocated" "cx_request XO_Download [0, 0]"]
    by (simp add: cx_request_def blank_result_def cuda_run_def)
qed

lemma cx_copies_back: "copies_back cx_driver"
  by (auto simp: copies_back_def cx_driver_def)

theorem cuda_download_returns_upload_witness:
  "\<exists>y. fst (cuda_execute cx_driver (cx_request XO_Download [0, 0]) (cuda_after cx_driver (cx_request XO_Upload [7, 9]) cx_allocated)) = Inr y \<and>
    xr_data y = [7, 9]"
proof -
  have u: "cuda_execute cx_driver (cx_request XO_Upload [7, 9]) cx_allocated =
      (Inr blank_result, cx_allocated\<lparr> cs_runtime := [(4100, [7, 9])] \<rparr>)"
    by (subst cx_executes) (simp_all add: cx_one_handle upload_def cx_evaluated)
  then have w: "cuda_execute cx_driver (cx_request XO_Download [0, 0]) (cuda_after cx_driver (cx_request XO_Upload [7, 9]) cx_allocated) =
      (Inr (blank_result\<lparr> xr_data := [7, 9] \<rparr>), cx_allocated\<lparr> cs_runtime := [(4100, [7, 9])] \<rparr>)"
    by (simp add: cuda_after_def, subst cx_executes) (simp_all add: cx_one_handle download_def cx_evaluated)
  have "xr_data (blank_result\<lparr> xr_data := [7, 9] \<rparr>) = er_data (cx_request XO_Upload [7, 9])"
    by (rule cuda_download_returns_upload [OF cx_copies_back, of _ "cx_request XO_Download [0, 0]" cx_allocated blank_result])
      (simp_all add: u w)
  with w show ?thesis by auto
qed

text \<open>A contract that asks for isolated memory.\<close>

theorem cuda_isolation_not_claimed_witness:
  "validate_backing_for (describe_backing sc_env PV_Real sc_device (hd (dd_backings cx_found)) blank_backing) None
    (sc_virtual\<lparr> va_contract := (va_contract sc_virtual)\<lparr> rc_required_isolation := [\<lparr> ir_dimension = ID_Memory, ir_minimum = IS_Isolated \<rparr>] \<rparr> \<rparr>)
    (default_policy\<lparr> pol_required_isolation := [] \<rparr>) initial_state \<noteq> SC_Ok"
proof -
  have "describe cx_driver [] 0 = Inr (cx_found, 0)" by (simp add: describe_def cx_driver_def cx_found_def)
  moreover have "hd (dd_backings cx_found) \<in> set (dd_backings cx_found)" "dd_provenance cx_found = PV_Real"
    by (simp_all add: cx_found_def cuda_device_def)
  ultimately show ?thesis
    using cuda_isolation_not_claimed [of cx_driver "[]" 0 cx_found 0 "hd (dd_backings cx_found)" "\<lparr> ir_dimension = ID_Memory, ir_minimum = IS_Isolated \<rparr>"
        "sc_virtual\<lparr> va_contract := (va_contract sc_virtual)\<lparr> rc_required_isolation := [\<lparr> ir_dimension = ID_Memory, ir_minimum = IS_Isolated \<rparr>] \<rparr> \<rparr>"
        "default_policy\<lparr> pol_required_isolation := [] \<rparr>" sc_env sc_device blank_backing None initial_state]
    by (simp add: merged_requirements_def sort_uniq_def)
qed

text \<open>An agent with this adapter, behind the server.\<close>

definition cx_link :: agent_link where
  "cx_link = sx_link\<lparr> al_devices := [(Ident 2, ''cuda:pci:0'')] \<rparr>"

definition cx_server :: server where
  "cx_server = sx_server\<lparr> sv_agents := [(Ident 13, cx_link)] \<rparr>"

definition cx_execution :: execution_fields where
  "cx_execution = (sx_execution XO_Free)\<lparr> xf_handle := 1 \<rparr>"

lemma cx_agent: "find_agent_for cx_server (Ident 2) = Some cx_link" "al_alive cx_link" "stable_key_for cx_link (Ident 2) = ''cuda:pci:0''"
  by (simp_all add: find_agent_for_def cx_server_def cx_link_def sx_link_def owns_def stable_key_for_def om_values_def om_contains_def om_find_def)

lemma cx_request_fits: "request_fits cx_execution cx_link (Ident 2)"
  by (simp add: request_fits_def cx_agent cx_execution_def sx_execution_def text_fits_def)

lemma cx_dispatched: "\<exists>r im sent. execution_dispatch sc_env sc_env (answer_of [cuda_adapter cx_driver cx_allocated] gen_initial 1 [])
  cx_execution sc_auth (Ident 2) cx_server = Some (r, im, sent) \<and> response_flags r = 0"
proof -
  let ?a = "cuda_adapter cx_driver cx_allocated"
  obtain fm where fm: "reader_create (writer_take (agent_request cx_execution cx_link (Ident 2))) default_limits = Inr fm"
      "reader_str fm kFieldStableKey = FA_Value ''cuda:pci:0''"
      "\<And>execute. execute_on_backend execute fm = Some (Inr (result_response (execute (backend_request cx_execution cx_link (Ident 2)))))"
    using request_read [OF cx_request_fits] cx_agent(3) by metis
  have "cuda_discover cx_driver cx_allocated = (Inr [cx_found], cx_allocated)"
    by (simp add: cx_one_handle cuda_discover_def described_def describe_def cx_driver_def cx_found_def)
  then have "by_key [?a] ''cuda:pci:0'' = Some ?a" by (simp add: by_key_def discoveries_def cuda_adapter_def cx_key)
  moreover have "fst (cuda_execute cx_driver (backend_request cx_execution cx_link (Ident 2)) cx_allocated) = Inr blank_result"
    by (subst cx_executes) (simp_all add: cx_one_handle backend_request_def cx_agent cx_execution_def sx_execution_def release_def cx_evaluated)
  ultimately have a: "answer_of [?a] gen_initial 1 [] (agent_request cx_execution cx_link (Ident 2)) =
      (response_flags (result_response (Inr blank_result)) OR kFlagResponse, response_payload [] (result_response (Inr blank_result)))"
    by (simp add: answer_of_def handle_inbound_def outgoing_def fm settled_response_def cuda_adapter_def)
  have f: "response_flags (result_response (Inr blank_result)) = 0" by (simp add: response_flags_def result_response_def)
  note a = a [unfolded f]
  obtain got where got: "reader_create (response_payload [] (result_response (Inr blank_result))) default_limits = Inr got"
      "reader_u64 got kFieldBytes = FA_Value 0" "reader_str got kFieldDetail = FA_Absent" "reader_bytes got kFieldData = FA_Absent"
    using freed_fields by metis
  have "xf_op cx_execution = XO_Free" by (simp add: cx_execution_def sx_execution_def)
  then show ?thesis
    by (simp add: execution_dispatch_def cx_agent execution_outcome_def a got kFlagResponse_def kFlagError_def execution_accounting_def
        execution_response_def ok_epoch_def response_flags_def)
qed

theorem cuda_free_keeps_reservation_witness:
  "\<exists>r sent. execution_dispatch sc_env sc_env (answer_of [cuda_adapter cx_driver cx_allocated] gen_initial 1 [])
    cx_execution sc_auth (Ident 2) cx_server = Some (r, sv_impl cx_server, sent) \<and> response_flags r = 0"
proof -
  obtain r im sent where x: "execution_dispatch sc_env sc_env (answer_of [cuda_adapter cx_driver cx_allocated] gen_initial 1 [])
      cx_execution sc_auth (Ident 2) cx_server = Some (r, im, sent)" "response_flags r = 0"
    using cx_dispatched by blast
  have "im = sv_impl cx_server"
    by (rule cuda_free_keeps_reservation [OF x(1) _ cx_agent(1) cx_request_fits]) (simp add: cx_execution_def sx_execution_def)
  with x show ?thesis by blast
qed

end
