(* ===== verification/AV_AgentLink.thy ===== *)
theory AV_AgentLink
  imports AV_Prelude AV_Status
begin

text \<open>
  The coordinator's end of an agent connection, \<open>AgentLink\<close> of \<open>apps/coordinator_main.cpp\<close>, as the threads that use it see
  it: any number of threads in \<open>request\<close>, the one that serves the connection (\<open>serve_agent\<close>, which calls \<open>deliver\<close> and
  \<open>fail_all\<close>), and the one that stops the server (\<open>begin_stop\<close>).

  A step is one atomic access: an atomic variable, a section under the link's mutex, or one use of the channel. What is sent
  over the channel is left out; a send and a receive may fail at any time, and do when the channel is closed. A promise is
  set in the same step as its entry leaves \<open>pending_\<close>: the entry is what gives a thread the right to set it.

  Answers are matched by request number: a thread only gets what was delivered under its number, or the failure of the
  connection, and no promise is set twice. Unless the server is stopping, no thread waits for a connection that has ended. When
  it is stopping one may wait for ever.
\<close>

section \<open>State\<close>

text \<open>What a promise is given: the response in a frame, or the failure of the connection.\<close>

datatype 'r outcome = Delivered 'r | Lost

text \<open>Where a thread is in \<open>request\<close>; \<open>i\<close> is the number it took.\<close>

datatype 'r caller = Idle | Checked | Numbered u64 | Enlisted u64 | Unsent u64 | Erased u64 | Sent u64 | Returned "u64 option" "'r outcome"

text \<open>Where the serving thread is: in its loop, out of it, past the first line of \<open>fail_all\<close>, or done.\<close>

datatype reader = Serving | Leaving | Closing | Ended

record 'r link =
  lk_alive :: bool
  lk_open :: bool
  lk_stopping :: bool
  lk_next_request :: u64
  lk_pending :: "u64 \<rightharpoonup> nat"
  lk_promise :: "u64 \<rightharpoonup> 'r outcome"
  lk_callers :: "nat \<Rightarrow> 'r caller"
  lk_reader :: reader
  lk_received :: "(u64 \<times> 'r) set"

definition new_link :: "'r link" where
  "new_link = \<lparr> lk_alive = True, lk_open = True, lk_stopping = False, lk_next_request = 1, lk_pending = Map.empty,
    lk_promise = Map.empty, lk_callers = (\<lambda>_. Idle), lk_reader = Serving, lk_received = {} \<rparr>"

text \<open>The number a thread holds while it is in \<open>request\<close>.\<close>

fun outstanding :: "'r caller \<Rightarrow> u64 option" where
  "outstanding (Numbered i) = Some i"
| "outstanding (Enlisted i) = Some i"
| "outstanding (Unsent i) = Some i"
| "outstanding (Erased i) = Some i"
| "outstanding (Sent i) = Some i"
| "outstanding _ = None"

definition at :: "nat \<Rightarrow> 'r caller \<Rightarrow> 'r link \<Rightarrow> 'r link" where
  "at t c s = s\<lparr> lk_callers := (lk_callers s)(t := c) \<rparr>"

definition settle_promises :: "u64 set \<Rightarrow> 'r outcome \<Rightarrow> 'r link \<Rightarrow> 'r link" where
  "settle_promises is r s = s\<lparr> lk_pending := lk_pending s |` (- is),
    lk_promise := (\<lambda>i. if i \<in> is \<and> lk_pending s i \<noteq> None then Some r else lk_promise s i) \<rparr>"

section \<open>Steps\<close>

subsection \<open>\<open>request\<close>\<close>

definition check_alive :: "nat \<Rightarrow> 'r link \<Rightarrow> 'r link" where
  "check_alive t s = at t (if lk_alive s then Checked else Returned None Lost) s"

text \<open>A number in use by another thread is not taken again: it is not before the 64-bit counter has wrapped.\<close>

definition fresh_number :: "'r link \<Rightarrow> bool" where
  "fresh_number s \<longleftrightarrow> (\<forall>t. outstanding (lk_callers s t) \<noteq> Some (lk_next_request s))"

definition take_number :: "nat \<Rightarrow> 'r link \<Rightarrow> 'r link" where
  "take_number t s = (at t (Numbered (lk_next_request s)) s)
    \<lparr> lk_next_request := lk_next_request s + 1, lk_promise := (lk_promise s)(lk_next_request s := None) \<rparr>"

definition enlist :: "nat \<Rightarrow> u64 \<Rightarrow> 'r link \<Rightarrow> 'r link" where
  "enlist t i s = (at t (Enlisted i) s)\<lparr> lk_pending := (lk_pending s)(i \<mapsto> t) \<rparr>"

text \<open>\<open>channel_.send\<close>: \<open>works\<close> is what the socket does with it.\<close>

definition send_request :: "bool \<Rightarrow> nat \<Rightarrow> u64 \<Rightarrow> 'r link \<Rightarrow> 'r link" where
  "send_request works t i s = (if lk_open s \<and> works then at t (Sent i) s else (at t (Unsent i) s)\<lparr> lk_open := False \<rparr>)"

definition withdraw :: "nat \<Rightarrow> u64 \<Rightarrow> 'r link \<Rightarrow> 'r link" where
  "withdraw t i s = (at t (Erased i) s)\<lparr> lk_pending := (lk_pending s)(i := None) \<rparr>"

definition give_up :: "nat \<Rightarrow> u64 \<Rightarrow> 'r link \<Rightarrow> 'r link" where
  "give_up t i s = (at t (Returned (Some i) Lost) s)\<lparr> lk_alive := False \<rparr>"

subsection \<open>\<open>serve_agent\<close>\<close>

definition deliver :: "u64 \<Rightarrow> 'r \<Rightarrow> 'r link \<Rightarrow> 'r link" where
  "deliver i r s = (settle_promises {i} (Delivered r) s)\<lparr> lk_received := insert (i, r) (lk_received s) \<rparr>"

text \<open>The loop ends when the channel fails, or when its condition does.\<close>

definition channel_fails :: "'r link \<Rightarrow> 'r link" where
  "channel_fails s = s\<lparr> lk_open := False, lk_reader := Leaving \<rparr>"

definition leave_loop :: "'r link \<Rightarrow> 'r link" where
  "leave_loop s = s\<lparr> lk_reader := Leaving \<rparr>"

definition mark_dead :: "'r link \<Rightarrow> 'r link" where
  "mark_dead s = s\<lparr> lk_alive := False, lk_reader := Closing \<rparr>"

definition fail_pending :: "'r link \<Rightarrow> 'r link" where
  "fail_pending s = (settle_promises (dom (lk_pending s)) Lost s)\<lparr> lk_reader := Ended \<rparr>"

subsection \<open>All threads\<close>

inductive link_step :: "'r link \<Rightarrow> 'r link \<Rightarrow> bool" where
  check: "lk_callers s t = Idle \<Longrightarrow> link_step s (check_alive t s)"
| number: "lk_callers s t = Checked \<Longrightarrow> fresh_number s \<Longrightarrow> link_step s (take_number t s)"
| enlist: "lk_callers s t = Numbered i \<Longrightarrow> link_step s (enlist t i s)"
| send: "lk_callers s t = Enlisted i \<Longrightarrow> link_step s (send_request works t i s)"
| withdraw: "lk_callers s t = Unsent i \<Longrightarrow> link_step s (withdraw t i s)"
| give_up: "lk_callers s t = Erased i \<Longrightarrow> link_step s (give_up t i s)"
| answered: "lk_callers s t = Sent i \<Longrightarrow> lk_promise s i = Some r \<Longrightarrow> link_step s (at t (Returned (Some i) r) s)"
| again: "lk_callers s t = Returned n r \<Longrightarrow> link_step s (at t Idle s)"
| receive: "lk_reader s = Serving \<Longrightarrow> link_step s (deliver i r s)"
| fails: "lk_reader s = Serving \<Longrightarrow> link_step s (channel_fails s)"
| leave: "lk_reader s = Serving \<Longrightarrow> lk_stopping s \<or> \<not> lk_alive s \<Longrightarrow> link_step s (leave_loop s)"
| dead: "lk_reader s = Leaving \<Longrightarrow> link_step s (mark_dead s)"
| fail_all: "lk_reader s = Closing \<Longrightarrow> link_step s (fail_pending s)"
| stop: "link_step s (s\<lparr> lk_stopping := True \<rparr>)"
| interrupt: "lk_stopping s \<Longrightarrow> link_step s (s\<lparr> lk_open := False \<rparr>)"

inductive_cases link_stepE: "link_step s s'"

abbreviation link_run :: "'r link \<Rightarrow> 'r link \<Rightarrow> bool" where
  "link_run \<equiv> link_step\<^sup>*\<^sup>*"

lemmas link_step_defs = check_alive_def take_number_def enlist_def send_request_def withdraw_def give_up_def deliver_def
  channel_fails_def leave_loop_def mark_dead_def fail_pending_def settle_promises_def at_def

section \<open>Invariants\<close>

text \<open>Numbers belong to one thread each; what is pending belongs to a thread that has entered it and has no result yet.\<close>

definition numbers_distinct :: "'r link \<Rightarrow> bool" where
  "numbers_distinct s \<longleftrightarrow> (\<forall>t t' i. outstanding (lk_callers s t) = Some i \<longrightarrow> outstanding (lk_callers s t') = Some i \<longrightarrow> t = t')"

fun entered :: "'r caller \<Rightarrow> u64 option" where
  "entered (Enlisted i) = Some i"
| "entered (Unsent i) = Some i"
| "entered (Sent i) = Some i"
| "entered _ = None"

definition pending_owned :: "'r link \<Rightarrow> bool" where
  "pending_owned s \<longleftrightarrow> (\<forall>i t. lk_pending s i = Some t \<longrightarrow> entered (lk_callers s t) = Some i)"

definition pending_unset :: "'r link \<Rightarrow> bool" where
  "pending_unset s \<longleftrightarrow> (\<forall>i. lk_pending s i \<noteq> None \<longrightarrow> lk_promise s i = None) \<and>
    (\<forall>t i. lk_callers s t = Numbered i \<longrightarrow> lk_promise s i = None)"

definition waiting_entered :: "'r link \<Rightarrow> bool" where
  "waiting_entered s \<longleftrightarrow> (\<forall>t i. lk_callers s t = Sent i \<or> lk_callers s t = Enlisted i \<longrightarrow>
    lk_pending s i \<noteq> None \<or> lk_promise s i \<noteq> None)"

definition results_received :: "'r link \<Rightarrow> bool" where
  "results_received s \<longleftrightarrow> (\<forall>i r. lk_promise s i = Some (Delivered r) \<longrightarrow> (i, r) \<in> lk_received s) \<and>
    (\<forall>t i r. lk_callers s t = Returned (Some i) (Delivered r) \<longrightarrow> (i, r) \<in> lk_received s) \<and>
    (\<forall>t r. lk_callers s t \<noteq> Returned None (Delivered r))"

text \<open>Unless the server stops, the channel is closed before the link is given up.\<close>

definition closed_when_given_up :: "'r link \<Rightarrow> bool" where
  "closed_when_given_up s \<longleftrightarrow>
    (\<forall>t i. lk_callers s t = Unsent i \<or> lk_callers s t = Erased i \<longrightarrow> \<not> lk_open s) \<and>
    (\<not> lk_stopping s \<longrightarrow> (lk_reader s \<noteq> Serving \<or> \<not> lk_alive s \<longrightarrow> \<not> lk_open s) \<and>
      (lk_reader s = Ended \<longrightarrow> (\<forall>t i. lk_callers s t = Sent i \<longrightarrow> lk_pending s i = None)))"

lemma numbers_step: "link_step s s' \<Longrightarrow> numbers_distinct s \<Longrightarrow> numbers_distinct s'"
  by (erule link_stepE) (auto simp: numbers_distinct_def link_step_defs fresh_number_def split: if_splits)

lemma entered_outstanding: "entered c = Some i \<Longrightarrow> outstanding c = Some i"
  by (cases c) auto

lemma owned_step:
  assumes "link_step s s'" and "pending_unset s" and "pending_owned s"
  shows "pending_owned s'"
  using assms(1)
proof (cases rule: link_step.cases)
  case (answered t i r)
  then have "lk_pending s i = None" using assms(2) by (auto simp: pending_unset_def)
  then show ?thesis using answered assms(3) by (force simp: pending_owned_def at_def)
qed (use assms(3) in \<open>force simp: pending_owned_def link_step_defs restrict_map_def split: if_splits\<close>)+

lemma owner_not_numbered: "numbers_distinct s \<Longrightarrow> pending_owned s \<Longrightarrow> lk_pending s i \<noteq> None \<Longrightarrow> lk_callers s t \<noteq> Numbered i"
  unfolding numbers_distinct_def pending_owned_def
  by (metis entered.simps(6) entered_outstanding option.distinct(1) option.exhaust outstanding.simps(1))

lemma unset_step:
  assumes "link_step s s'" and "numbers_distinct s" and "pending_owned s" and "pending_unset s"
  shows "pending_unset s'"
  using assms(1)
proof (cases rule: link_step.cases)
  case (receive i r)
  then show ?thesis using assms(4) owner_not_numbered [OF assms(2,3)]
    by (auto simp: pending_unset_def link_step_defs restrict_map_def split: if_splits)
next
  case fail_all
  then show ?thesis using assms(4) owner_not_numbered [OF assms(2,3)]
    by (auto simp: pending_unset_def link_step_defs restrict_map_def dom_def split: if_splits)
qed (use assms(4) in \<open>auto simp: pending_unset_def link_step_defs split: if_splits\<close>)

lemma waiting_upd:
  assumes "waiting_entered s" and "\<And>t i. lk_callers s' t = Sent i \<or> lk_callers s' t = Enlisted i \<Longrightarrow>
      (lk_callers s t = Sent i \<or> lk_callers s t = Enlisted i) \<and> (lk_pending s i \<noteq> None \<or> lk_promise s i \<noteq> None \<longrightarrow>
        lk_pending s' i \<noteq> None \<or> lk_promise s' i \<noteq> None)"
  shows "waiting_entered s'"
  using assms unfolding waiting_entered_def by meson

lemma waiting_step:
  assumes "link_step s s'" and "numbers_distinct s" and "waiting_entered s"
  shows "waiting_entered s'"
  using assms(1)
proof (cases rule: link_step.cases)
  case (number t)
  then have "lk_callers s t' \<noteq> Sent (lk_next_request s) \<and> lk_callers s t' \<noteq> Enlisted (lk_next_request s)" for t'
    by (auto simp: fresh_number_def) (metis outstanding.simps)+
  then show ?thesis using number by (intro waiting_upd [OF assms(3)]) (auto simp: link_step_defs split: if_splits)
next
  case (withdraw t i)
  then have "t' \<noteq> t \<Longrightarrow> outstanding (lk_callers s t') \<noteq> Some i" for t'
    using assms(2) unfolding numbers_distinct_def by (metis outstanding.simps(3))
  then have "t' \<noteq> t \<Longrightarrow> lk_callers s t' \<noteq> Sent i \<and> lk_callers s t' \<noteq> Enlisted i" for t' by (metis outstanding.simps(2,5))
  then show ?thesis using withdraw by (intro waiting_upd [OF assms(3)]) (auto simp: link_step_defs split: if_splits)
next
  case (enlist t i)
  then show ?thesis using assms(3) by (auto simp: waiting_entered_def link_step_defs)
qed (rule waiting_upd [OF assms(3)], force simp: link_step_defs restrict_map_def dom_def split: if_splits)+

lemma received_step: "link_step s s' \<Longrightarrow> results_received s \<Longrightarrow> results_received s'"
  by (erule link_stepE) (auto simp: results_received_def link_step_defs split: if_splits)

lemma closed_step:
  assumes "link_step s s'" and "numbers_distinct s" and "closed_when_given_up s"
  shows "closed_when_given_up s'"
  using assms(1)
proof (cases rule: link_step.cases)
  case (enlist t i)
  then have "t' \<noteq> t \<Longrightarrow> outstanding (lk_callers s t') \<noteq> Some i" for t'
    using assms(2) unfolding numbers_distinct_def by (metis outstanding.simps(1))
  then have "t' \<noteq> t \<Longrightarrow> lk_callers s t' \<noteq> Sent i" for t' by (metis outstanding.simps(5))
  then show ?thesis using enlist assms(3) by (auto simp: closed_when_given_up_def link_step_defs)
qed (use assms(3) in \<open>auto simp: closed_when_given_up_def link_step_defs restrict_map_def split: if_splits\<close>)

section \<open>Runs\<close>

text \<open>What a step keeps, a run keeps.\<close>

locale kept_by_steps =
  fixes step :: "'s \<Rightarrow> 's \<Rightarrow> bool" and kept :: "'s \<Rightarrow> bool"
  assumes step_keeps: "step s s' \<Longrightarrow> kept s \<Longrightarrow> kept s'"
begin

lemma run_keeps: "step\<^sup>*\<^sup>* s s' \<Longrightarrow> kept s \<Longrightarrow> kept s'"
  by (induction rule: rtranclp_induct) (auto intro: step_keeps)

end

definition link_ok :: "'r link \<Rightarrow> bool" where
  "link_ok s \<longleftrightarrow> numbers_distinct s \<and> pending_owned s \<and> pending_unset s \<and> waiting_entered s \<and> results_received s \<and> closed_when_given_up s"

interpretation link: kept_by_steps link_step link_ok
  by unfold_locales
    (auto simp: link_ok_def intro: numbers_step owned_step unset_step waiting_step received_step closed_step)

lemma new_link_ok: "link_ok new_link"
  by (simp add: link_ok_def new_link_def numbers_distinct_def pending_owned_def pending_unset_def waiting_entered_def
      results_received_def closed_when_given_up_def)

text \<open>A thread that waits on an ended link for a promise that is not set.\<close>

definition abandoned :: "nat \<Rightarrow> u64 \<Rightarrow> 'r link \<Rightarrow> bool" where
  "abandoned t i s \<longleftrightarrow> lk_callers s t = Sent i \<and> lk_promise s i = None \<and> lk_reader s = Ended"

interpretation abandoned: kept_by_steps link_step "abandoned t i"
  by unfold_locales (erule link_stepE, auto simp: abandoned_def link_step_defs)


text \<open>C20: unless the server is stopping, nobody waits for a connection that has ended: a thread that has sent its request over a link
  whose serving thread is done can take its result and return.\<close>

theorem no_caller_left_waiting:
  assumes "link_run new_link s" and "\<not> lk_stopping s" and "lk_reader s = Ended" and "lk_callers s t = Sent i"
  shows "\<exists>r. link_step s (at t (Returned (Some i) r) s)"
proof -
  have "link_ok s" by (rule link.run_keeps [OF assms(1) new_link_ok])
  then obtain r where "lk_promise s i = Some r"
    using assms(2-4) unfolding link_ok_def waiting_entered_def closed_when_given_up_def by blast
  then show ?thesis using link_step.answered [OF assms(4)] by blast
qed

section \<open>A stopping server\<close>

text \<open>The interleaving: a thread finds the link alive; the server stops, and the serving thread leaves its loop and fails what is
  pending; then the first thread enters its promise and sends, over a channel that is still open.\<close>

definition racing :: "unit link" where
  "racing = send_request True 0 1 (enlist 0 1 (take_number 0 (fail_pending (mark_dead (leave_loop
    (check_alive 0 new_link\<lparr> lk_stopping := True \<rparr>))))))"

lemmas link_evaluated = new_link_def link_step_defs fresh_number_def

lemma sent_run:
  assumes "link_run new_link s" and "lk_callers s 0 = Checked" and "\<forall>t. t \<noteq> 0 \<longrightarrow> lk_callers s t = Idle"
    and "lk_next_request s = 1"
  shows "link_run new_link (send_request works 0 1 (enlist 0 1 (take_number 0 s)))"
proof -
  have "outstanding (lk_callers s t) = None" for t using assms(2,3) by (cases "t = 0") auto
  then have "link_step s (take_number 0 s)" using assms(2) by (intro link_step.number) (simp_all add: fresh_number_def)
  moreover have "link_step (take_number 0 s) (enlist 0 1 (take_number 0 s))"
    by (rule link_step.enlist) (simp add: link_step_defs assms(4))
  moreover have "link_step (enlist 0 1 (take_number 0 s)) (send_request works 0 1 (enlist 0 1 (take_number 0 s)))"
    by (rule link_step.send) (simp add: link_step_defs)
  ultimately show ?thesis using assms(1) by (meson rtranclp.rtrancl_into_rtrancl)
qed

lemma checked_run: "link_run new_link (check_alive 0 new_link)"
  by (rule r_into_rtranclp, rule link_step.check) (simp add: new_link_def)

lemma racing_run: "link_run new_link racing"
proof -
  let ?s1 = "check_alive 0 (new_link :: unit link)"
  let ?s2 = "?s1\<lparr> lk_stopping := True \<rparr>"
  have "link_step ?s1 ?s2" by (rule link_step.stop)
  moreover have "link_step ?s2 (leave_loop ?s2)" by (rule link_step.leave) (simp_all add: link_evaluated)
  moreover have "link_step (leave_loop ?s2) (mark_dead (leave_loop ?s2))" by (rule link_step.dead) (simp add: link_evaluated)
  moreover have "link_step (mark_dead (leave_loop ?s2)) (fail_pending (mark_dead (leave_loop ?s2)))"
    by (rule link_step.fail_all) (simp add: link_evaluated)
  ultimately have "link_run new_link (fail_pending (mark_dead (leave_loop ?s2)))"
    using checked_run by (meson rtranclp.rtrancl_into_rtrancl)
  then show ?thesis unfolding racing_def by (rule sent_run) (simp_all add: link_evaluated)
qed

lemma racing_abandoned: "abandoned 0 1 racing"
  by (simp add: abandoned_def racing_def link_evaluated)


section \<open>Two runs\<close>

text \<open>A request that is answered, and one whose connection fails.\<close>

definition asked :: "unit link" where
  "asked = send_request True 0 1 (enlist 0 1 (take_number 0 (check_alive 0 new_link)))"

lemma asked_run: "link_run new_link asked"
  unfolding asked_def by (rule sent_run [OF checked_run]) (simp_all add: link_evaluated)

lemma asked_state: "lk_reader asked = Serving" "lk_callers asked 0 = Sent 1" "\<not> lk_stopping asked"
  by (simp_all add: asked_def link_evaluated)

definition served :: "unit link" where
  "served = at 0 (Returned (Some 1) (Delivered ())) (deliver 1 () asked)"

lemma served_run: "link_run new_link served"
proof -
  have "link_step asked (deliver 1 () asked)" by (rule link_step.receive) (rule asked_state)
  moreover have "link_step (deliver 1 () asked) served"
    unfolding served_def by (rule link_step.answered) (simp_all add: asked_def link_evaluated)
  ultimately show ?thesis using asked_run by (meson rtranclp.rtrancl_into_rtrancl)
qed

definition failed :: "unit link" where
  "failed = fail_pending (mark_dead (channel_fails asked))"

lemma failed_run: "link_run new_link failed"
proof -
  have "link_step asked (channel_fails asked)" by (rule link_step.fails) (rule asked_state)
  moreover have "link_step (channel_fails asked) (mark_dead (channel_fails asked))"
    by (rule link_step.dead) (simp add: channel_fails_def)
  moreover have "link_step (mark_dead (channel_fails asked)) failed"
    unfolding failed_def by (rule link_step.fail_all) (simp add: mark_dead_def)
  ultimately show ?thesis using asked_run by (meson rtranclp.rtrancl_into_rtrancl)
qed


theorem no_caller_left_waiting_witness: "lk_callers failed 0 = Sent 1 \<and> (\<exists>r. link_step failed (at 0 (Returned (Some 1) r) failed))"
proof -
  have "lk_callers failed 0 = Sent 1" "lk_reader failed = Ended" "\<not> lk_stopping failed"
    by (simp_all add: failed_def asked_def link_evaluated)
  then show ?thesis using no_caller_left_waiting [OF failed_run] by simp
qed

end
