(* ===== verification/Spec2Isabelle.thy ===== *)
theory Spec2Isabelle
  imports AV_StoreScenario AV_ServiceScenario AV_CudaScenario AV_AgentLink
begin

text \<open>
  The accelerator virtualization runtime: a verification library.

  \<^bold>\<open>The program.\<close> A coordinator gives tenants virtual accelerators and binds them to backings on physical
  devices. Authority is explicit: every request carries an epoch, generations and a lease, and every change of
  binding, owner, policy or process advances a generation so that older authority is refused. The runtime keeps one
  state, changes it in transactions with an undo log and a change set, and hands every committed change set to a
  durable store (journal and snapshot files). Clients and agents reach it through a framed protocol of field maps: the
  coordinator turns a client's request into a call of the runtime, and passes work for a device on to the agent that
  registered it, which runs it on one of its backends.

  \<^bold>\<open>Theories, from the bottom up\<close> (paths are relative to the repository).

  \<^item> \<open>AV_Prelude\<close>: ordered maps (\<open>std::map\<close> as a key-sorted association list with \<open>om_find\<close>, \<open>om_put\<close>, \<open>om_del\<close>), name
    tables, \<open>sort\<close> and \<open>unique\<close>, and the lemma that restoring the before-images of the touched keys gives the old
    map back.
  \<^item> \<open>AV_Status\<close>, \<open>AV_Ids\<close>, \<open>AV_Hash\<close>, \<open>AV_Codec\<close>, \<open>AV_Buffer\<close> (\<open>status.cpp\<close>, \<open>ids.hpp\<close>, \<open>hash.hpp\<close>, \<open>codec.cpp\<close>): status
    codes and results, identities and generations at 64 bits, CRC-32C and FNV-1a, the byte encoder and the bounded
    decoder. Identities print and parse back; a CRC separates messages that differ in one byte; lists of strings
    decode to themselves.
  \<^item> \<open>AV_Taxonomy\<close>, \<open>AV_Lifecycle\<close>, \<open>AV_Migration\<close>, \<open>AV_Capability\<close>, \<open>AV_Isolation\<close>, \<open>AV_Contract\<close>, \<open>AV_Policy\<close> (the files of
    the same names): the vocabulary, the two bit-mask transition tables, surfaces, profiles, contracts, policies. The
    tables equal explicit edge lists; migration steps are well founded and cross the cutover once; validation accepts
    exactly the stated conditions.
  \<^item> \<open>AV_Model\<close> (\<open>model.hpp\<close>, \<open>backing.hpp\<close>, \<open>evidence.hpp\<close>, \<open>accounting.hpp\<close>, \<open>audit.hpp\<close>): the records of the state
    \<open>vstate\<close>, and \<open>validate_state\<close>.
  \<^item> \<open>AV_Engine\<close>, \<open>AV_Transaction\<close> (\<open>runtime.cpp\<close>, \<open>struct Impl\<close>): the state of the runtime \<open>impl\<close>, \<open>begin_op\<close>, the
    \<open>touch\<close> functions, \<open>commit\<close>, \<open>rollback\<close>, \<open>finalize\<close>. \<open>txn\<close> is the contract of an open transaction: the undo log covers
    every difference to the state it was opened on and the change set notes it; \<open>op_sound\<close> is what follows for a
    finished operation.
  \<^item> \<open>AV_Authority\<close>, \<open>AV_Projection\<close>, \<open>AV_Tenancy\<close>, \<open>AV_Virtual\<close>, \<open>AV_Backing\<close>, \<open>AV_Leases\<close>, \<open>AV_PolicyChange\<close>, \<open>AV_Devices\<close>,
    \<open>AV_Cutover\<close>, \<open>AV_Execution\<close>, \<open>AV_Recovery\<close>, \<open>AV_Views\<close> (\<open>runtime.cpp\<close>): one definition per public method, split into
    the guard chain, the effect and the commit as the code has them, with one soundness lemma each and the functional
    properties of the important ones.
  \<^item> \<open>AV_Audit\<close>, \<open>AV_Consistency\<close> (\<open>invariant.cpp\<close>): the runtime's own audit, loop by loop; it reports nothing exactly on the
    states that satisfy a declarative condition, and what it finds after a restart.
  \<^item> \<open>AV_System\<close>, \<open>AV_Safety\<close>, \<open>AV_Scope\<close>: the runtime as a state machine. \<open>operation\<close> has one constructor per
    state-changing method, \<open>perform\<close> dispatches, \<open>reachable_from\<close> is its runs; the locale \<open>safe_steps\<close> lifts what every
    step keeps to runs. Every run keeps the state well formed and moves accelerators along legal edges; refused
    operations change no entity; success needs current authority; an owner's operation changes one accelerator.
  \<^item> \<open>AV_Fields\<close>, \<open>AV_RecordCodec\<close>, \<open>AV_StateCodec\<close> (\<open>record_codec.cpp\<close>, \<open>state_codec.cpp\<close>): one encoder and decoder per record.
    The locale \<open>codec\<close> is the contract of such a pair (encoding then decoding returns the value and stops after it) and
    is interpreted for each; together they give the round trip of a snapshot.
  \<^item> \<open>AV_Journal\<close>, \<open>AV_Store\<close> (\<open>persistence.cpp\<close>): records and their framing, replay, torn tails, snapshots, the file
    store over a disk of two files, the in-memory store. The locale \<open>durable_contract\<close> is what a store promises; both
    stores interpret it. Files are read back, a cut-off write leaves a prefix, an interrupted compaction loses nothing,
    a damaged snapshot is refused.
  \<^item> \<open>AV_Durability\<close>: the runtime on the file store. What was acknowledged is what a restart loads.
  \<^item> \<open>AV_Protocol\<close>, \<open>AV_Messages\<close> (\<open>protocol.cpp\<close>, \<open>protocol.hpp\<close>): message table, frames, the streaming decoder, field
    maps, the numbers of messages and fields. However bytes are cut, the decoder delivers the frames that were sent.
  \<^item> \<open>AV_Wire\<close>, \<open>AV_Descriptor\<close> (\<open>runtime.cpp\<close>, inspection codecs; \<open>apps/proto_util.hpp\<close>): the blobs in responses and
    registrations. Each interprets the locale \<open>codec\<close>; a device descriptor decodes to itself.
  \<^item> \<open>AV_Coordinator\<close>, \<open>AV_Service\<close> (\<open>apps/coordinator_main.cpp\<close>): one definition per request, the execution of device work
    with its reservation, the handshake, and the server as a step relation on its state. A request is at most one
    operation of the runtime under the session of its connection, or a reservation with what settles it; the runs of the
    server are runs of the runtime, so that what is shown of those holds of the served system.
  \<^item> \<open>AV_AgentLink\<close> (class \<open>AgentLink\<close>, \<open>serve_agent\<close>, \<open>begin_stop\<close>): a link that many threads use, as a step relation with one
    step per access to shared state. Under every interleaving an answer goes to the thread that asked for it; unless the
    server stops nobody waits on an ended connection, and while it stops somebody may.
  \<^item> \<open>AV_Channel\<close>, \<open>AV_Client\<close>, \<open>AV_Exchange\<close> (\<open>socket.cpp\<close> \<open>FrameChannel\<close>, \<open>client.cpp\<close>): the frame channel over the answers of
    a socket, the client's calls and handshake, and both ends together: a queried view arrives as it was made.
  \<^item> \<open>AV_Agent\<close>, \<open>AV_Synthetic\<close> (\<open>apps/agent_main.cpp\<close>, \<open>backend.hpp\<close>, \<open>synthetic.cpp\<close>): the agent over the backend
    interface, a record of functions, and the synthetic backends. The agent runs what it is asked to; synthetic devices
    are accepted, are never taken for real ones and run nothing.
  \<^item> \<open>AV_Cuda\<close> (\<open>cuda/cuda_adapter.cpp\<close>, \<open>cuda/vector_add.cu\<close>): the adapter for CUDA devices, over a record of the calls into the
    driver. A freed handle stays dead, data comes back as it was sent, isolation the device does not give is not claimed; what
    is freed is not given back to the budget.
  \<^item> \<open>AV_Text\<close> (\<open>accounting.cpp\<close>, \<open>render_snapshot\<close>, the \<open>canonical\<close> methods): the canonical texts and the fingerprints over them. The
    texts of counters and of contracts determine the numbers they show.
  \<^item> \<open>AV_Cli\<close> (\<open>apps/cli_main.cpp\<close>): the words of the command line tool, the request of every command as a tree of questions
    and what follows from the answers. The coordinator reads the authority the operator wrote; the verdict of \<open>cuda proof\<close>
    does not depend on the device.
  \<^item> \<open>AV_Scenario\<close>, \<open>AV_StoreScenario\<close>, \<open>AV_ServiceScenario\<close>, \<open>AV_CudaScenario\<close>: concrete installations, files, frames,
    exchanges and a driver at which the properties are applied.

  \<^bold>\<open>Conventions.\<close> A C++ struct is a record with the fields in source order, an enumeration a datatype with the source's
  enumerators and a function for their numbers. \<open>Status\<close> is its code; \<open>Result<T>\<close> is a sum with the code on the left. Texts
  that only describe an error or a log entry are left out of the runtime's state; where the stored form needs them they
  are a parameter (\<open>log_texts\<close>). Time is the argument \<open>env_now\<close>; one operation reads it once. 64-bit and 32-bit counters
  are words and wrap. The store the runtime sees is the interface of \<open>DurableStore\<close>, a record of answers in \<open>env\<close>, so
  that every answer of it is covered; \<open>AV_Durability\<close> takes those of the file store.

  \<^bold>\<open>Interleaving.\<close> Every public method of the runtime holds one mutex, so operations of the runtime are atomic steps.
  A request of a client is one step of the server, except that an execution calls the runtime before and after the
  agent's work: it has two environments, one for each call, and other requests between them are not interleaved with it. The
  agent link, whose state several threads share, has one step per atomic access or critical section.

  \<^bold>\<open>Reads out of bounds.\<close> Where the code would read past a buffer (a field whose declared length wraps) the model has no
  value: \<open>FA_Overrun\<close> for the access and \<open>None\<close> for what is computed from it.

  \<^bold>\<open>Bounds.\<close> Loops over maps and lists are structural; the loops that are not (journal replay and the frame stream)
  are total functions with a measure, and the client's wait for a response is a partial function whose value \<open>None\<close> is
  waiting for ever; no definition uses fuel. The round trips hold within the limits of the decoder,
  which the predicates ending in \<open>fits\<close> spell out, and for payloads below \<open>2^32\<close> bytes, the width of a length field.
  Two operations have a side condition on the state (\<open>admissible\<close>): creating an accelerator needs the next sequence number
  to be unused, which fails only after \<open>2^64\<close> of them, and committing a migration needs the migrating accelerator to be
  on record.

  \<^bold>\<open>Not modelled.\<close> The calls into the operating system below \<open>FrameChannel\<close> (what they return is an argument) and the
  accept loop; the argument parsing of the coordinator and the agent; what the command line tool prints; the driver behind
  the CUDA adapter, a parameter with what is relied on as a hypothesis (\<open>copies_back\<close>); the renderings a response carries are a
  parameter of the coordinator (\<open>renderings\<close>), which \<open>AV_ServiceScenario\<close> fills with those of \<open>AV_Text\<close>; power loss beyond the
  answers of the file operations (a completed write is taken to be on disk, a replaced file to be old or new).
\<close>

end
